(* ===== verification/Prelude.thy ===== *)
theory Prelude
  imports Main "HOL-Library.AList"
begin

text \<open>
  Shared vocabulary of the development: the errors and results of the TypeScript code, the
  JavaScript values it relies on (numbers read from BigInt, arrays read by index, insertion
  ordered maps), and reachability of transition systems. Nothing here models one file of the
  repository; the lemmas are the ones the component theories share.
\<close>

section \<open>Errors and results\<close>

text \<open>
  A \<open>throw new Error(msg)\<close> of the source is \<open>Inl (Error msg)\<close>; reading a field of
  \<open>undefined\<close> is \<open>Inl (TypeError ...)\<close>; an exception raised inside a third-party library
  (ethers, the EVM, the deployed contract) is \<open>Inl (External ...)\<close>.
\<close>

datatype js_error = Error string | TypeError string | External string

type_synonym 'a res = "js_error + 'a"

fun rbind :: "'e + 'a \<Rightarrow> ('a \<Rightarrow> 'e + 'b) \<Rightarrow> 'e + 'b" where
  "rbind (Inl e) f = Inl e"
| "rbind (Inr x) f = f x"

fun rmap :: "('a \<Rightarrow> 'b) \<Rightarrow> 'e + 'a \<Rightarrow> 'e + 'b" where
  "rmap f (Inl e) = Inl e"
| "rmap f (Inr x) = Inr (f x)"

text \<open>\<open>array.map(f)\<close> and \<open>array.filter(f)\<close> with a callback that may throw.\<close>

fun mapM :: "('a \<Rightarrow> 'e + 'b) \<Rightarrow> 'a list \<Rightarrow> 'e + 'b list" where
  "mapM f [] = Inr []"
| "mapM f (x # xs) = rbind (f x) (\<lambda>y. rbind (mapM f xs) (\<lambda>ys. Inr (y # ys)))"

fun filterM :: "('a \<Rightarrow> bool res) \<Rightarrow> 'a list \<Rightarrow> 'a list res" where
  "filterM p [] = Inr []"
| "filterM p (x # xs) =
     rbind (p x) (\<lambda>b. rbind (filterM p xs) (\<lambda>ys. Inr (if b then x # ys else ys)))"

text \<open>\<open>array.some(f)\<close> stops at the first element the callback accepts.\<close>

fun someM :: "('a \<Rightarrow> bool res) \<Rightarrow> 'a list \<Rightarrow> bool res" where
  "someM p [] = Inr False"
| "someM p (x # xs) = rbind (p x) (\<lambda>b. if b then Inr True else someM p xs)"

named_theorems res_simps \<open>unfolding results that succeed\<close>

lemma rbind_Inr_iff [res_simps]: "rbind r f = Inr y \<longleftrightarrow> (\<exists>x. r = Inr x \<and> f x = Inr y)"
  by (cases r) auto

lemma rbind_Inl_iff: "rbind r f = Inl e \<longleftrightarrow> r = Inl e \<or> (\<exists>x. r = Inr x \<and> f x = Inl e)"
  by (cases r) auto

lemma rmap_Inr_iff [res_simps]: "rmap f r = Inr y \<longleftrightarrow> (\<exists>x. r = Inr x \<and> y = f x)"
  by (cases r) auto

lemma mapM_Inr_iff [res_simps]: "mapM f xs = Inr ys \<longleftrightarrow> list_all2 (\<lambda>x y. f x = Inr y) xs ys"
  by (induction xs arbitrary: ys) (auto simp: rbind_Inr_iff list_all2_Cons1)

lemma mapM_total: "(\<And>x. x \<in> set xs \<Longrightarrow> \<exists>y. f x = Inr y) \<Longrightarrow> \<exists>ys. mapM f xs = Inr ys"
proof (induction xs)
  case Nil
  then show ?case by simp
next
  case (Cons x xs)
  obtain y where "f x = Inr y" using Cons.prems [of x] by auto
  moreover obtain ys where "mapM f xs = Inr ys" using Cons by auto
  ultimately show ?case by simp
qed

lemma mapM_set: "mapM f xs = Inr ys \<Longrightarrow> set ys = {y. \<exists>x \<in> set xs. f x = Inr y}"
  by (induction xs arbitrary: ys) (auto simp: rbind_Inr_iff)

lemma mapM_append:
  "mapM f (xs @ zs) = rbind (mapM f xs) (\<lambda>ys. rbind (mapM f zs) (\<lambda>ws. Inr (ys @ ws)))"
proof (induction xs)
  case Nil
  show ?case by (cases "mapM f zs") auto
next
  case (Cons x xs)
  then show ?case by (cases "f x"; cases "mapM f xs"; cases "mapM f zs") auto
qed

lemma filterM_Inr:
  "filterM p xs = Inr ys \<Longrightarrow> ys = filter (\<lambda>x. p x = Inr True) xs \<and> (\<forall>x \<in> set xs. \<exists>b. p x = Inr b)"
  by (induction xs arbitrary: ys) (auto simp: rbind_Inr_iff)

lemma filterM_total:
  "(\<And>x. x \<in> set xs \<Longrightarrow> \<exists>b. p x = Inr b) \<Longrightarrow> filterM p xs = Inr (filter (\<lambda>x. p x = Inr True) xs)"
proof (induction xs)
  case Nil
  then show ?case by simp
next
  case (Cons x xs)
  obtain b where "p x = Inr b" using Cons.prems [of x] by auto
  with Cons show ?case by auto
qed

lemma someM_total:
  "(\<And>x. x \<in> set xs \<Longrightarrow> \<exists>b. p x = Inr b) \<Longrightarrow> someM p xs = Inr (\<exists>x \<in> set xs. p x = Inr True)"
proof (induction xs)
  case Nil
  then show ?case by simp
next
  case (Cons x xs)
  obtain b where "p x = Inr b" using Cons.prems [of x] by auto
  with Cons show ?case by (cases b) auto
qed

section \<open>Stateful code that may throw\<close>

text \<open>
  A method that changes its object and may throw is a function from the state to a result and
  the new state: the changes made before a \<open>throw\<close> stay, as in JavaScript.
\<close>

type_synonym ('e, 's, 'a) eact = "'s \<Rightarrow> ('e + 'a) \<times> 's"
type_synonym ('s, 'a) act = "(js_error, 's, 'a) eact"

definition sbind :: "('e, 's, 'a) eact \<Rightarrow> ('a \<Rightarrow> ('e, 's, 'b) eact) \<Rightarrow> ('e, 's, 'b) eact" where
  "sbind m f s = (case m s of (Inl e, s') \<Rightarrow> (Inl e, s') | (Inr x, s') \<Rightarrow> f x s')"

definition sreturn :: "'a \<Rightarrow> ('e, 's, 'a) eact" where
  "sreturn x s = (Inr x, s)"

definition sthrow :: "'e \<Rightarrow> ('e, 's, 'a) eact" where
  "sthrow e s = (Inl e, s)"

text \<open>A read-only computation that may throw, and a change that cannot.\<close>

definition sread :: "('s \<Rightarrow> 'e + 'a) \<Rightarrow> ('e, 's, 'a) eact" where
  "sread f s = (f s, s)"

definition smodify :: "('s \<Rightarrow> 's) \<Rightarrow> ('e, 's, unit) eact" where
  "smodify f s = (Inr (), f s)"

lemmas act_defs = sbind_def sreturn_def sthrow_def sread_def smodify_def

lemma sbind_Inr_iff [res_simps]:
  "sbind m f s = (Inr y, s'') \<longleftrightarrow> (\<exists>x s'. m s = (Inr x, s') \<and> f x s' = (Inr y, s''))"
  by (auto simp: sbind_def split: prod.splits sum.splits)

lemma sbind_run: "m s = (Inr x, s') \<Longrightarrow> sbind m f s = f x s'"
  by (simp add: sbind_def)

lemma sbind_throws: "m s = (Inl e, s') \<Longrightarrow> sbind m f s = (Inl e, s')"
  by (simp add: sbind_def)

lemma sread_iff [res_simps]: "sread f s = (r, s') \<longleftrightarrow> s' = s \<and> r = f s"
  by (auto simp: sread_def)

lemma sreturn_iff [res_simps]: "sreturn x s = (r, s') \<longleftrightarrow> s' = s \<and> r = Inr x"
  by (auto simp: sreturn_def)

lemma smodify_iff [res_simps]: "smodify f s = (r, s') \<longleftrightarrow> s' = f s \<and> r = Inr ()"
  by (auto simp: smodify_def)

lemma sthrow_iff [res_simps]: "sthrow e s = (r, s') \<longleftrightarrow> s' = s \<and> r = Inl e"
  by (auto simp: sthrow_def)

text \<open>
  What every step of an action keeps, the whole action keeps, whether it returns or throws.
\<close>

definition keeps :: "('s \<Rightarrow> 's \<Rightarrow> bool) \<Rightarrow> ('e, 's, 'a) eact \<Rightarrow> bool" where
  "keeps R m \<longleftrightarrow> (\<forall>s. R s (snd (m s)))"

lemma keepsD: "keeps R m \<Longrightarrow> m s = (r, s') \<Longrightarrow> R s s'"
  unfolding keeps_def by (metis snd_conv)

lemma keeps_snd: "keeps R m \<Longrightarrow> R s (snd (m s))"
  by (simp add: keeps_def)

locale preserved =
  fixes R :: "'s \<Rightarrow> 's \<Rightarrow> bool"
  assumes R_refl: "R s s" and R_trans: "R s t \<Longrightarrow> R t u \<Longrightarrow> R s u"
begin

lemma bind_res:
  assumes "keeps R m" and "\<And>s x s'. m s = (Inr x, s') \<Longrightarrow> keeps R (f x)"
  shows "keeps R (sbind m f)"
  unfolding keeps_def
proof
  fix s
  obtain r s' where m: "m s = (r, s')" by (cases "m s")
  have 1: "R s s'" using keepsD [OF assms(1) m] .
  show "R s (snd (sbind m f s))"
  proof (cases r)
    case (Inl e)
    with m 1 show ?thesis by (simp add: sbind_def)
  next
    case (Inr x)
    have "R s' (snd (f x s'))" using assms(2) m Inr by (simp add: keeps_def)
    with 1 m Inr show ?thesis by (auto simp: sbind_def intro: R_trans)
  qed
qed

lemma bind: "keeps R m \<Longrightarrow> (\<And>x. keeps R (f x)) \<Longrightarrow> keeps R (sbind m f)"
  by (rule bind_res)

lemma pure: "keeps R (sreturn x)" "keeps R (sthrow e)" "keeps R (sread g)"
  by (auto simp: keeps_def act_defs R_refl)

lemma modify: "(\<And>s. R s (f s)) \<Longrightarrow> keeps R (smodify f)"
  by (simp add: keeps_def smodify_def)

end

section \<open>Numbers\<close>

text \<open>
  A \<open>BigNumberish\<close> field holds a JavaScript number or a BigInt. \<open>===\<close> on two such
  values is equality of this datatype (a number is never \<open>===\<close> a BigInt), while \<open>==\<close> and
  \<open><\<close> compare the mathematical values.
\<close>

datatype js_num = Num nat | BigInt nat

fun num_value :: "js_num \<Rightarrow> nat" where
  "num_value (Num n) = n"
| "num_value (BigInt n) = n"

text \<open>
  \<open>Number(x)\<close> of a BigInt rounds to the nearest double: exact up to \<open>2^53\<close>, above that to
  53 significant bits, ties to even. All values are far below the overflow to infinity
  (a \<open>uint256\<close> is below \<open>2^1024\<close>).
\<close>

fun bit_length :: "nat \<Rightarrow> nat" where
  "bit_length n = (if n = 0 then 0 else Suc (bit_length (n div 2)))"

declare bit_length.simps [simp del]

definition round_double :: "nat \<Rightarrow> nat" where
  "round_double n =
     (if n \<le> 2 ^ 53 then n
      else let u = 2 ^ (bit_length n - 53); q = n div u; r = 2 * (n mod u)
           in (if r > u \<or> (r = u \<and> odd q) then Suc q else q) * u)"

fun js_Number :: "js_num \<Rightarrow> nat" where
  "js_Number (Num n) = n"
| "js_Number (BigInt n) = round_double n"

lemma round_double_exact [simp]: "n \<le> 2 ^ 53 \<Longrightarrow> round_double n = n"
  by (simp add: round_double_def)

lemma js_Number_exact: "num_value x \<le> 2 ^ 53 \<Longrightarrow> js_Number x = num_value x"
  by (cases x) simp_all

section \<open>Arrays\<close>

text \<open>\<open>xs[i]\<close> for \<open>i \<ge> 0\<close>: \<open>undefined\<close> out of range. \<open>xs.at(-1)\<close>: the last element.\<close>

definition nth_opt :: "'a list \<Rightarrow> nat \<Rightarrow> 'a option" where
  "nth_opt xs i = (if i < length xs then Some (xs ! i) else None)"

definition at_last :: "'a list \<Rightarrow> 'a option" where
  "at_last xs = (if xs = [] then None else Some (last xs))"

lemma nth_opt_Some_iff: "nth_opt xs i = Some x \<longleftrightarrow> i < length xs \<and> x = xs ! i"
  by (auto simp: nth_opt_def)

lemma nth_opt_None_iff [simp]: "nth_opt xs i = None \<longleftrightarrow> length xs \<le> i"
  by (auto simp: nth_opt_def)

lemma nth_opt_append1 [simp]: "i < length xs \<Longrightarrow> nth_opt (xs @ ys) i = nth_opt xs i"
  by (auto simp: nth_opt_def nth_append)

lemma nth_opt_snoc [simp]: "nth_opt (xs @ [y]) (length xs) = Some y"
  by (auto simp: nth_opt_def)

lemma nth_opt_update:
  "nth_opt (xs[i := y]) j = (if i = j \<and> j < length xs then Some y else nth_opt xs j)"
  by (auto simp: nth_opt_def nth_list_update)

lemma nth_opt_in_set: "nth_opt xs i = Some x \<Longrightarrow> x \<in> set xs"
  by (auto simp: nth_opt_Some_iff)

lemma at_last_eq_nth: "at_last xs = nth_opt xs (length xs - 1)"
  by (auto simp: at_last_def nth_opt_def last_conv_nth)

lemma at_last_snoc [simp]: "at_last (xs @ [y]) = Some y"
  by (simp add: at_last_def)

lemma at_last_Nil [simp]: "at_last [] = None"
  by (simp add: at_last_def)

lemma at_last_None_iff [simp]: "at_last xs = None \<longleftrightarrow> xs = []"
  by (simp add: at_last_def)

section \<open>Insertion ordered maps\<close>

text \<open>
  A JavaScript \<open>Map\<close> remembers the order in which keys were first inserted, and its
  \<open>values()\<close> come in that order; \<open>set\<close> on a present key keeps the key's place. The
  association list of \<open>HOL-Library.AList\<close> behaves the same way.
\<close>

type_synonym ('k, 'v) js_map = "('k \<times> 'v) list"

definition map_get :: "('k, 'v) js_map \<Rightarrow> 'k \<Rightarrow> 'v option" where
  "map_get m k = map_of m k"

definition map_has :: "('k, 'v) js_map \<Rightarrow> 'k \<Rightarrow> bool" where
  "map_has m k \<longleftrightarrow> k \<in> fst ` set m"

definition map_set :: "('k, 'v) js_map \<Rightarrow> 'k \<Rightarrow> 'v \<Rightarrow> ('k, 'v) js_map" where
  "map_set m k v = AList.update k v m"

definition map_delete :: "('k, 'v) js_map \<Rightarrow> 'k \<Rightarrow> ('k, 'v) js_map" where
  "map_delete m k = AList.delete k m"

definition map_values :: "('k, 'v) js_map \<Rightarrow> 'v list" where
  "map_values m = map snd m"

definition map_wf :: "('k, 'v) js_map \<Rightarrow> bool" where
  "map_wf m \<longleftrightarrow> distinct (map fst m)"

text \<open>The interface the components rely on.\<close>

locale js_map =
  fixes get :: "'m \<Rightarrow> 'k \<Rightarrow> 'v option"
    and has :: "'m \<Rightarrow> 'k \<Rightarrow> bool"
    and put :: "'m \<Rightarrow> 'k \<Rightarrow> 'v \<Rightarrow> 'm"
    and del :: "'m \<Rightarrow> 'k \<Rightarrow> 'm"
    and vals :: "'m \<Rightarrow> 'v list"
    and emp :: 'm
    and wf :: "'m \<Rightarrow> bool"
  assumes get_emp [simp]: "get emp k = None"
    and get_put: "get (put m k v) k' = (if k' = k then Some v else get m k')"
    and get_del: "get (del m k) k' = (if k' = k then None else get m k')"
    and has_get: "has m k \<longleftrightarrow> get m k \<noteq> None"
    and wf_emp: "wf emp"
    and wf_put: "wf m \<Longrightarrow> wf (put m k v)"
    and wf_del: "wf m \<Longrightarrow> wf (del m k)"
    and vals_get: "wf m \<Longrightarrow> v \<in> set (vals m) \<longleftrightarrow> (\<exists>k. get m k = Some v)"
begin

lemma get_put_same [simp]: "get (put m k v) k = Some v"
  by (simp add: get_put)

lemma get_put_other [simp]: "k' \<noteq> k \<Longrightarrow> get (put m k v) k' = get m k'"
  by (simp add: get_put)

lemma get_del_same [simp]: "get (del m k) k = None"
  by (simp add: get_del)

lemma get_del_other [simp]: "k' \<noteq> k \<Longrightarrow> get (del m k) k' = get m k'"
  by (simp add: get_del)

lemma has_put [simp]: "has (put m k v) k' \<longleftrightarrow> k' = k \<or> has m k'"
  by (simp add: has_get get_put)

lemma has_del [simp]: "has (del m k) k' \<longleftrightarrow> k' \<noteq> k \<and> has m k'"
  by (simp add: has_get get_del)

lemma vals_put: "wf m \<Longrightarrow> v \<in> set (vals (put m k v))"
  using vals_get [OF wf_put] get_put_same by blast

lemma vals_emp [simp]: "vals emp = []"
  using vals_get [OF wf_emp] by (metis get_emp last_in_set option.distinct(1))

end

lemma map_get_set [simp]: "map_get (map_set m k v) k' = (if k' = k then Some v else map_get m k')"
  by (simp add: map_get_def map_set_def update_conv')

lemma map_get_delete [simp]: "map_get (map_delete m k) k' = (if k' = k then None else map_get m k')"
  by (simp add: map_get_def map_delete_def delete_conv')

lemma map_get_Nil [simp]: "map_get [] k = None"
  by (simp add: map_get_def)

lemma map_has_get: "map_has m k \<longleftrightarrow> map_get m k \<noteq> None"
  by (auto simp: map_has_def map_get_def map_of_eq_None_iff)

lemma map_wf_simps [simp]:
  "map_wf []" "map_wf m \<Longrightarrow> map_wf (map_set m k v)" "map_wf m \<Longrightarrow> map_wf (map_delete m k)"
  by (auto simp: map_wf_def map_set_def map_delete_def distinct_update distinct_delete)

lemma map_values_get: "map_wf m \<Longrightarrow> v \<in> set (map_values m) \<longleftrightarrow> (\<exists>k. map_get m k = Some v)"
  by (force simp: map_wf_def map_values_def map_get_def)

interpretation jm: js_map map_get map_has map_set map_delete map_values "[]" map_wf
  by unfold_locales (simp_all add: map_has_get map_values_get)

section \<open>Reachable states and invariants\<close>

inductive reach :: "('s \<Rightarrow> bool) \<Rightarrow> ('s \<Rightarrow> 's \<Rightarrow> bool) \<Rightarrow> 's \<Rightarrow> bool"
  for init step where
  reach_init: "init s \<Longrightarrow> reach init step s"
| reach_step: "reach init step s \<Longrightarrow> step s t \<Longrightarrow> reach init step t"

locale invariant_system =
  fixes init :: "'s \<Rightarrow> bool" and step :: "'s \<Rightarrow> 's \<Rightarrow> bool" and inv :: "'s \<Rightarrow> bool"
  assumes inv_init: "init s \<Longrightarrow> inv s"
    and inv_step: "inv s \<Longrightarrow> step s t \<Longrightarrow> inv t"
begin

lemma inv_reach: "reach init step s \<Longrightarrow> inv s"
  by (induction rule: reach.induct) (auto intro: inv_init inv_step)

lemma inv_steps: "step\<^sup>*\<^sup>* s t \<Longrightarrow> inv s \<Longrightarrow> inv t"
  by (induction rule: rtranclp_induct) (auto intro: inv_step)

end

end
