(* ===== verification/SetUtils.thy ===== *)
theory SetUtils
  imports Prelude
begin

text \<open>
  \<open>src/utils/set.ts\<close>. A JavaScript \<open>Set\<close> iterates its elements in insertion order, so it is
  a list without repetitions; \<open>js_set_wf\<close> says so and every operation keeps it. Each loop of
  the file is one definition; the lemmas give its meaning on mathematical sets.
\<close>

type_synonym 'a js_set = "'a list"

text \<open>The \<open>Set\<close> class of the language: \<open>add\<close>, \<open>delete\<close>, \<open>has\<close>, \<open>size\<close>.\<close>

definition set_add :: "'a js_set \<Rightarrow> 'a \<Rightarrow> 'a js_set" where
  "set_add s x = (if x \<in> set s then s else s @ [x])"

definition set_delete :: "'a js_set \<Rightarrow> 'a \<Rightarrow> 'a js_set" where
  "set_delete s x = removeAll x s"

definition set_has :: "'a js_set \<Rightarrow> 'a \<Rightarrow> bool" where
  "set_has s x \<longleftrightarrow> x \<in> set s"

definition set_size :: "'a js_set \<Rightarrow> nat" where
  "set_size s = length s"

definition js_set_wf :: "'a js_set \<Rightarrow> bool" where
  "js_set_wf s \<longleftrightarrow> distinct s"

section \<open>The functions of the file\<close>

text \<open>\<open>new Set(array)\<close> adds the elements in order.\<close>

definition fromArray :: "'a list \<Rightarrow> 'a js_set" where
  "fromArray array = foldl set_add [] array"

definition toArray :: "'a js_set \<Rightarrow> 'a list" where
  "toArray s = s"

definition set_union :: "'a js_set \<Rightarrow> 'a js_set \<Rightarrow> 'a js_set" where
  "set_union setA setB = foldl set_add (fromArray setA) setB"

definition set_intersection :: "'a js_set \<Rightarrow> 'a js_set \<Rightarrow> 'a js_set" where
  "set_intersection setA setB =
     foldl (\<lambda>result elem. if set_has setB elem then set_add result elem else result) [] setA"

text \<open>The loop of \<open>difference\<close> returns as soon as nothing is left.\<close>

fun difference_loop :: "'a js_set \<Rightarrow> 'a list \<Rightarrow> 'a js_set" where
  "difference_loop result [] = result"
| "difference_loop result (elem # rest) =
     (let result' = set_delete result elem
      in if set_size result' = 0 then result' else difference_loop result' rest)"

definition set_difference :: "'a js_set \<Rightarrow> 'a js_set \<Rightarrow> 'a js_set" where
  "set_difference setA setB = difference_loop (fromArray setA) setB"

definition symmetricDifference :: "'a js_set \<Rightarrow> 'a js_set \<Rightarrow> 'a js_set" where
  "symmetricDifference setA setB =
     (let unionSet = set_union setA setB; intersectionSet = set_intersection setA setB
      in set_difference unionSet intersectionSet)"

fun isSubset :: "'a js_set \<Rightarrow> 'a js_set \<Rightarrow> bool" where
  "isSubset [] setB = True"
| "isSubset (elem # rest) setB = (if \<not> set_has setB elem then False else isSubset rest setB)"

definition isSuperset :: "'a js_set \<Rightarrow> 'a js_set \<Rightarrow> bool" where
  "isSuperset setA setB = isSubset setB setA"

text \<open>
  \<open>String(x)\<close> is the identity on the strings the code passes (addresses).
\<close>

definition stringSetFromArray :: "string list \<Rightarrow> string js_set" where
  "stringSetFromArray array = fromArray (map (\<lambda>x. x) array)"

definition excludeFromArray :: "string list \<Rightarrow> string js_set \<Rightarrow> string list" where
  "excludeFromArray source excluded = filter (\<lambda>item. \<not> set_has excluded item) source"

section \<open>Their meaning on sets\<close>

named_theorems set_spec \<open>meaning of the set operations\<close>

lemma set_set_add [simp]: "set (set_add s x) = insert x (set s)"
  by (auto simp: set_add_def)

lemma distinct_set_add [simp]: "distinct (set_add s x) = distinct s"
  by (auto simp: set_add_def)

lemma foldl_set_add:
  "set (foldl set_add s xs) = set s \<union> set xs" "distinct (foldl set_add s xs) = distinct s"
  by (induction xs arbitrary: s) auto

lemma fromArray_set [simp]: "set (fromArray xs) = set xs"
  and fromArray_distinct [simp]: "distinct (fromArray xs)"
  by (simp_all add: fromArray_def foldl_set_add)

lemma foldl_set_add_distinct:
  "distinct (s @ xs) \<Longrightarrow> foldl set_add s xs = s @ xs"
  by (induction xs arbitrary: s) (auto simp: set_add_def)

text \<open>Copying a \<open>Set\<close> with \<open>new Set([...s])\<close> keeps the order of the elements.\<close>

lemma fromArray_id: "distinct xs \<Longrightarrow> fromArray xs = xs"
  by (simp add: fromArray_def foldl_set_add_distinct)

lemma set_union_set [set_spec]: "set (set_union a b) = set a \<union> set b"
  by (simp add: set_union_def foldl_set_add)

lemma set_union_distinct: "distinct (set_union a b)"
  by (simp add: set_union_def foldl_set_add)

lemma foldl_intersection:
  "set (foldl (\<lambda>r e. if set_has b e then set_add r e else r) s a) = set s \<union> (set a \<inter> set b)"
  "distinct s \<Longrightarrow> distinct (foldl (\<lambda>r e. if set_has b e then set_add r e else r) s a)"
  by (induction a arbitrary: s) (auto simp: set_has_def)

lemma set_intersection_set [set_spec]: "set (set_intersection a b) = set a \<inter> set b"
  by (simp add: set_intersection_def foldl_intersection)

lemma set_intersection_distinct: "distinct (set_intersection a b)"
  by (simp add: set_intersection_def foldl_intersection)

text \<open>
  The early return changes nothing: once the result is empty, deleting more keeps it empty.
\<close>

lemma difference_loop_eq_filter: "difference_loop s xs = filter (\<lambda>x. x \<notin> set xs) s"
proof (induction xs arbitrary: s)
  case Nil
  show ?case by simp
next
  case (Cons x xs)
  have step: "filter (\<lambda>y. y \<notin> set (x # xs)) s = filter (\<lambda>y. y \<notin> set xs) (set_delete s x)"
    by (auto simp: set_delete_def removeAll_filter_not_eq intro: filter_cong)
  show ?case
  proof (cases "set_size (set_delete s x) = 0")
    case True
    then show ?thesis unfolding step by (simp add: set_size_def)
  next
    case False
    then show ?thesis unfolding step using Cons.IH by simp
  qed
qed

lemma set_difference_set [set_spec]: "set (set_difference a b) = set a - set b"
  by (auto simp: set_difference_def difference_loop_eq_filter)

lemma set_difference_distinct: "distinct (set_difference a b)"
  by (simp add: set_difference_def difference_loop_eq_filter)

lemma set_difference_Nil_iff: "set_difference a b = [] \<longleftrightarrow> set a \<subseteq> set b"
  using set_difference_set [of a b] by (metis Diff_eq_empty_iff set_empty)

lemma symmetricDifference_set [set_spec]:
  "set (symmetricDifference a b) = (set a - set b) \<union> (set b - set a)"
  by (auto simp: symmetricDifference_def set_spec)

lemma isSubset_iff [set_spec]: "isSubset a b \<longleftrightarrow> set a \<subseteq> set b"
  by (induction a) (auto simp: set_has_def)

lemma isSuperset_iff [set_spec]: "isSuperset a b \<longleftrightarrow> set b \<subseteq> set a"
  by (simp add: isSuperset_def isSubset_iff)

lemma stringSetFromArray_set [set_spec]: "set (stringSetFromArray xs) = set xs"
  by (simp add: stringSetFromArray_def)

lemma excludeFromArray_eq [set_spec]: "excludeFromArray xs s = filter (\<lambda>x. x \<notin> set s) xs"
  by (simp add: excludeFromArray_def set_has_def)

end
