(* ===== verification/DataTypes.thy ===== *)
theory DataTypes
  imports SetUtils
begin

text \<open>
  The data every component exchanges: the structs of \<open>contracts/V1/DataTypes.sol\<close> as typechain
  hands them to the TypeScript code, the flags and time configuration of \<open>src/types\<close>, and the
  helpers \<open>src/utils/EvmUtils.ts\<close>, \<open>src/utils/BlockUtils.ts\<close> and \<open>src/utils/timestamp.ts\<close>.
  The \<open>ethers\<close> library (ABI coder, keccak256, message signatures) is third-party code: it is the
  record \<open>ethers\<close>, the first argument of every definition that calls it.
\<close>

section \<open>Structs\<close>

type_synonym address = string
type_synonym bytes = string

record transaction_header =
  hdr_channelId :: bytes
  hdr_participant :: address
  hdr_forkCnt :: js_num
  hdr_transactionCnt :: js_num
  hdr_timestamp :: js_num

record transaction_body =
  body_transactionType :: nat
  body_encodedData :: bytes
  body_data :: bytes

record transaction =
  tx_header :: transaction_header
  tx_body :: transaction_body

record block =
  blk_transaction :: transaction
  blk_stateHash :: bytes
  blk_previousStateHash :: bytes

record signed_block =
  sb_encodedBlock :: bytes
  sb_signature :: bytes

record confirmed_block =
  cb_encodedBlock :: bytes
  cb_signatures :: "bytes list"

record join_channel =
  jc_channelId :: bytes
  jc_participant :: address
  jc_amount :: js_num
  jc_deadlineTimestamp :: js_num
  jc_data :: bytes

record signed_join_channel =
  sjc_encodedJoinChannel :: bytes
  sjc_signature :: bytes

section \<open>Flags and time configuration\<close>

datatype execution_flag =
  EF_SUCCESS | EF_NOT_READY | EF_DUPLICATE | EF_DISCONNECT | EF_DISPUTE
| EF_TIMESTAMP_IN_FUTURE | EF_NOT_ENOUGH_TIME | EF_PAST_FORK

datatype agreement_flag =
  AF_INVALID_SIGNATURE | AF_READY | AF_DUPLICATE | AF_INCORRECT_DATA | AF_DOUBLE_SIGN
| AF_NOT_READY

record time_config =
  p2pTime :: nat
  agreementTime :: nat
  chainFallbackTime :: nat
  challengeTime :: nat

section \<open>The ethers library\<close>

text \<open>
  Values of the ABI coder for the proof structs: what \<open>AbiCoder.encode\<close> takes and
  \<open>AbiCoder.decode\<close> (made a plain object by \<open>ethersResultToObjectRecursive\<close>) gives back.
  Types are the parsed type strings of \<open>src/types\<close>.
\<close>

datatype ethers_type =
  TString | TBytes | TUint
| TTuple "(string \<times> ethers_type) list"
| TArray ethers_type

datatype jsval =
  JUndefined | JStr string | JNum js_num
| JArr "jsval list"
| JObj "(string \<times> jsval) list"

record ethers =
  abiEncodeTransaction :: "transaction \<Rightarrow> bytes"
  abiDecodeTransaction :: "bytes \<Rightarrow> transaction res"
  abiEncodeBlock :: "block \<Rightarrow> bytes"
  abiDecodeBlock :: "bytes \<Rightarrow> block res"
  abiEncodeJoinChannel :: "join_channel \<Rightarrow> bytes"
  abiDecodeJoinChannel :: "bytes \<Rightarrow> join_channel res"
  abiEncode :: "ethers_type \<Rightarrow> jsval \<Rightarrow> bytes res"
  abiDecode :: "ethers_type \<Rightarrow> bytes \<Rightarrow> jsval res"
  keccak256 :: "bytes \<Rightarrow> bytes"
  getBytes :: "bytes \<Rightarrow> bytes"
  verifyMessage :: "bytes \<Rightarrow> bytes \<Rightarrow> address res"

text \<open>A \<open>Signer\<close> signs a message; it may reject.\<close>

type_synonym signer = "bytes \<Rightarrow> bytes res"

section \<open>EvmUtils\<close>

definition encodeTransaction :: "ethers \<Rightarrow> transaction \<Rightarrow> bytes" where
  "encodeTransaction E transaction = abiEncodeTransaction E transaction"

definition decodeTransaction :: "ethers \<Rightarrow> bytes \<Rightarrow> transaction res" where
  "decodeTransaction E transactionEncoded = abiDecodeTransaction E transactionEncoded"

definition signTransaction :: "ethers \<Rightarrow> signer \<Rightarrow> transaction \<Rightarrow> (bytes \<times> bytes) res" where
  "signTransaction E sign transaction =
     (let encodedTransaction = encodeTransaction E transaction;
          encodedHash = keccak256 E encodedTransaction;
          encodedHashBytes = getBytes E encodedHash
      in rmap (\<lambda>signature. (encodedTransaction, signature)) (sign encodedHashBytes))"

definition encodeBlock :: "ethers \<Rightarrow> block \<Rightarrow> bytes" where
  "encodeBlock E block = abiEncodeBlock E block"

definition decodeBlock :: "ethers \<Rightarrow> bytes \<Rightarrow> block res" where
  "decodeBlock E blockEncoded = abiDecodeBlock E blockEncoded"

definition signBlock :: "ethers \<Rightarrow> signer \<Rightarrow> block \<Rightarrow> signed_block res" where
  "signBlock E sign block =
     (let encodedBlock = encodeBlock E block;
          encodedHash = keccak256 E encodedBlock;
          encodedHashBytes = getBytes E encodedHash
      in rmap (\<lambda>signature. \<lparr>sb_encodedBlock = encodedBlock, sb_signature = signature\<rparr>)
           (sign encodedHashBytes))"

definition retrieveSignerAddressBlock :: "ethers \<Rightarrow> block \<Rightarrow> bytes \<Rightarrow> address res" where
  "retrieveSignerAddressBlock E block signature =
     (let encodedBlock = encodeBlock E block;
          encodedHash = keccak256 E encodedBlock;
          encodedHashBytes = getBytes E encodedHash
      in verifyMessage E encodedHashBytes signature)"

definition encodeJoinChannel :: "ethers \<Rightarrow> join_channel \<Rightarrow> bytes" where
  "encodeJoinChannel E jc = abiEncodeJoinChannel E jc"

definition decodeJoinChannel :: "ethers \<Rightarrow> bytes \<Rightarrow> join_channel res" where
  "decodeJoinChannel E jcEncoded = abiDecodeJoinChannel E jcEncoded"

definition signJoinChannel :: "ethers \<Rightarrow> signer \<Rightarrow> join_channel \<Rightarrow> signed_join_channel res" where
  "signJoinChannel E sign jc =
     (let encodedJoinChannel = encodeJoinChannel E jc;
          encodedHash = keccak256 E encodedJoinChannel;
          encodedHashBytes = getBytes E encodedHash
      in rmap (\<lambda>signature. \<lparr>sjc_encodedJoinChannel = encodedJoinChannel,
                             sjc_signature = signature\<rparr>)
           (sign encodedHashBytes))"

definition retrieveSignerAddressJoinChannel ::
  "ethers \<Rightarrow> join_channel \<Rightarrow> bytes \<Rightarrow> address res" where
  "retrieveSignerAddressJoinChannel E jc signature =
     (let encodedJoinChannel = encodeJoinChannel E jc;
          encodedHash = keccak256 E encodedJoinChannel;
          encodedHashBytes = getBytes E encodedHash
      in verifyMessage E encodedHashBytes signature)"

section \<open>BlockUtils\<close>

definition getHeight :: "block \<Rightarrow> nat" where
  "getHeight block = js_Number (hdr_transactionCnt (tx_header (blk_transaction block)))"

definition getFork :: "block \<Rightarrow> nat" where
  "getFork block = js_Number (hdr_forkCnt (tx_header (blk_transaction block)))"

definition getCoordinates :: "block \<Rightarrow> nat \<times> nat" where
  "getCoordinates block =
     (js_Number (hdr_forkCnt (tx_header (blk_transaction block))),
      js_Number (hdr_transactionCnt (tx_header (blk_transaction block))))"

definition getTimestamp :: "block \<Rightarrow> nat" where
  "getTimestamp block = js_Number (hdr_timestamp (tx_header (blk_transaction block)))"

definition getBlockAuthor :: "block \<Rightarrow> address" where
  "getBlockAuthor block = hdr_participant (tx_header (blk_transaction block))"

definition getBlockChannelId :: "block \<Rightarrow> bytes" where
  "getBlockChannelId block = hdr_channelId (tx_header (blk_transaction block))"

definition areBlocksEqual :: "ethers \<Rightarrow> block \<Rightarrow> block \<Rightarrow> bool" where
  "areBlocksEqual E b1 b2 \<longleftrightarrow> encodeBlock E b1 = encodeBlock E b2"

definition getSignerAddresses :: "ethers \<Rightarrow> block \<Rightarrow> bytes list \<Rightarrow> address js_set res" where
  "getSignerAddresses E block signatures =
     rmap fromArray (mapM (\<lambda>sig. retrieveSignerAddressBlock E block sig) signatures)"

text \<open>
  \<open>{ didSign, signature }\<close>: \<open>didSign\<close> is true exactly when \<open>signature\<close> is defined, so the
  pair is an optional signature.
\<close>

fun getParticipantSignature :: "ethers \<Rightarrow> block \<Rightarrow> bytes list \<Rightarrow> address \<Rightarrow> bytes option res" where
  "getParticipantSignature E block [] participant = Inr None"
| "getParticipantSignature E block (sig # signatures) participant =
     rbind (retrieveSignerAddressBlock E block sig) (\<lambda>adr.
       if adr = participant then Inr (Some sig)
       else getParticipantSignature E block signatures participant)"

section \<open>The subjective time window\<close>

definition TOLERANCE_PAST :: int where
  "TOLERANCE_PAST = 5"

definition TOLERANCE_FUTURE :: int where
  "TOLERANCE_FUTURE = 10"

definition subjectiveTimingFlag :: "nat \<Rightarrow> nat \<Rightarrow> execution_flag" where
  "subjectiveTimingFlag blockTs nowTs =
     (let diff = int nowTs - int blockTs
      in if diff > TOLERANCE_PAST then EF_NOT_ENOUGH_TIME
         else if diff < - TOLERANCE_FUTURE then EF_DISPUTE
         else EF_SUCCESS)"

section \<open>Lemmas\<close>

lemma getCoordinates_eq: "getCoordinates b = (getFork b, getHeight b)"
  by (simp add: getCoordinates_def getFork_def getHeight_def)

lemma areBlocksEqual_refl [simp]: "areBlocksEqual E b b"
  by (simp add: areBlocksEqual_def)

lemma areBlocksEqual_sym: "areBlocksEqual E a b \<Longrightarrow> areBlocksEqual E b a"
  by (simp add: areBlocksEqual_def)

text \<open>
  Signature recovery reads a block only through its encoding, so equal blocks have the same
  signers.
\<close>

lemma retrieveSigner_cong:
  "areBlocksEqual E a b \<Longrightarrow> retrieveSignerAddressBlock E a s = retrieveSignerAddressBlock E b s"
  by (simp add: areBlocksEqual_def retrieveSignerAddressBlock_def)

lemma getSignerAddresses_cong:
  "areBlocksEqual E a b \<Longrightarrow> getSignerAddresses E a ss = getSignerAddresses E b ss"
  unfolding getSignerAddresses_def using retrieveSigner_cong [of E a b] by presburger

lemma getSignerAddresses_set:
  "getSignerAddresses E b ss = Inr S \<Longrightarrow>
     set S = {a. \<exists>s \<in> set ss. retrieveSignerAddressBlock E b s = Inr a}"
  by (auto simp: getSignerAddresses_def rmap_Inr_iff mapM_set)

lemma getParticipantSignature_Some:
  "getParticipantSignature E b ss p = Inr (Some s) \<Longrightarrow>
     s \<in> set ss \<and> retrieveSignerAddressBlock E b s = Inr p"
  by (induction ss) (auto simp: rbind_Inr_iff split: if_splits)

lemma getParticipantSignature_None:
  "getParticipantSignature E b ss p = Inr None \<Longrightarrow> s \<in> set ss \<Longrightarrow>
     \<exists>a. retrieveSignerAddressBlock E b s = Inr a \<and> a \<noteq> p"
  by (induction ss) (auto simp: rbind_Inr_iff split: if_splits)

lemma getParticipantSignature_total:
  assumes "\<And>s. s \<in> set ss \<Longrightarrow> \<exists>a. retrieveSignerAddressBlock E b s = Inr a"
  shows "\<exists>r. getParticipantSignature E b ss p = Inr r"
  using assms
proof (induction ss)
  case Nil
  then show ?case by simp
next
  case (Cons s ss)
  obtain a where "retrieveSignerAddressBlock E b s = Inr a" using Cons.prems [of s] by auto
  with Cons show ?case by auto
qed

lemma subjectiveTimingFlag_cases:
  "subjectiveTimingFlag b n = EF_SUCCESS \<longleftrightarrow> n \<le> b + 5 \<and> b \<le> n + 10"
  "subjectiveTimingFlag b n = EF_NOT_ENOUGH_TIME \<longleftrightarrow> b + 5 < n"
  "subjectiveTimingFlag b n = EF_DISPUTE \<longleftrightarrow> n + 10 < b"
  by (auto simp: subjectiveTimingFlag_def Let_def TOLERANCE_PAST_def TOLERANCE_FUTURE_def
      split: if_splits)

end
