(* ===== verification/ForkService.thy ===== *)
theory ForkService
  imports DataTypes
begin

text \<open>
  \<open>src/agreementManager/ForkService.ts\<close> with the types of \<open>src/agreementManager/types.ts\<close>:
  the array of forks, each with its canonical chain of agreements and the blocks seen on chain.
  Methods carry the prefix \<open>fs_\<close>. A method that may throw returns a \<open>res\<close>; none of them
  changes the array before it throws, so the new array is part of the successful result only.
\<close>

section \<open>State\<close>

record agreement =
  ag_block :: block
  ag_blockSignatures :: "bytes list"
  ag_encodedState :: bytes

record chain_block =
  chb_transactionCnt :: nat
  chb_participantAdr :: address
  chb_timestamp :: nat

record agreement_fork =
  forkGenesisStateEncoded :: bytes
  addressesInThreshold :: "address list"
  genesisTimestamp :: nat
  chainBlocks :: "chain_block list"
  agreements :: "agreement list"

record block_confirmation =
  originalSignedBlock :: signed_block
  confirmationSignature :: bytes

type_synonym fork_service = "agreement_fork list"

datatype direction = FORWARD | BACKWARD

section \<open>Getters\<close>

text \<open>\<open>Math.max(0, this.forks.length - 1)\<close>: subtraction on \<open>nat\<close> stops at 0 by itself.\<close>

definition fs_getLatestForkCnt :: "fork_service \<Rightarrow> nat" where
  "fs_getLatestForkCnt fs = max 0 (length fs - 1)"

definition fs_getNextForkIndex :: "fork_service \<Rightarrow> nat" where
  "fs_getNextForkIndex fs = length fs"

definition fs_getNextBlockHeight :: "fork_service \<Rightarrow> nat" where
  "fs_getNextBlockHeight fs =
     (case at_last fs of None \<Rightarrow> 0 | Some fork \<Rightarrow> length (agreements fork))"

definition fs_isValidForkCnt :: "fork_service \<Rightarrow> nat \<Rightarrow> bool" where
  "fs_isValidForkCnt fs forkCnt \<longleftrightarrow> forkCnt < length fs"

definition fs_getForkGenesis :: "fork_service \<Rightarrow> nat \<Rightarrow> bytes res" where
  "fs_getForkGenesis fs forkCnt =
     (case nth_opt fs forkCnt of
        None \<Rightarrow> Inl (TypeError ''forkGenesisStateEncoded'')
      | Some fork \<Rightarrow> Inr (forkGenesisStateEncoded fork))"

definition fs_getFork :: "fork_service \<Rightarrow> nat \<Rightarrow> agreement_fork option" where
  "fs_getFork fs forkCnt = (if fs_isValidForkCnt fs forkCnt then nth_opt fs forkCnt else None)"

definition fs_getLatestFork :: "fork_service \<Rightarrow> agreement_fork option" where
  "fs_getLatestFork fs = at_last fs"

definition fs_isParticipantInLatestFork :: "fork_service \<Rightarrow> address \<Rightarrow> bool res" where
  "fs_isParticipantInLatestFork fs p =
     (case at_last fs of
        None \<Rightarrow> Inl (TypeError ''addressesInThreshold'')
      | Some fork \<Rightarrow> Inr (set_has (fromArray (addressesInThreshold fork)) p))"

definition fs_getAgreement :: "fork_service \<Rightarrow> nat \<Rightarrow> nat \<Rightarrow> agreement option" where
  "fs_getAgreement fs forkCnt txCnt =
     (if fs_isValidForkCnt fs forkCnt then nth_opt (agreements (fs ! forkCnt)) txCnt else None)"

definition fs_getBlock :: "fork_service \<Rightarrow> nat \<Rightarrow> nat \<Rightarrow> block option" where
  "fs_getBlock fs forkCnt txCnt = map_option ag_block (fs_getAgreement fs forkCnt txCnt)"

definition fs_getAgreementByBlock :: "fork_service \<Rightarrow> block \<Rightarrow> agreement option" where
  "fs_getAgreementByBlock fs block =
     (case getCoordinates block of (forkCnt, height) \<Rightarrow> fs_getAgreement fs forkCnt height)"

definition fs_getLatestAgreement :: "fork_service \<Rightarrow> nat \<Rightarrow> agreement option" where
  "fs_getLatestAgreement fs forkCnt =
     (case nth_opt fs forkCnt of None \<Rightarrow> None | Some fork \<Rightarrow> at_last (agreements fork))"

text \<open>The generator \<open>agreementsIterator\<close> as the list of what it yields.\<close>

definition fs_agreementsIterator :: "fork_service \<Rightarrow> nat \<Rightarrow> direction \<Rightarrow> agreement list" where
  "fs_agreementsIterator fs forkCnt direction =
     (if \<not> fs_isValidForkCnt fs forkCnt then []
      else case direction of
             FORWARD \<Rightarrow> agreements (fs ! forkCnt)
           | BACKWARD \<Rightarrow> rev (agreements (fs ! forkCnt)))"

definition fs_getLatestBlockTimestamp :: "fork_service \<Rightarrow> nat \<Rightarrow> nat res" where
  "fs_getLatestBlockTimestamp fs forkCnt =
     (let latestBlock = map_option ag_block (fs_getLatestAgreement fs forkCnt);
          latestTimestamp = (case latestBlock of None \<Rightarrow> 0 | Some b \<Rightarrow> getTimestamp b)
      in case nth_opt fs forkCnt of
           None \<Rightarrow> Inl (TypeError ''genesisTimestamp'')
         | Some fork \<Rightarrow> Inr (max (genesisTimestamp fork) latestTimestamp))"

section \<open>Mutators\<close>

definition fs_newFork ::
  "bytes \<Rightarrow> address list \<Rightarrow> nat \<Rightarrow> nat \<Rightarrow> fork_service \<Rightarrow> fork_service" where
  "fs_newFork genesisState addresses forkCnt timestamp fs =
     (if length fs \<noteq> forkCnt then fs
      else fs @ [\<lparr>forkGenesisStateEncoded = genesisState,
                  addressesInThreshold = addresses,
                  genesisTimestamp = timestamp,
                  chainBlocks = [],
                  agreements = []\<rparr>])"

definition fs_addAgreement :: "nat \<Rightarrow> agreement \<Rightarrow> fork_service \<Rightarrow> fork_service" where
  "fs_addAgreement forkCnt agreement fs =
     fs[forkCnt := (fs ! forkCnt)\<lparr>agreements := agreements (fs ! forkCnt) @ [agreement]\<rparr>]"

definition fs_addBlock :: "block \<Rightarrow> bytes \<Rightarrow> bytes \<Rightarrow> fork_service \<Rightarrow> fork_service res" where
  "fs_addBlock block originalSignature encodedState fs =
     (let forkCnt = getFork block
      in if \<not> fs_isValidForkCnt fs forkCnt
         then Inl (Error ''AgreementManager - addBlock - forkCnt is not correct'')
         else case fs_getAgreementByBlock fs block of
                Some _ \<Rightarrow> Inl (Error ''AgreementManager - addBlock - double sign or incorrect data'')
              | None \<Rightarrow> Inr (fs_addAgreement forkCnt
                  \<lparr>ag_block = block, ag_blockSignatures = [originalSignature],
                   ag_encodedState = encodedState\<rparr> fs))"

definition fs_addChainBlock ::
  "nat \<Rightarrow> nat \<Rightarrow> address \<Rightarrow> nat \<Rightarrow> fork_service \<Rightarrow> fork_service res" where
  "fs_addChainBlock forkCnt transactionCnt participantAdr timestamp fs =
     (if \<not> fs_isValidForkCnt fs forkCnt
      then Inl (Error ''ForkService - addChainBlock - Invalid fork count'')
      else Inr (fs[forkCnt := (fs ! forkCnt)\<lparr>chainBlocks := chainBlocks (fs ! forkCnt) @
             [\<lparr>chb_transactionCnt = transactionCnt, chb_participantAdr = participantAdr,
               chb_timestamp = timestamp\<rparr>]\<rparr>]))"

text \<open>
  \<open>agreement.blockSignatures.push(sig)\<close> in \<open>AgreementManager.confirmBlock\<close> changes the
  agreement object held by the array; on this state it is an update at its coordinates.
\<close>

definition fs_pushSignature :: "nat \<Rightarrow> nat \<Rightarrow> bytes \<Rightarrow> fork_service \<Rightarrow> fork_service" where
  "fs_pushSignature forkCnt height sig fs =
     fs[forkCnt := (fs ! forkCnt)\<lparr>agreements :=
       (agreements (fs ! forkCnt))[height :=
          (agreements (fs ! forkCnt) ! height)\<lparr>ag_blockSignatures :=
             ag_blockSignatures (agreements (fs ! forkCnt) ! height) @ [sig]\<rparr>]\<rparr>]"

section \<open>An append-only log\<close>

text \<open>
  What the rest of the program relies on: \<open>len s f\<close> entries in log \<open>f\<close>, read by position, new
  ones pushed at the end of an open log.
\<close>

locale append_log =
  fixes is_open :: "'s \<Rightarrow> nat \<Rightarrow> bool"
    and len :: "'s \<Rightarrow> nat \<Rightarrow> nat"
    and entry :: "'s \<Rightarrow> nat \<Rightarrow> nat \<Rightarrow> 'a option"
    and push :: "'s \<Rightarrow> nat \<Rightarrow> 'a \<Rightarrow> 's"
  assumes entry_iff: "entry s f i \<noteq> None \<longleftrightarrow> is_open s f \<and> i < len s f"
    and is_open_push: "is_open (push s f a) g = is_open s g"
    and entry_push: "is_open s f \<Longrightarrow>
      entry (push s f a) g i = (if g = f \<and> i = len s f then Some a else entry s g i)"
begin

lemma entry_None: "len s f \<le> i \<Longrightarrow> entry s f i = None"
  using entry_iff [of s f i] by auto

lemma entry_SomeD: "entry s f i = Some a \<Longrightarrow> is_open s f \<and> i < len s f"
  using entry_iff [of s f i] by auto

lemma entry_keep: "is_open s f \<Longrightarrow> entry s g i = Some x \<Longrightarrow> entry (push s f a) g i = Some x"
  using entry_SomeD by (fastforce simp: entry_push)

lemma len_push_same:
  assumes "is_open s f"
  shows "len (push s f a) f = Suc (len s f)"
proof -
  have "i < len (push s f a) f \<longleftrightarrow> i < Suc (len s f)" for i
    using entry_iff [of "push s f a" f i] entry_iff [of s f i] assms
    by (auto simp: entry_push is_open_push split: if_splits)
  then show ?thesis by (metis linorder_neqE_nat nat_less_le)
qed

text \<open>A property of every entry by its position, and a relation of neighbours.\<close>

lemma all_push:
  assumes "is_open s f" and "\<And>g i x. entry s g i = Some x \<Longrightarrow> P g i x" and "P f (len s f) a"
    and "entry (push s f a) g i = Some x"
  shows "P g i x"
  using assms by (auto simp: entry_push split: if_splits)

lemma linked_push:
  assumes "is_open s f"
    and "\<And>g i x y. entry s g i = Some x \<Longrightarrow> entry s g (Suc i) = Some y \<Longrightarrow> R x y"
    and "\<And>x. 0 < len s f \<Longrightarrow> entry s f (len s f - 1) = Some x \<Longrightarrow> R x a"
    and "entry (push s f a) g i = Some x" and "entry (push s f a) g (Suc i) = Some y"
  shows "R x y"
proof (cases "g = f \<and> Suc i = len s f")
  case True
  then have "y = a" and "entry s f i = Some x" using assms(1,4,5) by (auto simp: entry_push)
  moreover have "i = len s f - 1" "0 < len s f" using True by auto
  ultimately show ?thesis using assms(3) by auto
next
  case False
  then have y: "entry s g (Suc i) = Some y" using assms(1,5) by (auto simp: entry_push)
  then have "entry s g i = Some x"
    using assms(1,4) entry_SomeD [OF y] by (auto simp: entry_push split: if_splits)
  with y show ?thesis by (rule assms(2) [rotated])
qed

end

definition fs_chainLength :: "fork_service \<Rightarrow> nat \<Rightarrow> nat" where
  "fs_chainLength fs f = (if f < length fs then length (agreements (fs ! f)) else 0)"

named_theorems fs_defs \<open>definitions of the fork service\<close>

lemmas fs_getters [fs_defs] =
  fs_getLatestForkCnt_def fs_getNextForkIndex_def fs_getNextBlockHeight_def fs_isValidForkCnt_def
  fs_getFork_def fs_getLatestFork_def fs_getAgreement_def fs_getBlock_def
  fs_getAgreementByBlock_def fs_getLatestAgreement_def

interpretation fork_log: append_log
  fs_isValidForkCnt fs_chainLength fs_getAgreement "\<lambda>fs f a. fs_addAgreement f a fs"
  by unfold_locales
    (auto simp: fs_defs fs_chainLength_def fs_addAgreement_def nth_list_update nth_opt_def
      nth_append less_Suc_eq)

section \<open>Lemmas\<close>

lemma fs_getAgreementByBlock_eq:
  "fs_getAgreementByBlock fs b = fs_getAgreement fs (getFork b) (getHeight b)"
  by (simp add: fs_getAgreementByBlock_def getCoordinates_eq)

lemma length_fs_addAgreement [simp]: "length (fs_addAgreement f a fs) = length fs"
  by (simp add: fs_addAgreement_def)

lemma length_fs_pushSignature [simp]: "length (fs_pushSignature f h sig fs) = length fs"
  by (simp add: fs_pushSignature_def)

lemma fs_addBlock_Inr_iff:
  "fs_addBlock b sig st fs = Inr fs' \<longleftrightarrow>
     getFork b < length fs \<and> fs_chainLength fs (getFork b) \<le> getHeight b \<and>
     fs' = fs_addAgreement (getFork b)
             \<lparr>ag_block = b, ag_blockSignatures = [sig], ag_encodedState = st\<rparr> fs"
  by (auto simp: fs_addBlock_def fs_getAgreementByBlock_eq fs_isValidForkCnt_def
      fs_getAgreement_def fs_chainLength_def Let_def nth_opt_Some_iff split: option.splits)

lemma fs_getLatestAgreement_eq:
  "fs_getLatestAgreement fs f =
     (if 0 < fs_chainLength fs f then fs_getAgreement fs f (fs_chainLength fs f - 1) else None)"
  by (auto simp: fs_defs fs_chainLength_def nth_opt_def at_last_eq_nth split: option.splits)

lemma fs_getNextBlockHeight_eq:
  "fs_getNextBlockHeight fs = fs_chainLength fs (fs_getLatestForkCnt fs)"
  by (auto simp: fs_defs fs_chainLength_def at_last_def last_conv_nth)

lemma fs_getLatestForkCnt_valid: "fs \<noteq> [] \<Longrightarrow> fs_getLatestForkCnt fs < length fs"
  by (simp add: fs_getLatestForkCnt_def)

lemma fs_getFork_iff: "fs_getFork fs f = Some x \<longleftrightarrow> f < length fs \<and> x = fs ! f"
  by (auto simp: fs_getFork_def fs_isValidForkCnt_def nth_opt_def)

lemma fs_getAgreement_newFork:
  "fs_getAgreement fs f i = Some a \<Longrightarrow> fs_getAgreement (fs_newFork g ads n t fs) f i = Some a"
  by (auto simp: fs_defs fs_newFork_def nth_append split: if_splits)

lemma fs_getAgreement_newForkD:
  "fs_getAgreement (fs_newFork g ads n t fs) f i = Some a \<Longrightarrow> fs_getAgreement fs f i = Some a"
  by (auto simp: fs_defs fs_newFork_def nth_append nth_opt_def split: if_splits)

lemma fs_getAgreement_newFork_eq [simp]:
  "fs_getAgreement (fs_newFork g ads n t fs) f i = fs_getAgreement fs f i"
  by (metis fs_getAgreement_newFork fs_getAgreement_newForkD not_None_eq)

lemma fs_addChainBlock_getAgreement:
  "fs_addChainBlock f h p t fs = Inr fs' \<Longrightarrow> fs_getAgreement fs' g i = fs_getAgreement fs g i"
  by (auto simp: fs_addChainBlock_def fs_defs nth_list_update split: if_splits)

lemma fs_pushSignature_getAgreement:
  assumes "fs_getAgreement fs f h = Some a"
  shows "fs_getAgreement (fs_pushSignature f h sig fs) g i =
    (if g = f \<and> i = h then Some (a\<lparr>ag_blockSignatures := ag_blockSignatures a @ [sig]\<rparr>)
     else fs_getAgreement fs g i)"
  using assms
  by (auto simp: fs_pushSignature_def fs_defs nth_opt_def nth_list_update split: if_splits)

end
