(* ===== verification/QueueService.thy ===== *)
theory QueueService
  imports ForkService
begin

text \<open>
  \<open>src/agreementManager/QueueService.ts\<close>: blocks and confirmations that arrive before they can
  be used wait in nested maps fork, height, participant. Both queues share the interface
  \<open>parked_queue\<close>; methods carry the prefix \<open>qs_\<close>.
\<close>

section \<open>State and operations\<close>

type_synonym 't queue = "(nat, (nat, (address, 't) js_map) js_map) js_map"

record queue_service =
  blockQ :: "signed_block queue"
  confQ :: "block_confirmation queue"

definition qs_init :: queue_service where
  "qs_init = \<lparr>blockQ = [], confQ = []\<rparr>"

text \<open>The nested maps are objects shared by reference; each inner change is stored back here.\<close>

definition insertNestedMapWithOverwrite ::
  "'t queue \<Rightarrow> nat \<Rightarrow> nat \<Rightarrow> address \<Rightarrow> 't \<Rightarrow> 't queue" where
  "insertNestedMapWithOverwrite forkMap forkCnt height adr element =
     (let forkMap1 = (if \<not> map_has forkMap forkCnt then map_set forkMap forkCnt [] else forkMap);
          heightMap = the (map_get forkMap1 forkCnt);
          heightMap1 = (if \<not> map_has heightMap height then map_set heightMap height [] else heightMap);
          addressMap = the (map_get heightMap1 height)
      in map_set forkMap1 forkCnt
           (map_set heightMap1 height (map_set addressMap adr element)))"

text \<open>
  The common body of \<open>tryDequeueBlocks\<close> and \<open>tryDequeueConfirmations\<close>: the parked elements
  in insertion order, and the queue with the height removed.
\<close>

definition tryDequeue :: "'t queue \<Rightarrow> nat \<Rightarrow> nat \<Rightarrow> 't list \<times> 't queue" where
  "tryDequeue q forkCnt height =
     (case map_get q forkCnt of
        None \<Rightarrow> ([], q)
      | Some heightMap \<Rightarrow>
          (case map_get heightMap height of
             None \<Rightarrow> ([], q)
           | Some txMap \<Rightarrow>
               (map_values txMap, map_set q forkCnt (map_delete heightMap height))))"

definition qs_queueBlock :: "ethers \<Rightarrow> signed_block \<Rightarrow> queue_service \<Rightarrow> queue_service res" where
  "qs_queueBlock E sb qs =
     rbind (decodeBlock E (sb_encodedBlock sb)) (\<lambda>block.
       case getCoordinates block of (forkCnt, height) \<Rightarrow>
       let participant = getBlockAuthor block
       in Inr (qs\<lparr>blockQ :=
            insertNestedMapWithOverwrite (blockQ qs) forkCnt height participant sb\<rparr>))"

definition qs_tryDequeueBlocks ::
  "nat \<Rightarrow> nat \<Rightarrow> queue_service \<Rightarrow> signed_block list \<times> queue_service" where
  "qs_tryDequeueBlocks forkCnt height qs =
     (case tryDequeue (blockQ qs) forkCnt height of (sbs, q) \<Rightarrow> (sbs, qs\<lparr>blockQ := q\<rparr>))"

definition qs_queueConfirmation ::
  "ethers \<Rightarrow> block_confirmation \<Rightarrow> queue_service \<Rightarrow> queue_service res" where
  "qs_queueConfirmation E bc qs =
     rbind (decodeBlock E (sb_encodedBlock (originalSignedBlock bc))) (\<lambda>block.
       case getCoordinates block of (forkCnt, height) \<Rightarrow>
       rbind (retrieveSignerAddressBlock E block (confirmationSignature bc)) (\<lambda>confirmationSigner.
         Inr (qs\<lparr>confQ :=
           insertNestedMapWithOverwrite (confQ qs) forkCnt height confirmationSigner bc\<rparr>)))"

definition qs_tryDequeueConfirmations ::
  "nat \<Rightarrow> nat \<Rightarrow> queue_service \<Rightarrow> block_confirmation list \<times> queue_service" where
  "qs_tryDequeueConfirmations forkCnt height qs =
     (case tryDequeue (confQ qs) forkCnt height of (bcs, q) \<Rightarrow> (bcs, qs\<lparr>confQ := q\<rparr>))"

definition queue_get :: "'t queue \<Rightarrow> nat \<Rightarrow> nat \<Rightarrow> address \<Rightarrow> 't option" where
  "queue_get q forkCnt height adr =
     (case map_get q forkCnt of
        None \<Rightarrow> None
      | Some heightMap \<Rightarrow>
          (case map_get heightMap height of None \<Rightarrow> None | Some txMap \<Rightarrow> map_get txMap adr))"

definition qs_isBlockQueued :: "ethers \<Rightarrow> block \<Rightarrow> queue_service \<Rightarrow> bool" where
  "qs_isBlockQueued E block qs =
     (case getCoordinates block of (forkCnt, height) \<Rightarrow>
      case queue_get (blockQ qs) forkCnt height (getBlockAuthor block) of
        None \<Rightarrow> False
      | Some stored \<Rightarrow> sb_encodedBlock stored = encodeBlock E block)"

section \<open>The interface of a queue of parked elements\<close>

text \<open>
  An element is parked under a fork, a height and an address; parking again overwrites. Taking
  a height out returns everything parked there and leaves nothing.
\<close>

locale parked_queue =
  fixes peek :: "'q \<Rightarrow> nat \<Rightarrow> nat \<Rightarrow> address \<Rightarrow> 't option"
    and park :: "'q \<Rightarrow> nat \<Rightarrow> nat \<Rightarrow> address \<Rightarrow> 't \<Rightarrow> 'q"
    and take_out :: "'q \<Rightarrow> nat \<Rightarrow> nat \<Rightarrow> 't list \<times> 'q"
    and emp :: 'q
    and wf :: "'q \<Rightarrow> bool"
  assumes peek_emp [simp]: "peek emp f h a = None"
    and peek_park: "peek (park q f h a x) f' h' a' =
          (if f' = f \<and> h' = h \<and> a' = a then Some x else peek q f' h' a')"
    and peek_take_out: "peek (snd (take_out q f h)) f' h' a' =
          (if f' = f \<and> h' = h then None else peek q f' h' a')"
    and take_out_set: "wf q \<Longrightarrow> x \<in> set (fst (take_out q f h)) \<longleftrightarrow> (\<exists>a. peek q f h a = Some x)"
    and wf_emp: "wf emp"
    and wf_park: "wf q \<Longrightarrow> wf (park q f h a x)"
    and wf_take_out: "wf q \<Longrightarrow> wf (snd (take_out q f h))"
begin

lemma take_out_park: "wf q \<Longrightarrow> x \<in> set (fst (take_out (park q f h a x) f h))"
  using take_out_set [OF wf_park] peek_park by fastforce

lemma take_out_other:
  "wf q \<Longrightarrow> (f', h') \<noteq> (f, h) \<Longrightarrow>
     set (fst (take_out (snd (take_out q f h)) f' h')) = set (fst (take_out q f' h'))"
  by (auto simp: take_out_set wf_take_out peek_take_out)

lemma take_out_twice:
  assumes "wf q"
  shows "fst (take_out (snd (take_out q f h)) f h) = []"
proof -
  have "x \<notin> set (fst (take_out (snd (take_out q f h)) f h))" for x
    by (simp add: take_out_set [OF wf_take_out [OF assms]] peek_take_out)
  then show ?thesis by (metis last_in_set)
qed

text \<open>After any sequence of arrivals a slot holds the last element parked there.\<close>

definition park_all :: "'q \<Rightarrow> (nat \<times> nat \<times> address \<times> 't) list \<Rightarrow> 'q" where
  "park_all q xs = foldl (\<lambda>q (f, h, a, x). park q f h a x) q xs"

lemma wf_park_all: "wf q \<Longrightarrow> wf (park_all q xs)"
  unfolding park_all_def by (induction xs arbitrary: q) (auto intro: wf_park)

lemma peek_park_all:
  "peek (park_all q xs) f h a =
     (case find (\<lambda>(f', h', a', x). f' = f \<and> h' = h \<and> a' = a) (rev xs) of
        None \<Rightarrow> peek q f h a | Some (_, _, _, x) \<Rightarrow> Some x)"
proof (induction xs rule: rev_induct)
  case Nil
  then show ?case by (simp add: park_all_def)
next
  case (snoc y ys)
  obtain f' h' a' x where y: "y = (f', h', a', x)" by (cases y)
  have "park_all q (ys @ [y]) = park (park_all q ys) f' h' a' x" by (simp add: park_all_def y)
  with snoc show ?case by (auto simp: y peek_park)
qed

lemma take_out_park_all:
  assumes "wf q"
  shows "x \<in> set (fst (take_out (park_all q xs) f h)) \<longleftrightarrow>
    (\<exists>a. peek (park_all q xs) f h a = Some x)"
  by (rule take_out_set [OF wf_park_all [OF assms]])

end

section \<open>The queues provide it\<close>

definition queue_wf :: "'t queue \<Rightarrow> bool" where
  "queue_wf q \<longleftrightarrow> map_wf q \<and>
     (\<forall>f hm. map_get q f = Some hm \<longrightarrow>
        map_wf hm \<and> (\<forall>h am. map_get hm h = Some am \<longrightarrow> map_wf am))"

lemma queue_wf_Nil [simp]: "queue_wf []"
  by (simp add: queue_wf_def)

lemma queue_get_insert:
  "queue_get (insertNestedMapWithOverwrite q f h a x) f' h' a' =
     (if f' = f \<and> h' = h \<and> a' = a then Some x else queue_get q f' h' a')"
  by (auto simp: queue_get_def insertNestedMapWithOverwrite_def Let_def map_has_get
      split: option.splits)

lemma queue_get_dequeue:
  "queue_get (snd (tryDequeue q f h)) f' h' a' =
     (if f' = f \<and> h' = h then None else queue_get q f' h' a')"
  by (auto simp: queue_get_def tryDequeue_def split: option.splits)

lemma dequeue_values:
  "queue_wf q \<Longrightarrow> x \<in> set (fst (tryDequeue q f h)) \<longleftrightarrow> (\<exists>a. queue_get q f h a = Some x)"
  by (auto simp: queue_get_def tryDequeue_def queue_wf_def map_values_get split: option.splits)

lemma queue_wf_insert: "queue_wf q \<Longrightarrow> queue_wf (insertNestedMapWithOverwrite q f h a x)"
  by (auto simp: queue_wf_def insertNestedMapWithOverwrite_def Let_def map_has_get
      split: option.splits if_splits)

lemma queue_wf_dequeue: "queue_wf q \<Longrightarrow> queue_wf (snd (tryDequeue q f h))"
  by (auto simp: queue_wf_def tryDequeue_def split: option.splits if_splits)

interpretation pq: parked_queue queue_get insertNestedMapWithOverwrite tryDequeue "[]" queue_wf
  by unfold_locales
    (simp_all add: queue_get_insert queue_get_dequeue dequeue_values queue_wf_insert
      queue_wf_dequeue, simp add: queue_get_def)

definition qs_wf :: "queue_service \<Rightarrow> bool" where
  "qs_wf qs \<longleftrightarrow> queue_wf (blockQ qs) \<and> queue_wf (confQ qs)"

lemma qs_wf_init: "qs_wf qs_init"
  by (simp add: qs_wf_def qs_init_def)

lemma qs_queueBlock_Inr:
  "qs_queueBlock E sb qs = Inr qs' \<longleftrightarrow>
     (\<exists>b. decodeBlock E (sb_encodedBlock sb) = Inr b \<and>
        qs' = qs\<lparr>blockQ := insertNestedMapWithOverwrite (blockQ qs) (getFork b) (getHeight b)
                 (getBlockAuthor b) sb\<rparr>)"
  by (auto simp: qs_queueBlock_def rbind_Inr_iff getCoordinates_eq)

lemma qs_queueConfirmation_Inr:
  "qs_queueConfirmation E bc qs = Inr qs' \<longleftrightarrow>
     (\<exists>b a. decodeBlock E (sb_encodedBlock (originalSignedBlock bc)) = Inr b \<and>
        retrieveSignerAddressBlock E b (confirmationSignature bc) = Inr a \<and>
        qs' = qs\<lparr>confQ := insertNestedMapWithOverwrite (confQ qs) (getFork b) (getHeight b) a bc\<rparr>)"
  by (auto simp: qs_queueConfirmation_def rbind_Inr_iff getCoordinates_eq)

lemma qs_wf_ops:
  assumes "qs_wf qs"
  shows "qs_queueBlock E sb qs = Inr qs' \<Longrightarrow> qs_wf qs'"
    and "qs_queueConfirmation E bc qs = Inr qs' \<Longrightarrow> qs_wf qs'"
    and "qs_wf (snd (qs_tryDequeueBlocks f h qs))"
    and "qs_wf (snd (qs_tryDequeueConfirmations f h qs))"
  using assms
  by (auto simp: qs_wf_def qs_queueBlock_Inr qs_queueConfirmation_Inr qs_tryDequeueBlocks_def
      qs_tryDequeueConfirmations_def intro: queue_wf_insert
      dest: queue_wf_dequeue split: prod.splits) (metis queue_wf_dequeue snd_conv)+

end
