(* ===== verification/BlockChecks.thy ===== *)
theory BlockChecks
  imports QueueService
begin

text \<open>
  The stateless collaborators of the agreement manager: \<open>SignatureService.ts\<close> (prefix
  \<open>sig_\<close>), \<open>OnChainTracker.ts\<close> (prefix \<open>ct_\<close>) and \<open>BlockValidator.ts\<close> (prefix \<open>bv_\<close>) of
  \<open>src/agreementManager\<close>. They hold references to the fork and queue services, so their methods
  take the \<open>agreement_manager\<close> state, whose two fields are those services.
\<close>

record agreement_manager =
  forkService :: fork_service
  queueService :: queue_service

section \<open>SignatureService\<close>

definition sig_getSignerAddresses :: "ethers \<Rightarrow> agreement \<Rightarrow> address js_set res" where
  "sig_getSignerAddresses E agreement =
     getSignerAddresses E (ag_block agreement) (ag_blockSignatures agreement)"

fun sig_participantLoop :: "ethers \<Rightarrow> block \<Rightarrow> bytes list \<Rightarrow> address \<Rightarrow> bytes option res" where
  "sig_participantLoop E block [] participant = Inr None"
| "sig_participantLoop E block (sig # sigs) participant =
     rbind (retrieveSignerAddressBlock E block sig) (\<lambda>adr.
       if adr = participant then Inr (Some sig)
       else sig_participantLoop E block sigs participant)"

definition sig_getParticipantSignature :: "ethers \<Rightarrow> agreement \<Rightarrow> address \<Rightarrow> bytes option res" where
  "sig_getParticipantSignature E agreement participant =
     sig_participantLoop E (ag_block agreement) (ag_blockSignatures agreement) participant"

definition sig_doesSignatureExist :: "agreement \<Rightarrow> bytes \<Rightarrow> bool" where
  "sig_doesSignatureExist agreement target \<longleftrightarrow> target \<in> set (ag_blockSignatures agreement)"

definition sig_getParticipantsWhoDidntSign ::
  "ethers \<Rightarrow> agreement_fork \<Rightarrow> agreement \<Rightarrow> address list res" where
  "sig_getParticipantsWhoDidntSign E fork agreement =
     rmap (\<lambda>signerSet. excludeFromArray (addressesInThreshold fork) signerSet)
       (sig_getSignerAddresses E agreement)"

section \<open>OnChainTracker\<close>

fun ct_latestLoop :: "nat \<Rightarrow> nat \<Rightarrow> chain_block list \<Rightarrow> nat" where
  "ct_latestLoop maxHeight latest [] = latest"
| "ct_latestLoop maxHeight latest (cb # cbs) =
     (if chb_transactionCnt cb > maxHeight then ct_latestLoop maxHeight latest cbs
      else if chb_timestamp cb > latest then ct_latestLoop maxHeight (chb_timestamp cb) cbs
      else ct_latestLoop maxHeight latest cbs)"

definition ct_latestTimestamp :: "agreement_manager \<Rightarrow> nat \<Rightarrow> nat \<Rightarrow> nat res" where
  "ct_latestTimestamp am forkCnt maxHeight =
     (case fs_getFork (forkService am) forkCnt of
        None \<Rightarrow> Inl (Error ''OnChainTracker - fork not found'')
      | Some fork \<Rightarrow> Inr (ct_latestLoop maxHeight 0 (chainBlocks fork)))"

definition ct_hasPosted :: "agreement_manager \<Rightarrow> nat \<Rightarrow> nat \<Rightarrow> address \<Rightarrow> bool" where
  "ct_hasPosted am forkCnt height adr =
     (case fs_getFork (forkService am) forkCnt of
        None \<Rightarrow> False
      | Some fork \<Rightarrow> list_ex (\<lambda>cb. chb_transactionCnt cb = height \<and> chb_participantAdr cb = adr)
                       (chainBlocks fork))"

text \<open>
  The tracker calls whatever block checker it was given (\<open>setChecker\<close>): a parameter here. The
  queue changes before \<open>addChainBlock\<close> may throw, so the result carries the state.
\<close>

type_synonym block_checker = "agreement_manager \<Rightarrow> signed_block \<Rightarrow> agreement_flag res"

definition ct_recordPost ::
  "nat \<Rightarrow> nat \<Rightarrow> address \<Rightarrow> nat \<Rightarrow> (agreement_manager, unit) act" where
  "ct_recordPost forkCnt height participant timestamp am =
     (if \<not> ct_hasPosted am forkCnt height participant
      then case fs_addChainBlock forkCnt height participant timestamp (forkService am) of
             Inl e \<Rightarrow> (Inl e, am)
           | Inr fs \<Rightarrow> (Inr (), am\<lparr>forkService := fs\<rparr>)
      else (Inr (), am))"

definition ct_collect ::
  "ethers \<Rightarrow> block_checker \<Rightarrow> signed_block \<Rightarrow> nat \<Rightarrow> (agreement_manager, agreement_flag) act" where
  "ct_collect E checkBlock signed timestamp =
     sbind (sread (\<lambda>am. checkBlock am signed)) (\<lambda>flag.
       if flag = AF_INVALID_SIGNATURE \<or> flag = AF_INCORRECT_DATA \<or> flag = AF_DOUBLE_SIGN
       then sreturn flag
       else
         sbind (if flag = AF_READY \<or> flag = AF_NOT_READY
                then (\<lambda>am. case qs_queueBlock E signed (queueService am) of
                             Inl e \<Rightarrow> (Inl e, am)
                           | Inr qs \<Rightarrow> (Inr (), am\<lparr>queueService := qs\<rparr>))
                else sreturn ())
           (\<lambda>_. sbind (sread (\<lambda>am. decodeBlock E (sb_encodedBlock signed))) (\<lambda>blk.
              case getCoordinates blk of (forkCnt, height) \<Rightarrow>
              sbind (ct_recordPost forkCnt height (getBlockAuthor blk) timestamp)
                (\<lambda>_. sreturn flag))))"

section \<open>BlockValidator\<close>

definition bv_isBlockInChain :: "ethers \<Rightarrow> agreement_manager \<Rightarrow> block \<Rightarrow> bool" where
  "bv_isBlockInChain E am block =
     (case fs_getAgreementByBlock (forkService am) block of
        None \<Rightarrow> False
      | Some ag \<Rightarrow> areBlocksEqual E (ag_block ag) block)"

definition bv_isBlockDuplicate :: "ethers \<Rightarrow> agreement_manager \<Rightarrow> block \<Rightarrow> bool" where
  "bv_isBlockDuplicate E am block \<longleftrightarrow>
     bv_isBlockInChain E am block \<or> qs_isBlockQueued E block (queueService am)"

definition bv_latestBlockTimestamp :: "agreement_manager \<Rightarrow> nat \<Rightarrow> nat res" where
  "bv_latestBlockTimestamp am forkCnt =
     (case fs_getFork (forkService am) forkCnt of
        None \<Rightarrow> Inl (Error ''BlockValidator - fork not found'')
      | Some fork \<Rightarrow>
          (let genesis = genesisTimestamp fork;
               lastAg = fs_getLatestAgreement (forkService am) forkCnt;
               lastTs = (case lastAg of None \<Rightarrow> 0 | Some ag \<Rightarrow> getTimestamp (ag_block ag))
           in Inr (max genesis lastTs)))"

definition bv_latestRelevantTimestamp :: "agreement_manager \<Rightarrow> nat \<Rightarrow> nat \<Rightarrow> nat res" where
  "bv_latestRelevantTimestamp am forkCnt maxTxCnt =
     rbind (bv_latestBlockTimestamp am forkCnt) (\<lambda>a.
     rbind (ct_latestTimestamp am forkCnt maxTxCnt) (\<lambda>b. Inr (max a b)))"

definition bv_check :: "ethers \<Rightarrow> agreement_manager \<Rightarrow> signed_block \<Rightarrow> agreement_flag res" where
  "bv_check E am signed =
     rbind (decodeBlock E (sb_encodedBlock signed)) (\<lambda>block.
     case getCoordinates block of (forkCnt, height) \<Rightarrow>
     let participant = getBlockAuthor block; forks = forkService am in
     rbind (retrieveSignerAddressBlock E block (sb_signature signed)) (\<lambda>signer.
       if signer \<noteq> participant then Inr AF_INVALID_SIGNATURE
       else if bv_isBlockDuplicate E am block then Inr AF_DUPLICATE
       else if \<not> fs_isValidForkCnt forks forkCnt then Inr AF_NOT_READY
       else case fs_getBlock forks forkCnt height of
         Some existing \<Rightarrow>
           Inr (if getBlockAuthor existing = participant then AF_DOUBLE_SIGN else AF_INCORRECT_DATA)
       | None \<Rightarrow>
           if height = 0
           then (let expectedPrev = keccak256 E (forkGenesisStateEncoded (forks ! forkCnt))
                 in Inr (if blk_previousStateHash block = expectedPrev
                         then AF_READY else AF_INCORRECT_DATA))
           else case fs_getBlock forks forkCnt (height - 1) of
                  None \<Rightarrow> Inr AF_NOT_READY
                | Some prev \<Rightarrow>
                    Inr (if blk_stateHash prev = blk_previousStateHash block
                         then AF_READY else AF_INCORRECT_DATA)))"

section \<open>Lemmas\<close>

text \<open>\<open>SignatureService\<close> repeats the loop of \<open>BlockUtils\<close>.\<close>

lemma sig_participantLoop_eq:
  "sig_participantLoop E b ss p = getParticipantSignature E b ss p"
  by (induction ss) (simp_all cong: if_cong)

lemma sig_getParticipantSignature_eq:
  "sig_getParticipantSignature E ag p =
     getParticipantSignature E (ag_block ag) (ag_blockSignatures ag) p"
  by (simp add: sig_getParticipantSignature_def sig_participantLoop_eq)

lemma Max_insert2: "finite S \<Longrightarrow> Max (insert l (insert t S)) = Max (insert (max l t) S)"
  by (cases "S = {}") (simp_all add: max.assoc)

lemma ct_latestLoop_max:
  "ct_latestLoop m l cbs =
     Max (insert l (chb_timestamp ` {cb \<in> set cbs. chb_transactionCnt cb \<le> m}))"
proof (induction cbs arbitrary: l)
  case Nil
  show ?case by simp
next
  case (Cons cb cbs)
  define S where "S = chb_timestamp ` {c \<in> set cbs. chb_transactionCnt c \<le> m}"
  have fin: "finite S" by (simp add: S_def)
  have img: "chb_timestamp ` {c \<in> set (cb # cbs). chb_transactionCnt c \<le> m} =
      (if chb_transactionCnt cb \<le> m then insert (chb_timestamp cb) S else S)"
    by (auto simp: S_def)
  have "ct_latestLoop m l (cb # cbs) =
      ct_latestLoop m (if chb_transactionCnt cb \<le> m then max l (chb_timestamp cb) else l) cbs"
    by (simp add: max_def)
  also have "\<dots> = Max (insert (if chb_transactionCnt cb \<le> m then max l (chb_timestamp cb) else l) S)"
    unfolding S_def by (rule Cons.IH)
  also have "\<dots> = Max (insert l (if chb_transactionCnt cb \<le> m then insert (chb_timestamp cb) S else S))"
    by (simp only: Max_insert2 [OF fin] split: if_split) blast
  finally show ?case unfolding img .
qed

lemma ct_hasPosted_iff:
  "ct_hasPosted am f h a \<longleftrightarrow> f < length (forkService am) \<and>
     (\<exists>cb \<in> set (chainBlocks (forkService am ! f)).
        chb_transactionCnt cb = h \<and> chb_participantAdr cb = a)"
  by (auto simp: ct_hasPosted_def fs_getFork_def fs_isValidForkCnt_def nth_opt_def list_ex_iff)

lemma bv_isBlockInChain_iff:
  "bv_isBlockInChain E am b \<longleftrightarrow>
     (\<exists>ag. fs_getAgreement (forkService am) (getFork b) (getHeight b) = Some ag \<and>
           areBlocksEqual E (ag_block ag) b)"
  by (auto simp: bv_isBlockInChain_def fs_getAgreementByBlock_eq split: option.splits)

lemma bv_latestBlockTimestamp_eq:
  "f < length (forkService am) \<Longrightarrow>
     bv_latestBlockTimestamp am f = fs_getLatestBlockTimestamp (forkService am) f"
  by (auto simp: bv_latestBlockTimestamp_def fs_getLatestBlockTimestamp_def Let_def fs_getFork_def
      fs_isValidForkCnt_def nth_opt_def split: option.splits)

lemma bv_latestBlockTimestamp_total:
  "f < length (forkService am) \<Longrightarrow> \<exists>t. bv_latestBlockTimestamp am f = Inr t"
  by (auto simp: bv_latestBlockTimestamp_def fs_getFork_def fs_isValidForkCnt_def nth_opt_def Let_def)

text \<open>What each answer of \<open>check\<close> says.\<close>

lemma bv_check_decoded: "bv_check E am sb = Inr flag \<Longrightarrow> \<exists>b. decodeBlock E (sb_encodedBlock sb) = Inr b"
  by (auto simp: bv_check_def rbind_Inr_iff)

lemma bv_check_cases:
  assumes "bv_check E am sb = Inr flag" and "decodeBlock E (sb_encodedBlock sb) = Inr b"
  obtains (invalid) a where "flag = AF_INVALID_SIGNATURE"
      "retrieveSignerAddressBlock E b (sb_signature sb) = Inr a" "a \<noteq> getBlockAuthor b"
  | (duplicate) "flag = AF_DUPLICATE" "bv_isBlockDuplicate E am b"
  | (unknown) "flag = AF_NOT_READY" "length (forkService am) \<le> getFork b"
  | (conflict) e where "fs_getBlock (forkService am) (getFork b) (getHeight b) = Some e"
      "\<not> bv_isBlockDuplicate E am b"
      "flag = (if getBlockAuthor e = getBlockAuthor b then AF_DOUBLE_SIGN else AF_INCORRECT_DATA)"
  | (fresh) "flag \<in> {AF_READY, AF_INCORRECT_DATA, AF_NOT_READY}"
      "getFork b < length (forkService am)" "\<not> bv_isBlockDuplicate E am b"
      "fs_getBlock (forkService am) (getFork b) (getHeight b) = None"
proof -
  obtain a where a: "retrieveSignerAddressBlock E b (sb_signature sb) = Inr a"
    using assms by (auto simp: bv_check_def rbind_Inr_iff getCoordinates_eq Let_def)
  note chk = assms(1) [unfolded bv_check_def assms(2) rbind.simps Let_def getCoordinates_eq prod.case a]
  show thesis
  proof (cases "a \<noteq> getBlockAuthor b")
    case True
    with chk a show thesis by (auto intro: invalid simp: Let_def)
  next
    case False
    note a_eq = this
    show thesis
    proof (cases "bv_isBlockDuplicate E am b")
      case True
      with a_eq chk show thesis by (auto intro: duplicate simp: Let_def)
    next
      case dup: False
      show thesis
      proof (cases "getFork b < length (forkService am)")
        case False
        with a_eq dup chk show thesis by (auto intro: unknown simp: Let_def fs_isValidForkCnt_def)
      next
        case True
        with a_eq dup chk show thesis
          by (cases "fs_getBlock (forkService am) (getFork b) (getHeight b)")
            (auto intro: conflict fresh simp: Let_def fs_isValidForkCnt_def
              split: if_splits option.splits)
      qed
    qed
  qed
qed

end
