(* ===== verification/AgreementManager.thy ===== *)
theory AgreementManager
  imports BlockChecks
begin

text \<open>
  \<open>src/agreementManager/AgreementManager.ts\<close> (prefix \<open>am_\<close>): the public operations over the
  fork and queue services, what the on-chain tracker expects of its block checker, and the
  characterisation of the virtual votes collected for a dispute.
\<close>

section \<open>Canonical chain operations\<close>

definition am_init :: agreement_manager where
  "am_init = \<lparr>forkService = [], queueService = qs_init\<rparr>"

definition am_newFork ::
  "bytes \<Rightarrow> address list \<Rightarrow> nat \<Rightarrow> nat \<Rightarrow> agreement_manager \<Rightarrow> agreement_manager" where
  "am_newFork genesisState addresses forkCnt timestamp am =
     am\<lparr>forkService := fs_newFork genesisState addresses forkCnt timestamp (forkService am)\<rparr>"

definition am_addBlock ::
  "block \<Rightarrow> bytes \<Rightarrow> bytes \<Rightarrow> agreement_manager \<Rightarrow> agreement_manager res" where
  "am_addBlock block originalSignature encodedState am =
     rmap (\<lambda>fs. am\<lparr>forkService := fs\<rparr>)
       (fs_addBlock block originalSignature encodedState (forkService am))"

definition am_confirmBlock ::
  "ethers \<Rightarrow> block \<Rightarrow> bytes \<Rightarrow> agreement_manager \<Rightarrow> agreement_manager res" where
  "am_confirmBlock E block confirmationSig am =
     (case fs_getAgreementByBlock (forkService am) block of
        None \<Rightarrow> Inl (Error ''AgreementManager - confirmBlock - block doesn't exist'')
      | Some agreement \<Rightarrow>
          if \<not> areBlocksEqual E (ag_block agreement) block
          then Inl (Error ''AgreementManager - confirmBlock - conflict'')
          else if sig_doesSignatureExist agreement confirmationSig
          then Inl (Error ''AgreementManager - confirmBlock - block already confirmed'')
          else Inr (am\<lparr>forkService :=
                 fs_pushSignature (getFork block) (getHeight block) confirmationSig
                   (forkService am)\<rparr>))"

definition am_getLatestForkCnt :: "agreement_manager \<Rightarrow> nat" where
  "am_getLatestForkCnt am = fs_getLatestForkCnt (forkService am)"

definition am_getNextBlockHeight :: "agreement_manager \<Rightarrow> nat" where
  "am_getNextBlockHeight am = fs_getNextBlockHeight (forkService am)"

definition am_getBlock :: "agreement_manager \<Rightarrow> nat \<Rightarrow> nat \<Rightarrow> block option" where
  "am_getBlock am forkCnt transactionCnt =
     map_option ag_block (fs_getAgreement (forkService am) forkCnt transactionCnt)"

definition am_getDoubleSignedBlock ::
  "ethers \<Rightarrow> agreement_manager \<Rightarrow> signed_block \<Rightarrow> signed_block option res" where
  "am_getDoubleSignedBlock E am signedBlock =
     rbind (decodeBlock E (sb_encodedBlock signedBlock)) (\<lambda>block.
       case fs_getAgreementByBlock (forkService am) block of
         None \<Rightarrow> Inr None
       | Some agreement \<Rightarrow>
           if areBlocksEqual E (ag_block agreement) block \<or>
              getBlockAuthor (ag_block agreement) \<noteq> getBlockAuthor block
           then Inr None
           else rmap (map_option (\<lambda>signature.
                  \<lparr>sb_encodedBlock = encodeBlock E (ag_block agreement), sb_signature = signature\<rparr>))
                (getParticipantSignature E (ag_block agreement) (ag_blockSignatures agreement)
                  (getBlockAuthor block)))"

fun latestSignedLoop :: "ethers \<Rightarrow> address \<Rightarrow> agreement list \<Rightarrow> (block \<times> bytes) option res" where
  "latestSignedLoop E participantAdr [] = Inr None"
| "latestSignedLoop E participantAdr (agreement # rest) =
     rbind (getParticipantSignature E (ag_block agreement) (ag_blockSignatures agreement)
              participantAdr) (\<lambda>found.
       case found of
         Some signature \<Rightarrow> Inr (Some (ag_block agreement, signature))
       | None \<Rightarrow> latestSignedLoop E participantAdr rest)"

definition am_getLatestSignedBlockByParticipant ::
  "ethers \<Rightarrow> agreement_manager \<Rightarrow> nat \<Rightarrow> address \<Rightarrow> (block \<times> bytes) option res" where
  "am_getLatestSignedBlockByParticipant E am forkCnt participantAdr =
     (if \<not> fs_isValidForkCnt (forkService am) forkCnt then Inr None
      else latestSignedLoop E participantAdr
             (fs_agreementsIterator (forkService am) forkCnt BACKWARD))"

definition am_didEveryoneSignBlock :: "ethers \<Rightarrow> agreement_manager \<Rightarrow> block \<Rightarrow> bool res" where
  "am_didEveryoneSignBlock E am block =
     (let forkCnt = getFork block in
      case (fs_getAgreementByBlock (forkService am) block, fs_getFork (forkService am) forkCnt) of
        (Some agreement, Some fork) \<Rightarrow>
          if \<not> areBlocksEqual E (ag_block agreement) block then Inr False
          else rmap (\<lambda>signersSet.
                 isSubset (stringSetFromArray (addressesInThreshold fork)) signersSet)
               (getSignerAddresses E block (ag_blockSignatures agreement))
      | _ \<Rightarrow> Inr False)"

definition am_getSigantures :: "agreement_manager \<Rightarrow> block \<Rightarrow> bytes list" where
  "am_getSigantures am block =
     (case fs_getAgreementByBlock (forkService am) block of
        None \<Rightarrow> [] | Some agreement \<Rightarrow> ag_blockSignatures agreement)"

definition am_getOriginalSignature ::
  "ethers \<Rightarrow> agreement_manager \<Rightarrow> block \<Rightarrow> bytes option res" where
  "am_getOriginalSignature E am block =
     (let participant = getBlockAuthor block in
      case fs_getAgreementByBlock (forkService am) block of
        None \<Rightarrow> Inr None
      | Some agreement \<Rightarrow>
          getParticipantSignature E (ag_block agreement) (ag_blockSignatures agreement) participant)"

definition am_doesSignatureExist ::
  "ethers \<Rightarrow> agreement_manager \<Rightarrow> block \<Rightarrow> bytes \<Rightarrow> bool res" where
  "am_doesSignatureExist E am block signature =
     (case fs_getAgreementByBlock (forkService am) block of
        None \<Rightarrow> Inr False
      | Some agreement \<Rightarrow>
          if \<not> areBlocksEqual E (ag_block agreement) block
          then Inl (Error ''AgreementManager - doesSignatureExist - conflict'')
          else Inr (sig_doesSignatureExist agreement signature))"

definition am_didParticipantSign ::
  "ethers \<Rightarrow> agreement_manager \<Rightarrow> block \<Rightarrow> address \<Rightarrow> bytes option res" where
  "am_didParticipantSign E am block participant =
     (case fs_getAgreementByBlock (forkService am) block of
        None \<Rightarrow> Inr None
      | Some agreement \<Rightarrow>
          if \<not> areBlocksEqual E (ag_block agreement) block then Inr None
          else getParticipantSignature E (ag_block agreement) (ag_blockSignatures agreement)
                 participant)"

definition am_getParticipantsWhoHaventSignedBlock ::
  "ethers \<Rightarrow> agreement_manager \<Rightarrow> block \<Rightarrow> address list res" where
  "am_getParticipantsWhoHaventSignedBlock E am block =
     (let forkCnt = getFork block in
      case (fs_getFork (forkService am) forkCnt, fs_getAgreementByBlock (forkService am) block) of
        (Some fork, Some agreement) \<Rightarrow> sig_getParticipantsWhoDidntSign E fork agreement
      | _ \<Rightarrow> Inr [])"

definition am_isParticipantInLatestFork :: "agreement_manager \<Rightarrow> address \<Rightarrow> bool" where
  "am_isParticipantInLatestFork am participant =
     (case fs_getLatestFork (forkService am) of
        None \<Rightarrow> False
      | Some fork \<Rightarrow> set_has (fromArray (addressesInThreshold fork)) participant)"

definition am_getEncodedState :: "agreement_manager \<Rightarrow> nat \<Rightarrow> nat \<Rightarrow> bytes option" where
  "am_getEncodedState am forkCnt transactionCnt =
     map_option ag_encodedState (fs_getAgreement (forkService am) forkCnt transactionCnt)"

definition am_getForkGenesisStateEncoded :: "agreement_manager \<Rightarrow> nat \<Rightarrow> bytes option" where
  "am_getForkGenesisStateEncoded am forkCnt =
     map_option forkGenesisStateEncoded (fs_getFork (forkService am) forkCnt)"

section \<open>Virtual votes\<close>

text \<open>
  \<open>getFinalizedAndLatestWithVotes\<close> walks the chain backwards. An empty string is falsy, so
  \<open>!encodedLatestCorrectState\<close> holds of \<open>undefined\<close> and of the empty string.
\<close>

definition truthy :: "bytes option \<Rightarrow> bool" where
  "truthy s \<longleftrightarrow> s \<noteq> None \<and> s \<noteq> Some ''''"

record votes =
  v_finalized :: "bytes option"
  v_correct :: "bytes option"
  v_blocks :: "confirmed_block list"
  v_required :: "address js_set"

definition confirmed_of :: "ethers \<Rightarrow> agreement \<Rightarrow> confirmed_block" where
  "confirmed_of E agreement =
     \<lparr>cb_encodedBlock = encodeBlock E (ag_block agreement),
      cb_signatures = ag_blockSignatures agreement\<rparr>"

fun votesLoop :: "ethers \<Rightarrow> address \<Rightarrow> agreement list \<Rightarrow> votes \<Rightarrow> votes res" where
  "votesLoop E signerAddress [] v = Inr v"
| "votesLoop E signerAddress (agreement # rest) v =
     rbind (getSignerAddresses E (ag_block agreement) (ag_blockSignatures agreement))
       (\<lambda>signers.
          let correct = (if \<not> truthy (v_correct v) \<and> set_has signers signerAddress
                         then Some (ag_encodedState agreement) else v_correct v)
          in if \<not> truthy correct
             then votesLoop E signerAddress rest (v\<lparr>v_correct := correct\<rparr>)
             else (let blocks = confirmed_of E agreement # v_blocks v;
                       required = set_difference (v_required v) signers
                   in if set_size required = 0
                      then Inr \<lparr>v_finalized = Some (ag_encodedState agreement),
                                v_correct = correct, v_blocks = blocks, v_required = required\<rparr>
                      else votesLoop E signerAddress rest
                             (v\<lparr>v_correct := correct, v_blocks := blocks, v_required := required\<rparr>)))"

record dispute_votes =
  encodedLatestFinalizedState :: bytes
  encodedLatestCorrectState :: bytes
  virtualVotingBlocks :: "confirmed_block list"

definition am_getFinalizedAndLatestWithVotes ::
  "ethers \<Rightarrow> agreement_manager \<Rightarrow> js_num \<Rightarrow> address \<Rightarrow> dispute_votes res" where
  "am_getFinalizedAndLatestWithVotes E am forkCnt signerAddress =
     (case fs_getFork (forkService am) (js_Number forkCnt) of
        None \<Rightarrow> Inl (Error ''AgreementManager - getFinalizedAndLatestWithVotes - fork not found'')
      | Some fork \<Rightarrow>
          rmap (\<lambda>v. \<lparr>encodedLatestFinalizedState =
                        (case v_finalized v of None \<Rightarrow> forkGenesisStateEncoded fork | Some s \<Rightarrow> s),
                      encodedLatestCorrectState =
                        (case v_correct v of None \<Rightarrow> forkGenesisStateEncoded fork | Some s \<Rightarrow> s),
                      virtualVotingBlocks = v_blocks v\<rparr>)
            (votesLoop E signerAddress
               (fs_agreementsIterator (forkService am) (num_value forkCnt) BACKWARD)
               \<lparr>v_finalized = None, v_correct = None, v_blocks = [],
                v_required = fromArray (addressesInThreshold fork)\<rparr>))"

section \<open>On-chain blocks, queues and helpers\<close>

text \<open>The constructor hands the validator's \<open>check\<close> to the tracker.\<close>

definition am_collectOnChainBlock ::
  "ethers \<Rightarrow> signed_block \<Rightarrow> nat \<Rightarrow> (agreement_manager, agreement_flag) act" where
  "am_collectOnChainBlock E signedBlock timestamp =
     ct_collect E (bv_check E) signedBlock timestamp"

definition am_getChainLatestBlockTimestamp :: "agreement_manager \<Rightarrow> nat \<Rightarrow> nat \<Rightarrow> nat res" where
  "am_getChainLatestBlockTimestamp am forkCnt maxTransactionCnt =
     ct_latestTimestamp am forkCnt maxTransactionCnt"

definition am_didParticipantPostOnChain :: "agreement_manager \<Rightarrow> nat \<Rightarrow> nat \<Rightarrow> address \<Rightarrow> bool" where
  "am_didParticipantPostOnChain am forkCnt transactionCnt participantAddres =
     ct_hasPosted am forkCnt transactionCnt participantAddres"

definition am_queueBlock :: "ethers \<Rightarrow> signed_block \<Rightarrow> agreement_manager \<Rightarrow> agreement_manager res" where
  "am_queueBlock E signedBlock am =
     rmap (\<lambda>qs. am\<lparr>queueService := qs\<rparr>) (qs_queueBlock E signedBlock (queueService am))"

definition am_tryDequeueBlocks ::
  "nat \<Rightarrow> nat \<Rightarrow> agreement_manager \<Rightarrow> signed_block list \<times> agreement_manager" where
  "am_tryDequeueBlocks forkCnt transactionCnt am =
     (case qs_tryDequeueBlocks forkCnt transactionCnt (queueService am) of
        (sbs, qs) \<Rightarrow> (sbs, am\<lparr>queueService := qs\<rparr>))"

definition am_queueConfirmation ::
  "ethers \<Rightarrow> block_confirmation \<Rightarrow> agreement_manager \<Rightarrow> agreement_manager res" where
  "am_queueConfirmation E bc am =
     rmap (\<lambda>qs. am\<lparr>queueService := qs\<rparr>) (qs_queueConfirmation E bc (queueService am))"

definition am_tryDequeueConfirmations ::
  "nat \<Rightarrow> nat \<Rightarrow> agreement_manager \<Rightarrow> block_confirmation list \<times> agreement_manager" where
  "am_tryDequeueConfirmations forkCnt transactionCnt am =
     (case qs_tryDequeueConfirmations forkCnt transactionCnt (queueService am) of
        (bcs, qs) \<Rightarrow> (bcs, am\<lparr>queueService := qs\<rparr>))"

definition am_isBlockInChain :: "ethers \<Rightarrow> agreement_manager \<Rightarrow> block \<Rightarrow> bool" where
  "am_isBlockInChain E am block = bv_isBlockInChain E am block"

definition am_isBlockDuplicate :: "ethers \<Rightarrow> agreement_manager \<Rightarrow> block \<Rightarrow> bool" where
  "am_isBlockDuplicate E am block = bv_isBlockDuplicate E am block"

definition am_checkBlock :: "ethers \<Rightarrow> agreement_manager \<Rightarrow> signed_block \<Rightarrow> agreement_flag res" where
  "am_checkBlock E am signedBlock = bv_check E am signedBlock"

definition am_getLatestBlockTimestamp :: "agreement_manager \<Rightarrow> nat \<Rightarrow> nat res" where
  "am_getLatestBlockTimestamp am forkCnt = bv_latestBlockTimestamp am forkCnt"

definition am_getLatestTimestamp :: "agreement_manager \<Rightarrow> nat \<Rightarrow> nat \<Rightarrow> nat res" where
  "am_getLatestTimestamp am forkCnt maxTxCnt = bv_latestRelevantTimestamp am forkCnt maxTxCnt"

lemmas am_forwarders [simp] =
  am_isBlockInChain_def am_isBlockDuplicate_def am_checkBlock_def am_getLatestBlockTimestamp_def
  am_getLatestTimestamp_def am_didParticipantPostOnChain_def am_getChainLatestBlockTimestamp_def

end
