(* ===== verification/ChainFacts.thy ===== *)
theory ChainFacts
  imports AgreementManager
begin

text \<open>
  What the operations of the agreement manager do to the canonical chains. \<open>chain_le\<close> says that
  a later manager extends an earlier one: no fork and no agreement disappears, an agreement
  keeps its block and its state, signatures are only appended. \<open>same_chains\<close> says moreover that
  no block was added to a fork that existed.
\<close>

section \<open>Extension\<close>

definition agreement_le :: "agreement \<Rightarrow> agreement \<Rightarrow> bool" where
  "agreement_le a b \<longleftrightarrow> ag_block b = ag_block a \<and> ag_encodedState b = ag_encodedState a \<and>
     (\<exists>sigs. ag_blockSignatures b = ag_blockSignatures a @ sigs)"

definition fork_le :: "agreement_fork \<Rightarrow> agreement_fork \<Rightarrow> bool" where
  "fork_le x y \<longleftrightarrow> forkGenesisStateEncoded y = forkGenesisStateEncoded x \<and>
     addressesInThreshold y = addressesInThreshold x \<and> genesisTimestamp y = genesisTimestamp x \<and>
     (\<exists>cbs. chainBlocks y = chainBlocks x @ cbs) \<and>
     length (agreements x) \<le> length (agreements y) \<and>
     (\<forall>i < length (agreements x). agreement_le (agreements x ! i) (agreements y ! i))"

definition chain_le :: "agreement_manager \<Rightarrow> agreement_manager \<Rightarrow> bool" where
  "chain_le am am' \<longleftrightarrow> length (forkService am) \<le> length (forkService am') \<and>
     (\<forall>f < length (forkService am). fork_le (forkService am ! f) (forkService am' ! f))"

definition same_chains :: "agreement_manager \<Rightarrow> agreement_manager \<Rightarrow> bool" where
  "same_chains am am' \<longleftrightarrow> chain_le am am' \<and>
     (\<forall>f < length (forkService am').
        fs_chainLength (forkService am') f = fs_chainLength (forkService am) f)"

lemma agreement_le_refl [simp]: "agreement_le a a"
  by (simp add: agreement_le_def)

lemma agreement_le_trans: "agreement_le a b \<Longrightarrow> agreement_le b c \<Longrightarrow> agreement_le a c"
  by (auto simp: agreement_le_def)

lemma fork_le_refl [simp]: "fork_le x x"
  by (simp add: fork_le_def)

lemma fork_le_trans: "fork_le x y \<Longrightarrow> fork_le y z \<Longrightarrow> fork_le x z"
  unfolding fork_le_def
  by (elim conjE exE, intro conjI) (auto intro: agreement_le_trans order.strict_trans2)

lemma chain_le_refl [simp]: "chain_le am am"
  by (simp add: chain_le_def)

lemma chain_le_trans: "chain_le a b \<Longrightarrow> chain_le b c \<Longrightarrow> chain_le a c"
  unfolding chain_le_def by (meson fork_le_trans le_trans order.strict_trans2)

lemma same_chains_refl [simp]: "same_chains am am"
  by (simp add: same_chains_def)

lemma same_chains_trans:
  assumes "same_chains a b" and "same_chains b c"
  shows "same_chains a c"
  unfolding same_chains_def
proof (intro conjI allI impI)
  have ab: "chain_le a b" and bc: "chain_le b c" using assms by (auto simp: same_chains_def)
  show "chain_le a c" using chain_le_trans [OF ab bc] .
  fix f
  assume "f < length (forkService c)"
  with assms(2) have "fs_chainLength (forkService c) f = fs_chainLength (forkService b) f"
    by (simp add: same_chains_def)
  also have "\<dots> = fs_chainLength (forkService a) f"
  proof (cases "f < length (forkService b)")
    case True
    with assms(1) show ?thesis by (simp add: same_chains_def)
  next
    case False
    with ab show ?thesis by (simp add: fs_chainLength_def chain_le_def)
  qed
  finally show "fs_chainLength (forkService c) f = fs_chainLength (forkService a) f" .
qed

lemma same_chains_le: "same_chains a b \<Longrightarrow> chain_le a b"
  by (simp add: same_chains_def)

lemma chain_leI_forks:
  "forkService am' = forkService am \<Longrightarrow> chain_le am am'"
  by (simp add: chain_le_def)

lemma same_chainsI_forks:
  "forkService am' = forkService am \<Longrightarrow> same_chains am am'"
  by (simp add: same_chains_def chain_leI_forks)

lemma chain_le_length: "chain_le am am' \<Longrightarrow> fs_chainLength (forkService am) f \<le> fs_chainLength (forkService am') f"
  by (auto simp: chain_le_def fork_le_def fs_chainLength_def)

lemma chain_le_agreement:
  assumes "chain_le am am'" and "fs_getAgreement (forkService am) f i = Some a"
  shows "\<exists>a'. fs_getAgreement (forkService am') f i = Some a' \<and> agreement_le a a'"
  using assms by (auto simp: chain_le_def fork_le_def fs_defs nth_opt_def split: if_splits)

section \<open>The operations extend\<close>

lemma chain_le_forks_update:
  assumes "f < length (forkService am)" and "fork_le (forkService am ! f) x"
  shows "chain_le am (am\<lparr>forkService := (forkService am)[f := x]\<rparr>)"
  using assms by (auto simp: chain_le_def nth_list_update)

lemma same_chains_forks_update:
  assumes "f < length (forkService am)" and "fork_le (forkService am ! f) x"
    and "length (agreements x) = length (agreements (forkService am ! f))"
  shows "same_chains am (am\<lparr>forkService := (forkService am)[f := x]\<rparr>)"
  using assms chain_le_forks_update [OF assms(1,2)]
  by (auto simp: same_chains_def fs_chainLength_def nth_list_update)

lemma same_chains_newFork: "same_chains am (am_newFork g ads n t am)"
  by (auto simp: same_chains_def chain_le_def am_newFork_def fs_newFork_def nth_append
      fs_chainLength_def less_Suc_eq)

lemma chain_le_addAgreement:
  assumes "f < length (forkService am)"
  shows "chain_le am (am\<lparr>forkService := fs_addAgreement f a (forkService am)\<rparr>)"
  unfolding fs_addAgreement_def using assms
  by (intro chain_le_forks_update) (auto simp: fork_le_def nth_append)

lemma am_addBlock_Inr:
  "am_addBlock b sig st am = Inr am' \<longleftrightarrow>
     getFork b < length (forkService am) \<and>
     fs_chainLength (forkService am) (getFork b) \<le> getHeight b \<and>
     am' = am\<lparr>forkService := fs_addAgreement (getFork b)
              \<lparr>ag_block = b, ag_blockSignatures = [sig], ag_encodedState = st\<rparr> (forkService am)\<rparr>"
  by (auto simp: am_addBlock_def rmap_Inr_iff fs_addBlock_Inr_iff)

lemma chain_le_addBlock: "am_addBlock b sig st am = Inr am' \<Longrightarrow> chain_le am am'"
  by (auto simp: am_addBlock_Inr intro: chain_le_addAgreement)

lemma am_confirmBlock_Inr:
  "am_confirmBlock E b sig am = Inr am' \<longleftrightarrow>
     (\<exists>a. fs_getAgreement (forkService am) (getFork b) (getHeight b) = Some a \<and>
        areBlocksEqual E (ag_block a) b \<and> sig \<notin> set (ag_blockSignatures a) \<and>
        am' = am\<lparr>forkService :=
          fs_pushSignature (getFork b) (getHeight b) sig (forkService am)\<rparr>)"
  by (auto simp: am_confirmBlock_def fs_getAgreementByBlock_eq sig_doesSignatureExist_def
      split: option.splits)

lemma fs_getAgreement_SomeD:
  "fs_getAgreement fs f i = Some a \<Longrightarrow>
     f < length fs \<and> i < length (agreements (fs ! f)) \<and> a = agreements (fs ! f) ! i"
  by (auto simp: fs_defs nth_opt_Some_iff split: if_splits)

lemma same_chains_confirmBlock:
  "am_confirmBlock E b sig am = Inr am' \<Longrightarrow> same_chains am am'"
  unfolding am_confirmBlock_Inr fs_pushSignature_def
  by (auto dest!: fs_getAgreement_SomeD intro!: same_chains_forks_update
      simp: fork_le_def nth_list_update agreement_le_def)

lemma same_chains_queueBlock: "am_queueBlock E sb am = Inr am' \<Longrightarrow> same_chains am am'"
  by (auto simp: am_queueBlock_def rmap_Inr_iff intro: same_chainsI_forks)

lemma same_chains_queueConfirmation:
  "am_queueConfirmation E bc am = Inr am' \<Longrightarrow> same_chains am am'"
  by (auto simp: am_queueConfirmation_def rmap_Inr_iff intro: same_chainsI_forks)

lemma same_chains_dequeue:
  "am_tryDequeueBlocks f h am = (sbs, am') \<Longrightarrow> same_chains am am'"
  "am_tryDequeueConfirmations f h am = (bcs, am') \<Longrightarrow> same_chains am am'"
  by (auto simp: am_tryDequeueBlocks_def am_tryDequeueConfirmations_def
      intro: same_chainsI_forks split: prod.splits)

interpretation scp: preserved same_chains
  by unfold_locales (auto intro: same_chains_trans)

lemma same_chains_recordPost: "keeps same_chains (ct_recordPost f h p t)"
proof -
  have "same_chains am (am\<lparr>forkService := fs\<rparr>)"
    if "fs_addChainBlock f h p t (forkService am) = Inr fs" for am fs
    using that
    by (auto simp: fs_addChainBlock_def fs_isValidForkCnt_def fork_le_def split: if_splits
        intro!: same_chains_forks_update)
  then show ?thesis by (auto simp: keeps_def ct_recordPost_def split: sum.split)
qed

lemma same_chains_collect: "keeps same_chains (am_collectOnChainBlock E sb t)"
proof -
  have q: "keeps same_chains (\<lambda>am. case qs_queueBlock E sb (queueService am) of
      Inl e \<Rightarrow> (Inl e, am) | Inr qs \<Rightarrow> (Inr (), am\<lparr>queueService := qs\<rparr>))"
    by (auto simp: keeps_def intro: same_chainsI_forks split: sum.split)
  show ?thesis
    unfolding am_collectOnChainBlock_def ct_collect_def
    by (auto intro!: scp.bind scp.pure q same_chains_recordPost split: prod.split)
qed

section \<open>Positions\<close>

text \<open>
  The block stored at place \<open>i\<close> of fork \<open>f\<close> is a block of that fork and height, with at least
  one signature. \<open>AgreementManager\<close> itself does not enforce this: \<open>addBlock\<close> pushes at the end
  of the fork's array whatever height the block names, as long as that place is empty.
\<close>

definition agreement_at :: "nat \<Rightarrow> nat \<Rightarrow> agreement \<Rightarrow> bool" where
  "agreement_at f i a \<longleftrightarrow> getFork (ag_block a) = f \<and> getHeight (ag_block a) = i \<and>
     ag_blockSignatures a \<noteq> []"

definition chain_ok :: "agreement_manager \<Rightarrow> bool" where
  "chain_ok am \<longleftrightarrow>
     (\<forall>f i a. fs_getAgreement (forkService am) f i = Some a \<longrightarrow> agreement_at f i a)"

lemma chain_ok_init: "chain_ok am_init"
  by (simp add: chain_ok_def am_init_def fs_defs)

lemma chain_okD: "chain_ok am \<Longrightarrow> fs_getAgreement (forkService am) f i = Some a \<Longrightarrow> agreement_at f i a"
  by (simp add: chain_ok_def)

lemma agreement_at_le: "agreement_at f i a \<Longrightarrow> agreement_le a b \<Longrightarrow> agreement_at f i b"
  by (auto simp: agreement_at_def agreement_le_def)

lemma chain_ok_same:
  assumes "same_chains am am'" and "chain_ok am"
  shows "chain_ok am'"
  unfolding chain_ok_def
proof (intro allI impI)
  fix f i a'
  assume a': "fs_getAgreement (forkService am') f i = Some a'"
  then have "f < length (forkService am')" "i < fs_chainLength (forkService am') f"
    by (auto dest: fs_getAgreement_SomeD simp: fs_chainLength_def)
  then have "i < fs_chainLength (forkService am) f" using assms(1) by (simp add: same_chains_def)
  then obtain a where a: "fs_getAgreement (forkService am) f i = Some a"
    by (cases "f < length (forkService am)") (auto simp: fs_defs fs_chainLength_def nth_opt_def)
  obtain b where "fs_getAgreement (forkService am') f i = Some b" "agreement_le a b"
    using chain_le_agreement [OF same_chains_le [OF assms(1)] a] by auto
  with a' chain_okD [OF assms(2) a] show "agreement_at f i a'" using agreement_at_le by auto
qed

lemma chain_ok_addBlock:
  assumes "chain_ok am" and "am_addBlock b sig st am = Inr am'"
    and "getHeight b \<le> fs_chainLength (forkService am) (getFork b)"
  shows "chain_ok am'"
proof -
  let ?a = "\<lparr>ag_block = b, ag_blockSignatures = [sig], ag_encodedState = st\<rparr>"
  have ok: "fs_isValidForkCnt (forkService am) (getFork b)"
    and am': "forkService am' = fs_addAgreement (getFork b) ?a (forkService am)"
    and h: "getHeight b = fs_chainLength (forkService am) (getFork b)"
    using assms(2,3) by (auto simp: am_addBlock_Inr fs_isValidForkCnt_def)
  have "agreement_at f i a" if "fs_getAgreement (forkService am') f i = Some a" for f i a
  proof (rule fork_log.all_push [OF ok, of agreement_at ?a f i a])
    show "fs_getAgreement (fs_addAgreement (getFork b) ?a (forkService am)) f i = Some a"
      using that am' by simp
  qed (auto dest: chain_okD [OF assms(1)] simp: agreement_at_def h)
  then show ?thesis by (simp add: chain_ok_def)
qed

end
