(* ===== verification/AgreementFacts.thy ===== *)
theory AgreementFacts
  imports ChainFacts
begin

text \<open>
  What the queries of the agreement manager answer: who signed, double signs, the latest block
  of a participant, block checks as specifications on the stored chain, and the window of
  virtual votes collected for a dispute.
\<close>

section \<open>Who signed\<close>

text \<open>The signers of an agreement whose signatures all recover.\<close>

definition signers_of :: "ethers \<Rightarrow> agreement \<Rightarrow> address set" where
  "signers_of E ag =
     {a. \<exists>s \<in> set (ag_blockSignatures ag). retrieveSignerAddressBlock E (ag_block ag) s = Inr a}"

definition recoverable :: "ethers \<Rightarrow> agreement \<Rightarrow> bool" where
  "recoverable E ag \<longleftrightarrow> (\<forall>s \<in> set (ag_blockSignatures ag).
     \<exists>a. retrieveSignerAddressBlock E (ag_block ag) s = Inr a)"

lemma getSignerAddresses_recoverable:
  assumes "recoverable E ag"
  obtains S where "getSignerAddresses E (ag_block ag) (ag_blockSignatures ag) = Inr S"
    "set S = signers_of E ag"
proof -
  obtain ys where "mapM (retrieveSignerAddressBlock E (ag_block ag)) (ag_blockSignatures ag) = Inr ys"
    using mapM_total [of "ag_blockSignatures ag" "retrieveSignerAddressBlock E (ag_block ag)"] assms
    by (auto simp: recoverable_def)
  then have "getSignerAddresses E (ag_block ag) (ag_blockSignatures ag) = Inr (fromArray ys)"
    by (simp add: getSignerAddresses_def)
  with getSignerAddresses_set [OF this] that show thesis by (auto simp: signers_of_def)
qed

lemma everyone_iff:
  assumes "fs_getAgreement (forkService am) (getFork b) (getHeight b) = Some a"
    and "recoverable E a"
  shows "am_didEveryoneSignBlock E am b = Inr True \<longleftrightarrow>
    areBlocksEqual E (ag_block a) b \<and>
    set (addressesInThreshold (forkService am ! getFork b)) \<subseteq> signers_of E a"
proof -
  obtain S where S: "getSignerAddresses E (ag_block a) (ag_blockSignatures a) = Inr S"
    "set S = signers_of E a" by (rule getSignerAddresses_recoverable [OF assms(2)])
  have "fs_getFork (forkService am) (getFork b) = Some (forkService am ! getFork b)"
    using fs_getAgreement_SomeD [OF assms(1)] by (simp add: fs_getFork_iff)
  note fork = this
  show ?thesis
  proof (cases "areBlocksEqual E (ag_block a) b")
    case True
    then have "getSignerAddresses E b (ag_blockSignatures a) = Inr S"
      using S(1) getSignerAddresses_cong [of E "ag_block a" b] by simp
    with True fork assms(1) S(2) show ?thesis
      by (simp add: am_didEveryoneSignBlock_def fs_getAgreementByBlock_eq set_spec)
  next
    case False
    with fork assms(1) show ?thesis
      by (simp add: am_didEveryoneSignBlock_def fs_getAgreementByBlock_eq)
  qed
qed

lemma recoverable_mono: "agreement_le a b \<Longrightarrow> recoverable E b \<Longrightarrow> recoverable E a"
  by (auto simp: agreement_le_def recoverable_def)

lemma signers_of_mono: "agreement_le a b \<Longrightarrow> signers_of E a \<subseteq> signers_of E b"
  by (auto simp: agreement_le_def signers_of_def)

lemma getParticipantSignature_iff:
  assumes "recoverable E ag"
  shows "\<exists>r. getParticipantSignature E (ag_block ag) (ag_blockSignatures ag) p = Inr r \<and>
    (r \<noteq> None \<longleftrightarrow> p \<in> signers_of E ag)"
proof -
  obtain r where r: "getParticipantSignature E (ag_block ag) (ag_blockSignatures ag) p = Inr r"
    using getParticipantSignature_total [of "ag_blockSignatures ag" E "ag_block ag" p] assms
    by (auto simp: recoverable_def)
  have "r \<noteq> None \<longleftrightarrow> p \<in> signers_of E ag"
  proof (cases r)
    case None
    with r getParticipantSignature_None [of E "ag_block ag" "ag_blockSignatures ag" p] show ?thesis
      by (fastforce simp: signers_of_def)
  next
    case (Some s)
    with r getParticipantSignature_Some [of E "ag_block ag" "ag_blockSignatures ag" p s] show ?thesis
      by (auto simp: signers_of_def)
  qed
  with r show ?thesis by blast
qed

section \<open>The window of virtual votes\<close>

text \<open>
  \<open>covers E R xs\<close>: the participants still required are all among the signers of \<open>xs\<close>. The loop
  goes backwards, so its list starts with the newest agreement.
\<close>

definition covers :: "ethers \<Rightarrow> address set \<Rightarrow> agreement list \<Rightarrow> bool" where
  "covers E R xs \<longleftrightarrow> R \<subseteq> (\<Union>a \<in> set xs. signers_of E a)"

lemma covers_Cons: "covers E R (a # xs) \<longleftrightarrow> covers E (R - signers_of E a) xs"
  by (auto simp: covers_def)

lemma votesLoop_skip:
  assumes "\<forall>a \<in> set xs. recoverable E a \<and> me \<notin> signers_of E a" and "\<not> truthy (v_correct v)"
  shows "votesLoop E me (xs @ ys) v = votesLoop E me ys v"
  using assms(1)
proof (induction xs)
  case Nil
  then show ?case by simp
next
  case (Cons a xs)
  then obtain S where "getSignerAddresses E (ag_block a) (ag_blockSignatures a) = Inr S"
    "set S = signers_of E a" by (auto elim: getSignerAddresses_recoverable)
  with Cons assms(2) show ?case by (simp add: set_has_def)
qed

text \<open>One round of the loop once the latest correct state is known, or becomes known.\<close>

lemma votesLoop_round:
  assumes "recoverable E a" and "truthy (v_correct v) \<or> me \<in> signers_of E a \<and> ag_encodedState a \<noteq> ''''"
  defines "c \<equiv> (if truthy (v_correct v) then v_correct v else Some (ag_encodedState a))"
  shows "\<exists>req. set req = set (v_required v) - signers_of E a \<and>
    votesLoop E me (a # xs) v =
      (if set (v_required v) \<subseteq> signers_of E a
       then Inr \<lparr>v_finalized = Some (ag_encodedState a), v_correct = c,
                 v_blocks = confirmed_of E a # v_blocks v, v_required = req\<rparr>
       else votesLoop E me xs (v\<lparr>v_correct := c, v_blocks := confirmed_of E a # v_blocks v,
                                 v_required := req\<rparr>))"
proof -
  obtain S where S: "getSignerAddresses E (ag_block a) (ag_blockSignatures a) = Inr S"
    "set S = signers_of E a" by (rule getSignerAddresses_recoverable [OF assms(1)])
  have c: "truthy c" using assms(2) by (auto simp: c_def truthy_def)
  have "set_size (set_difference (v_required v) S) = 0 \<longleftrightarrow> set (v_required v) \<subseteq> signers_of E a"
    using S(2) by (simp add: set_size_def set_difference_Nil_iff)
  moreover have "(if \<not> truthy (v_correct v) \<and> set_has S me then Some (ag_encodedState a)
      else v_correct v) = c"
    using assms(2) S(2) by (auto simp: c_def set_has_def)
  ultimately show ?thesis using S c
    by (intro exI [of _ "set_difference (v_required v) S"]) (simp add: set_difference_set Let_def)
qed

lemma votesLoop_window:
  assumes "\<forall>a \<in> set xs. recoverable E a" and "truthy (v_correct v)"
  shows "\<forall>p q. xs = p @ q \<and> p \<noteq> [] \<longrightarrow> \<not> covers E (set (v_required v)) p \<Longrightarrow>
    \<exists>req. set req = set (v_required v) - (\<Union>a \<in> set xs. signers_of E a) \<and>
      votesLoop E me (xs @ ys) v = votesLoop E me ys
        (v\<lparr>v_blocks := rev (map (confirmed_of E) xs) @ v_blocks v, v_required := req\<rparr>)"
  using assms
proof (induction xs arbitrary: v)
  case Nil
  show ?case by (rule exI [of _ "v_required v"]) simp
next
  case (Cons a xs)
  have "\<not> covers E (set (v_required v)) [a]" using Cons.prems(1) by force
  then have no: "\<not> set (v_required v) \<subseteq> signers_of E a" by (simp add: covers_def)
  obtain req where req: "set req = set (v_required v) - signers_of E a"
    and step: "votesLoop E me (a # xs @ ys) v = votesLoop E me (xs @ ys)
      (v\<lparr>v_blocks := confirmed_of E a # v_blocks v, v_required := req\<rparr>)"
    using votesLoop_round [of E a v me "xs @ ys"] Cons.prems(2,3) no by auto
  let ?v = "v\<lparr>v_blocks := confirmed_of E a # v_blocks v, v_required := req\<rparr>"
  have "\<forall>p q. xs = p @ q \<and> p \<noteq> [] \<longrightarrow> \<not> covers E (set (v_required ?v)) p"
  proof (intro allI impI)
    fix p q assume "xs = p @ q \<and> p \<noteq> []"
    then have "\<not> covers E (set (v_required v)) (a # p)" using Cons.prems(1) by (metis append_Cons list.distinct(1))
    then show "\<not> covers E (set (v_required ?v)) p" by (simp add: covers_Cons req)
  qed
  with Cons.IH [of ?v] Cons.prems(2,3) obtain req' where
    "set req' = set req - (\<Union>a \<in> set xs. signers_of E a)"
    "votesLoop E me (xs @ ys) ?v = votesLoop E me ys
       (?v\<lparr>v_blocks := rev (map (confirmed_of E) xs) @ v_blocks ?v, v_required := req'\<rparr>)"
    by auto
  with step req show ?case by (intro exI [of _ req']) auto
qed

text \<open>The whole loop, from the latest agreement the signer signed.\<close>

definition votes_start :: "address js_set \<Rightarrow> votes" where
  "votes_start R = \<lparr>v_finalized = None, v_correct = None, v_blocks = [], v_required = R\<rparr>"

lemma votesLoop_first:
  assumes "recoverable E a" and "me \<in> signers_of E a" and "ag_encodedState a \<noteq> ''''"
    and "\<not> covers E (set R) [a]"
  shows "\<exists>req. set req = set R - signers_of E a \<and>
    votesLoop E me (a # xs) (votes_start R) = votesLoop E me xs
      \<lparr>v_finalized = None, v_correct = Some (ag_encodedState a), v_blocks = [confirmed_of E a],
       v_required = req\<rparr>"
  using votesLoop_round [of E a "votes_start R" me xs] assms
  by (auto simp: votes_start_def truthy_def covers_def)

lemma votesLoop_open:
  assumes "\<forall>a \<in> set (w # ws). recoverable E a" and "me \<in> signers_of E w" and "ag_encodedState w \<noteq> ''''"
    and none: "\<forall>p q. w # ws = p @ q \<and> p \<noteq> [] \<longrightarrow> \<not> covers E (set R) p"
  shows "\<exists>req. set req = set R - (\<Union>a \<in> set (w # ws). signers_of E a) \<and>
    votesLoop E me ((w # ws) @ ys) (votes_start R) = votesLoop E me ys
      \<lparr>v_finalized = None, v_correct = Some (ag_encodedState w),
       v_blocks = rev (map (confirmed_of E) (w # ws)), v_required = req\<rparr>"
proof -
  have "\<not> covers E (set R) [w]" using none by force
  then obtain req where req: "set req = set R - signers_of E w"
    and step: "votesLoop E me ((w # ws) @ ys) (votes_start R) = votesLoop E me (ws @ ys)
      \<lparr>v_finalized = None, v_correct = Some (ag_encodedState w), v_blocks = [confirmed_of E w],
       v_required = req\<rparr>"
    using votesLoop_first [of E w me R "ws @ ys"] assms(1-3) by auto
  let ?v = "\<lparr>v_finalized = None, v_correct = Some (ag_encodedState w), v_blocks = [confirmed_of E w],
       v_required = req\<rparr>"
  have "\<forall>p q. ws = p @ q \<and> p \<noteq> [] \<longrightarrow> \<not> covers E (set (v_required ?v)) p"
  proof (intro allI impI)
    fix p q assume "ws = p @ q \<and> p \<noteq> []"
    then have "\<not> covers E (set R) (w # p)" using none by (metis append_Cons list.distinct(1))
    then show "\<not> covers E (set (v_required ?v)) p" by (simp add: covers_Cons req)
  qed
  then obtain req' where "set req' = set req - (\<Union>a \<in> set ws. signers_of E a)"
    "votesLoop E me (ws @ ys) ?v = votesLoop E me ys
       (?v\<lparr>v_blocks := rev (map (confirmed_of E) ws) @ v_blocks ?v, v_required := req'\<rparr>)"
    using votesLoop_window [of ws E ?v me ys] assms(1,3) by (auto simp: truthy_def)
  with step req show ?thesis by (intro exI [of _ req']) auto
qed

lemma votesLoop_final:
  assumes rec: "\<forall>a \<in> set (ws @ [z]). recoverable E a"
    and hd: "me \<in> signers_of E (hd (ws @ [z]))" "ag_encodedState (hd (ws @ [z])) \<noteq> ''''"
    and none: "\<forall>p q. ws = p @ q \<and> p \<noteq> [] \<longrightarrow> \<not> covers E (set R) p"
    and all: "covers E (set R) (ws @ [z])"
  shows "\<exists>req. votesLoop E me ((ws @ [z]) @ ys) (votes_start R) =
      Inr \<lparr>v_finalized = Some (ag_encodedState z), v_correct = Some (ag_encodedState (hd (ws @ [z]))),
           v_blocks = rev (map (confirmed_of E) (ws @ [z])), v_required = req\<rparr>"
proof (cases ws)
  case Nil
  with votesLoop_round [of E z "votes_start R" me ys] assms show ?thesis
    by (auto simp: votes_start_def truthy_def covers_def)
next
  case (Cons w ws')
  obtain req where req: "set req = set R - (\<Union>a \<in> set ws. signers_of E a)"
    and step: "votesLoop E me (ws @ z # ys) (votes_start R) = votesLoop E me (z # ys)
      \<lparr>v_finalized = None, v_correct = Some (ag_encodedState w),
       v_blocks = rev (map (confirmed_of E) ws), v_required = req\<rparr>"
    using votesLoop_open [of w ws' E me R "z # ys"] assms Cons by auto
  have "set req \<subseteq> signers_of E z" using all req by (auto simp: covers_def)
  moreover have "truthy (Some (ag_encodedState w))" using hd(2) Cons by (simp add: truthy_def)
  ultimately show ?thesis
    using votesLoop_round [of E z "\<lparr>v_finalized = None, v_correct = Some (ag_encodedState w),
       v_blocks = rev (map (confirmed_of E) ws), v_required = req\<rparr>" me ys] step rec Cons
    by auto
qed

section \<open>Double signs\<close>

lemma Some_map_option_iff: "Some a = map_option f x \<longleftrightarrow> (\<exists>z. x = Some z \<and> a = f z)"
  by (cases x) auto

lemma am_getDoubleSignedBlock_sound:
  assumes "am_getDoubleSignedBlock E am sb = Inr (Some sb')"
    and "decodeBlock E (sb_encodedBlock sb) = Inr b"
  obtains a where "fs_getAgreement (forkService am) (getFork b) (getHeight b) = Some a"
    "sb_encodedBlock sb' = encodeBlock E (ag_block a)" "encodeBlock E (ag_block a) \<noteq> encodeBlock E b"
    "getBlockAuthor (ag_block a) = getBlockAuthor b"
    "sb_signature sb' \<in> set (ag_blockSignatures a)"
    "retrieveSignerAddressBlock E (ag_block a) (sb_signature sb') = Inr (getBlockAuthor b)"
  using assms
  by (auto simp: am_getDoubleSignedBlock_def fs_getAgreementByBlock_eq rmap_Inr_iff
      areBlocksEqual_def Some_map_option_iff split: option.splits if_splits
      dest!: getParticipantSignature_Some)

section \<open>The latest block of a participant\<close>

lemma latestSignedLoop_Some:
  assumes "latestSignedLoop E p xs = Inr (Some (b, s))"
  shows "\<exists>us a vs. xs = us @ a # vs \<and> b = ag_block a \<and> s \<in> set (ag_blockSignatures a) \<and>
    retrieveSignerAddressBlock E b s = Inr p \<and> (\<forall>u \<in> set us. p \<notin> signers_of E u)"
  using assms
proof (induction xs)
  case Nil
  then show ?case by simp
next
  case (Cons x xs)
  obtain found where found: "getParticipantSignature E (ag_block x) (ag_blockSignatures x) p = Inr found"
    using Cons.prems by (auto simp: rbind_Inr_iff)
  show ?case
  proof (cases found)
    case (Some sig)
    with Cons.prems found have "b = ag_block x" "s = sig" by auto
    with found Some getParticipantSignature_Some [of E "ag_block x" "ag_blockSignatures x" p sig]
    show ?thesis by (intro exI [of _ "[]"] exI [of _ x] exI [of _ xs]) auto
  next
    case None
    then obtain us a vs where "xs = us @ a # vs" "b = ag_block a" "s \<in> set (ag_blockSignatures a)"
      "retrieveSignerAddressBlock E b s = Inr p" "\<forall>u \<in> set us. p \<notin> signers_of E u"
      using Cons found by auto
    moreover have "p \<notin> signers_of E x"
      using getParticipantSignature_None [of E "ag_block x" "ag_blockSignatures x" p] found None
      by (fastforce simp: signers_of_def)
    ultimately show ?thesis by (intro exI [of _ "x # us"] exI [of _ a] exI [of _ vs]) auto
  qed
qed

lemma latestSignedLoop_None:
  "latestSignedLoop E p xs = Inr None \<Longrightarrow> a \<in> set xs \<Longrightarrow> p \<notin> signers_of E a"
proof (induction xs)
  case Nil
  then show ?case by simp
next
  case (Cons x xs)
  then show ?case using getParticipantSignature_None [of E "ag_block x" "ag_blockSignatures x" p]
    by (fastforce simp: rbind_Inr_iff signers_of_def split: option.splits)
qed

section \<open>Recording posts\<close>

lemma ct_recordPost_hasPosted:
  assumes "ct_recordPost f h p t am = (Inr (), am')"
  shows "ct_hasPosted am' f h p"
  using assms
  by (auto simp: ct_recordPost_def ct_hasPosted_iff fs_addChainBlock_def fs_isValidForkCnt_def
      split: if_splits sum.splits)

lemma ct_recordPost_idem:
  assumes "ct_recordPost f h p t am = (Inr (), am')"
  shows "ct_recordPost f h p t' am' = (Inr (), am')"
  using ct_recordPost_hasPosted [OF assms] by (simp add: ct_recordPost_def)

end
