(* ===== verification/ProofManager.thy ===== *)
theory ProofManager
  imports AgreementManager
begin

text \<open>
  \<open>src/ProofManager.ts\<close> (prefix \<open>pm_\<close>) with \<open>src/types/disputes.ts\<close>, the type strings of
  \<open>src/types/ethers.ts\<close> it uses, and the structs of \<open>contracts/V1/DisputeTypes.sol\<close>: fraud
  proofs are built from the agreement manager, ABI encoded, and later decoded again to filter
  the ones a given dispute makes pointless. The proof objects are untyped in the source
  (\<open>any\<close>), so they are \<open>jsval\<close> here.
\<close>

section \<open>Structs and type strings\<close>

datatype proof_type =
  FoldRechallenge | DoubleSign | IncorrectData | NewerState | FoldPriorBlock | BlockTooFarInFuture

text \<open>The numbering of the enum, which \<open>ProofStruct.proofType\<close> holds.\<close>

fun proof_type_num :: "proof_type \<Rightarrow> nat" where
  "proof_type_num FoldRechallenge = 0"
| "proof_type_num DoubleSign = 1"
| "proof_type_num IncorrectData = 2"
| "proof_type_num NewerState = 3"
| "proof_type_num FoldPriorBlock = 4"
| "proof_type_num BlockTooFarInFuture = 5"

record proof_struct =
  prf_proofType :: nat
  prf_encodedProof :: bytes

record dispute =
  dsp_channelId :: bytes
  dsp_forkCnt :: js_num
  dsp_challengeCnt :: js_num
  dsp_virtualVotingBlocks :: "confirmed_block list"
  dsp_timedoutParticipant :: address
  dsp_foldedTransactionCnt :: js_num
  dsp_postedStateDisputer :: address
  dsp_slashedParticipants :: "address list"

definition ZeroAddress :: address where
  "ZeroAddress = ''0x0000000000000000000000000000000000000000''"

definition SignedBlockEthersType :: ethers_type where
  "SignedBlockEthersType = TTuple [(''encodedBlock'', TBytes), (''signature'', TBytes)]"

definition FoldRechallengeProofEthersType :: ethers_type where
  "FoldRechallengeProofEthersType =
     TTuple [(''encodedBlock'', TString), (''signatures'', TArray TBytes)]"

definition DoubleSignProofEthersType :: ethers_type where
  "DoubleSignProofEthersType =
     TTuple [(''doubleSigns'', TArray (TTuple
       [(''block1'', SignedBlockEthersType), (''block2'', SignedBlockEthersType)]))]"

definition IncorrectDataProofEthersType :: ethers_type where
  "IncorrectDataProofEthersType =
     TTuple [(''block1'', SignedBlockEthersType), (''block2'', SignedBlockEthersType),
             (''encodedState'', TString)]"

definition NewerStateProofEthersType :: ethers_type where
  "NewerStateProofEthersType =
     TTuple [(''encodedBlock'', TString), (''confirmationSignature'', TString)]"

definition FoldPriorBlockProofEthersType :: ethers_type where
  "FoldPriorBlockProofEthersType = TTuple [(''moveCnt'', TUint)]"

definition BlockTooFarInFutureProofEthersType :: ethers_type where
  "BlockTooFarInFutureProofEthersType = TTuple [(''block1'', SignedBlockEthersType)]"

fun getEthersTypeForDisputeProof :: "proof_type \<Rightarrow> ethers_type" where
  "getEthersTypeForDisputeProof FoldRechallenge = FoldRechallengeProofEthersType"
| "getEthersTypeForDisputeProof DoubleSign = DoubleSignProofEthersType"
| "getEthersTypeForDisputeProof IncorrectData = IncorrectDataProofEthersType"
| "getEthersTypeForDisputeProof NewerState = NewerStateProofEthersType"
| "getEthersTypeForDisputeProof FoldPriorBlock = FoldPriorBlockProofEthersType"
| "getEthersTypeForDisputeProof BlockTooFarInFuture = BlockTooFarInFutureProofEthersType"

section \<open>Reading untyped values\<close>

text \<open>
  \<open>v.name\<close>: a missing property is \<open>undefined\<close>, a property of \<open>undefined\<close> throws. Passing
  something other than bytes to \<open>decodeBlock\<close> throws inside ethers, iterating something other
  than an array throws a TypeError.
\<close>

fun js_get :: "string \<Rightarrow> jsval \<Rightarrow> jsval res" where
  "js_get name JUndefined = Inl (TypeError name)"
| "js_get name (JObj kvs) =
     Inr (case map_of kvs name of None \<Rightarrow> JUndefined | Some v \<Rightarrow> v)"
| "js_get name _ = Inr JUndefined"

fun as_bytes :: "jsval \<Rightarrow> bytes res" where
  "as_bytes (JStr s) = Inr s"
| "as_bytes _ = Inl (External ''invalid BytesLike value'')"

fun as_array :: "jsval \<Rightarrow> jsval list res" where
  "as_array (JArr vs) = Inr vs"
| "as_array _ = Inl (TypeError ''some'')"

text \<open>\<open>a < b\<close> with \<open>a\<close> untyped: comparing \<open>undefined\<close> is false.\<close>

fun js_less :: "jsval \<Rightarrow> js_num \<Rightarrow> bool" where
  "js_less (JNum a) b \<longleftrightarrow> num_value a < num_value b"
| "js_less _ b \<longleftrightarrow> False"

definition sb_val :: "signed_block \<Rightarrow> jsval" where
  "sb_val sb = JObj [(''encodedBlock'', JStr (sb_encodedBlock sb)),
                     (''signature'', JStr (sb_signature sb))]"

section \<open>Encoding and decoding\<close>

text \<open>
  \<open>encodeProof(...)!\<close>: the proof object is never falsy here, and the non-null assertion is no
  check at run time.
\<close>

definition pm_encodeProof :: "ethers \<Rightarrow> proof_type \<Rightarrow> jsval \<Rightarrow> bytes option res" where
  "pm_encodeProof E proofType proofToEncode =
     (if proofToEncode = JUndefined then Inr None
      else (let ethersType = getEthersTypeForDisputeProof proofType
            in rmap Some (abiEncode E ethersType proofToEncode)))"

definition pm_decodeProof :: "ethers \<Rightarrow> proof_type \<Rightarrow> bytes \<Rightarrow> jsval res" where
  "pm_decodeProof E proofType encodedProof =
     abiDecode E (getEthersTypeForDisputeProof proofType) encodedProof"

definition pm_struct :: "ethers \<Rightarrow> proof_type \<Rightarrow> jsval \<Rightarrow> proof_struct res" where
  "pm_struct E proofType proofToEncode =
     rmap (\<lambda>s. \<lparr>prf_proofType = proof_type_num proofType, prf_encodedProof = the s\<rparr>)
       (pm_encodeProof E proofType proofToEncode)"

section \<open>Creating proofs\<close>

definition fold_rechallenge_val :: "bytes \<Rightarrow> bytes list \<Rightarrow> jsval" where
  "fold_rechallenge_val encodedBlock signatures =
     JObj [(''encodedBlock'', JStr encodedBlock), (''signatures'', JArr (map JStr signatures))]"

definition pm_createFoldRechallengeProof ::
  "ethers \<Rightarrow> agreement_manager \<Rightarrow> js_num \<Rightarrow> js_num \<Rightarrow> proof_struct option res" where
  "pm_createFoldRechallengeProof E am forkCnt transactionCnt =
     (case am_getBlock am (js_Number forkCnt) (js_Number transactionCnt) of
        None \<Rightarrow> Inr None
      | Some block \<Rightarrow>
          rbind (am_didEveryoneSignBlock E am block) (\<lambda>everyone.
            if \<not> everyone then Inr None
            else rmap Some (pm_struct E FoldRechallenge
                   (fold_rechallenge_val (encodeBlock E block) (am_getSigantures am block)))))"

definition double_sign_val :: "(signed_block \<times> signed_block) list \<Rightarrow> jsval" where
  "double_sign_val doubleSigns =
     JObj [(''doubleSigns'', JArr (map (\<lambda>(b1, b2).
       JObj [(''block1'', sb_val b1), (''block2'', sb_val b2)]) doubleSigns))]"

definition pm_doubleSigns ::
  "ethers \<Rightarrow> agreement_manager \<Rightarrow> signed_block list \<Rightarrow> (signed_block \<times> signed_block) list res" where
  "pm_doubleSigns E am conflictingBlocks =
     rmap concat (mapM (\<lambda>signedBlock.
       rmap (\<lambda>conflictingBlock. case conflictingBlock of
               Some b \<Rightarrow> [(signedBlock, b)] | None \<Rightarrow> [])
         (am_getDoubleSignedBlock E am signedBlock)) conflictingBlocks)"

definition pm_createDoubleSignProof ::
  "ethers \<Rightarrow> agreement_manager \<Rightarrow> signed_block list \<Rightarrow> proof_struct res" where
  "pm_createDoubleSignProof E am conflictingBlocks =
     rbind (pm_doubleSigns E am conflictingBlocks) (\<lambda>doubleSigns.
       pm_struct E DoubleSign (double_sign_val doubleSigns))"

definition incorrect_data_val :: "signed_block \<Rightarrow> signed_block \<Rightarrow> bytes \<Rightarrow> jsval" where
  "incorrect_data_val block1 block2 encodedState =
     JObj [(''block1'', sb_val block1), (''block2'', sb_val block2),
           (''encodedState'', JStr encodedState)]"

definition pm_createGenesisBlockIncorrectDataProof ::
  "agreement_manager \<Rightarrow> signed_block \<Rightarrow> nat \<Rightarrow> jsval res" where
  "pm_createGenesisBlockIncorrectDataProof am incorrectBlockSigned forkCnt =
     Inr (incorrect_data_val incorrectBlockSigned incorrectBlockSigned
       (case am_getForkGenesisStateEncoded am forkCnt of None \<Rightarrow> ''0x'' | Some s \<Rightarrow> s))"

definition pm_createRegularBlockIncorrectDataProof ::
  "ethers \<Rightarrow> agreement_manager \<Rightarrow> signed_block \<Rightarrow> nat \<Rightarrow> nat \<Rightarrow> jsval res" where
  "pm_createRegularBlockIncorrectDataProof E am incorrectBlockSigned forkCnt transactionCnt =
     (case am_getBlock am forkCnt (transactionCnt - 1) of
        None \<Rightarrow> Inl (Error ''Prior block not found'')
      | Some priorBlock \<Rightarrow>
          rbind (am_getOriginalSignature E am priorBlock) (\<lambda>priorBlockOriginalSignature.
            if \<not> truthy priorBlockOriginalSignature
            then Inl (Error ''Prior block signature not found'')
            else (let priorEncodedState = am_getEncodedState am forkCnt transactionCnt
                  in if \<not> truthy priorEncodedState
                     then Inl (Error ''Prior encoded state not found'')
                     else Inr (incorrect_data_val incorrectBlockSigned
                       \<lparr>sb_encodedBlock = encodeBlock E priorBlock,
                        sb_signature = the priorBlockOriginalSignature\<rparr>
                       (the priorEncodedState)))))"

definition pm_createIncorrectDataProof ::
  "ethers \<Rightarrow> agreement_manager \<Rightarrow> signed_block \<Rightarrow> proof_struct res" where
  "pm_createIncorrectDataProof E am incorrectBlockSigned =
     rbind (decodeBlock E (sb_encodedBlock incorrectBlockSigned)) (\<lambda>incorrectBlock.
       let forkCnt = getFork incorrectBlock;
           transactionCnt = getHeight incorrectBlock;
           isGenesisBlock = (transactionCnt \<le> 0)
       in rbind (if isGenesisBlock
                 then pm_createGenesisBlockIncorrectDataProof am incorrectBlockSigned forkCnt
                 else pm_createRegularBlockIncorrectDataProof E am incorrectBlockSigned
                        forkCnt transactionCnt)
            (\<lambda>incorrectDataProofStruct. pm_struct E IncorrectData incorrectDataProofStruct))"

definition newer_state_val :: "bytes \<Rightarrow> bytes \<Rightarrow> jsval" where
  "newer_state_val encodedBlock confirmationSig =
     JObj [(''encodedBlock'', JStr encodedBlock), (''confirmationSignature'', JStr confirmationSig)]"

definition pm_createNewerStateProof ::
  "ethers \<Rightarrow> agreement_manager \<Rightarrow> nat \<Rightarrow> address \<Rightarrow> nat \<Rightarrow> proof_struct option res" where
  "pm_createNewerStateProof E am forkCnt participantAdr currentTransactionCnt =
     rbind (am_getLatestSignedBlockByParticipant E am forkCnt participantAdr) (\<lambda>signedBlock.
       case signedBlock of
         None \<Rightarrow> Inr None
       | Some (block, signature) \<Rightarrow>
           (let blockTransactionCnt = getHeight block
            in if currentTransactionCnt \<ge> blockTransactionCnt then Inr None
               else rmap Some (pm_struct E NewerState
                      (newer_state_val (encodeBlock E block) signature))))"

definition fold_prior_block_val :: "nat \<Rightarrow> jsval" where
  "fold_prior_block_val transactionCnt = JObj [(''transactionCnt'', JNum (Num transactionCnt))]"

definition pm_createFoldPriorBlockProof :: "ethers \<Rightarrow> nat \<Rightarrow> proof_struct res" where
  "pm_createFoldPriorBlockProof E transactionCnt =
     pm_struct E FoldPriorBlock (fold_prior_block_val transactionCnt)"

definition block_too_far_val :: "signed_block \<Rightarrow> jsval" where
  "block_too_far_val blockSigned = JObj [(''block1'', sb_val blockSigned)]"

definition pm_createBlockTooFarInFutureProof :: "ethers \<Rightarrow> signed_block \<Rightarrow> proof_struct res" where
  "pm_createBlockTooFarInFutureProof E blockSigned =
     pm_struct E BlockTooFarInFuture (block_too_far_val blockSigned)"

section \<open>Validating proofs against a dispute\<close>

definition decode_block_field :: "ethers \<Rightarrow> string \<Rightarrow> jsval \<Rightarrow> block res" where
  "decode_block_field E name v = rbind (js_get name v) (\<lambda>w. rbind (as_bytes w) (decodeBlock E))"

text \<open>\<open>Number(...) === dispute.foldedTransactionCnt\<close> compares a number with a BigNumberish.\<close>

definition pm_isFoldRechallengeValid :: "ethers \<Rightarrow> proof_struct \<Rightarrow> dispute \<Rightarrow> bool res" where
  "pm_isFoldRechallengeValid E prf dispute =
     rbind (pm_decodeProof E FoldRechallenge (prf_encodedProof prf)) (\<lambda>foldRechallengeProof.
     rbind (decode_block_field E ''encodedBlock'' foldRechallengeProof) (\<lambda>block.
       let sameTransactionCnt = (Num (getHeight block) = dsp_foldedTransactionCnt dispute);
           sameParticipant = (getBlockAuthor block = dsp_timedoutParticipant dispute)
       in Inr (sameTransactionCnt \<and> sameParticipant)))"

definition pm_isDoubleSignValid :: "ethers \<Rightarrow> proof_struct \<Rightarrow> dispute \<Rightarrow> bool res" where
  "pm_isDoubleSignValid E prf dispute =
     rbind (pm_decodeProof E DoubleSign (prf_encodedProof prf)) (\<lambda>doubleSignProof.
     rbind (js_get ''doubleSigns'' doubleSignProof) (\<lambda>v.
     rbind (as_array v) (someM (\<lambda>doubleSign.
       rbind (js_get ''block1'' doubleSign) (\<lambda>sb.
       rbind (decode_block_field E ''encodedBlock'' sb) (\<lambda>block1.
         Inr (getBlockAuthor block1 \<notin> set (dsp_slashedParticipants dispute))))))))"

definition pm_isIncorrectDataValid :: "ethers \<Rightarrow> proof_struct \<Rightarrow> dispute \<Rightarrow> bool res" where
  "pm_isIncorrectDataValid E prf dispute =
     rbind (pm_decodeProof E IncorrectData (prf_encodedProof prf)) (\<lambda>incorrectDataProof.
     rbind (js_get ''block2'' incorrectDataProof) (\<lambda>sb.
     rbind (decode_block_field E ''encodedBlock'' sb) (\<lambda>block2.
       Inr (getBlockAuthor block2 \<notin> set (dsp_slashedParticipants dispute)))))"

definition pm_isNewerStateValid :: "ethers \<Rightarrow> proof_struct \<Rightarrow> dispute \<Rightarrow> bool res" where
  "pm_isNewerStateValid E prf dispute =
     rbind (pm_decodeProof E NewerState (prf_encodedProof prf)) (\<lambda>newerStateProof.
     rbind (decode_block_field E ''encodedBlock'' newerStateProof) (\<lambda>block.
       case at_last (dsp_virtualVotingBlocks dispute) of
         None \<Rightarrow> Inr False
       | Some lastVote \<Rightarrow>
           rbind (decodeBlock E (cb_encodedBlock lastVote)) (\<lambda>latestBlock.
             let latestTransactionCnt = getHeight latestBlock;
                 currentTransactionCnt = getHeight block
             in Inr (getBlockAuthor block \<notin> set (dsp_slashedParticipants dispute) \<and>
                     getBlockAuthor block = dsp_postedStateDisputer dispute \<and>
                     currentTransactionCnt > latestTransactionCnt))))"

definition pm_isFoldPriorBlockValid :: "ethers \<Rightarrow> proof_struct \<Rightarrow> dispute \<Rightarrow> bool res" where
  "pm_isFoldPriorBlockValid E prf dispute =
     rbind (pm_decodeProof E FoldPriorBlock (prf_encodedProof prf)) (\<lambda>foldPriorBlockProof.
     rbind (js_get ''transactionCnt'' foldPriorBlockProof) (\<lambda>cnt.
       Inr (js_less cnt (dsp_foldedTransactionCnt dispute) \<and>
            dsp_timedoutParticipant dispute \<noteq> ZeroAddress)))"

definition pm_isBlockTooFarInFutureValid :: "ethers \<Rightarrow> nat \<Rightarrow> proof_struct \<Rightarrow> dispute \<Rightarrow> bool res" where
  "pm_isBlockTooFarInFutureValid E now prf dispute =
     rbind (pm_decodeProof E BlockTooFarInFuture (prf_encodedProof prf))
       (\<lambda>blockTooFarInFutureProof.
     rbind (js_get ''block1'' blockTooFarInFutureProof) (\<lambda>sb.
     rbind (decode_block_field E ''encodedBlock'' sb) (\<lambda>block.
       let blockTimestamp = getTimestamp block
       in Inr (blockTimestamp > now \<and>
               getBlockAuthor block \<notin> set (dsp_slashedParticipants dispute)))))"

text \<open>\<open>validatorMap\<close>, indexed by the enum's number; \<open>now\<close> is \<open>Clock.getTimeInSeconds()\<close>.\<close>

definition pm_validatorMap ::
  "ethers \<Rightarrow> nat \<Rightarrow> nat \<Rightarrow> (proof_struct \<Rightarrow> dispute \<Rightarrow> bool res) option" where
  "pm_validatorMap E now n =
     map_of [(proof_type_num FoldRechallenge, pm_isFoldRechallengeValid E),
             (proof_type_num DoubleSign, pm_isDoubleSignValid E),
             (proof_type_num IncorrectData, pm_isIncorrectDataValid E),
             (proof_type_num NewerState, pm_isNewerStateValid E),
             (proof_type_num FoldPriorBlock, pm_isFoldPriorBlockValid E),
             (proof_type_num BlockTooFarInFuture, pm_isBlockTooFarInFutureValid E now)] n"

definition pm_filterValidProofs ::
  "ethers \<Rightarrow> nat \<Rightarrow> dispute \<Rightarrow> proof_struct list option \<Rightarrow> proof_struct list res" where
  "pm_filterValidProofs E now dispute proofs =
     (case proofs of
        None \<Rightarrow> Inr []
      | Some ps \<Rightarrow>
          if length ps = 0 then Inr []
          else filterM (\<lambda>prf.
                 case pm_validatorMap E now (prf_proofType prf) of
                   None \<Rightarrow> Inl (Error ''Unknown proof type'')
                 | Some validator \<Rightarrow> validator prf dispute) ps)"

end
