(* ===== verification/Sample.thy ===== *)
theory Sample
  imports ProofManager
begin

text \<open>
  A small concrete channel on which the properties of the development are evaluated: three
  blocks, two participants \<open>A\<close> and \<open>B\<close>, and an \<open>ethers\<close> record with a lookup-table codec, a
  hash that prefixes its argument, and signatures that name their signer. A signature starting
  with \<open>!\<close> is malformed.
\<close>

named_theorems sample \<open>definitions of the sample channel\<close>

definition mk_block :: "nat \<Rightarrow> nat \<Rightarrow> address \<Rightarrow> nat \<Rightarrow> bytes \<Rightarrow> bytes \<Rightarrow> block" where
  [sample]: "mk_block f h author ts sh psh =
     \<lparr>blk_transaction =
        \<lparr>tx_header = \<lparr>hdr_channelId = ''ch'', hdr_participant = author, hdr_forkCnt = BigInt f,
                        hdr_transactionCnt = BigInt h, hdr_timestamp = BigInt ts\<rparr>,
         tx_body = \<lparr>body_transactionType = 0, body_encodedData = ''d'', body_data = ''d''\<rparr>\<rparr>,
      blk_stateHash = sh, blk_previousStateHash = psh\<rparr>"

definition block0 :: block where
  [sample]: "block0 = mk_block 0 0 ''B'' 100 ''#s1'' ''#s''"

definition block1 :: block where
  [sample]: "block1 = mk_block 0 1 ''A'' 101 ''#s11'' ''#s1''"

text \<open>A second block of \<open>B\<close> for height 0, and a block of \<open>B\<close> that is older than the fork.\<close>

definition block0' :: block where
  [sample]: "block0' = mk_block 0 0 ''B'' 102 ''#s1'' ''#s''"

definition block_old :: block where
  [sample]: "block_old = mk_block 0 0 ''B'' 50 ''#s1'' ''#s''"

definition block_future :: block where
  [sample]: "block_future = mk_block 0 1 ''A'' 114 ''#s11'' ''#s1''"

definition sample_blocks :: "(bytes \<times> block) list" where
  [sample]: "sample_blocks = [(''b0'', block0), (''b1'', block1), (''c0'', block0'),
                              (''o0'', block_old), (''f1'', block_future)]"

definition sampleE :: ethers where
  [sample]: "sampleE =
     \<lparr>abiEncodeTransaction = (\<lambda>_. ''t''), abiDecodeTransaction = (\<lambda>_. Inl (External ''bad data'')),
      abiEncodeBlock = (\<lambda>b. case find (\<lambda>e. snd e = b) sample_blocks of
                              None \<Rightarrow> ''?'' | Some e \<Rightarrow> fst e),
      abiDecodeBlock = (\<lambda>s. case map_of sample_blocks s of
                              None \<Rightarrow> Inl (External ''bad data'') | Some b \<Rightarrow> Inr b),
      abiEncodeJoinChannel = (\<lambda>_. ''j''), abiDecodeJoinChannel = (\<lambda>_. Inl (External ''bad data'')),
      abiEncode = (\<lambda>t v. Inr ''p''), 
      abiDecode = (\<lambda>t s. if s = ''p'' then Inr (double_sign_val
          [(\<lparr>sb_encodedBlock = ''c0'', sb_signature = ''B#c0''\<rparr>,
            \<lparr>sb_encodedBlock = ''b0'', sb_signature = ''B#b0''\<rparr>)])
        else Inl (External ''bad data'')),
      keccak256 = (\<lambda>s. CHR ''#'' # s), getBytes = (\<lambda>s. s),
      verifyMessage = (\<lambda>m s. if s = [] \<or> hd s = CHR ''!'' then Inl (External ''invalid signature'')
                             else if tl s = m then Inr [hd s] else Inr ''unknown'')\<rparr>"

text \<open>The signature of a block by a participant.\<close>

definition sig_of :: "char \<Rightarrow> bytes \<Rightarrow> bytes" where
  [sample]: "sig_of c encodedBlock = c # CHR ''#'' # encodedBlock"

definition sample_chain0 :: agreement where
  [sample]: "sample_chain0 =
     \<lparr>ag_block = block0, ag_blockSignatures = [sig_of CHR ''B'' ''b0'', sig_of CHR ''A'' ''b0''],
      ag_encodedState = ''s1''\<rparr>"

definition sample_chain1 :: agreement where
  [sample]: "sample_chain1 =
     \<lparr>ag_block = block1, ag_blockSignatures = [sig_of CHR ''A'' ''b1''], ag_encodedState = ''s11''\<rparr>"

definition sample_chain :: "agreement list" where
  [sample]: "sample_chain = [sample_chain0, sample_chain1]"

definition sample_fork :: "agreement list \<Rightarrow> agreement_fork" where
  [sample]: "sample_fork ags =
     \<lparr>forkGenesisStateEncoded = ''s'', addressesInThreshold = [''A'', ''B''],
      genesisTimestamp = 90, chainBlocks = [], agreements = ags\<rparr>"

definition sample_am :: "agreement list \<Rightarrow> agreement_manager" where
  [sample]: "sample_am ags = \<lparr>forkService = [sample_fork ags], queueService = qs_init\<rparr>"

definition signed :: "bytes \<Rightarrow> char \<Rightarrow> signed_block" where
  [sample]: "signed encodedBlock c =
     \<lparr>sb_encodedBlock = encodedBlock, sb_signature = sig_of c encodedBlock\<rparr>"

lemma sample_fields [simp]:
  "getFork (mk_block f h a t sh psh) = round_double f"
  "getHeight (mk_block f h a t sh psh) = round_double h"
  "getTimestamp (mk_block f h a t sh psh) = round_double t"
  "getBlockAuthor (mk_block f h a t sh psh) = a"
  "getBlockChannelId (mk_block f h a t sh psh) = ''ch''"
  "blk_stateHash (mk_block f h a t sh psh) = sh"
  "blk_previousStateHash (mk_block f h a t sh psh) = psh"
  by (simp_all add: mk_block_def getFork_def getHeight_def getTimestamp_def getBlockAuthor_def
      getBlockChannelId_def)

lemma mk_block_inject [simp]:
  "mk_block f h a t sh psh = mk_block f' h' a' t' sh' psh' \<longleftrightarrow>
     f = f' \<and> h = h' \<and> a = a' \<and> t = t' \<and> sh = sh' \<and> psh = psh'"
  by (auto simp: mk_block_def)

lemma sample_encode [simp]:
  "encodeBlock sampleE block0 = ''b0''" "encodeBlock sampleE block1 = ''b1''"
  "encodeBlock sampleE block0' = ''c0''" "encodeBlock sampleE block_old = ''o0''"
  "encodeBlock sampleE block_future = ''f1''"
  by (simp_all add: encodeBlock_def sampleE_def sample_blocks_def block0_def block1_def
      block0'_def block_old_def block_future_def)

lemma sample_decode [simp]:
  "decodeBlock sampleE ''b0'' = Inr block0" "decodeBlock sampleE ''b1'' = Inr block1"
  "decodeBlock sampleE ''c0'' = Inr block0'" "decodeBlock sampleE ''o0'' = Inr block_old"
  "decodeBlock sampleE ''f1'' = Inr block_future"
  by (simp_all add: decodeBlock_def sampleE_def sample_blocks_def)

lemma sample_crypto [simp]:
  "keccak256 sampleE s = CHR ''#'' # s" "getBytes sampleE s = s"
  "verifyMessage sampleE m (sig_of c e) =
     (if c = CHR ''!'' then Inl (External ''invalid signature'')
      else if CHR ''#'' # e = m then Inr [c] else Inr ''unknown'')"
  by (simp_all add: sampleE_def sig_of_def)

lemma sample_abi [simp]:
  "abiEncode sampleE t v = Inr ''p''"
  "abiDecode sampleE t ''p'' = Inr (double_sign_val
     [(\<lparr>sb_encodedBlock = ''c0'', sb_signature = ''B#c0''\<rparr>,
       \<lparr>sb_encodedBlock = ''b0'', sb_signature = ''B#b0''\<rparr>)])"
  by (simp_all add: sampleE_def)

lemma sample_retrieve [simp]:
  "retrieveSignerAddressBlock sampleE b (sig_of c e) =
     (if c = CHR ''!'' then Inl (External ''invalid signature'')
      else if e = encodeBlock sampleE b then Inr [c] else Inr ''unknown'')"
  by (simp add: retrieveSignerAddressBlock_def Let_def)

lemma sample_positions [simp]:
  "getFork block0 = 0" "getHeight block0 = 0" "getFork block1 = 0" "getHeight block1 = 1"
  "getFork block0' = 0" "getHeight block0' = 0" "getFork block_old = 0" "getHeight block_old = 0"
  "getFork block_future = 0" "getHeight block_future = 1"
  "getTimestamp block0 = 100" "getTimestamp block1 = 101" "getTimestamp block0' = 102"
  "getTimestamp block_old = 50" "getTimestamp block_future = 114"
  "getBlockAuthor block0 = ''B''" "getBlockAuthor block1 = ''A''" "getBlockAuthor block0' = ''B''"
  "getBlockAuthor block_old = ''B''" "getBlockAuthor block_future = ''A''"
  "getBlockChannelId block0 = ''ch''" "getBlockChannelId block1 = ''ch''"
  "getBlockChannelId block0' = ''ch''" "getBlockChannelId block_old = ''ch''"
  "getBlockChannelId block_future = ''ch''"
  by (simp_all add: block0_def block1_def block0'_def block_old_def block_future_def)

lemma sample_hashes [simp]:
  "blk_stateHash block0 = ''#s1''" "blk_previousStateHash block0 = ''#s''"
  "blk_stateHash block1 = ''#s11''" "blk_previousStateHash block1 = ''#s1''"
  "blk_stateHash block0' = ''#s1''" "blk_previousStateHash block0' = ''#s''"
  by (simp_all add: block0_def block1_def block0'_def)

lemma sample_chain_fields [simp]:
  "ag_block sample_chain0 = block0" "ag_block sample_chain1 = block1"
  "ag_encodedState sample_chain0 = ''s1''" "ag_encodedState sample_chain1 = ''s11''"
  "ag_blockSignatures sample_chain0 = [sig_of CHR ''B'' ''b0'', sig_of CHR ''A'' ''b0'']"
  "ag_blockSignatures sample_chain1 = [sig_of CHR ''A'' ''b1'']"
  by (simp_all add: sample_chain0_def sample_chain1_def)

end
