(* ===== verification/AgreementProperties.thy ===== *)
theory AgreementProperties
  imports AgreementFacts Sample
begin

text \<open>
  The properties of the agreement manager and its services, each with a witness on the sample
  channel where it has hypotheses.
\<close>

section \<open>Slices of the chain\<close>

lemma rev_split_window:
  assumes "m \<le> k" and "k < length xs"
  shows "rev xs = rev (drop (Suc k) xs) @
    (rev (map (nth xs) [Suc m..<Suc k]) @ [xs ! m]) @ rev (take m xs)"
proof -
  have "xs = take m xs @ map (nth xs) [m..<Suc k] @ drop (Suc k) xs"
    using assms by (intro nth_equalityI) (auto simp: nth_append min_def simp del: upt_Suc)
  moreover have "[m..<Suc k] = m # [Suc m..<Suc k]" using assms by (simp add: upt_conv_Cons)
  ultimately have "rev xs = rev (take m xs @ (xs ! m # map (nth xs) [Suc m..<Suc k]) @ drop (Suc k) xs)"
    by (metis list.simps(9))
  then show ?thesis by simp
qed

lemma hd_window:
  assumes "m \<le> k"
  shows "hd (rev (map (nth xs) [Suc m..<Suc k]) @ [xs ! m]) = xs ! k"
proof (cases "m = k")
  case False
  with assms have "[Suc m..<Suc k] = [Suc m..<k] @ [k]" by simp
  then show ?thesis by simp
qed simp

lemma prefix_window:
  assumes "rev (map (nth xs) [n..<Suc k]) = p @ q" and "p \<noteq> []"
  shows "\<exists>m. n \<le> m \<and> m \<le> k \<and> set p = nth xs ` {m..k}"
proof -
  let ?W = "map (nth xs) [n..<Suc k]"
  have "?W = rev q @ rev p" using assms(1) by (metis rev_append rev_rev_ident)
  then have "rev p = drop (length q) ?W" by (metis append_eq_conv_conj length_rev)
  then have p: "rev p = map (nth xs) [n + length q..<Suc k]" by (simp add: drop_map del: upt_Suc)
  then have "set p = nth xs ` {n + length q..k}" by (metis atLeastAtMost_upt list.set_map set_rev)
  moreover have "n + length q \<le> k" using p assms(2) by (cases "n + length q \<le> k") auto
  ultimately show ?thesis by (intro exI [of _ "n + length q"]) auto
qed

lemma covers_window: "covers E R xs \<longleftrightarrow> R \<subseteq> \<Union> (signers_of E ` set xs)"
  by (simp add: covers_def)

lemma skip_window:
  assumes "\<forall>a \<in> set ags. recoverable E a" and "\<forall>j. k < j \<and> j < length ags \<longrightarrow> me \<notin> signers_of E (ags ! j)"
    and "rev ags = rev (drop (Suc k) ags) @ zs"
  shows "votesLoop E me (rev ags) (votes_start R) = votesLoop E me zs (votes_start R)"
proof -
  have "\<forall>a \<in> set (rev (drop (Suc k) ags)). recoverable E a \<and> me \<notin> signers_of E a"
    using assms(1,2) by (auto simp: in_set_conv_nth dest: in_set_dropD)
  from votesLoop_skip [OF this, of "votes_start R" zs] assms(3) show ?thesis
    by (simp add: votes_start_def truthy_def)
qed

lemma votes_window:
  assumes fork: "fs_getFork (forkService am) (js_Number forkCnt) = Some fork"
    and num: "js_Number forkCnt = num_value forkCnt"
  shows "am_getFinalizedAndLatestWithVotes E am forkCnt me =
    rmap (\<lambda>v. \<lparr>encodedLatestFinalizedState =
                  (case v_finalized v of None \<Rightarrow> forkGenesisStateEncoded fork | Some s \<Rightarrow> s),
                encodedLatestCorrectState =
                  (case v_correct v of None \<Rightarrow> forkGenesisStateEncoded fork | Some s \<Rightarrow> s),
                virtualVotingBlocks = v_blocks v\<rparr>)
      (votesLoop E me (rev (agreements fork)) (votes_start (fromArray (addressesInThreshold fork))))"
proof -
  have "num_value forkCnt < length (forkService am)" "forkService am ! num_value forkCnt = fork"
    using fork num by (auto simp: fs_getFork_iff)
  then show ?thesis using fork num
    by (simp add: am_getFinalizedAndLatestWithVotes_def fs_agreementsIterator_def
        fs_isValidForkCnt_def votes_start_def)
qed

section \<open>Votes\<close>

text \<open>
  C19. The votes collected for a dispute when part of the chain is final: with \<open>k\<close> the latest
  block the disputer signed and \<open>m\<close> the latest block at or below it such that every participant
  of the fork signed some block of \<open>m..k\<close>, \<open>getFinalizedAndLatestWithVotes\<close> returns the state of
  \<open>m\<close> as finalized, the state of \<open>k\<close> as the latest correct one, and exactly the blocks \<open>m..k\<close>
  with all their signatures, oldest first.
\<close>

theorem votes_with_finalized:
  assumes fork: "fs_getFork (forkService am) (js_Number forkCnt) = Some fork"
    and num: "js_Number forkCnt = num_value forkCnt"
    and rec: "\<forall>a \<in> set (agreements fork). recoverable E a"
    and mk: "m \<le> k" "k < length (agreements fork)"
    and latest: "me \<in> signers_of E (agreements fork ! k)" "ag_encodedState (agreements fork ! k) \<noteq> ''''"
      "\<forall>j. k < j \<and> j < length (agreements fork) \<longrightarrow> me \<notin> signers_of E (agreements fork ! j)"
    and cover: "set (addressesInThreshold fork) \<subseteq> (\<Union>i \<in> {m..k}. signers_of E (agreements fork ! i))"
    and minimal: "\<forall>m'. m < m' \<and> m' \<le> k \<longrightarrow> \<not> set (addressesInThreshold fork) \<subseteq>
      (\<Union>i \<in> {m'..k}. signers_of E (agreements fork ! i))"
  shows "am_getFinalizedAndLatestWithVotes E am forkCnt me =
    Inr \<lparr>encodedLatestFinalizedState = ag_encodedState (agreements fork ! m),
         encodedLatestCorrectState = ag_encodedState (agreements fork ! k),
         virtualVotingBlocks = map (\<lambda>i. confirmed_of E (agreements fork ! i)) [m..<Suc k]\<rparr>"
proof -
  let ?ags = "agreements fork" and ?R = "fromArray (addressesInThreshold fork)"
  define ws where "ws = rev (map (nth ?ags) [Suc m..<Suc k])"
  have split: "rev ?ags = rev (drop (Suc k) ?ags) @ (ws @ [?ags ! m]) @ rev (take m ?ags)"
    unfolding ws_def by (rule rev_split_window [OF mk])
  have hd: "hd (ws @ [?ags ! m]) = ?ags ! k" unfolding ws_def by (rule hd_window [OF mk(1)])
  have "set (ws @ [?ags ! m]) \<subseteq> set ?ags" using mk by (auto simp: ws_def)
  then have sub: "\<forall>a \<in> set (ws @ [?ags ! m]). recoverable E a" using rec by blast
  have none: "\<forall>p q. ws = p @ q \<and> p \<noteq> [] \<longrightarrow> \<not> covers E (set ?R) p"
  proof (intro allI impI)
    fix p q assume "ws = p @ q \<and> p \<noteq> []"
    then obtain m' where m': "Suc m \<le> m'" "m' \<le> k" "set p = nth ?ags ` {m'..k}"
      using prefix_window [of ?ags "Suc m" k p q] unfolding ws_def by auto
    then have "\<not> set (addressesInThreshold fork) \<subseteq> (\<Union>i \<in> {m'..k}. signers_of E (?ags ! i))"
      using minimal by auto
    then show "\<not> covers E (set ?R) p" by (simp add: covers_def m'(3))
  qed
  have "{m..k} = insert m {Suc m..k}" using mk(1) by auto
  then have all: "covers E (set ?R) (ws @ [?ags ! m])"
    using cover by (auto simp: covers_def ws_def simp del: upt_Suc)
  obtain req where loop: "votesLoop E me ((ws @ [?ags ! m]) @ rev (take m ?ags)) (votes_start ?R) =
      Inr \<lparr>v_finalized = Some (ag_encodedState (?ags ! m)),
           v_correct = Some (ag_encodedState (hd (ws @ [?ags ! m]))),
           v_blocks = rev (map (confirmed_of E) (ws @ [?ags ! m])), v_required = req\<rparr>"
    using votesLoop_final [of ws "?ags ! m" E me ?R "rev (take m ?ags)"] latest(1,2) none all sub
    by (simp only: hd) blast
  have blocks: "rev (map (confirmed_of E) (ws @ [?ags ! m])) =
      map (\<lambda>i. confirmed_of E (?ags ! i)) [m..<Suc k]"
    using mk(1) by (simp add: ws_def rev_map upt_conv_Cons del: upt_Suc)
  show ?thesis
    using skip_window [OF rec latest(3) split] loop hd blocks
    by (simp add: votes_window [OF fork num] del: upt_Suc)
qed

text \<open>
  C13. The votes when no suffix of the chain up to the disputer's latest block \<open>k\<close> has the
  signatures of all participants: the genesis state of the fork counts as finalized and all
  blocks \<open>0..k\<close> are handed in.
\<close>

theorem votes_without_finalized:
  assumes fork: "fs_getFork (forkService am) (js_Number forkCnt) = Some fork"
    and num: "js_Number forkCnt = num_value forkCnt"
    and rec: "\<forall>a \<in> set (agreements fork). recoverable E a"
    and k: "k < length (agreements fork)"
    and latest: "me \<in> signers_of E (agreements fork ! k)" "ag_encodedState (agreements fork ! k) \<noteq> ''''"
      "\<forall>j. k < j \<and> j < length (agreements fork) \<longrightarrow> me \<notin> signers_of E (agreements fork ! j)"
    and minimal: "\<forall>m'. m' \<le> k \<longrightarrow> \<not> set (addressesInThreshold fork) \<subseteq>
      (\<Union>i \<in> {m'..k}. signers_of E (agreements fork ! i))"
  shows "am_getFinalizedAndLatestWithVotes E am forkCnt me =
    Inr \<lparr>encodedLatestFinalizedState = forkGenesisStateEncoded fork,
         encodedLatestCorrectState = ag_encodedState (agreements fork ! k),
         virtualVotingBlocks = map (confirmed_of E) (take (Suc k) (agreements fork))\<rparr>"
proof -
  let ?ags = "agreements fork" and ?R = "fromArray (addressesInThreshold fork)"
  define ws where "ws = rev (map (nth ?ags) [0..<Suc k])"
  have take: "map (nth ?ags) [0..<Suc k] = take (Suc k) ?ags"
    using k by (intro nth_equalityI) (auto simp: min_def simp del: upt_Suc)
  have split: "rev ?ags = rev (drop (Suc k) ?ags) @ ws @ []"
    unfolding ws_def take by (metis append.right_neutral append_take_drop_id rev_append)
  have ws: "ws = ?ags ! k # tl ws" unfolding ws_def by simp
  have "set ws \<subseteq> set ?ags" using k by (auto simp: ws_def)
  then have sub: "\<forall>a \<in> set ws. recoverable E a" using rec by blast
  have none: "\<forall>p q. ws = p @ q \<and> p \<noteq> [] \<longrightarrow> \<not> covers E (set ?R) p"
  proof (intro allI impI)
    fix p q assume "ws = p @ q \<and> p \<noteq> []"
    then obtain m' where m': "m' \<le> k" "set p = nth ?ags ` {m'..k}"
      using prefix_window [of ?ags 0 k p q] unfolding ws_def by auto
    then show "\<not> covers E (set ?R) p" using minimal by (auto simp: covers_def)
  qed
  obtain req where loop: "votesLoop E me (ws @ []) (votes_start ?R) = votesLoop E me []
      \<lparr>v_finalized = None, v_correct = Some (ag_encodedState (?ags ! k)),
       v_blocks = rev (map (confirmed_of E) ws), v_required = req\<rparr>"
    using votesLoop_open [of "?ags ! k" "tl ws" E me ?R "[]", folded ws] sub latest(1,2) none by blast
  have "rev (map (confirmed_of E) ws) = map (confirmed_of E) (take (Suc k) ?ags)"
    by (simp add: ws_def rev_map take del: upt_Suc)
  then show ?thesis
    using skip_window [OF rec latest(3) split] loop by (simp add: votes_window [OF fork num])
qed

lemma sample_chain_nth [simp]:
  "length sample_chain = 2" "sample_chain ! 0 = sample_chain0" "sample_chain ! Suc 0 = sample_chain1"
  "sample_chain ! 1 = sample_chain1" "set sample_chain = {sample_chain0, sample_chain1}"
  by (simp_all add: sample_chain_def sample_chain0_def sample_chain1_def)

lemma sample_signers [simp]:
  "signers_of sampleE sample_chain0 = {''A'', ''B''}" "signers_of sampleE sample_chain1 = {''A''}"
  "recoverable sampleE sample_chain0" "recoverable sampleE sample_chain1"
  by (auto simp: signers_of_def recoverable_def)

lemma sample_am_fork [simp]:
  "fs_getFork (forkService (sample_am ags)) 0 = Some (sample_fork ags)"
  by (simp add: sample_am_def fs_getFork_def fs_isValidForkCnt_def nth_opt_def)

lemma sample_fork_fields [simp]:
  "agreements (sample_fork ags) = ags" "addressesInThreshold (sample_fork ags) = [''A'', ''B'']"
  "forkGenesisStateEncoded (sample_fork ags) = ''s''" "genesisTimestamp (sample_fork ags) = 90"
  "chainBlocks (sample_fork ags) = []"
  by (simp_all add: sample_fork_def)

theorem votes_with_finalized_witness:
  "am_getFinalizedAndLatestWithVotes sampleE (sample_am sample_chain) (BigInt 0) ''A'' =
     Inr \<lparr>encodedLatestFinalizedState = ''s1'', encodedLatestCorrectState = ''s11'',
          virtualVotingBlocks =
            [\<lparr>cb_encodedBlock = ''b0'',
              cb_signatures = [sig_of CHR ''B'' ''b0'', sig_of CHR ''A'' ''b0'']\<rparr>,
             \<lparr>cb_encodedBlock = ''b1'', cb_signatures = [sig_of CHR ''A'' ''b1'']\<rparr>]\<rparr>"
proof -
  have "am_getFinalizedAndLatestWithVotes sampleE (sample_am sample_chain) (BigInt 0) ''A'' =
    Inr \<lparr>encodedLatestFinalizedState = ag_encodedState (agreements (sample_fork sample_chain) ! 0),
         encodedLatestCorrectState = ag_encodedState (agreements (sample_fork sample_chain) ! 1),
         virtualVotingBlocks =
           map (\<lambda>i. confirmed_of sampleE (agreements (sample_fork sample_chain) ! i)) [0..<Suc 1]\<rparr>"
  proof (rule votes_with_finalized)
    have "{0..Suc 0} = {0, 1}" by auto
    then show "set (addressesInThreshold (sample_fork sample_chain)) \<subseteq>
        (\<Union>i \<in> {0..1}. signers_of sampleE (agreements (sample_fork sample_chain) ! i))" by simp
    show "\<forall>m'. 0 < m' \<and> m' \<le> 1 \<longrightarrow> \<not> set (addressesInThreshold (sample_fork sample_chain)) \<subseteq>
        (\<Union>i \<in> {m'..1}. signers_of sampleE (agreements (sample_fork sample_chain) ! i))"
    proof (intro allI impI)
      fix m' :: nat assume "0 < m' \<and> m' \<le> 1"
      then have "m' = 1" by auto
      then show "\<not> set (addressesInThreshold (sample_fork sample_chain)) \<subseteq>
        (\<Union>i \<in> {m'..1}. signers_of sampleE (agreements (sample_fork sample_chain) ! i))" by simp
    qed
  qed auto
  then show ?thesis by (simp add: confirmed_of_def)
qed

theorem votes_without_finalized_witness:
  "am_getFinalizedAndLatestWithVotes sampleE (sample_am [sample_chain1]) (BigInt 0) ''A'' =
     Inr \<lparr>encodedLatestFinalizedState = ''s'', encodedLatestCorrectState = ''s11'',
          virtualVotingBlocks =
            [\<lparr>cb_encodedBlock = ''b1'', cb_signatures = [sig_of CHR ''A'' ''b1'']\<rparr>]\<rparr>"
proof -
  have "am_getFinalizedAndLatestWithVotes sampleE (sample_am [sample_chain1]) (BigInt 0) ''A'' =
    Inr \<lparr>encodedLatestFinalizedState = forkGenesisStateEncoded (sample_fork [sample_chain1]),
         encodedLatestCorrectState = ag_encodedState (agreements (sample_fork [sample_chain1]) ! 0),
         virtualVotingBlocks =
           map (confirmed_of sampleE) (take (Suc 0) (agreements (sample_fork [sample_chain1])))\<rparr>"
    by (rule votes_without_finalized) auto
  then show ?thesis by (simp add: confirmed_of_def)
qed

section \<open>Signatures\<close>

text \<open>
  C31. A stored block is final for \<open>didEveryoneSignBlock\<close> exactly when the block asked about is
  the stored one and every address of its fork's threshold recovers from one of its
  signatures.
\<close>

theorem didEveryoneSign_iff:
  assumes "fs_getAgreement (forkService am) (getFork b) (getHeight b) = Some a"
    and "recoverable E a"
  shows "am_didEveryoneSignBlock E am b = Inr True \<longleftrightarrow>
    areBlocksEqual E (ag_block a) b \<and>
    set (addressesInThreshold (forkService am ! getFork b)) \<subseteq> signers_of E a"
  by (rule everyone_iff [OF assms])

theorem didEveryoneSign_iff_witness:
  "am_didEveryoneSignBlock sampleE (sample_am sample_chain) block0 = Inr True \<and>
   am_didEveryoneSignBlock sampleE (sample_am sample_chain) block1 \<noteq> Inr True"
proof -
  have 0: "fs_getAgreement (forkService (sample_am sample_chain)) (getFork block0) (getHeight block0) =
      Some sample_chain0"
    and 1: "fs_getAgreement (forkService (sample_am sample_chain)) (getFork block1) (getHeight block1) =
      Some sample_chain1"
    by (simp_all add: fs_defs nth_opt_def sample_am_def)
  show ?thesis
    using didEveryoneSign_iff [OF 0, of sampleE] didEveryoneSign_iff [OF 1, of sampleE]
    by (simp add: sample_am_def)
qed

text \<open>
  C24. The proof material of a double sign is genuine: what \<open>getDoubleSignedBlock\<close> returns for a
  signed block \<open>b\<close> is a different block of the same author for the same fork and height, with a
  signature that recovers to that author.
\<close>

theorem doubleSigned_genuine:
  assumes "chain_ok am" and "decodeBlock E (sb_encodedBlock sb) = Inr b"
    and "am_getDoubleSignedBlock E am sb = Inr (Some sb')"
  shows "\<exists>b'. sb_encodedBlock sb' = encodeBlock E b' \<and> encodeBlock E b' \<noteq> encodeBlock E b \<and>
    getFork b' = getFork b \<and> getHeight b' = getHeight b \<and> getBlockAuthor b' = getBlockAuthor b \<and>
    retrieveSignerAddressBlock E b' (sb_signature sb') = Inr (getBlockAuthor b)"
proof (rule am_getDoubleSignedBlock_sound [OF assms(3,2)])
  fix a assume "fs_getAgreement (forkService am) (getFork b) (getHeight b) = Some a"
    "sb_encodedBlock sb' = encodeBlock E (ag_block a)" "encodeBlock E (ag_block a) \<noteq> encodeBlock E b"
    "getBlockAuthor (ag_block a) = getBlockAuthor b"
    "retrieveSignerAddressBlock E (ag_block a) (sb_signature sb') = Inr (getBlockAuthor b)"
  with chain_okD [OF assms(1)] show ?thesis
    by (intro exI [of _ "ag_block a"]) (auto simp: agreement_at_def)
qed

lemma sample_chain_ok: "chain_ok (sample_am sample_chain)"
  by (auto simp: chain_ok_def fs_defs nth_opt_def sample_am_def agreement_at_def sample_chain_def
      less_Suc_eq split: if_splits)

theorem doubleSigned_genuine_witness:
  "\<exists>sb'. am_getDoubleSignedBlock sampleE (sample_am sample_chain) (signed ''c0'' CHR ''B'') = Inr (Some sb') \<and>
     (\<exists>b'. sb_encodedBlock sb' = encodeBlock sampleE b' \<and>
        encodeBlock sampleE b' \<noteq> encodeBlock sampleE block0' \<and> getFork b' = 0 \<and> getHeight b' = 0 \<and>
        getBlockAuthor b' = ''B'' \<and>
        retrieveSignerAddressBlock sampleE b' (sb_signature sb') = Inr ''B'')"
proof -
  have dec: "decodeBlock sampleE (sb_encodedBlock (signed ''c0'' CHR ''B'')) = Inr block0'"
    by (simp add: signed_def)
  have run: "am_getDoubleSignedBlock sampleE (sample_am sample_chain) (signed ''c0'' CHR ''B'') =
      Inr (Some \<lparr>sb_encodedBlock = ''b0'', sb_signature = sig_of CHR ''B'' ''b0''\<rparr>)"
    by (simp add: am_getDoubleSignedBlock_def dec fs_getAgreementByBlock_eq fs_defs nth_opt_def
        sample_am_def areBlocksEqual_def)
  show ?thesis using run doubleSigned_genuine [OF sample_chain_ok dec run] by simp
qed

text \<open>
  C25. \<open>BlockValidator.check\<close> finds a block ready exactly when its signature recovers to its
  author, it is neither stored nor queued, its fork exists, its place is free, and it links to
  the hash of the genesis state (height 0) or to the state hash of the block before it.
\<close>

theorem check_ready_iff:
  assumes "decodeBlock E (sb_encodedBlock sb) = Inr b"
  shows "am_checkBlock E am sb = Inr AF_READY \<longleftrightarrow>
    retrieveSignerAddressBlock E b (sb_signature sb) = Inr (getBlockAuthor b) \<and>
    \<not> am_isBlockDuplicate E am b \<and> getFork b < length (forkService am) \<and>
    fs_getAgreement (forkService am) (getFork b) (getHeight b) = None \<and>
    (if getHeight b = 0
     then blk_previousStateHash b =
       keccak256 E (forkGenesisStateEncoded (forkService am ! getFork b))
     else \<exists>a. fs_getAgreement (forkService am) (getFork b) (getHeight b - 1) = Some a \<and>
       blk_stateHash (ag_block a) = blk_previousStateHash b)"
proof (cases "retrieveSignerAddressBlock E b (sb_signature sb)")
  case (Inl e)
  with assms show ?thesis by (simp add: bv_check_def getCoordinates_eq Let_def)
next
  case (Inr p)
  with assms show ?thesis
    by (auto simp: bv_check_def getCoordinates_eq Let_def fs_isValidForkCnt_def fs_getBlock_def
        split: option.splits if_splits)
qed

theorem check_ready_iff_witness:
  "am_checkBlock sampleE (sample_am []) (signed ''b0'' CHR ''B'') = Inr AF_READY \<and>
   am_checkBlock sampleE (sample_am []) (signed ''b0'' CHR ''A'') \<noteq> Inr AF_READY"
proof -
  have dec: "decodeBlock sampleE (sb_encodedBlock (signed ''b0'' c)) = Inr block0" for c
    by (simp add: signed_def)
  show ?thesis
    using check_ready_iff [OF dec, of "sample_am []" "CHR ''B''"]
      check_ready_iff [OF dec, of "sample_am []" "CHR ''A''"]
    by (simp add: bv_isBlockDuplicate_def bv_isBlockInChain_def qs_isBlockQueued_def getCoordinates_eq
        fs_getAgreementByBlock_eq fs_defs nth_opt_def sample_am_def qs_init_def queue_get_def
        signed_def)
qed

text \<open>
  Confirming a block records the signature at that block only: afterwards the signature is
  found, confirming again with it is refused, and every other agreement is what it was.
\<close>

theorem confirm_roundtrip:
  assumes "am_confirmBlock E b sig am = Inr am'"
  shows "am_doesSignatureExist E am' b sig = Inr True \<and>
    am_confirmBlock E b sig am' = Inl (Error ''AgreementManager - confirmBlock - block already confirmed'') \<and>
    (\<forall>f i. (f, i) \<noteq> (getFork b, getHeight b) \<longrightarrow>
       fs_getAgreement (forkService am') f i = fs_getAgreement (forkService am) f i)"
proof -
  obtain a where a: "fs_getAgreement (forkService am) (getFork b) (getHeight b) = Some a"
    "areBlocksEqual E (ag_block a) b"
    and am': "am' = am\<lparr>forkService := fs_pushSignature (getFork b) (getHeight b) sig (forkService am)\<rparr>"
    using assms by (auto simp: am_confirmBlock_Inr)
  note push = fs_pushSignature_getAgreement [OF a(1), of sig]
  show ?thesis using a
    by (auto simp: am' am_doesSignatureExist_def am_confirmBlock_def fs_getAgreementByBlock_eq push
        sig_doesSignatureExist_def)
qed

theorem confirm_roundtrip_witness:
  "\<exists>am'. am_confirmBlock sampleE block1 (sig_of CHR ''B'' ''b1'') (sample_am sample_chain) = Inr am' \<and>
     am_doesSignatureExist sampleE am' block1 (sig_of CHR ''B'' ''b1'') = Inr True"
proof -
  obtain am' where "am_confirmBlock sampleE block1 (sig_of CHR ''B'' ''b1'') (sample_am sample_chain) = Inr am'"
    by (simp add: am_confirmBlock_def fs_getAgreementByBlock_eq fs_defs nth_opt_def sample_am_def
        sig_doesSignatureExist_def sig_of_def)
  with confirm_roundtrip [OF this] show ?thesis by blast
qed

text \<open>
  C25. \<open>getLatestSignedBlockByParticipant\<close> returns the latest block of the fork that carries a
  signature of the participant: its signature recovers to the participant and no later
  agreement has one.
\<close>

theorem latest_signed_block:
  assumes "am_getLatestSignedBlockByParticipant E am f p = Inr (Some (b, s))"
  shows "\<exists>i a. fs_getAgreement (forkService am) f i = Some a \<and> b = ag_block a \<and>
    s \<in> set (ag_blockSignatures a) \<and> retrieveSignerAddressBlock E b s = Inr p \<and>
    (\<forall>j c. i < j \<longrightarrow> fs_getAgreement (forkService am) f j = Some c \<longrightarrow> p \<notin> signers_of E c)"
proof -
  let ?ags = "agreements (forkService am ! f)"
  have f: "f < length (forkService am)"
    and "latestSignedLoop E p (rev ?ags) = Inr (Some (b, s))"
    using assms by (auto simp: am_getLatestSignedBlockByParticipant_def fs_isValidForkCnt_def
        fs_agreementsIterator_def split: if_splits)
  then obtain us a vs where split: "rev ?ags = us @ a # vs" and a: "b = ag_block a"
    "s \<in> set (ag_blockSignatures a)" "retrieveSignerAddressBlock E b s = Inr p"
    and later: "\<forall>u \<in> set us. p \<notin> signers_of E u"
    using latestSignedLoop_Some [of E p "rev ?ags" b s] by blast
  have ags: "?ags = rev vs @ a # rev us" using split by (simp add: rev_swap)
  have "fs_getAgreement (forkService am) f (length vs) = Some a"
    using f nth_append_length [of "rev vs" a "rev us"] by (simp add: fs_defs nth_opt_def ags)
  moreover have "p \<notin> signers_of E c"
    if "length vs < j" and "fs_getAgreement (forkService am) f j = Some c" for j c
  proof -
    have "c = ?ags ! j" "j < length ?ags" using fs_getAgreement_SomeD [OF that(2)] by auto
    then have "c \<in> set us" using that(1) by (auto simp: ags nth_append nth_Cons' rev_nth)
    then show ?thesis using later by simp
  qed
  ultimately show ?thesis using a by blast
qed

theorem latest_signed_block_witness:
  "am_getLatestSignedBlockByParticipant sampleE (sample_am sample_chain) 0 ''B'' =
     Inr (Some (block0, sig_of CHR ''B'' ''b0'')) \<and>
   (\<exists>i a. fs_getAgreement (forkService (sample_am sample_chain)) 0 i = Some a \<and> block0 = ag_block a)"
proof -
  have run: "am_getLatestSignedBlockByParticipant sampleE (sample_am sample_chain) 0 ''B'' =
     Inr (Some (block0, sig_of CHR ''B'' ''b0''))"
    by (simp add: am_getLatestSignedBlockByParticipant_def fs_isValidForkCnt_def sample_am_def
        fs_agreementsIterator_def sample_chain_def)
  with latest_signed_block [OF run] show ?thesis by blast
qed

section \<open>Queues and on-chain posts\<close>

text \<open>
  C38. A block queued before its turn comes back when its fork and height are dequeued, once:
  a second dequeue finds nothing, and what waits at other heights or forks is unaffected.
\<close>

theorem queue_roundtrip:
  assumes "qs_wf qs" and "decodeBlock E (sb_encodedBlock sb) = Inr b"
    and "qs_queueBlock E sb qs = Inr qs'"
  shows "sb \<in> set (fst (qs_tryDequeueBlocks (getFork b) (getHeight b) qs')) \<and>
    fst (qs_tryDequeueBlocks (getFork b) (getHeight b)
      (snd (qs_tryDequeueBlocks (getFork b) (getHeight b) qs'))) = [] \<and>
    (\<forall>f h. (f, h) \<noteq> (getFork b, getHeight b) \<longrightarrow>
       set (fst (qs_tryDequeueBlocks f h qs')) = set (fst (qs_tryDequeueBlocks f h qs)))"
proof -
  let ?q = "blockQ qs" and ?f = "getFork b" and ?h = "getHeight b"
  define q' where "q' = insertNestedMapWithOverwrite ?q ?f ?h (getBlockAuthor b) sb"
  have wf: "queue_wf ?q" and wf': "queue_wf q'"
    using assms(1) pq.wf_park by (auto simp: qs_wf_def q'_def)
  have qs': "blockQ qs' = q'" using assms(2,3) by (auto simp: qs_queueBlock_Inr q'_def)
  have fst: "fst (qs_tryDequeueBlocks f h s) = fst (tryDequeue (blockQ s) f h)"
    and snd: "blockQ (snd (qs_tryDequeueBlocks f h s)) = snd (tryDequeue (blockQ s) f h)" for f h s
    by (simp_all add: qs_tryDequeueBlocks_def split: prod.split)
  have "set (fst (tryDequeue q' f h)) = set (fst (tryDequeue ?q f h))" if "(f, h) \<noteq> (?f, ?h)" for f h
    using that pq.take_out_set [OF wf'] pq.take_out_set [OF wf] unfolding q'_def pq.peek_park by auto
  then show ?thesis
    using pq.take_out_park [OF wf, of sb ?f ?h "getBlockAuthor b"] pq.take_out_twice [OF wf', of ?f ?h]
    unfolding fst snd qs' by (simp add: q'_def)
qed

theorem queue_roundtrip_witness:
  "\<exists>qs'. qs_queueBlock sampleE (signed ''b1'' CHR ''A'') qs_init = Inr qs' \<and>
     signed ''b1'' CHR ''A'' \<in> set (fst (qs_tryDequeueBlocks 0 1 qs'))"
proof -
  have dec: "decodeBlock sampleE (sb_encodedBlock (signed ''b1'' CHR ''A'')) = Inr block1"
    by (simp add: signed_def)
  then obtain qs' where q: "qs_queueBlock sampleE (signed ''b1'' CHR ''A'') qs_init = Inr qs'"
    by (simp add: qs_queueBlock_Inr)
  with queue_roundtrip [OF qs_wf_init dec q] show ?thesis by auto
qed

text \<open>
  What \<open>collectOnChainBlock\<close> does with a posted block: a bad signature, incorrect data or a
  double sign leave the manager as it was; otherwise the post is on record for the block's
  author, fork and height, and no chain changed.
\<close>

theorem collect_records:
  assumes "am_collectOnChainBlock E sb t am = (Inr flag, am')"
    and "decodeBlock E (sb_encodedBlock sb) = Inr b"
  shows "if flag \<in> {AF_INVALID_SIGNATURE, AF_INCORRECT_DATA, AF_DOUBLE_SIGN} then am' = am
    else am_didParticipantPostOnChain am' (getFork b) (getHeight b) (getBlockAuthor b) \<and>
         same_chains am am'"
proof (cases "flag \<in> {AF_INVALID_SIGNATURE, AF_INCORRECT_DATA, AF_DOUBLE_SIGN}")
  case True
  with assms show ?thesis
    by (auto simp: am_collectOnChainBlock_def ct_collect_def res_simps getCoordinates_eq
        split: if_splits)
next
  case False
  have "same_chains am am'" using keepsD [OF same_chains_collect assms(1)] .
  moreover obtain am1 where "ct_recordPost (getFork b) (getHeight b) (getBlockAuthor b) t am1 = (Inr (), am')"
    using assms False
    by (auto simp: am_collectOnChainBlock_def ct_collect_def res_simps getCoordinates_eq
        split: if_splits)
  ultimately show ?thesis using False ct_recordPost_hasPosted by auto
qed

lemma sample_check0:
  "bv_check sampleE (sample_am []) (signed ''b0'' CHR ''B'') = Inr AF_READY"
proof -
  have dec: "decodeBlock sampleE (sb_encodedBlock (signed ''b0'' CHR ''B'')) = Inr block0"
    by (simp add: signed_def)
  show ?thesis
    by (simp add: bv_check_def dec getCoordinates_eq Let_def signed_def bv_isBlockDuplicate_def
        bv_isBlockInChain_def qs_isBlockQueued_def fs_getAgreementByBlock_eq fs_defs nth_opt_def
        sample_am_def qs_init_def queue_get_def)
qed

theorem collect_records_witness:
  "\<exists>am'. am_collectOnChainBlock sampleE (signed ''b0'' CHR ''B'') 95 (sample_am []) = (Inr AF_READY, am') \<and>
     am_didParticipantPostOnChain am' 0 0 ''B''"
proof -
  have dec: "decodeBlock sampleE (sb_encodedBlock (signed ''b0'' CHR ''B'')) = Inr block0"
    by (simp add: signed_def)
  obtain am' where run: "am_collectOnChainBlock sampleE (signed ''b0'' CHR ''B'') 95 (sample_am []) =
      (Inr AF_READY, am')"
    by (simp add: am_collectOnChainBlock_def ct_collect_def sbind_def sread_def dec
        sample_check0 [unfolded sample_am_def]
        qs_queueBlock_def ct_recordPost_def ct_hasPosted_def fs_addChainBlock_def sreturn_def
        getCoordinates_eq fs_isValidForkCnt_def fs_getFork_def nth_opt_def sample_am_def)
  from collect_records [OF run dec] run show ?thesis by auto
qed

text \<open>
  A posted block of a fork that the node has not set up yet is queued for later, but the
  call then throws: the post is not recorded, and the caller's remaining work does not happen.
\<close>

theorem collect_unknown_fork_throws:
  assumes "decodeBlock E (sb_encodedBlock sb) = Inr b"
    and "retrieveSignerAddressBlock E b (sb_signature sb) = Inr (getBlockAuthor b)"
    and "\<not> am_isBlockDuplicate E am b" and "length (forkService am) \<le> getFork b"
  shows "\<exists>qs. qs_queueBlock E sb (queueService am) = Inr qs \<and>
    am_collectOnChainBlock E sb t am =
      (Inl (Error ''ForkService - addChainBlock - Invalid fork count''), am\<lparr>queueService := qs\<rparr>)"
proof -
  have "bv_check E am sb = Inr AF_NOT_READY"
    using assms by (simp add: bv_check_def getCoordinates_eq Let_def fs_isValidForkCnt_def)
  moreover obtain qs where "qs_queueBlock E sb (queueService am) = Inr qs"
    using assms(1) by (simp add: qs_queueBlock_Inr)
  ultimately show ?thesis
    using assms(1,4)
    by (simp add: am_collectOnChainBlock_def ct_collect_def sbind_def sread_def ct_recordPost_def
        ct_hasPosted_def fs_addChainBlock_def getCoordinates_eq fs_isValidForkCnt_def fs_getFork_def)
qed

theorem collect_unknown_fork_throws_witness:
  "\<exists>qs. am_collectOnChainBlock sampleE (signed ''b0'' CHR ''B'') 95 am_init =
      (Inl (Error ''ForkService - addChainBlock - Invalid fork count''), am_init\<lparr>queueService := qs\<rparr>)"
proof -
  have dec: "decodeBlock sampleE (sb_encodedBlock (signed ''b0'' CHR ''B'')) = Inr block0"
    by (simp add: signed_def)
  have "\<not> am_isBlockDuplicate sampleE am_init block0"
    by (simp add: bv_isBlockDuplicate_def bv_isBlockInChain_def qs_isBlockQueued_def getCoordinates_eq
        fs_getAgreementByBlock_eq fs_defs am_init_def qs_init_def queue_get_def)
  with collect_unknown_fork_throws [OF dec, of am_init 95] show ?thesis
    by (auto simp: signed_def am_init_def)
qed

text \<open>
  C39. The reference time of a block: the latest of the fork's genesis, the last block of its
  chain, and the on-chain posts at the block's height or below.
\<close>

theorem latest_timestamp_max:
  assumes "f < length (forkService am)"
  shows "am_getLatestTimestamp am f h = Inr (Max
    ({genesisTimestamp (forkService am ! f)} \<union>
     (\<lambda>a. getTimestamp (ag_block a)) ` set_option (at_last (agreements (forkService am ! f))) \<union>
     chb_timestamp ` {cb \<in> set (chainBlocks (forkService am ! f)). chb_transactionCnt cb \<le> h}))"
proof -
  let ?F = "forkService am ! f"
  let ?C = "chb_timestamp ` {cb \<in> set (chainBlocks ?F). chb_transactionCnt cb \<le> h}"
  let ?L = "(\<lambda>a. getTimestamp (ag_block a)) ` set_option (at_last (agreements ?F))"
  have F: "fs_getFork (forkService am) f = Some ?F" "nth_opt (forkService am) f = Some ?F"
    using assms by (auto simp: fs_getFork_iff nth_opt_def)
  define l where "l = (case at_last (agreements ?F) of None \<Rightarrow> 0 | Some a \<Rightarrow> getTimestamp (ag_block a))"
  have "am_getLatestTimestamp am f h = Inr (max (max (genesisTimestamp ?F) l) (ct_latestLoop h 0 (chainBlocks ?F)))"
    by (simp add: bv_latestRelevantTimestamp_def bv_latestBlockTimestamp_def ct_latestTimestamp_def F
        fs_getLatestAgreement_def Let_def l_def)
  moreover have "max (max (genesisTimestamp ?F) l) (ct_latestLoop h 0 (chainBlocks ?F)) =
      Max ({genesisTimestamp ?F} \<union> ?L \<union> ?C)"
  proof -
    define C where "C = ?C"
    have fin: "finite C" by (simp add: C_def)
    have c: "ct_latestLoop h 0 (chainBlocks ?F) = Max (insert 0 C)"
      by (simp only: ct_latestLoop_max C_def)
    have l: "max (genesisTimestamp ?F) l = Max ({genesisTimestamp ?F} \<union> ?L)"
      by (cases "agreements ?F = []") (simp_all add: l_def at_last_def)
    have L: "finite ({genesisTimestamp ?F} \<union> ?L)" by simp
    show ?thesis
      unfolding C_def [symmetric] c l
    proof (cases "C = {}")
      case False
      then show "max (Max ({genesisTimestamp ?F} \<union> ?L)) (Max (insert 0 C)) = Max ({genesisTimestamp ?F} \<union> ?L \<union> C)"
        using fin L Max_Un [OF L _ fin False] by (simp add: Max_insert del: Un_insert_left)
    qed (simp del: Un_insert_left)
  qed
  ultimately show ?thesis by simp
qed

theorem latest_timestamp_max_witness:
  "am_getLatestTimestamp (sample_am sample_chain) 0 2 = Inr 101"
  using latest_timestamp_max [of 0 "sample_am sample_chain" 2]
  by (simp add: sample_am_def at_last_def sample_chain_def)

end
