(* ===== verification/Concurrency.thy ===== *)
theory Concurrency
  imports Prelude
begin

text \<open>
  The concurrency helpers of \<open>src/utils\<close>: \<open>Mutex.ts\<close>, \<open>BarrierLocal.ts\<close> and \<open>retry.ts\<close>.
  A pending promise is the value \<open>'w\<close> that says who waits; granting it moves the waiter out of
  the queue. Mutex and barrier are both first-in first-out gates, so what the callers rely on is
  proved once in the locale \<open>fifo_gate\<close>.
\<close>

section \<open>Mutex\<close>

record 'w mutex =
  isLocked :: bool
  mutexQueue :: "'w list"

definition mutex_new :: "'w mutex" where
  "mutex_new = \<lparr>isLocked = False, mutexQueue = []\<rparr>"

text \<open>\<open>lock()\<close>: true when the returned promise is resolved at once.\<close>

definition mutex_lock :: "'w \<Rightarrow> 'w mutex \<Rightarrow> bool \<times> 'w mutex" where
  "mutex_lock w m =
     (if isLocked m then (False, m\<lparr>mutexQueue := mutexQueue m @ [w]\<rparr>)
      else (True, m\<lparr>isLocked := True\<rparr>))"

text \<open>\<open>unlock()\<close>: hands the lock to the first waiter, if any.\<close>

definition mutex_unlock :: "'w mutex \<Rightarrow> 'w option \<times> 'w mutex" where
  "mutex_unlock m =
     (if length (mutexQueue m) > 0
      then (Some (hd (mutexQueue m)), m\<lparr>mutexQueue := tl (mutexQueue m)\<rparr>)
      else (None, m\<lparr>isLocked := False\<rparr>))"

section \<open>BarrierLocal\<close>

record 'w barrier =
  barrierCount :: nat
  barrierQueue :: "'w list"

definition barrier_new :: "'w barrier" where
  "barrier_new = \<lparr>barrierCount = 0, barrierQueue = []\<rparr>"

definition barrier_tryPass :: "'w \<Rightarrow> 'w barrier \<Rightarrow> bool \<times> 'w barrier" where
  "barrier_tryPass w b =
     (if barrierCount b > 0 then (True, b\<lparr>barrierCount := barrierCount b - 1\<rparr>)
      else (False, b\<lparr>barrierQueue := barrierQueue b @ [w]\<rparr>))"

definition barrier_allowOne :: "'w barrier \<Rightarrow> 'w option \<times> 'w barrier" where
  "barrier_allowOne b =
     (if length (barrierQueue b) > 0
      then (Some (hd (barrierQueue b)), b\<lparr>barrierQueue := tl (barrierQueue b)\<rparr>)
      else (None, b\<lparr>barrierCount := barrierCount b + 1\<rparr>))"

section \<open>First-in first-out gates\<close>

datatype 'w gate_event = Acquire 'w | Release

text \<open>
  \<open>may_release s\<close> says when a release is legitimate: for the mutex, that the lock is held.
\<close>

locale fifo_gate =
  fixes permits :: "'s \<Rightarrow> nat"
    and waiting :: "'s \<Rightarrow> 'w list"
    and acquire :: "'w \<Rightarrow> 's \<Rightarrow> bool \<times> 's"
    and release :: "'s \<Rightarrow> 'w option \<times> 's"
    and may_release :: "'s \<Rightarrow> bool"
  assumes acquire_pass: "0 < permits s \<Longrightarrow> acquire w s = (b, s') \<Longrightarrow>
            b \<and> permits s' = permits s - 1 \<and> waiting s' = waiting s"
    and acquire_park: "permits s = 0 \<Longrightarrow> acquire w s = (b, s') \<Longrightarrow>
            \<not> b \<and> permits s' = 0 \<and> waiting s' = waiting s @ [w]"
    and release_grant: "waiting s = v # ws \<Longrightarrow> release s = (g, s') \<Longrightarrow>
            g = Some v \<and> permits s' = permits s \<and> waiting s' = ws"
    and release_free: "waiting s = [] \<Longrightarrow> may_release s \<Longrightarrow> release s = (g, s') \<Longrightarrow>
            g = None \<and> permits s' = Suc (permits s) \<and> waiting s' = []"
    and may_release_acquire: "snd (acquire w s) = s' \<Longrightarrow> may_release s'"
begin

text \<open>Nobody waits while a permit is free.\<close>

definition conserving :: "'s \<Rightarrow> bool" where
  "conserving s \<longleftrightarrow> waiting s = [] \<or> permits s = 0"

lemma conserving_acquire: "conserving s \<Longrightarrow> conserving (snd (acquire w s))"
  unfolding conserving_def
  by (cases "acquire w s"; cases "permits s = 0") (auto dest: acquire_pass acquire_park)

lemma conserving_release:
  "conserving s \<Longrightarrow> may_release s \<Longrightarrow> conserving (snd (release s))"
  unfolding conserving_def
  by (cases "release s"; cases "waiting s") (auto dest: release_grant release_free)

text \<open>
  A run of the gate records who got through, in order. Every waiter is served in the order of
  its request: granted waiters followed by those still waiting are the requests in order.
\<close>

fun run :: "'w gate_event list \<Rightarrow> 's \<Rightarrow> 'w list \<times> 's" where
  "run [] s = ([], s)"
| "run (Acquire w # es) s =
     (case acquire w s of (b, s1) \<Rightarrow>
      case run es s1 of (gs, s2) \<Rightarrow> ((if b then [w] else []) @ gs, s2))"
| "run (Release # es) s =
     (case release s of (g, s1) \<Rightarrow>
      case run es s1 of (gs, s2) \<Rightarrow> ((case g of None \<Rightarrow> [] | Some v \<Rightarrow> [v]) @ gs, s2))"

fun requests :: "'w gate_event list \<Rightarrow> 'w list" where
  "requests [] = []"
| "requests (Acquire w # es) = w # requests es"
| "requests (Release # es) = requests es"

fun legal :: "'w gate_event list \<Rightarrow> 's \<Rightarrow> bool" where
  "legal [] s = True"
| "legal (Acquire w # es) s = legal es (snd (acquire w s))"
| "legal (Release # es) s = (may_release s \<and> legal es (snd (release s)))"

lemma fifo:
  assumes "conserving s" and "legal es s"
  shows "fst (run es s) @ waiting (snd (run es s)) = waiting s @ requests es"
  using assms
proof (induction es s rule: run.induct)
  case (1 s)
  then show ?case by simp
next
  case (2 w es s)
  obtain b s1 where a: "acquire w s = (b, s1)" by (cases "acquire w s")
  then have "conserving s1" and "legal es s1"
    using 2 conserving_acquire [OF 2(2), of w] by auto
  with 2(1) [OF a [symmetric]] have "fst (run es s1) @ waiting (snd (run es s1)) =
      waiting s1 @ requests es" by simp
  moreover have "(if b then [w] else []) @ waiting s1 = waiting s @ (if b then [w] else [w])"
    if "b \<longrightarrow> waiting s = []"
    using a that acquire_pass [OF _ a] acquire_park [OF _ a] by (cases "permits s = 0") auto
  moreover have "b \<longrightarrow> waiting s = []"
    using 2(2) acquire_park [OF _ a] unfolding conserving_def by auto
  ultimately show ?case using a
    by (auto split: prod.splits if_splits)
next
  case (3 es s)
  obtain g s1 where r: "release s = (g, s1)" by (cases "release s")
  have may: "may_release s" and "legal es s1" using 3 r by auto
  moreover have "conserving s1" using conserving_release [OF 3(2) may] r by simp
  ultimately have ih: "fst (run es s1) @ waiting (snd (run es s1)) = waiting s1 @ requests es"
    using 3(1) [OF r [symmetric]] by simp
  show ?case
    using ih r release_free [OF _ may r] release_grant [OF _ r]
    by (cases "waiting s") (auto split: prod.splits)
qed

text \<open>Permits are neither lost nor made up: each event that goes through moves exactly one.\<close>

fun releases :: "'w gate_event list \<Rightarrow> nat" where
  "releases [] = 0"
| "releases (Acquire w # es) = releases es"
| "releases (Release # es) = Suc (releases es)"

lemma permits_conserved:
  assumes "conserving s" and "legal es s"
  shows "length (fst (run es s)) + permits (snd (run es s)) = permits s + releases es"
  using assms
proof (induction es s rule: run.induct)
  case (1 s)
  then show ?case by simp
next
  case (2 w es s)
  obtain b s1 where a: "acquire w s = (b, s1)" by (cases "acquire w s")
  then have "conserving s1" and "legal es s1"
    using 2 conserving_acquire [OF 2(2), of w] by auto
  with 2(1) [OF a [symmetric]] have
    "length (fst (run es s1)) + permits (snd (run es s1)) = permits s1 + releases es" by simp
  then show ?case using a acquire_pass [OF _ a] acquire_park [OF _ a]
    by (cases "permits s = 0") (auto split: prod.splits)
next
  case (3 es s)
  obtain g s1 where r: "release s = (g, s1)" by (cases "release s")
  have may: "may_release s" and "legal es s1" using 3 r by auto
  moreover have "conserving s1" using conserving_release [OF 3(2) may] r by simp
  ultimately have "length (fst (run es s1)) + permits (snd (run es s1)) = permits s1 + releases es"
    using 3(1) [OF r [symmetric]] by simp
  then show ?case using r release_free [OF _ may r] release_grant [OF _ r]
    by (cases "waiting s") (auto split: prod.splits)
qed

end

interpretation mutex_gate: fifo_gate
  "\<lambda>m. if isLocked m then 0 else 1" mutexQueue mutex_lock mutex_unlock isLocked
  by unfold_locales (auto simp: mutex_lock_def mutex_unlock_def split: if_splits)

interpretation barrier_gate: fifo_gate
  barrierCount barrierQueue barrier_tryPass barrier_allowOne "\<lambda>_. True"
  by unfold_locales (auto simp: barrier_tryPass_def barrier_allowOne_def split: if_splits)

text \<open>The holder of the mutex hands it on or frees it; nobody else gets in meanwhile.\<close>

lemma mutex_lock_iff: "fst (mutex_lock w m) \<longleftrightarrow> \<not> isLocked m"
  by (simp add: mutex_lock_def)

lemma mutex_lock_locked [simp]: "isLocked (snd (mutex_lock w m))"
  by (simp add: mutex_lock_def)

lemma mutex_unlock_locked:
  "isLocked (snd (mutex_unlock m)) \<longleftrightarrow> isLocked m \<and> mutexQueue m \<noteq> []"
  by (auto simp: mutex_unlock_def)

section \<open>retry\<close>

record retry_config =
  maxRetries :: nat
  delayMs :: nat
  useExponentialBackoff :: bool
  backoffFactor :: nat

text \<open>The defaults of the destructuring in \<open>retry\<close>.\<close>

definition retry_config_default :: "nat \<Rightarrow> retry_config" where
  "retry_config_default n =
     \<lparr>maxRetries = n, delayMs = 0, useExponentialBackoff = False, backoffFactor = 2\<rparr>"

text \<open>
  What the loop does once attempt number \<open>attempt\<close> has settled: return, throw the last error,
  or call \<open>onRetry(attempt + 1)\<close>, wait \<open>delay\<close> milliseconds and try again.
\<close>

datatype 'a retry_next =
  RetryReturn 'a | RetryThrow js_error | RetryAgain (onRetry_attempt: nat) (retry_wait: nat)

definition retry_delay :: "retry_config \<Rightarrow> nat \<Rightarrow> nat" where
  "retry_delay cfg attempt =
     (if delayMs cfg > 0
      then (if useExponentialBackoff cfg then delayMs cfg * backoffFactor cfg ^ attempt
            else delayMs cfg)
      else 0)"

definition retry_after :: "retry_config \<Rightarrow> nat \<Rightarrow> 'a res \<Rightarrow> 'a retry_next" where
  "retry_after cfg attempt outcome =
     (case outcome of
        Inr x \<Rightarrow> RetryReturn x
      | Inl e \<Rightarrow> if attempt = maxRetries cfg then RetryThrow e
                 else RetryAgain (attempt + 1) (retry_delay cfg attempt))"

text \<open>
  The whole loop against the outcomes of the successive calls of \<open>fn\<close>: the result, the number
  of calls made and the waits between them. The loop stops by itself, as the attempt grows
  towards \<open>maxRetries\<close>.
\<close>

function retry_from :: "retry_config \<Rightarrow> (nat \<Rightarrow> 'a res) \<Rightarrow> nat \<Rightarrow> 'a res \<times> nat \<times> nat list" where
  "retry_from cfg fn attempt =
     (if attempt > maxRetries cfg then (Inl (Error ''undefined''), attempt, [])
      else case retry_after cfg attempt (fn attempt) of
             RetryReturn x \<Rightarrow> (Inr x, Suc attempt, [])
           | RetryThrow e \<Rightarrow> (Inl e, Suc attempt, [])
           | RetryAgain n w \<Rightarrow>
               (case retry_from cfg fn (Suc attempt) of (r, calls, ws) \<Rightarrow> (r, calls, w # ws)))"
  by pat_completeness auto
termination by (relation "measure (\<lambda>(cfg, fn, attempt). Suc (maxRetries cfg) - attempt)") auto

declare retry_from.simps [simp del]

definition retry :: "retry_config \<Rightarrow> (nat \<Rightarrow> 'a res) \<Rightarrow> 'a res \<times> nat \<times> nat list" where
  "retry cfg fn = retry_from cfg fn 0"

lemma retry_after_simps [simp]:
  "retry_after cfg attempt (Inr x) = RetryReturn x"
  "retry_after cfg attempt (Inl e) =
     (if attempt = maxRetries cfg then RetryThrow e
      else RetryAgain (attempt + 1) (retry_delay cfg attempt))"
  by (simp_all add: retry_after_def)

lemma retry_from_success:
  assumes "a \<le> n" and "n \<le> maxRetries cfg" and "fn n = Inr x" and "\<And>i. a \<le> i \<Longrightarrow> i < n \<Longrightarrow> \<exists>e. fn i = Inl e"
  shows "retry_from cfg fn a = (Inr x, Suc n, map (retry_delay cfg) [a..<n])"
  using assms
proof (induction "n - a" arbitrary: a)
  case 0
  then show ?case by (simp add: retry_from.simps)
next
  case (Suc k)
  then have "a < n" by simp
  then obtain e where "fn a = Inl e" using Suc by auto
  moreover have "retry_from cfg fn (Suc a) = (Inr x, Suc n, map (retry_delay cfg) [Suc a..<n])"
    using Suc \<open>a < n\<close> by (intro Suc.hyps) auto
  ultimately show ?case
    using \<open>a < n\<close> Suc.prems(2) by (subst retry_from.simps) (simp add: upt_conv_Cons)
qed

lemma retry_from_failure:
  assumes "a \<le> maxRetries cfg" and "\<And>i. a \<le> i \<Longrightarrow> i \<le> maxRetries cfg \<Longrightarrow> fn i = Inl (err i)"
  shows "retry_from cfg fn a =
    (Inl (err (maxRetries cfg)), Suc (maxRetries cfg), map (retry_delay cfg) [a..<maxRetries cfg])"
  using assms
proof (induction "maxRetries cfg - a" arbitrary: a)
  case 0
  then show ?case by (simp add: retry_from.simps)
next
  case (Suc k)
  then have "a < maxRetries cfg" by simp
  moreover from this have "retry_from cfg fn (Suc a) =
      (Inl (err (maxRetries cfg)), Suc (maxRetries cfg),
       map (retry_delay cfg) [Suc a..<maxRetries cfg])"
    using Suc by (intro Suc.hyps) auto
  ultimately show ?case
    using Suc.prems by (subst retry_from.simps) (simp add: upt_conv_Cons)
qed

end
