(* ===== verification/DisputeHandler.thy ===== *)
theory DisputeHandler
  imports ProofManager Concurrency
begin

text \<open>
  \<open>src/DisputeHandler.ts\<close> (prefix \<open>dh_\<close>). Its asynchronous methods stop at every contract call,
  and other handlers run before the reply arrives; so a running method is a value of \<open>dproc\<close>
  that says which reply it awaits, and \<open>dh_resume\<close> runs the code from one \<open>await\<close> to the next.
  The contract is remote: its replies are arguments. Calls made to it and event hooks are
  appended to the log \<open>dh_effects\<close>.
\<close>

section \<open>State\<close>

text \<open>\<open>NO_PARTICIPANT_TO_FOLD\<close>, \<open>INITIAL_TRANSACTION_COUNT\<close> and \<open>ethers.ZeroHash\<close>.\<close>

definition NO_PARTICIPANT_TO_FOLD :: address where
  "NO_PARTICIPANT_TO_FOLD = ''0x00''"

definition INITIAL_TRANSACTION_COUNT :: js_num where
  "INITIAL_TRANSACTION_COUNT = Num 0"

definition ZeroHash :: bytes where
  "ZeroHash = ''0x'' @ replicate 64 (CHR ''0'')"

record create_args =
  ca_forkCnt :: js_num
  ca_votes :: dispute_votes
  ca_foldedParticipant :: address
  ca_foldedTransactionCnt :: js_num
  ca_proofs :: "proof_struct list"

datatype dispute_effect =
  HookInitiatingDispute
| CallCreateDispute bytes create_args
| CallChallengeDispute bytes js_num nat "proof_struct list" dispute_votes
| CallGetDispute bytes

record dispute_state =
  dh_channelId :: bytes
  dh_localProofs :: "(nat, proof_struct list) js_map"
  dh_disputes :: "(nat, dispute) js_map"
  dh_disputedForks :: "(nat, bool) js_map"
  dh_effects :: "dispute_effect list"

definition dh_init :: "bytes \<Rightarrow> dispute_state" where
  "dh_init channelId = \<lparr>dh_channelId = channelId, dh_localProofs = [], dh_disputes = [],
                         dh_disputedForks = [], dh_effects = []\<rparr>"

datatype dproc =
  DCreating create_args nat        \<comment> \<open>\<open>createDispute\<close> sent, with the attempt number of \<open>retry\<close>\<close>
| DFetchCreated                    \<comment> \<open>\<open>getDispute\<close> sent by \<open>createDispute\<close>\<close>
| DChallenging dispute             \<comment> \<open>\<open>challengeDispute\<close> sent\<close>
| DFetchChallenged dispute         \<comment> \<open>\<open>getDispute\<close> sent by \<open>rechallengeRecursive\<close>\<close>
| DDone
| DFailed js_error

datatype contract_reply =
  TxReply "unit res"
| DisputeReply "dispute res"

section \<open>Operations\<close>

definition dh_setChannelId :: "bytes \<Rightarrow> dispute_state \<Rightarrow> dispute_state" where
  "dh_setChannelId channelId d = d\<lparr>dh_channelId := channelId\<rparr>"

definition dh_emit :: "dispute_effect list \<Rightarrow> (dispute_state, unit) act" where
  "dh_emit effs = smodify (\<lambda>d. d\<lparr>dh_effects := dh_effects d @ effs\<rparr>)"

definition dh_setForkDisputed :: "nat \<Rightarrow> dispute_state \<Rightarrow> dispute_state" where
  "dh_setForkDisputed forkCnt d = d\<lparr>dh_disputedForks := map_set (dh_disputedForks d) forkCnt True\<rparr>"

definition dh_isForkDisputed :: "dispute_state \<Rightarrow> nat \<Rightarrow> bool" where
  "dh_isForkDisputed d forkCnt =
     (case map_get (dh_disputedForks d) forkCnt of None \<Rightarrow> False | Some b \<Rightarrow> b)"

definition dh_addProof :: "nat \<Rightarrow> proof_struct \<Rightarrow> dispute_state \<Rightarrow> dispute_state" where
  "dh_addProof forkCnt prf d =
     (let proofs = (case map_get (dh_localProofs d) forkCnt of None \<Rightarrow> [] | Some ps \<Rightarrow> ps)
      in d\<lparr>dh_localProofs := map_set (dh_localProofs d) forkCnt (proofs @ [prf])\<rparr>)"

definition dh_shouldUpdateDispute :: "dispute_state \<Rightarrow> dispute \<Rightarrow> bool" where
  "dh_shouldUpdateDispute d dispute =
     (case map_get (dh_disputes d) (js_Number (dsp_forkCnt dispute)) of
        None \<Rightarrow> True
      | Some existingDispute \<Rightarrow>
          num_value (dsp_challengeCnt dispute) > num_value (dsp_challengeCnt existingDispute))"

definition dh_updateDisputeIfNewer :: "dispute \<Rightarrow> (dispute_state, bool) act" where
  "dh_updateDisputeIfNewer dispute d =
     (if dh_shouldUpdateDispute d dispute
      then (Inr True,
            d\<lparr>dh_disputes := map_set (dh_disputes d) (js_Number (dsp_forkCnt dispute)) dispute\<rparr>)
      else (Inr False, d))"

definition dh_getLastTransactionCount :: "ethers \<Rightarrow> dispute \<Rightarrow> nat res" where
  "dh_getLastTransactionCount E dispute =
     (case at_last (dsp_virtualVotingBlocks dispute) of
        None \<Rightarrow> Inr 0
      | Some vote \<Rightarrow> rmap getHeight (decodeBlock E (cb_encodedBlock vote)))"

definition dh_filterProofs ::
  "ethers \<Rightarrow> nat \<Rightarrow> dispute_state \<Rightarrow> dispute \<Rightarrow> proof_struct list res" where
  "dh_filterProofs E now d dispute =
     pm_filterValidProofs E now dispute
       (map_get (dh_localProofs d) (js_Number (dsp_forkCnt dispute)))"

text \<open>\<open>if (proof) this.addProof(...)\<close>.\<close>

definition dh_addIfAny :: "nat \<Rightarrow> proof_struct option \<Rightarrow> (dispute_state, unit) act" where
  "dh_addIfAny forkCnt prf =
     smodify (case prf of None \<Rightarrow> (\<lambda>d. d) | Some p \<Rightarrow> dh_addProof forkCnt p)"

definition dh_extractProofs ::
  "ethers \<Rightarrow> agreement_manager \<Rightarrow> nat \<Rightarrow> dispute \<Rightarrow> (dispute_state, proof_struct list) act" where
  "dh_extractProofs E am now dispute =
     (let forkCnt = js_Number (dsp_forkCnt dispute);
          transactionCnt = js_Number (dsp_foldedTransactionCnt dispute)
      in sbind (if dsp_timedoutParticipant dispute \<noteq> ZeroAddress
                then sbind (sread (\<lambda>_. pm_createFoldRechallengeProof E am (Num forkCnt)
                                          (Num transactionCnt)))
                       (dh_addIfAny forkCnt)
                else sreturn ())
           (\<lambda>_. sbind (sread (\<lambda>_. dh_getLastTransactionCount E dispute)) (\<lambda>lastTransactionCnt.
            sbind (sread (\<lambda>_. pm_createNewerStateProof E am forkCnt
                                (dsp_postedStateDisputer dispute) lastTransactionCnt))
              (\<lambda>newerStateProof. sbind (dh_addIfAny forkCnt newerStateProof)
                (\<lambda>_. sread (\<lambda>d. dh_filterProofs E now d dispute))))))"

text \<open>
  \<open>rechallengeRecursive\<close> up to its first \<open>await\<close>. \<open>Number(dispute.challengeCnt) + 1\<close> is an
  addition of doubles. Inside the \<open>try\<close> a failure to collect the votes is swallowed and the
  code goes on with \<open>getDispute\<close>.
\<close>

definition dh_rechallenge ::
  "ethers \<Rightarrow> agreement_manager \<Rightarrow> address \<Rightarrow> nat \<Rightarrow> dispute \<Rightarrow> (dispute_state, dproc) act" where
  "dh_rechallenge E am signerAddress now dispute =
     sbind (dh_updateDisputeIfNewer dispute) (\<lambda>newer.
       if \<not> newer then sreturn DDone
       else sbind (dh_extractProofs E am now dispute) (\<lambda>proofs.
         if length proofs = 0 then sreturn DDone
         else case am_getFinalizedAndLatestWithVotes E am (dsp_forkCnt dispute) signerAddress of
                Inl _ \<Rightarrow> sbind (dh_emit [CallGetDispute (dsp_channelId dispute)])
                           (\<lambda>_. sreturn (DFetchChallenged dispute))
              | Inr votes \<Rightarrow>
                  sbind (\<lambda>d. dh_emit [HookInitiatingDispute,
                     CallChallengeDispute (dh_channelId d) (dsp_forkCnt dispute)
                       (round_double (js_Number (dsp_challengeCnt dispute) + 1)) proofs votes] d)
                    (\<lambda>_. sreturn (DChallenging dispute))))"

definition dh_createNewDispute ::
  "ethers \<Rightarrow> agreement_manager \<Rightarrow> address \<Rightarrow> js_num \<Rightarrow> address \<Rightarrow> js_num \<Rightarrow> proof_struct list \<Rightarrow>
     (dispute_state, dproc) act" where
  "dh_createNewDispute E am signerAddress forkCnt foldedParticipant foldedTransactionCnt proofs =
     sbind (sread (\<lambda>_. am_getFinalizedAndLatestWithVotes E am forkCnt signerAddress)) (\<lambda>votes.
       let args = \<lparr>ca_forkCnt = forkCnt, ca_votes = votes,
                   ca_foldedParticipant = foldedParticipant,
                   ca_foldedTransactionCnt = foldedTransactionCnt, ca_proofs = proofs\<rparr>
       in sbind (\<lambda>d. dh_emit [HookInitiatingDispute, CallCreateDispute (dh_channelId d) args] d)
            (\<lambda>_. sreturn (DCreating args 0)))"

definition dh_fetchCreated :: "(dispute_state, dproc) act" where
  "dh_fetchCreated =
     sbind (\<lambda>d. dh_emit [CallGetDispute (dh_channelId d)] d) (\<lambda>_. sreturn DFetchCreated)"

definition dh_createDispute ::
  "ethers \<Rightarrow> agreement_manager \<Rightarrow> address \<Rightarrow> js_num \<Rightarrow> address \<Rightarrow> js_num \<Rightarrow> proof_struct list \<Rightarrow>
     (dispute_state, dproc) act" where
  "dh_createDispute E am signerAddress forkCnt foldedParticipant foldedTransactionCnt proofs =
     (let forkCntNumber = js_Number forkCnt
      in sbind (smodify (dh_setForkDisputed forkCntNumber)) (\<lambda>_.
         sbind (smodify (\<lambda>d. foldl (\<lambda>d p. dh_addProof forkCntNumber p d) d proofs)) (\<lambda>_.
         sbind (sread (\<lambda>d. Inr (map_get (dh_disputes d) forkCntNumber))) (\<lambda>dispute.
           case dispute of
             None \<Rightarrow> dh_createNewDispute E am signerAddress forkCnt foldedParticipant
                       foldedTransactionCnt proofs
           | Some _ \<Rightarrow> dh_fetchCreated))))"

section \<open>Replies of the contract\<close>

text \<open>\<open>maxRetries: 1\<close>; the loop sends again at once, since \<open>delayMs\<close> is 0.\<close>

definition dispute_retry :: retry_config where
  "dispute_retry = retry_config_default 1"

fun dh_resume ::
  "ethers \<Rightarrow> agreement_manager \<Rightarrow> address \<Rightarrow> nat \<Rightarrow> contract_reply \<Rightarrow> dproc \<Rightarrow>
     (dispute_state, dproc) act" where
  "dh_resume E am signerAddress now (TxReply r) (DCreating args attempt) =
     (case retry_after dispute_retry attempt r of
        RetryReturn _ \<Rightarrow> dh_fetchCreated
      | RetryThrow e \<Rightarrow> sthrow e
      | RetryAgain _ _ \<Rightarrow>
          sbind (\<lambda>d. dh_emit [CallCreateDispute (dh_channelId d) args] d)
            (\<lambda>_. sreturn (DCreating args (attempt + 1))))"
| "dh_resume E am signerAddress now (DisputeReply r) DFetchCreated =
     sbind (sread (\<lambda>_. r)) (\<lambda>newDispute.
       if dsp_channelId newDispute = ZeroHash
       then sthrow (Error ''DisputeHandler - createDispute - no dispute created'')
       else dh_rechallenge E am signerAddress now newDispute)"
| "dh_resume E am signerAddress now (TxReply r) (DChallenging dispute) =
     sbind (dh_emit [CallGetDispute (dsp_channelId dispute)])
       (\<lambda>_. sreturn (DFetchChallenged dispute))"
| "dh_resume E am signerAddress now (DisputeReply r) (DFetchChallenged dispute) =
     sbind (sread (\<lambda>_. r)) (\<lambda>newDispute.
       if num_value (dsp_challengeCnt newDispute) = num_value (dsp_challengeCnt dispute)
       then sthrow (Error ''DisputeHandler - rechallengeRecursive - challenge failed'')
       else dh_rechallenge E am signerAddress now newDispute)"
| "dh_resume E am signerAddress now r p = sreturn p"

text \<open>A method that throws leaves a rejected promise.\<close>

definition as_proc :: "(dispute_state, dproc) act \<Rightarrow> dispute_state \<Rightarrow> dproc \<times> dispute_state" where
  "as_proc m d = (case m d of (Inl e, d') \<Rightarrow> (DFailed e, d') | (Inr p, d') \<Rightarrow> (p, d'))"

section \<open>Public methods that build a proof first\<close>

definition dh_disputeFoldRechallenge ::
  "ethers \<Rightarrow> agreement_manager \<Rightarrow> address \<Rightarrow> js_num \<Rightarrow> js_num \<Rightarrow> (dispute_state, dproc) act" where
  "dh_disputeFoldRechallenge E am signerAddress forkCnt transactionCnt =
     sbind (sread (\<lambda>_. pm_createFoldRechallengeProof E am forkCnt transactionCnt)) (\<lambda>prf.
       case prf of
         Some p \<Rightarrow> dh_createDispute E am signerAddress forkCnt NO_PARTICIPANT_TO_FOLD
                     INITIAL_TRANSACTION_COUNT [p]
       | None \<Rightarrow> sreturn DDone)"

definition dh_disputeDoubleSign ::
  "ethers \<Rightarrow> agreement_manager \<Rightarrow> address \<Rightarrow> signed_block list \<Rightarrow> (dispute_state, dproc) act" where
  "dh_disputeDoubleSign E am signerAddress conflictingBlocks =
     sbind (sread (\<lambda>_. pm_createDoubleSignProof E am conflictingBlocks)) (\<lambda>prf.
     sbind (sread (\<lambda>_. case conflictingBlocks of
                          [] \<Rightarrow> Inl (TypeError ''encodedBlock'')
                        | sb # _ \<Rightarrow> decodeBlock E (sb_encodedBlock sb))) (\<lambda>firstBlock.
       dh_createDispute E am signerAddress
         (hdr_forkCnt (tx_header (blk_transaction firstBlock)))
         NO_PARTICIPANT_TO_FOLD INITIAL_TRANSACTION_COUNT [prf]))"

definition dh_disputeIncorrectData ::
  "ethers \<Rightarrow> agreement_manager \<Rightarrow> address \<Rightarrow> signed_block \<Rightarrow> (dispute_state, dproc) act" where
  "dh_disputeIncorrectData E am signerAddress incorrectBlockSigned =
     sbind (sread (\<lambda>_. pm_createIncorrectDataProof E am incorrectBlockSigned)) (\<lambda>prf.
     sbind (sread (\<lambda>_. decodeBlock E (sb_encodedBlock incorrectBlockSigned))) (\<lambda>blk.
       dh_createDispute E am signerAddress (hdr_forkCnt (tx_header (blk_transaction blk)))
         NO_PARTICIPANT_TO_FOLD INITIAL_TRANSACTION_COUNT [prf]))"

definition dh_disputeFoldPriorBlock ::
  "ethers \<Rightarrow> agreement_manager \<Rightarrow> address \<Rightarrow> js_num \<Rightarrow> nat \<Rightarrow> (dispute_state, dproc) act" where
  "dh_disputeFoldPriorBlock E am signerAddress forkCnt transactionCnt =
     sbind (sread (\<lambda>_. pm_createFoldPriorBlockProof E transactionCnt)) (\<lambda>prf.
       dh_createDispute E am signerAddress forkCnt NO_PARTICIPANT_TO_FOLD
         INITIAL_TRANSACTION_COUNT [prf])"

definition dh_disputeBlockTooFarInFuture ::
  "ethers \<Rightarrow> agreement_manager \<Rightarrow> address \<Rightarrow> signed_block \<Rightarrow> (dispute_state, dproc) act" where
  "dh_disputeBlockTooFarInFuture E am signerAddress blockSigned =
     sbind (sread (\<lambda>_. pm_createBlockTooFarInFutureProof E blockSigned)) (\<lambda>prf.
     sbind (sread (\<lambda>_. decodeBlock E (sb_encodedBlock blockSigned))) (\<lambda>blk.
       dh_createDispute E am signerAddress (hdr_forkCnt (tx_header (blk_transaction blk)))
         NO_PARTICIPANT_TO_FOLD INITIAL_TRANSACTION_COUNT [prf]))"

definition dh_onDispute ::
  "ethers \<Rightarrow> agreement_manager \<Rightarrow> address \<Rightarrow> nat \<Rightarrow> dispute \<Rightarrow> (dispute_state, dproc) act" where
  "dh_onDispute E am signerAddress now dispute =
     sbind (smodify (dh_setForkDisputed (js_Number (dsp_forkCnt dispute)))) (\<lambda>_.
       dh_rechallenge E am signerAddress now dispute)"

end
