(* ===== verification/DisputeFacts.thy ===== *)
theory DisputeFacts
  imports DisputeHandler
begin

text \<open>
  Facts about the dispute handler: nothing it learned is forgotten (\<open>dh_le\<close>), a challenge is
  only sent with proofs the filter accepted, and an answer to a dispute ends after a bounded
  number of replies (\<open>dh_measure\<close>).
\<close>

section \<open>Nothing is forgotten\<close>

definition dh_le :: "dispute_state \<Rightarrow> dispute_state \<Rightarrow> bool" where
  "dh_le d d' \<longleftrightarrow>
     (\<forall>f. dh_isForkDisputed d f \<longrightarrow> dh_isForkDisputed d' f) \<and>
     (\<forall>f ps. map_get (dh_localProofs d) f = Some ps \<longrightarrow>
        (\<exists>qs. map_get (dh_localProofs d') f = Some (ps @ qs))) \<and>
     (\<forall>f x. map_get (dh_disputes d) f = Some x \<longrightarrow>
        (\<exists>y. map_get (dh_disputes d') f = Some y \<and>
             num_value (dsp_challengeCnt x) \<le> num_value (dsp_challengeCnt y))) \<and>
     (\<exists>new. dh_effects d' = dh_effects d @ new)"

lemma dh_le_refl [simp]: "dh_le d d"
  by (auto simp: dh_le_def)

lemma dh_le_trans: "dh_le a b \<Longrightarrow> dh_le b c \<Longrightarrow> dh_le a c"
  unfolding dh_le_def
  by (elim conjE, intro conjI) (meson, metis append_assoc, meson le_trans, metis append_assoc)

interpretation dhp: preserved dh_le
  by unfold_locales (auto intro: dh_le_trans)

named_theorems dh_keeps \<open>actions of the dispute handler that forget nothing\<close>

lemmas dh_keeps_basic [dh_keeps] = dhp.bind dhp.pure dhp.modify

lemma dh_le_setForkDisputed [dh_keeps]: "dh_le d (dh_setForkDisputed f d)"
  by (auto simp: dh_le_def dh_setForkDisputed_def dh_isForkDisputed_def)

lemma dh_le_addProof [dh_keeps]: "dh_le d (dh_addProof f p d)"
  by (auto simp: dh_le_def dh_addProof_def dh_isForkDisputed_def Let_def)

lemma dh_le_addProofs [dh_keeps]: "dh_le d (foldl (\<lambda>d p. dh_addProof f p d) d ps)"
  by (induction ps arbitrary: d) (auto intro: dh_le_trans dh_le_addProof)

lemma dh_le_update [dh_keeps]: "keeps dh_le (dh_updateDisputeIfNewer x)"
  by (auto simp: keeps_def dh_le_def dh_updateDisputeIfNewer_def dh_shouldUpdateDispute_def
      dh_isForkDisputed_def split: option.splits)

lemma dh_le_emit [dh_keeps]: "keeps dh_le (dh_emit effs)"
  by (auto simp: keeps_def smodify_def dh_emit_def dh_le_def dh_isForkDisputed_def)

lemma dh_le_emit_state [dh_keeps]: "keeps dh_le (\<lambda>d. dh_emit (effs d) d)"
  using dh_le_emit by (simp add: keeps_def)

lemma keeps_addIfAny [dh_keeps]: "keeps dh_le (dh_addIfAny f p)"
  unfolding dh_addIfAny_def by (cases p) (auto intro!: dh_keeps)

lemma keeps_extractProofs [dh_keeps]: "keeps dh_le (dh_extractProofs E am now x)"
  unfolding dh_extractProofs_def Let_def by (auto intro!: dh_keeps split del: if_split split: if_split)

lemma keeps_rechallenge [dh_keeps]: "keeps dh_le (dh_rechallenge E am me now x)"
  unfolding dh_rechallenge_def by (auto intro!: dh_keeps split: sum.split)

lemma keeps_fetchCreated [dh_keeps]: "keeps dh_le dh_fetchCreated"
  unfolding dh_fetchCreated_def by (intro dh_keeps)

lemma keeps_createNewDispute [dh_keeps]:
  "keeps dh_le (dh_createNewDispute E am me f p h prfs)"
  unfolding dh_createNewDispute_def Let_def by (intro dh_keeps)

lemma keeps_createDispute [dh_keeps]: "keeps dh_le (dh_createDispute E am me f p h prfs)"
  unfolding dh_createDispute_def Let_def by (auto intro!: dh_keeps split: option.split)

lemma keeps_onDispute [dh_keeps]: "keeps dh_le (dh_onDispute E am me now x)"
  unfolding dh_onDispute_def by (intro dh_keeps)

lemma keeps_resume [dh_keeps]: "keeps dh_le (dh_resume E am me now r p)"
  by (cases "(E, am, me, now, r, p)" rule: dh_resume.cases)
    (auto intro!: dh_keeps simp: dispute_retry_def retry_after_def split: sum.split)

lemma keeps_dispute_methods [dh_keeps]:
  "keeps dh_le (dh_disputeFoldRechallenge E am me f h)"
  "keeps dh_le (dh_disputeDoubleSign E am me sbs)"
  "keeps dh_le (dh_disputeIncorrectData E am me sb)"
  "keeps dh_le (dh_disputeFoldPriorBlock E am me f n)"
  "keeps dh_le (dh_disputeBlockTooFarInFuture E am me sb)"
  unfolding dh_disputeFoldRechallenge_def dh_disputeDoubleSign_def dh_disputeIncorrectData_def
    dh_disputeFoldPriorBlock_def dh_disputeBlockTooFarInFuture_def
  by (auto intro!: dh_keeps split: option.split)

lemma as_proc_keeps: "keeps dh_le m \<Longrightarrow> dh_le d (snd (as_proc m d))"
  by (auto simp: as_proc_def keeps_def split: prod.split sum.split) (metis snd_conv)+

text \<open>A dispute is stored under its own fork.\<close>

definition dh_wf :: "dispute_state \<Rightarrow> bool" where
  "dh_wf d \<longleftrightarrow> (\<forall>f x. map_get (dh_disputes d) f = Some x \<longrightarrow> js_Number (dsp_forkCnt x) = f)"

lemma dh_wf_init: "dh_wf (dh_init c)"
  by (simp add: dh_wf_def dh_init_def)

text \<open>What \<open>updateDisputeIfNewer\<close> answers.\<close>

lemma dh_update_iff:
  "dh_updateDisputeIfNewer x d = (Inr b, d') \<longleftrightarrow>
     (b \<longleftrightarrow> dh_shouldUpdateDispute d x) \<and>
     d' = (if b then d\<lparr>dh_disputes := map_set (dh_disputes d) (js_Number (dsp_forkCnt x)) x\<rparr> else d)"
  by (auto simp: dh_updateDisputeIfNewer_def)

lemma dh_update_no_throw: "dh_updateDisputeIfNewer x d \<noteq> (Inl e, d')"
  by (simp add: dh_updateDisputeIfNewer_def)

section \<open>What a challenge carries\<close>

lemma pm_filterValidProofs_Inr:
  "pm_filterValidProofs E now x ps = Inr qs \<Longrightarrow> p \<in> set qs \<Longrightarrow>
     (\<exists>all. ps = Some all \<and> p \<in> set all) \<and>
     (\<exists>v. pm_validatorMap E now (prf_proofType p) = Some v \<and> v p x = Inr True)"
  by (auto simp: pm_filterValidProofs_def split: option.splits if_splits dest!: filterM_Inr)

lemma dh_extractProofs_Inr:
  "dh_extractProofs E am now x d = (Inr qs, d') \<Longrightarrow> dh_filterProofs E now d' x = Inr qs"
  by (auto simp: dh_extractProofs_def Let_def res_simps split: if_splits)

lemma dh_extractProofs_disputes:
  "dh_extractProofs E am now x d = (r, d') \<Longrightarrow> dh_disputes d' = dh_disputes d"
  by (auto simp: dh_extractProofs_def dh_addIfAny_def dh_addProof_def act_defs Let_def
      split: if_splits prod.splits sum.splits option.splits)

lemma dh_rechallenge_result:
  assumes "dh_rechallenge E am me now x d = (Inr p, d')"
  obtains (old) "p = DDone" "d' = d" "\<not> dh_shouldUpdateDispute d x"
  | (nothing) "p = DDone" "dh_shouldUpdateDispute d x"
      "map_get (dh_disputes d') (js_Number (dsp_forkCnt x)) = Some x"
  | (no_votes) d1 qs e where "p = DFetchChallenged x" "dh_shouldUpdateDispute d x"
      "map_get (dh_disputes d') (js_Number (dsp_forkCnt x)) = Some x"
      "dh_filterProofs E now d1 x = Inr qs" "qs \<noteq> []"
      "am_getFinalizedAndLatestWithVotes E am (dsp_forkCnt x) me = Inl e"
      "d' = d1\<lparr>dh_effects := dh_effects d1 @ [CallGetDispute (dsp_channelId x)]\<rparr>"
  | (challenge) d1 qs votes where "p = DChallenging x" "dh_shouldUpdateDispute d x"
      "map_get (dh_disputes d') (js_Number (dsp_forkCnt x)) = Some x"
      "dh_filterProofs E now d1 x = Inr qs" "qs \<noteq> []"
      "am_getFinalizedAndLatestWithVotes E am (dsp_forkCnt x) me = Inr votes"
      "d' = d1\<lparr>dh_effects := dh_effects d1 @ [HookInitiatingDispute,
         CallChallengeDispute (dh_channelId d1) (dsp_forkCnt x)
           (round_double (js_Number (dsp_challengeCnt x) + 1)) qs votes]\<rparr>"
proof (cases "dh_shouldUpdateDispute d x")
  case False
  with assms show thesis
    by (intro old) (auto simp: dh_rechallenge_def dh_updateDisputeIfNewer_def act_defs)
next
  case True
  define d0 where
    "d0 = d\<lparr>dh_disputes := map_set (dh_disputes d) (js_Number (dsp_forkCnt x)) x\<rparr>"
  obtain qs d1 where ex: "dh_extractProofs E am now x d0 = (Inr qs, d1)"
    using assms True
    by (auto simp: dh_rechallenge_def sbind_Inr_iff dh_update_iff d0_def)
  then have d1: "map_get (dh_disputes d1) (js_Number (dsp_forkCnt x)) = Some x"
    using dh_extractProofs_disputes [OF ex] by (simp add: d0_def)
  have upd: "dh_updateDisputeIfNewer x d = (Inr True, d0)"
    using True by (simp add: dh_updateDisputeIfNewer_def d0_def)
  note rest = assms [unfolded dh_rechallenge_def
      sbind_run [of "dh_updateDisputeIfNewer x", OF upd], simplified,
      unfolded sbind_run [of "dh_extractProofs E am now x", OF ex]]
  show thesis
  proof (cases "qs = []")
    case True
    with rest have "p = DDone" and "d' = d1" by (auto simp: sreturn_iff)
    with \<open>dh_shouldUpdateDispute d x\<close> d1 show thesis by - (rule nothing; simp)
  next
    case qs: False
    show thesis
    proof (cases "am_getFinalizedAndLatestWithVotes E am (dsp_forkCnt x) me")
      case (Inl e)
      with rest True d1 qs dh_extractProofs_Inr [OF ex] show thesis
        by (intro no_votes [of d1 qs e])
          (auto simp: sbind_Inr_iff sreturn_iff dh_emit_def smodify_iff)
    next
      case (Inr votes)
      with rest True d1 qs dh_extractProofs_Inr [OF ex] show thesis
        by (intro challenge [of d1 qs votes])
          (auto simp: sbind_Inr_iff sreturn_iff dh_emit_def smodify_iff)
    qed
  qed
qed

section \<open>An answer ends\<close>

text \<open>
  \<open>N\<close> bounds the challenge counter (a \<open>uint256\<close>) and \<open>f\<close> is the fork of the dispute. A round
  of \<open>rechallengeRecursive\<close> goes on only after it stored a dispute with a larger counter.
\<close>

definition dh_remaining :: "nat \<Rightarrow> nat \<Rightarrow> dispute_state \<Rightarrow> nat" where
  "dh_remaining N f d =
     (case map_get (dh_disputes d) f of
        None \<Rightarrow> Suc N | Some x \<Rightarrow> N - num_value (dsp_challengeCnt x))"

fun dh_measure :: "nat \<Rightarrow> nat \<Rightarrow> dproc \<Rightarrow> dispute_state \<Rightarrow> nat" where
  "dh_measure N f (DCreating args attempt) d = Suc (2 * dh_remaining N f d + 2 - attempt)"
| "dh_measure N f DFetchCreated d = 2 * dh_remaining N f d + 1"
| "dh_measure N f (DChallenging x) d = 2 * dh_remaining N f d + 2"
| "dh_measure N f (DFetchChallenged x) d = 2 * dh_remaining N f d + 1"
| "dh_measure N f p d = 0"

fun settled :: "dproc \<Rightarrow> bool" where
  "settled DDone = True"
| "settled (DFailed e) = True"
| "settled p = False"

text \<open>The reply is the one the method waits for, and a dispute in it is one of fork \<open>f\<close>.\<close>

fun reply_fits :: "nat \<Rightarrow> nat \<Rightarrow> dproc \<Rightarrow> contract_reply \<Rightarrow> bool" where
  "reply_fits N f (DCreating args attempt) (TxReply r) = (attempt \<le> 1)"
| "reply_fits N f (DChallenging x) (TxReply r) = True"
| "reply_fits N f DFetchCreated (DisputeReply (Inl e)) = True"
| "reply_fits N f DFetchCreated (DisputeReply (Inr x)) =
     (js_Number (dsp_forkCnt x) = f \<and> num_value (dsp_challengeCnt x) \<le> N)"
| "reply_fits N f (DFetchChallenged y) (DisputeReply (Inl e)) = True"
| "reply_fits N f (DFetchChallenged y) (DisputeReply (Inr x)) =
     (js_Number (dsp_forkCnt x) = f \<and> num_value (dsp_challengeCnt x) \<le> N)"
| "reply_fits N f p r = False"

lemma dh_remaining_le: "dh_le d d' \<Longrightarrow> dh_remaining N f d' \<le> dh_remaining N f d"
  by (force simp: dh_le_def dh_remaining_def split: option.splits)

lemma dh_remaining_newer:
  assumes "dh_shouldUpdateDispute d x" and "js_Number (dsp_forkCnt x) = f"
    and "num_value (dsp_challengeCnt x) \<le> N"
    and "map_get (dh_disputes d') (js_Number (dsp_forkCnt x)) = Some x"
  shows "dh_remaining N f d' < dh_remaining N f d"
  using assms by (auto simp: dh_remaining_def dh_shouldUpdateDispute_def split: option.splits)

lemma as_proc_sbind_read [simp]:
  "as_proc (sbind (sread (\<lambda>_. Inr x)) g) d = as_proc (g x) d"
  "as_proc (sbind (sread (\<lambda>_. Inl e)) g) d = (DFailed e, d)"
  "as_proc (sthrow e) d = (DFailed e, d)"
  "as_proc (sbind (dh_emit effs) (\<lambda>_. sreturn p)) d =
     (p, d\<lparr>dh_effects := dh_effects d @ effs\<rparr>)"
  "as_proc (sbind (\<lambda>d. dh_emit (e2 d) d) (\<lambda>_. sreturn p)) d =
     (p, d\<lparr>dh_effects := dh_effects d @ e2 d\<rparr>)"
  "as_proc dh_fetchCreated d =
     (DFetchCreated, d\<lparr>dh_effects := dh_effects d @ [CallGetDispute (dh_channelId d)]\<rparr>)"
  by (simp_all add: as_proc_def act_defs dh_emit_def dh_fetchCreated_def)

lemma dh_remaining_effects [simp]:
  "dh_remaining N f (d\<lparr>dh_effects := es\<rparr>) = dh_remaining N f d"
  by (simp add: dh_remaining_def)

lemma dh_rechallenge_decreases:
  assumes "js_Number (dsp_forkCnt x) = f" and "num_value (dsp_challengeCnt x) \<le> N"
    and "as_proc (dh_rechallenge E am me now x) d = (p, d')"
  shows "dh_measure N f p d' < 2 * dh_remaining N f d + 1"
proof (cases "dh_rechallenge E am me now x d")
  case (Pair r d2)
  show ?thesis
  proof (cases r)
    case (Inl e)
    with Pair assms(3) show ?thesis by (auto simp: as_proc_def)
  next
    case (Inr q)
    with Pair assms(3) have eq: "dh_rechallenge E am me now x d = (Inr p, d')"
      by (auto simp: as_proc_def)
    from eq show ?thesis
    proof (cases rule: dh_rechallenge_result)
      case (no_votes d1 qs e)
      with dh_remaining_newer [OF no_votes(2) assms(1,2) no_votes(3)] show ?thesis by simp
    next
      case (challenge d1 qs votes)
      with dh_remaining_newer [OF challenge(2) assms(1,2) challenge(3)] show ?thesis by simp
    qed auto
  qed
qed

lemma dh_rechallenge_not_creating:
  assumes "as_proc (dh_rechallenge E am me now x) d = (p, d')"
  shows "p \<noteq> DCreating args a"
proof
  assume "p = DCreating args a"
  with assms have "dh_rechallenge E am me now x d = (Inr (DCreating args a), d')"
    by (auto simp: as_proc_def split: prod.splits sum.splits)
  then show False by (cases rule: dh_rechallenge_result) auto
qed

lemma dh_resume_decreases:
  assumes "reply_fits N f p r" and "as_proc (dh_resume E am me now r p) d = (p', d')"
  shows "dh_measure N f p' d' < dh_measure N f p d"
    and "\<And>args a. p' = DCreating args a \<Longrightarrow> a \<le> 1"
proof -
  have "dh_measure N f p' d' < dh_measure N f p d \<and> (\<forall>args a. p' = DCreating args a \<longrightarrow> a \<le> 1)"
    using assms
  proof (cases "(N, f, p, r)" rule: reply_fits.cases)
    case (1 N f args attempt r')
    with assms show ?thesis
      by (cases r') (auto simp: dispute_retry_def retry_config_default_def split: if_splits)
  next
    case (4 N f x)
    with assms dh_rechallenge_decreases [of x f N E am me now d p' d'] show ?thesis
      by (auto split: if_splits dest: dh_rechallenge_not_creating)
  next
    case (6 N f y x)
    with assms dh_rechallenge_decreases [of x f N E am me now d p' d'] show ?thesis
      by (auto split: if_splits dest: dh_rechallenge_not_creating)
  qed auto
  then show "dh_measure N f p' d' < dh_measure N f p d"
    and "\<And>args a. p' = DCreating args a \<Longrightarrow> a \<le> 1" by auto
qed

text \<open>
  The life of one method call: before each reply other handlers may have changed the shared
  state (\<open>env\<close>), the agreement manager and the clock.
\<close>

type_synonym dh_event =
  "agreement_manager \<times> nat \<times> (dispute_state \<Rightarrow> dispute_state) \<times> contract_reply"

fun dh_run :: "ethers \<Rightarrow> address \<Rightarrow> dh_event list \<Rightarrow> dproc \<times> dispute_state \<Rightarrow> dproc \<times> dispute_state" where
  "dh_run E me [] pd = pd"
| "dh_run E me ((am, now, env, r) # evs) (p, d) =
     dh_run E me evs (as_proc (dh_resume E am me now r p) (env d))"

fun dh_fits :: "nat \<Rightarrow> nat \<Rightarrow> ethers \<Rightarrow> address \<Rightarrow> dh_event list \<Rightarrow> dproc \<times> dispute_state \<Rightarrow> bool" where
  "dh_fits N f E me [] pd = True"
| "dh_fits N f E me ((am, now, env, r) # evs) (p, d) =
     (settled p \<or> reply_fits N f p r \<and> dh_le d (env d) \<and>
        dh_fits N f E me evs (as_proc (dh_resume E am me now r p) (env d)))"

lemma dh_fits_settled: "settled p \<Longrightarrow> dh_fits N f E me evs (p, d)"
  by (cases evs) auto

lemma dh_measure_le: "dh_le d d' \<Longrightarrow> dh_measure N f p d' \<le> dh_measure N f p d"
  using dh_remaining_le [of d d' N f] by (cases p) auto

lemma settled_resume: "settled p \<Longrightarrow> as_proc (dh_resume E am me now r p) d = (p, d)"
  by (cases p; cases r) (auto simp: as_proc_def sreturn_def)

lemma settled_run: "settled (fst pd) \<Longrightarrow> fst (dh_run E me evs pd) = fst pd"
proof (induction evs arbitrary: pd)
  case Nil
  then show ?case by simp
next
  case (Cons ev evs)
  obtain am now env r p d where "ev = (am, now, env, r)" and "pd = (p, d)"
    by (cases ev, cases pd) auto
  with Cons settled_resume [of p E am me now r "env d"] show ?case by auto
qed

lemma dh_run_settles:
  "dh_fits N f E me evs pd \<Longrightarrow> dh_measure N f (fst pd) (snd pd) \<le> length evs \<Longrightarrow>
     settled (fst (dh_run E me evs pd))"
proof (induction evs arbitrary: pd)
  case Nil
  obtain p d where "pd = (p, d)" by (cases pd)
  with Nil show ?case by (cases p) auto
next
  case (Cons ev evs)
  obtain am now env r p d where ev: "ev = (am, now, env, r)" and pd: "pd = (p, d)"
    by (cases ev, cases pd) auto
  show ?case
  proof (cases "settled p")
    case True
    with settled_run [of pd E me "ev # evs"] pd show ?thesis by simp
  next
    case False
    obtain p' d' where step: "as_proc (dh_resume E am me now r p) (env d) = (p', d')"
      by (cases "as_proc (dh_resume E am me now r p) (env d)")
    have fits: "reply_fits N f p r" "dh_le d (env d)" "dh_fits N f E me evs (p', d')"
      using Cons.prems(1) False by (auto simp: ev pd step)
    have "dh_measure N f p' d' < dh_measure N f p (env d)"
      by (rule dh_resume_decreases(1) [OF fits(1) step])
    also have "\<dots> \<le> dh_measure N f p d" by (rule dh_measure_le [OF fits(2)])
    finally have "dh_measure N f p' d' \<le> length evs" using Cons.prems(2) by (simp add: ev pd)
    with Cons.IH [of "(p', d')"] fits(3) show ?thesis by (simp add: ev pd step)
  qed
qed

end
