(* ===== verification/DisputeProperties.thy ===== *)
theory DisputeProperties
  imports DisputeFacts AgreementProperties
begin

text \<open>
  The properties of the dispute handler and the proof manager, with witnesses on the sample
  channel.
\<close>

section \<open>Sample dispute\<close>

definition sample_dispute :: dispute where
  [sample]: "sample_dispute =
     \<lparr>dsp_channelId = ''ch'', dsp_forkCnt = BigInt 0, dsp_challengeCnt = BigInt 0,
      dsp_virtualVotingBlocks = [], dsp_timedoutParticipant = ZeroAddress,
      dsp_foldedTransactionCnt = BigInt 0, dsp_postedStateDisputer = ''C'',
      dsp_slashedParticipants = []\<rparr>"

definition sample_proof :: proof_struct where
  [sample]: "sample_proof = \<lparr>prf_proofType = 1, prf_encodedProof = ''p''\<rparr>"

definition sample_dh :: dispute_state where
  [sample]: "sample_dh = (dh_init ''ch'')\<lparr>dh_localProofs := [(0, [sample_proof])]\<rparr>"

lemma sample_dispute_fields [simp]:
  "dsp_channelId sample_dispute = ''ch''" "dsp_forkCnt sample_dispute = BigInt 0"
  "dsp_challengeCnt sample_dispute = BigInt 0" "dsp_virtualVotingBlocks sample_dispute = []"
  "dsp_timedoutParticipant sample_dispute = ZeroAddress"
  "dsp_foldedTransactionCnt sample_dispute = BigInt 0"
  "dsp_postedStateDisputer sample_dispute = ''C''" "dsp_slashedParticipants sample_dispute = []"
  "dh_disputes sample_dh = []" "dh_localProofs sample_dh = [(0, [sample_proof])]"
  by (simp_all add: sample_dispute_def sample_dh_def dh_init_def)

lemma ZeroHash_ch [simp]: "''ch'' \<noteq> ZeroHash"
  by (simp add: ZeroHash_def)

lemma sample_valid: "pm_isDoubleSignValid sampleE sample_proof sample_dispute = Inr True"
  by (simp add: pm_isDoubleSignValid_def pm_decodeProof_def sample_proof_def
      decode_block_field_def double_sign_val_def sb_val_def)

lemma sample_filter:
  "pm_filterValidProofs sampleE now sample_dispute (Some [sample_proof]) = Inr [sample_proof]"
  using sample_valid
  by (simp add: pm_filterValidProofs_def pm_validatorMap_def sample_proof_def)

lemma sample_rechallenge:
  "\<exists>d'. dh_rechallenge sampleE (sample_am sample_chain) ''A'' 100 sample_dispute sample_dh =
     (Inr (DChallenging sample_dispute), d') \<and> dh_channelId d' = ''ch''"
proof -
  have newer: "pm_createNewerStateProof sampleE (sample_am sample_chain) 0 ''C'' n = Inr None" for n
    by (simp add: pm_createNewerStateProof_def am_getLatestSignedBlockByParticipant_def
        fs_isValidForkCnt_def fs_agreementsIterator_def sample_am_def sample_chain_def)
  obtain v where "am_getFinalizedAndLatestWithVotes sampleE (sample_am sample_chain) (BigInt 0) ''A'' = Inr v"
    by (simp add: am_getFinalizedAndLatestWithVotes_def fs_agreementsIterator_def fs_isValidForkCnt_def
        sample_am_def sample_chain_def fs_getFork_def nth_opt_def getSignerAddresses_def fromArray_def
        set_add_def truthy_def set_has_def set_difference_def set_size_def set_delete_def)
  with newer sample_filter [of 100] show ?thesis
    by (simp add: dh_rechallenge_def dh_updateDisputeIfNewer_def dh_shouldUpdateDispute_def
        dh_extractProofs_def dh_addIfAny_def dh_getLastTransactionCount_def dh_filterProofs_def
        dh_emit_def act_defs map_get_def map_set_def Let_def)
      (simp add: sample_dh_def dh_init_def)
qed

section \<open>Disputes\<close>

text \<open>
  C32. Answering a dispute ends. Whatever the contract replies and whatever other handlers do to
  the dispute state between the replies (they never forget, \<open>dh_le\<close>), a method of the dispute
  handler that waits for the contract has returned or thrown after at most \<open>2 N + 5\<close> replies,
  where \<open>N\<close> bounds the challenge counters of the fork's disputes.
\<close>

theorem dispute_answer_ends:
  assumes "dh_fits N f E me evs (p, d)" and "2 * N + 5 \<le> length evs"
  shows "settled (fst (dh_run E me evs (p, d)))"
proof (rule dh_run_settles [OF assms(1)])
  have "dh_remaining N f d \<le> Suc N" by (auto simp: dh_remaining_def split: option.split)
  then have "dh_measure N f p d \<le> 2 * N + 5" by (cases p) auto
  with assms(2) show "dh_measure N f (fst (p, d)) (snd (p, d)) \<le> length evs" by simp
qed

theorem dispute_answer_ends_witness:
  "settled (fst (dh_run sampleE ''A''
     (replicate 5 (am_init, 0, (\<lambda>d. d), DisputeReply (Inr sample_dispute)))
     (DFetchCreated, dh_init ''ch'')))"
proof (rule dispute_answer_ends [where N = 0 and f = 0])
  have newer: "pm_createNewerStateProof sampleE am_init 0 ''C'' n = Inr None" for n
    by (simp add: pm_createNewerStateProof_def am_getLatestSignedBlockByParticipant_def
        fs_isValidForkCnt_def am_init_def)
  have "dh_extractProofs sampleE am_init 0 sample_dispute d = (Inr [], d)" if "dh_localProofs d = []" for d
    using that
    by (simp add: newer dh_extractProofs_def dh_addIfAny_def dh_getLastTransactionCount_def
        dh_filterProofs_def act_defs) (simp add: pm_filterValidProofs_def)
  then have "dh_rechallenge sampleE am_init ''A'' 0 sample_dispute (dh_init ''ch'') =
      (Inr DDone, (dh_init ''ch'')\<lparr>dh_disputes := [(0, sample_dispute)]\<rparr>)"
    by (simp add: dh_rechallenge_def dh_updateDisputeIfNewer_def dh_shouldUpdateDispute_def
        act_defs dh_init_def map_set_def)
  then have "as_proc (dh_resume sampleE am_init ''A'' 0 (DisputeReply (Inr sample_dispute)) DFetchCreated)
      (dh_init ''ch'') = (DDone, (dh_init ''ch'')\<lparr>dh_disputes := [(0, sample_dispute)]\<rparr>)"
    by (simp add: as_proc_def sbind_def sread_def)
  note step = this
  let ?ev = "(am_init, 0::nat, (\<lambda>d::dispute_state. d), DisputeReply (Inr sample_dispute))"
  have "dh_fits 0 0 sampleE ''A'' (?ev # evs) (DFetchCreated, dh_init ''ch'')" for evs
    unfolding dh_fits.simps(2) step by (simp add: dh_fits_settled)
  moreover have "replicate 5 ?ev = ?ev # replicate 4 ?ev" 
    by (metis replicate_Suc eval_nat_numeral(3) semiring_norm(26,27) numeral_nat(2))
  ultimately show "dh_fits 0 0 sampleE ''A'' (replicate 5 ?ev) (DFetchCreated, dh_init ''ch'')" by simp
qed simp

text \<open>
  A challenge carries at least one proof, and every proof it carries was stored for the
  fork of the dispute and accepted by the validator of its type.
\<close>

theorem challenge_carries_valid_proofs:
  assumes "dh_rechallenge E am me now x d = (Inr (DChallenging y), d')"
  shows "\<exists>c n ps votes stored.
    last (dh_effects d') = CallChallengeDispute c (dsp_forkCnt x) n ps votes \<and> ps \<noteq> [] \<and>
    am_getFinalizedAndLatestWithVotes E am (dsp_forkCnt x) me = Inr votes \<and>
    map_get (dh_localProofs d') (js_Number (dsp_forkCnt x)) = Some stored \<and>
    (\<forall>p \<in> set ps. p \<in> set stored \<and>
       (\<exists>v. pm_validatorMap E now (prf_proofType p) = Some v \<and> v p x = Inr True))"
  using assms
proof (cases rule: dh_rechallenge_result)
  case (challenge d1 qs votes)
  have f: "pm_filterValidProofs E now x
      (map_get (dh_localProofs d1) (js_Number (dsp_forkCnt x))) = Inr qs"
    using challenge(4) by (simp add: dh_filterProofs_def)
  then obtain stored where "map_get (dh_localProofs d1) (js_Number (dsp_forkCnt x)) = Some stored"
    using challenge(5) by (auto simp: pm_filterValidProofs_def split: option.splits)
  with challenge pm_filterValidProofs_Inr [OF f] show ?thesis by fastforce
qed auto

theorem challenge_carries_valid_proofs_witness:
  "\<exists>d' c n ps votes. dh_rechallenge sampleE (sample_am sample_chain) ''A'' 100 sample_dispute sample_dh =
     (Inr (DChallenging sample_dispute), d') \<and>
     last (dh_effects d') = CallChallengeDispute c (BigInt 0) n ps votes \<and> ps \<noteq> []"
proof -
  obtain d' where run: "dh_rechallenge sampleE (sample_am sample_chain) ''A'' 100 sample_dispute sample_dh =
     (Inr (DChallenging sample_dispute), d')" using sample_rechallenge by blast
  from challenge_carries_valid_proofs [OF this] run show ?thesis by auto
qed

text \<open>
  C34. A block above height 0 that is not stored yet, as is every block that just failed
  validation, gets no incorrect-data proof: \<open>createIncorrectDataProof\<close> throws, because it looks
  up the state after the block instead of the state before it, and \<open>disputeIncorrectData\<close> throws
  with it and leaves the dispute state as it was.
\<close>

theorem incorrect_data_never_disputed:
  assumes "decodeBlock E (sb_encodedBlock sb) = Inr b" and "0 < getHeight b"
    and "fs_getAgreement (forkService am) (getFork b) (getHeight b) = None"
  shows "\<exists>e. pm_createIncorrectDataProof E am sb = Inl e \<and>
    dh_disputeIncorrectData E am me sb d = (Inl e, d)"
proof -
  have "\<exists>e. pm_createRegularBlockIncorrectDataProof E am sb (getFork b) (getHeight b) = Inl e"
    using assms(3)
    by (cases "am_getBlock am (getFork b) (getHeight b - 1)";
        cases "am_getOriginalSignature E am (the (am_getBlock am (getFork b) (getHeight b - 1)))")
      (auto simp: pm_createRegularBlockIncorrectDataProof_def am_getEncodedState_def truthy_def Let_def)
  with assms show ?thesis
    by (auto simp: pm_createIncorrectDataProof_def dh_disputeIncorrectData_def sbind_def sread_def Let_def)
qed

theorem incorrect_data_never_disputed_witness:
  "\<exists>e. dh_disputeIncorrectData sampleE (sample_am [sample_chain0]) ''B'' (signed ''b1'' CHR ''A'') sample_dh =
     (Inl e, sample_dh)"
proof -
  have "decodeBlock sampleE (sb_encodedBlock (signed ''b1'' CHR ''A'')) = Inr block1"
    by (simp add: signed_def)
  from incorrect_data_never_disputed [OF this, of "sample_am [sample_chain0]"] show ?thesis
    by (auto simp: fs_getAgreement_def fs_isValidForkCnt_def sample_am_def sample_fork_def nth_opt_def)
qed

text \<open>
  C31. Disputing a double sign: when \<open>disputeDoubleSign\<close> gets as far as waiting for the contract,
  the fork of the first conflicting block is marked as disputed, a double-sign proof is stored
  for it, and both stay whatever the dispute handler does next.
\<close>

theorem double_sign_dispute_recorded:
  assumes "dh_disputeDoubleSign E am me (sb # sbs) d = (Inr p, d')"
    and "decodeBlock E (sb_encodedBlock sb) = Inr b" and "dh_le d' d''"
  shows "\<exists>prf stored. pm_createDoubleSignProof E am (sb # sbs) = Inr prf \<and>
    prf_proofType prf = proof_type_num DoubleSign \<and> dh_isForkDisputed d'' (getFork b) \<and>
    map_get (dh_localProofs d'') (getFork b) = Some stored \<and> prf \<in> set stored"
proof -
  let ?f = "hdr_forkCnt (tx_header (blk_transaction b))"
  from assms(1,2) obtain pf where pf: "pm_createDoubleSignProof E am (sb # sbs) = Inr pf"
    and run: "dh_createDispute E am me ?f NO_PARTICIPANT_TO_FOLD INITIAL_TRANSACTION_COUNT [pf] d = (Inr p, d')"
    by (auto simp: dh_disputeDoubleSign_def res_simps dest!: sym [of "Inr _"])
  let ?d1 = "dh_addProof (getFork b) pf (dh_setForkDisputed (getFork b) d)"
  have "dh_le ?d1 d'"
  proof -
    have "(case map_get (dh_disputes ?d1) (getFork b) of
             None \<Rightarrow> dh_createNewDispute E am me ?f NO_PARTICIPANT_TO_FOLD INITIAL_TRANSACTION_COUNT [pf]
           | Some _ \<Rightarrow> dh_fetchCreated) ?d1 = (Inr p, d')"
      using run by (simp add: dh_createDispute_def sbind_def smodify_def sread_def getFork_def Let_def)
    moreover have "keeps dh_le (case map_get (dh_disputes ?d1) (getFork b) of
             None \<Rightarrow> dh_createNewDispute E am me ?f NO_PARTICIPANT_TO_FOLD INITIAL_TRANSACTION_COUNT [pf]
           | Some _ \<Rightarrow> dh_fetchCreated)"
      by (auto intro!: dh_keeps split: option.split)
    ultimately show ?thesis by (rule keepsD [rotated])
  qed
  then have le: "dh_le ?d1 d''" using assms(3) dh_le_trans by blast
  obtain stored where "map_get (dh_localProofs ?d1) (getFork b) = Some stored" and in1: "pf \<in> set stored"
    by (simp add: dh_addProof_def Let_def)
  with le obtain qs where "map_get (dh_localProofs d'') (getFork b) = Some (stored @ qs)"
    unfolding dh_le_def by blast
  moreover have "dh_isForkDisputed d'' (getFork b)"
    using le by (auto simp: dh_le_def dh_isForkDisputed_def dh_addProof_def dh_setForkDisputed_def Let_def)
  moreover have "prf_proofType pf = proof_type_num DoubleSign"
    using pf by (auto simp: pm_createDoubleSignProof_def pm_struct_def res_simps)
  ultimately show ?thesis using pf in1 by auto
qed

theorem double_sign_dispute_recorded_witness:
  "\<exists>p d'. dh_disputeDoubleSign sampleE (sample_am sample_chain) ''A'' [signed ''c0'' CHR ''B'']
      (sample_dh\<lparr>dh_disputes := [(0, sample_dispute)]\<rparr>) = (Inr p, d') \<and> dh_isForkDisputed d' 0"
proof -
  have dec: "decodeBlock sampleE (sb_encodedBlock (signed ''c0'' CHR ''B'')) = Inr block0'"
    by (simp add: signed_def)
  have "\<exists>x. am_getDoubleSignedBlock sampleE (sample_am sample_chain) (signed ''c0'' CHR ''B'') = Inr x"
    by (simp add: am_getDoubleSignedBlock_def signed_def fs_getAgreementByBlock_eq fs_defs nth_opt_def
        sample_am_def sample_chain_def areBlocksEqual_def)
  then have "\<exists>prf. pm_createDoubleSignProof sampleE (sample_am sample_chain) [signed ''c0'' CHR ''B''] = Inr prf"
    by (auto simp: pm_createDoubleSignProof_def pm_doubleSigns_def pm_struct_def pm_encodeProof_def
        double_sign_val_def)
  moreover have "js_Number (hdr_forkCnt (tx_header (blk_transaction block0'))) = 0"
    using sample_positions(5) by (simp only: getFork_def)
  ultimately obtain p d' where run: "dh_disputeDoubleSign sampleE (sample_am sample_chain) ''A''
      [signed ''c0'' CHR ''B''] (sample_dh\<lparr>dh_disputes := [(0, sample_dispute)]\<rparr>) = (Inr p, d')"
    using dec
    by (auto simp: dh_disputeDoubleSign_def dh_createDispute_def act_defs dh_fetchCreated_def
        dh_emit_def dh_setForkDisputed_def dh_addProof_def map_get_def Let_def)
  from double_sign_dispute_recorded [OF run dec dh_le_refl] run show ?thesis by auto
qed

text \<open>
  \<open>filterValidProofs\<close> keeps exactly the stored proofs their validator accepts, in their
  order; filtering twice changes nothing.
\<close>

theorem filter_valid_exact:
  assumes "pm_filterValidProofs E now x (Some ps) = Inr qs"
  shows "qs = filter (\<lambda>p. \<exists>v. pm_validatorMap E now (prf_proofType p) = Some v \<and> v p x = Inr True) ps \<and>
    pm_filterValidProofs E now x (Some qs) = Inr qs"
proof -
  let ?p = "\<lambda>prf. case pm_validatorMap E now (prf_proofType prf) of
      None \<Rightarrow> Inl (Error ''Unknown proof type'') | Some validator \<Rightarrow> validator prf x"
  have all: "pm_filterValidProofs E now x (Some zs) = filterM ?p zs" for zs
    by (cases zs) (simp_all add: pm_filterValidProofs_def)
  have good: "?p q = Inr True \<longleftrightarrow> (\<exists>v. pm_validatorMap E now (prf_proofType q) = Some v \<and> v q x = Inr True)"
    for q by (auto split: option.split)
  have f: "qs = filter (\<lambda>q. ?p q = Inr True) ps"
    using filterM_Inr [of ?p ps qs] assms all by simp
  moreover have "filterM ?p qs = Inr qs"
    using filterM_total [of qs ?p] f by auto
  ultimately show ?thesis using all good by simp
qed

theorem filter_valid_exact_witness:
  "pm_filterValidProofs sampleE 100 sample_dispute (Some [sample_proof]) = Inr [sample_proof] \<and>
   filter (\<lambda>p. \<exists>v. pm_validatorMap sampleE 100 (prf_proofType p) = Some v \<and>
     v p sample_dispute = Inr True) [sample_proof] = [sample_proof]"
  using filter_valid_exact [OF sample_filter [of 100]] sample_filter [of 100] by argo

section \<open>Proofs the validators never accept\<close>

text \<open>An \<open>ethers\<close> record whose ABI decoder gives back objects with the type's own names.\<close>

definition namesE :: ethers where
  "namesE = sampleE\<lparr>abiDecode := (\<lambda>t s. case t of
       TTuple fs \<Rightarrow> Inr (JObj (map (\<lambda>f. (fst f, if fst f = ''encodedBlock'' then JStr ''b1'' else JUndefined)) fs))
     | _ \<Rightarrow> Inl (External ''bad data''))\<rparr>"

text \<open>
  C35. Neither of the two proofs against a timeout survives the filter: on a dispute whose
  counters come from the contract as BigInt, \<open>isFoldRechallengeValid\<close> compares a number with a
  BigInt by \<open>===\<close>, and \<open>isFoldPriorBlockValid\<close> reads the field \<open>transactionCnt\<close> of an object
  decoded with the names of its type, which calls it \<open>moveCnt\<close>.
\<close>

theorem fold_proofs_never_valid:
  assumes "dsp_foldedTransactionCnt x = BigInt n"
    and "\<And>s fs v. abiDecode E (TTuple fs) s = Inr v \<Longrightarrow>
      \<exists>kvs. v = JObj kvs \<and> map fst kvs = map fst fs"
    and "prf_proofType p = proof_type_num FoldRechallenge \<or> prf_proofType p = proof_type_num FoldPriorBlock"
    and "pm_filterValidProofs E now x (Some ps) = Inr qs"
  shows "p \<notin> set qs"
proof
  assume "p \<in> set qs"
  with assms(4) pm_filterValidProofs_Inr obtain v
    where v: "pm_validatorMap E now (prf_proofType p) = Some v" "v p x = Inr True" by blast
  from assms(3) show False
  proof
    assume "prf_proofType p = proof_type_num FoldRechallenge"
    with v assms(1) show False
      by (auto simp: pm_validatorMap_def pm_isFoldRechallengeValid_def rbind_Inr_iff Let_def)
  next
    assume "prf_proofType p = proof_type_num FoldPriorBlock"
    with v have "pm_isFoldPriorBlockValid E p x = Inr True" by (simp add: pm_validatorMap_def)
    then obtain w cnt where w: "abiDecode E (TTuple [(''moveCnt'', TUint)]) (prf_encodedProof p) = Inr w"
      and cnt: "js_get ''transactionCnt'' w = Inr cnt" "js_less cnt (dsp_foldedTransactionCnt x)"
      by (auto simp: pm_isFoldPriorBlockValid_def pm_decodeProof_def FoldPriorBlockProofEthersType_def
          rbind_Inr_iff)
    from assms(2) [OF w] obtain kvs where "w = JObj kvs" and "map fst kvs = [''moveCnt'']" by auto
    then have "map_of kvs ''transactionCnt'' = None" by (auto simp: map_of_eq_None_iff)
    with cnt \<open>w = JObj kvs\<close> show False by simp
  qed
qed

theorem fold_proofs_never_valid_witness:
  "pm_filterValidProofs namesE 100 sample_dispute
     (Some [\<lparr>prf_proofType = 0, prf_encodedProof = ''p''\<rparr>, \<lparr>prf_proofType = 4, prf_encodedProof = ''p''\<rparr>]) = Inr [] \<and>
   \<lparr>prf_proofType = 4, prf_encodedProof = ''p''\<rparr> \<notin> set ([] :: proof_struct list)"
proof -
  have names: "\<exists>kvs. v = JObj kvs \<and> map fst kvs = map fst fs"
    if "abiDecode namesE (TTuple fs) s = Inr v" for s fs v
    using that by (auto simp: namesE_def comp_def)
  have dec: "decodeBlock namesE ''b1'' = Inr block1"
    using sample_decode(2) by (simp add: namesE_def decodeBlock_def)
  have run: "pm_filterValidProofs namesE 100 sample_dispute
     (Some [\<lparr>prf_proofType = 0, prf_encodedProof = ''p''\<rparr>, \<lparr>prf_proofType = 4, prf_encodedProof = ''p''\<rparr>]) = Inr []"
    using dec
    by (simp add: pm_filterValidProofs_def pm_validatorMap_def pm_isFoldRechallengeValid_def
        pm_isFoldPriorBlockValid_def pm_decodeProof_def decode_block_field_def namesE_def
        FoldRechallengeProofEthersType_def FoldPriorBlockProofEthersType_def Let_def)
  from fold_proofs_never_valid [OF _ names _ run, where n = 0
      and p = "\<lparr>prf_proofType = 4, prf_encodedProof = ''p''\<rparr>"] run
  show ?thesis by simp
qed

text \<open>An \<open>ethers\<close> record whose ABI coder knows one value: a newer-state proof for block 1.\<close>

definition newerE :: ethers where
  "newerE = sampleE\<lparr>
     abiEncode := (\<lambda>t v. if v = newer_state_val ''b1'' (sig_of CHR ''B'' ''b1'') then Inr ''n''
                         else Inl (External ''bad value'')),
     abiDecode := (\<lambda>t s. if s = ''n'' then Inr (newer_state_val ''b1'' (sig_of CHR ''B'' ''b1''))
                         else Inl (External ''bad data''))\<rparr>"

text \<open>
  C35. The newer-state proof against a disputer who only confirmed the newer block, and did not
  author it, is built but filtered out again: \<open>isNewerStateValid\<close> asks for the author, although
  the signature in the proof recovers to the disputer, which is what the contract checks.
\<close>

theorem newer_state_of_confirmer_dropped:
  assumes "am_getLatestSignedBlockByParticipant E am f (dsp_postedStateDisputer x) = Inr (Some (b, s))"
    and "getBlockAuthor b \<noteq> dsp_postedStateDisputer x" and "cnt < getHeight b"
    and "\<And>t v enc. abiEncode E t v = Inr enc \<Longrightarrow> abiDecode E t enc = Inr v"
    and "decodeBlock E (encodeBlock E b) = Inr b"
    and "pm_createNewerStateProof E am f (dsp_postedStateDisputer x) cnt = Inr (Some p)"
    and "pm_filterValidProofs E now x (Some ps) = Inr qs"
  shows "retrieveSignerAddressBlock E b s = Inr (dsp_postedStateDisputer x) \<and> p \<notin> set qs"
proof -
  have r: "retrieveSignerAddressBlock E b s = Inr (dsp_postedStateDisputer x)"
    using assms(1) latestSignedLoop_Some
    by (fastforce simp: am_getLatestSignedBlockByParticipant_def split: if_splits)
  have p: "prf_proofType p = proof_type_num NewerState"
    "abiEncode E NewerStateProofEthersType (newer_state_val (encodeBlock E b) s) = Inr (prf_encodedProof p)"
    using assms(1,3,6)
    by (auto simp: pm_createNewerStateProof_def pm_struct_def pm_encodeProof_def newer_state_val_def
        rmap_Inr_iff Let_def)
  have "abiDecode E NewerStateProofEthersType (prf_encodedProof p) = Inr (newer_state_val (encodeBlock E b) s)"
    by (rule assms(4) [OF p(2)])
  then have dec: "pm_decodeProof E NewerState (prf_encodedProof p) =
      Inr (newer_state_val (encodeBlock E b) s)" by (simp add: pm_decodeProof_def)
  have "p \<notin> set qs"
  proof
    assume "p \<in> set qs"
    with assms(7) pm_filterValidProofs_Inr obtain v
      where v: "pm_validatorMap E now (prf_proofType p) = Some v" "v p x = Inr True" by blast
    then have "pm_isNewerStateValid E p x = Inr True" by (simp add: p pm_validatorMap_def)
    with dec assms(2,5) show False
      by (auto simp: pm_isNewerStateValid_def decode_block_field_def newer_state_val_def rbind_Inr_iff
          Let_def split: option.splits)
  qed
  with r show ?thesis by simp
qed

definition confirmed_chain1 :: agreement where
  "confirmed_chain1 = sample_chain1\<lparr>ag_blockSignatures :=
     [sig_of CHR ''A'' ''b1'', sig_of CHR ''B'' ''b1'']\<rparr>"

definition confirmer_dispute :: dispute where
  "confirmer_dispute = sample_dispute\<lparr>dsp_postedStateDisputer := ''B'',
     dsp_virtualVotingBlocks := [\<lparr>cb_encodedBlock = ''b0'', cb_signatures = []\<rparr>]\<rparr>"

theorem newer_state_of_confirmer_dropped_witness:
  "retrieveSignerAddressBlock newerE block1 (sig_of CHR ''B'' ''b1'') = Inr ''B'' \<and>
   (\<exists>p. pm_createNewerStateProof newerE (sample_am [sample_chain0, confirmed_chain1]) 0 ''B'' 0 = Inr (Some p) \<and>
      pm_filterValidProofs newerE 100 confirmer_dispute (Some [p]) = Inr [] \<and> p \<notin> set [])"
proof -
  let ?am = "sample_am [sample_chain0, confirmed_chain1]"
  let ?p = "\<lparr>prf_proofType = 3, prf_encodedProof = ''n''\<rparr>"
  have ret: "retrieveSignerAddressBlock newerE b s = retrieveSignerAddressBlock sampleE b s" for b s
    by (simp add: retrieveSignerAddressBlock_def newerE_def encodeBlock_def)
  have dec: "decodeBlock newerE s = decodeBlock sampleE s" "encodeBlock newerE b = encodeBlock sampleE b" for s b
    by (simp_all add: newerE_def decodeBlock_def encodeBlock_def)
  have latest: "am_getLatestSignedBlockByParticipant newerE ?am 0 (dsp_postedStateDisputer confirmer_dispute) =
      Inr (Some (block1, sig_of CHR ''B'' ''b1''))"
    by (simp add: am_getLatestSignedBlockByParticipant_def fs_isValidForkCnt_def fs_agreementsIterator_def
        sample_am_def sample_fork_def confirmed_chain1_def confirmer_dispute_def ret)
  have new: "pm_createNewerStateProof newerE ?am 0 (dsp_postedStateDisputer confirmer_dispute) 0 = Inr (Some ?p)"
    using latest dec
    by (simp add: pm_createNewerStateProof_def pm_struct_def pm_encodeProof_def Let_def)
      (simp add: newerE_def newer_state_val_def)
  have prf_dec: "pm_decodeProof newerE NewerState ''n'' = Inr (newer_state_val ''b1'' (sig_of CHR ''B'' ''b1''))"
    by (simp add: pm_decodeProof_def newerE_def)
  have "pm_isNewerStateValid newerE ?p confirmer_dispute = Inr False"
    using prf_dec dec
    by (simp add: pm_isNewerStateValid_def decode_block_field_def newer_state_val_def at_last_def
        confirmer_dispute_def)
  then have filt: "pm_filterValidProofs newerE 100 confirmer_dispute (Some [?p]) = Inr []"
    by (simp add: pm_filterValidProofs_def pm_validatorMap_def)
  have codec: "abiDecode newerE t enc = Inr v" if "abiEncode newerE t v = Inr enc" for t v enc
    using that by (auto simp: newerE_def split: if_splits)
  from newer_state_of_confirmer_dropped [OF latest _ _ codec _ new filt] new filt dec show ?thesis
    by (auto simp: confirmer_dispute_def)
qed

end
