(* ===== verification/Node.thy ===== *)
theory Node
  imports DisputeFacts
begin

text \<open>
  The state of one peer, as the objects built by \<open>StateManager\<close>'s constructor share it, and the
  vocabulary of its asynchronous code. Third-party and remote code (ethers, the signer, the
  state machine executed by the EVM, the contract's view functions) is the record \<open>params\<close>.

  A handler runs from one \<open>await\<close> to the next; at each \<open>await\<close> other handlers may run.
  \<open>nawait P site\<close> marks such a point: there the function \<open>p_env P\<close> changes the state in whatever
  way the other handlers did. Work left for later is listed explicitly: promises that are ready
  (\<open>n_jobs\<close>), the mutex queue, timers, calls of the dispute handler nobody awaits, and contract
  queries.
\<close>

section \<open>Pending work\<close>

text \<open>Who awaits the result of \<open>onBlockConfirmation\<close> and of \<open>onSignedBlock\<close>.\<close>

datatype confirm_cont =
  CK_rpc signed_block bytes                  \<comment> \<open>\<open>StateTransitionService.onBlockConfirmation\<close>\<close>
| CK_queue "block_confirmation list"         \<comment> \<open>the rest of the loop of \<open>tryConfirmFromQueue\<close>\<close>

datatype signed_cont =
  RK_rpc signed_block                        \<comment> \<open>\<open>StateTransitionService.onSignedBlock\<close>\<close>
| RK_queue "signed_block list"               \<comment> \<open>the rest of the loop of \<open>tryExecuteFromQueue\<close>\<close>
| RK_confirm signed_block bytes block confirm_cont   \<comment> \<open>\<open>validateBlockConfirmation\<close>\<close>

datatype job =
  J_signed signed_block "block option" signed_cont   \<comment> \<open>call of \<open>onSignedBlock\<close>\<close>
| J_signed_locked signed_block block signed_cont     \<comment> \<open>its promise of the mutex was resolved\<close>
| J_confirm signed_block bytes "block option" confirm_cont   \<comment> \<open>call of \<open>onBlockConfirmation\<close>\<close>
| J_play_locked transaction                          \<comment> \<open>\<open>playTransaction\<close>, holding the mutex\<close>

datatype timer =
  T_queueProcessing
| T_confirmFromQueue bool
| T_participantTimeout nat nat address
| T_timeoutParticipantDelayed nat address nat
| T_maybePostBlockOnChain block signed_block
| T_stateTransitionSuccessCallback "string list"

datatype rpc =
  Rpc_onSignedBlock signed_block
| Rpc_onBlockConfirmation signed_block bytes

datatype hook =
  OnTurn address | OnSetState | OnPostingCalldata | OnPostedCalldata | OnDisputeUpdate dispute
| ContractEvents "string list"

section \<open>State\<close>

record 'sm node =
  n_am :: agreement_manager
  n_dh :: dispute_state
  n_sm :: 'sm
  n_channelId :: bytes
  n_now :: nat
  n_mutex :: "job mutex"
  n_isDisposed :: bool
  n_jobs :: "job list"
  n_timers :: "(nat \<times> timer) list"
  n_procs :: "dproc list"
  n_timeoutQueries :: "(nat \<times> nat \<times> address) list"
  n_outbox :: "rpc list"
  n_posts :: "signed_block list"
  n_hooks :: "hook list"
  n_rejections :: "js_error list"

text \<open>
  \<open>p_stateTransition\<close> gives the success flag and the logs that the success callback emits;
  \<open>p_chainTimestamp\<close> is the reply of the contract's \<open>getChainLatestBlockTimestamp\<close>. \<open>p_send\<close> says
  whether writing a broadcast to the open connections throws.
\<close>

record 'sm params =
  p_ethers :: ethers
  p_signer :: signer
  p_signerAddress :: address
  p_timeConfig :: time_config
  p_stateTransition :: "transaction \<Rightarrow> 'sm \<Rightarrow> (bool \<times> string list) res \<times> 'sm"
  p_getParticipants :: "'sm \<Rightarrow> address list res"
  p_getNextToWrite :: "'sm \<Rightarrow> address res"
  p_setState :: "bytes \<Rightarrow> 'sm \<Rightarrow> unit res \<times> 'sm"
  p_getState :: "'sm \<Rightarrow> bytes res"
  p_chainTimestamp :: "bytes \<Rightarrow> nat \<Rightarrow> nat \<Rightarrow> js_num res"
  p_send :: "rpc \<Rightarrow> unit res"
  p_env :: "string \<Rightarrow> 'sm node \<Rightarrow> 'sm node"

type_synonym ('sm, 'a) node_act = "('sm node, 'a) act"

text \<open>The state after \<open>new StateManager(...)\<close>: channel \<open>0x00\<close>, no forks.\<close>

definition node_init :: "'sm \<Rightarrow> nat \<Rightarrow> 'sm node" where
  "node_init sm now =
     \<lparr>n_am = am_init, n_dh = dh_init ''0x00'', n_sm = sm, n_channelId = ''0x00'', n_now = now,
      n_mutex = mutex_new, n_isDisposed = False, n_jobs = [], n_timers = [], n_procs = [],
      n_timeoutQueries = [], n_outbox = [], n_posts = [], n_hooks = [], n_rejections = []\<rparr>"

section \<open>Steps of asynchronous code\<close>

definition nget :: "('sm, 'sm node) node_act" where
  "nget = sread (\<lambda>n. Inr n)"

definition nawait :: "'sm params \<Rightarrow> string \<Rightarrow> ('sm, unit) node_act" where
  "nawait P site = smodify (p_env P site)"

text \<open>\<open>await m()\<close>: the call runs, then others do, then its result is seen.\<close>

definition call_await :: "'sm params \<Rightarrow> string \<Rightarrow> ('sm, 'a) node_act \<Rightarrow> ('sm, 'a) node_act" where
  "call_await P site m n = (case m n of (r, n') \<Rightarrow> (r, p_env P site n'))"

definition on_am :: "(agreement_manager \<Rightarrow> agreement_manager res) \<Rightarrow> ('sm, unit) node_act" where
  "on_am f n = (case f (n_am n) of Inl e \<Rightarrow> (Inl e, n) | Inr am \<Rightarrow> (Inr (), n\<lparr>n_am := am\<rparr>))"

definition on_sm :: "('sm \<Rightarrow> 'a res \<times> 'sm) \<Rightarrow> ('sm, 'a) node_act" where
  "on_sm f n = (case f (n_sm n) of (r, sm) \<Rightarrow> (r, n\<lparr>n_sm := sm\<rparr>))"

text \<open>\<open>scheduleTask(task, delayMs, name)\<close>: \<open>setTimeout\<close>; what the task throws is logged only.\<close>

definition scheduleTask :: "timer \<Rightarrow> nat \<Rightarrow> ('sm, unit) node_act" where
  "scheduleTask task delay = smodify (\<lambda>n. n\<lparr>n_timers := n_timers n @ [(delay, task)]\<rparr>)"

definition push_job :: "job \<Rightarrow> ('sm, unit) node_act" where
  "push_job j = smodify (\<lambda>n. n\<lparr>n_jobs := n_jobs n @ [j]\<rparr>)"

text \<open>\<open>n_outbox\<close> lists what was broadcast, also when a connection in the middle threw.\<close>

definition broadcast :: "'sm params \<Rightarrow> rpc \<Rightarrow> ('sm, unit) node_act" where
  "broadcast P r n = (p_send P r, n\<lparr>n_outbox := n_outbox n @ [r]\<rparr>)"

definition fire_hook :: "hook \<Rightarrow> ('sm, unit) node_act" where
  "fire_hook h = smodify (\<lambda>n. n\<lparr>n_hooks := n_hooks n @ [h]\<rparr>)"

definition unhandled :: "js_error \<Rightarrow> ('sm, unit) node_act" where
  "unhandled e = smodify (\<lambda>n. n\<lparr>n_rejections := n_rejections n @ [e]\<rparr>)"

text \<open>
  A method of the dispute handler called without \<open>await\<close>: it runs to its first \<open>await\<close> now and
  stays pending; if it threw, its promise is rejected and nobody listens.
\<close>

definition call_dispute ::
  "(agreement_manager \<Rightarrow> (dispute_state, dproc) act) \<Rightarrow> ('sm, unit) node_act" where
  "call_dispute m n =
     (case as_proc (m (n_am n)) (n_dh n) of
        (p, d) \<Rightarrow> (Inr (), n\<lparr>n_dh := d, n_procs := n_procs n @ [p],
                            n_rejections := n_rejections n @
                              (case p of DFailed e \<Rightarrow> [e] | _ \<Rightarrow> [])\<rparr>))"

text \<open>
  \<open>await this.mutex.lock()\<close> and \<open>this.mutex.unlock()\<close>. A waiter is the job that goes on once the
  lock is its own; a resolved promise makes that job ready.
\<close>

definition acquire :: "job \<Rightarrow> ('sm, unit) node_act" where
  "acquire w =
     smodify (\<lambda>n. case mutex_lock w (n_mutex n) of
                     (True, m) \<Rightarrow> n\<lparr>n_mutex := m, n_jobs := n_jobs n @ [w]\<rparr>
                   | (False, m) \<Rightarrow> n\<lparr>n_mutex := m\<rparr>)"

definition unlock :: "('sm, unit) node_act" where
  "unlock =
     smodify (\<lambda>n. case mutex_unlock (n_mutex n) of
                     (None, m) \<Rightarrow> n\<lparr>n_mutex := m\<rparr>
                   | (Some w, m) \<Rightarrow> n\<lparr>n_mutex := m, n_jobs := n_jobs n @ [w]\<rparr>)"

text \<open>\<open>try { m } catch\<close> as a value, to model \<open>finally\<close> blocks.\<close>

definition settle :: "('sm, 'a) node_act \<Rightarrow> ('sm, 'a res) node_act" where
  "settle m n = (case m n of (r, n') \<Rightarrow> (Inr r, n'))"

text \<open>A promise nobody awaits.\<close>

definition detached :: "('sm, unit) node_act \<Rightarrow> ('sm, unit) node_act" where
  "detached m = sbind (settle m) (\<lambda>r. case r of Inl e \<Rightarrow> unhandled e | Inr _ \<Rightarrow> sreturn ())"

section \<open>Views used everywhere\<close>

definition getForkCnt :: "'sm node \<Rightarrow> nat" where
  "getForkCnt n = am_getLatestForkCnt (n_am n)"

definition getNextBlockHeight :: "'sm node \<Rightarrow> nat" where
  "getNextBlockHeight n = am_getNextBlockHeight (n_am n)"

definition getEncodedStateKecak256 :: "'sm params \<Rightarrow> ('sm, bytes) node_act" where
  "getEncodedStateKecak256 P =
     sbind (call_await P ''getState'' (sread (\<lambda>n. p_getState P (n_sm n))))
       (\<lambda>s. sreturn (keccak256 (p_ethers P) s))"

definition getNextToWrite :: "'sm params \<Rightarrow> ('sm, address) node_act" where
  "getNextToWrite P = call_await P ''getNextToWrite'' (sread (\<lambda>n. p_getNextToWrite P (n_sm n)))"

definition isMyTurn :: "'sm params \<Rightarrow> ('sm, bool) node_act" where
  "isMyTurn P = sbind (getNextToWrite P) (\<lambda>next. sreturn (p_signerAddress P = next))"

end
