(* ===== verification/ValidationService.thy ===== *)
theory ValidationService
  imports Node
begin

text \<open>
  \<open>src/stateManager/ValidationService.ts\<close> (prefix \<open>vs_\<close>): the pipeline a signed block passes
  before it joins the chain, and the checks of a block confirmation. Its call of
  \<open>StateManager.onSignedBlock\<close> splits \<open>validateBlockConfirmation\<close> into a part before and a part
  after that call.
\<close>

record validation_result =
  vr_success :: bool
  vr_flag :: execution_flag
  vr_agreementFlag :: "agreement_flag option"

definition vr_ok :: validation_result where
  "vr_ok = \<lparr>vr_success = True, vr_flag = EF_SUCCESS, vr_agreementFlag = None\<rparr>"

definition vr_fail :: "execution_flag \<Rightarrow> validation_result" where
  "vr_fail flag = \<lparr>vr_success = False, vr_flag = flag, vr_agreementFlag = None\<rparr>"

definition vr_dispute :: "agreement_flag \<Rightarrow> validation_result" where
  "vr_dispute af = \<lparr>vr_success = False, vr_flag = EF_DISPUTE, vr_agreementFlag = Some af\<rparr>"

section \<open>One-liners\<close>

text \<open>\<open>this.getForkCnt() >= 0\<close>, on the integers as the code has it.\<close>

definition vs_isChannelOpen :: "'sm node \<Rightarrow> bool" where
  "vs_isChannelOpen n \<longleftrightarrow> int (getForkCnt n) \<ge> 0"

definition vs_isPastFork :: "'sm node \<Rightarrow> nat \<Rightarrow> bool" where
  "vs_isPastFork n f \<longleftrightarrow> f < getForkCnt n"

definition vs_isSignedBlockAuthentic ::
  "'sm params \<Rightarrow> signed_block \<Rightarrow> block \<Rightarrow> bytes \<Rightarrow> bool res" where
  "vs_isSignedBlockAuthentic P signed block expectedChannelId =
     (if getBlockChannelId block \<noteq> expectedChannelId then Inr False
      else (let h = keccak256 (p_ethers P) (sb_encodedBlock signed)
            in rmap (\<lambda>signer. signer = getBlockAuthor block)
                 (verifyMessage (p_ethers P) (getBytes (p_ethers P) h) (sb_signature signed))))"

section \<open>Time\<close>

definition vs_isEnoughTimeSubjective ::
  "'sm params \<Rightarrow> signed_block \<Rightarrow> block \<Rightarrow> ('sm, execution_flag) node_act" where
  "vs_isEnoughTimeSubjective P signed blk =
     sbind (call_await P ''isMyTurn'' (isMyTurn P)) (\<lambda>mine.
       if \<not> mine then sreturn EF_SUCCESS
       else sbind nget (\<lambda>n.
         let flag = subjectiveTimingFlag (getTimestamp blk) (n_now n)
         in if flag = EF_DISPUTE
            then sbind (sread (\<lambda>_. pm_createBlockTooFarInFutureProof (p_ethers P) signed)) (\<lambda>prf.
                 sbind (call_dispute (\<lambda>am. dh_createDispute (p_ethers P) am (p_signerAddress P)
                          (Num (getForkCnt n)) NO_PARTICIPANT_TO_FOLD (Num 0) [prf]))
                   (\<lambda>_. sreturn flag))
            else sreturn flag))"

definition vs_isGoodTimestamp :: "'sm params \<Rightarrow> block \<Rightarrow> ('sm, bool) node_act" where
  "vs_isGoodTimestamp P blk =
     (let forkCnt = getFork blk; blockHeight = getHeight blk; blockTimestamp = getTimestamp blk in
      sbind (sread (\<lambda>n. am_getLatestBlockTimestamp (n_am n) forkCnt)) (\<lambda>latestTxTs.
      sbind (sread (\<lambda>n. am_getLatestTimestamp (n_am n) forkCnt blockHeight))
        (\<lambda>initialReferenceTime.
        if blockTimestamp < latestTxTs then sthrow (Error ''Not implemented'')
        else if blockTimestamp > initialReferenceTime + p2pTime (p_timeConfig P)
        then sbind (call_await P ''getChainLatestBlockTimestamp''
                      (sread (\<lambda>n. p_chainTimestamp P (n_channelId n) forkCnt blockHeight)))
               (\<lambda>ts. let chainTs = js_Number ts;
                          updatedReferenceTime = max initialReferenceTime chainTs
                      in sreturn (\<not> (blockTimestamp >
                                     updatedReferenceTime + p2pTime (p_timeConfig P))))
        else sreturn True)))"

section \<open>The state transition\<close>

definition vs_processStateTransition ::
  "'sm params \<Rightarrow> block \<Rightarrow> signed_block \<Rightarrow> ('sm, validation_result) node_act" where
  "vs_processStateTransition P block signed =
     sbind (getEncodedStateKecak256 P) (\<lambda>prevStateHash.
     sbind (call_await P ''stateTransition'' (on_sm (p_stateTransition P (blk_transaction block))))
       (\<lambda>(txOK, logs).
     sbind (call_await P ''getState'' (sread (\<lambda>n. p_getState P (n_sm n)))) (\<lambda>encodedState.
       let stateHash = keccak256 (p_ethers P) encodedState;
           hashOK = (stateHash = blk_stateHash block \<and>
                     prevStateHash = blk_previousStateHash block)
       in if \<not> txOK \<or> \<not> hashOK then sreturn (vr_dispute AF_INCORRECT_DATA)
          else sbind (on_am (am_addBlock block (sb_signature signed) encodedState)) (\<lambda>_.
               sbind (scheduleTask (T_stateTransitionSuccessCallback logs) 0) (\<lambda>_.
                 sreturn vr_ok)))))"

section \<open>Signed blocks\<close>

text \<open>
  The checks that need no \<open>await\<close>: \<open>Some r\<close> when they decide, \<open>None\<close> when the block is the
  next one of the latest fork and the timing and state checks follow.
\<close>

definition vs_checkStatic ::
  "'sm params \<Rightarrow> signed_block \<Rightarrow> block \<Rightarrow> 'sm node \<Rightarrow> validation_result option res" where
  "vs_checkStatic P signedBlock blk n =
     (let forkCnt = getFork blk; height = getHeight blk; am = n_am n; E = p_ethers P in
      if \<not> vs_isChannelOpen n then Inr (Some (vr_fail EF_NOT_READY))
      else rbind (vs_isSignedBlockAuthentic P signedBlock blk (n_channelId n)) (\<lambda>authentic.
        if \<not> authentic then Inr (Some (vr_fail EF_DISCONNECT))
        else if vs_isPastFork n forkCnt \<or> dh_isForkDisputed (n_dh n) forkCnt
        then Inr (Some (vr_fail EF_PAST_FORK))
        else if am_isBlockDuplicate E am blk then Inr (Some (vr_fail EF_DUPLICATE))
        else if forkCnt > getForkCnt n \<or> height > getNextBlockHeight n
        then Inr (Some (vr_fail EF_NOT_READY))
        else if \<not> am_isParticipantInLatestFork am (getBlockAuthor blk)
        then Inr (Some (vr_fail EF_DISCONNECT))
        else if height < getNextBlockHeight n
        then rbind (am_checkBlock E am signedBlock) (\<lambda>agreementFlag.
               if agreementFlag = AF_DOUBLE_SIGN \<or> agreementFlag = AF_INCORRECT_DATA
               then Inr (Some (vr_dispute agreementFlag))
               else Inl (Error ''StateManager - OnSignedBlock - INTERNAL ERROR''))
        else Inr None))"

definition vs_validateSignedBlock ::
  "'sm params \<Rightarrow> signed_block \<Rightarrow> block \<Rightarrow> ('sm, validation_result) node_act" where
  "vs_validateSignedBlock P signedBlock blk =
     sbind (sread (vs_checkStatic P signedBlock blk)) (\<lambda>decided.
       case decided of
         Some r \<Rightarrow> sreturn r
       | None \<Rightarrow>
           sbind (call_await P ''isGoodTimestamp'' (vs_isGoodTimestamp P blk)) (\<lambda>good.
           if \<not> good then sreturn (vr_dispute AF_INCORRECT_DATA)
           else sbind (call_await P ''isEnoughTime'' (vs_isEnoughTimeSubjective P signedBlock blk))
             (\<lambda>timeFlag.
             if timeFlag \<noteq> EF_SUCCESS then sreturn (vr_fail timeFlag)
             else sbind (getNextToWrite P) (\<lambda>nextToWrite.
               if getBlockAuthor blk \<noteq> nextToWrite
               then sreturn (vr_dispute AF_INCORRECT_DATA)
               else vs_processStateTransition P blk signedBlock))))"

section \<open>Block confirmations\<close>

datatype confirm_step =
  CS_decided validation_result   \<comment> \<open>returned early\<close>
| CS_call_onSignedBlock          \<comment> \<open>\<open>await this.onSignedBlock(signed, blk)\<close>\<close>
| CS_continue                    \<comment> \<open>the block is in the chain\<close>

definition vs_confirmStart ::
  "'sm params \<Rightarrow> signed_block \<Rightarrow> block \<Rightarrow> ('sm, confirm_step) node_act" where
  "vs_confirmStart P signed blk =
     sbind nget (\<lambda>n.
       if \<not> vs_isChannelOpen n then sreturn (CS_decided (vr_fail EF_NOT_READY))
       else sbind (sread (\<lambda>n. vs_isSignedBlockAuthentic P signed blk (n_channelId n)))
         (\<lambda>authentic.
         if \<not> authentic then sreturn (CS_decided (vr_fail EF_DISCONNECT))
         else if vs_isPastFork n (getFork blk) then sreturn (CS_decided (vr_fail EF_PAST_FORK))
         else if \<not> am_isBlockInChain (p_ethers P) (n_am n) blk
         then sreturn CS_call_onSignedBlock
         else sreturn CS_continue))"

definition vs_confirmResume ::
  "'sm params \<Rightarrow> block \<Rightarrow> execution_flag \<Rightarrow> ('sm, confirm_step) node_act" where
  "vs_confirmResume P blk flag =
     sbind nget (\<lambda>n.
       if flag = EF_DUPLICATE
       then if \<not> am_isBlockInChain (p_ethers P) (n_am n) blk
            then sreturn (CS_decided (vr_fail EF_NOT_READY)) else sreturn CS_continue
       else if flag \<noteq> EF_SUCCESS then sreturn (CS_decided (vr_fail flag))
       else sreturn CS_continue)"

definition vs_confirmEnd ::
  "'sm params \<Rightarrow> bytes \<Rightarrow> block \<Rightarrow> ('sm, validation_result) node_act" where
  "vs_confirmEnd P confirmationSig blk =
     sbind (sread (\<lambda>_. retrieveSignerAddressBlock (p_ethers P) blk confirmationSig)) (\<lambda>confirmer.
     sbind nget (\<lambda>n.
       if \<not> am_isParticipantInLatestFork (n_am n) confirmer
       then sreturn (vr_fail EF_DISCONNECT)
       else sbind (sread (\<lambda>n. am_doesSignatureExist (p_ethers P) (n_am n) blk confirmationSig))
              (\<lambda>exists. sreturn (if exists then vr_fail EF_DUPLICATE else vr_ok))))"

text \<open>The result of \<open>validateBlockConfirmation\<close> unless it stops to call \<open>onSignedBlock\<close>.\<close>

definition vs_confirmStep ::
  "'sm params \<Rightarrow> bytes \<Rightarrow> block \<Rightarrow> confirm_step \<Rightarrow> ('sm, validation_result option) node_act" where
  "vs_confirmStep P confirmationSig blk step =
     (case step of
        CS_decided r \<Rightarrow> sreturn (Some r)
      | CS_call_onSignedBlock \<Rightarrow> sreturn None
      | CS_continue \<Rightarrow> sbind (vs_confirmEnd P confirmationSig blk) (\<lambda>r. sreturn (Some r)))"

end
