(* ===== verification/StateManager.thy ===== *)
theory StateManager
  imports ValidationService
begin

text \<open>
  \<open>src/stateManager/StateManager.ts\<close> (prefix \<open>sm_\<close>) with the decision handlers of
  \<open>processExecutionDecisionHandlers.ts\<close> and \<open>processConfirmationDecisionHandlers.ts\<close>,
  \<open>P2pSigner.confirmBlock\<close> and \<open>P2pSigner.sendTransaction\<close> of \<open>src/evm/P2pSigner.ts\<close>, and the
  two callers of \<open>src/rpc/services/StateTransitionService.ts\<close>.
\<close>

section \<open>After a success\<close>

definition sm_getTimeoutWaitTimeSeconds :: "'sm params \<Rightarrow> nat" where
  "sm_getTimeoutWaitTimeSeconds P =
     p2pTime (p_timeConfig P) + agreementTime (p_timeConfig P) + chainFallbackTime (p_timeConfig P)"

definition sm_onSuccessCommon :: "'sm params \<Rightarrow> ('sm, unit) node_act" where
  "sm_onSuccessCommon P =
     sbind (scheduleTask T_queueProcessing 0) (\<lambda>_.
     sbind nget (\<lambda>n.
       let forkCnt = getForkCnt n; nextTransactionCnt = getNextBlockHeight n in
       sbind (getNextToWrite P) (\<lambda>nextToWrite.
       sbind (fire_hook (OnTurn nextToWrite)) (\<lambda>_.
         scheduleTask (T_participantTimeout forkCnt nextTransactionCnt nextToWrite)
           (sm_getTimeoutWaitTimeSeconds P * 1000)))))"

text \<open>\<open>P2pSigner.confirmBlock\<close>: sign the block, record the signature, tell the peers.\<close>

definition sm_confirmBlock :: "'sm params \<Rightarrow> signed_block \<Rightarrow> ('sm, unit) node_act" where
  "sm_confirmBlock P signedBlock =
     sbind (sread (\<lambda>_. decodeBlock (p_ethers P) (sb_encodedBlock signedBlock))) (\<lambda>block.
     sbind (call_await P ''signBlock'' (sread (\<lambda>_. signBlock (p_ethers P) (p_signer P) block)))
       (\<lambda>confirmedBlock.
     sbind (on_am (am_confirmBlock (p_ethers P) block (sb_signature confirmedBlock))) (\<lambda>_.
       broadcast P (Rpc_onBlockConfirmation signedBlock (sb_signature confirmedBlock)))))"

section \<open>Decisions on a signed block\<close>

text \<open>The table \<open>disputeHandlers\<close>; the calls of the dispute handler are not awaited.\<close>

definition sm_disputeHandlers ::
  "'sm params \<Rightarrow> agreement_flag \<Rightarrow> (signed_block \<Rightarrow> ('sm, unit) node_act) option" where
  "sm_disputeHandlers P flag =
     (case flag of
        AF_DOUBLE_SIGN \<Rightarrow> Some (\<lambda>signedBlock. call_dispute (\<lambda>am.
          dh_disputeDoubleSign (p_ethers P) am (p_signerAddress P) [signedBlock]))
      | AF_INCORRECT_DATA \<Rightarrow> Some (\<lambda>signedBlock. call_dispute (\<lambda>am.
          dh_disputeIncorrectData (p_ethers P) am (p_signerAddress P) signedBlock))
      | _ \<Rightarrow> None)"

definition sm_processExecutionDecision ::
  "'sm params \<Rightarrow> signed_block \<Rightarrow> execution_flag \<Rightarrow> agreement_flag option \<Rightarrow> ('sm, unit) node_act"
where
  "sm_processExecutionDecision P signedBlock executionFlag agreementFlag =
     (case executionFlag of
        EF_SUCCESS \<Rightarrow> sbind (sm_confirmBlock P signedBlock) (\<lambda>_.
                      sbind (nawait P ''confirmBlock'') (\<lambda>_. sm_onSuccessCommon P))
      | EF_NOT_READY \<Rightarrow> on_am (am_queueBlock (p_ethers P) signedBlock)
      | EF_DISPUTE \<Rightarrow>
          (case agreementFlag of
             None \<Rightarrow> sthrow (Error ''ExecutionFlags.DISPUTE triggered but no agreementFlag provided'')
           | Some af \<Rightarrow>
               (case sm_disputeHandlers P af of
                  None \<Rightarrow> sthrow (Error ''StateManager - processDecision - Internal Error'')
                | Some disputeHandlerFn \<Rightarrow> disputeHandlerFn signedBlock))
      | _ \<Rightarrow> sreturn ())"

section \<open>onSignedBlock\<close>

text \<open>
  The part of \<open>onSignedBlock\<close> that holds the lock. When validation throws, the flags keep their
  initial values in the \<open>finally\<close> block. When processing the decision throws, the lines after
  it are skipped.
\<close>

definition sm_onSignedBlock_locked ::
  "'sm params \<Rightarrow> signed_block \<Rightarrow> block \<Rightarrow> ('sm, execution_flag) node_act" where
  "sm_onSignedBlock_locked P signedBlock decodedBlock =
     sbind (settle (call_await P ''validateSignedBlock''
                      (vs_validateSignedBlock P signedBlock decodedBlock))) (\<lambda>result.
       let (finalExecutionFlag, finalAgreementFlag) =
             (case result of Inl _ \<Rightarrow> (EF_SUCCESS, None) | Inr r \<Rightarrow> (vr_flag r, vr_agreementFlag r))
       in sbind (call_await P ''processExecutionDecision''
                   (sm_processExecutionDecision P signedBlock finalExecutionFlag
                      finalAgreementFlag)) (\<lambda>_.
          sbind unlock (\<lambda>_.
            case result of Inl e \<Rightarrow> sthrow e | Inr r \<Rightarrow> sreturn finalExecutionFlag)))"

section \<open>onBlockConfirmation\<close>

text \<open>
  \<open>this.agreementManager.queueConfirmation.bind(this)\<close>: the method runs with the state manager as
  its \<open>this\<close>, whose \<open>queueService\<close> is undefined.
\<close>

definition sm_boundQueueConfirmation :: "block_confirmation \<Rightarrow> ('sm, unit) node_act" where
  "sm_boundQueueConfirmation blockConfirmation = sthrow (TypeError ''queueConfirmation'')"

definition sm_processConfirmationDecision ::
  "(block_confirmation \<Rightarrow> ('sm, unit) node_act) \<Rightarrow> signed_block \<Rightarrow> bytes \<Rightarrow> execution_flag \<Rightarrow>
     ('sm, unit) node_act" where
  "sm_processConfirmationDecision queueConfirmation originalSigned confirmationSig executionFlag =
     sbind nget (\<lambda>n.
       case executionFlag of
         EF_SUCCESS \<Rightarrow> scheduleTask (T_confirmFromQueue (n_isDisposed n)) 0
       | EF_NOT_READY \<Rightarrow> queueConfirmation
           \<lparr>originalSignedBlock = originalSigned, confirmationSignature = confirmationSig\<rparr>
       | _ \<Rightarrow> sreturn ())"

text \<open>
  The end of \<open>onBlockConfirmation\<close>, once \<open>validateBlockConfirmation\<close> settled: record the
  confirmation when it is valid, then the \<open>finally\<close> block.
\<close>

definition sm_confirmFinish ::
  "'sm params \<Rightarrow> signed_block \<Rightarrow> bytes \<Rightarrow> block \<Rightarrow> validation_result res \<Rightarrow>
     ('sm, execution_flag) node_act" where
  "sm_confirmFinish P signedBlock confirmationSig decodedBlock result =
     (let finalExecutionFlag = (case result of Inl _ \<Rightarrow> EF_SUCCESS | Inr r \<Rightarrow> vr_flag r) in
      sbind (settle (case result of
                       Inl e \<Rightarrow> sthrow e
                     | Inr r \<Rightarrow> if vr_success r
                               then on_am (am_confirmBlock (p_ethers P) decodedBlock confirmationSig)
                               else sreturn ())) (\<lambda>outcome.
      sbind (call_await P ''processConfirmationDecision''
               (sm_processConfirmationDecision sm_boundQueueConfirmation signedBlock
                  confirmationSig finalExecutionFlag)) (\<lambda>_.
        case outcome of Inl e \<Rightarrow> sthrow e | Inr _ \<Rightarrow> sreturn finalExecutionFlag)))"

section \<open>Callers of the two handlers\<close>

text \<open>\<open>StateTransitionService\<close>: spread what was accepted; nobody awaits these methods.\<close>

definition sts_afterFlag :: "'sm params \<Rightarrow> rpc \<Rightarrow> execution_flag \<Rightarrow> ('sm, unit) node_act" where
  "sts_afterFlag P r flag =
     (if flag = EF_DISCONNECT \<or> flag = EF_DISPUTE then sreturn ()
      else if flag = EF_SUCCESS then broadcast P r else sreturn ())"

fun sm_deliverConfirm ::
  "'sm params \<Rightarrow> confirm_cont \<Rightarrow> execution_flag res \<Rightarrow> ('sm, unit) node_act" where
  "sm_deliverConfirm P ck (Inl e) = unhandled e"
| "sm_deliverConfirm P (CK_rpc sb sig) (Inr flag) =
     detached (sts_afterFlag P (Rpc_onBlockConfirmation sb sig) flag)"
| "sm_deliverConfirm P (CK_queue []) (Inr flag) = sreturn ()"
| "sm_deliverConfirm P (CK_queue (bc # bcs)) (Inr flag) =
     (if flag = EF_DISPUTE then sreturn ()
      else push_job (J_confirm (originalSignedBlock bc) (confirmationSignature bc) None
                       (CK_queue bcs)))"

text \<open>\<open>settle\<close>d results of \<open>onBlockConfirmation\<close> go to whoever awaits it.\<close>

definition sm_endConfirm ::
  "'sm params \<Rightarrow> signed_block \<Rightarrow> bytes \<Rightarrow> block \<Rightarrow> confirm_cont \<Rightarrow> validation_result res \<Rightarrow>
     ('sm, unit) node_act" where
  "sm_endConfirm P sb sig blk ck result =
     sbind (settle (sm_confirmFinish P sb sig blk result)) (sm_deliverConfirm P ck)"

text \<open>Back in \<open>validateBlockConfirmation\<close> after \<open>await this.onSignedBlock(signed, blk)\<close>.\<close>

definition sm_resumeConfirm ::
  "'sm params \<Rightarrow> signed_block \<Rightarrow> bytes \<Rightarrow> block \<Rightarrow> confirm_cont \<Rightarrow> execution_flag res \<Rightarrow>
     ('sm, unit) node_act" where
  "sm_resumeConfirm P sb sig blk ck flag =
     sbind (settle (sbind (sread (\<lambda>_. flag)) (\<lambda>f.
              sbind (vs_confirmResume P blk f) (vs_confirmStep P sig blk)))) (\<lambda>result.
       case result of
         Inl e \<Rightarrow> sm_endConfirm P sb sig blk ck (Inl e)
       | Inr None \<Rightarrow> sreturn ()
       | Inr (Some r) \<Rightarrow> sm_endConfirm P sb sig blk ck (Inr r))"

fun sm_deliverSigned ::
  "'sm params \<Rightarrow> signed_cont \<Rightarrow> execution_flag res \<Rightarrow> ('sm, unit) node_act" where
  "sm_deliverSigned P (RK_rpc sb) (Inl e) = unhandled e"
| "sm_deliverSigned P (RK_rpc sb) (Inr flag) =
     detached (sts_afterFlag P (Rpc_onSignedBlock sb) flag)"
| "sm_deliverSigned P (RK_queue sbs) (Inl e) = unhandled e"
| "sm_deliverSigned P (RK_queue []) (Inr flag) = sreturn ()"
| "sm_deliverSigned P (RK_queue (sb # sbs)) (Inr flag) =
     (if flag = EF_DISPUTE then sreturn () else push_job (J_signed sb None (RK_queue sbs)))"
| "sm_deliverSigned P (RK_confirm sb sig blk ck) flag = sm_resumeConfirm P sb sig blk ck flag"

section \<open>Playing a transaction\<close>

definition sm_isChannelOpen :: "'sm node \<Rightarrow> bool" where
  "sm_isChannelOpen n \<longleftrightarrow> int (getForkCnt n) \<noteq> -1"

definition sm_adjustTimestampIfNeeded :: "transaction \<Rightarrow> 'sm node \<Rightarrow> transaction res" where
  "sm_adjustTimestampIfNeeded tx n =
     rmap (\<lambda>latestBlockTimestamp.
        if js_Number (hdr_timestamp (tx_header tx)) < latestBlockTimestamp
        then tx\<lparr>tx_header := (tx_header tx)\<lparr>hdr_timestamp :=
               Num (round_double (latestBlockTimestamp + 1))\<rparr>\<rparr>
        else tx)
      (am_getLatestBlockTimestamp (n_am n) (getForkCnt n))"

record apply_result =
  ar_success :: bool
  ar_encodedState :: bytes
  ar_previousStateHash :: bytes
  ar_successCallback :: "string list"

definition sm_applyTransaction :: "'sm params \<Rightarrow> transaction \<Rightarrow> ('sm, apply_result) node_act" where
  "sm_applyTransaction P transaction =
     sbind (getEncodedStateKecak256 P) (\<lambda>prevStateHash.
     sbind (call_await P ''stateTransition'' (on_sm (p_stateTransition P transaction)))
       (\<lambda>(success, logs).
     sbind (call_await P ''getState'' (sread (\<lambda>n. p_getState P (n_sm n)))) (\<lambda>encodedState.
       sreturn \<lparr>ar_success = success, ar_encodedState = encodedState,
                ar_previousStateHash = prevStateHash, ar_successCallback = logs\<rparr>)))"

definition sm_createBlock :: "'sm params \<Rightarrow> transaction \<Rightarrow> bytes \<Rightarrow> ('sm, block) node_act" where
  "sm_createBlock P tx prevStateHash =
     sbind (getEncodedStateKecak256 P) (\<lambda>currentStateHash.
       sreturn \<lparr>blk_transaction = tx, blk_stateHash = currentStateHash,
                blk_previousStateHash = prevStateHash\<rparr>)"

definition sm_signBlock :: "'sm params \<Rightarrow> block \<Rightarrow> ('sm, signed_block) node_act" where
  "sm_signBlock P block =
     call_await P ''signBlock'' (sread (\<lambda>_. signBlock (p_ethers P) (p_signer P) block))"

text \<open>The \<open>try\<close> block of \<open>playTransaction\<close>.\<close>

definition sm_playTransaction_body ::
  "'sm params \<Rightarrow> transaction \<Rightarrow> ('sm, signed_block) node_act" where
  "sm_playTransaction_body P tx =
     sbind nget (\<lambda>n.
     if \<not> sm_isChannelOpen n then sthrow (Error ''Channel not open'')
     else sbind (call_await P ''isMyTurn'' (isMyTurn P)) (\<lambda>mine.
     if \<not> mine then sbind (getNextToWrite P) (\<lambda>_. sthrow (Error ''Not player turn''))
     else sbind (sread (sm_adjustTimestampIfNeeded tx)) (\<lambda>tx.
     sbind (call_await P ''applyTransaction'' (sm_applyTransaction P tx)) (\<lambda>ar.
     if \<not> ar_success ar
     then sthrow (Error ''CreateAndApplyTransaction - Internal error - Transaction not successful'')
     else sbind (call_await P ''createBlock'' (sm_createBlock P tx (ar_previousStateHash ar)))
       (\<lambda>block.
     sbind (sm_signBlock P block) (\<lambda>signedBlock.
     sbind (on_am (am_addBlock block (sb_signature signedBlock) (ar_encodedState ar))) (\<lambda>_.
     sbind (fire_hook (ContractEvents (ar_successCallback ar))) (\<lambda>_.
     sbind (call_await P ''onSuccessCommon'' (sm_onSuccessCommon P)) (\<lambda>_.
     sbind (scheduleTask (T_maybePostBlockOnChain block signedBlock)
              (agreementTime (p_timeConfig P) * 1000)) (\<lambda>_.
       sreturn signedBlock))))))))))"

text \<open>With the \<open>finally\<close> block, and \<open>P2pSigner.sendTransaction\<close> awaiting the result.\<close>

definition sm_playTransaction_locked :: "'sm params \<Rightarrow> transaction \<Rightarrow> ('sm, unit) node_act" where
  "sm_playTransaction_locked P tx =
     sbind (settle (sm_playTransaction_body P tx)) (\<lambda>result.
     sbind unlock (\<lambda>_.
       case result of
         Inl e \<Rightarrow> unhandled e
       | Inr signedBlock \<Rightarrow> detached (broadcast P (Rpc_onSignedBlock signedBlock))))"

definition sm_sendTransaction :: "'sm params \<Rightarrow> bytes \<Rightarrow> ('sm, unit) node_act" where
  "sm_sendTransaction P data =
     sbind nget (\<lambda>n. acquire (J_play_locked
       \<lparr>tx_header = \<lparr>hdr_channelId = n_channelId n, hdr_participant = p_signerAddress P,
                       hdr_forkCnt = Num (getForkCnt n),
                       hdr_transactionCnt = Num (getNextBlockHeight n),
                       hdr_timestamp = BigInt (n_now n)\<rparr>,
        tx_body = \<lparr>body_transactionType = 0, body_encodedData = data, body_data = data\<rparr>\<rparr>))"

section \<open>Entry points of the two handlers\<close>

definition decoded :: "'sm params \<Rightarrow> signed_block \<Rightarrow> block option \<Rightarrow> block res" where
  "decoded P sb blk =
     (case blk of Some b \<Rightarrow> Inr b | None \<Rightarrow> decodeBlock (p_ethers P) (sb_encodedBlock sb))"

definition sm_onSignedBlock ::
  "'sm params \<Rightarrow> signed_block \<Rightarrow> block option \<Rightarrow> signed_cont \<Rightarrow> ('sm, unit) node_act" where
  "sm_onSignedBlock P signedBlock block k =
     (case decoded P signedBlock block of
        Inl e \<Rightarrow> sm_deliverSigned P k (Inl e)
      | Inr decodedBlock \<Rightarrow> acquire (J_signed_locked signedBlock decodedBlock k))"

definition sm_onBlockConfirmation ::
  "'sm params \<Rightarrow> signed_block \<Rightarrow> bytes \<Rightarrow> block option \<Rightarrow> confirm_cont \<Rightarrow> ('sm, unit) node_act" where
  "sm_onBlockConfirmation P signedBlock confirmationSig block ck =
     (case decoded P signedBlock block of
        Inl e \<Rightarrow> sm_deliverConfirm P ck (Inl e)
      | Inr blk \<Rightarrow>
          sbind (settle (sbind (vs_confirmStart P signedBlock blk)
                           (vs_confirmStep P confirmationSig blk))) (\<lambda>result.
            case result of
              Inl e \<Rightarrow> sm_endConfirm P signedBlock confirmationSig blk ck (Inl e)
            | Inr None \<Rightarrow> acquire (J_signed_locked signedBlock blk
                                     (RK_confirm signedBlock confirmationSig blk ck))
            | Inr (Some r) \<Rightarrow> sm_endConfirm P signedBlock confirmationSig blk ck (Inr r)))"

section \<open>Queues\<close>

definition on_am_act ::
  "(agreement_manager, 'a) act \<Rightarrow> ('sm, 'a) node_act" where
  "on_am_act f n = (case f (n_am n) of (r, am) \<Rightarrow> (r, n\<lparr>n_am := am\<rparr>))"

definition sm_tryExecuteFromQueue :: "('sm, unit) node_act" where
  "sm_tryExecuteFromQueue =
     sbind (on_am_act (\<lambda>am. case am_tryDequeueBlocks (am_getLatestForkCnt am)
                                    (am_getNextBlockHeight am) am of (sbs, am') \<Rightarrow> (Inr sbs, am')))
       (\<lambda>signedBlocks. case signedBlocks of
              [] \<Rightarrow> sreturn ()
            | sb # sbs \<Rightarrow> push_job (J_signed sb None (RK_queue sbs)))"

definition sm_tryConfirmFromQueue :: "('sm, unit) node_act" where
  "sm_tryConfirmFromQueue =
     sbind (on_am_act (\<lambda>am. case am_tryDequeueConfirmations (am_getLatestForkCnt am)
                                    (am_getNextBlockHeight am) am of (bcs, am') \<Rightarrow> (Inr bcs, am')))
       (\<lambda>confirmations. case confirmations of
              [] \<Rightarrow> sreturn ()
            | bc # bcs \<Rightarrow> push_job (J_confirm (originalSignedBlock bc) (confirmationSignature bc)
                                      None (CK_queue bcs)))"

section \<open>Events of the chain\<close>

text \<open>
  The callbacks of \<open>StateChannelEventListener\<close> await these methods, so what they throw is an
  unhandled rejection.
\<close>

definition sm_setState ::
  "'sm params \<Rightarrow> bytes \<Rightarrow> js_num \<Rightarrow> js_num \<Rightarrow> ('sm, unit) node_act" where
  "sm_setState P encodedState forkCnt timestamp =
     sbind (call_await P ''setState'' (on_sm (p_setState P encodedState))) (\<lambda>_.
     sbind (call_await P ''getParticipants'' (sread (\<lambda>n. p_getParticipants P (n_sm n))))
       (\<lambda>participants.
     sbind (on_am (\<lambda>am. Inr (am_newFork encodedState participants (js_Number forkCnt)
                               (js_Number timestamp) am))) (\<lambda>_.
     sbind (fire_hook OnSetState) (\<lambda>_. sm_onSuccessCommon P))))"

definition sm_collectOnChainBlock ::
  "'sm params \<Rightarrow> signed_block \<Rightarrow> js_num \<Rightarrow> ('sm, unit) node_act" where
  "sm_collectOnChainBlock P signedBlock timestamp =
     (let E = p_ethers P in
      sbind (on_am_act (am_collectOnChainBlock E signedBlock (js_Number timestamp))) (\<lambda>flag.
      sbind (sread (\<lambda>_. decodeBlock E (sb_encodedBlock signedBlock))) (\<lambda>block.
      sbind (if flag = AF_DOUBLE_SIGN
             then sbind (sread (\<lambda>n. pm_createDoubleSignProof E (n_am n) [signedBlock])) (\<lambda>prf.
                    call_dispute (\<lambda>am. dh_createDispute E am (p_signerAddress P)
                      (hdr_forkCnt (tx_header (blk_transaction block))) ''0x00'' (Num 0) [prf]))
             else if flag = AF_INCORRECT_DATA
             then sbind (sread (\<lambda>n. pm_createIncorrectDataProof E (n_am n) signedBlock)) (\<lambda>prf.
                    call_dispute (\<lambda>am. dh_createDispute E am (p_signerAddress P)
                      (hdr_forkCnt (tx_header (blk_transaction block))) ''0x00'' (Num 0) [prf]))
             else sreturn ()) (\<lambda>_.
      sbind (settle (sm_onSuccessCommon P)) (\<lambda>r.
        case r of Inl e \<Rightarrow> unhandled e | Inr _ \<Rightarrow> sreturn ())))))"

definition sm_onDisputeUpdate :: "'sm params \<Rightarrow> dispute \<Rightarrow> ('sm, unit) node_act" where
  "sm_onDisputeUpdate P dispute =
     sbind nget (\<lambda>n.
     sbind (call_dispute (\<lambda>am. dh_onDispute (p_ethers P) am (p_signerAddress P) (n_now n) dispute))
       (\<lambda>_. fire_hook (OnDisputeUpdate dispute)))"

definition sm_setChannelId :: "bytes \<Rightarrow> ('sm, unit) node_act" where
  "sm_setChannelId channelId =
     smodify (\<lambda>n. n\<lparr>n_channelId := channelId, n_dh := dh_setChannelId channelId (n_dh n)\<rparr>)"

definition sm_dispose :: "('sm, unit) node_act" where
  "sm_dispose = smodify (\<lambda>n. n\<lparr>n_isDisposed := True\<rparr>)"

section \<open>Posting and timeouts\<close>

definition sm_maybePostBlockOnChain ::
  "'sm params \<Rightarrow> block \<Rightarrow> signed_block \<Rightarrow> ('sm, unit) node_act" where
  "sm_maybePostBlockOnChain P block signedBlock =
     sbind (sread (\<lambda>n. am_didEveryoneSignBlock (p_ethers P) (n_am n) block)) (\<lambda>everyone.
       if everyone then sreturn ()
       else sbind (fire_hook OnPostingCalldata)
              (\<lambda>_. smodify (\<lambda>n. n\<lparr>n_posts := n_posts n @ [signedBlock]\<rparr>)))"

text \<open>Up to \<open>await ...getBlockCallData(...)\<close>.\<close>

definition sm_tryTimeoutParticipant ::
  "'sm params \<Rightarrow> nat \<Rightarrow> nat \<Rightarrow> address \<Rightarrow> ('sm, unit) node_act" where
  "sm_tryTimeoutParticipant P forkCnt transactionCnt participantAdr =
     (if participantAdr = p_signerAddress P then sreturn ()
      else sbind (sread (\<lambda>n. case am_getBlock (n_am n) forkCnt transactionCnt of
                               None \<Rightarrow> Inr False
                             | Some block \<Rightarrow> am_didEveryoneSignBlock (p_ethers P) (n_am n) block))
        (\<lambda>finalized.
        if finalized then sreturn ()
        else sbind nget (\<lambda>n.
          if am_didParticipantPostOnChain (n_am n) forkCnt transactionCnt participantAdr
          then sreturn ()
          else sbind (sread (\<lambda>n. am_getChainLatestBlockTimestamp (n_am n) forkCnt transactionCnt))
            (\<lambda>chainTs.
            if n_now n < chainTs + sm_getTimeoutWaitTimeSeconds P then sreturn ()
            else smodify (\<lambda>n. n\<lparr>n_timeoutQueries :=
                   n_timeoutQueries n @ [(forkCnt, transactionCnt, participantAdr)]\<rparr>)))))"

definition sm_timeoutDispute ::
  "'sm params \<Rightarrow> nat \<Rightarrow> address \<Rightarrow> nat \<Rightarrow> ('sm, unit) node_act" where
  "sm_timeoutDispute P forkCnt participantAdr transactionCnt =
     call_dispute (\<lambda>am. dh_createDispute (p_ethers P) am (p_signerAddress P) (Num forkCnt)
       participantAdr (Num transactionCnt) [])"

text \<open>After it, with the reply \<open>response.found\<close>.\<close>

definition sm_timeoutReply ::
  "'sm params \<Rightarrow> nat \<Rightarrow> nat \<Rightarrow> address \<Rightarrow> bool \<Rightarrow> ('sm, unit) node_act" where
  "sm_timeoutReply P forkCnt transactionCnt participantAdr found =
     (if found then sreturn ()
      else sbind nget (\<lambda>n.
        sbind (sread (\<lambda>n. am_getLatestBlockTimestamp (n_am n) forkCnt)) (\<lambda>latest.
          let delayTimeSeconds =
                int (sm_getTimeoutWaitTimeSeconds P) - (int (n_now n) - int latest)
          in if delayTimeSeconds < 0
             then sm_timeoutDispute P forkCnt participantAdr transactionCnt
             else scheduleTask (T_timeoutParticipantDelayed forkCnt participantAdr transactionCnt)
                    (nat delayTimeSeconds * 1000))))"

section \<open>The event loop\<close>

definition run_timer :: "'sm params \<Rightarrow> timer \<Rightarrow> ('sm, unit) node_act" where
  "run_timer P task =
     (case task of
        T_queueProcessing \<Rightarrow> sbind sm_tryConfirmFromQueue (\<lambda>_. sm_tryExecuteFromQueue)
      | T_confirmFromQueue isDisposed \<Rightarrow>
          if isDisposed then sreturn () else sm_tryConfirmFromQueue
      | T_participantTimeout forkCnt transactionCnt adr \<Rightarrow>
          sm_tryTimeoutParticipant P forkCnt transactionCnt adr
      | T_timeoutParticipantDelayed forkCnt adr transactionCnt \<Rightarrow>
          sm_timeoutDispute P forkCnt adr transactionCnt
      | T_maybePostBlockOnChain block signedBlock \<Rightarrow> sm_maybePostBlockOnChain P block signedBlock
      | T_stateTransitionSuccessCallback logs \<Rightarrow> fire_hook (ContractEvents logs))"

fun run_job :: "'sm params \<Rightarrow> job \<Rightarrow> ('sm, unit) node_act" where
  "run_job P (J_signed sb blk k) = sm_onSignedBlock P sb blk k"
| "run_job P (J_signed_locked sb blk k) =
     sbind (settle (sm_onSignedBlock_locked P sb blk)) (sm_deliverSigned P k)"
| "run_job P (J_confirm sb sig blk ck) = sm_onBlockConfirmation P sb sig blk ck"
| "run_job P (J_play_locked tx) = sm_playTransaction_locked P tx"

text \<open>
  A reply of the contract resumes the pending call number \<open>i\<close> of the dispute handler; nobody
  awaits these calls.
\<close>

definition node_contractReply :: "'sm params \<Rightarrow> nat \<Rightarrow> contract_reply \<Rightarrow> 'sm node \<Rightarrow> 'sm node" where
  "node_contractReply P i reply n =
     (case as_proc (dh_resume (p_ethers P) (n_am n) (p_signerAddress P) (n_now n) reply
                      (n_procs n ! i)) (n_dh n) of
        (p, d) \<Rightarrow> n\<lparr>n_dh := d, n_procs := (n_procs n)[i := p],
                    n_rejections := n_rejections n @ (case p of DFailed e \<Rightarrow> [e] | _ \<Rightarrow> [])\<rparr>)"

end
