(* ===== verification/NodeFacts.thy ===== *)
theory NodeFacts
  imports StateManager ChainFacts
begin

text \<open>
  Rely and guarantee of the node's handlers. \<open>rely\<close> bounds what a handler that does not hold the
  mutex does to the node, and hence what may happen at an \<open>await\<close> of one that does; \<open>hold\<close>
  bounds what the holder does before it unlocks. Both keep everything learned (\<open>core_le\<close>);
  only the holder adds blocks to existing forks.
\<close>

section \<open>Relations\<close>

fun is_locked_job :: "job \<Rightarrow> bool" where
  "is_locked_job (J_signed_locked sb blk k) = True"
| "is_locked_job (J_play_locked tx) = True"
| "is_locked_job j = False"

definition locked_jobs :: "'sm node \<Rightarrow> nat" where
  "locked_jobs n = length (filter is_locked_job (n_jobs n))"

definition core_le :: "'sm node \<Rightarrow> 'sm node \<Rightarrow> bool" where
  "core_le n n' \<longleftrightarrow> chain_le (n_am n) (n_am n') \<and> dh_le (n_dh n) (n_dh n') \<and>
     (\<exists>xs. n_outbox n' = n_outbox n @ xs) \<and> (\<exists>xs. n_posts n' = n_posts n @ xs) \<and>
     (\<exists>xs. n_hooks n' = n_hooks n @ xs) \<and> (\<exists>xs. n_rejections n' = n_rejections n @ xs)"

text \<open>Taking a free lock makes exactly one continuation ready; a held lock stays held.\<close>

definition lock_rel :: "'sm node \<Rightarrow> 'sm node \<Rightarrow> bool" where
  "lock_rel n n' \<longleftrightarrow>
     (if isLocked (n_mutex n) then isLocked (n_mutex n') \<and> locked_jobs n' = locked_jobs n
      else if isLocked (n_mutex n') then locked_jobs n' = Suc (locked_jobs n)
      else locked_jobs n' = locked_jobs n)"

text \<open>
  A transaction waiting to be played names a place of its fork that existed or was the next one
  when it was made.
\<close>

definition tx_ok :: "agreement_manager \<Rightarrow> transaction \<Rightarrow> bool" where
  "tx_ok am tx \<longleftrightarrow> js_Number (hdr_transactionCnt (tx_header tx)) \<le>
     fs_chainLength (forkService am) (js_Number (hdr_forkCnt (tx_header tx)))"

definition jobs_ok :: "'sm node \<Rightarrow> bool" where
  "jobs_ok n \<longleftrightarrow> (\<forall>w \<in> set (mutexQueue (n_mutex n)). is_locked_job w) \<and>
     (mutexQueue (n_mutex n) \<noteq> [] \<longrightarrow> isLocked (n_mutex n)) \<and>
     (\<forall>tx. J_play_locked tx \<in> set (n_jobs n) \<union> set (mutexQueue (n_mutex n)) \<longrightarrow> tx_ok (n_am n) tx)"

definition rely :: "'sm node \<Rightarrow> 'sm node \<Rightarrow> bool" where
  "rely n n' \<longleftrightarrow> same_chains (n_am n) (n_am n') \<and> core_le n n' \<and> lock_rel n n' \<and>
     (jobs_ok n \<longrightarrow> jobs_ok n')"

definition hold :: "'sm node \<Rightarrow> 'sm node \<Rightarrow> bool" where
  "hold n n' \<longleftrightarrow> core_le n n' \<and> lock_rel n n' \<and> (jobs_ok n \<longrightarrow> jobs_ok n')"

lemma core_le_refl [simp]: "core_le n n"
  by (simp add: core_le_def)

lemma core_le_trans: "core_le a b \<Longrightarrow> core_le b c \<Longrightarrow> core_le a c"
  unfolding core_le_def
  by (elim conjE exE, intro conjI) (auto intro: chain_le_trans dh_le_trans)

lemma lock_rel_refl [simp]: "lock_rel n n"
  by (simp add: lock_rel_def)

lemma lock_rel_trans: "lock_rel a b \<Longrightarrow> lock_rel b c \<Longrightarrow> lock_rel a c"
  by (auto simp: lock_rel_def split: if_splits)

lemma rely_hold: "rely n n' \<Longrightarrow> hold n n'"
  by (simp add: rely_def hold_def)

lemma keeps_rely_hold: "keeps rely m \<Longrightarrow> keeps hold m"
  by (simp add: keeps_def rely_hold)

interpretation rlp: preserved "rely :: 'sm node \<Rightarrow> 'sm node \<Rightarrow> bool"
  by unfold_locales
    (auto simp: rely_def intro: same_chains_trans core_le_trans lock_rel_trans)

interpretation hdp: preserved "hold :: 'sm node \<Rightarrow> 'sm node \<Rightarrow> bool"
  by unfold_locales (auto simp: hold_def intro: core_le_trans lock_rel_trans)

text \<open>What the environment may do at an \<open>await\<close>.\<close>

definition env_ok :: "'sm params \<Rightarrow> bool" where
  "env_ok P \<longleftrightarrow> (\<forall>site n. rely n (p_env P site n))"

section \<open>Handlers that do not hold the mutex\<close>

named_theorems rl_keeps \<open>actions that keep \<open>rely\<close>\<close>

lemmas rl_keeps_basic [rl_keeps] = rlp.bind rlp.pure rlp.R_refl

text \<open>Changes of fields that no relation speaks about, and appends to the logs.\<close>

lemma rely_frame [rl_keeps]:
  "rely n (n\<lparr>n_sm := sm\<rparr>)" "rely n (n\<lparr>n_now := t\<rparr>)" "rely n (n\<lparr>n_timers := ts\<rparr>)"
  "rely n (n\<lparr>n_timeoutQueries := qs\<rparr>)" "rely n (n\<lparr>n_isDisposed := b\<rparr>)"
  "rely n (n\<lparr>n_outbox := n_outbox n @ rs\<rparr>)" "rely n (n\<lparr>n_posts := n_posts n @ ps\<rparr>)"
  "rely n (n\<lparr>n_hooks := n_hooks n @ hs\<rparr>)" "rely n (n\<lparr>n_rejections := n_rejections n @ es\<rparr>)"
  by (simp_all add: rely_def core_le_def lock_rel_def locked_jobs_def jobs_ok_def)

lemma rely_dh: "dh_le (n_dh n) d \<Longrightarrow> rely n (n\<lparr>n_dh := d\<rparr>)"
  by (simp add: rely_def core_le_def lock_rel_def locked_jobs_def jobs_ok_def)

lemma tx_ok_le: "chain_le am am' \<Longrightarrow> tx_ok am tx \<Longrightarrow> tx_ok am' tx"
  unfolding tx_ok_def by (meson chain_le_length le_trans)

lemma rely_am: "same_chains (n_am n) am \<Longrightarrow> rely n (n\<lparr>n_am := am\<rparr>)"
  using tx_ok_le [OF same_chains_le]
  by (auto simp: rely_def core_le_def lock_rel_def locked_jobs_def jobs_ok_def same_chains_le)

lemma hold_am: "chain_le (n_am n) am \<Longrightarrow> hold n (n\<lparr>n_am := am\<rparr>)"
  using tx_ok_le
  by (auto simp: hold_def core_le_def lock_rel_def locked_jobs_def jobs_ok_def)

lemma keeps_env [rl_keeps]: "env_ok P \<Longrightarrow> keeps rely (nawait P site)"
  by (simp add: env_ok_def nawait_def rlp.modify)

lemma keeps_call_await [rl_keeps]:
  assumes "env_ok P" and "keeps rely m"
  shows "keeps rely (call_await P site m)"
  using assms
  by (auto simp: keeps_def call_await_def env_ok_def split: prod.split)
    (metis rlp.R_trans snd_conv)

lemma hold_call_await:
  assumes "env_ok P" and "keeps hold m"
  shows "keeps hold (call_await P site m)"
  using assms
  by (auto simp: keeps_def call_await_def env_ok_def split: prod.split)
    (metis hdp.R_trans rely_hold snd_conv)

lemma keeps_settle [rl_keeps]: "keeps rely m \<Longrightarrow> keeps rely (settle m)"
  by (auto simp: keeps_def settle_def split: prod.split) (metis snd_conv)

lemma hold_settle: "keeps hold m \<Longrightarrow> keeps hold (settle m)"
  by (auto simp: keeps_def settle_def split: prod.split) (metis snd_conv)

lemma keeps_nget [rl_keeps]: "keeps rely nget"
  by (simp add: nget_def rlp.pure)

lemma keeps_on_am [rl_keeps]:
  "(\<And>am am'. f am = Inr am' \<Longrightarrow> same_chains am am') \<Longrightarrow> keeps rely (on_am f)"
  by (auto simp: keeps_def on_am_def intro!: rely_am rlp.R_refl split: sum.split)

lemma keeps_on_am_act [rl_keeps]: "keeps same_chains f \<Longrightarrow> keeps rely (on_am_act f)"
  by (auto simp: keeps_def on_am_act_def intro!: rely_am split: prod.split) (metis snd_conv)

lemma keeps_on_sm [rl_keeps]: "keeps rely (on_sm f)"
  by (auto simp: keeps_def on_sm_def intro!: rl_keeps split: prod.split)

lemma keeps_logs [rl_keeps]:
  "keeps rely (scheduleTask t delay)" "keeps rely (broadcast P r)" "keeps rely (fire_hook h)"
  "keeps rely (unhandled e)"
  by (auto simp: scheduleTask_def fire_hook_def unhandled_def intro!: rlp.modify rl_keeps)
    (simp add: keeps_def broadcast_def rl_keeps)

lemma keeps_detached [rl_keeps]: "keeps rely m \<Longrightarrow> keeps rely (detached m)"
  unfolding detached_def by (auto intro!: rl_keeps split: sum.split)

lemma keeps_call_dispute [rl_keeps]:
  assumes "\<And>am. keeps dh_le (m am)"
  shows "keeps rely (call_dispute m)"
proof -
  have "rely n (n\<lparr>n_dh := d, n_procs := ps, n_rejections := n_rejections n @ es\<rparr>)"
    if "dh_le (n_dh n) d" for n :: "'a node" and d ps es
    using that by (simp add: rely_def core_le_def lock_rel_def locked_jobs_def jobs_ok_def)
  with as_proc_keeps [OF assms] show ?thesis
    by (auto simp: keeps_def call_dispute_def split: prod.split) (metis snd_conv)
qed

lemma keeps_push_job [rl_keeps]: "\<not> is_locked_job j \<Longrightarrow> keeps rely (push_job j)"
  by (auto simp: push_job_def rely_def core_le_def lock_rel_def locked_jobs_def jobs_ok_def
      intro!: rlp.modify)

lemma rely_acquire:
  assumes "is_locked_job w" and "\<And>tx. w = J_play_locked tx \<Longrightarrow> tx_ok (n_am n) tx"
  shows "rely n (snd (acquire w n))"
  using assms
  by (cases "isLocked (n_mutex n)")
    (auto simp: acquire_def smodify_def mutex_lock_def rely_def core_le_def lock_rel_def
      locked_jobs_def jobs_ok_def)

lemma keeps_acquire_signed [rl_keeps]: "keeps rely (acquire (J_signed_locked sb blk k))"
  unfolding keeps_def by (rule allI, rule rely_acquire) auto

text \<open>One lemma per operation, composed along the code.\<close>

lemma keeps_views [rl_keeps]:
  assumes "env_ok P"
  shows "keeps rely (getEncodedStateKecak256 P)" and "keeps rely (getNextToWrite P)"
    and "keeps rely (isMyTurn P)"
  using assms unfolding getEncodedStateKecak256_def getNextToWrite_def isMyTurn_def
  by (auto intro!: rl_keeps)

lemma keeps_onSuccessCommon [rl_keeps]: "env_ok P \<Longrightarrow> keeps rely (sm_onSuccessCommon P)"
  unfolding sm_onSuccessCommon_def Let_def by (auto intro!: rl_keeps)

lemma keeps_confirmBlock [rl_keeps]: "env_ok P \<Longrightarrow> keeps rely (sm_confirmBlock P sb)"
  unfolding sm_confirmBlock_def
  by (auto intro!: rl_keeps intro: same_chains_confirmBlock)

lemma keeps_disputeHandlers:
  "sm_disputeHandlers P af = Some h \<Longrightarrow> keeps rely (h sb)"
  by (auto simp: sm_disputeHandlers_def intro!: rl_keeps dh_keeps split: agreement_flag.splits)

lemma keeps_processExecutionDecision [rl_keeps]:
  assumes "env_ok P"
  shows "keeps rely (sm_processExecutionDecision P sb flag af)"
  unfolding sm_processExecutionDecision_def using assms
  by (auto intro!: rl_keeps intro: same_chains_queueBlock keeps_disputeHandlers
      split: execution_flag.split option.split)

lemma keeps_isEnoughTime [rl_keeps]:
  "env_ok P \<Longrightarrow> keeps rely (vs_isEnoughTimeSubjective P sb blk)"
  unfolding vs_isEnoughTimeSubjective_def Let_def by (auto intro!: rl_keeps dh_keeps)

lemma keeps_isGoodTimestamp [rl_keeps]: "env_ok P \<Longrightarrow> keeps rely (vs_isGoodTimestamp P blk)"
  unfolding vs_isGoodTimestamp_def Let_def by (auto intro!: rl_keeps)

lemma keeps_boundQueueConfirmation [rl_keeps]: "keeps rely (sm_boundQueueConfirmation bc)"
  unfolding sm_boundQueueConfirmation_def by (rule rl_keeps)

lemma keeps_processConfirmationDecision [rl_keeps]:
  "keeps rely (sm_processConfirmationDecision sm_boundQueueConfirmation sb sig flag)"
  unfolding sm_processConfirmationDecision_def
  by (auto intro!: rl_keeps split: execution_flag.split)

lemma keeps_confirmFinish [rl_keeps]:
  "env_ok P \<Longrightarrow> keeps rely (sm_confirmFinish P sb sig blk r)"
  unfolding sm_confirmFinish_def Let_def
  by (auto intro!: rl_keeps intro: same_chains_confirmBlock split: sum.split)

lemma keeps_afterFlag [rl_keeps]: "keeps rely (sts_afterFlag P r flag)"
  unfolding sts_afterFlag_def by (auto intro!: rl_keeps)

lemma keeps_deliverConfirm [rl_keeps]: "keeps rely (sm_deliverConfirm P ck flag)"
  by (cases "(P, ck, flag)" rule: sm_deliverConfirm.cases) (auto intro!: rl_keeps)

lemma keeps_endConfirm [rl_keeps]: "env_ok P \<Longrightarrow> keeps rely (sm_endConfirm P sb sig blk ck r)"
  unfolding sm_endConfirm_def by (auto intro!: rl_keeps)

lemma keeps_confirmSteps [rl_keeps]:
  "keeps rely (vs_confirmStart P sb blk)" "keeps rely (vs_confirmResume P blk flag)"
  "keeps rely (vs_confirmEnd P sig blk)" "keeps rely (vs_confirmStep P sig blk step)"
  unfolding vs_confirmStart_def vs_confirmResume_def vs_confirmEnd_def vs_confirmStep_def
  by (auto intro!: rl_keeps split: confirm_step.split)

lemma keeps_resumeConfirm [rl_keeps]:
  "env_ok P \<Longrightarrow> keeps rely (sm_resumeConfirm P sb sig blk ck flag)"
  unfolding sm_resumeConfirm_def by (auto intro!: rl_keeps split: sum.split option.split)

lemma keeps_deliverSigned [rl_keeps]: "env_ok P \<Longrightarrow> keeps rely (sm_deliverSigned P k flag)"
  by (cases "(P, k, flag)" rule: sm_deliverSigned.cases) (auto intro!: rl_keeps)

lemma keeps_onSignedBlock [rl_keeps]: "env_ok P \<Longrightarrow> keeps rely (sm_onSignedBlock P sb blk k)"
  unfolding sm_onSignedBlock_def by (auto intro!: rl_keeps split: sum.split)

lemma keeps_onBlockConfirmation [rl_keeps]:
  "env_ok P \<Longrightarrow> keeps rely (sm_onBlockConfirmation P sb sig blk ck)"
  unfolding sm_onBlockConfirmation_def
  by (auto intro!: rl_keeps split: sum.split option.split)

lemma keeps_queues [rl_keeps]:
  "keeps rely sm_tryExecuteFromQueue" "keeps rely sm_tryConfirmFromQueue"
proof -
  have "keeps same_chains (\<lambda>am. case am_tryDequeueBlocks (f am) (h am) am of (xs, am') \<Rightarrow> (Inr xs, am'))"
    and "keeps same_chains (\<lambda>am. case am_tryDequeueConfirmations (f am) (h am) am of (xs, am') \<Rightarrow> (Inr xs, am'))"
    for f h
    by (auto simp: keeps_def intro: same_chains_dequeue split: prod.split)
  then show "keeps rely sm_tryExecuteFromQueue" "keeps rely sm_tryConfirmFromQueue"
    unfolding sm_tryExecuteFromQueue_def sm_tryConfirmFromQueue_def
    by (auto intro!: rl_keeps split: list.split)
qed

lemma keeps_chain_events [rl_keeps]:
  assumes "env_ok P"
  shows "keeps rely (sm_setState P st f t)" and "keeps rely (sm_collectOnChainBlock P sb ts)"
    and "keeps rely (sm_onDisputeUpdate P x)"
  using assms
  unfolding sm_setState_def sm_collectOnChainBlock_def sm_onDisputeUpdate_def Let_def
  by (auto intro!: rl_keeps dh_keeps same_chains_newFork same_chains_collect split: sum.split)

lemma rely_setChannelId:
  "rely n (n\<lparr>n_channelId := c, n_dh := dh_setChannelId c (n_dh n)\<rparr>)"
  by (simp add: rely_def core_le_def lock_rel_def locked_jobs_def jobs_ok_def dh_le_def
      dh_setChannelId_def dh_isForkDisputed_def)

lemma keeps_setChannelId [rl_keeps]: "keeps rely (sm_setChannelId c)" "keeps rely sm_dispose"
  unfolding sm_setChannelId_def sm_dispose_def
  by (auto intro!: rlp.modify rely_setChannelId rl_keeps)

lemma keeps_timeouts [rl_keeps]:
  "keeps rely (sm_maybePostBlockOnChain P blk sb)"
  "keeps rely (sm_tryTimeoutParticipant P f h a)"
  "keeps rely (sm_timeoutDispute P f a h)"
  "keeps rely (sm_timeoutReply P f h a found)"
  unfolding sm_maybePostBlockOnChain_def sm_tryTimeoutParticipant_def sm_timeoutReply_def
    sm_timeoutDispute_def Let_def
  by (auto intro!: rl_keeps dh_keeps rlp.modify)

lemma keeps_run_timer [rl_keeps]: "keeps rely (run_timer P t)"
  unfolding run_timer_def by (auto intro!: rl_keeps split: timer.split)

lemma keeps_sendTransaction [rl_keeps]: "keeps rely (sm_sendTransaction P data)"
  unfolding keeps_def sm_sendTransaction_def nget_def
  by (auto simp: sbind_def sread_def tx_ok_def getForkCnt_def getNextBlockHeight_def
      am_getLatestForkCnt_def am_getNextBlockHeight_def fs_getNextBlockHeight_eq
      intro!: rely_acquire)

section \<open>Handlers that hold the mutex\<close>

named_theorems hd_keeps \<open>actions that keep \<open>hold\<close>\<close>

lemmas hd_keeps_basic [hd_keeps] = hdp.bind hdp.pure hold_call_await hold_settle

lemma hold_addBlock [hd_keeps]: "keeps hold (on_am (am_addBlock b sig st))"
  by (auto simp: keeps_def on_am_def hdp.R_refl intro!: hold_am chain_le_addBlock split: sum.split)

lemma hold_processStateTransition [hd_keeps]:
  assumes "env_ok P"
  shows "keeps hold (vs_processStateTransition P b sb)"
  unfolding vs_processStateTransition_def Let_def using assms
  by (auto intro!: hd_keeps keeps_rely_hold [OF keeps_views(1)] keeps_rely_hold [OF keeps_on_sm]
      keeps_rely_hold [OF keeps_logs(1)] split: prod.split)

lemma hold_validateSignedBlock [hd_keeps]:
  assumes "env_ok P"
  shows "keeps hold (vs_validateSignedBlock P sb b)"
  unfolding vs_validateSignedBlock_def using assms
  by (auto intro!: hd_keeps keeps_rely_hold [OF keeps_isGoodTimestamp]
      keeps_rely_hold [OF keeps_isEnoughTime] keeps_rely_hold [OF keeps_views(2)]
      split: option.split)

lemma hold_playTransaction_body [hd_keeps]:
  assumes "env_ok P"
  shows "keeps hold (sm_playTransaction_body P tx)"
  unfolding sm_playTransaction_body_def sm_applyTransaction_def sm_createBlock_def sm_signBlock_def
  using assms
  by (auto intro!: hd_keeps keeps_rely_hold [OF keeps_views(1)] keeps_rely_hold [OF keeps_views(2)]
      keeps_rely_hold [OF keeps_views(3)] keeps_rely_hold [OF keeps_on_sm]
      keeps_rely_hold [OF keeps_logs(1)] keeps_rely_hold [OF keeps_logs(3)]
      keeps_rely_hold [OF keeps_nget] keeps_rely_hold [OF keeps_onSuccessCommon]
      split: prod.split)

end
