(* ===== verification/NodeSteps.thy ===== *)
theory NodeSteps
  imports NodeFacts
begin

text \<open>
  The node as a transition system: in each step one handler runs. What the contract answers and
  what other handlers do at an \<open>await\<close> (within \<open>rely\<close>) is chosen anew in each step. The
  invariants proved here hold in every reachable state: at most one handler is past the mutex,
  nothing learned is lost, and every block sits at its own place of its own fork.
\<close>

section \<open>Steps\<close>

definition remote ::
  "'sm params \<Rightarrow> (bytes \<Rightarrow> nat \<Rightarrow> nat \<Rightarrow> js_num res) \<Rightarrow> (string \<Rightarrow> 'sm node \<Rightarrow> 'sm node) \<Rightarrow>
   (rpc \<Rightarrow> unit res) \<Rightarrow> 'sm params"
where
  "remote P chainTs env send = P\<lparr>p_chainTimestamp := chainTs, p_env := env, p_send := send\<rparr>"

definition drop_nth :: "nat \<Rightarrow> 'a list \<Rightarrow> 'a list" where
  "drop_nth i xs = take i xs @ drop (Suc i) xs"

inductive node_step :: "'sm params \<Rightarrow> 'sm node \<Rightarrow> 'sm node \<Rightarrow> bool" for P where
  step_job: "n_jobs n = j # js \<Longrightarrow> env_ok (remote P c e w) \<Longrightarrow>
     node_step P n (snd (run_job (remote P c e w) j (n\<lparr>n_jobs := js\<rparr>)))"
| step_timer: "i < length (n_timers n) \<Longrightarrow>
     node_step P n (snd (run_timer P (snd (n_timers n ! i))
                          (n\<lparr>n_timers := drop_nth i (n_timers n)\<rparr>)))"
| step_rpc_block: "env_ok (remote P c e w) \<Longrightarrow>
     node_step P n (snd (sm_onSignedBlock (remote P c e w) sb None (RK_rpc sb) n))"
| step_rpc_confirm: "env_ok (remote P c e w) \<Longrightarrow>
     node_step P n (snd (sm_onBlockConfirmation (remote P c e w) sb sig None (CK_rpc sb sig) n))"
| step_send: "node_step P n (snd (sm_sendTransaction P data n))"
| step_setState: "env_ok (remote P c e w) \<Longrightarrow>
     node_step P n (snd (sm_setState (remote P c e w) st f ts n))"
| step_collect: "env_ok (remote P c e w) \<Longrightarrow>
     node_step P n (snd (sm_collectOnChainBlock (remote P c e w) sb ts n))"
| step_dispute: "node_step P n (snd (sm_onDisputeUpdate P x n))"
| step_reply: "i < length (n_procs n) \<Longrightarrow> node_step P n (node_contractReply P i reply n)"
| step_timeout_reply: "i < length (n_timeoutQueries n) \<Longrightarrow>
     n_timeoutQueries n ! i = (f, h, a) \<Longrightarrow>
     node_step P n (snd (sm_timeoutReply P f h a found
                          (n\<lparr>n_timeoutQueries := drop_nth i (n_timeoutQueries n)\<rparr>)))"
| step_tick: "n_now n \<le> t \<Longrightarrow> node_step P n (n\<lparr>n_now := t\<rparr>)"
| step_channel: "node_step P n (snd (sm_setChannelId c n))"
| step_dispose: "node_step P n (snd (sm_dispose n))"

section \<open>Most steps keep rely\<close>

lemma rely_contractReply: "rely n (node_contractReply P i reply n)"
proof -
  have "rely n (n\<lparr>n_dh := d, n_procs := ps, n_rejections := n_rejections n @ es\<rparr>)"
    if "dh_le (n_dh n) d" for d ps es
    using that by (simp add: rely_def core_le_def lock_rel_def locked_jobs_def jobs_ok_def)
  with as_proc_keeps [OF keeps_resume] show ?thesis
    by (auto simp: node_contractReply_def split: prod.split) (metis snd_conv)
qed

lemma rely_snd: "keeps rely m \<Longrightarrow> rely n n0 \<Longrightarrow> rely n (snd (m n0))"
  unfolding keeps_def using rlp.R_trans by blast

lemma rely_snd_same: "keeps rely m \<Longrightarrow> rely n (snd (m n))"
  by (simp add: keeps_def)

lemma rely_pop_job: "n_jobs n = j # js \<Longrightarrow> \<not> is_locked_job j \<Longrightarrow> rely n (n\<lparr>n_jobs := js\<rparr>)"
  by (auto simp: rely_def core_le_def lock_rel_def locked_jobs_def jobs_ok_def)

lemma node_step_cases:
  assumes "node_step P n n'"
  obtains (free) "rely n n'"
  | (holder) j js c e w where "n_jobs n = j # js" "is_locked_job j" "env_ok (remote P c e w)"
      "n' = snd (run_job (remote P c e w) j (n\<lparr>n_jobs := js\<rparr>))"
  using assms
proof cases
  case (step_job j js c e w)
  show thesis
  proof (cases "is_locked_job j")
    case True
    with step_job show thesis by (intro holder) auto
  next
    case False
    with step_job have "keeps rely (run_job (remote P c e w) j)"
      by (cases j) (auto intro!: rl_keeps)
    from rely_snd [OF this rely_pop_job [OF step_job(2) False]] step_job(1) show thesis
      by (intro free) simp
  qed
next
  case (step_timer i)
  show thesis
    unfolding step_timer(1)
    by (intro free) (simp add: step_timer(1) rely_snd [OF keeps_run_timer rely_frame(3)])
next
  case (step_timeout_reply i f h a found)
  then show thesis by (intro free) (auto intro!: rely_snd rl_keeps)
next
  case (step_reply i reply)
  then show thesis by (intro free) (simp add: rely_contractReply)
qed (auto intro!: free rely_snd rely_snd_same rl_keeps dh_keeps simp: sm_onDisputeUpdate_def)

section \<open>Steps of the holder\<close>

text \<open>
  What is left after the holder's main part: the decision, then either the lock is given up, or
  an exception skipped that.
\<close>

lemma run_signed_locked:
  assumes "env_ok P"
  obtains (stuck) nd r where
      "rely (snd (call_await P ''validateSignedBlock'' (vs_validateSignedBlock P sb b) n)) nd"
      "rely nd (snd (run_job P (J_signed_locked sb b k) n))"
  | (unlocked) nd where
      "rely (snd (call_await P ''validateSignedBlock'' (vs_validateSignedBlock P sb b) n)) nd"
      "rely (snd (unlock nd)) (snd (run_job P (J_signed_locked sb b k) n))"
proof -
  obtain r nv where v: "call_await P ''validateSignedBlock'' (vs_validateSignedBlock P sb b) n = (r, nv)"
    by (cases "call_await P ''validateSignedBlock'' (vs_validateSignedBlock P sb b) n")
  define flags where "flags = (case r of Inl _ \<Rightarrow> (EF_SUCCESS, None) | Inr x \<Rightarrow> (vr_flag x, vr_agreementFlag x))"
  obtain d nd where d: "call_await P ''processExecutionDecision''
      (sm_processExecutionDecision P sb (fst flags) (snd flags)) nv = (d, nd)"
    by (cases "call_await P ''processExecutionDecision''
      (sm_processExecutionDecision P sb (fst flags) (snd flags)) nv")
  have nd: "rely nv nd"
    using keeps_call_await [OF assms keeps_processExecutionDecision [OF assms]] d
    by (metis keeps_def snd_conv)
  have del: "rely m (snd (sm_deliverSigned P k x m))" for x m
    using keeps_deliverSigned [OF assms] by (simp add: keeps_def)
  have run: "run_job P (J_signed_locked sb b k) n =
    (case d of
       Inl e \<Rightarrow> sm_deliverSigned P k (Inl e) nd
     | Inr _ \<Rightarrow> sm_deliverSigned P k (case r of Inl e \<Rightarrow> Inl e | Inr _ \<Rightarrow> Inr (fst flags)) (snd (unlock nd)))"
    using v d
    by (auto simp: sm_onSignedBlock_locked_def settle_def sbind_def unlock_def smodify_def
        sthrow_def sreturn_def flags_def Let_def split: sum.splits prod.splits)
  show thesis
  proof (cases d)
    case (Inl e)
    with run nd del [of nd "Inl e"] v show thesis by (intro stuck [of nd]) auto
  next
    case (Inr u)
    with run nd del v show thesis by (intro unlocked [of nd]) auto
  qed
qed

lemma run_play_locked:
  assumes "env_ok P"
  shows "rely (snd (unlock (snd (sm_playTransaction_body P tx n))))
           (snd (run_job P (J_play_locked tx) n))"
proof -
  obtain r n1 where b: "sm_playTransaction_body P tx n = (r, n1)"
    by (cases "sm_playTransaction_body P tx n")
  have "run_job P (J_play_locked tx) n =
      (case r of Inl e \<Rightarrow> unhandled e (snd (unlock n1))
       | Inr s \<Rightarrow> detached (broadcast P (Rpc_onSignedBlock s)) (snd (unlock n1)))"
    using b by (auto simp: sm_playTransaction_locked_def settle_def sbind_def unlock_def smodify_def
        split: sum.splits prod.splits)
  moreover have "keeps rely (unhandled e :: ('a, unit) node_act)"
    "keeps rely (detached (broadcast P (Rpc_onSignedBlock s)))" for e s
    by (intro rl_keeps)+
  ultimately show ?thesis using b by (auto simp: keeps_def split: sum.split)
qed

section \<open>Nothing is lost\<close>

lemma core_le_unlock [simp]: "core_le n (snd (unlock n))"
  by (auto simp: unlock_def smodify_def core_le_def split: prod.split option.split)

lemma rely_core: "rely n n' \<Longrightarrow> core_le n n'"
  by (simp add: rely_def)

lemma hold_core: "hold n n' \<Longrightarrow> core_le n n'"
  by (simp add: hold_def)

lemma core_le_pop: "core_le n (n\<lparr>n_jobs := js\<rparr>)"
  by (simp add: core_le_def)

lemma hold_validate:
  "env_ok P \<Longrightarrow> hold n (snd (call_await P site (vs_validateSignedBlock P sb b) n))"
  using hold_call_await [OF _ hold_validateSignedBlock, of P P] by (simp add: keeps_def)

lemma hold_play: "env_ok P \<Longrightarrow> hold n (snd (sm_playTransaction_body P tx n))"
  using hold_playTransaction_body by (auto simp: keeps_def)

lemma node_step_core:
  assumes "node_step P n n'"
  shows "core_le n n'"
  using assms
proof (cases rule: node_step_cases)
  case free
  then show ?thesis by (rule rely_core)
next
  case (holder j js c e w)
  let ?P = "remote P c e w" and ?n = "n\<lparr>n_jobs := js\<rparr>"
  note env = holder(3)
  show ?thesis
  proof (cases j)
    case (J_signed_locked sb b k)
    let ?v = "snd (call_await ?P ''validateSignedBlock'' (vs_validateSignedBlock ?P sb b) ?n)"
    have "core_le n ?v" by (rule core_le_trans [OF core_le_pop hold_core [OF hold_validate [OF env]]])
    then have v: "rely ?v nd \<Longrightarrow> core_le n nd" for nd using core_le_trans rely_core by blast
    show ?thesis
      unfolding holder(4) J_signed_locked
    proof (rule run_signed_locked [OF env, of sb b ?n k])
      fix nd assume "rely ?v nd" and "rely nd (snd (run_job ?P (J_signed_locked sb b k) ?n))"
      then show "core_le n (snd (run_job ?P (J_signed_locked sb b k) ?n))"
        using v core_le_trans rely_core by blast
    next
      fix nd assume *: "rely ?v nd" "rely (snd (unlock nd)) (snd (run_job ?P (J_signed_locked sb b k) ?n))"
      have "core_le n (snd (unlock nd))" by (rule core_le_trans [OF v [OF *(1)] core_le_unlock])
      from core_le_trans [OF this rely_core [OF *(2)]]
      show "core_le n (snd (run_job ?P (J_signed_locked sb b k) ?n))" .
    qed
  next
    case (J_play_locked tx)
    have "core_le n (snd (sm_playTransaction_body ?P tx ?n))"
      by (rule core_le_trans [OF core_le_pop hold_core [OF hold_play [OF env]]])
    from core_le_trans [OF core_le_trans [OF this core_le_unlock] rely_core [OF run_play_locked [OF env]]]
    show ?thesis unfolding holder(4) J_play_locked .
  qed (use holder in simp_all)
qed

section \<open>Blocks go to their own place\<close>

text \<open>
  \<open>pos_inv f h\<close>: all blocks are in place, and height \<open>h\<close> of fork \<open>f\<close> is no later than the next
  one. Everything keeps it, and a block of that fork and height may then be added.
\<close>

definition pos_inv :: "nat \<Rightarrow> nat \<Rightarrow> 'sm node \<Rightarrow> bool" where
  "pos_inv f h n \<longleftrightarrow> chain_ok (n_am n) \<and> h \<le> fs_chainLength (forkService (n_am n)) f"

definition pos_rel :: "nat \<Rightarrow> nat \<Rightarrow> 'sm node \<Rightarrow> 'sm node \<Rightarrow> bool" where
  "pos_rel f h n n' \<longleftrightarrow> (pos_inv f h n \<longrightarrow> pos_inv f h n')"

interpretation psp: preserved "pos_rel f h :: 'sm node \<Rightarrow> 'sm node \<Rightarrow> bool"
  by unfold_locales (auto simp: pos_rel_def)

lemma rely_pos: "rely n n' \<Longrightarrow> pos_rel f h n n'"
  unfolding rely_def pos_rel_def pos_inv_def
  using chain_ok_same same_chains_le chain_le_length le_trans by meson

lemma keeps_rely_pos: "keeps rely m \<Longrightarrow> keeps (pos_rel f h) m"
  by (simp add: keeps_def rely_pos)

lemma pos_call_await: "env_ok P \<Longrightarrow> keeps (pos_rel f h) m \<Longrightarrow> keeps (pos_rel f h) (call_await P site m)"
  by (auto simp: keeps_def call_await_def env_ok_def split: prod.split)
    (metis psp.R_trans rely_pos snd_conv)

lemma pos_addBlock:
  assumes "getFork b = f" and "getHeight b = h"
  shows "keeps (pos_rel f h) (on_am (am_addBlock b sig st))"
  unfolding keeps_def
proof
  fix n :: "'a node"
  show "pos_rel f h n (snd (on_am (am_addBlock b sig st) n))"
  proof (cases "am_addBlock b sig st (n_am n)")
    case (Inl e)
    then show ?thesis by (simp add: on_am_def pos_rel_def)
  next
    case (Inr am)
    with chain_ok_addBlock [OF _ Inr] chain_le_length [OF chain_le_addBlock [OF Inr], of f] assms
    show ?thesis by (auto simp: on_am_def pos_rel_def pos_inv_def)
  qed
qed

lemma pos_processStateTransition:
  assumes "env_ok P"
  shows "keeps (pos_rel (getFork b) (getHeight b)) (vs_processStateTransition P b sb)"
  unfolding vs_processStateTransition_def Let_def using assms
  by (auto intro!: psp.bind psp.pure pos_call_await pos_addBlock
      keeps_rely_pos [OF keeps_views(1)] keeps_rely_pos [OF keeps_on_sm]
      keeps_rely_pos [OF keeps_logs(1)] split: prod.split)

lemma pos_rel_snd: "keeps (pos_rel f h) m \<Longrightarrow> pos_inv f h n \<Longrightarrow> pos_inv f h (snd (m n))"
  by (simp add: keeps_def pos_rel_def)

lemma vs_checkStatic_None:
  assumes "vs_checkStatic P sb b n = Inr None"
  shows "getFork b = getForkCnt n" and "getHeight b = getNextBlockHeight n"
    and "am_isParticipantInLatestFork (n_am n) (getBlockAuthor b)"
    and "vs_isSignedBlockAuthentic P sb b (n_channelId n) = Inr True"
    and "\<not> dh_isForkDisputed (n_dh n) (getFork b)"
    and "\<not> am_isBlockDuplicate (p_ethers P) (n_am n) b"
  using assms
  by (auto simp: vs_checkStatic_def Let_def rbind_Inr_iff vs_isPastFork_def split: if_splits)

lemma next_height_chain:
  "getNextBlockHeight n = fs_chainLength (forkService (n_am n)) (getForkCnt n)"
  by (simp add: getNextBlockHeight_def getForkCnt_def am_getNextBlockHeight_def
      am_getLatestForkCnt_def fs_getNextBlockHeight_eq)

lemma chain_ok_validate:
  assumes "env_ok P" and "chain_ok (n_am n)"
  shows "chain_ok (n_am (snd (vs_validateSignedBlock P sb b n)))"
proof (cases "vs_checkStatic P sb b n")
  case (Inl e)
  with assms(2) show ?thesis by (simp add: vs_validateSignedBlock_def sbind_def sread_def)
next
  case (Inr decided)
  show ?thesis
  proof (cases decided)
    case (Some r)
    with Inr assms(2) show ?thesis
      by (simp add: vs_validateSignedBlock_def sbind_def sread_def sreturn_def)
  next
    case None
    have pos: "pos_inv (getFork b) (getHeight b) n"
      using vs_checkStatic_None(1,2) [of P sb b n] Inr None assms(2)
      by (simp add: pos_inv_def next_height_chain)
    let ?m = "sbind (call_await P ''isGoodTimestamp'' (vs_isGoodTimestamp P b)) (\<lambda>good.
           if \<not> good then sreturn (vr_dispute AF_INCORRECT_DATA)
           else sbind (call_await P ''isEnoughTime'' (vs_isEnoughTimeSubjective P sb b))
             (\<lambda>timeFlag.
             if timeFlag \<noteq> EF_SUCCESS then sreturn (vr_fail timeFlag)
             else sbind (getNextToWrite P) (\<lambda>nextToWrite.
               if getBlockAuthor b \<noteq> nextToWrite
               then sreturn (vr_dispute AF_INCORRECT_DATA)
               else vs_processStateTransition P b sb)))"
    have "keeps (pos_rel (getFork b) (getHeight b)) ?m"
      using assms(1)
      by (auto intro!: psp.bind psp.pure pos_call_await pos_processStateTransition
          keeps_rely_pos [OF keeps_isGoodTimestamp] keeps_rely_pos [OF keeps_isEnoughTime]
          keeps_rely_pos [OF keeps_views(2)])
    from pos_rel_snd [OF this pos] Inr None show ?thesis
      by (simp add: vs_validateSignedBlock_def sbind_def sread_def pos_inv_def)
  qed
qed

lemma sm_adjust_position:
  assumes "sm_adjustTimestampIfNeeded tx n = Inr tx'"
  shows "hdr_forkCnt (tx_header tx') = hdr_forkCnt (tx_header tx)"
    and "hdr_transactionCnt (tx_header tx') = hdr_transactionCnt (tx_header tx)"
  using assms by (auto simp: sm_adjustTimestampIfNeeded_def rmap_Inr_iff)

lemma call_await_Inr: "call_await P site m n = (Inr x, n') \<Longrightarrow> \<exists>n1. m n = (Inr x, n1)"
  by (auto simp: call_await_def split: prod.splits)

lemma sm_createBlock_tx: "call_await P site (sm_createBlock P tx h) n = (Inr b, n') \<Longrightarrow> blk_transaction b = tx"
  by (auto dest!: call_await_Inr simp: sm_createBlock_def res_simps)

lemma keeps_createBlock: "env_ok P \<Longrightarrow> keeps rely (sm_createBlock P tx h)"
  unfolding sm_createBlock_def by (auto intro!: rl_keeps)

lemma keeps_applyTransaction: "env_ok P \<Longrightarrow> keeps rely (sm_applyTransaction P tx)"
  unfolding sm_applyTransaction_def by (auto intro!: rl_keeps split: prod.split)

lemma keeps_signBlock: "env_ok P \<Longrightarrow> keeps rely (sm_signBlock P b)"
  unfolding sm_signBlock_def by (auto intro!: rl_keeps)

lemma pos_if: "keeps R a \<Longrightarrow> keeps R b \<Longrightarrow> keeps R (if c then a else b)"
  by simp

lemma pos_playTransaction_body:
  assumes "env_ok P"
  shows "keeps (pos_rel (js_Number (hdr_forkCnt (tx_header tx)))
    (js_Number (hdr_transactionCnt (tx_header tx)))) (sm_playTransaction_body P tx)"
proof -
  define f h where "f = js_Number (hdr_forkCnt (tx_header tx))"
    and "h = js_Number (hdr_transactionCnt (tx_header tx))"
  have add: "keeps (pos_rel f h) (on_am (am_addBlock b sig st))"
    if "sread (sm_adjustTimestampIfNeeded tx) n0 = (Inr tx', n1)"
      and "call_await P site (sm_createBlock P tx' ph) n = (Inr b, n')"
    for b sig st and n0 n1 n n' :: "'a node" and tx' site ph
  proof (rule pos_addBlock)
    have "sm_adjustTimestampIfNeeded tx n0 = Inr tx'" using that(1) by (simp add: sread_iff)
    note tx' = sm_adjust_position [OF this]
    show "getFork b = f" "getHeight b = h"
      by (simp_all add: f_def h_def getFork_def getHeight_def sm_createBlock_tx [OF that(2)] tx')
  qed
  show ?thesis
    unfolding sm_playTransaction_body_def f_def [symmetric] h_def [symmetric]
    by (rule psp.bind_res psp.pure pos_if keeps_rely_pos [OF keeps_nget]
        pos_call_await [OF assms] keeps_rely_pos [OF keeps_views(2) [OF assms]]
        keeps_rely_pos [OF keeps_views(3) [OF assms]]
        keeps_rely_pos [OF keeps_applyTransaction [OF assms]]
        keeps_rely_pos [OF keeps_createBlock [OF assms]]
        keeps_rely_pos [OF keeps_signBlock [OF assms]]
        keeps_rely_pos [OF keeps_logs(1)] keeps_rely_pos [OF keeps_logs(3)]
        keeps_rely_pos [OF keeps_onSuccessCommon [OF assms]] add | assumption)+
qed

section \<open>The invariant\<close>

text \<open>
  At most one continuation past the mutex is ready, and none while the lock is free; together
  with the well-formed queues and chains.
\<close>

definition lock_inv :: "'sm node \<Rightarrow> bool" where
  "lock_inv n \<longleftrightarrow> locked_jobs n \<le> (if isLocked (n_mutex n) then 1 else 0)"

definition node_inv :: "'sm node \<Rightarrow> bool" where
  "node_inv n \<longleftrightarrow> lock_inv n \<and> jobs_ok n \<and> chain_ok (n_am n)"

lemma node_inv_init: "node_inv (node_init sm now)"
  by (simp add: node_inv_def lock_inv_def node_init_def locked_jobs_def jobs_ok_def mutex_new_def
      chain_ok_init)

lemma node_inv_rely: "rely n n' \<Longrightarrow> node_inv n \<Longrightarrow> node_inv n'"
  using chain_ok_same [of "n_am n" "n_am n'"]
  by (auto simp: node_inv_def lock_inv_def rely_def lock_rel_def split: if_splits)

text \<open>One step of the holder: its main part, the decision, and maybe the release of the lock.\<close>

lemma holder_split:
  assumes "n_jobs n = j # js" and "is_locked_job j" and "env_ok P" and "node_inv n"
  obtains nm nd where "hold (n\<lparr>n_jobs := js\<rparr>) nm" "rely nm nd" "chain_ok (n_am nm)"
    "rely nd (snd (run_job P j (n\<lparr>n_jobs := js\<rparr>))) \<or>
     rely (snd (unlock nd)) (snd (run_job P j (n\<lparr>n_jobs := js\<rparr>)))"
proof -
  let ?n = "n\<lparr>n_jobs := js\<rparr>"
  have ok: "chain_ok (n_am ?n)" using assms(4) by (simp add: node_inv_def)
  show thesis
  proof (cases j)
    case (J_signed_locked sb b k)
    let ?v = "snd (call_await P ''validateSignedBlock'' (vs_validateSignedBlock P sb b) ?n)"
    have "rely (snd (vs_validateSignedBlock P sb b ?n)) ?v"
      using assms(3) by (simp add: call_await_def env_ok_def split: prod.split)
    then have "chain_ok (n_am ?v)"
      using chain_ok_same chain_ok_validate [OF assms(3) ok] by (auto simp: rely_def)
    then show thesis
      using hold_validate [OF assms(3)] J_signed_locked that [of ?v]
      by (cases rule: run_signed_locked [OF assms(3), of sb b ?n k]) blast+
  next
    case (J_play_locked tx)
    let ?b = "snd (sm_playTransaction_body P tx ?n)"
    have "tx_ok (n_am n) tx" using assms(1,4) J_play_locked by (auto simp: node_inv_def jobs_ok_def)
    then have "pos_inv (js_Number (hdr_forkCnt (tx_header tx)))
        (js_Number (hdr_transactionCnt (tx_header tx))) ?n"
      using ok by (simp add: pos_inv_def tx_ok_def)
    then have "chain_ok (n_am ?b)"
      using pos_rel_snd [OF pos_playTransaction_body [OF assms(3)]] by (simp add: pos_inv_def)
    then show thesis
      using hold_play [OF assms(3)] run_play_locked [OF assms(3)] J_play_locked rlp.R_refl
      by (intro that [of ?b ?b]) auto
  qed (use assms in simp_all)
qed

lemma unlock_inv:
  assumes "isLocked (n_mutex n)" and "locked_jobs n = 0" and "jobs_ok n" and "chain_ok (n_am n)"
  shows "node_inv (snd (unlock n))"
  using assms
  by (cases "mutexQueue (n_mutex n)")
    (auto simp: node_inv_def lock_inv_def unlock_def smodify_def mutex_unlock_def locked_jobs_def
      jobs_ok_def split: if_splits)

lemma holder_state:
  assumes "n_jobs n = j # js" and "is_locked_job j" and "node_inv n"
  shows "isLocked (n_mutex (n\<lparr>n_jobs := js\<rparr>))" and "locked_jobs (n\<lparr>n_jobs := js\<rparr>) = 0"
    and "jobs_ok (n\<lparr>n_jobs := js\<rparr>)"
  using assms
  by (auto simp: node_inv_def lock_inv_def locked_jobs_def jobs_ok_def split: if_splits)

lemma node_step_inv:
  assumes "node_inv n" and "node_step P n n'"
  shows "node_inv n'"
  using assms(2)
proof (cases rule: node_step_cases)
  case free
  then show ?thesis using node_inv_rely assms(1) by blast
next
  case (holder j js c e w)
  note st = holder_state [OF holder(1,2) assms(1)]
  show ?thesis
  proof (rule holder_split [OF holder(1-3) assms(1)])
    fix nm nd
    assume h: "hold (n\<lparr>n_jobs := js\<rparr>) nm" and d: "rely nm nd" and ok: "chain_ok (n_am nm)"
      and last: "rely nd (snd (run_job (remote P c e w) j (n\<lparr>n_jobs := js\<rparr>))) \<or>
        rely (snd (unlock nd)) (snd (run_job (remote P c e w) j (n\<lparr>n_jobs := js\<rparr>)))"
    have nm: "isLocked (n_mutex nm)" "locked_jobs nm = 0" "jobs_ok nm"
      using h st by (auto simp: hold_def lock_rel_def)
    then have nd: "isLocked (n_mutex nd)" "locked_jobs nd = 0" "jobs_ok nd" "chain_ok (n_am nd)"
      using d chain_ok_same ok by (auto simp: rely_def lock_rel_def)
    then have "node_inv nd" by (simp add: node_inv_def lock_inv_def)
    with last unlock_inv [OF nd] holder(4) show ?thesis using node_inv_rely by blast
  qed
qed

interpretation node_sys: invariant_system "\<lambda>n. \<exists>sm now. n = node_init sm now" "node_step P" node_inv
  by unfold_locales (auto intro: node_inv_init node_step_inv)

section \<open>A mutex that is never given back\<close>

text \<open>
  The lock is held, but no continuation of its holder is ready: the holder's handler ended
  without \<open>unlock\<close>.
\<close>

definition wedged :: "'sm node \<Rightarrow> bool" where
  "wedged n \<longleftrightarrow> isLocked (n_mutex n) \<and> locked_jobs n = 0"

lemma wedged_step:
  assumes "wedged n" and "node_step P n n'"
  shows "wedged n' \<and> same_chains (n_am n) (n_am n')"
  using assms(2)
proof (cases rule: node_step_cases)
  case free
  with assms(1) show ?thesis by (auto simp: wedged_def rely_def lock_rel_def)
next
  case (holder j js c e w)
  with assms(1) show ?thesis by (simp add: wedged_def locked_jobs_def)
qed

lemma wedged_forever:
  assumes "(node_step P)\<^sup>*\<^sup>* n n'" and "wedged n"
  shows "wedged n' \<and> same_chains (n_am n) (n_am n')"
  using assms
proof (induction rule: rtranclp_induct)
  case base
  then show ?case by simp
next
  case (step y z)
  then show ?case using wedged_step same_chains_trans by blast
qed

text \<open>The decision on a block throws: the lines after it, with the \<open>unlock\<close>, are skipped.\<close>

lemma locked_job_wedges:
  assumes inv: "node_inv n" and j: "n_jobs n = J_signed_locked sb b k # js" and env: "env_ok P"
    and thr: "sm_onSignedBlock_locked P sb b (n\<lparr>n_jobs := js\<rparr>) = (Inl e, n1)"
    and before: "hold (n\<lparr>n_jobs := js\<rparr>) n1"
  shows "wedged (snd (run_job P (J_signed_locked sb b k) (n\<lparr>n_jobs := js\<rparr>)))"
proof -
  note st = holder_state [OF j _ inv, simplified]
  have n1: "wedged n1" using before st by (auto simp: wedged_def hold_def lock_rel_def)
  have "rely n1 (snd (sm_deliverSigned P k (Inl e) n1))"
    using keeps_deliverSigned [OF env] by (simp add: keeps_def)
  with n1 thr show ?thesis
    by (auto simp: wedged_def rely_def lock_rel_def settle_def sbind_def)
qed

end
