(* ===== verification/NodeTheorems.thy ===== *)
theory NodeTheorems
  imports NodeSteps
begin

text \<open>
  What the validation pipeline guarantees about the block it was given, and how its error paths
  meet the mutex.
\<close>

section \<open>The outcome of validation\<close>

text \<open>
  The block joined the chain: other handlers did their part, then the agreement was added with
  a state whose hash is the one the block claims.
\<close>

definition added :: "'sm params \<Rightarrow> signed_block \<Rightarrow> block \<Rightarrow> 'sm node \<Rightarrow> 'sm node \<Rightarrow> bool" where
  "added P sb b n n' \<longleftrightarrow> (\<exists>m am st. rely n m \<and> am_addBlock b (sb_signature sb) st (n_am m) = Inr am \<and>
     keccak256 (p_ethers P) st = blk_stateHash b \<and> n_am n' = am)"

definition not_success :: "validation_result res \<Rightarrow> bool" where
  "not_success r \<longleftrightarrow> (\<forall>x. r = Inr x \<longrightarrow> \<not> vr_success x)"

text \<open>An action that ends in success with the block added, or else adds nothing.\<close>

definition all_or_nothing ::
  "'sm params \<Rightarrow> signed_block \<Rightarrow> block \<Rightarrow> ('sm, validation_result) node_act \<Rightarrow> bool" where
  "all_or_nothing P sb b m \<longleftrightarrow> (\<forall>n r n'. m n = (r, n') \<longrightarrow>
     (r = Inr vr_ok \<and> added P sb b n n') \<or> (not_success r \<and> rely n n'))"

lemma not_success_simps [simp]:
  "not_success (Inl e)" "not_success (Inr (vr_dispute af))" "not_success (Inr (vr_fail flag))"
  "\<not> not_success (Inr vr_ok)"
  by (simp_all add: not_success_def vr_dispute_def vr_fail_def vr_ok_def)

lemma added_rely: "rely n m \<Longrightarrow> added P sb b m n' \<Longrightarrow> added P sb b n n'"
  unfolding added_def using rlp.R_trans by meson

lemma aon_bind:
  fixes P :: "'sm params"
  assumes m: "keeps rely m" and f: "\<And>x. all_or_nothing P sb b (f x)"
  shows "all_or_nothing P sb b (sbind m f)"
  unfolding all_or_nothing_def
proof (intro allI impI)
  fix n :: "'sm node" and r n'
  assume run: "sbind m f n = (r, n')"
  obtain r1 n1 where m1: "m n = (r1, n1)" by (cases "m n")
  have 1: "rely n n1" using keepsD [OF m m1] .
  show "(r = Inr vr_ok \<and> added P sb b n n') \<or> (not_success r \<and> rely n n')"
  proof (cases r1)
    case (Inl e)
    with run m1 1 show ?thesis by (auto simp: sbind_def)
  next
    case (Inr x)
    with run m1 have "f x n1 = (r, n')" by (simp add: sbind_def)
    then have "(r = Inr vr_ok \<and> added P sb b n1 n') \<or> (not_success r \<and> rely n1 n')"
      using f [of x] unfolding all_or_nothing_def by blast
    then show ?thesis using added_rely [OF 1] rlp.R_trans [OF 1] by blast
  qed
qed

lemma aon_return:
  "all_or_nothing P sb b (sreturn (vr_dispute af))" "all_or_nothing P sb b (sreturn (vr_fail flag))"
  by (auto simp: all_or_nothing_def sreturn_iff rlp.R_refl)

lemma aon_if:
  "(c \<Longrightarrow> all_or_nothing P sb b m) \<Longrightarrow> (\<not> c \<Longrightarrow> all_or_nothing P sb b m') \<Longrightarrow>
     all_or_nothing P sb b (if c then m else m')"
  by simp

lemma aon_add:
  fixes P :: "'sm params"
  assumes "keccak256 (p_ethers P) st = blk_stateHash b"
  shows "all_or_nothing P sb b (sbind (on_am (am_addBlock b (sb_signature sb) st)) (\<lambda>_.
    sbind (scheduleTask t d) (\<lambda>_. sreturn vr_ok)))"
  unfolding all_or_nothing_def
proof (intro allI impI)
  fix n :: "'sm node" and r n'
  assume run: "sbind (on_am (am_addBlock b (sb_signature sb) st)) (\<lambda>_.
    sbind (scheduleTask t d) (\<lambda>_. sreturn vr_ok)) n = (r, n')"
  show "(r = Inr vr_ok \<and> added P sb b n n') \<or> (not_success r \<and> rely n n')"
  proof (cases "am_addBlock b (sb_signature sb) st (n_am n)")
    case (Inl e)
    with run show ?thesis by (auto simp: sbind_def on_am_def rlp.R_refl)
  next
    case (Inr am)
    with run have "r = Inr vr_ok" "n_am n' = am"
      by (auto simp: sbind_def on_am_def scheduleTask_def smodify_def sreturn_def)
    with Inr assms rlp.R_refl show ?thesis unfolding added_def by blast
  qed
qed

lemma aon_processStateTransition:
  "env_ok P \<Longrightarrow> all_or_nothing P sb b (vs_processStateTransition P b sb)"
  unfolding vs_processStateTransition_def Let_def
  by (auto intro!: aon_bind aon_return aon_add rl_keeps split: prod.split)

lemma vs_validateSignedBlock_outcome:
  assumes env: "env_ok P" and run: "vs_validateSignedBlock P sb b n = (r, n')"
  shows "(r = Inr vr_ok \<and> vs_checkStatic P sb b n = Inr None \<and> added P sb b n n') \<or>
    (not_success r \<and> rely n n')"
proof -
  have static: "\<not> vr_success x" if "vs_checkStatic P sb b n = Inr (Some x)" for x
    using that
    by (auto simp: vs_checkStatic_def Let_def rbind_Inr_iff vr_fail_def vr_dispute_def
        split: if_splits)
  have aon: "all_or_nothing P sb b (sbind (call_await P ''isGoodTimestamp'' (vs_isGoodTimestamp P b)) (\<lambda>good.
           if \<not> good then sreturn (vr_dispute AF_INCORRECT_DATA)
           else sbind (call_await P ''isEnoughTime'' (vs_isEnoughTimeSubjective P sb b))
             (\<lambda>timeFlag.
             if timeFlag \<noteq> EF_SUCCESS then sreturn (vr_fail timeFlag)
             else sbind (getNextToWrite P) (\<lambda>nextToWrite.
               if getBlockAuthor b \<noteq> nextToWrite
               then sreturn (vr_dispute AF_INCORRECT_DATA)
               else vs_processStateTransition P b sb))))"
    by (intro aon_bind aon_if aon_return aon_processStateTransition keeps_call_await
        keeps_isGoodTimestamp keeps_isEnoughTime keeps_views(2) env)
  show ?thesis
  proof (cases "vs_checkStatic P sb b n")
    case (Inl e)
    with run show ?thesis by (auto simp: vs_validateSignedBlock_def sbind_def sread_def rlp.R_refl)
  next
    case (Inr decided)
    show ?thesis
    proof (cases decided)
      case (Some x)
      with Inr static run show ?thesis
        by (auto simp: vs_validateSignedBlock_def sbind_def sread_def sreturn_def not_success_def
            rlp.R_refl)
    next
      case None
      with Inr aon run show ?thesis
        by (auto simp: vs_validateSignedBlock_def sbind_def [of "sread _"] sread_def
            all_or_nothing_def)
    qed
  qed
qed

section \<open>Exceptions and the mutex\<close>

text \<open>A block that is not in the chain cannot be confirmed, now or after other handlers ran.\<close>

definition not_in_chain :: "ethers \<Rightarrow> block \<Rightarrow> agreement_manager \<Rightarrow> bool" where
  "not_in_chain E b am \<longleftrightarrow> \<not> bv_isBlockInChain E am b"

lemma not_in_chain_rely:
  assumes "rely n n'" and "not_in_chain E b (n_am n)"
  shows "not_in_chain E b (n_am n')"
proof -
  have sc: "same_chains (n_am n) (n_am n')" using assms(1) by (simp add: rely_def)
  have "bv_isBlockInChain E (n_am n) b" if in_chain: "bv_isBlockInChain E (n_am n') b"
  proof -
    obtain a' where a': "fs_getAgreement (forkService (n_am n')) (getFork b) (getHeight b) = Some a'"
      "areBlocksEqual E (ag_block a') b" using in_chain by (auto simp: bv_isBlockInChain_iff)
    then have "getFork b < length (forkService (n_am n'))"
      "getHeight b < fs_chainLength (forkService (n_am n')) (getFork b)"
      by (auto dest!: fs_getAgreement_SomeD simp: fs_chainLength_def)
    with sc have "getHeight b < fs_chainLength (forkService (n_am n)) (getFork b)"
      by (simp add: same_chains_def)
    then obtain a where a: "fs_getAgreement (forkService (n_am n)) (getFork b) (getHeight b) = Some a"
      by (cases "getFork b < length (forkService (n_am n))")
        (auto simp: fs_defs fs_chainLength_def nth_opt_def)
    with chain_le_agreement [OF same_chains_le [OF sc] a] a' show ?thesis
      by (auto simp: bv_isBlockInChain_iff agreement_le_def)
  qed
  with assms(2) show ?thesis by (auto simp: not_in_chain_def)
qed

lemma am_confirmBlock_absent:
  assumes "not_in_chain E b am"
  shows "\<exists>e. am_confirmBlock E b sig am = Inl e"
proof (cases "am_confirmBlock E b sig am")
  case (Inr am')
  then show ?thesis using assms
    by (auto simp: am_confirmBlock_Inr not_in_chain_def bv_isBlockInChain_iff)
qed auto

lemma sm_confirmBlock_absent:
  assumes env: "env_ok P" and dec: "decodeBlock (p_ethers P) (sb_encodedBlock sb) = Inr b"
    and "not_in_chain (p_ethers P) b (n_am n)"
  shows "\<exists>e n'. sm_confirmBlock P sb n = (Inl e, n') \<and> rely n n'"
proof -
  obtain r n' where run: "sm_confirmBlock P sb n = (r, n')" by (cases "sm_confirmBlock P sb n")
  have n': "rely n n'" using keepsD [OF keeps_confirmBlock [OF env] run] .
  have nic: "not_in_chain (p_ethers P) b (n_am (p_env P site n))" for site
    using not_in_chain_rely [OF _ assms(3)] env by (auto simp: env_ok_def)
  have "\<exists>e. r = Inl e"
    using run dec am_confirmBlock_absent [OF nic]
    by (auto simp: sm_confirmBlock_def sbind_def sread_def call_await_def on_am_def
        split: prod.splits sum.splits) (metis sum.distinct(1))+
  with run n' show ?thesis by auto
qed

lemma call_await_run:
  "m n = (r, n1) \<Longrightarrow> call_await P site m n = (r, p_env P site n1)"
  by (simp add: call_await_def)

text \<open>
  Whatever makes validation throw on a block that is not in the chain: the \<open>finally\<close> block
  takes the default flag SUCCESS, tries to confirm the block and throws again, before \<open>unlock\<close>.
\<close>

lemma locked_throw:
  assumes env: "env_ok P" and dec: "decodeBlock (p_ethers P) (sb_encodedBlock sb) = Inr b"
    and thr: "vs_validateSignedBlock P sb b n = (Inl e, n1)"
    and absent: "not_in_chain (p_ethers P) b (n_am n)"
  shows "\<exists>e' n'. sm_onSignedBlock_locked P sb b n = (Inl e', n') \<and> rely n n'"
proof -
  have 1: "rely n n1" using vs_validateSignedBlock_outcome [OF env thr] by auto
  let ?n2 = "p_env P ''validateSignedBlock'' n1"
  have 2: "rely n ?n2" using env rlp.R_trans [OF 1] by (auto simp: env_ok_def)
  obtain e' n3 where c: "sm_confirmBlock P sb ?n2 = (Inl e', n3)" and 3: "rely ?n2 n3"
    using sm_confirmBlock_absent [OF env dec not_in_chain_rely [OF 2 absent]] by auto
  have "rely n (p_env P ''processExecutionDecision'' n3)"
    using env rlp.R_trans [OF rlp.R_trans [OF 2 3]] by (auto simp: env_ok_def)
  moreover have "sm_onSignedBlock_locked P sb b n = (Inl e', p_env P ''processExecutionDecision'' n3)"
    using thr c
    by (simp add: sm_onSignedBlock_locked_def settle_def sbind_def call_await_def
        sm_processExecutionDecision_def)
  ultimately show ?thesis by blast
qed

lemma throw_wedges:
  assumes inv: "node_inv n" and j: "n_jobs n = J_signed_locked sb b k # js" and env: "env_ok P"
    and dec: "decodeBlock (p_ethers P) (sb_encodedBlock sb) = Inr b"
    and thr: "\<exists>e. fst (vs_validateSignedBlock P sb b (n\<lparr>n_jobs := js\<rparr>)) = Inl e"
    and absent: "not_in_chain (p_ethers P) b (n_am n)"
  shows "wedged (snd (run_job P (J_signed_locked sb b k) (n\<lparr>n_jobs := js\<rparr>)))"
proof -
  let ?n = "n\<lparr>n_jobs := js\<rparr>"
  obtain e n1 where "vs_validateSignedBlock P sb b ?n = (Inl e, n1)"
    using thr by (cases "vs_validateSignedBlock P sb b ?n") auto
  from locked_throw [OF env dec this] absent obtain e' n'
    where "sm_onSignedBlock_locked P sb b ?n = (Inl e', n')" and "rely ?n n'" by auto
  from locked_job_wedges [OF inv j env this(1) rely_hold [OF this(2)]] show ?thesis .
qed

text \<open>Two ways for a peer to make validation throw.\<close>

lemma unrecoverable_throws:
  assumes "getBlockChannelId b = n_channelId n"
    and "verifyMessage (p_ethers P) (getBytes (p_ethers P) (keccak256 (p_ethers P)
           (sb_encodedBlock sb))) (sb_signature sb) = Inl e"
  shows "vs_validateSignedBlock P sb b n = (Inl e, n)"
  using assms
  by (simp add: vs_validateSignedBlock_def vs_checkStatic_def vs_isChannelOpen_def
      vs_isSignedBlockAuthentic_def sbind_def sread_def Let_def)

lemma past_timestamp_throws:
  assumes "vs_checkStatic P sb b n = Inr None"
    and "am_getLatestBlockTimestamp (n_am n) (getFork b) = Inr t" and "getTimestamp b < t"
  shows "\<exists>e. fst (vs_validateSignedBlock P sb b n) = Inl e"
  using assms
  by (auto simp: vs_validateSignedBlock_def sbind_def sread_def Let_def call_await_def
      vs_isGoodTimestamp_def sthrow_def split: prod.splits sum.splits)

text \<open>What success says of the block, before and after.\<close>

lemma success_stored:
  assumes "env_ok P" and "vs_validateSignedBlock P sb b n = (Inr r, n')" and "vr_success r"
  shows "vs_isSignedBlockAuthentic P sb b (n_channelId n) = Inr True \<and>
    getFork b = getForkCnt n \<and> getHeight b = getNextBlockHeight n \<and>
    \<not> dh_isForkDisputed (n_dh n) (getFork b) \<and>
    am_isParticipantInLatestFork (n_am n) (getBlockAuthor b) \<and>
    (\<exists>st. keccak256 (p_ethers P) st = blk_stateHash b \<and>
       fs_getAgreement (forkService (n_am n')) (getFork b) (getHeight b) =
         Some \<lparr>ag_block = b, ag_blockSignatures = [sb_signature sb], ag_encodedState = st\<rparr>)"
proof -
  have "vs_checkStatic P sb b n = Inr None \<and> added P sb b n n'"
    using vs_validateSignedBlock_outcome [OF assms(1,2)] assms(3) by (auto simp: not_success_def)
  then have static: "vs_checkStatic P sb b n = Inr None" and "added P sb b n n'" by auto
  then obtain m am st where m: "rely n m" and add: "am_addBlock b (sb_signature sb) st (n_am m) = Inr am"
    and hash: "keccak256 (p_ethers P) st = blk_stateHash b" and n': "n_am n' = am"
    by (auto simp: added_def)
  note s = vs_checkStatic_None [OF static]
  have f: "getFork b < length (forkService (n_am m))"
    and le: "fs_chainLength (forkService (n_am m)) (getFork b) \<le> getHeight b"
    using add by (auto simp: am_addBlock_Inr)
  have "getHeight b = fs_chainLength (forkService (n_am n)) (getFork b)"
    using s(1,2) next_height_chain by metis
  also have "\<dots> \<le> fs_chainLength (forkService (n_am m)) (getFork b)"
    using m by (auto simp: rely_def intro: chain_le_length same_chains_le)
  finally have h: "getHeight b = fs_chainLength (forkService (n_am m)) (getFork b)" using le by simp
  have "fs_getAgreement (forkService am) (getFork b) (getHeight b) =
      Some \<lparr>ag_block = b, ag_blockSignatures = [sb_signature sb], ag_encodedState = st\<rparr>"
    using add f h by (simp add: am_addBlock_Inr fs_addAgreement_def fs_getAgreement_def fs_isValidForkCnt_def
        fs_chainLength_def)
  with s hash n' show ?thesis by blast
qed

section \<open>From a message to the wedge\<close>

definition idle :: "'sm node \<Rightarrow> bool" where
  "idle n \<longleftrightarrow> node_inv n \<and> n_jobs n = [] \<and> \<not> isLocked (n_mutex n)"

lemma env_ok_id: "env_ok (remote P c (\<lambda>_ n. n) w)"
  by (simp add: env_ok_def remote_def rlp.R_refl)

lemma remote_ethers [simp]: "p_ethers (remote P c e w) = p_ethers P"
  by (simp add: remote_def)

lemma idle_rpc:
  assumes "idle n" and "decodeBlock (p_ethers P) (sb_encodedBlock sb) = Inr b"
  defines "n1 \<equiv> n\<lparr>n_mutex := snd (mutex_lock (J_signed_locked sb b (RK_rpc sb)) (n_mutex n)),
                   n_jobs := [J_signed_locked sb b (RK_rpc sb)]\<rparr>"
  shows "node_step P n n1" and "node_inv n1"
proof -
  have "snd (sm_onSignedBlock (remote P c (\<lambda>_ n. n) w) sb None (RK_rpc sb) n) = n1" for c
    using assms(1,2)
    by (simp add: sm_onSignedBlock_def decoded_def acquire_def smodify_def mutex_lock_def idle_def
        n1_def)
  with step_rpc_block [OF env_ok_id, where P = P and n = n and sb = sb] show st: "node_step P n n1" by metis
  show "node_inv n1" using node_step_inv [OF _ st] assms(1) by (simp add: idle_def)
qed

text \<open>
  \<open>message_wedges P sb b n\<close>: node \<open>n\<close> receives the signed block \<open>sb\<close>, the handler takes the
  mutex and goes on in the next step; after that the mutex is held for good, whatever happens
  next, and no block is ever added again.
\<close>

definition message_wedges :: "'sm params \<Rightarrow> signed_block \<Rightarrow> block \<Rightarrow> 'sm node \<Rightarrow> bool" where
  "message_wedges P sb b n \<longleftrightarrow>
     (let n1 = snd (sm_onSignedBlock P sb None (RK_rpc sb) n);
          n2 = snd (run_job P (J_signed_locked sb b (RK_rpc sb)) (n1\<lparr>n_jobs := []\<rparr>))
      in node_step P n n1 \<and> n_jobs n1 = [J_signed_locked sb b (RK_rpc sb)] \<and> node_step P n1 n2 \<and>
         (\<forall>n3. (node_step P)\<^sup>*\<^sup>* n2 n3 \<longrightarrow> wedged n3 \<and> same_chains (n_am n) (n_am n3)))"

text \<open>The idle node once the handler has taken the mutex and runs.\<close>

definition holding :: "'sm node \<Rightarrow> 'sm node" where
  "holding n = n\<lparr>n_mutex := (n_mutex n)\<lparr>isLocked := True\<rparr>, n_jobs := []\<rparr>"

lemma holding_fields [simp]:
  "n_am (holding n) = n_am n" "n_dh (holding n) = n_dh n" "n_channelId (holding n) = n_channelId n"
  "n_sm (holding n) = n_sm n" "n_now (holding n) = n_now n"
  by (simp_all add: holding_def)

lemma remote_self: "remote P (p_chainTimestamp P) (p_env P) (p_send P) = P"
  by (simp add: remote_def)

lemma idle_receives:
  assumes "idle n" and "decodeBlock (p_ethers P) (sb_encodedBlock sb) = Inr b"
  shows "snd (sm_onSignedBlock P sb None (RK_rpc sb) n) =
    (holding n)\<lparr>n_jobs := [J_signed_locked sb b (RK_rpc sb)]\<rparr>"
  using assms
  by (simp add: sm_onSignedBlock_def decoded_def acquire_def smodify_def mutex_lock_def idle_def
      holding_def)

text \<open>
  When the holder throws, the message takes the node to a wedged state, and nothing changes after
  the exception.
\<close>

lemma throw_steps:
  assumes idle: "idle n" and env: "env_ok P" and dec: "decodeBlock (p_ethers P) (sb_encodedBlock sb) = Inr b"
    and thr: "sm_onSignedBlock_locked P sb b (holding n) = (Inl e, n')" and hd: "hold (holding n) n'"
  defines "n1 \<equiv> snd (sm_onSignedBlock P sb None (RK_rpc sb) n)"
    and "n2 \<equiv> snd (run_job P (J_signed_locked sb b (RK_rpc sb)) (holding n))"
  shows "n1\<lparr>n_jobs := []\<rparr> = holding n" and "n_jobs n1 = [J_signed_locked sb b (RK_rpc sb)]"
    and "node_step P n n1" and "node_step P n1 n2" and "wedged n2" and "rely n' n2"
proof -
  let ?j = "J_signed_locked sb b (RK_rpc sb)"
  have n1: "n1 = (holding n)\<lparr>n_jobs := [?j]\<rparr>" unfolding n1_def by (rule idle_receives [OF idle dec])
  show h: "n1\<lparr>n_jobs := []\<rparr> = holding n" and "n_jobs n1 = [?j]" unfolding n1 by (simp_all add: holding_def)
  show 1: "node_step P n n1" unfolding n1_def
    using step_rpc_block [of P "p_chainTimestamp P" "p_env P" "p_send P" n sb] env by (simp add: remote_self)
  show "node_step P n1 n2" unfolding n2_def
    using step_job [of n1 ?j "[]" P "p_chainTimestamp P" "p_env P" "p_send P"] env h \<open>n_jobs n1 = [?j]\<close>
    by (simp add: remote_self)
  have "node_inv n1" using node_step_inv [OF _ 1] idle by (simp add: idle_def)
  then show "wedged n2"
    using locked_job_wedges [of n1 sb b "RK_rpc sb" "[]" P e n'] env thr hd h \<open>n_jobs n1 = [?j]\<close>
    by (simp add: n2_def)
  have "rely n' (snd (unhandled e n'))" by (rule keeps_snd [OF keeps_logs(4)])
  with thr show "rely n' n2" by (simp add: n2_def settle_def sbind_def)
qed

lemma message_wedgesI:
  assumes idle: "idle n" and env: "env_ok P" and dec: "decodeBlock (p_ethers P) (sb_encodedBlock sb) = Inr b"
    and thr: "sm_onSignedBlock_locked P sb b (holding n) = (Inl e, n')" and rl: "rely (holding n) n'"
  shows "message_wedges P sb b n"
proof -
  note st = throw_steps [OF idle env dec thr rely_hold [OF rl]]
  have "same_chains (n_am (holding n)) (n_am (snd (run_job P (J_signed_locked sb b (RK_rpc sb)) (holding n))))"
    using rlp.R_trans [OF rl st(6)] by (auto simp: rely_def)
  then have "wedged n3 \<and> same_chains (n_am n) (n_am n3)"
    if "(node_step P)\<^sup>*\<^sup>* (snd (run_job P (J_signed_locked sb b (RK_rpc sb)) (holding n))) n3" for n3
    using wedged_forever [OF that st(5)] same_chains_trans by auto
  with st show ?thesis unfolding message_wedges_def Let_def by (simp del: run_job.simps)
qed

lemma vs_checkStatic_holding [simp]:
  "vs_checkStatic P sb b (holding n) = vs_checkStatic P sb b n"
  by (simp add: vs_checkStatic_def vs_isChannelOpen_def vs_isPastFork_def getForkCnt_def
      getNextBlockHeight_def Let_def)

lemma throw_message_wedges:
  assumes "idle n" and "env_ok P" and "decodeBlock (p_ethers P) (sb_encodedBlock sb) = Inr b"
    and "fst (vs_validateSignedBlock P sb b (holding n)) = Inl e"
    and "not_in_chain (p_ethers P) b (n_am n)"
  shows "message_wedges P sb b n"
proof -
  obtain n1 where "vs_validateSignedBlock P sb b (holding n) = (Inl e, n1)"
    using assms(4) by (cases "vs_validateSignedBlock P sb b (holding n)") auto
  from locked_throw [OF assms(2,3) this] assms(5) obtain e' n'
    where "sm_onSignedBlock_locked P sb b (holding n) = (Inl e', n')" and "rely (holding n) n'" by auto
  from message_wedgesI [OF assms(1-3) this] show ?thesis .
qed

text \<open>A decision that throws because the dispute flag came without an agreement flag.\<close>

lemma dispute_message_wedges:
  assumes "idle n" and env: "env_ok P" and "decodeBlock (p_ethers P) (sb_encodedBlock sb) = Inr b"
    and v: "vs_validateSignedBlock P sb b (holding n) = (Inr (vr_fail EF_DISPUTE), n1)"
  shows "message_wedges P sb b n"
proof -
  have 1: "rely (holding n) n1"
    using vs_validateSignedBlock_outcome [OF env v] by (auto simp: vr_fail_def vr_ok_def)
  let ?n2 = "p_env P ''validateSignedBlock'' n1"
  have "rely n1 ?n2" and "rely ?n2 (p_env P ''processExecutionDecision'' ?n2)"
    using env by (auto simp: env_ok_def)
  then have "rely (holding n) (p_env P ''processExecutionDecision'' ?n2)"
    using rlp.R_trans 1 by blast
  moreover have "\<exists>e. sm_onSignedBlock_locked P sb b (holding n) =
      (Inl e, p_env P ''processExecutionDecision'' ?n2)"
    using v by (simp add: sm_onSignedBlock_locked_def settle_def sbind_def call_await_def
        sm_processExecutionDecision_def vr_fail_def sthrow_def)
  ultimately show ?thesis using message_wedgesI [OF assms(1,2,3)] by blast
qed

end
