(* ===== verification/SampleNode.thy ===== *)
theory SampleNode
  imports Sample NodeTheorems
begin

text \<open>
  A node for participant \<open>A\<close> of the sample channel. Its state machine counts the transactions
  it executed, \<open>B\<close> and \<open>A\<close> take turns, and the encoded state is \<open>s\<close> with one mark per
  transaction. \<open>run1\<close> to \<open>run4\<close> are its first steps: the channel is named, its genesis state
  arrives from the chain, \<open>B\<close>'s first block arrives, and the handler behind the mutex runs.
\<close>

definition sampleP :: "nat params" where
  "sampleP =
     \<lparr>p_ethers = sampleE, p_signer = (\<lambda>m. Inr (CHR ''A'' # m)), p_signerAddress = ''A'',
      p_timeConfig = \<lparr>p2pTime = 15, agreementTime = 5, chainFallbackTime = 30, challengeTime = 60\<rparr>,
      p_stateTransition = (\<lambda>tx n. (Inr (True, []), Suc n)),
      p_getParticipants = (\<lambda>n. Inr [''A'', ''B'']),
      p_getNextToWrite = (\<lambda>n. Inr (if even n then ''B'' else ''A'')),
      p_setState = (\<lambda>s n. (Inr (), 0)),
      p_getState = (\<lambda>n. Inr (CHR ''s'' # replicate n (CHR ''1''))),
      p_chainTimestamp = (\<lambda>c f h. Inr (BigInt 0)), p_send = (\<lambda>r. Inr ()),
      p_env = (\<lambda>site n. n)\<rparr>"

lemma sampleP_fields [simp]:
  "p_ethers sampleP = sampleE" "p_signer sampleP m = Inr (CHR ''A'' # m)"
  "p_signerAddress sampleP = ''A''" "p2pTime (p_timeConfig sampleP) = 15"
  "agreementTime (p_timeConfig sampleP) = 5" "chainFallbackTime (p_timeConfig sampleP) = 30"
  "p_stateTransition sampleP tx n = (Inr (True, []), Suc n)"
  "p_getParticipants sampleP n = Inr [''A'', ''B'']"
  "p_getNextToWrite sampleP n = Inr (if even n then ''B'' else ''A'')"
  "p_setState sampleP s n = (Inr (), 0)"
  "p_getState sampleP n = Inr (CHR ''s'' # replicate n (CHR ''1''))"
  "p_chainTimestamp sampleP c f h = Inr (BigInt 0)" "p_send sampleP r = Inr ()" "p_env sampleP site nd = nd"
  by (simp_all add: sampleP_def)

lemma sampleP_remote: "remote sampleP (p_chainTimestamp sampleP) (p_env sampleP) (p_send sampleP) = sampleP"
  by (simp add: remote_def)

lemma sampleP_env [simp]: "env_ok sampleP"
  by (simp add: env_ok_def rlp.R_refl)

text \<open>The node with given chain, executed transactions and clock.\<close>

definition sample_node :: "agreement list \<Rightarrow> nat \<Rightarrow> nat \<Rightarrow> nat node" where
  "sample_node ags sm now = (node_init sm now)\<lparr>n_am := sample_am ags, n_channelId := ''ch''\<rparr>"

definition blockB :: signed_block where
  "blockB = signed ''b0'' CHR ''B''"

lemma blockB_fields [simp]:
  "sb_encodedBlock blockB = ''b0''" "sb_signature blockB = sig_of CHR ''B'' ''b0''"
  by (simp_all add: blockB_def signed_def)

definition run1 :: "nat node" where
  "run1 = snd (sm_setChannelId ''ch'' (node_init 7 100))"

definition run2 :: "nat node" where
  "run2 = snd (sm_setState sampleP ''s'' (BigInt 0) (BigInt 90) run1)"

definition run3 :: "nat node" where
  "run3 = snd (sm_onSignedBlock sampleP blockB None (RK_rpc blockB) run2)"

definition run4 :: "nat node" where
  "run4 = snd (run_job sampleP (J_signed_locked blockB block0 (RK_rpc blockB)) (run3\<lparr>n_jobs := []\<rparr>))"

named_theorems node_eval \<open>unfolding the handlers of a node\<close>

lemmas node_eval_defs [node_eval] =
  act_defs call_await_def nawait_def nget_def on_am_def on_am_act_def on_sm_def scheduleTask_def
  push_job_def broadcast_def fire_hook_def unhandled_def detached_def acquire_def unlock_def settle_def
  mutex_lock_def mutex_unlock_def mutex_new_def getForkCnt_def getNextBlockHeight_def
  getEncodedStateKecak256_def getNextToWrite_def isMyTurn_def Let_def

lemma sample_newFork: "am_newFork ''s'' [''A'', ''B''] 0 90 am_init = sample_am []"
  by (simp add: am_newFork_def am_init_def fs_newFork_def sample_am_def sample_fork_def)

lemma sample_am_queries [simp]:
  "am_getLatestForkCnt (sample_am ags) = 0" "am_getNextBlockHeight (sample_am ags) = length ags"
  "fs_getAgreement (forkService (sample_am ags)) 0 i = nth_opt ags i"
  "fs_getFork (forkService (sample_am ags)) 0 = Some (sample_fork ags)"
  "queueService (sample_am ags) = qs_init"
  "am_isParticipantInLatestFork (sample_am ags) a \<longleftrightarrow> a = ''A'' \<or> a = ''B''"
  by (auto simp: sample_am_def am_getLatestForkCnt_def am_getNextBlockHeight_def fs_defs
      sample_fork_def fs_getNextBlockHeight_eq fs_chainLength_def nth_opt_def at_last_def
      am_isParticipantInLatestFork_def set_has_def fromArray_def set_add_def)

lemma sample_addBlock [simp]:
  "getFork b = 0 \<Longrightarrow> getHeight b = length ags \<Longrightarrow> am_addBlock b sig st (sample_am ags) =
     Inr (sample_am (ags @ [\<lparr>ag_block = b, ag_blockSignatures = [sig], ag_encodedState = st\<rparr>]))"
  by (simp add: am_addBlock_Inr fs_addAgreement_def sample_am_def sample_fork_def fs_chainLength_def)

lemma sample_not_stored:
  assumes "getFork b = 0" and "getHeight b = length ags"
  shows "\<not> bv_isBlockDuplicate sampleE (sample_am ags) b"
  using assms
  by (simp add: bv_isBlockDuplicate_def bv_isBlockInChain_iff qs_isBlockQueued_def getCoordinates_eq
      qs_init_def nth_opt_def)

text \<open>The static checks on a block of the sample node.\<close>

lemma sample_static:
  assumes "n_am n = sample_am ags" and "n_channelId n = ''ch''" and "getBlockChannelId b = ''ch''"
    and "\<not> dh_isForkDisputed (n_dh n) 0" and "getFork b = 0" and "getHeight b = length ags"
    and "getBlockAuthor b = [c]" and "c = CHR ''A'' \<or> c = CHR ''B''"
  shows "vs_checkStatic sampleP (signed e c) b n = Inr None"
  using assms
  by (auto simp: vs_checkStatic_def vs_isChannelOpen_def vs_isSignedBlockAuthentic_def
      vs_isPastFork_def getForkCnt_def getNextBlockHeight_def signed_def sample_not_stored Let_def)

lemma sample_latest: "fs_getLatestAgreement (forkService (sample_am ags)) 0 = at_last ags"
  by (simp add: fs_getLatestAgreement_def nth_opt_def sample_am_def sample_fork_def)

lemma sample_timestamps [simp]:
  "bv_latestBlockTimestamp (sample_am []) 0 = Inr 90"
  "bv_latestRelevantTimestamp (sample_am []) 0 h = Inr 90"
  "bv_latestBlockTimestamp (sample_am [sample_chain0]) 0 = Inr 100"
  "bv_latestRelevantTimestamp (sample_am [sample_chain0]) 0 h = Inr 100"
  by (simp_all add: bv_latestBlockTimestamp_def bv_latestRelevantTimestamp_def ct_latestTimestamp_def
      sample_latest at_last_def) (simp_all add: sample_fork_def)

text \<open>\<open>B\<close>'s first block passes.\<close>

definition stored0 :: agreement where
  "stored0 = \<lparr>ag_block = block0, ag_blockSignatures = [sig_of CHR ''B'' ''b0''], ag_encodedState = ''s1''\<rparr>"

lemma sample_validates:
  assumes "n_am n = sample_am []" and "n_sm n = 0" and "n_channelId n = ''ch''"
    and "\<not> dh_isForkDisputed (n_dh n) 0"
  shows "vs_validateSignedBlock sampleP blockB block0 n =
    (Inr vr_ok, n\<lparr>n_sm := 1, n_am := sample_am [stored0],
       n_timers := n_timers n @ [(0, T_stateTransitionSuccessCallback [])]\<rparr>)"
proof -
  have "vs_checkStatic sampleP blockB block0 n = Inr None"
    unfolding blockB_def using assms by (intro sample_static [where ags = "[]"]) auto
  with assms show ?thesis
    by (simp add: vs_validateSignedBlock_def node_eval vs_isGoodTimestamp_def
        vs_isEnoughTimeSubjective_def vs_processStateTransition_def stored0_def)
qed

section \<open>The first steps\<close>

lemma run2_eq:
  "run2 = (sample_node [] 0 100)\<lparr>n_dh := dh_init ''ch'',
     n_timers := [(0, T_queueProcessing), (50000, T_participantTimeout 0 0 ''B'')],
     n_hooks := [OnSetState, OnTurn ''B'']\<rparr>"
  by (simp add: run2_def run1_def sm_setState_def sm_setChannelId_def node_eval sm_onSuccessCommon_def
      node_init_def sm_getTimeoutWaitTimeSeconds_def sample_newFork sample_node_def dh_init_def
      dh_setChannelId_def)

lemma run3_eq:
  "run3 = run2\<lparr>n_mutex := \<lparr>isLocked = True, mutexQueue = []\<rparr>,
     n_jobs := [J_signed_locked blockB block0 (RK_rpc blockB)]\<rparr>"
  by (simp add: run3_def run2_eq sm_onSignedBlock_def decoded_def node_eval sample_node_def node_init_def)

lemma sample_confirm [simp]:
  "am_confirmBlock sampleE block0 (sig_of CHR ''A'' ''b0'') (sample_am [stored0]) = Inr (sample_am [sample_chain0])"
  by (simp add: am_confirmBlock_Inr fs_pushSignature_def nth_opt_def stored0_def sig_of_def)
    (simp add: sample_am_def sample_fork_def sample_chain0_def sig_of_def)

lemma run4_am: "n_am run4 = sample_am [sample_chain0]"
proof -
  have fresh: "\<not> dh_isForkDisputed (n_dh (run3\<lparr>n_jobs := []\<rparr>)) 0"
    by (simp add: run3_eq run2_eq dh_isForkDisputed_def dh_init_def)
  have v: "vs_validateSignedBlock sampleP blockB block0 (run3\<lparr>n_jobs := []\<rparr>) =
    (Inr vr_ok, (run3\<lparr>n_jobs := []\<rparr>)\<lparr>n_sm := 1, n_am := sample_am [stored0],
       n_timers := n_timers (run3\<lparr>n_jobs := []\<rparr>) @ [(0, T_stateTransitionSuccessCallback [])]\<rparr>)"
    by (rule sample_validates) (use fresh in \<open>simp_all add: run3_eq run2_eq sample_node_def node_init_def\<close>)
  have sign: "signBlock sampleE (p_signer sampleP) block0 =
      Inr \<lparr>sb_encodedBlock = ''b0'', sb_signature = sig_of CHR ''A'' ''b0''\<rparr>"
    by (simp add: signBlock_def sig_of_def Let_def)
  show ?thesis
    by (simp add: run4_def sm_onSignedBlock_locked_def settle_def sbind_def call_await_def v vr_ok_def
        sm_processExecutionDecision_def sm_confirmBlock_def sread_def sign node_eval
        sm_onSuccessCommon_def sts_afterFlag_def)
qed

lemma run_steps: "(node_step sampleP)\<^sup>*\<^sup>* (node_init 7 100) run4" and "node_step sampleP run2 run3"
  and run_steps_from2: "(node_step sampleP)\<^sup>*\<^sup>* run2 run4"
proof -
  have 1: "node_step sampleP (node_init 7 100) run1" unfolding run1_def by (rule step_channel)
  have 2: "node_step sampleP run1 run2" unfolding run2_def
    using step_setState [of sampleP "p_chainTimestamp sampleP" "p_env sampleP" "p_send sampleP"] by (simp add: sampleP_remote)
  show 3: "node_step sampleP run2 run3" unfolding run3_def
    using step_rpc_block [of sampleP "p_chainTimestamp sampleP" "p_env sampleP" "p_send sampleP"] by (simp add: sampleP_remote)
  have "n_jobs run3 = [J_signed_locked blockB block0 (RK_rpc blockB)]" by (simp add: run3_eq)
  from step_job [OF this, of sampleP "p_chainTimestamp sampleP" "p_env sampleP" "p_send sampleP"]
  have 4: "node_step sampleP run3 run4" by (simp add: sampleP_remote run4_def del: run_job.simps)
  from 3 4 show 34: "(node_step sampleP)\<^sup>*\<^sup>* run2 run4" by (meson rtranclp.simps)
  with 1 2 show "(node_step sampleP)\<^sup>*\<^sup>* (node_init 7 100) run4"
    by (meson converse_rtranclp_into_rtranclp)
qed

end
