(* ===== verification/NodeProperties.thy ===== *)
theory NodeProperties
  imports SampleNode
begin

text \<open>
  The properties of a whole node: what holds in every reachable state of \<open>node_step\<close>, what the
  validation pipeline guarantees, and what its error paths do. Witnesses are steps of the
  sample node.
\<close>

section \<open>Every reachable state\<close>

text \<open>
  C1. A node only learns: whatever handlers run, in whatever order and with whatever contract
  replies, an agreement it stored stays at its fork and place, with the same block and encoded
  state, and with at least its signatures.
\<close>

theorem agreements_are_kept:
  assumes "(node_step P)\<^sup>*\<^sup>* n n'" and "fs_getAgreement (forkService (n_am n)) f i = Some a"
  shows "\<exists>sigs. fs_getAgreement (forkService (n_am n')) f i =
    Some (a\<lparr>ag_blockSignatures := ag_blockSignatures a @ sigs\<rparr>)"
proof -
  have "core_le n n'" using assms(1)
    by (induction rule: rtranclp_induct) (auto intro: core_le_trans node_step_core)
  then have "chain_le (n_am n) (n_am n')" by (simp add: core_le_def)
  from chain_le_agreement [OF this assms(2)] obtain a' sigs
    where "fs_getAgreement (forkService (n_am n')) f i = Some a'" and "ag_block a' = ag_block a"
      and "ag_encodedState a' = ag_encodedState a" and "ag_blockSignatures a' = ag_blockSignatures a @ sigs"
    by (auto simp: agreement_le_def)
  then show ?thesis by (cases a; cases a') auto
qed

theorem agreements_are_kept_witness:
  "\<exists>sigs. fs_getAgreement (forkService (n_am run4)) 0 0 =
     Some (sample_chain0\<lparr>ag_blockSignatures := ag_blockSignatures sample_chain0 @ sigs\<rparr>)"
  by (rule agreements_are_kept [of sampleP run4]) (simp_all add: run4_am nth_opt_def)

text \<open>
  C2. In every state a node reaches from its construction, the agreement at place \<open>i\<close> of fork
  \<open>f\<close> is about a block of fork \<open>f\<close> and height \<open>i\<close> and carries a signature, although
  \<open>AgreementManager.addBlock\<close> itself pushes a block of any height at or past the end.
\<close>

theorem blocks_in_place:
  assumes "reach (\<lambda>n. \<exists>sm now. n = node_init sm now) (node_step P) n"
    and "fs_getAgreement (forkService (n_am n)) f i = Some a"
  shows "getFork (ag_block a) = f \<and> getHeight (ag_block a) = i \<and> ag_blockSignatures a \<noteq> []"
  using node_sys.inv_reach [OF assms(1)] assms(2) by (auto simp: node_inv_def agreement_at_def dest: chain_okD)

lemma run4_reach: "reach (\<lambda>n. \<exists>sm now. n = node_init sm now) (node_step sampleP) run4"
  using run_steps(1)
  by (induction rule: rtranclp_induct) (auto intro: reach.intros)

theorem blocks_in_place_witness:
  "fs_getAgreement (forkService (n_am run4)) 0 0 = Some sample_chain0 \<and> getHeight (ag_block sample_chain0) = 0"
  using blocks_in_place [OF run4_reach, of 0 0 sample_chain0] by (simp add: run4_am nth_opt_def)

text \<open>
  C3. Mutual exclusion: in every reachable state at most one handler is past the state
  manager's mutex and not finished, none is while the mutex is free, and nobody queues for a
  free mutex.
\<close>

theorem mutual_exclusion:
  assumes "reach (\<lambda>n. \<exists>sm now. n = node_init sm now) (node_step P) n"
  shows "locked_jobs n \<le> 1 \<and> (\<not> isLocked (n_mutex n) \<longrightarrow> locked_jobs n = 0 \<and> mutexQueue (n_mutex n) = [])"
  using node_sys.inv_reach [OF assms]
  by (auto simp: node_inv_def lock_inv_def jobs_ok_def split: if_splits)

theorem mutual_exclusion_witness:
  "locked_jobs run4 \<le> 1"
  using mutual_exclusion [OF run4_reach] by simp

section \<open>Validation of a signed block\<close>

text \<open>
  C13. When \<open>validateSignedBlock\<close> succeeds, the block was for this channel with a signature that
  recovers to its author, was the next block of the latest fork, which was not disputed, and
  its author is a participant; and then the block is stored at its fork and height, with its
  signature and a state that hashes to the state hash it claims.
\<close>

theorem validated_block_joins:
  assumes "env_ok P" and "vs_validateSignedBlock P sb b n = (Inr r, n')" and "vr_success r"
  shows "vs_isSignedBlockAuthentic P sb b (n_channelId n) = Inr True \<and>
    getFork b = getForkCnt n \<and> getHeight b = getNextBlockHeight n \<and>
    \<not> dh_isForkDisputed (n_dh n) (getFork b) \<and>
    am_isParticipantInLatestFork (n_am n) (getBlockAuthor b) \<and>
    (\<exists>st. keccak256 (p_ethers P) st = blk_stateHash b \<and>
       fs_getAgreement (forkService (n_am n')) (getFork b) (getHeight b) =
         Some \<lparr>ag_block = b, ag_blockSignatures = [sb_signature sb], ag_encodedState = st\<rparr>)"
  using success_stored [OF assms] .

theorem validated_block_joins_witness:
  "fst (vs_validateSignedBlock sampleP blockB block0 (sample_node [] 0 100)) = Inr vr_ok \<and>
   vs_isSignedBlockAuthentic sampleP blockB block0 ''ch'' = Inr True"
proof -
  let ?n = "sample_node [] 0 100"
  obtain n' where run: "vs_validateSignedBlock sampleP blockB block0 ?n = (Inr vr_ok, n')"
    using sample_validates [of ?n]
    by (simp add: sample_node_def node_init_def dh_isForkDisputed_def dh_init_def)
  from validated_block_joins [OF sampleP_env this] run show ?thesis
    by (simp add: vr_ok_def sample_node_def)
qed

text \<open>
  C14. When validation fails or throws, no chain of the node changed: no block was added to any
  fork, and everything else was only appended to.
\<close>

theorem failed_validation_adds_nothing:
  assumes "env_ok P" and "vs_validateSignedBlock P sb b n = (r, n')"
    and "\<And>x. r = Inr x \<Longrightarrow> \<not> vr_success x"
  shows "same_chains (n_am n) (n_am n')"
proof -
  have "r \<noteq> Inr vr_ok" using assms(3) by (auto simp: vr_ok_def)
  then have "rely n n'" using vs_validateSignedBlock_outcome [OF assms(1,2)] by auto
  then show ?thesis by (simp add: rely_def)
qed

theorem failed_validation_adds_nothing_witness:
  "\<exists>n'. vs_validateSignedBlock sampleP (signed ''b0'' CHR ''A'') block0 (sample_node [] 0 100) =
      (Inr (vr_fail EF_DISCONNECT), n') \<and> same_chains (sample_am []) (n_am n')"
proof -
  let ?n = "sample_node [] 0 100"
  have run: "vs_validateSignedBlock sampleP (signed ''b0'' CHR ''A'') block0 ?n =
      (Inr (vr_fail EF_DISCONNECT), ?n)"
    by (simp add: vs_validateSignedBlock_def vs_checkStatic_def vs_isChannelOpen_def node_eval
        vs_isSignedBlockAuthentic_def signed_def sample_node_def)
  from failed_validation_adds_nothing [OF sampleP_env this] run show ?thesis
    by (auto simp: vr_fail_def sample_node_def)
qed

section \<open>Errors and the mutex\<close>

lemma sample_idle: "idle (sample_node [] 0 100)" and run2_idle: "idle run2"
proof -
  have ok: "chain_ok (sample_am [])"
    by (simp add: chain_ok_def fs_getAgreement_def fs_isValidForkCnt_def sample_am_def sample_fork_def
        nth_opt_def)
  show "idle (sample_node [] 0 100)"
    using ok by (simp add: idle_def node_inv_def lock_inv_def jobs_ok_def locked_jobs_def sample_node_def
        node_init_def mutex_new_def)
  show "idle run2"
    using ok by (simp add: idle_def node_inv_def lock_inv_def jobs_ok_def locked_jobs_def run2_eq
        sample_node_def node_init_def mutex_new_def)
qed

text \<open>
  C22. One message from any peer stops a node: a block of this channel whose signature cannot be
  recovered makes validation throw; the \<open>finally\<close> block of \<open>onSignedBlock\<close> then processes the
  default flag SUCCESS, throws again confirming a block that is not there, and skips the
  \<open>unlock\<close>. From then on the mutex is held in every reachable state and no chain grows.
\<close>

theorem malformed_signature_wedges:
  assumes "idle n" and "env_ok P" and "decodeBlock (p_ethers P) (sb_encodedBlock sb) = Inr b"
    and "getBlockChannelId b = n_channelId n"
    and "verifyMessage (p_ethers P) (getBytes (p_ethers P) (keccak256 (p_ethers P)
           (sb_encodedBlock sb))) (sb_signature sb) = Inl e"
    and "\<not> am_isBlockInChain (p_ethers P) (n_am n) b"
  shows "message_wedges P sb b n"
  by (rule throw_message_wedges [OF assms(1-3)])
    (use assms in \<open>auto simp: unrecoverable_throws not_in_chain_def\<close>)

theorem malformed_signature_wedges_witness:
  "message_wedges sampleP (signed ''b0'' CHR ''!'') block0 run2"
proof (rule malformed_signature_wedges [OF run2_idle sampleP_env])
  show "getBlockChannelId block0 = n_channelId run2" by (simp add: run2_eq sample_node_def)
  show "\<not> am_isBlockInChain (p_ethers sampleP) (n_am run2) block0"
    by (simp add: run2_eq sample_node_def bv_isBlockInChain_iff nth_opt_def)
qed (simp_all add: signed_def)

text \<open>
  C32. So does a block that passes all checks made before the clock is asked, but is older than
  the latest block of its fork: \<open>isGoodTimestamp\<close> throws \<open>Not implemented\<close>.
\<close>

theorem old_timestamp_wedges:
  assumes "idle n" and "env_ok P" and "decodeBlock (p_ethers P) (sb_encodedBlock sb) = Inr b"
    and "vs_checkStatic P sb b n = Inr None"
    and "am_getLatestBlockTimestamp (n_am n) (getFork b) = Inr t" and "getTimestamp b < t"
  shows "message_wedges P sb b n"
proof -
  obtain e where "fst (vs_validateSignedBlock P sb b (holding n)) = Inl e"
    using past_timestamp_throws [of P sb b "holding n" t] assms(4-6) by auto
  moreover have "not_in_chain (p_ethers P) b (n_am n)"
    using vs_checkStatic_None(6) [OF assms(4)] by (simp add: not_in_chain_def bv_isBlockDuplicate_def)
  ultimately show ?thesis using throw_message_wedges [OF assms(1-3)] by blast
qed

theorem old_timestamp_wedges_witness:
  "message_wedges sampleP (signed ''o0'' CHR ''B'') block_old run2"
proof (rule old_timestamp_wedges [OF run2_idle sampleP_env])
  show "vs_checkStatic sampleP (signed ''o0'' CHR ''B'') block_old run2 = Inr None"
    by (rule sample_static [where ags = "[]"])
      (simp_all add: run2_eq sample_node_def dh_isForkDisputed_def dh_init_def)
  show "am_getLatestBlockTimestamp (n_am run2) (getFork block_old) = Inr 90"
    by (simp add: run2_eq sample_node_def)
qed (simp_all add: signed_def)

lemma call_dispute_returns: "\<exists>n1. call_dispute m n = (Inr (), n1)"
  by (simp add: call_dispute_def split: prod.split)

text \<open>
  C28. A block too far in the future at the node's own turn: \<open>isEnoughTimeSubjective\<close> answers
  DISPUTE, which \<open>validateSignedBlock\<close> passes on without an agreement flag, and the handler of
  that decision throws before the \<open>unlock\<close>. (No other handler interferes here.)
\<close>

theorem future_block_wedges:
  assumes "idle n" and env: "p_env P = (\<lambda>_ m. m)"
    and "decodeBlock (p_ethers P) (sb_encodedBlock sb) = Inr b"
    and static: "vs_checkStatic P sb b n = Inr None"
    and latest: "am_getLatestBlockTimestamp (n_am n) (getFork b) = Inr t" "t \<le> getTimestamp b"
    and relevant: "am_getLatestTimestamp (n_am n) (getFork b) (getHeight b) = Inr t'"
      "getTimestamp b \<le> t' + p2pTime (p_timeConfig P)"
    and turn: "p_getNextToWrite P (n_sm n) = Inr (p_signerAddress P)"
    and future: "n_now n + 10 < getTimestamp b"
  shows "message_wedges P sb b n"
proof -
  have ok: "env_ok P" using env by (simp add: env_ok_def rlp.R_refl)
  have flag: "subjectiveTimingFlag (getTimestamp b) (n_now n) = EF_DISPUTE"
    using future by (simp add: subjectiveTimingFlag_cases)
  have good: "vs_isGoodTimestamp P b (holding n) = (Inr True, holding n)"
    using latest relevant by (simp add: vs_isGoodTimestamp_def node_eval)
  show ?thesis
  proof (cases "pm_createBlockTooFarInFutureProof (p_ethers P) sb")
    case (Inl e)
    have "fst (vs_validateSignedBlock P sb b (holding n)) = Inl e"
      using static good turn flag env Inl
      by (simp add: vs_validateSignedBlock_def node_eval vs_isEnoughTimeSubjective_def)
    moreover have "not_in_chain (p_ethers P) b (n_am n)"
      using vs_checkStatic_None(6) [OF static] by (simp add: not_in_chain_def bv_isBlockDuplicate_def)
    ultimately show ?thesis using throw_message_wedges [OF assms(1) ok assms(3)] by blast
  next
    case (Inr pf)
    obtain n1 where "call_dispute (\<lambda>am. dh_createDispute (p_ethers P) am (p_signerAddress P)
        (Num (getForkCnt (holding n))) NO_PARTICIPANT_TO_FOLD (Num 0) [pf]) (holding n) = (Inr (), n1)"
      using call_dispute_returns by blast
    then have "vs_validateSignedBlock P sb b (holding n) = (Inr (vr_fail EF_DISPUTE), n1)"
      using static good turn flag env Inr
      by (simp add: vs_validateSignedBlock_def act_defs call_await_def nget_def Let_def
          vs_isEnoughTimeSubjective_def isMyTurn_def getNextToWrite_def)
    then show ?thesis by (rule dispute_message_wedges [OF assms(1) ok assms(3)])
  qed
qed

theorem future_block_wedges_witness:
  "message_wedges sampleP (signed ''f1'' CHR ''A'') block_future (sample_node [sample_chain0] 1 100)"
proof (rule future_block_wedges [where t = 100 and t' = 100])
  have "agreement_at 0 0 sample_chain0" by (simp add: agreement_at_def)
  then have "chain_ok (sample_am [sample_chain0])"
    by (auto simp: chain_ok_def fs_getAgreement_def fs_isValidForkCnt_def sample_am_def sample_fork_def
        nth_opt_def less_Suc_eq split: if_splits)
  then show "idle (sample_node [sample_chain0] 1 100)"
    by (simp add: idle_def node_inv_def lock_inv_def jobs_ok_def locked_jobs_def sample_node_def
        node_init_def mutex_new_def)
  show "p_env sampleP = (\<lambda>_ m. m)" by (simp add: sampleP_def)
  show "vs_checkStatic sampleP (signed ''f1'' CHR ''A'') block_future (sample_node [sample_chain0] 1 100) =
      Inr None"
    by (rule sample_static [where ags = "[sample_chain0]"])
      (simp_all add: sample_node_def node_init_def dh_isForkDisputed_def dh_init_def)
qed (simp_all add: signed_def sample_node_def node_init_def)

text \<open>
  A confirmation whose block is not ready yet is lost: the decision table calls
  \<open>queueConfirmation\<close> bound to the wrong object, which throws a TypeError, and all that the
  message leaves behind is that unhandled rejection. (No other handler interferes here.)
\<close>

theorem early_confirmation_lost:
  assumes "p_env P = (\<lambda>_ m. m)"
  shows "sm_resumeConfirm P sb sig b (CK_rpc sb' sig') (Inr EF_NOT_READY) n =
    (Inr (), n\<lparr>n_rejections := n_rejections n @ [TypeError ''queueConfirmation'']\<rparr>)"
  using assms
  by (simp add: sm_resumeConfirm_def vs_confirmResume_def vs_confirmStep_def sm_endConfirm_def
      sm_confirmFinish_def sm_processConfirmationDecision_def sm_boundQueueConfirmation_def vr_fail_def
      node_eval)

theorem early_confirmation_lost_witness:
  "n_am (snd (sm_resumeConfirm sampleP blockB (sig_of CHR ''A'' ''b0'') block0
     (CK_rpc blockB (sig_of CHR ''A'' ''b0'')) (Inr EF_NOT_READY) run2)) = n_am run2"
proof -
  have "p_env sampleP = (\<lambda>_ m. m)" by (simp add: sampleP_def)
  from early_confirmation_lost [OF this] show ?thesis by simp
qed

text \<open>
  The check whether the channel is open never fails, since \<open>getLatestForkCnt\<close> is 0 before the
  first fork exists. So the first block of a channel that arrives before the \<open>SetState\<close> event is
  answered with DISCONNECT and dropped, instead of being queued as not ready.
\<close>

theorem first_block_before_fork_dropped:
  assumes "forkService (n_am n) = []" and "getFork b = 0" and "getHeight b = 0"
    and "vs_isSignedBlockAuthentic P sb b (n_channelId n) = Inr True"
    and "\<not> am_isBlockDuplicate (p_ethers P) (n_am n) b" and "\<not> dh_isForkDisputed (n_dh n) 0"
  shows "vs_isChannelOpen n \<and> vs_validateSignedBlock P sb b n = (Inr (vr_fail EF_DISCONNECT), n) \<and>
    sm_processExecutionDecision P sb EF_DISCONNECT None n = (Inr (), n)"
  using assms
  by (auto simp: vs_isChannelOpen_def vs_validateSignedBlock_def vs_checkStatic_def Let_def vs_isPastFork_def
      getForkCnt_def am_getLatestForkCnt_def fs_getLatestForkCnt_def getNextBlockHeight_def
      am_getNextBlockHeight_def fs_getNextBlockHeight_def am_isParticipantInLatestFork_def
      fs_isParticipantInLatestFork_def fs_getLatestFork_def sbind_def sread_def sreturn_def
      sm_processExecutionDecision_def split: option.splits)

theorem first_block_before_fork_dropped_witness:
  "vs_validateSignedBlock sampleP blockB block0 run1 = (Inr (vr_fail EF_DISCONNECT), run1)"
proof -
  have n: "n_am run1 = am_init" "n_channelId run1 = ''ch''" "n_dh run1 = dh_init ''ch''"
    by (simp_all add: run1_def sm_setChannelId_def smodify_def node_init_def dh_setChannelId_def dh_init_def)
  have auth: "vs_isSignedBlockAuthentic sampleP blockB block0 (n_channelId run1) = Inr True"
    by (simp add: n vs_isSignedBlockAuthentic_def Let_def)
  have "\<not> am_isBlockDuplicate (p_ethers sampleP) (n_am run1) block0"
    by (simp add: n am_init_def bv_isBlockDuplicate_def bv_isBlockInChain_iff qs_isBlockQueued_def
        getCoordinates_eq qs_init_def fs_getAgreement_def fs_isValidForkCnt_def)
  with first_block_before_fork_dropped [OF _ _ _ auth] show ?thesis
    by (simp add: n am_init_def dh_isForkDisputed_def dh_init_def)
qed

text \<open>
  C15. Once a fork is disputed, no block of another peer joins it: from then on, in every later
  state, validation of a block of that fork does not succeed.
\<close>

theorem disputed_fork_is_closed:
  assumes "(node_step P)\<^sup>*\<^sup>* n n'" and "dh_isForkDisputed (n_dh n) (getFork b)" and "env_ok Q"
    and "vs_validateSignedBlock Q sb b n' = (Inr r, n'')"
  shows "\<not> vr_success r \<and> same_chains (n_am n') (n_am n'')"
proof -
  have "core_le n n'" using assms(1)
    by (induction rule: rtranclp_induct) (auto intro: core_le_trans node_step_core)
  then have "dh_isForkDisputed (n_dh n') (getFork b)" using assms(2) by (simp add: core_le_def dh_le_def)
  then have "vs_checkStatic Q sb b n' \<noteq> Inr None" using vs_checkStatic_None(5) by blast
  then have "not_success (Inr r) \<and> rely n' n''"
    using vs_validateSignedBlock_outcome [OF assms(3,4)] by blast
  then show ?thesis by (auto simp: not_success_def rely_def)
qed

theorem disputed_fork_is_closed_witness:
  "let n = run2\<lparr>n_dh := dh_setForkDisputed 0 (n_dh run2)\<rparr> in
   vs_validateSignedBlock sampleP blockB block0 n = (Inr (vr_fail EF_PAST_FORK), n) \<and>
   \<not> vr_success (vr_fail EF_PAST_FORK)"
proof -
  let ?n = "run2\<lparr>n_dh := dh_setForkDisputed 0 (n_dh run2)\<rparr>"
  have d: "dh_isForkDisputed (n_dh ?n) (getFork block0)"
    by (simp add: dh_isForkDisputed_def dh_setForkDisputed_def)
  have run: "vs_validateSignedBlock sampleP blockB block0 ?n = (Inr (vr_fail EF_PAST_FORK), ?n)"
    using d
    by (simp add: vs_validateSignedBlock_def vs_checkStatic_def vs_isChannelOpen_def run2_eq sample_node_def
        vs_isSignedBlockAuthentic_def act_defs Let_def)
  from disputed_fork_is_closed [OF rtranclp.rtrancl_refl d sampleP_env run] run show ?thesis
    by (simp add: Let_def)
qed

text \<open>
  C21. A rejected block stays in the state machine: when the hash of the state after a block is not
  the one it claims, \<open>processStateTransition\<close> answers INCORRECT_DATA but leaves the state machine
  with the block executed. An honest next block, made on the state before, is then refused too.
  (No other handler interferes here.)
\<close>

theorem rejected_block_poisons:
  assumes "p_env P = (\<lambda>_ m. m)"
    and "p_getState P (n_sm n) = Inr st" and "p_stateTransition P (blk_transaction b) (n_sm n) = (Inr (ok, logs), sm)"
    and "p_getState P sm = Inr st'" and "keccak256 (p_ethers P) st' \<noteq> blk_stateHash b"
    and "keccak256 (p_ethers P) st' \<noteq> keccak256 (p_ethers P) st"
  shows "vs_processStateTransition P b sb n = (Inr (vr_dispute AF_INCORRECT_DATA), n\<lparr>n_sm := sm\<rparr>) \<and>
    (\<forall>b2 sb2 r n2. blk_previousStateHash b2 = keccak256 (p_ethers P) st \<and>
       vs_processStateTransition P b2 sb2 (n\<lparr>n_sm := sm\<rparr>) = (Inr r, n2) \<longrightarrow> \<not> vr_success r)"
proof
  show "vs_processStateTransition P b sb n = (Inr (vr_dispute AF_INCORRECT_DATA), n\<lparr>n_sm := sm\<rparr>)"
    using assms by (simp add: vs_processStateTransition_def node_eval)
  show "\<forall>b2 sb2 r n2. blk_previousStateHash b2 = keccak256 (p_ethers P) st \<and>
       vs_processStateTransition P b2 sb2 (n\<lparr>n_sm := sm\<rparr>) = (Inr r, n2) \<longrightarrow> \<not> vr_success r"
  proof (intro allI impI; elim conjE)
    fix b2 sb2 r n2
    assume prev: "blk_previousStateHash b2 = keccak256 (p_ethers P) st"
      and run: "vs_processStateTransition P b2 sb2 (n\<lparr>n_sm := sm\<rparr>) = (Inr r, n2)"
    have "r = vr_dispute AF_INCORRECT_DATA"
      using run assms(1,4,6) prev
      by (auto simp: vs_processStateTransition_def node_eval split: prod.splits sum.splits if_splits)
    then show "\<not> vr_success r" by (simp add: vr_dispute_def)
  qed
qed

theorem rejected_block_poisons_witness:
  "n_sm run2 = 0 \<and> n_sm (snd (vs_processStateTransition sampleP block1 (signed ''b1'' CHR ''A'') run2)) = 1 \<and>
   (case fst (vs_processStateTransition sampleP block0 blockB (run2\<lparr>n_sm := 1\<rparr>)) of
      Inl _ \<Rightarrow> True | Inr r \<Rightarrow> \<not> vr_success r)"
proof -
  have sm: "n_sm run2 = 0" by (simp add: run2_eq sample_node_def node_init_def)
  have env: "p_env sampleP = (\<lambda>_ m. m)" by (simp add: sampleP_def)
  have "p_getState sampleP (n_sm run2) = Inr ''s''" "p_getState sampleP 1 = Inr ''s1''"
    "p_stateTransition sampleP (blk_transaction block1) (n_sm run2) = (Inr (True, []), 1)"
    by (simp_all add: sm)
  from rejected_block_poisons [OF env this(1,3,2)]
  have "vs_processStateTransition sampleP block1 (signed ''b1'' CHR ''A'') run2 =
      (Inr (vr_dispute AF_INCORRECT_DATA), run2\<lparr>n_sm := 1\<rparr>) \<and>
    (\<forall>b2 sb2 r n2. blk_previousStateHash b2 = ''#s'' \<and>
       vs_processStateTransition sampleP b2 sb2 (run2\<lparr>n_sm := 1\<rparr>) = (Inr r, n2) \<longrightarrow> \<not> vr_success r)" by simp
  then have run: "n_sm (snd (vs_processStateTransition sampleP block1 (signed ''b1'' CHR ''A'') run2)) = 1"
    and all: "\<forall>b2 sb2 r n2. blk_previousStateHash b2 = ''#s'' \<and>
       vs_processStateTransition sampleP b2 sb2 (run2\<lparr>n_sm := 1\<rparr>) = (Inr r, n2) \<longrightarrow> \<not> vr_success r"
    by simp_all
  have prev: "blk_previousStateHash block0 = ''#s''" by simp
  obtain w n2 where W: "vs_processStateTransition sampleP block0 blockB (run2\<lparr>n_sm := 1\<rparr>) = (w, n2)"
    by (rule prod.exhaust)
  have "case w of Inl _ \<Rightarrow> True | Inr r \<Rightarrow> \<not> vr_success r"
  proof (cases w)
    case (Inr r)
    with W all [rule_format, OF conjI, OF prev] show ?thesis by simp
  qed simp
  with sm run W show ?thesis by (simp only: fst_conv simp_thms)
qed

end
