(* ===== verification/SignatureCollection.thy ===== *)
theory SignatureCollection
  imports Prelude
begin

text \<open>
  \<open>src/utils/SignatureCollectionMap.ts\<close>: signatures collected under a key, at most one per
  signer. The class wraps a JavaScript \<open>Map\<close> from keys to arrays; every method is one
  definition. What its clients rely on is the locale \<open>signature_store\<close>, over the abstraction to
  a function from keys and signers to signatures.
\<close>

section \<open>The class\<close>

record signer_signature =
  signerAddress :: string
  signerSignature :: string

type_synonym signature_collection = "(string, signer_signature list) js_map"

definition scm_new :: signature_collection where
  "scm_new = []"

definition scm_has :: "signature_collection \<Rightarrow> string \<Rightarrow> bool" where
  "scm_has m key = map_has m key"

definition scm_get :: "signature_collection \<Rightarrow> string \<Rightarrow> signer_signature list" where
  "scm_get m key = (case map_get m key of Some array \<Rightarrow> array | None \<Rightarrow> [])"

text \<open>The loops of \<open>tryInsert\<close> and \<open>didEveryoneSign\<close> look for a signer from the left.\<close>

fun scm_findSigner :: "signer_signature list \<Rightarrow> string \<Rightarrow> bool" where
  "scm_findSigner [] address = False"
| "scm_findSigner (x # array) address =
     (if signerAddress x = address then True else scm_findSigner array address)"

text \<open>\<open>array.push\<close> changes the stored array, which keeps its place in the map.\<close>

definition scm_tryInsert ::
  "string \<Rightarrow> signer_signature \<Rightarrow> signature_collection \<Rightarrow> signature_collection" where
  "scm_tryInsert key value m =
     (let m1 = (if \<not> scm_has m key then map_set m key [value] else m);
          array = scm_get m1 key
      in if scm_findSigner array (signerAddress value) then m1
         else map_set m1 key (array @ [value]))"

fun scm_everyoneIn :: "signer_signature list \<Rightarrow> string list \<Rightarrow> bool" where
  "scm_everyoneIn array [] = True"
| "scm_everyoneIn array (p # participants) =
     (if \<not> scm_findSigner array p then False else scm_everyoneIn array participants)"

definition scm_didEveryoneSign :: "signature_collection \<Rightarrow> string \<Rightarrow> string list \<Rightarrow> bool" where
  "scm_didEveryoneSign m key participants = scm_everyoneIn (scm_get m key) participants"

definition scm_remove :: "string \<Rightarrow> signature_collection \<Rightarrow> signature_collection" where
  "scm_remove key m = map_delete m key"

definition scm_clear :: "signature_collection \<Rightarrow> signature_collection" where
  "scm_clear m = []"

definition scm_size :: "signature_collection \<Rightarrow> nat" where
  "scm_size m = length m"

definition scm_keys :: "signature_collection \<Rightarrow> string list" where
  "scm_keys m = map fst m"

definition scm_values :: "signature_collection \<Rightarrow> signer_signature list list" where
  "scm_values m = map_values m"

definition scm_entries :: "signature_collection \<Rightarrow> (string \<times> signer_signature list) list" where
  "scm_entries m = m"

text \<open>\<open>Map.delete\<close> says whether the key was there.\<close>

definition scm_delete :: "string \<Rightarrow> signature_collection \<Rightarrow> bool \<times> signature_collection" where
  "scm_delete key m = (map_has m key, map_delete m key)"

definition scm_forEach ::
  "(signer_signature list \<Rightarrow> string \<Rightarrow> 's \<Rightarrow> 's) \<Rightarrow> signature_collection \<Rightarrow> 's \<Rightarrow> 's" where
  "scm_forEach callback m s = foldl (\<lambda>s (key, value). callback value key s) s m"

section \<open>What it stores\<close>

lemma scm_findSigner_iff: "scm_findSigner array a \<longleftrightarrow> a \<in> signerAddress ` set array"
  by (induction array) auto

lemma scm_everyoneIn_iff: "scm_everyoneIn array ps \<longleftrightarrow> set ps \<subseteq> signerAddress ` set array"
  by (induction ps) (auto simp: scm_findSigner_iff)

lemma scm_get_has: "scm_get m k \<noteq> [] \<Longrightarrow> scm_has m k"
  by (simp add: scm_get_def scm_has_def map_has_get split: option.splits)

lemma scm_get_new [simp]: "scm_get scm_new k = []"
  by (simp add: scm_get_def scm_new_def)

lemma scm_get_tryInsert [simp]:
  "scm_get (scm_tryInsert key v m) k =
     (if k = key \<and> \<not> scm_findSigner (scm_get m key) (signerAddress v)
      then scm_get m key @ [v] else scm_get m k)"
  by (auto simp: scm_tryInsert_def scm_get_def scm_has_def map_has_get Let_def split: option.splits)

lemma scm_has_tryInsert [simp]: "scm_has (scm_tryInsert key v m) k \<longleftrightarrow> k = key \<or> scm_has m k"
  by (auto simp: scm_tryInsert_def scm_has_def Let_def)

lemma scm_get_remove [simp]: "scm_get (scm_remove key m) k = (if k = key then [] else scm_get m k)"
  by (simp add: scm_get_def scm_remove_def)

lemma scm_get_delete [simp]:
  "scm_get (snd (scm_delete key m)) k = (if k = key then [] else scm_get m k)"
  by (simp add: scm_get_def scm_delete_def)

text \<open>At most one signature per signer under every key, and no key twice.\<close>

definition scm_wf :: "signature_collection \<Rightarrow> bool" where
  "scm_wf m \<longleftrightarrow> map_wf m \<and> (\<forall>k. distinct (map signerAddress (scm_get m k)))"

lemma scm_wf_new [simp]: "scm_wf scm_new"
  by (simp add: scm_wf_def) (simp add: scm_new_def)

lemma scm_wf_tryInsert [simp]: "scm_wf m \<Longrightarrow> scm_wf (scm_tryInsert key v m)"
  unfolding scm_wf_def
  by (auto simp: scm_findSigner_iff) (simp add: scm_tryInsert_def Let_def)

lemma scm_wf_delete [simp]: "scm_wf m \<Longrightarrow> scm_wf (snd (scm_delete key m))"
  unfolding scm_wf_def by (auto simp: scm_delete_def scm_get_def)

section \<open>The contract of the class\<close>

text \<open>The signature of an address under a key: the first one that came.\<close>

definition signature_by :: "signer_signature list \<Rightarrow> string \<Rightarrow> string option" where
  "signature_by array a = map_of (map (\<lambda>x. (signerAddress x, signerSignature x)) array) a"

definition scm_abs :: "signature_collection \<Rightarrow> string \<Rightarrow> string \<Rightarrow> string option" where
  "scm_abs m key = signature_by (scm_get m key)"

lemma signature_by_None: "signature_by array a = None \<longleftrightarrow> \<not> scm_findSigner array a"
  by (simp add: signature_by_def scm_findSigner_iff map_of_eq_None_iff image_image)

lemma signature_by_snoc:
  "signature_by (array @ [v]) a =
     (case signature_by array a of
        None \<Rightarrow> if a = signerAddress v then Some (signerSignature v) else None | Some s \<Rightarrow> Some s)"
  by (auto simp: signature_by_def map_add_def split: option.splits)

locale signature_store =
  fixes look :: "'m \<Rightarrow> 'k \<Rightarrow> 'a \<Rightarrow> 's option"
    and insert_sig :: "'k \<Rightarrow> 'a \<Rightarrow> 's \<Rightarrow> 'm \<Rightarrow> 'm"
    and drop_key :: "'k \<Rightarrow> 'm \<Rightarrow> 'm"
    and complete :: "'m \<Rightarrow> 'k \<Rightarrow> 'a list \<Rightarrow> bool"
  assumes look_insert: "look (insert_sig k a s m) k' a' =
      (if k' = k \<and> a' = a \<and> look m k a = None then Some s else look m k' a')"
    and look_drop: "look (drop_key k m) k' a = (if k' = k then None else look m k' a)"
    and complete_iff: "complete m k as \<longleftrightarrow> (\<forall>a \<in> set as. look m k a \<noteq> None)"
begin

text \<open>The first signature of a signer stays; a second one changes nothing.\<close>

lemma first_wins: "look m k a = Some s \<Longrightarrow> look (insert_sig k' a' s' m) k a = Some s"
  by (auto simp: look_insert)

lemma insert_idem: "look (insert_sig k a s' (insert_sig k a s m)) = look (insert_sig k a s m)"
  by (intro ext) (auto simp: look_insert)

lemma insert_commute:
  "a \<noteq> a' \<Longrightarrow> look (insert_sig k a s (insert_sig k a' s' m)) = look (insert_sig k a' s' (insert_sig k a s m))"
  by (intro ext) (auto simp: look_insert)

definition insert_all :: "'k \<Rightarrow> ('a \<times> 's) list \<Rightarrow> 'm \<Rightarrow> 'm" where
  "insert_all k xs m = foldl (\<lambda>m (a, s). insert_sig k a s m) m xs"

lemma look_insert_all:
  "look (insert_all k xs m) k' a =
     (if k' = k \<and> look m k a = None then map_of xs a else look m k' a)"
  by (induction xs arbitrary: m) (auto simp: insert_all_def look_insert)

lemma complete_insert_all:
  "complete (insert_all k xs m) k as \<longleftrightarrow> (\<forall>a \<in> set as. look m k a \<noteq> None \<or> a \<in> fst ` set xs)"
proof -
  have "look (insert_all k xs m) k a \<noteq> None \<longleftrightarrow> look m k a \<noteq> None \<or> a \<in> fst ` set xs" for a
    using map_of_eq_None_iff [of xs a] by (simp add: look_insert_all del: not_None_eq)
  then show ?thesis by (simp only: complete_iff)
qed

lemma complete_mono: "complete m k as \<Longrightarrow> set bs \<subseteq> set as \<Longrightarrow> complete m k bs"
  by (auto simp: complete_iff)

end

definition scm_insert :: "string \<Rightarrow> string \<Rightarrow> string \<Rightarrow> signature_collection \<Rightarrow> signature_collection" where
  "scm_insert k a s = scm_tryInsert k \<lparr>signerAddress = a, signerSignature = s\<rparr>"

interpretation scm: signature_store scm_abs scm_insert "\<lambda>k m. snd (scm_delete k m)" scm_didEveryoneSign
proof unfold_locales
  fix k a s m k' a'
  show "scm_abs (scm_insert k a s m) k' a' =
      (if k' = k \<and> a' = a \<and> scm_abs m k a = None then Some s else scm_abs m k' a')"
    by (auto simp: scm_abs_def scm_insert_def signature_by_snoc signature_by_None [symmetric]
        split: option.splits)
next
  fix k m k' a
  show "scm_abs (snd (scm_delete k m)) k' a = (if k' = k then None else scm_abs m k' a)"
    by (simp add: scm_abs_def signature_by_None)
next
  fix m k as
  show "scm_didEveryoneSign m k as \<longleftrightarrow> (\<forall>a \<in> set as. scm_abs m k a \<noteq> None)"
    by (auto simp: scm_didEveryoneSign_def scm_everyoneIn_iff scm_abs_def signature_by_None
        scm_findSigner_iff)
qed

end
