(* ===== verification/JoinChannel.thy ===== *)
theory JoinChannel
  imports SignatureCollection DataTypes
begin

text \<open>
  \<open>src/rpc/services/JoinChannelService.ts\<close>: peers collect the signatures of the current
  participants on a request to join. The handler has two awaits, the signer and the
  participants of the state machine; each part between them is a definition, a call that waits
  is an element of \<open>jn_pending\<close>, and \<open>join_handle\<close> is one event of the service. Everything the
  handler throws is caught and logged, so an error leaves the state as it is.
\<close>

section \<open>State\<close>

record join_confirmation =
  jf_signedJoinChannel :: signed_join_channel
  jf_confirmationSignatures :: "bytes list"

datatype join_pending =
  JP_sign bytes signed_join_channel join_channel int
| JP_participants bytes signed_join_channel address bytes

record join_service =
  joinChannelMap :: signature_collection
  joinChannelQueue :: "join_confirmation list"
  jn_pending :: "join_pending list"
  jn_timers :: "(int \<times> bytes) list"
  jn_outbox :: "(signed_join_channel \<times> bytes) list"

definition join_new :: join_service where
  "join_new = \<lparr>joinChannelMap = scm_new, joinChannelQueue = [], jn_pending = [],
     jn_timers = [], jn_outbox = []\<rparr>"

section \<open>onJoinChannelRequest\<close>

text \<open>\<open>if (!confirmationSignature) return\<close>: an absent or an empty signature.\<close>

definition given :: "bytes option \<Rightarrow> bool" where
  "given s \<longleftrightarrow> s \<noteq> None \<and> s \<noteq> Some []"

text \<open>Up to the first \<open>await\<close>; \<open>now\<close> is \<open>Clock.getTimeInSeconds()\<close>.\<close>

definition join_onRequest ::
  "ethers \<Rightarrow> int \<Rightarrow> signed_join_channel \<Rightarrow> bytes option \<Rightarrow> join_service \<Rightarrow> join_service" where
  "join_onRequest E now signedJoinChannel confirmationSignature s =
     (let key = sjc_encodedJoinChannel signedJoinChannel in
      case decodeJoinChannel E key of
        Inl _ \<Rightarrow> s
      | Inr jc \<Rightarrow>
          if \<not> scm_has (joinChannelMap s) key then
            let timeRemaining = int (js_Number (jc_deadlineTimestamp jc)) - now in
            if timeRemaining \<le> 0 then s
            else (case retrieveSignerAddressJoinChannel E jc (sjc_signature signedJoinChannel) of
                    Inl _ \<Rightarrow> s
                  | Inr retrivedAddress \<Rightarrow>
                      if jc_participant jc \<noteq> retrivedAddress then s
                      else s\<lparr>jn_pending := jn_pending s @
                               [JP_sign key signedJoinChannel jc timeRemaining]\<rparr>)
          else if \<not> given confirmationSignature then s
          else (case retrieveSignerAddressJoinChannel E jc (the confirmationSignature) of
                  Inl _ \<Rightarrow> s
                | Inr retrivedAddress \<Rightarrow>
                    s\<lparr>jn_pending := jn_pending s @
                        [JP_participants key signedJoinChannel retrivedAddress
                           (the confirmationSignature)]\<rparr>))"

text \<open>After \<open>await EvmUtils.signJoinChannel(...)\<close>.\<close>

definition join_afterSign ::
  "ethers \<Rightarrow> signer \<Rightarrow> bytes \<Rightarrow> signed_join_channel \<Rightarrow> join_channel \<Rightarrow> int \<Rightarrow> join_service \<Rightarrow>
   join_service" where
  "join_afterSign E sign key signedJoinChannel jc timeRemaining s =
     (case signJoinChannel E sign jc of
        Inl _ \<Rightarrow> s
      | Inr mySignedJC \<Rightarrow>
          s\<lparr>joinChannelMap := scm_tryInsert key
               \<lparr>signerAddress = jc_participant jc, signerSignature = sjc_signature mySignedJC\<rparr>
               (joinChannelMap s),
            jn_outbox := jn_outbox s @ [(signedJoinChannel, sjc_signature mySignedJC)],
            jn_timers := jn_timers s @ [(timeRemaining * 1000, key)]\<rparr>)"

text \<open>After \<open>await stateManager.getParticipantsCurrent()\<close>.\<close>

definition join_afterParticipants ::
  "bytes \<Rightarrow> signed_join_channel \<Rightarrow> address \<Rightarrow> bytes \<Rightarrow> address list res \<Rightarrow> join_service \<Rightarrow>
   join_service" where
  "join_afterParticipants key signedJoinChannel retrivedAddress confirmationSignature participants s =
     (case participants of
        Inl _ \<Rightarrow> s
      | Inr currentParticipants \<Rightarrow>
          if retrivedAddress \<notin> set currentParticipants then s
          else
            let m = scm_tryInsert key
                  \<lparr>signerAddress = retrivedAddress, signerSignature = confirmationSignature\<rparr>
                  (joinChannelMap s)
            in if \<not> scm_didEveryoneSign m key currentParticipants then s\<lparr>joinChannelMap := m\<rparr>
               else s\<lparr>joinChannelMap := m,
                      joinChannelQueue := joinChannelQueue s @
                        [\<lparr>jf_signedJoinChannel = signedJoinChannel,
                          jf_confirmationSignatures = map signerSignature (scm_get m key)\<rparr>]\<rparr>)"

text \<open>The callback of \<open>setTimeout\<close>.\<close>

definition join_prune :: "bytes \<Rightarrow> join_service \<Rightarrow> join_service" where
  "join_prune key s = s\<lparr>joinChannelMap := snd (scm_delete key (joinChannelMap s))\<rparr>"

section \<open>Events\<close>

text \<open>
  What can happen next: a request arrives, the \<open>i\<close>-th waiting call goes on (with the reply of the
  state machine, if that is what it waits for), the \<open>i\<close>-th timer fires.
\<close>

datatype join_event =
  JE_request int signed_join_channel "bytes option"
| JE_resume nat "address list res"
| JE_timer nat

definition remove_nth :: "nat \<Rightarrow> 'a list \<Rightarrow> 'a list" where
  "remove_nth i xs = take i xs @ drop (Suc i) xs"

fun join_resume ::
  "ethers \<Rightarrow> signer \<Rightarrow> join_pending \<Rightarrow> address list res \<Rightarrow> join_service \<Rightarrow> join_service" where
  "join_resume E sign (JP_sign key sjc jc timeRemaining) _ s =
     join_afterSign E sign key sjc jc timeRemaining s"
| "join_resume E sign (JP_participants key sjc retrivedAddress sig) participants s =
     join_afterParticipants key sjc retrivedAddress sig participants s"

fun join_handle :: "ethers \<Rightarrow> signer \<Rightarrow> join_event \<Rightarrow> join_service \<Rightarrow> join_service" where
  "join_handle E sign (JE_request now sjc sig) s = join_onRequest E now sjc sig s"
| "join_handle E sign (JE_resume i participants) s =
     (case nth_opt (jn_pending s) i of
        None \<Rightarrow> s
      | Some p \<Rightarrow> join_resume E sign p participants
                    (s\<lparr>jn_pending := remove_nth i (jn_pending s)\<rparr>))"
| "join_handle E sign (JE_timer i) s =
     (case nth_opt (jn_timers s) i of
        None \<Rightarrow> s
      | Some (_, key) \<Rightarrow> join_prune key (s\<lparr>jn_timers := remove_nth i (jn_timers s)\<rparr>))"

definition join_run :: "ethers \<Rightarrow> signer \<Rightarrow> join_event list \<Rightarrow> join_service \<Rightarrow> join_service" where
  "join_run E sign events s = foldl (\<lambda>s e. join_handle E sign e s) s events"

lemma join_run_simps [simp]:
  "join_run E sign [] s = s"
  "join_run E sign (es @ [e]) s = join_handle E sign e (join_run E sign es s)"
  by (simp_all add: join_run_def)

lemma set_remove_nth: "set (remove_nth i xs) \<subseteq> set xs"
  by (auto simp: remove_nth_def dest: in_set_takeD in_set_dropD)

section \<open>What is collected\<close>

text \<open>
  A signature under \<open>key\<close> is one that recovers to the signer it is filed under, or the node's own
  one, filed under the joining participant.
\<close>

definition join_entry_ok :: "ethers \<Rightarrow> signer \<Rightarrow> bytes \<Rightarrow> signer_signature \<Rightarrow> bool" where
  "join_entry_ok E sign key x \<longleftrightarrow>
     (\<exists>jc. decodeJoinChannel E key = Inr jc \<and>
        (retrieveSignerAddressJoinChannel E jc (signerSignature x) = Inr (signerAddress x) \<or>
         (signerAddress x = jc_participant jc \<and>
          (\<exists>mine. signJoinChannel E sign jc = Inr mine \<and> signerSignature x = sjc_signature mine))))"

fun join_pending_ok :: "ethers \<Rightarrow> join_pending \<Rightarrow> bool" where
  "join_pending_ok E (JP_sign key sjc jc t) \<longleftrightarrow>
     key = sjc_encodedJoinChannel sjc \<and> decodeJoinChannel E key = Inr jc \<and> 0 < t \<and>
     retrieveSignerAddressJoinChannel E jc (sjc_signature sjc) = Inr (jc_participant jc)"
| "join_pending_ok E (JP_participants key sjc a sig) \<longleftrightarrow>
     key = sjc_encodedJoinChannel sjc \<and>
     (\<exists>jc. decodeJoinChannel E key = Inr jc \<and> retrieveSignerAddressJoinChannel E jc sig = Inr a)"

definition join_inv :: "ethers \<Rightarrow> signer \<Rightarrow> join_service \<Rightarrow> bool" where
  "join_inv E sign s \<longleftrightarrow>
     scm_wf (joinChannelMap s) \<and>
     (\<forall>key. \<forall>x \<in> set (scm_get (joinChannelMap s) key). join_entry_ok E sign key x) \<and>
     (\<forall>p \<in> set (jn_pending s). join_pending_ok E p) \<and>
     (\<forall>f \<in> set (joinChannelQueue s). \<forall>sig \<in> set (jf_confirmationSignatures f).
        \<exists>x. signerSignature x = sig \<and>
            join_entry_ok E sign (sjc_encodedJoinChannel (jf_signedJoinChannel f)) x)"

lemma join_new_inv: "join_inv E sign join_new"
  by (simp add: join_inv_def join_new_def)

lemma join_onRequest_inv: "join_inv E sign s \<Longrightarrow> join_inv E sign (join_onRequest E now sjc sig s)"
  by (auto simp: join_onRequest_def Let_def join_inv_def split: sum.splits)

lemma join_insert_inv:
  "join_inv E sign s \<Longrightarrow> join_entry_ok E sign key x \<Longrightarrow>
     join_inv E sign (s\<lparr>joinChannelMap := scm_tryInsert key x (joinChannelMap s)\<rparr>)"
  by (auto simp: join_inv_def split: if_splits)

lemma join_inv_ignores [simp]:
  "join_inv E sign (s\<lparr>jn_outbox := xs\<rparr>) = join_inv E sign s"
  "join_inv E sign (s\<lparr>jn_timers := ts\<rparr>) = join_inv E sign s"
  by (auto simp: join_inv_def)

lemma join_afterSign_inv:
  assumes "join_inv E sign s" and "join_pending_ok E (JP_sign key sjc jc t)"
  shows "join_inv E sign (join_afterSign E sign key sjc jc t s)"
proof (cases "signJoinChannel E sign jc")
  case (Inr mine)
  then have "join_entry_ok E sign key
      \<lparr>signerAddress = jc_participant jc, signerSignature = sjc_signature mine\<rparr>"
    using assms(2) by (auto simp: join_entry_ok_def)
  from join_insert_inv [OF assms(1) this] Inr show ?thesis
    by (simp add: join_afterSign_def join_inv_def)
qed (use assms in \<open>simp add: join_afterSign_def\<close>)

lemma join_afterParticipants_inv:
  assumes "join_inv E sign s" and "join_pending_ok E (JP_participants key sjc a sig)"
  shows "join_inv E sign (join_afterParticipants key sjc a sig ps s)"
proof -
  let ?x = "\<lparr>signerAddress = a, signerSignature = sig\<rparr>"
  let ?s = "s\<lparr>joinChannelMap := scm_tryInsert key ?x (joinChannelMap s)\<rparr>"
  have "join_entry_ok E sign key ?x" using assms(2) by (auto simp: join_entry_ok_def)
  then have ins: "join_inv E sign ?s" by (rule join_insert_inv [OF assms(1)])
  then have "\<forall>x \<in> set (scm_get (joinChannelMap ?s) key). join_entry_ok E sign key x"
    unfolding join_inv_def by blast
  then have "join_inv E sign (?s\<lparr>joinChannelQueue := joinChannelQueue s @
      [\<lparr>jf_signedJoinChannel = sjc,
        jf_confirmationSignatures = map signerSignature (scm_get (joinChannelMap ?s) key)\<rparr>]\<rparr>)"
    using ins assms(2) unfolding join_inv_def by (fastforce simp del: scm_get_tryInsert)
  with ins assms(1) show ?thesis
    by (auto simp: join_afterParticipants_def Let_def simp del: scm_get_tryInsert split: sum.splits)
qed

lemma join_handle_inv: "join_inv E sign s \<Longrightarrow> join_inv E sign (join_handle E sign e s)"
proof (induction E sign e s rule: join_handle.induct)
  case (1 E sign now sjc sig s)
  then show ?case by (simp add: join_onRequest_inv)
next
  case (2 E sign i ps s)
  show ?case
  proof (cases "nth_opt (jn_pending s) i")
    case (Some p)
    have "join_inv E sign (s\<lparr>jn_pending := remove_nth i (jn_pending s)\<rparr>)"
      using 2 set_remove_nth [of i "jn_pending s"] by (auto simp: join_inv_def)
    moreover have "join_pending_ok E p"
      using 2 nth_opt_in_set [OF Some] by (auto simp: join_inv_def)
    ultimately show ?thesis
      using Some by (cases p) (auto simp: join_afterSign_inv join_afterParticipants_inv)
  qed (use 2 in \<open>simp only: join_handle.simps option.case\<close>)
next
  case (3 E sign i s)
  then show ?case
    by (auto simp: join_prune_def join_inv_def split: option.splits)
qed

lemma join_run_inv: "join_inv E sign s \<Longrightarrow> join_inv E sign (join_run E sign es s)"
  by (induction es rule: rev_induct) (simp_all add: join_handle_inv)

section \<open>Who is missing\<close>

text \<open>
  A request of somebody else, and no signature that recovers to \<open>self\<close>: what a node named \<open>self\<close>
  receives when no peer sends its own confirmation back.
\<close>

fun no_echo :: "ethers \<Rightarrow> address \<Rightarrow> join_event \<Rightarrow> bool" where
  "no_echo E self (JE_request now sjc sig) \<longleftrightarrow>
     (\<forall>jc. decodeJoinChannel E (sjc_encodedJoinChannel sjc) = Inr jc \<longrightarrow>
        jc_participant jc \<noteq> self \<and>
        (given sig \<longrightarrow> retrieveSignerAddressJoinChannel E jc (the sig) \<noteq> Inr self))"
| "no_echo E self (JE_resume i (Inr participants)) \<longleftrightarrow> self \<in> set participants"
| "no_echo E self _ \<longleftrightarrow> True"

fun pending_not :: "address \<Rightarrow> join_pending \<Rightarrow> bool" where
  "pending_not self (JP_sign key sjc jc t) \<longleftrightarrow> jc_participant jc \<noteq> self"
| "pending_not self (JP_participants key sjc a sig) \<longleftrightarrow> a \<noteq> self"

definition self_absent :: "address \<Rightarrow> join_service \<Rightarrow> bool" where
  "self_absent self s \<longleftrightarrow>
     joinChannelQueue s = [] \<and>
     (\<forall>key. \<not> scm_findSigner (scm_get (joinChannelMap s) key) self) \<and>
     (\<forall>p \<in> set (jn_pending s). pending_not self p)"

lemma self_absent_insert:
  "self_absent self s \<Longrightarrow> signerAddress x \<noteq> self \<Longrightarrow>
     self_absent self (s\<lparr>joinChannelMap := scm_tryInsert key x (joinChannelMap s)\<rparr>)"
  by (auto simp: self_absent_def scm_findSigner_iff)

lemma join_resume_absent:
  assumes "self_absent self s" and "pending_not self p" and "no_echo E self (JE_resume i ps)"
  shows "self_absent self (join_resume E sign p ps s)"
proof (cases p)
  case (JP_sign key sjc jc t)
  show ?thesis
  proof (cases "signJoinChannel E sign jc")
    case (Inr mine)
    then show ?thesis
      using assms(2) JP_sign self_absent_insert [OF assms(1), of
        "\<lparr>signerAddress = jc_participant jc, signerSignature = sjc_signature mine\<rparr>" key]
      by (simp add: join_afterSign_def self_absent_def del: scm_get_tryInsert)
  qed (use assms JP_sign in \<open>simp add: join_afterSign_def\<close>)
next
  case (JP_participants key sjc a sig)
  show ?thesis
  proof (cases ps)
    case (Inr participants)
    let ?x = "\<lparr>signerAddress = a, signerSignature = sig\<rparr>"
    have absent: "self_absent self (s\<lparr>joinChannelMap := scm_tryInsert key ?x (joinChannelMap s)\<rparr>)"
      using assms(2) JP_participants by (intro self_absent_insert assms(1)) simp
    then have "\<not> scm_findSigner (scm_get (scm_tryInsert key ?x (joinChannelMap s)) key) self"
      by (simp add: self_absent_def del: scm_get_tryInsert)
    moreover have "self \<in> set participants" using assms(3) Inr by simp
    ultimately have "\<not> scm_didEveryoneSign (scm_tryInsert key ?x (joinChannelMap s)) key participants"
      unfolding scm_didEveryoneSign_def scm_everyoneIn_iff scm_findSigner_iff by blast
    with absent assms(1) JP_participants Inr show ?thesis
      by (simp add: join_afterParticipants_def Let_def del: scm_get_tryInsert)
  qed (use assms JP_participants in \<open>simp add: join_afterParticipants_def\<close>)
qed

lemma join_handle_absent:
  assumes "self_absent self s" and "no_echo E self e"
  shows "self_absent self (join_handle E sign e s)"
proof (cases e)
  case (JE_request now sjc sig)
  with assms show ?thesis
    by (auto simp: join_onRequest_def Let_def self_absent_def split: sum.splits)
next
  case (JE_resume i ps)
  show ?thesis
  proof (cases "nth_opt (jn_pending s) i")
    case (Some p)
    have "self_absent self (s\<lparr>jn_pending := remove_nth i (jn_pending s)\<rparr>)"
      using assms(1) set_remove_nth [of i "jn_pending s"] by (auto simp: self_absent_def)
    moreover have "pending_not self p"
      using assms(1) nth_opt_in_set [OF Some] by (auto simp: self_absent_def)
    ultimately show ?thesis using join_resume_absent assms(2) JE_resume Some by simp
  qed (use assms JE_resume in \<open>simp only: join_handle.simps option.case\<close>)
next
  case (JE_timer i)
  with assms(1) show ?thesis
    by (auto simp: join_prune_def self_absent_def split: option.splits)
qed

lemma join_run_absent:
  "self_absent self s \<Longrightarrow> \<forall>e \<in> set es. no_echo E self e \<Longrightarrow> self_absent self (join_run E sign es s)"
  by (induction es rule: rev_induct) (simp_all add: join_handle_absent)

end
