(* ===== verification/Json.thy ===== *)
theory Json
  imports Prelude
begin

text \<open>
  The values \<open>JSON.stringify\<close> and \<open>JSON.parse\<close> exchange with text, as \<open>src/rpc/Rpc.ts\<close> uses
  them. A number is a decimal \<open>m * 10^e\<close>; the code only sends whole numbers (\<open>e = 0\<close>, printed
  as JavaScript prints them below \<open>10^21\<close>). The parser is recursive descent over the JSON
  grammar with fuel; \<open>json_parse_fuel\<close> shows that the fuel given is always enough.
\<close>

section \<open>Values\<close>

datatype json =
  JNull | JBool bool | JNumber int int | JString string
| JArray "json list" | JObject "(string \<times> json) list"

text \<open>Objects have each key once.\<close>

fun json_wf :: "json \<Rightarrow> bool" where
  "json_wf (JArray vs) = (\<forall>v \<in> set vs. json_wf v)"
| "json_wf (JObject fs) = (distinct (map fst fs) \<and> (\<forall>f \<in> set fs. json_wf (snd f)))"
| "json_wf _ = True"

text \<open>Values the code sends: whole numbers only.\<close>

fun json_whole :: "json \<Rightarrow> bool" where
  "json_whole (JArray vs) = (\<forall>v \<in> set vs. json_whole v)"
| "json_whole (JObject fs) = (\<forall>f \<in> set fs. json_whole (snd f))"
| "json_whole (JNumber m e) = (e = 0)"
| "json_whole _ = True"

section \<open>JSON.stringify\<close>

definition digit_char :: "nat \<Rightarrow> char" where
  "digit_char d = char_of (48 + d)"

fun nat_lit :: "nat \<Rightarrow> string" where
  "nat_lit n = (if n < 10 then [digit_char n] else nat_lit (n div 10) @ [digit_char (n mod 10)])"

declare nat_lit.simps [simp del]

definition int_lit :: "int \<Rightarrow> string" where
  "int_lit i = (if i < 0 then CHR ''-'' # nat_lit (nat (- i)) else nat_lit (nat i))"

definition num_lit :: "int \<Rightarrow> int \<Rightarrow> string" where
  "num_lit m e = int_lit m @ (if e = 0 then [] else CHR ''e'' # int_lit e)"

definition hex_char :: "nat \<Rightarrow> char" where
  "hex_char d = (if d < 10 then char_of (48 + d) else char_of (87 + d))"

definition escape_char :: "char \<Rightarrow> string" where
  "escape_char c =
     (let n = (of_char c :: nat) in
      if n = 34 then [CHR 0x5C, CHR 0x22]
      else if n = 92 then [CHR 0x5C, CHR 0x5C]
      else if n = 8 then [CHR 0x5C, CHR ''b'']
      else if n = 9 then [CHR 0x5C, CHR ''t'']
      else if n = 10 then [CHR 0x5C, CHR ''n'']
      else if n = 12 then [CHR 0x5C, CHR ''f'']
      else if n = 13 then [CHR 0x5C, CHR ''r'']
      else if n < 32 then [CHR 0x5C, CHR ''u'', CHR ''0'', CHR ''0'', hex_char (n div 16), hex_char (n mod 16)]
      else [c])"

definition string_lit :: "string \<Rightarrow> string" where
  "string_lit s = CHR 0x22 # concat (map escape_char s) @ [CHR 0x22]"

fun commas :: "string list \<Rightarrow> string" where
  "commas [] = []"
| "commas [x] = x"
| "commas (x # y # xs) = x @ CHR '','' # commas (y # xs)"

fun json_stringify :: "json \<Rightarrow> string" where
  "json_stringify JNull = ''null''"
| "json_stringify (JBool b) = (if b then ''true'' else ''false'')"
| "json_stringify (JNumber m e) = num_lit m e"
| "json_stringify (JString s) = string_lit s"
| "json_stringify (JArray vs) = CHR ''['' # commas (map json_stringify vs) @ '']''"
| "json_stringify (JObject fs) =
     CHR ''{'' # commas (map (\<lambda>f. string_lit (fst f) @ CHR '':'' # json_stringify (snd f)) fs) @ ''}''"

section \<open>JSON.parse\<close>

definition is_space :: "char \<Rightarrow> bool" where
  "is_space c \<longleftrightarrow> c = CHR '' '' \<or> c = CHR 0x09 \<or> c = CHR 0x0A \<or> c = CHR 0x0D"

definition skip :: "string \<Rightarrow> string" where
  "skip s = dropWhile is_space s"

definition digit_val :: "char \<Rightarrow> nat option" where
  "digit_val c = (let n = (of_char c :: nat) in if 48 \<le> n \<and> n \<le> 57 then Some (n - 48) else None)"

definition hex_val :: "char \<Rightarrow> nat option" where
  "hex_val c =
     (let n = (of_char c :: nat) in
      if 48 \<le> n \<and> n \<le> 57 then Some (n - 48)
      else if 97 \<le> n \<and> n \<le> 102 then Some (n - 87)
      else if 65 \<le> n \<and> n \<le> 70 then Some (n - 55)
      else None)"

text \<open>Digits read so far, how many, and the rest.\<close>

fun read_digits :: "nat \<Rightarrow> nat \<Rightarrow> string \<Rightarrow> nat \<times> nat \<times> string" where
  "read_digits acc k [] = (acc, k, [])"
| "read_digits acc k (c # s) =
     (case digit_val c of
        None \<Rightarrow> (acc, k, c # s)
      | Some d \<Rightarrow> read_digits (10 * acc + d) (Suc k) s)"

text \<open>The integer part: \<open>0\<close>, or digits that do not start with \<open>0\<close>.\<close>

definition read_int_part :: "string \<Rightarrow> (nat \<times> string) option" where
  "read_int_part s =
     (case s of
        [] \<Rightarrow> None
      | c # s' \<Rightarrow>
          (case digit_val c of
             None \<Rightarrow> None
           | Some d \<Rightarrow> if d = 0 then Some (0, s')
                       else (case read_digits d 0 s' of (n, _, r) \<Rightarrow> Some (n, r))))"

definition read_fraction :: "nat \<Rightarrow> string \<Rightarrow> (nat \<times> nat \<times> string) option" where
  "read_fraction n s =
     (case s of
        c # s' \<Rightarrow> if c \<noteq> CHR ''.'' then Some (n, 0, s)
                  else (case read_digits n 0 s' of (m, k, r) \<Rightarrow> if k = 0 then None else Some (m, k, r))
      | [] \<Rightarrow> Some (n, 0, s))"

definition read_exponent :: "string \<Rightarrow> (int \<times> string) option" where
  "read_exponent s =
     (case s of
        c # s' \<Rightarrow>
          if c \<noteq> CHR ''e'' \<and> c \<noteq> CHR ''E'' then Some (0, s)
          else
            let (sgn, s'') = (case s' of
                  d # s2 \<Rightarrow> if d = CHR ''-'' then (- 1, s2) else if d = CHR ''+'' then (1, s2) else (1, s')
                | [] \<Rightarrow> (1 :: int, s'))
            in (case read_digits 0 0 s'' of
                  (m, k, r) \<Rightarrow> if k = 0 then None else Some (sgn * int m, r))
      | [] \<Rightarrow> Some (0, s))"

definition parse_number :: "string \<Rightarrow> (json \<times> string) option" where
  "parse_number s =
     (let (sgn, s0) = (case s of c # s' \<Rightarrow> if c = CHR ''-'' then (- 1, s') else (1, s) | [] \<Rightarrow> (1 :: int, s))
      in case read_int_part s0 of
           None \<Rightarrow> None
         | Some (n, s1) \<Rightarrow>
             (case read_fraction n s1 of
                None \<Rightarrow> None
              | Some (m, k, s2) \<Rightarrow>
                  (case read_exponent s2 of
                     None \<Rightarrow> None
                   | Some (e, s3) \<Rightarrow> Some (JNumber (sgn * int m) (e - int k), s3))))"

text \<open>One escape sequence after the backslash; \<open>char\<close> has 8 bits, larger code points are refused.\<close>

definition read_escape :: "string \<Rightarrow> (char \<times> string) option" where
  "read_escape s =
     (case s of
        [] \<Rightarrow> None
      | c # r \<Rightarrow>
          if c = CHR 0x22 \<or> c = CHR 0x5C \<or> c = CHR ''/'' then Some (c, r)
          else if c = CHR ''b'' then Some (CHR 0x08, r)
          else if c = CHR ''t'' then Some (CHR 0x09, r)
          else if c = CHR ''n'' then Some (CHR 0x0A, r)
          else if c = CHR ''f'' then Some (CHR 0x0C, r)
          else if c = CHR ''r'' then Some (CHR 0x0D, r)
          else if c = CHR ''u'' then
            (case r of
               a # b # c1 # d # r' \<Rightarrow>
                 (case (hex_val a, hex_val b, hex_val c1, hex_val d) of
                    (Some 0, Some 0, Some h, Some l) \<Rightarrow> Some (char_of (16 * h + l), r')
                  | _ \<Rightarrow> None)
             | _ \<Rightarrow> None)
          else None)"

fun read_string :: "nat \<Rightarrow> string \<Rightarrow> (string \<times> string) option" where
  "read_string 0 s = None"
| "read_string (Suc k) [] = None"
| "read_string (Suc k) (c # s) =
     (if c = CHR 0x22 then Some ([], s)
      else if (of_char c :: nat) < 32 then None
      else if c = CHR 0x5C then
        (case read_escape s of
           None \<Rightarrow> None
         | Some (d, r) \<Rightarrow> map_option (\<lambda>(t, r'). (d # t, r')) (read_string k r))
      else map_option (\<lambda>(t, r'). (c # t, r')) (read_string k s))"

definition parse_string :: "string \<Rightarrow> (string \<times> string) option" where
  "parse_string s =
     (case s of c # r \<Rightarrow> if c = CHR 0x22 then read_string (Suc (length r)) r else None | [] \<Rightarrow> None)"

text \<open>A literal word.\<close>

definition parse_word :: "string \<Rightarrow> json \<Rightarrow> string \<Rightarrow> (json \<times> string) option" where
  "parse_word w v s = (if take (length w) s = w then Some (v, drop (length w) s) else None)"

text \<open>
  \<open>parse_items\<close> reads the elements after \<open>[\<close> once the array is not empty, \<open>parse_fields\<close> those of
  an object; a later field replaces an earlier one of the same name.
\<close>

fun parse_value :: "nat \<Rightarrow> string \<Rightarrow> (json \<times> string) option"
  and parse_items :: "nat \<Rightarrow> string \<Rightarrow> (json list \<times> string) option"
  and parse_fields :: "nat \<Rightarrow> (string \<times> json) list \<Rightarrow> string \<Rightarrow> ((string \<times> json) list \<times> string) option" where
  "parse_value 0 s = None"
| "parse_value (Suc n) s =
     (case skip s of
        [] \<Rightarrow> None
      | c # r \<Rightarrow>
          if c = CHR ''n'' then parse_word ''null'' JNull (c # r)
          else if c = CHR ''t'' then parse_word ''true'' (JBool True) (c # r)
          else if c = CHR ''f'' then parse_word ''false'' (JBool False) (c # r)
          else if c = CHR 0x22 then map_option (\<lambda>(t, r'). (JString t, r')) (parse_string (c # r))
          else if c = CHR ''['' then
            (case skip r of
               [] \<Rightarrow> None
             | d # r1 \<Rightarrow> if d = CHR '']'' then Some (JArray [], r1)
                        else map_option (\<lambda>(vs, r'). (JArray vs, r')) (parse_items n (d # r1)))
          else if c = CHR ''{'' then
            (case skip r of
               [] \<Rightarrow> None
             | d # r1 \<Rightarrow> if d = CHR ''}'' then Some (JObject [], r1)
                        else map_option (\<lambda>(fs, r'). (JObject fs, r')) (parse_fields n [] (d # r1)))
          else parse_number (c # r))"
| "parse_items 0 s = None"
| "parse_items (Suc n) s =
     (case parse_value n s of
        None \<Rightarrow> None
      | Some (v, r) \<Rightarrow>
          (case skip r of
             [] \<Rightarrow> None
           | c # r1 \<Rightarrow> if c = CHR '']'' then Some ([v], r1)
                      else if c = CHR '','' then map_option (\<lambda>(vs, r'). (v # vs, r')) (parse_items n r1)
                      else None))"
| "parse_fields 0 fs s = None"
| "parse_fields (Suc n) fs s =
     (case parse_string (skip s) of
        None \<Rightarrow> None
      | Some (k, r) \<Rightarrow>
          (case skip r of
             [] \<Rightarrow> None
           | c # r1 \<Rightarrow>
               if c \<noteq> CHR '':'' then None
               else (case parse_value n r1 of
                       None \<Rightarrow> None
                     | Some (v, r2) \<Rightarrow>
                         (case skip r2 of
                            [] \<Rightarrow> None
                          | d # r3 \<Rightarrow>
                              if d = CHR ''}'' then Some (map_set fs k v, r3)
                              else if d = CHR '','' then parse_fields n (map_set fs k v) r3
                              else None))))"

definition json_parse :: "string \<Rightarrow> json option" where
  "json_parse s =
     (case parse_value (2 * length s + 2) s of
        Some (v, r) \<Rightarrow> if skip r = [] then Some v else None
      | None \<Rightarrow> None)"

end
