(* ===== verification/JsonFacts.thy ===== *)
theory JsonFacts
  imports Json
begin

text \<open>
  \<open>json_parse (json_stringify v) = Some v\<close> for the values the code sends, one lemma per kind of
  token; and the fuel of \<open>json_parse\<close> never decides its result.
\<close>

section \<open>Numbers\<close>

lemma digit_val_char [simp]: "d < 10 \<Longrightarrow> digit_val (digit_char d) = Some d"
  by (simp add: digit_val_def digit_char_def)

lemma read_digits_lit:
  "read_digits acc k (nat_lit n @ r) = read_digits (acc * 10 ^ length (nat_lit n) + n) (k + length (nat_lit n)) r"
proof (induction n arbitrary: r rule: nat_lit.induct)
  case (1 n)
  show ?case
  proof (cases "n < 10")
    case True
    then show ?thesis by (subst (1 2 3) nat_lit.simps) (simp add: algebra_simps)
  next
    case False
    have "n = 10 * (n div 10) + n mod 10" by simp
    then show ?thesis
      using 1 [OF False, of "digit_char (n mod 10) # r"] False
      by (subst (1 2 3) nat_lit.simps) (simp add: algebra_simps)
  qed
qed

lemma read_digits_count:
  "read_digits acc (k + j) s = (case read_digits acc k s of (m, k', r) \<Rightarrow> (m, k' + j, r))"
proof (induction acc k s rule: read_digits.induct)
  case (2 acc k c s)
  then show ?case by (cases "digit_val c") simp_all
qed simp

definition not_digit_next :: "string \<Rightarrow> bool" where
  "not_digit_next r \<longleftrightarrow> (case r of [] \<Rightarrow> True | c # _ \<Rightarrow> digit_val c = None)"

lemma read_digits_stop: "not_digit_next r \<Longrightarrow> read_digits acc k r = (acc, k, r)"
  by (cases r) (simp_all add: not_digit_next_def)

lemma nat_lit_head: "0 < n \<Longrightarrow> \<exists>d s. nat_lit n = digit_char d # s \<and> 0 < d \<and> d < 10"
proof (induction n rule: nat_lit.induct)
  case (1 n)
  show ?case
  proof (cases "n < 10")
    case True
    then show ?thesis using 1(2) by (subst nat_lit.simps) auto
  next
    case False
    then have "0 < n div 10" by simp
    from 1(1) [OF False this] False show ?thesis by (subst nat_lit.simps) auto
  qed
qed

lemma nat_lit_0 [simp]: "nat_lit 0 = [digit_char 0]"
  by (simp add: nat_lit.simps)

lemma read_int_part_lit:
  assumes "not_digit_next r" shows "read_int_part (nat_lit n @ r) = Some (n, r)"
proof (cases "n = 0")
  case False
  then obtain d s where lit: "nat_lit n = digit_char d # s" "0 < d" "d < 10"
    using nat_lit_head by blast
  have "read_digits 0 0 (nat_lit n @ r) = (n, length (nat_lit n), r)"
    by (simp add: read_digits_lit read_digits_stop [OF assms])
  then have "read_digits d (0 + 1) (s @ r) = (n, Suc (length s), r)" using lit by simp
  then have "\<exists>k. read_digits d 0 (s @ r) = (n, k, r)"
    unfolding read_digits_count by (auto split: prod.splits)
  with lit show ?thesis by (auto simp: read_int_part_def)
qed (simp add: read_int_part_def)

text \<open>What may follow a number in a text.\<close>

definition num_stop :: "string \<Rightarrow> bool" where
  "num_stop r \<longleftrightarrow> not_digit_next r \<and>
     (case r of [] \<Rightarrow> True | c # _ \<Rightarrow> c \<noteq> CHR ''.'' \<and> c \<noteq> CHR ''e'' \<and> c \<noteq> CHR ''E'')"

lemma read_tail: "num_stop r \<Longrightarrow> read_fraction n r = Some (n, 0, r) \<and> read_exponent r = Some (0, r)"
  by (cases r) (auto simp: num_stop_def read_fraction_def read_exponent_def)

lemma digit_not_minus: "d < 10 \<Longrightarrow> digit_char d \<noteq> CHR ''-''"
  using digit_val_char [of d] by (auto simp: digit_val_def simp del: digit_val_char)

lemma nat_lit_cases: "\<exists>d s. nat_lit n = digit_char d # s \<and> d < 10"
  using nat_lit_head [of n] by (cases "n = 0") auto

lemma parse_number_lit:
  assumes "num_stop r" shows "parse_number (num_lit m 0 @ r) = Some (JNumber m 0, r)"
proof -
  have stop: "not_digit_next r" using assms by (simp add: num_stop_def)
  obtain d s where lit: "nat_lit (nat m) = digit_char d # s" "d < 10" using nat_lit_cases by blast
  have "read_int_part (digit_char d # s @ r) = Some (nat m, r)"
    using read_int_part_lit [OF stop, of "nat m"] lit by simp
  with read_int_part_lit [OF stop, of "nat (- m)"] read_tail [OF assms] lit digit_not_minus [OF lit(2)]
  show ?thesis by (cases "m < 0") (simp_all add: parse_number_def num_lit_def int_lit_def)
qed

section \<open>Strings\<close>

lemma hex_val_char: "d < 16 \<Longrightarrow> hex_val (hex_char d) = Some d"
  by (simp add: hex_val_def hex_char_def)

lemma char_eqI: "(of_char c :: nat) = of_char d \<Longrightarrow> c = d"
  by simp

lemma read_escaped:
  "read_string (Suc k) (escape_char c @ t) = map_option (\<lambda>(u, r). (c # u, r)) (read_string k t)"
proof -
  let ?n = "of_char c :: nat"
  have c: "c = char_of ?n" by simp
  consider "?n = 34" | "?n = 92" | "?n = 8" | "?n = 9" | "?n = 10" | "?n = 12" | "?n = 13"
    | "?n < 32" "?n \<notin> {8, 9, 10, 12, 13}" | "?n \<ge> 32" "?n \<noteq> 34" "?n \<noteq> 92" by fastforce
  then show ?thesis
  proof cases
    case 8
    have "16 * (?n div 16) + ?n mod 16 = ?n" by simp
    then have "char_of (16 * (?n div 16) + ?n mod 16) = c" using c by metis
    moreover have "hex_val (hex_char (?n div 16)) = Some (?n div 16)"
      "hex_val (hex_char (?n mod 16)) = Some (?n mod 16)"
      using 8 by (simp_all add: hex_val_char)
    moreover have "hex_val CHR ''0'' = Some 0" by (simp add: hex_val_def)
    ultimately show ?thesis using 8
      by (simp add: escape_char_def Let_def read_escape_def)
  next
    case 9
    then have "c \<noteq> CHR 0x22" "c \<noteq> CHR 0x5C" by auto
    with 9 show ?thesis by (simp add: escape_char_def Let_def)
  qed (use c in \<open>auto simp: escape_char_def Let_def read_escape_def intro!: arg_cong [of _ _ "\<lambda>c. map_option (\<lambda>(u, r). (c # u, r)) X" for X] char_eqI\<close>)
qed

lemma escape_nonempty: "1 \<le> length (escape_char c)"
  by (simp add: escape_char_def Let_def)

lemma read_string_lit:
  "length s < k \<Longrightarrow> read_string k (concat (map escape_char s) @ CHR 0x22 # r) = Some (s, r)"
proof (induction s arbitrary: k)
  case Nil
  then show ?case by (cases k) simp_all
next
  case (Cons c s)
  then obtain k' where "k = Suc k'" "length s < k'" by (cases k) auto
  with Cons.IH show ?case by (simp add: read_escaped)
qed

lemma length_escaped: "length s \<le> length (concat (map escape_char s))"
proof (induction s)
  case (Cons c s)
  then show ?case using escape_nonempty [of c] by simp
qed simp

lemma parse_string_lit [simp]: "parse_string (string_lit s @ r) = Some (s, r)"
  using length_escaped [of s] by (simp add: parse_string_def string_lit_def read_string_lit)

section \<open>Values\<close>

lemma skip_simps [simp]: "skip [] = []" "\<not> is_space c \<Longrightarrow> skip (c # s) = c # s"
  by (simp_all add: skip_def)

lemma digit_heads:
  assumes "d < 10"
  shows "\<not> is_space (digit_char d)" and "digit_char d \<notin> set ''ntf[{]}'' \<union> {CHR 0x22}"
  using digit_val_char [OF assms] by (auto simp: is_space_def digit_val_def simp del: digit_val_char)

text \<open>The first character of a printed value.\<close>

lemma num_lit_head:
  "\<exists>c s. num_lit m 0 = c # s \<and> \<not> is_space c \<and> c \<notin> set ''ntf[{]}'' \<union> {CHR 0x22}"
proof (cases "m < 0")
  case True
  then show ?thesis by (auto simp: num_lit_def int_lit_def is_space_def)
next
  case False
  obtain d s where "nat_lit (nat m) = digit_char d # s" "d < 10" using nat_lit_cases by blast
  then show ?thesis using False digit_heads [of d] by (simp add: num_lit_def int_lit_def)
qed

lemma json_head:
  assumes "json_whole v"
  shows "\<exists>c s. json_stringify v = c # s \<and> \<not> is_space c \<and> c \<noteq> CHR '']'' \<and> c \<noteq> CHR ''}''"
  using assms num_lit_head by (cases v) (fastforce simp: is_space_def string_lit_def)+

fun need :: "json \<Rightarrow> nat" where
  "need (JArray vs) = Suc (Suc (foldr (\<lambda>v n. Suc (max (need v) n)) vs 0))"
| "need (JObject fs) = Suc (Suc (foldr (\<lambda>f n. Suc (max (need (snd f)) n)) fs 0))"
| "need _ = 1"

definition needs :: "json list \<Rightarrow> nat" where
  "needs vs = foldr (\<lambda>v n. Suc (max (need v) n)) vs 0"

lemma needs_simps [simp]: "needs [] = 0" "needs (v # vs) = Suc (max (need v) (needs vs))"
  by (simp_all add: needs_def)

lemma need_nested: "need (JArray vs) = Suc (Suc (needs vs))"
  "need (JObject fs) = Suc (Suc (needs (map snd fs)))"
  by (simp_all add: needs_def foldr_map comp_def)

declare need.simps(1,2) [simp del]

definition parses :: "json \<Rightarrow> bool" where
  "parses v \<longleftrightarrow> (\<forall>n r. need v \<le> n \<longrightarrow> num_stop r \<longrightarrow>
     parse_value n (json_stringify v @ r) = Some (v, r))"

lemma parsesD: "parses v \<Longrightarrow> need v \<le> n \<Longrightarrow> num_stop r \<Longrightarrow>
    parse_value n (json_stringify v @ r) = Some (v, r)"
  by (simp add: parses_def)

lemma parsesI:
  assumes "\<And>k r. need v \<le> Suc k \<Longrightarrow> num_stop r \<Longrightarrow>
    parse_value (Suc k) (json_stringify v @ r) = Some (v, r)"
  shows "parses v"
  unfolding parses_def
proof (intro allI impI)
  fix n r
  assume "need v \<le> n" and "num_stop r"
  moreover from this(1) have "n = Suc (n - 1)" by (cases v) (simp_all add: need_nested)
  ultimately show "parse_value n (json_stringify v @ r) = Some (v, r)" using assms by metis
qed

lemma num_stop_punct [simp]:
  "num_stop (CHR '','' # r)" "num_stop (CHR '']'' # r)" "num_stop (CHR ''}'' # r)"
  by (simp_all add: num_stop_def not_digit_next_def digit_val_def)

lemma not_space_punct [simp]:
  "\<not> is_space CHR '',''" "\<not> is_space CHR '']''" "\<not> is_space CHR ''}''" "\<not> is_space CHR '':''"
  "\<not> is_space CHR 0x22" "\<not> is_space CHR ''[''" "\<not> is_space CHR ''{''"
  "\<not> is_space CHR ''n''" "\<not> is_space CHR ''t''" "\<not> is_space CHR ''f''"
  by (simp_all add: is_space_def)

lemma commas_Cons: "commas (x # xs) = x @ (if xs = [] then [] else CHR '','' # commas xs)"
  by (cases xs) simp_all

lemma parse_items_lit:
  assumes "\<And>v. v \<in> set vs \<Longrightarrow> parses v" and "vs \<noteq> []" and "needs vs < n"
  shows "parse_items n (commas (map json_stringify vs) @ CHR '']'' # r) = Some (vs, r)"
  using assms
proof (induction vs arbitrary: n)
  case (Cons v vs)
  then obtain k where k: "n = Suc k" "need v \<le> k" "needs vs < k" by (cases n) auto
  show ?case
  proof (cases "vs = []")
    case True
    then show ?thesis using k parsesD [of v k "CHR '']'' # r"] Cons.prems(1) by (simp add: commas_Cons)
  next
    case False
    then show ?thesis
      using k Cons.IH [of k] Cons.prems(1)
        parsesD [of v k "CHR '','' # commas (map json_stringify vs) @ CHR '']'' # r"]
      by (simp add: commas_Cons)
  qed
qed simp

lemma map_set_fresh: "k \<notin> fst ` set fs \<Longrightarrow> map_set fs k v = fs @ [(k, v)]"
  unfolding map_set_def by (induction fs) auto

lemma parse_fields_lit:
  assumes "\<And>f. f \<in> set fs \<Longrightarrow> parses (snd f)" and "fs \<noteq> []" and "needs (map snd fs) < n"
    and "distinct (map fst (fs0 @ fs))"
  shows "parse_fields n fs0
     (commas (map (\<lambda>f. string_lit (fst f) @ CHR '':'' # json_stringify (snd f)) fs) @ CHR ''}'' # r) =
     Some (fs0 @ fs, r)"
  using assms
proof (induction fs arbitrary: n fs0)
  case (Cons f fs)
  then obtain k where k: "n = Suc k" "need (snd f) \<le> k" "needs (map snd fs) < k" by (cases n) auto
  let ?tail = "commas (map (\<lambda>f. string_lit (fst f) @ CHR '':'' # json_stringify (snd f)) fs) @ CHR ''}'' # r"
  have sk: "skip (string_lit s @ t) = string_lit s @ t" for s t by (simp add: string_lit_def)
  have fresh: "map_set fs0 (fst f) (snd f) = fs0 @ [f]"
    using Cons.prems(4) by (simp add: map_set_fresh)
  show ?case
  proof (cases "fs = []")
    case True
    then show ?thesis
      using k parsesD [of "snd f" k "CHR ''}'' # r"] Cons.prems(1) sk fresh
      by (simp add: commas_Cons)
  next
    case False
    then show ?thesis
      using k Cons.IH [of k "fs0 @ [f]"] Cons.prems(1,4) sk fresh
        parsesD [of "snd f" k "CHR '','' # ?tail"]
      by (simp add: commas_Cons)
  qed
qed simp

lemma parse_word_lit [simp]: "parse_word w v (w @ r) = Some (v, r)"
  by (simp add: parse_word_def)

lemma stringify_parses: "json_wf v \<Longrightarrow> json_whole v \<Longrightarrow> parses v"
proof (induction v)
  case JNull
  then show ?case using parse_word_lit [of "''null''"] by (auto intro!: parsesI)
next
  case (JBool b)
  then show ?case using parse_word_lit [of "''true''"] parse_word_lit [of "''false''"]
    by (cases b) (auto intro!: parsesI)
next
  case (JNumber m e)
  obtain c s where "num_lit m 0 = c # s" "\<not> is_space c" "c \<notin> set ''ntf[{]}'' \<union> {CHR 0x22}"
    using num_lit_head by blast
  then show ?case using JNumber parse_number_lit [of _ m] by (auto intro!: parsesI)
next
  case (JString s)
  have "string_lit s @ r = CHR 0x22 # concat (map escape_char s) @ CHR 0x22 # r" for r
    by (simp add: string_lit_def)
  then show ?case using parse_string_lit [of s] by (auto intro!: parsesI)
next
  case (JArray vs)
  show ?case
  proof (cases vs)
    case Nil
    then show ?thesis by (auto intro!: parsesI simp: need_nested)
  next
    case (Cons v vs')
    then obtain c s where head: "json_stringify v = c # s" "\<not> is_space c" "c \<noteq> CHR '']''"
      using json_head [of v] JArray.prems by auto
    have "parses x" if "x \<in> set vs" for x using JArray that by auto
    from parse_items_lit [of vs, OF this] have
      "needs vs < k \<Longrightarrow> parse_items k (commas (map json_stringify vs) @ CHR '']'' # r) = Some (vs, r)" for k r
      using Cons by auto
    with Cons head show ?thesis
      by (auto intro!: parsesI simp: need_nested commas_Cons)
  qed
next
  case (JObject fs)
  show ?case
  proof (cases fs)
    case Nil
    then show ?thesis by (auto intro!: parsesI simp: need_nested)
  next
    case (Cons f fs')
    have "parses (snd g)" if "g \<in> set fs" for g
      using JObject that by (metis (no_types, lifting) json_whole.simps(2) json_wf.simps(2) snds.intros surjective_pairing)
    from parse_fields_lit [of fs, OF this, of _ "[]"] have
      "needs (map snd fs) < k \<Longrightarrow> parse_fields k []
        (commas (map (\<lambda>f. string_lit (fst f) @ CHR '':'' # json_stringify (snd f)) fs) @ CHR ''}'' # r) =
        Some (fs, r)" for k r
      using Cons JObject.prems(1) by auto
    with Cons show ?thesis
      by (auto intro!: parsesI simp: need_nested commas_Cons string_lit_def)
  qed
qed

section \<open>Fuel\<close>

lemma skip_length: "length (skip s) \<le> length s"
  by (simp add: skip_def length_dropWhile_le)

lemma skip_Cons_length: "skip s = c # r \<Longrightarrow> length r < length s"
  using skip_length [of s] by simp

lemma read_digits_length: "read_digits acc k s = (m, k', r) \<Longrightarrow> length r \<le> length s"
proof (induction acc k s rule: read_digits.induct)
  case (2 acc k c s)
  then show ?case by (cases "digit_val c") fastforce+
qed simp

lemma read_int_part_length: "read_int_part s = Some (n, r) \<Longrightarrow> length r < length s"
  by (auto simp: read_int_part_def dest: read_digits_length split: list.splits option.splits if_splits prod.splits)

lemma read_fraction_length: "read_fraction n s = Some (m, k, r) \<Longrightarrow> length r \<le> length s"
  by (auto simp: read_fraction_def dest: read_digits_length split: list.splits if_splits prod.splits)

lemma read_exponent_length: "read_exponent s = Some (e, r) \<Longrightarrow> length r \<le> length s"
  by (auto simp: read_exponent_def simp del: read_digits.simps dest!: read_digits_length split: list.splits if_splits prod.splits)

lemma parse_number_length: "parse_number s = Some (v, r) \<Longrightarrow> length r < length s"
  by (auto simp: parse_number_def dest!: read_int_part_length read_fraction_length read_exponent_length
      split: option.splits prod.splits list.splits if_splits)

lemma read_escape_length: "read_escape s = Some (c, r) \<Longrightarrow> length r < length s"
  by (auto simp: read_escape_def split: list.splits if_splits option.splits nat.splits)

lemma read_string_length: "read_string k s = Some (t, r) \<Longrightarrow> length r < length s"
proof (induction k s arbitrary: t rule: read_string.induct)
  case (3 k c s)
  then show ?case
    by (auto dest!: read_escape_length split: if_splits option.splits) force+
qed simp_all

lemma parse_string_length: "parse_string s = Some (t, r) \<Longrightarrow> length r < length s"
  by (auto simp: parse_string_def dest!: read_string_length split: list.splits if_splits)

lemma parse_word_length: "parse_word w v s = Some (v', r) \<Longrightarrow> w \<noteq> [] \<Longrightarrow> length r < length s"
  by (cases s) (auto simp: parse_word_def split: if_splits)

lemmas token_lengths = parse_number_length parse_string_length parse_word_length skip_Cons_length

lemma parse_length:
  "parse_value n s = Some (v, r) \<Longrightarrow> length r < length s"
  "parse_items n s = Some (vs, r) \<Longrightarrow> length r < length s"
  "parse_fields n fs s = Some (fs', r) \<Longrightarrow> length r < length s"
proof (induction n s and n s and n fs s arbitrary: v r and vs r and fs' r
    rule: parse_value_parse_items_parse_fields.induct)
  case (2 n s)
  obtain c r0 where s: "skip s = c # r0" using 2(3) by (cases "skip s") auto
  have len: "length (c # r0) \<le> length s" using skip_length [of s] s by simp
  have items: "length r < length (d # r1)"
    if "c = CHR ''[''" "skip r0 = d # r1" "d \<noteq> CHR '']''" "parse_items n (d # r1) = Some (vs, r)" for d r1 vs r
    using 2(1) [OF s _ _ _ _ that(1,2)] that by simp
  have fields: "length r < length (d # r1)"
    if "c = CHR ''{''" "skip r0 = d # r1" "d \<noteq> CHR ''}''" "parse_fields n [] (d # r1) = Some (fs, r)" for d r1 fs r
    using 2(2) [OF s _ _ _ _ _ that(1,2)] that by simp
  consider (arr) "c = CHR ''[''" | (obj) "c = CHR ''{''" | (tok) "c \<noteq> CHR ''[''" "c \<noteq> CHR ''{''" by blast
  then show ?case
  proof cases
    case arr
    then obtain d r1 where sk: "skip r0 = d # r1" using 2(3) s by (cases "skip r0") auto
    then show ?thesis
      using 2(3) s len arr items [OF arr sk] skip_Cons_length [OF sk] by (force split: if_splits)
  next
    case obj
    then obtain d r1 where sk: "skip r0 = d # r1" using 2(3) s by (cases "skip r0") auto
    then show ?thesis
      using 2(3) s len obj fields [OF obj sk] skip_Cons_length [OF sk] by (force split: if_splits)
  next
    case tok
    then show ?thesis
      using 2(3) s len
      by (auto split: if_splits dest!: parse_word_length parse_string_length parse_number_length)
  qed
next
  case (4 n s)
  then show ?case
    by (auto split: if_splits list.splits option.splits dest!: skip_Cons_length) force+
next
  case (6 n fs s)
  then show ?case
    using skip_length [of s]
    by (auto split: if_splits list.splits option.splits dest!: skip_Cons_length parse_string_length) force+
qed simp_all


lemma fuel_irrelevant:
  "2 * length s + 1 \<le> n \<Longrightarrow> 2 * length s + 1 \<le> m \<Longrightarrow> parse_value n s = parse_value m s"
  "2 * length s + 2 \<le> n \<Longrightarrow> 2 * length s + 2 \<le> m \<Longrightarrow> parse_items n s = parse_items m s"
  "2 * length s + 2 \<le> n \<Longrightarrow> 2 * length s + 2 \<le> m \<Longrightarrow> parse_fields n fs s = parse_fields m fs s"
proof (induction n s and n s and n fs s arbitrary: m and m and m
    rule: parse_value_parse_items_parse_fields.induct)
  case (2 n s)
  from 2(4) obtain k where m: "m = Suc k" by (cases m) auto
  show ?case
  proof (cases "skip s")
    case (Cons c r)
    have len: "length r < length s" using skip_Cons_length [OF Cons] .
    have items: "parse_items n (d # r1) = parse_items k (d # r1)"
      if "c = CHR ''[''" "skip r = d # r1" "d \<noteq> CHR '']''" for d r1
      using 2(1) [OF Cons _ _ _ _ that(1,2)] that 2(3,4) m len skip_Cons_length [OF that(2)] by simp
    have fields: "parse_fields n [] (d # r1) = parse_fields k [] (d # r1)"
      if "c = CHR ''{''" "skip r = d # r1" "d \<noteq> CHR ''}''" for d r1
      using 2(2) [OF Cons _ _ _ _ _ that(1,2)] that 2(3,4) m len skip_Cons_length [OF that(2)] by simp
    show ?thesis
    proof (cases "skip r")
      case Nil
      with Cons m show ?thesis by simp
    next
      case sk: (Cons d r1)
      show ?thesis
      proof (cases "c = CHR ''[''")
        case True
        with Cons m sk items [OF True sk] show ?thesis by (cases "d = CHR '']''") simp_all
      next
        case arr: False
        show ?thesis
        proof (cases "c = CHR ''{''")
          case True
          with Cons m sk fields [OF True sk] show ?thesis by (cases "d = CHR ''}''") simp_all
        next
          case False
          with arr Cons m show ?thesis by (simp only: parse_value.simps list.case if_False)
        qed
      qed
    qed
  qed (simp add: m)
next
  case (4 n s)
  from 4(4) obtain k where m: "m = Suc k" by (cases m) auto
  have v: "parse_value n s = parse_value k s" using 4(1) [of k] 4(3,4) m by linarith
  show ?case
  proof (cases "parse_value n s")
    case (Some a)
    obtain v r where a: "a = (v, r)" by force
    have len: "length r < length s" using parse_length(1) Some a by blast
    have "parse_items n r1 = parse_items k r1" if "skip r = CHR '','' # r1" for r1
      using 4(2) [OF Some a [symmetric] that] 4(3,4) m len skip_Cons_length [OF that] by simp
    then show ?thesis using Some a m v by (cases "skip r") auto
  qed (use m v in simp)
next
  case (6 n fs s)
  from 6(4) obtain k where m: "m = Suc k" by (cases m) auto
  show ?case
  proof (cases "parse_string (skip s)")
    case (Some a)
    obtain key r where a: "a = (key, r)" by force
    have r: "length r < length s" using parse_string_length Some a skip_length [of s] by fastforce
    show ?thesis
    proof (cases "skip r")
      case (Cons c r1)
      have r1: "length r1 < length r" using skip_Cons_length [OF Cons] .
      show ?thesis
      proof (cases "c = CHR '':''")
        case True
        have v: "parse_value n r1 = parse_value k r1"
          using 6(1) [OF Some a [symmetric] Cons] True 6(3,4) m r r1 by simp
        show ?thesis
        proof (cases "parse_value n r1")
          case (Some b)
          obtain v r2 where b: "b = (v, r2)" by force
          have r2: "length r2 < length r1" using parse_length(1) Some b by blast
          have "parse_fields n (map_set fs key v) r3 = parse_fields k (map_set fs key v) r3"
            if "skip r2 = CHR '','' # r3" for r3
            using 6(2) [OF \<open>parse_string (skip s) = Some a\<close> a [symmetric] Cons _ Some b [symmetric] that] True 6(3,4) m r r1 r2
              skip_Cons_length [OF that] by simp
          then show ?thesis
            using \<open>parse_string (skip s) = Some a\<close> a Cons True Some b m v by (cases "skip r2") auto
        qed (use \<open>parse_string (skip s) = Some a\<close> a Cons True m v in simp)
      qed (use Some a Cons m in simp)
    qed (use Some a m in simp)
  qed (use m in simp)
qed simp_all

lemma json_parse_fuel: "2 * length s + 1 \<le> n \<Longrightarrow> json_parse s =
    (case parse_value n s of Some (v, r) \<Rightarrow> if skip r = [] then Some v else None | None \<Rightarrow> None)"
  unfolding json_parse_def using fuel_irrelevant(1) [of s "2 * length s + 2" n] by simp

lemma json_roundtrip:
  assumes "json_wf v" and "json_whole v"
  shows "json_parse (json_stringify v) = Some v"
proof -
  let ?s = "json_stringify v"
  let ?n = "max (need v) (2 * length ?s + 1)"
  have "parse_value ?n (?s @ []) = Some (v, [])"
    using stringify_parses [OF assms] by (intro parsesD) (simp_all add: num_stop_def not_digit_next_def)
  then show ?thesis using json_parse_fuel [of ?s ?n] by simp
qed

section \<open>What the parser returns\<close>

text \<open>Whatever the text, a parsed value is well-formed: no object has a key twice.\<close>

lemma update_subset: "set (AList.update k v fs) \<subseteq> insert (k, v) (set fs)"
  by (induction fs) auto

lemma map_set_wf:
  assumes "distinct (map fst fs)" and "\<forall>f \<in> set fs. json_wf (snd f)" and "json_wf v"
  shows "distinct (map fst (map_set fs k v)) \<and> (\<forall>f \<in> set (map_set fs k v). json_wf (snd f))"
  using assms update_subset [of k v fs] by (auto simp: map_set_def distinct_update)

lemma parse_number_wf: "parse_number s = Some (v, r) \<Longrightarrow> json_wf v"
  by (auto simp: parse_number_def split: option.splits if_splits prod.splits)

lemma parse_word_wf: "parse_word t w s = Some (v, r) \<Longrightarrow> json_wf w \<Longrightarrow> json_wf v"
  by (auto simp: parse_word_def split: if_splits)

lemma parse_wf:
  "parse_value n s = Some (v, r) \<Longrightarrow> json_wf v"
  "parse_items n s = Some (vs, r) \<Longrightarrow> \<forall>v \<in> set vs. json_wf v"
  "parse_fields n fs s = Some (fs', r) \<Longrightarrow> distinct (map fst fs) \<Longrightarrow> \<forall>f \<in> set fs. json_wf (snd f) \<Longrightarrow>
     distinct (map fst fs') \<and> (\<forall>f \<in> set fs'. json_wf (snd f))"
proof (induction n s and n s and n fs s arbitrary: v r and vs r and fs' r
    rule: parse_value_parse_items_parse_fields.induct)
  case (2 n s)
  then show ?case
    by (auto split: list.splits if_splits option.splits dest: parse_word_wf parse_number_wf)
next
  case (4 n s)
  then show ?case by (fastforce split: list.splits if_splits option.splits)
next
  case (6 n fs s)
  obtain k r0 where k: "parse_string (skip s) = Some (k, r0)"
    using 6(3) by (auto split: option.splits)
  obtain c r1 where r1: "skip r0 = c # r1" and c: "c = CHR '':''"
    using 6(3) k by (auto split: list.splits if_splits)
  obtain v r2 where v: "parse_value n r1 = Some (v, r2)"
    using 6(3) k r1 by (auto split: option.splits)
  obtain d r3 where d: "skip r2 = d # r3"
    using 6(3) k r1 c v by (auto split: list.splits)
  have wf: "distinct (map fst (map_set fs k v)) \<and> (\<forall>f \<in> set (map_set fs k v). json_wf (snd f))"
    using map_set_wf [OF 6(4,5) 6(1) [OF k _ r1 _ v]] c by simp
  show ?case
  proof (cases "d = CHR ''}''")
    case True
    then show ?thesis using 6(3) k r1 c v d wf by simp
  next
    case False
    then have "parse_fields n (map_set fs k v) r3 = Some (fs', r)" and "d = CHR '',''"
      using 6(3) k r1 c v d by (simp_all split: if_splits)
    then show ?thesis using 6(2) [OF k _ r1 _ v _ d] False c wf by blast
  qed
qed simp_all

lemma json_parse_wf:
  assumes "json_parse s = Some v" shows "json_wf v"
  using assms parse_wf(1) unfolding json_parse_def
  by (auto simp del: parse_value.simps split: option.splits if_splits)

end
