(* ===== verification/Rpc.thy ===== *)
theory Rpc
  imports JsonFacts
begin

text \<open>
  The wire format of \<open>src/rpc/Rpc.ts\<close>, the proxy of \<open>RpcProxy.ts\<close> that turns a method call into a
  message, and the dispatch of an incoming message: \<open>P2PManager.onRpc\<close> finds the method of
  \<open>MainRpcService\<close> and that method forwards its arguments to one of the services. An argument is
  \<open>None\<close> when it is \<open>undefined\<close>.
\<close>

section \<open>Messages\<close>

record rpc =
  rpc_method :: string
  rpc_params :: json

definition serializeRpc :: "rpc \<Rightarrow> string" where
  "serializeRpc rpc =
     json_stringify (JObject [(''method'', JString (rpc_method rpc)), (''params'', rpc_params rpc)])"

text \<open>Truthiness of a parsed value.\<close>

fun truthy :: "json \<Rightarrow> bool" where
  "truthy JNull = False"
| "truthy (JBool b) = b"
| "truthy (JNumber m e) = (m \<noteq> 0)"
| "truthy (JString s) = (s \<noteq> [])"
| "truthy (JArray vs) = True"
| "truthy (JObject fs) = True"

text \<open>\<open>value.key\<close>; only objects have fields of these names.\<close>

fun json_field :: "json \<Rightarrow> string \<Rightarrow> json option" where
  "json_field (JObject fs) key = map_get fs key"
| "json_field _ key = None"

definition deserializeRpc :: "string \<Rightarrow> rpc option" where
  "deserializeRpc serializedRpc =
     (case json_parse serializedRpc of
        None \<Rightarrow> None
      | Some rpc \<Rightarrow>
          if \<not> truthy rpc then None
          else (case json_field rpc ''method'' of
                  Some (JString m) \<Rightarrow>
                    (case json_field rpc ''params'' of
                       None \<Rightarrow> None
                     | Some p \<Rightarrow> if \<not> truthy p then None else Some \<lparr>rpc_method = m, rpc_params = p\<rparr>)
                | _ \<Rightarrow> None))"

text \<open>\<open>rpcProxy.method(...args)\<close>: an undefined argument inside an array is sent as \<open>null\<close>.\<close>

definition proxy_call :: "string \<Rightarrow> json option list \<Rightarrow> rpc" where
  "proxy_call method args =
     \<lparr>rpc_method = method, rpc_params = JArray (map (\<lambda>a. case a of None \<Rightarrow> JNull | Some v \<Rightarrow> v) args)\<rparr>"

section \<open>The methods of MainRpcService\<close>

datatype service_call =
  SC_initHandshakeRequest "json option" "json option"
| SC_initHandshakeResponse "json option" "json option" "json option"
| SC_offerWebRTC "json option"
| SC_answerWebRTC "json option"
| SC_iceCandidate "json option"
| SC_signJoinChannelTEST "json option" "json option"
| SC_canJoinLeaderRequest
| SC_canJoinLeaderResponse "json option" "json option"
| SC_joinChannelRequest "json option" "json option"
| SC_signedBlock "json option"
| SC_blockConfirmation "json option" "json option"

text \<open>
  Each method with the call it forwards to, given the positional arguments.
\<close>

definition main_methods :: "(string \<times> (json list \<Rightarrow> service_call)) list" where
  "main_methods =
     [(''onInitHandshakeRequest'', \<lambda>a. SC_initHandshakeRequest (nth_opt a 0) (nth_opt a 1)),
      (''onInitHandshakeResponse'', \<lambda>a. SC_initHandshakeResponse (nth_opt a 0) (nth_opt a 1) (nth_opt a 2)),
      (''onOfferWebRTC'', \<lambda>a. SC_offerWebRTC (nth_opt a 0)),
      (''onAnswerWebRTC'', \<lambda>a. SC_answerWebRTC (nth_opt a 0)),
      (''onIceCandidate'', \<lambda>a. SC_iceCandidate (nth_opt a 0)),
      (''onSignJoinChannelTEST'', \<lambda>a. SC_signJoinChannelTEST (nth_opt a 0) (nth_opt a 1)),
      (''onCanJoinLeaderRequest'', \<lambda>a. SC_canJoinLeaderRequest),
      (''onCanJoinLeaderResponse'', \<lambda>a. SC_canJoinLeaderResponse (nth_opt a 0) (nth_opt a 1)),
      (''onJoinChannelRequest'', \<lambda>a. SC_joinChannelRequest (nth_opt a 0) (nth_opt a 1)),
      (''onSignedBlock'', \<lambda>a. SC_signedBlock (nth_opt a 0)),
      (''onBlockConfirmation'', \<lambda>a. SC_blockConfirmation (nth_opt a 0) (nth_opt a 1))]"

text \<open>
  What \<open>hasMethod(localRpcService, name)\<close> also finds: the functions every JavaScript object
  inherits. None of them reaches a service, and what they throw is caught by \<open>onRpc\<close>.
\<close>

definition object_methods :: "string list" where
  "object_methods =
     [''constructor'', ''toString'', ''toLocaleString'', ''valueOf'', ''hasOwnProperty'', ''isPrototypeOf'',
      ''propertyIsEnumerable'', ''__defineGetter__'', ''__defineSetter__'', ''__lookupGetter__'',
      ''__lookupSetter__'']"

definition hasMethod :: "string \<Rightarrow> bool" where
  "hasMethod name \<longleftrightarrow> map_has main_methods name \<or> name \<in> set object_methods"

text \<open>\<open>...rpc.params\<close>: arrays and strings can be spread, anything else is a TypeError.\<close>

fun spread :: "json \<Rightarrow> json list res" where
  "spread (JArray vs) = Inr vs"
| "spread (JString s) = Inr (map (\<lambda>c. JString [c]) s)"
| "spread _ = Inl (TypeError ''Spread syntax requires iterable'')"

text \<open>
  \<open>P2PManager.onRpc\<close>: the service call made, if any. What is thrown synchronously is caught and
  logged.
\<close>

definition p2p_onRpc :: "string \<Rightarrow> service_call option" where
  "p2p_onRpc serializedRpc =
     (case deserializeRpc serializedRpc of
        None \<Rightarrow> None
      | Some rpc \<Rightarrow>
          if \<not> hasMethod (rpc_method rpc) then None
          else (case spread (rpc_params rpc) of
                  Inl _ \<Rightarrow> None
                | Inr args \<Rightarrow> map_option (\<lambda>m. m args) (map_get main_methods (rpc_method rpc))))"

section \<open>Round trip\<close>

definition rpc_sendable :: "rpc \<Rightarrow> bool" where
  "rpc_sendable rpc \<longleftrightarrow> json_wf (rpc_params rpc) \<and> json_whole (rpc_params rpc)"

lemma deserialize_serialize:
  assumes "rpc_sendable rpc" and "truthy (rpc_params rpc)"
  shows "deserializeRpc (serializeRpc rpc) = Some rpc"
proof -
  have "json_parse (serializeRpc rpc) =
      Some (JObject [(''method'', JString (rpc_method rpc)), (''params'', rpc_params rpc)])"
    unfolding serializeRpc_def using assms(1) by (intro json_roundtrip) (auto simp: rpc_sendable_def)
  with assms(2) show ?thesis by (simp add: deserializeRpc_def map_get_def)
qed

definition arg_sendable :: "json option \<Rightarrow> bool" where
  "arg_sendable a \<longleftrightarrow> (case a of None \<Rightarrow> True | Some v \<Rightarrow> json_wf v \<and> json_whole v)"

lemma proxy_call_sendable: "\<forall>a \<in> set args. arg_sendable a \<Longrightarrow> rpc_sendable (proxy_call m args)"
  by (auto simp: rpc_sendable_def proxy_call_def arg_sendable_def split: option.splits)

lemma onRpc_call:
  assumes "map_get main_methods m = Some f" and "\<forall>v \<in> set vs. json_wf v \<and> json_whole v"
  shows "p2p_onRpc (serializeRpc (proxy_call m (map Some vs))) = Some (f vs)"
proof -
  have "rpc_sendable (proxy_call m (map Some vs))"
    using assms(2) by (intro proxy_call_sendable) (auto simp: arg_sendable_def)
  from deserialize_serialize [OF this] have
    "deserializeRpc (serializeRpc (proxy_call m (map Some vs))) = Some (proxy_call m (map Some vs))"
    by (simp add: proxy_call_def)
  moreover have "hasMethod m" using assms(1) by (simp add: hasMethod_def map_has_get)
  ultimately show ?thesis using assms(1)
    by (simp add: p2p_onRpc_def proxy_call_def comp_def)
qed

text \<open>What arrives: the parameters of a message are a well-formed value, and so are the arguments.\<close>

lemma deserialize_wf: "deserializeRpc s = Some r \<Longrightarrow> json_wf (rpc_params r) \<and> truthy (rpc_params r)"
proof -
  assume d: "deserializeRpc s = Some r"
  then obtain v where v: "json_parse s = Some v" by (auto simp: deserializeRpc_def split: option.splits)
  with d obtain fs p where v_eq: "v = JObject fs" and "map_get fs ''params'' = Some p" and "r = \<lparr>rpc_method = rpc_method r, rpc_params = p\<rparr>"
    and "truthy p"
    by (cases v) (auto simp: deserializeRpc_def split: option.splits if_splits json.splits)
  moreover have "\<forall>f \<in> set fs. json_wf (snd f)" using json_parse_wf [OF v] by (simp add: v_eq)
  ultimately show ?thesis by (metis (no_types, lifting) map_get_def map_of_SomeD rpc.select_convs(2) snd_conv)
qed

lemma spread_wf: "spread v = Inr args \<Longrightarrow> json_wf v \<Longrightarrow> \<forall>a \<in> set args. json_wf a"
  by (cases v) auto

lemma onRpc_cases:
  assumes "p2p_onRpc s = Some c"
  obtains r f args where "deserializeRpc s = Some r" and "map_get main_methods (rpc_method r) = Some f"
    and "spread (rpc_params r) = Inr args" and "c = f args"
  using assms by (auto simp: p2p_onRpc_def split: option.splits if_splits sum.splits)

lemma onRpc_unknown: "deserializeRpc s = Some rpc \<Longrightarrow> \<not> map_has main_methods (rpc_method rpc) \<Longrightarrow>
    p2p_onRpc s = None"
  by (simp add: p2p_onRpc_def map_has_get split: sum.splits)

end
