(* ===== verification/Network.thy ===== *)
theory Network
  imports Rpc
begin

text \<open>
  Connections of a peer: the transports of \<open>src/transport\<close>, the profiles of \<open>PeerProfile.ts\<close>, the
  three maps of \<open>ProfileManager.ts\<close> and the open connections of \<open>P2PManager.ts\<close>. Transports and
  profiles are objects shared by reference, so both are heaps and everything else holds indices.
  Closing a Holepunch transport calls back into the manager; the mutual recursion ends because
  each round either drops a mapping or marks a transport closed.
\<close>

section \<open>Objects\<close>

datatype transport_type = HOLEPUNCH | WEBRTC

text \<open>The subclasses of \<open>ATransport\<close>.\<close>

datatype transport_class = HolepunchTransport | WebRTCTransport | LocalTransport

fun transportType :: "transport_class \<Rightarrow> transport_type" where
  "transportType HolepunchTransport = HOLEPUNCH"
| "transportType WebRTCTransport = WEBRTC"
| "transportType LocalTransport = HOLEPUNCH"

text \<open>
  The socket below is third-party code: what was written to it, whether its end was requested and
  its peer banned, and the error a write raises in its present condition.
\<close>

record transport =
  tr_class :: transport_class
  tr_isClosed :: bool
  tr_sent :: "string list"
  tr_ended :: bool
  tr_banned :: bool
  tr_writeError :: "js_error option"

definition transport_new :: "transport_class \<Rightarrow> transport" where
  "transport_new c = \<lparr>tr_class = c, tr_isClosed = False, tr_sent = [], tr_ended = False,
     tr_banned = False, tr_writeError = None\<rparr>"

record peer_profile =
  pp_transport :: "nat option"
  pp_evmAddress :: string
  pp_hpAddress :: "string option"
  pp_isLeader :: bool
  pp_isBlackListed :: bool
  pp_isHandshakeCompleted :: bool

definition profile_new :: "nat \<Rightarrow> string \<Rightarrow> string option \<Rightarrow> peer_profile" where
  "profile_new transport evmAddress hpAddress =
     \<lparr>pp_transport = Some transport, pp_evmAddress = evmAddress, pp_hpAddress = hpAddress,
      pp_isLeader = False, pp_isBlackListed = False, pp_isHandshakeCompleted = False\<rparr>"

definition profile_blacklist :: "peer_profile \<Rightarrow> peer_profile" where
  "profile_blacklist p = p\<lparr>pp_isBlackListed := True\<rparr>"

definition profile_unblacklist :: "peer_profile \<Rightarrow> peer_profile" where
  "profile_unblacklist p = p\<lparr>pp_isBlackListed := False\<rparr>"

definition profile_setTransport :: "nat \<Rightarrow> peer_profile \<Rightarrow> peer_profile" where
  "profile_setTransport t p = p\<lparr>pp_transport := Some t\<rparr>"

definition profile_removeTransport :: "peer_profile \<Rightarrow> peer_profile" where
  "profile_removeTransport p = p\<lparr>pp_transport := None\<rparr>"

definition profile_setIsLeader :: "bool \<Rightarrow> peer_profile \<Rightarrow> peer_profile" where
  "profile_setIsLeader value p = p\<lparr>pp_isLeader := value\<rparr>"

definition profile_setIsHandshakeCompleted :: "bool \<Rightarrow> peer_profile \<Rightarrow> peer_profile" where
  "profile_setIsHandshakeCompleted value p = p\<lparr>pp_isHandshakeCompleted := value\<rparr>"

record connection_challenge =
  randomChallengeHash :: string
  initTime :: int

text \<open>
  The network side of a peer. \<open>senderTransport\<close> and the challenges belong to \<open>MainRpcService\<close> and
  \<open>InitHandshakeService\<close>; calls that wait for the signer are in \<open>nw_signing\<close>.
\<close>

record network =
  nw_transports :: "transport list"
  nw_profiles :: "peer_profile list"
  mapTransportToProfile :: "(nat, nat) js_map"
  mapEvmAddressToProfile :: "(string, nat) js_map"
  mapHpAddressToProfile :: "(string, nat) js_map"
  openConnections :: "nat list"
  preferredTransport :: transport_type
  senderTransport :: "nat option"
  mapTransportToChallenge :: "(nat, connection_challenge) js_map"
  nw_signing :: "(string \<times> int) list"
  nw_connected :: "string list"
  nw_initiated :: "nat list"

definition network_new :: "transport_type \<Rightarrow> network" where
  "network_new preferred =
     \<lparr>nw_transports = [], nw_profiles = [], mapTransportToProfile = [], mapEvmAddressToProfile = [],
      mapHpAddressToProfile = [], openConnections = [], preferredTransport = preferred,
      senderTransport = None, mapTransportToChallenge = [], nw_signing = [], nw_connected = [],
      nw_initiated = []\<rparr>"

type_synonym 'a net_act = "(network, 'a) act"

section \<open>Sending\<close>

definition tr_send :: "nat option \<Rightarrow> string \<Rightarrow> unit net_act" where
  "tr_send transport serializedRPC s =
     (case transport of
        None \<Rightarrow> (Inl (TypeError ''send''), s)
      | Some t \<Rightarrow>
          (case nth_opt (nw_transports s) t of
             None \<Rightarrow> (Inl (TypeError ''send''), s)
           | Some tr \<Rightarrow>
               (case tr_writeError tr of
                  Some e \<Rightarrow> (Inl e, s)
                | None \<Rightarrow> (Inr (), s\<lparr>nw_transports := (nw_transports s)[t := tr\<lparr>tr_sent :=
                                       tr_sent tr @ [serializedRPC]\<rparr>]\<rparr>))))"

fun send_loop :: "nat list \<Rightarrow> string \<Rightarrow> unit net_act" where
  "send_loop [] msg = sreturn ()"
| "send_loop (t # ts) msg = sbind (tr_send (Some t) msg) (\<lambda>_. send_loop ts msg)"

definition p2p_broadcastRpc :: "string \<Rightarrow> unit net_act" where
  "p2p_broadcastRpc serializedRPC s = send_loop (openConnections s) serializedRPC s"

text \<open>\<open>RpcHandler\<close>.\<close>

definition rpc_broadcast :: "rpc \<Rightarrow> unit net_act" where
  "rpc_broadcast r = p2p_broadcastRpc (serializeRpc r)"

definition rpc_sendOne :: "rpc \<Rightarrow> nat option \<Rightarrow> unit net_act" where
  "rpc_sendOne r t = tr_send t (serializeRpc r)"

definition rpc_sendMultiple :: "rpc \<Rightarrow> nat list \<Rightarrow> unit net_act" where
  "rpc_sendMultiple r ts = send_loop ts (serializeRpc r)"

section \<open>Closing\<close>

definition profileOf :: "network \<Rightarrow> nat \<Rightarrow> nat option" where
  "profileOf s t = map_get (mapTransportToProfile s) t"

definition set_transport :: "nat \<Rightarrow> (transport \<Rightarrow> transport) \<Rightarrow> network \<Rightarrow> network" where
  "set_transport t f s =
     (case nth_opt (nw_transports s) t of
        None \<Rightarrow> s | Some tr \<Rightarrow> s\<lparr>nw_transports := (nw_transports s)[t := f tr]\<rparr>)"

definition is_open :: "network \<Rightarrow> nat \<Rightarrow> bool" where
  "is_open s t \<longleftrightarrow> (case nth_opt (nw_transports s) t of None \<Rightarrow> False | Some tr \<Rightarrow> \<not> tr_isClosed tr)"

text \<open>
  \<open>_close\<close> of the subclasses: what a Holepunch transport does before it calls
  \<open>removeConnection\<close>, and all of it for the other two.
\<close>

definition holepunch_end :: "nat \<Rightarrow> network \<Rightarrow> network" where
  "holepunch_end t s = set_transport t (\<lambda>tr. tr\<lparr>tr_ended := True, tr_banned := True\<rparr>) s"

definition webrtc_close :: "nat \<Rightarrow> unit net_act" where
  "webrtc_close t s = (Inr (), set_transport t (\<lambda>tr. tr\<lparr>tr_ended := True\<rparr>) s)"

definition local_close :: "nat \<Rightarrow> unit net_act" where
  "local_close t s = (Inl (Error ''Method not implemented.''), s)"

lemma set_transport_simps [simp]:
  "mapTransportToProfile (set_transport t f s) = mapTransportToProfile s"
  "openConnections (set_transport t f s) = openConnections s"
  "nw_profiles (set_transport t f s) = nw_profiles s"
  "mapEvmAddressToProfile (set_transport t f s) = mapEvmAddressToProfile s"
  "mapHpAddressToProfile (set_transport t f s) = mapHpAddressToProfile s"
  "profileOf (set_transport t f s) u = profileOf s u"
  "length (nw_transports (set_transport t f s)) = length (nw_transports s)"
  by (simp_all add: set_transport_def profileOf_def split: option.splits)

lemma nth_set_transport:
  "nth_opt (nw_transports (set_transport t f s)) u =
     (if u = t then map_option f (nth_opt (nw_transports s) t) else nth_opt (nw_transports s) u)"
  by (auto simp: set_transport_def nth_opt_def)

lemma is_open_set:
  "is_open (set_transport t f s) u \<longleftrightarrow>
     (if u = t then (case nth_opt (nw_transports s) t of None \<Rightarrow> False | Some tr \<Rightarrow> \<not> tr_isClosed (f tr))
      else is_open s u)"
  unfolding is_open_def nth_set_transport
  by (cases "nth_opt (nw_transports s) t") (simp_all del: nth_opt_None_iff)

text \<open>
  \<open>P2PManager.removeConnection\<close>, \<open>ProfileManager.removeTransport\<close> and \<open>ATransport.close\<close> with the
  subclasses' \<open>_close\<close>.
\<close>

function (sequential) p2p_removeConnection :: "nat \<Rightarrow> unit net_act"
  and pm_removeTransport :: "nat \<Rightarrow> unit net_act"
  and tr_close :: "nat \<Rightarrow> unit net_act" where
  "p2p_removeConnection t s =
     (let s1 = s\<lparr>openConnections := filter (\<lambda>u. u \<noteq> t) (openConnections s)\<rparr>
      in if profileOf s1 t \<noteq> None then pm_removeTransport t s1 else (Inr (), s1))"
| "pm_removeTransport t s =
     (if profileOf s t = None then (Inr (), s)
      else tr_close t (s\<lparr>mapTransportToProfile := map_delete (mapTransportToProfile s) t\<rparr>))"
| "tr_close t s =
     (if \<not> is_open s t then (Inr (), s)
      else
        let s1 = set_transport t (\<lambda>tr. tr\<lparr>tr_isClosed := True\<rparr>) s in
        case tr_class (nw_transports s ! t) of
          HolepunchTransport \<Rightarrow> p2p_removeConnection t (holepunch_end t s1)
        | WebRTCTransport \<Rightarrow> webrtc_close t s1
        | LocalTransport \<Rightarrow> local_close t s1)"
  by pat_completeness auto

termination
proof (relation "measures [\<lambda>x. case x of
      Inl (t, s) \<Rightarrow> (if profileOf s t = None then 0 else 1)
    | Inr (Inl (t, s)) \<Rightarrow> (if profileOf s t = None then 0 else 1)
    | Inr (Inr (t, s)) \<Rightarrow> (if profileOf s t = None then 0 else 1),
    \<lambda>x. case x of
      Inl (t, s) \<Rightarrow> (if is_open s t then 1 else 0)
    | Inr (Inl (t, s)) \<Rightarrow> (if is_open s t then 1 else 0)
    | Inr (Inr (t, s)) \<Rightarrow> (if is_open s t then 1 else 0),
    \<lambda>x. case x of Inl _ \<Rightarrow> 2 | Inr (Inl _) \<Rightarrow> 1 | Inr (Inr _) \<Rightarrow> 0]")
qed (auto simp: holepunch_end_def is_open_set is_open_def nth_set_transport profileOf_def split: option.splits)

lemmas close_defs = holepunch_end_def webrtc_close_def local_close_def

declare p2p_removeConnection.simps [simp del] pm_removeTransport.simps [simp del] tr_close.simps [simp del]

section \<open>ProfileManager and P2PManager\<close>

definition pm_registerProfile :: "nat \<Rightarrow> network \<Rightarrow> network" where
  "pm_registerProfile p s =
     (case nth_opt (nw_profiles s) p of
        None \<Rightarrow> s
      | Some profile \<Rightarrow>
          s\<lparr>mapTransportToProfile :=
              (case pp_transport profile of
                 None \<Rightarrow> mapTransportToProfile s | Some t \<Rightarrow> map_set (mapTransportToProfile s) t p),
            mapEvmAddressToProfile :=
              (if pp_evmAddress profile = [] then mapEvmAddressToProfile s
               else map_set (mapEvmAddressToProfile s) (pp_evmAddress profile) p),
            mapHpAddressToProfile :=
              (case pp_hpAddress profile of
                 None \<Rightarrow> mapHpAddressToProfile s
               | Some a \<Rightarrow> if a = [] then mapHpAddressToProfile s
                           else map_set (mapHpAddressToProfile s) a p)\<rparr>)"

definition pm_unregisterProfile :: "nat \<Rightarrow> network \<Rightarrow> network" where
  "pm_unregisterProfile p s =
     (case nth_opt (nw_profiles s) p of
        None \<Rightarrow> s
      | Some profile \<Rightarrow>
          s\<lparr>mapTransportToProfile :=
              (case pp_transport profile of
                 None \<Rightarrow> mapTransportToProfile s | Some t \<Rightarrow> map_delete (mapTransportToProfile s) t),
            mapEvmAddressToProfile :=
              (if pp_evmAddress profile = [] then mapEvmAddressToProfile s
               else map_delete (mapEvmAddressToProfile s) (pp_evmAddress profile)),
            mapHpAddressToProfile :=
              (case pp_hpAddress profile of
                 None \<Rightarrow> mapHpAddressToProfile s
               | Some a \<Rightarrow> if a = [] then mapHpAddressToProfile s
                           else map_delete (mapHpAddressToProfile s) a)\<rparr>)"

definition set_profile :: "nat \<Rightarrow> (peer_profile \<Rightarrow> peer_profile) \<Rightarrow> network \<Rightarrow> network" where
  "set_profile p f s = s\<lparr>nw_profiles := (nw_profiles s)[p := f (nw_profiles s ! p)]\<rparr>"

definition pm_updateTransport :: "string \<Rightarrow> nat \<Rightarrow> unit net_act" where
  "pm_updateTransport profileAddress newTransport s =
     (case map_get (mapEvmAddressToProfile s) profileAddress of
        None \<Rightarrow> (Inr (), s)
      | Some p \<Rightarrow>
          sbind (case pp_transport (nw_profiles s ! p) of
                   None \<Rightarrow> sreturn () | Some oldTransport \<Rightarrow> pm_removeTransport oldTransport)
            (\<lambda>_. smodify (\<lambda>s.
               (set_profile p (profile_setTransport newTransport) s)
                 \<lparr>mapTransportToProfile := map_set (mapTransportToProfile s) newTransport p\<rparr>)) s)"

definition pm_getProfileByTransport :: "network \<Rightarrow> nat \<Rightarrow> nat option" where
  "pm_getProfileByTransport s transport = map_get (mapTransportToProfile s) transport"

definition pm_getProfileByEvmAddress :: "network \<Rightarrow> string \<Rightarrow> nat option" where
  "pm_getProfileByEvmAddress s evmAddress = map_get (mapEvmAddressToProfile s) evmAddress"

definition pm_getProfileByHpAddress :: "network \<Rightarrow> string \<Rightarrow> nat option" where
  "pm_getProfileByHpAddress s hpAddress = map_get (mapHpAddressToProfile s) hpAddress"

text \<open>The loop runs over the array as it was; \<open>removeConnection\<close> assigns a new one.\<close>

fun disconnect_loop :: "nat list \<Rightarrow> unit net_act" where
  "disconnect_loop [] = sreturn ()"
| "disconnect_loop (t # ts) = sbind (p2p_removeConnection t) (\<lambda>_. disconnect_loop ts)"

definition p2p_disconnectAll :: "unit net_act" where
  "p2p_disconnectAll s = disconnect_loop (openConnections s) s"

end
