(* ===== verification/NetworkFacts.thy ===== *)
theory NetworkFacts
  imports Network
begin

text \<open>
  What closing a connection changes and what it leaves alone, the invariant of the profile maps,
  and the effect of \<open>disconnectAll\<close>.
\<close>

section \<open>The frame of closing\<close>

text \<open>Only transport \<open>t\<close> is touched, and its mapping can only go away.\<close>

definition closes_only :: "nat \<Rightarrow> network \<Rightarrow> network \<Rightarrow> bool" where
  "closes_only t s s' \<longleftrightarrow>
     nw_profiles s' = nw_profiles s \<and>
     mapEvmAddressToProfile s' = mapEvmAddressToProfile s \<and>
     mapHpAddressToProfile s' = mapHpAddressToProfile s \<and>
     length (nw_transports s') = length (nw_transports s) \<and>
     (\<forall>u. u \<noteq> t \<longrightarrow> profileOf s' u = profileOf s u \<and>
        nth_opt (nw_transports s') u = nth_opt (nw_transports s) u) \<and>
     (profileOf s' t = profileOf s t \<or> profileOf s' t = None) \<and>
     (is_open s' t \<longrightarrow> is_open s t) \<and>
     filter (\<lambda>u. u \<noteq> t) (openConnections s') = filter (\<lambda>u. u \<noteq> t) (openConnections s) \<and>
     (t \<in> set (openConnections s') \<longrightarrow> t \<in> set (openConnections s)) \<and>
     map_option tr_class (nth_opt (nw_transports s') t) = map_option tr_class (nth_opt (nw_transports s) t)"

lemma closes_only_refl [simp]: "closes_only t s s"
  by (simp add: closes_only_def)

lemma closes_only_trans: "closes_only t s s1 \<Longrightarrow> closes_only t s1 s2 \<Longrightarrow> closes_only t s s2"
  unfolding closes_only_def by (elim conjE, intro conjI; metis)

lemma closes_only_filter: "closes_only t s (s\<lparr>openConnections := filter (\<lambda>u. u \<noteq> t) (openConnections s)\<rparr>)"
  by (simp add: closes_only_def profileOf_def is_open_def)

lemma closes_only_delete:
  "closes_only t s (s\<lparr>mapTransportToProfile := map_delete (mapTransportToProfile s) t\<rparr>)"
  by (simp add: closes_only_def profileOf_def is_open_def)

lemma closes_only_set:
  assumes "\<And>tr. tr_class (f tr) = tr_class tr" and "\<And>tr. tr_isClosed tr \<Longrightarrow> tr_isClosed (f tr)"
  shows "closes_only t s (set_transport t f s)"
proof -
  have "map_option (tr_class \<circ> f) x = map_option tr_class x" for x
    by (cases x) (simp_all add: assms(1))
  moreover have "is_open (set_transport t f s) t \<Longrightarrow> is_open s t"
    using assms(2) unfolding is_open_set
    by (cases "nth_opt (nw_transports s) t") (auto simp: is_open_def simp del: nth_opt_None_iff)
  ultimately show ?thesis
    by (simp add: closes_only_def nth_set_transport option.map_comp comp_def)
qed

lemma closing_frame:
  "closes_only t s (snd (p2p_removeConnection t s))"
  "closes_only t s (snd (pm_removeTransport t s))"
  "closes_only t s (snd (tr_close t s))"
proof (induction t s and t s and t s rule: p2p_removeConnection_pm_removeTransport_tr_close.induct)
  case (1 t s)
  show ?case
    using 1 closes_only_filter [of t s] closes_only_trans
    by (subst p2p_removeConnection.simps) (simp add: Let_def)
next
  case (2 t s)
  show ?case
    using 2 closes_only_delete [of t s] closes_only_trans
    by (subst pm_removeTransport.simps) simp
next
  case (3 t s)
  let ?s1 = "set_transport t (\<lambda>tr. tr\<lparr>tr_isClosed := True\<rparr>) s"
  let ?s2 = "set_transport t (\<lambda>tr. tr\<lparr>tr_ended := True, tr_banned := True\<rparr>) ?s1"
  let ?s3 = "set_transport t (\<lambda>tr. tr\<lparr>tr_ended := True\<rparr>) ?s1"
  have s1: "closes_only t s ?s1" by (rule closes_only_set) simp_all
  have s2: "closes_only t s ?s2" and s3: "closes_only t s ?s3"
    by (rule closes_only_trans [OF s1], rule closes_only_set; simp)+
  show ?case
  proof (cases "is_open s t \<and> tr_class (nw_transports s ! t) = HolepunchTransport")
    case True
    then have "closes_only t ?s2 (snd (p2p_removeConnection t ?s2))" using 3 by (simp add: close_defs)
    with True closes_only_trans [OF s2] show ?thesis by (subst tr_close.simps) (simp add: close_defs)
  next
    case False
    with s1 s3 show ?thesis
      by (subst tr_close.simps) (auto simp: close_defs Let_def split: transport_class.split)
  qed
qed

text \<open>Once its mapping is gone, closing a transport leaves it closed.\<close>

lemma removeConnection_unmapped:
  "profileOf s t = None \<Longrightarrow>
     p2p_removeConnection t s = (Inr (), s\<lparr>openConnections := filter (\<lambda>u. u \<noteq> t) (openConnections s)\<rparr>)"
  by (subst p2p_removeConnection.simps) (simp add: profileOf_def)

lemma removeConnection_mapped:
  "profileOf s t = Some p \<Longrightarrow> p2p_removeConnection t s =
     pm_removeTransport t (s\<lparr>openConnections := filter (\<lambda>u. u \<noteq> t) (openConnections s)\<rparr>)"
  by (subst p2p_removeConnection.simps) (simp add: profileOf_def)

lemma removeTransport_mapped:
  "profileOf s t = Some p \<Longrightarrow> pm_removeTransport t s =
     tr_close t (s\<lparr>mapTransportToProfile := map_delete (mapTransportToProfile s) t\<rparr>)"
  by (subst pm_removeTransport.simps) simp

lemma removeTransport_unmapped: "profileOf s t = None \<Longrightarrow> pm_removeTransport t s = (Inr (), s)"
  by (subst pm_removeTransport.simps) simp

lemma tr_close_closed: "\<not> is_open (snd (tr_close t s)) t"
proof (cases "is_open s t")
  case True
  let ?s1 = "set_transport t (\<lambda>tr. tr\<lparr>tr_isClosed := True\<rparr>) s"
  have s1: "\<not> is_open ?s1 t" by (simp add: is_open_set split: option.split)
  have "\<not> is_open (set_transport t (\<lambda>tr. tr\<lparr>tr_ended := True\<rparr>) ?s1) t"
    "\<not> is_open (set_transport t (\<lambda>tr. tr\<lparr>tr_ended := True, tr_banned := True\<rparr>) ?s1) t"
    using s1 closes_only_set [of _ t ?s1] by (force simp: closes_only_def)+
  moreover have "\<not> is_open s' t \<Longrightarrow> \<not> is_open (snd (p2p_removeConnection t s')) t" for s'
    using closing_frame(1) [of t s'] by (auto simp: closes_only_def)
  ultimately show ?thesis
    using s1 by (subst tr_close.simps) (simp add: close_defs True Let_def split: transport_class.split)
next
  case False
  then show ?thesis by (subst tr_close.simps) simp
qed

lemma removeTransport_effect:
  assumes "pm_removeTransport t s = (r, s')"
  shows "profileOf s' t = None" and "profileOf s t \<noteq> None \<Longrightarrow> \<not> is_open s' t"
proof -
  let ?s = "s\<lparr>mapTransportToProfile := map_delete (mapTransportToProfile s) t\<rparr>"
  have closed: "tr_close t ?s = (r, s')" if "profileOf s t = Some p" for p
    using assms removeTransport_mapped [OF that] by simp
  show "profileOf s' t = None"
  proof (cases "profileOf s t")
    case (Some p)
    then show ?thesis
      using closed closing_frame(3) [of t ?s] by (simp add: closes_only_def profileOf_def)
  qed (use assms removeTransport_unmapped in simp)
  show "\<not> is_open s' t" if "profileOf s t \<noteq> None"
    using that closed tr_close_closed [of t ?s] by fastforce
qed

lemma removeConnection_effect:
  assumes "p2p_removeConnection t s = (r, s')"
  shows "t \<notin> set (openConnections s')" and "profileOf s' t = None"
    and "profileOf s t \<noteq> None \<Longrightarrow> \<not> is_open s' t"
proof -
  let ?s = "s\<lparr>openConnections := filter (\<lambda>u. u \<noteq> t) (openConnections s)\<rparr>"
  have same: "profileOf ?s t = profileOf s t" by (simp add: profileOf_def)
  show "t \<notin> set (openConnections s')" and "profileOf s' t = None"
    and "profileOf s t \<noteq> None \<Longrightarrow> \<not> is_open s' t"
  proof (atomize (full), cases "profileOf s t")
    case None
    with assms same show "t \<notin> set (openConnections s') \<and> profileOf s' t = None \<and>
        (profileOf s t \<noteq> None \<longrightarrow> \<not> is_open s' t)"
      by (auto simp: removeConnection_unmapped)
  next
    case (Some p)
    then have rt: "pm_removeTransport t ?s = (r, s')" using assms removeConnection_mapped by simp
    then have "closes_only t ?s s'" using closing_frame(2) [of t ?s] by simp
    then have "t \<notin> set (openConnections s')" by (auto simp: closes_only_def)
    with removeTransport_effect [OF rt] Some same
    show "t \<notin> set (openConnections s') \<and> profileOf s' t = None \<and>
        (profileOf s t \<noteq> None \<longrightarrow> \<not> is_open s' t)" by simp
  qed
qed

text \<open>Only a local transport makes closing throw.\<close>

lemma closing_returns:
  "tr_class (nw_transports s ! t) \<noteq> LocalTransport \<Longrightarrow> fst (p2p_removeConnection t s) = Inr ()"
  "tr_class (nw_transports s ! t) \<noteq> LocalTransport \<Longrightarrow> fst (pm_removeTransport t s) = Inr ()"
  "tr_class (nw_transports s ! t) \<noteq> LocalTransport \<Longrightarrow> fst (tr_close t s) = Inr ()"
proof (induction t s and t s and t s rule: p2p_removeConnection_pm_removeTransport_tr_close.induct)
  case (1 t s)
  then show ?case by (subst p2p_removeConnection.simps) (simp add: Let_def)
next
  case (2 t s)
  then show ?case by (subst pm_removeTransport.simps) simp
next
  case (3 t s)
  let ?s1 = "set_transport t (\<lambda>tr. tr\<lparr>tr_isClosed := True\<rparr>) s"
  let ?s2 = "set_transport t (\<lambda>tr. tr\<lparr>tr_ended := True, tr_banned := True\<rparr>) ?s1"
  have "closes_only t s ?s2"
    by (rule closes_only_trans [OF closes_only_set closes_only_set]) simp_all
  then have "map_option tr_class (nth_opt (nw_transports ?s2) t) = map_option tr_class (nth_opt (nw_transports s) t)"
    by (simp only: closes_only_def)
  then have "is_open s t \<Longrightarrow> tr_class (nw_transports ?s2 ! t) = tr_class (nw_transports s ! t)"
    by (auto simp: is_open_def nth_opt_def split: if_splits option.splits)
  then show ?case
    using 3 by (subst tr_close.simps) (auto simp: close_defs Let_def split: transport_class.split)
qed

section \<open>The profile maps\<close>

text \<open>
  A transport is mapped to the profile that holds it, so no two transports share a profile; an
  address is mapped to a profile of that address.
\<close>

definition profile_inv :: "network \<Rightarrow> bool" where
  "profile_inv s \<longleftrightarrow>
     (\<forall>t p. profileOf s t = Some p \<longrightarrow>
        p < length (nw_profiles s) \<and> pp_transport (nw_profiles s ! p) = Some t) \<and>
     (\<forall>a p. map_get (mapEvmAddressToProfile s) a = Some p \<longrightarrow>
        p < length (nw_profiles s) \<and> pp_evmAddress (nw_profiles s ! p) = a)"

lemma profile_inv_new: "profile_inv (network_new tt)"
  by (simp add: profile_inv_def network_new_def profileOf_def)

lemma profile_inv_injective:
  "profile_inv s \<Longrightarrow> profileOf s t = Some p \<Longrightarrow> profileOf s u = Some p \<Longrightarrow> t = u"
  unfolding profile_inv_def by (metis option.inject)

lemma closes_only_inv: "closes_only t s s' \<Longrightarrow> profile_inv s \<Longrightarrow> profile_inv s'"
  unfolding profile_inv_def closes_only_def by (metis option.distinct(1))

lemma removeConnection_inv: "profile_inv s \<Longrightarrow> profile_inv (snd (p2p_removeConnection t s))"
  using closes_only_inv [OF closing_frame(1)] .

lemma disconnect_loop_inv: "profile_inv s \<Longrightarrow> profile_inv (snd (disconnect_loop ts s))"
proof (induction ts arbitrary: s)
  case (Cons t ts)
  show ?case
  proof (cases "p2p_removeConnection t s")
    case (Pair r s1)
    with removeConnection_inv [OF Cons.prems, of t] have "profile_inv s1" by simp
    with Cons.IH Pair show ?thesis by (cases r) (simp_all add: sbind_def)
  qed
qed (simp add: sreturn_def)

lemma registerProfile_inv:
  assumes "profile_inv s" shows "profile_inv (pm_registerProfile p s)"
proof (cases "nth_opt (nw_profiles s) p")
  case (Some profile)
  then have "p < length (nw_profiles s)" "profile = nw_profiles s ! p" by (auto simp: nth_opt_Some_iff)
  with assms show ?thesis
    unfolding pm_registerProfile_def Some profile_inv_def profileOf_def
    by (auto split: option.splits if_splits)
qed (use assms in \<open>simp only: pm_registerProfile_def option.case\<close>)

lemma unregisterProfile_inv:
  assumes "profile_inv s" shows "profile_inv (pm_unregisterProfile p s)"
proof (cases "nth_opt (nw_profiles s) p")
  case (Some profile)
  with assms show ?thesis
    unfolding pm_unregisterProfile_def Some profile_inv_def profileOf_def
    by (auto split: option.splits if_splits)
qed (use assms in \<open>simp only: pm_unregisterProfile_def option.case\<close>)

text \<open>A new profile object, registered.\<close>

definition add_profile :: "peer_profile \<Rightarrow> network \<Rightarrow> network" where
  "add_profile profile s =
     pm_registerProfile (length (nw_profiles s)) (s\<lparr>nw_profiles := nw_profiles s @ [profile]\<rparr>)"

lemma add_profile_inv:
  assumes "profile_inv s" shows "profile_inv (add_profile profile s)"
proof -
  have "profile_inv (s\<lparr>nw_profiles := nw_profiles s @ [profile]\<rparr>)"
    using assms unfolding profile_inv_def profileOf_def by (auto simp: nth_append less_Suc_eq)
  then show ?thesis unfolding add_profile_def by (rule registerProfile_inv)
qed

lemma set_profile_inv:
  assumes "profile_inv s" and "\<And>q. pp_transport (f q) = pp_transport q" and "\<And>q. pp_evmAddress (f q) = pp_evmAddress q"
  shows "profile_inv (set_profile p f s)"
proof -
  let ?qs = "(nw_profiles s)[p := f (nw_profiles s ! p)]"
  have "pp_transport (?qs ! q) = pp_transport (nw_profiles s ! q) \<and>
      pp_evmAddress (?qs ! q) = pp_evmAddress (nw_profiles s ! q)" for q
    using assms(2,3) by (cases "q = p"; cases "p < length (nw_profiles s)") (simp_all add: list_update_beyond)
  then show ?thesis using assms(1) by (simp add: profile_inv_def profileOf_def set_profile_def)
qed

text \<open>
  \<open>updateTransport\<close> drops the mapping of the old transport before it maps the new one, which is
  what keeps the invariant.
\<close>

lemma setTransport_inv:
  assumes "profile_inv s" and "p < length (nw_profiles s)" and "\<And>u. profileOf s u \<noteq> Some p"
  shows "profile_inv ((set_profile p (profile_setTransport t) s)
           \<lparr>mapTransportToProfile := map_set (mapTransportToProfile s) t p\<rparr>)"
  using assms unfolding profile_inv_def profileOf_def set_profile_def profile_setTransport_def
  by (auto simp: nth_list_update split: if_splits)

lemma updateTransport_inv:
  assumes "profile_inv s" shows "profile_inv (snd (pm_updateTransport a t s))"
proof (cases "map_get (mapEvmAddressToProfile s) a")
  case (Some p)
  then have p: "p < length (nw_profiles s)" using assms by (auto simp: profile_inv_def)
  let ?drop = "case pp_transport (nw_profiles s ! p) of None \<Rightarrow> sreturn () | Some u \<Rightarrow> pm_removeTransport u"
  obtain r s1 where drop: "?drop s = (r, s1)" by (cases "?drop s")
  have frame: "profile_inv s1 \<and> nw_profiles s1 = nw_profiles s \<and> (\<forall>u. profileOf s1 u \<noteq> Some p)"
  proof (cases "pp_transport (nw_profiles s ! p)")
    case None
    with drop assms show ?thesis by (auto simp: sreturn_def profile_inv_def)
  next
    case (Some u)
    then have rt: "pm_removeTransport u s = (r, s1)" using drop by simp
    then have only: "closes_only u s s1" using closing_frame(2) [of u s] by simp
    have "profileOf s1 v \<noteq> Some p" for v
    proof
      assume v: "profileOf s1 v = Some p"
      show False
      proof (cases "v = u")
        case True
        with v removeTransport_effect(1) [OF rt] show False by simp
      next
        case False
        with v only have "profileOf s v = Some p" by (simp add: closes_only_def)
        with assms Some False show False by (auto simp: profile_inv_def)
      qed
    qed
    with closes_only_inv [OF only assms] only show ?thesis by (simp add: closes_only_def)
  qed
  show ?thesis
  proof (cases r)
    case (Inr x)
    have "profile_inv ((set_profile p (profile_setTransport t) s1)
        \<lparr>mapTransportToProfile := map_set (mapTransportToProfile s1) t p\<rparr>)"
      using frame p by (intro setTransport_inv) auto
    with Some drop Inr show ?thesis
      by (simp add: pm_updateTransport_def sbind_def smodify_def)
  qed (use Some drop frame in \<open>simp add: pm_updateTransport_def sbind_def\<close>)
qed (use assms in \<open>simp add: pm_updateTransport_def\<close>)

section \<open>disconnectAll\<close>

lemma closes_only_class:
  "closes_only t s s' \<Longrightarrow>
     map_option tr_class (nth_opt (nw_transports s') u) = map_option tr_class (nth_opt (nw_transports s) u)"
  by (cases "u = t") (simp_all add: closes_only_def)

definition no_local :: "nat list \<Rightarrow> network \<Rightarrow> bool" where
  "no_local ts s \<longleftrightarrow> (\<forall>t \<in> set ts. \<exists>tr. nth_opt (nw_transports s) t = Some tr \<and> tr_class tr \<noteq> LocalTransport)"

lemma no_local_frame:
  assumes "closes_only t s s'" and "no_local ts s" shows "no_local ts s'"
  unfolding no_local_def
proof
  fix u
  assume "u \<in> set ts"
  then obtain tr where "nth_opt (nw_transports s) u = Some tr" "tr_class tr \<noteq> LocalTransport"
    using assms(2) by (auto simp: no_local_def)
  then show "\<exists>tr. nth_opt (nw_transports s') u = Some tr \<and> tr_class tr \<noteq> LocalTransport"
    using closes_only_class [OF assms(1), of u] by (cases "nth_opt (nw_transports s') u") auto
qed

lemma disconnect_loop_effect:
  assumes "no_local ts s"
  shows "\<exists>s'. disconnect_loop ts s = (Inr (), s') \<and>
     set (openConnections s') \<subseteq> set (openConnections s) - set ts \<and>
     (\<forall>t \<in> set ts. profileOf s' t = None \<and> (profileOf s t \<noteq> None \<longrightarrow> \<not> is_open s' t)) \<and>
     (\<forall>t. profileOf s t = None \<longrightarrow> profileOf s' t = None) \<and> (\<forall>t. \<not> is_open s t \<longrightarrow> \<not> is_open s' t)"
  using assms
proof (induction ts arbitrary: s)
  case (Cons t ts)
  obtain s1 where rm: "p2p_removeConnection t s = (Inr (), s1)"
    using closing_returns(1) [of s t] Cons.prems
    by (cases "p2p_removeConnection t s") (auto simp: no_local_def nth_opt_Some_iff)
  have only: "closes_only t s s1" using closing_frame(1) [of t s] rm by simp
  note gone = removeConnection_effect [OF rm]
  have "no_local ts s1" using no_local_frame [OF only] Cons.prems by (auto simp: no_local_def)
  from Cons.IH [OF this] obtain s' where s': "disconnect_loop ts s1 = (Inr (), s')"
    "set (openConnections s') \<subseteq> set (openConnections s1) - set ts"
    "\<forall>t \<in> set ts. profileOf s' t = None \<and> (profileOf s1 t \<noteq> None \<longrightarrow> \<not> is_open s' t)"
    "\<forall>t. profileOf s1 t = None \<longrightarrow> profileOf s' t = None" "\<forall>t. \<not> is_open s1 t \<longrightarrow> \<not> is_open s' t" by blast
  have other: "\<forall>u. u \<noteq> t \<longrightarrow> profileOf s1 u = profileOf s u" using only by (simp add: closes_only_def)
  have un: "\<forall>u. profileOf s u = None \<longrightarrow> profileOf s1 u = None"
    using other gone(2) by metis
  have "is_open s1 u \<Longrightarrow> is_open s u" for u
    using only by (cases "u = t") (simp_all add: closes_only_def is_open_def)
  then have un_open: "\<forall>u. \<not> is_open s u \<longrightarrow> \<not> is_open s1 u" by blast
  have "set (filter (\<lambda>u. u \<noteq> t) (openConnections s1)) = set (filter (\<lambda>u. u \<noteq> t) (openConnections s))"
    using only by (simp add: closes_only_def)
  with gone(1) have sub: "set (openConnections s1) \<subseteq> set (openConnections s) - {t}" by auto
  have "disconnect_loop (t # ts) s = (Inr (), s')" using rm s'(1) by (simp add: sbind_def)
  moreover have "set (openConnections s') \<subseteq> set (openConnections s) - set (t # ts)" using s'(2) sub by auto
  moreover have "\<forall>u \<in> set (t # ts). profileOf s' u = None \<and> (profileOf s u \<noteq> None \<longrightarrow> \<not> is_open s' u)"
    using gone(2,3) s'(3-5) other by (metis set_ConsD)
  ultimately show ?case using un un_open s'(4,5) by blast
qed (simp add: sreturn_def)

text \<open>A transport without a profile only leaves the list; its object is as before.\<close>

lemma disconnect_loop_untouched:
  "disconnect_loop ts s = (Inr (), s') \<Longrightarrow> profileOf s u = None \<or> u \<notin> set ts \<Longrightarrow>
     nth_opt (nw_transports s') u = nth_opt (nw_transports s) u"
proof (induction ts arbitrary: s)
  case (Cons t ts)
  obtain s1 where rm: "p2p_removeConnection t s = (Inr (), s1)" and rest: "disconnect_loop ts s1 = (Inr (), s')"
    using Cons.prems(1) by (auto simp: sbind_def split: prod.splits sum.splits)
  have "nth_opt (nw_transports s1) u = nth_opt (nw_transports s) u \<and> (profileOf s1 u = None \<or> u \<notin> set ts)"
  proof (cases "u = t")
    case True
    with Cons.prems(2) have "profileOf s t = None" by auto
    with rm True show ?thesis by (auto simp: removeConnection_unmapped profileOf_def)
  next
    case False
    with closing_frame(1) [of t s] rm Cons.prems(2) show ?thesis by (auto simp: closes_only_def)
  qed
  with Cons.IH [OF rest] show ?case by simp
qed (simp add: sreturn_def)

lemma disconnectAll_effect:
  assumes "no_local (openConnections s) s"
  shows "\<exists>s'. p2p_disconnectAll s = (Inr (), s') \<and> openConnections s' = [] \<and>
     (\<forall>t \<in> set (openConnections s). profileOf s' t = None \<and> (profileOf s t \<noteq> None \<longrightarrow> \<not> is_open s' t)) \<and>
     (\<forall>t. is_open s' t \<longleftrightarrow> is_open s t \<and> \<not> (t \<in> set (openConnections s) \<and> profileOf s t \<noteq> None))"
proof -
  obtain s' where s': "disconnect_loop (openConnections s) s = (Inr (), s')"
    "set (openConnections s') \<subseteq> set (openConnections s) - set (openConnections s)"
    "\<forall>t \<in> set (openConnections s). profileOf s' t = None \<and> (profileOf s t \<noteq> None \<longrightarrow> \<not> is_open s' t)"
    using disconnect_loop_effect [OF assms] by blast
  have "is_open s' t \<longleftrightarrow> is_open s t" if "profileOf s t = None \<or> t \<notin> set (openConnections s)" for t
    using disconnect_loop_untouched [OF s'(1) that] by (simp add: is_open_def)
  with s' show ?thesis unfolding p2p_disconnectAll_def by (metis Diff_cancel empty_set set_empty subset_empty)
qed

end
