(* ===== verification/Handshake.thy ===== *)
theory Handshake
  imports Complex_Main NetworkFacts DataTypes
begin

text \<open>
  \<open>src/rpc/services/InitHandshakeService.ts\<close> and the parts of \<open>P2PManager.ts\<close> and the transports
  that start it. A request handler waits for the signer (\<open>nw_signing\<close>) and then reads
  \<open>senderTransport\<close> again. Local times are whole seconds, times from the network any number; what is not
  a number is \<open>None\<close>, and no comparison with it is true. A promise that is rejected is the \<open>Inl\<close> result of its step.
\<close>

section \<open>Parameters\<close>

text \<open>
  \<open>hs_getBytes\<close> is \<open>ethers.getBytes\<close> on text from the network, which throws when the text is not
  hexadecimal.
\<close>

record hs_params =
  hs_ethers :: ethers
  hs_getBytes :: "string \<Rightarrow> bytes res"
  hs_signMessage :: signer
  hs_signerAddress :: address
  hs_agreementTime :: nat

text \<open>\<open>keccak256\<close> returns hexadecimal text, which \<open>getBytes\<close> reads.\<close>

definition hs_hex_ok :: "hs_params \<Rightarrow> bool" where
  "hs_hex_ok P \<longleftrightarrow> (\<forall>x. hs_getBytes P (keccak256 (hs_ethers P) x) =
     Inr (getBytes (hs_ethers P) (keccak256 (hs_ethers P) x)))"

definition json_int :: "int \<Rightarrow> json" where
  "json_int i = JNumber i 0"

fun transport_type_number :: "transport_type \<Rightarrow> int" where
  "transport_type_number HOLEPUNCH = 0"
| "transport_type_number WEBRTC = 1"

text \<open>\<open>Math.abs(time - reference) > bound\<close>, false when \<open>time\<close> is not a number.\<close>

definition far_from :: "rat option \<Rightarrow> int \<Rightarrow> nat \<Rightarrow> bool" where
  "far_from time reference bound =
     (case time of None \<Rightarrow> False | Some t \<Rightarrow> \<bar>t - of_int reference\<bar> > of_nat bound)"

text \<open>\<open><\<close> on strings.\<close>

fun string_less :: "string \<Rightarrow> string \<Rightarrow> bool" where
  "string_less a [] = False"
| "string_less [] (d # b) = True"
| "string_less (c # a) (d # b) =
     (if (of_char c :: nat) = of_char d then string_less a b else (of_char c :: nat) < of_char d)"

section \<open>The handlers\<close>

definition hs_setChallenge :: "nat \<Rightarrow> connection_challenge \<Rightarrow> network \<Rightarrow> network" where
  "hs_setChallenge transport challenge s =
     s\<lparr>mapTransportToChallenge := map_set (mapTransportToChallenge s) transport challenge\<rparr>"

definition hs_getChallenge :: "network \<Rightarrow> nat \<Rightarrow> connection_challenge option" where
  "hs_getChallenge s transport = map_get (mapTransportToChallenge s) transport"

text \<open>\<open>rand\<close> is what \<open>ethers.randomBytes(32)\<close> returned.\<close>

definition hs_initHandshake :: "hs_params \<Rightarrow> bytes \<Rightarrow> int \<Rightarrow> nat \<Rightarrow> unit net_act" where
  "hs_initHandshake P rand now transport =
     (let randomChallengeHash = keccak256 (hs_ethers P) rand
      in sbind (smodify (hs_setChallenge transport
                  \<lparr>randomChallengeHash = randomChallengeHash, initTime = now\<rparr>))
           (\<lambda>_. rpc_sendOne (proxy_call ''onInitHandshakeRequest''
                  [Some (JString randomChallengeHash), Some (json_int now)]) (Some transport)))"

definition p2p_addConnection :: "hs_params \<Rightarrow> bytes \<Rightarrow> int \<Rightarrow> nat \<Rightarrow> unit net_act" where
  "p2p_addConnection P rand now transport =
     sbind (smodify (\<lambda>s. s\<lparr>openConnections := openConnections s @ [transport]\<rparr>))
       (\<lambda>_. hs_initHandshake P rand now transport)"

text \<open>Before its \<open>await\<close>, and after it.\<close>

definition hs_onInitHandshakeRequest ::
  "hs_params \<Rightarrow> int \<Rightarrow> string \<Rightarrow> rat option \<Rightarrow> unit net_act" where
  "hs_onInitHandshakeRequest P localTime challengeHash time s =
     (if far_from time localTime (hs_agreementTime P) then (Inr (), s)
      else case hs_getBytes P challengeHash of
             Inl e \<Rightarrow> (Inl e, s)
           | Inr challengeHashBytes \<Rightarrow>
               (Inr (), s\<lparr>nw_signing := nw_signing s @ [(challengeHashBytes, localTime)]\<rparr>))"

definition hs_response :: "bytes \<Rightarrow> int \<Rightarrow> transport_type \<Rightarrow> rpc" where
  "hs_response signature localTime preferred =
     proxy_call ''onInitHandshakeResponse''
       [Some (JString signature), Some (json_int localTime),
        Some (json_int (transport_type_number preferred))]"

definition hs_afterSign :: "hs_params \<Rightarrow> bytes \<Rightarrow> int \<Rightarrow> unit net_act" where
  "hs_afterSign P challengeHashBytes localTime s =
     (case hs_signMessage P challengeHashBytes of
        Inl e \<Rightarrow> (Inl e, s)
      | Inr signature \<Rightarrow>
          rpc_sendOne (hs_response signature localTime (preferredTransport s)) (senderTransport s) s)"

text \<open>The profile of a verified address: a new one, or the known one with the new transport.\<close>

definition hs_register :: "address \<Rightarrow> nat \<Rightarrow> nat net_act" where
  "hs_register signerAddress transport s =
     (case pm_getProfileByEvmAddress s signerAddress of
        None \<Rightarrow> (Inr (length (nw_profiles s)), add_profile (profile_new transport signerAddress None) s)
      | Some profile \<Rightarrow>
          sbind (pm_updateTransport (pp_evmAddress (nw_profiles s ! profile)) transport)
            (\<lambda>_. sreturn profile) s)"

definition hs_onInitHandshakeResponse ::
  "hs_params \<Rightarrow> int \<Rightarrow> bytes \<Rightarrow> rat option \<Rightarrow> transport_type option \<Rightarrow> unit net_act" where
  "hs_onInitHandshakeResponse P localTime signature responseTime preferred s =
     (case senderTransport s of
        None \<Rightarrow> (Inl (Error ''senderTransport is undefined''), s)
      | Some t \<Rightarrow>
          (case hs_getChallenge s t of
             None \<Rightarrow> p2p_removeConnection t s
           | Some challenge \<Rightarrow>
               if localTime - initTime challenge > int (hs_agreementTime P) then p2p_removeConnection t s
               else if far_from responseTime (initTime challenge) (hs_agreementTime P)
               then p2p_removeConnection t s
               else (case hs_getBytes P (randomChallengeHash challenge) of
                   Inl e \<Rightarrow> (Inl e, s)
                 | Inr challengeHashBytes \<Rightarrow>
                     (case verifyMessage (hs_ethers P) challengeHashBytes signature of
                        Inl e \<Rightarrow> (Inl e, s)
                      | Inr signerAddress \<Rightarrow>
                          sbind (hs_register signerAddress t) (\<lambda>profile.
                          sbind (smodify (set_profile profile (profile_setIsHandshakeCompleted True))) (\<lambda>_.
                          smodify (\<lambda>s. s\<lparr>
                            nw_initiated := nw_initiated s @
                              (if (preferred = Some WEBRTC \<or> preferredTransport s = WEBRTC) \<and>
                                  transportType (tr_class (nw_transports s ! t)) \<noteq> WEBRTC \<and>
                                  string_less (hs_signerAddress P) signerAddress then [t] else []),
                            nw_connected := nw_connected s @ [signerAddress]\<rparr>))) s))))"

section \<open>Steps of the network\<close>

definition tr_onMessage :: "nat \<Rightarrow> network \<Rightarrow> network" where
  "tr_onMessage t s = s\<lparr>senderTransport := Some t\<rparr>"

text \<open>A new transport: the constructor of \<open>HolepunchTransport\<close>, or \<open>onopen\<close> of a WebRTC channel.\<close>

definition net_connect :: "hs_params \<Rightarrow> transport_class \<Rightarrow> bytes \<Rightarrow> int \<Rightarrow> unit net_act" where
  "net_connect P c rand now s =
     p2p_addConnection P rand now (length (nw_transports s))
       (s\<lparr>nw_transports := nw_transports s @ [transport_new c]\<rparr>)"

inductive net_step :: "hs_params \<Rightarrow> network \<Rightarrow> network \<Rightarrow> bool" for P where
  net_open: "net_step P s (snd (net_connect P c rand now s))"
| net_request: "t < length (nw_transports s) \<Longrightarrow>
     net_step P s (snd (hs_onInitHandshakeRequest P now h time (tr_onMessage t s)))"
| net_signed: "nw_signing s = xs @ (b, now) # ys \<Longrightarrow>
     net_step P s (snd (hs_afterSign P b now (s\<lparr>nw_signing := xs @ ys\<rparr>)))"
| net_response: "t < length (nw_transports s) \<Longrightarrow>
     net_step P s (snd (hs_onInitHandshakeResponse P now sig time preferred (tr_onMessage t s)))"
| net_message: "t < length (nw_transports s) \<Longrightarrow> net_step P s (tr_onMessage t s)"
| net_socket_closed: "net_step P s (snd (tr_close t s))"
| net_channel_closed: "net_step P s (snd (p2p_removeConnection t s))"
| net_disconnect: "net_step P s (snd (p2p_disconnectAll s))"
| net_condition: "net_step P s (set_transport t (\<lambda>tr. tr\<lparr>tr_writeError := e\<rparr>) s)"

section \<open>Lemmas\<close>

lemma map_res_simps [simp]: "far_from None r b = False" "far_from (Some t) r b \<longleftrightarrow> \<bar>t - of_int r\<bar> > of_nat b"
  by (simp_all add: far_from_def)

text \<open>What sending changes: the transports only.\<close>

definition same_profiles :: "network \<Rightarrow> network \<Rightarrow> bool" where
  "same_profiles s s' \<longleftrightarrow> nw_profiles s' = nw_profiles s \<and>
     mapTransportToProfile s' = mapTransportToProfile s \<and>
     mapEvmAddressToProfile s' = mapEvmAddressToProfile s"

lemma same_profiles_inv: "same_profiles s s' \<Longrightarrow> profile_inv s \<Longrightarrow> profile_inv s'"
  by (simp add: same_profiles_def profile_inv_def profileOf_def)

interpretation sp: preserved same_profiles
  by unfold_locales (simp_all add: same_profiles_def)

lemma tr_send_same: "keeps same_profiles (tr_send t m)"
  by (auto simp: keeps_def tr_send_def same_profiles_def split: option.splits)

lemma send_loop_same: "keeps same_profiles (send_loop ts m)"
  by (induction ts) (auto intro: sp.bind sp.pure tr_send_same)

lemma initHandshake_same: "keeps same_profiles (hs_initHandshake P rand now t)"
  unfolding hs_initHandshake_def Let_def rpc_sendOne_def
  by (intro sp.bind sp.modify tr_send_same) (simp add: same_profiles_def hs_setChallenge_def)

lemma addConnection_same: "keeps same_profiles (p2p_addConnection P rand now t)"
  unfolding p2p_addConnection_def
  by (intro sp.bind sp.modify initHandshake_same) (simp add: same_profiles_def)

lemma connect_same: "same_profiles s (snd (net_connect P c rand now s))"
  using addConnection_same [of P rand now "length (nw_transports s)"]
  by (auto simp: keeps_def net_connect_def same_profiles_def)

lemma request_same: "keeps same_profiles (hs_onInitHandshakeRequest P now h time)"
  by (auto simp: keeps_def hs_onInitHandshakeRequest_def same_profiles_def split: sum.splits)

lemma afterSign_same: "keeps same_profiles (hs_afterSign P b now)"
  using tr_send_same
  by (auto simp: keeps_def hs_afterSign_def rpc_sendOne_def same_profiles_def split: sum.splits)

definition keeps_inv :: "network \<Rightarrow> network \<Rightarrow> bool" where
  "keeps_inv s s' \<longleftrightarrow> (profile_inv s \<longrightarrow> profile_inv s')"

interpretation ki: preserved keeps_inv
  by unfold_locales (simp_all add: keeps_inv_def)

lemma register_inv: "keeps keeps_inv (hs_register a t)"
proof -
  have "keeps keeps_inv (pm_updateTransport b t)" for b
    by (simp add: keeps_def keeps_inv_def updateTransport_inv)
  then have "keeps keeps_inv (sbind (pm_updateTransport b t) (\<lambda>_. sreturn p))" for b and p :: nat
    by (intro ki.bind ki.pure)
  then show ?thesis
    by (auto simp: keeps_def hs_register_def keeps_inv_def add_profile_inv split: option.splits)
qed

lemma response_inv: "keeps keeps_inv (hs_onInitHandshakeResponse P now sig time preferred)"
proof -
  have rest: "keeps keeps_inv (sbind (hs_register a t) (\<lambda>p.
      sbind (smodify (set_profile p (profile_setIsHandshakeCompleted True))) (\<lambda>_. smodify (\<lambda>s. s\<lparr>
        nw_initiated := f s, nw_connected := g s\<rparr>))))" for a t f g
    by (intro ki.bind register_inv ki.modify)
      (auto simp: keeps_inv_def profile_setIsHandshakeCompleted_def intro: set_profile_inv,
       simp add: profile_inv_def profileOf_def)
  have rm: "keeps_inv s (snd (p2p_removeConnection t s))" for s t
    by (simp add: keeps_inv_def removeConnection_inv)
  show ?thesis
    unfolding keeps_def hs_onInitHandshakeResponse_def
    using rest rm by (auto simp: keeps_def ki.R_refl split: option.splits sum.splits)
qed

interpretation net_sys: invariant_system "\<lambda>s. \<exists>tt. s = network_new tt" "net_step P" profile_inv for P
proof unfold_locales
  show "profile_inv s" if "\<exists>tt. s = network_new tt" for s using that profile_inv_new by auto
  have on: "profile_inv (tr_onMessage t s)" if "profile_inv s" for t s
    using that by (simp add: tr_onMessage_def profile_inv_def profileOf_def)
  have keep: "profile_inv (snd (m s))" if "keeps same_profiles m" "profile_inv s" for s and m :: "unit net_act"
    using that same_profiles_inv by (auto simp: keeps_def)
  show "profile_inv s'" if "profile_inv s" "net_step P s s'" for s s'
    using that(2,1)
  proof (cases rule: net_step.cases)
    case (net_open c rand now)
    with that(1) show ?thesis using connect_same same_profiles_inv by blast
  next
    case (net_request t now h time)
    with on [OF that(1)] show ?thesis using keep [OF request_same] by blast
  next
    case (net_signed xs b now ys)
    have "profile_inv (s\<lparr>nw_signing := xs @ ys\<rparr>)"
      using that(1) by (simp add: profile_inv_def profileOf_def)
    with net_signed show ?thesis using keep [OF afterSign_same] by blast
  next
    case (net_response t now sig time preferred)
    with on [OF that(1)] response_inv show ?thesis by (auto simp: keeps_def keeps_inv_def)
  next
    case (net_socket_closed t)
    with that(1) show ?thesis using closes_only_inv [OF closing_frame(3)] by blast
  next
    case (net_disconnect)
    with that(1) show ?thesis by (simp add: p2p_disconnectAll_def disconnect_loop_inv)
  next
    case (net_condition t e)
    with that(1) show ?thesis by (simp add: profile_inv_def)
  qed (use that(1) on removeConnection_inv in auto)
qed

section \<open>Registration\<close>

lemma updateTransport_effect:
  assumes "profile_inv s" and p: "map_get (mapEvmAddressToProfile s) a = Some p"
    and run: "pm_updateTransport a t s = (Inr (), s')"
  shows "profileOf s' t = Some p" and "p < length (nw_profiles s')" and "pp_evmAddress (nw_profiles s' ! p) = a"
    and "pp_transport (nw_profiles s ! p) = Some u \<Longrightarrow> profileOf s u \<noteq> None \<Longrightarrow>
      \<not> is_open s' u \<and> (u \<noteq> t \<longrightarrow> profileOf s' u = None)"
proof -
  let ?drop = "case pp_transport (nw_profiles s ! p) of None \<Rightarrow> sreturn () | Some u \<Rightarrow> pm_removeTransport u"
  let ?final = "\<lambda>s. (set_profile p (profile_setTransport t) s)
      \<lparr>mapTransportToProfile := map_set (mapTransportToProfile s) t p\<rparr>"
  obtain s1 where drop: "?drop s = (Inr (), s1)" and s': "s' = ?final s1"
    using run p by (auto simp: pm_updateTransport_def res_simps)
  have old: "p < length (nw_profiles s)" "pp_evmAddress (nw_profiles s ! p) = a"
    using assms(1) p by (auto simp: profile_inv_def)
  have "nw_profiles s1 = nw_profiles s"
  proof (cases "pp_transport (nw_profiles s ! p)")
    case (Some u)
    then show ?thesis using drop closing_frame(2) [of u s] by (auto simp: closes_only_def)
  qed (use drop in \<open>simp add: sreturn_def\<close>)
  with old show "profileOf s' t = Some p" "p < length (nw_profiles s')" "pp_evmAddress (nw_profiles s' ! p) = a"
    by (simp_all add: s' profileOf_def set_profile_def profile_setTransport_def)
  show "\<not> is_open s' u \<and> (u \<noteq> t \<longrightarrow> profileOf s' u = None)"
    if "pp_transport (nw_profiles s ! p) = Some u" "profileOf s u \<noteq> None"
  proof -
    have "pm_removeTransport u s = (Inr (), s1)" using drop that(1) by simp
    from removeTransport_effect [OF this] that(2) show ?thesis
      by (auto simp: s' is_open_def profileOf_def set_profile_def)
  qed
qed

lemma add_profile_effect:
  "profileOf (add_profile (profile_new t a None) s) t = Some (length (nw_profiles s))"
  "nw_profiles (add_profile (profile_new t a None) s) = nw_profiles s @ [profile_new t a None]"
  by (simp_all add: add_profile_def pm_registerProfile_def profile_new_def profileOf_def)

lemma register_effect:
  assumes "profile_inv s" and "hs_register a t s = (Inr p, s')"
  shows "profileOf s' t = Some p \<and> p < length (nw_profiles s') \<and> pp_evmAddress (nw_profiles s' ! p) = a"
proof (cases "map_get (mapEvmAddressToProfile s) a")
  case None
  with assms(2) show ?thesis
    by (auto simp: hs_register_def pm_getProfileByEvmAddress_def add_profile_effect)
      (simp add: profile_new_def)
next
  case (Some q)
  then have a: "pp_evmAddress (nw_profiles s ! q) = a" using assms(1) by (auto simp: profile_inv_def)
  with assms(2) Some have "pm_updateTransport a t s = (Inr (), s')" and "p = q"
    by (auto simp: hs_register_def pm_getProfileByEvmAddress_def res_simps)
  with updateTransport_effect [OF assms(1) Some] show ?thesis by simp
qed

text \<open>A response that leaves the transport mapped was verified.\<close>

lemma response_cases:
  assumes "hs_onInitHandshakeResponse P now sig time preferred s = (r, s')" and "senderTransport s = Some t"
  shows "(\<exists>e. r = Inl e) \<or> p2p_removeConnection t s = (r, s') \<or>
    (\<exists>ch m a p s1. hs_getChallenge s t = Some ch \<and> now - initTime ch \<le> int (hs_agreementTime P) \<and>
       \<not> far_from time (initTime ch) (hs_agreementTime P) \<and>
       hs_getBytes P (randomChallengeHash ch) = Inr m \<and> verifyMessage (hs_ethers P) m sig = Inr a \<and>
       hs_register a t s = (Inr p, s1) \<and> profileOf s' = profileOf s1 \<and>
       openConnections s' = openConnections s1 \<and> nw_transports s' = nw_transports s1 \<and>
       nw_profiles s' = (nw_profiles s1)[p := profile_setIsHandshakeCompleted True (nw_profiles s1 ! p)])"
proof -
  have proj: "profileOf (s1\<lparr>nw_initiated := i, nw_connected := c\<rparr>) = profileOf s1"
    "profileOf (set_profile p f s1) = profileOf s1" for s1 i c p f
    by (simp_all add: profileOf_def fun_eq_iff set_profile_def)
  show ?thesis
  proof (cases "hs_getChallenge s t")
    case None
    with assms show ?thesis by (simp add: hs_onInitHandshakeResponse_def)
  next
    case (Some ch)
    show ?thesis
    proof (cases "now - initTime ch > int (hs_agreementTime P) \<or> far_from time (initTime ch) (hs_agreementTime P)")
      case True
      then have "hs_onInitHandshakeResponse P now sig time preferred s = p2p_removeConnection t s"
        using assms(2) Some unfolding hs_onInitHandshakeResponse_def
        by (cases "now - initTime ch > int (hs_agreementTime P)") simp_all
      with assms(1) show ?thesis by simp
    next
      case ok: False
      show ?thesis
      proof (cases "r")
        case (Inr u)
        obtain m where m: "hs_getBytes P (randomChallengeHash ch) = Inr m"
          using assms Some ok Inr by (auto simp: hs_onInitHandshakeResponse_def split: sum.splits)
        obtain a where a: "verifyMessage (hs_ethers P) m sig = Inr a"
          using assms Some ok Inr m by (auto simp: hs_onInitHandshakeResponse_def split: sum.splits)
        obtain p s1 where reg: "hs_register a t s = (Inr p, s1)"
          and s': "profileOf s' = profileOf s1" "openConnections s' = openConnections s1"
            "nw_transports s' = nw_transports s1"
            "nw_profiles s' = nw_profiles (set_profile p (profile_setIsHandshakeCompleted True) s1)"
          using assms Some ok Inr m a
          by (auto simp: hs_onInitHandshakeResponse_def res_simps proj)
            (simp add: set_profile_def)
        with Some ok m a show ?thesis by (auto simp: set_profile_def)
      qed simp
    qed
  qed
qed

text \<open>A valid response for a known address moves its profile and closes the transport it had.\<close>

lemma response_known:
  assumes inv: "profile_inv s" and t: "senderTransport s = Some t" "hs_getChallenge s t = Some ch"
    and time: "now - initTime ch \<le> int (hs_agreementTime P)" "\<not> far_from time (initTime ch) (hs_agreementTime P)"
    and sig: "hs_getBytes P (randomChallengeHash ch) = Inr m" "verifyMessage (hs_ethers P) m sig = Inr a"
    and known: "pm_getProfileByEvmAddress s a = Some p" "pp_transport (nw_profiles s ! p) = Some u"
      "profileOf s u \<noteq> None" "tr_class (nw_transports s ! u) \<noteq> LocalTransport"
  shows "\<exists>s'. hs_onInitHandshakeResponse P now sig time preferred s = (Inr (), s') \<and>
    profileOf s' t = Some p \<and> pp_evmAddress (nw_profiles s' ! p) = a \<and>
    \<not> is_open s' u \<and> (u \<noteq> t \<longrightarrow> profileOf s' u = None)"
proof -
  have p: "map_get (mapEvmAddressToProfile s) a = Some p" using known(1) by (simp add: pm_getProfileByEvmAddress_def)
  have a: "pp_evmAddress (nw_profiles s ! p) = a" using inv p by (auto simp: profile_inv_def)
  obtain s1 where rm: "pm_removeTransport u s = (Inr (), s1)"
    using closing_returns(2) [OF known(4)] by (cases "pm_removeTransport u s") auto
  then obtain s2 where up: "pm_updateTransport a t s = (Inr (), s2)"
    using p known(2) by (simp add: pm_updateTransport_def sbind_def smodify_def)
  have reg: "hs_register a t s = (Inr p, s2)"
    using known(1) a up by (simp add: hs_register_def sbind_def sreturn_def)
  obtain s' where run: "hs_onInitHandshakeResponse P now sig time preferred s = (Inr (), s')"
    using t time sig reg by (simp add: hs_onInitHandshakeResponse_def sbind_def smodify_def)
  have mapped: "profileOf s2 t = Some p" and closed: "\<not> is_open s2 u" "u \<noteq> t \<longrightarrow> profileOf s2 u = None"
    and adr: "pp_evmAddress (nw_profiles s2 ! p) = a" "p < length (nw_profiles s2)"
    using updateTransport_effect [OF inv p up] known(2,3) by auto
  have "profileOf s' = profileOf s2 \<and> nw_transports s' = nw_transports s2 \<and>
      nw_profiles s' = (nw_profiles s2)[p := profile_setIsHandshakeCompleted True (nw_profiles s2 ! p)]"
    using run t time sig reg
    by (auto simp: hs_onInitHandshakeResponse_def sbind_def smodify_def profileOf_def fun_eq_iff set_profile_def)
  with run mapped closed adr show ?thesis
    by (auto simp: is_open_def profile_setIsHandshakeCompleted_def)
qed

text \<open>Whoever asks gets a signature on any hash, over the transport of the last message.\<close>

lemma signs_any_hash:
  assumes "hs_hex_ok V" and m: "m = getBytes (hs_ethers V) (keccak256 (hs_ethers V) x)"
    and sig: "hs_signMessage V m = Inr sig" and tr: "nth_opt (nw_transports s) t = Some tr" "tr_writeError tr = None"
  shows "\<exists>s1 s2. hs_onInitHandshakeRequest V now (keccak256 (hs_ethers V) x) (Some (of_int now)) (tr_onMessage t s) =
      (Inr (), s1) \<and> nw_signing s1 = nw_signing s @ [(m, now)] \<and> hs_afterSign V m now s1 = (Inr (), s2) \<and>
    tr_sent (nw_transports s2 ! t) = tr_sent tr @ [serializeRpc (hs_response sig now (preferredTransport s))]"
proof -
  let ?s1 = "(tr_onMessage t s)\<lparr>nw_signing := nw_signing s @ [(m, now)]\<rparr>"
  let ?msg = "serializeRpc (hs_response sig now (preferredTransport s))"
  let ?s2 = "?s1\<lparr>nw_transports := (nw_transports s)[t := tr\<lparr>tr_sent := tr_sent tr @ [?msg]\<rparr>]\<rparr>"
  have "hs_onInitHandshakeRequest V now (keccak256 (hs_ethers V) x) (Some (of_int now)) (tr_onMessage t s) = (Inr (), ?s1)"
    using assms(1) m by (simp add: hs_onInitHandshakeRequest_def hs_hex_ok_def tr_onMessage_def)
  moreover have "hs_afterSign V m now ?s1 = (Inr (), ?s2)"
    using sig tr by (simp add: hs_afterSign_def rpc_sendOne_def tr_send_def tr_onMessage_def)
  moreover have "tr_sent (nw_transports ?s2 ! t) = tr_sent tr @ [?msg]"
    using tr(1) by (simp add: nth_opt_Some_iff)
  moreover have "nw_signing ?s1 = nw_signing s @ [(m, now)]" by simp
  ultimately show ?thesis by blast
qed

end
