(* ===== verification/ServiceProperties.thy ===== *)
theory ServiceProperties
  imports JoinChannel Handshake SampleNode
begin

text \<open>
  The properties of the RPC services: collected signatures, requests to join, the wire format,
  connections and the handshake. Witnesses use the sample \<open>ethers\<close> record.
\<close>

section \<open>Collected signatures\<close>

text \<open>
  C34. \<open>SignatureCollectionMap\<close> implements a partial function from keys and signers to
  signatures: \<open>tryInsert\<close> adds a signature exactly when the signer has none under that key, and
  \<open>didEveryoneSign\<close> says that every participant has one.
\<close>

theorem signature_map_refines:
  "scm_abs (scm_tryInsert key v m) =
     (if scm_abs m key (signerAddress v) = None
      then (scm_abs m)(key := (scm_abs m key)(signerAddress v \<mapsto> signerSignature v)) else scm_abs m) \<and>
   scm_didEveryoneSign m key ps = (set ps \<subseteq> dom (scm_abs m key))"
proof
  have "scm_tryInsert key v m = scm_insert key (signerAddress v) (signerSignature v) m"
    by (cases v) (simp add: scm_insert_def)
  then show "scm_abs (scm_tryInsert key v m) =
     (if scm_abs m key (signerAddress v) = None
      then (scm_abs m)(key := (scm_abs m key)(signerAddress v \<mapsto> signerSignature v)) else scm_abs m)"
    by (auto simp: fun_eq_iff scm.look_insert)
  show "scm_didEveryoneSign m key ps = (set ps \<subseteq> dom (scm_abs m key))"
    unfolding scm.complete_iff by (auto simp: dom_def)
qed

section \<open>Requests to join\<close>

text \<open>
  Whatever requests, replies and timers come, a confirmation of the queue only carries
  signatures that recover to the signer they were filed under, or the node's own one filed under
  the joining participant.
\<close>

theorem join_signatures_genuine:
  assumes "f \<in> set (joinChannelQueue (join_run E sign es join_new))"
    and "sig \<in> set (jf_confirmationSignatures f)"
  shows "\<exists>jc. decodeJoinChannel E (sjc_encodedJoinChannel (jf_signedJoinChannel f)) = Inr jc \<and>
    ((\<exists>a. retrieveSignerAddressJoinChannel E jc sig = Inr a) \<or>
     (\<exists>mine. signJoinChannel E sign jc = Inr mine \<and> sig = sjc_signature mine))"
proof -
  have "join_inv E sign (join_run E sign es join_new)" by (rule join_run_inv [OF join_new_inv])
  then have "\<exists>x. signerSignature x = sig \<and>
      join_entry_ok E sign (sjc_encodedJoinChannel (jf_signedJoinChannel f)) x"
    using assms unfolding join_inv_def by blast
  then show ?thesis by (auto simp: join_entry_ok_def)
qed

text \<open>A channel with the request \<open>j\<close> of participant \<open>C\<close>.\<close>

definition sample_jc :: join_channel where
  "sample_jc = \<lparr>jc_channelId = ''ch'', jc_participant = ''C'', jc_amount = Num 1,
     jc_deadlineTimestamp = Num 200, jc_data = []\<rparr>"

definition joinE :: ethers where
  "joinE = sampleE\<lparr>abiDecodeJoinChannel := \<lambda>s. if s = ''j'' then Inr sample_jc else Inl (External ''bad data'')\<rparr>"

definition sample_sjc :: signed_join_channel where
  "sample_sjc = \<lparr>sjc_encodedJoinChannel = ''j'', sjc_signature = sig_of CHR ''C'' ''j''\<rparr>"

definition signA :: signer where
  "signA m = Inr (CHR ''A'' # m)"

lemma joinE_simps [simp]:
  "decodeJoinChannel joinE ''j'' = Inr sample_jc"
  "retrieveSignerAddressJoinChannel joinE jc (sig_of c ''j'') =
     (if c = CHR ''!'' then Inl (External ''invalid signature'') else Inr [c])"
  "signJoinChannel joinE signA jc = Inr \<lparr>sjc_encodedJoinChannel = ''j'', sjc_signature = sig_of CHR ''A'' ''j''\<rparr>"
  by (simp_all add: joinE_def decodeJoinChannel_def retrieveSignerAddressJoinChannel_def encodeJoinChannel_def
      signJoinChannel_def signA_def Let_def sampleE_def sig_of_def)

text \<open>\<open>C\<close> asks, \<open>A\<close> signs, \<open>B\<close> confirms, and \<open>A\<close>'s own signature is sent back to it.\<close>

definition join_echo :: "join_event list" where
  "join_echo =
     [JE_request 100 sample_sjc None, JE_resume 0 (Inr [''A'', ''B'']),
      JE_request 101 sample_sjc (Some (sig_of CHR ''B'' ''j'')), JE_resume 0 (Inr [''A'', ''B'']),
      JE_request 102 sample_sjc (Some (sig_of CHR ''A'' ''j'')), JE_resume 0 (Inr [''A'', ''B''])]"

lemma join_given [simp]: "given (Some (sig_of c e))" "\<not> given None"
  by (simp_all add: given_def sig_of_def)

lemma join_echo_queue:
  "joinChannelQueue (join_run joinE signA join_echo join_new) =
     [\<lparr>jf_signedJoinChannel = sample_sjc, jf_confirmationSignatures =
        [sig_of CHR ''A'' ''j'', sig_of CHR ''B'' ''j'', sig_of CHR ''A'' ''j'']\<rparr>]"
  by (simp add: join_run_def join_echo_def join_new_def join_onRequest_def sample_sjc_def sample_jc_def
      scm_new_def scm_has_def map_has_def nth_opt_def remove_nth_def join_afterSign_def Let_def
      scm_tryInsert_def scm_get_def map_set_def map_get_def join_afterParticipants_def scm_didEveryoneSign_def)

theorem join_signatures_genuine_witness:
  "\<exists>jc. decodeJoinChannel joinE ''j'' = Inr jc \<and>
    ((\<exists>a. retrieveSignerAddressJoinChannel joinE jc (sig_of CHR ''B'' ''j'') = Inr a) \<or>
     (\<exists>mine. signJoinChannel joinE signA jc = Inr mine \<and> sig_of CHR ''B'' ''j'' = sjc_signature mine))"
proof -
  let ?f = "\<lparr>jf_signedJoinChannel = sample_sjc, jf_confirmationSignatures =
        [sig_of CHR ''A'' ''j'', sig_of CHR ''B'' ''j'', sig_of CHR ''A'' ''j'']\<rparr>"
  have "?f \<in> set (joinChannelQueue (join_run joinE signA join_echo join_new))"
    by (simp only: join_echo_queue) simp
  from join_signatures_genuine [OF this, of "sig_of CHR ''B'' ''j''"] show ?thesis
    by (simp add: sample_sjc_def)
qed

text \<open>
  C37. A node that is itself a participant never completes a request to join unless somebody
  sends it its own confirmation: its own signature is filed under the joining participant, not
  under its own address, so \<open>didEveryoneSign\<close> stays false.
\<close>

theorem join_needs_echo:
  assumes "\<forall>e \<in> set es. no_echo E self e"
  shows "joinChannelQueue (join_run E sign es join_new) = []"
proof -
  have "self_absent self join_new" by (simp add: self_absent_def join_new_def)
  from join_run_absent [OF this assms] show ?thesis by (simp add: self_absent_def)
qed

theorem join_needs_echo_witness:
  "joinChannelQueue (join_run joinE signA (take 4 join_echo) join_new) = [] \<and>
   scm_abs (joinChannelMap (join_run joinE signA (take 4 join_echo) join_new)) ''j'' ''B'' \<noteq> None"
proof
  show "joinChannelQueue (join_run joinE signA (take 4 join_echo) join_new) = []"
  proof (rule join_needs_echo)
    show "\<forall>e \<in> set (take 4 join_echo). no_echo joinE ''A'' e"
      by (simp add: join_echo_def sample_sjc_def sample_jc_def)
  qed
  show "scm_abs (joinChannelMap (join_run joinE signA (take 4 join_echo) join_new)) ''j'' ''B'' \<noteq> None"
    by (simp add: join_run_def join_echo_def join_new_def join_onRequest_def sample_sjc_def sample_jc_def
      scm_new_def scm_has_def map_has_def nth_opt_def remove_nth_def join_afterSign_def Let_def
      scm_tryInsert_def scm_get_def map_set_def map_get_def join_afterParticipants_def
      scm_didEveryoneSign_def scm_abs_def signature_by_def)
qed

section \<open>The wire\<close>

text \<open>
  C35. Calling a method of the proxy, printing the message, sending it and handling it on the
  other side with \<open>onRpc\<close> calls the same service method with the same arguments.
\<close>

theorem rpc_roundtrip:
  assumes "map_get main_methods m = Some f" and "\<forall>v \<in> set vs. json_wf v \<and> json_whole v"
  shows "p2p_onRpc (serializeRpc (proxy_call m (map Some vs))) = Some (f vs)"
  by (rule onRpc_call [OF assms])

theorem rpc_roundtrip_witness:
  "p2p_onRpc (serializeRpc (proxy_call ''onInitHandshakeRequest'' [Some (JString ''0xab''), Some (json_int (- 5))])) =
     Some (SC_initHandshakeRequest (Some (JString ''0xab'')) (Some (json_int (- 5))))"
  using rpc_roundtrip [of "''onInitHandshakeRequest''" "\<lambda>a. SC_initHandshakeRequest (nth_opt a 0) (nth_opt a 1)"
      "[JString ''0xab'', json_int (- 5)]"]
  by (simp add: main_methods_def map_get_def json_int_def nth_opt_def)

text \<open>
  C36. Whatever text a peer sends, a service method that \<open>onRpc\<close> calls is one of the table, its
  arguments are well-formed values (no object has a key twice), and printing the parsed message
  again and handling that text makes the same call, when its numbers are whole.
\<close>

theorem received_call_typed:
  assumes "p2p_onRpc s = Some c"
  shows "\<exists>r f args. deserializeRpc s = Some r \<and> map_get main_methods (rpc_method r) = Some f \<and>
    spread (rpc_params r) = Inr args \<and> c = f args \<and> json_wf (rpc_params r) \<and> (\<forall>v \<in> set args. json_wf v) \<and>
    (json_whole (rpc_params r) \<longrightarrow> p2p_onRpc (serializeRpc r) = Some c)"
proof -
  from assms obtain r f args where r: "deserializeRpc s = Some r"
      "map_get main_methods (rpc_method r) = Some f" "spread (rpc_params r) = Inr args" "c = f args"
    by (rule onRpc_cases)
  have wf: "json_wf (rpc_params r)" "Rpc.truthy (rpc_params r)" using deserialize_wf [OF r(1)] by simp_all
  have "p2p_onRpc (serializeRpc r) = Some c" if "json_whole (rpc_params r)"
    using deserialize_serialize [of r] r assms wf that by (simp add: p2p_onRpc_def rpc_sendable_def)
  with r wf spread_wf show ?thesis by blast
qed

text \<open>A message with its \<open>params\<close> given twice, as a string: the last one counts, and is spread.\<close>

definition twice_text :: string where
  "twice_text = ''{\"method\":\"onSignedBlock\", \"params\":[1], \"params\":\"ab\"}''"

lemma twice_text_call: "p2p_onRpc twice_text = Some (SC_signedBlock (Some (JString ''a'')))"
  by code_simp

theorem received_call_typed_witness:
  "\<exists>r args. deserializeRpc twice_text = Some r \<and> spread (rpc_params r) = Inr args \<and> (\<forall>v \<in> set args. json_wf v)"
  using received_call_typed [OF twice_text_call] by blast

section \<open>Connections\<close>

definition sampleHS :: "char \<Rightarrow> hs_params" where
  "sampleHS c = \<lparr>hs_ethers = sampleE,
     hs_getBytes = (\<lambda>s. if s \<noteq> [] \<and> hd s = CHR ''#'' then Inr s else Inl (External ''invalid BytesLike value'')),
     hs_signMessage = (\<lambda>m. Inr (c # m)), hs_signerAddress = [c], hs_agreementTime = 5\<rparr>"

lemma sampleHS_simps [simp]:
  "hs_ethers (sampleHS c) = sampleE" "hs_getBytes (sampleHS c) (CHR ''#'' # s) = Inr (CHR ''#'' # s)"
  "hs_signMessage (sampleHS c) m = Inr (c # m)" "hs_signerAddress (sampleHS c) = [c]"
  "hs_agreementTime (sampleHS c) = 5" "hs_hex_ok (sampleHS c)"
  by (simp_all add: sampleHS_def hs_hex_ok_def)

text \<open>\<open>A\<close> with one new transport, and after \<open>B\<close>'s response on it.\<close>

definition netA :: network where
  "netA = snd (net_connect (sampleHS CHR ''A'') HolepunchTransport ''r'' 100 (network_new HOLEPUNCH))"

definition respond :: "bytes \<Rightarrow> nat \<Rightarrow> network \<Rightarrow> network" where
  "respond sig t s = snd (hs_onInitHandshakeResponse (sampleHS CHR ''A'') 101 sig (Some 100) (Some HOLEPUNCH)
     (tr_onMessage t s))"

definition netAB :: network where
  "netAB = respond (sig_of CHR ''B'' ''r'') 0 netA"

definition trA :: transport where
  "trA = (transport_new HolepunchTransport)\<lparr>tr_sent := [serializeRpc (proxy_call ''onInitHandshakeRequest''
     [Some (JString ''#r''), Some (json_int 100)])]\<rparr>"

lemma netA_eq:
  "netA = (network_new HOLEPUNCH)\<lparr>nw_transports := [trA], openConnections := [0],
     mapTransportToChallenge := [(0, \<lparr>randomChallengeHash = ''#r'', initTime = 100\<rparr>)]\<rparr>"
  by (simp add: netA_def net_connect_def p2p_addConnection_def hs_initHandshake_def act_defs rpc_sendOne_def
      tr_send_def nth_opt_def hs_setChallenge_def network_new_def map_set_def trA_def transport_new_def Let_def)

lemma netAB_eq:
  "netAB = netA\<lparr>senderTransport := Some 0,
     nw_profiles := [(profile_new 0 ''B'' None)\<lparr>pp_isHandshakeCompleted := True\<rparr>],
     mapTransportToProfile := [(0, 0)], mapEvmAddressToProfile := [(''B'', 0)], nw_connected := [''B'']\<rparr>"
  by (simp add: netAB_def respond_def netA_eq tr_onMessage_def hs_onInitHandshakeResponse_def hs_getChallenge_def
      map_get_def hs_register_def pm_getProfileByEvmAddress_def add_profile_def pm_registerProfile_def
      act_defs network_new_def nth_opt_def profile_new_def map_set_def set_profile_def
      profile_setIsHandshakeCompleted_def trA_def transport_new_def)

lemma netAB_steps: "reach (\<lambda>s. \<exists>tt. s = network_new tt) (net_step (sampleHS CHR ''A'')) netAB"
proof -
  have 1: "net_step (sampleHS CHR ''A'') (network_new HOLEPUNCH) netA"
    unfolding netA_def by (rule net_open)
  have "0 < length (nw_transports netA)" by (simp add: netA_eq)
  then have "net_step (sampleHS CHR ''A'') netA netAB"
    unfolding netAB_def respond_def by (rule net_response)
  moreover have "reach (\<lambda>s. \<exists>tt. s = network_new tt) (net_step (sampleHS CHR ''A'')) (network_new HOLEPUNCH)"
    by (rule reach_init) blast
  ultimately show ?thesis using 1 by (meson reach_step)
qed

text \<open>
  C33. In every reachable state of the network, a transport is mapped to the profile that holds
  it, so no two transports share a profile, and an address leads to a profile of that address.
\<close>

theorem profiles_consistent:
  assumes "reach (\<lambda>s. \<exists>tt. s = network_new tt) (net_step P) s"
  shows "(pm_getProfileByTransport s t = Some p \<longrightarrow>
            p < length (nw_profiles s) \<and> pp_transport (nw_profiles s ! p) = Some t) \<and>
    (pm_getProfileByTransport s t = Some p \<and> pm_getProfileByTransport s u = Some p \<longrightarrow> t = u) \<and>
    (pm_getProfileByEvmAddress s a = Some q \<longrightarrow> pp_evmAddress (nw_profiles s ! q) = a)"
  using net_sys.inv_reach [OF assms] profile_inv_injective [of s t p u]
  by (auto simp: profile_inv_def pm_getProfileByTransport_def pm_getProfileByEvmAddress_def profileOf_def)

theorem profiles_consistent_witness:
  "pm_getProfileByTransport netAB 0 = Some 0 \<and> pp_transport (nw_profiles netAB ! 0) = Some 0"
  using profiles_consistent [OF netAB_steps, of 0 0 0 "''B''" 0]
  by (simp add: netAB_eq pm_getProfileByTransport_def map_get_def)

text \<open>
  C21. \<open>disconnectAll\<close> ends with no open connection and no transport of it mapped to a profile,
  and every transport that was mapped is closed, unless one of them is a local one, whose
  \<open>_close\<close> throws.
\<close>

theorem disconnectAll_closes:
  assumes "no_local (openConnections s) s"
  shows "\<exists>s'. p2p_disconnectAll s = (Inr (), s') \<and> openConnections s' = [] \<and>
    (\<forall>t \<in> set (openConnections s). pm_getProfileByTransport s' t = None \<and>
       (pm_getProfileByTransport s t \<noteq> None \<longrightarrow> \<not> is_open s' t))"
  using disconnectAll_effect [OF assms] unfolding pm_getProfileByTransport_def profileOf_def by blast

theorem disconnectAll_closes_witness:
  "\<not> is_open (snd (p2p_disconnectAll netAB)) 0"
proof -
  have "no_local (openConnections netAB) netAB"
    by (simp add: no_local_def netAB_eq netA_eq nth_opt_def trA_def transport_new_def)
  from disconnectAll_closes [OF this] show ?thesis
    by (auto simp: netAB_eq netA_eq pm_getProfileByTransport_def map_get_def)
qed

text \<open>
  A connection whose handshake has not completed is not closed by \<open>removeConnection\<close>: it
  leaves the list, but the transport stays open, its socket is not ended, and a message of its
  peer is handled as before.
\<close>

theorem unregistered_stays_open:
  assumes "pm_getProfileByTransport s t = None"
  shows "fst (p2p_removeConnection t s) = Inr () \<and>
    nw_transports (snd (p2p_removeConnection t s)) = nw_transports s \<and>
    t \<notin> set (openConnections (snd (p2p_removeConnection t s))) \<and>
    fst (hs_onInitHandshakeRequest P now h time (tr_onMessage t (snd (p2p_removeConnection t s)))) =
      fst (hs_onInitHandshakeRequest P now h time (tr_onMessage t s))"
proof -
  have "profileOf s t = None" using assms by (simp add: pm_getProfileByTransport_def profileOf_def)
  then show ?thesis
    by (simp add: removeConnection_unmapped hs_onInitHandshakeRequest_def split: sum.split)
qed

theorem unregistered_stays_open_witness:
  "openConnections (snd (p2p_removeConnection 0 netA)) = [] \<and> is_open (snd (p2p_removeConnection 0 netA)) 0"
proof -
  have "pm_getProfileByTransport netA 0 = None"
    by (simp add: netA_eq network_new_def pm_getProfileByTransport_def)
  from unregistered_stays_open [OF this, of "sampleHS CHR ''A''" 0 "''#h''" None]
    removeConnection_unmapped [of netA 0] this
  show ?thesis
    by (simp add: netA_eq network_new_def profileOf_def pm_getProfileByTransport_def is_open_def nth_opt_def
        trA_def transport_new_def)
qed

section \<open>The handshake\<close>

text \<open>
  C30. When a response leaves its transport mapped to a profile that was not mapped before, the
  response came in time and carries the signature of that profile's address on the challenge
  the node chose for this transport.
\<close>

theorem handshake_authenticates:
  assumes "reach (\<lambda>s. \<exists>tt. s = network_new tt) (net_step P) s"
    and "hs_onInitHandshakeResponse P now sig time preferred (tr_onMessage t s) = (Inr (), s')"
    and "pm_getProfileByTransport s' t = Some p"
  shows "\<exists>ch m. hs_getChallenge s t = Some ch \<and> now - initTime ch \<le> int (hs_agreementTime P) \<and>
    hs_getBytes P (randomChallengeHash ch) = Inr m \<and>
    verifyMessage (hs_ethers P) m sig = Inr (pp_evmAddress (nw_profiles s' ! p)) \<and>
    pp_isHandshakeCompleted (nw_profiles s' ! p)"
proof -
  have inv: "profile_inv (tr_onMessage t s)"
    using net_sys.inv_reach [OF assms(1)] by (simp add: tr_onMessage_def profile_inv_def profileOf_def)
  have mapped: "profileOf s' t = Some p" using assms(3) by (simp add: pm_getProfileByTransport_def profileOf_def)
  then have "p2p_removeConnection t (tr_onMessage t s) \<noteq> (Inr (), s')"
    using removeConnection_effect(2) [of t "tr_onMessage t s" "Inr ()" s'] by auto
  then obtain ch m a q s1 where ch: "hs_getChallenge (tr_onMessage t s) t = Some ch"
    "now - initTime ch \<le> int (hs_agreementTime P)" "hs_getBytes P (randomChallengeHash ch) = Inr m"
    "verifyMessage (hs_ethers P) m sig = Inr a" "hs_register a t (tr_onMessage t s) = (Inr q, s1)"
    "profileOf s' = profileOf s1"
    "nw_profiles s' = (nw_profiles s1)[q := profile_setIsHandshakeCompleted True (nw_profiles s1 ! q)]"
    using response_cases [OF assms(2), of t] by (auto simp: tr_onMessage_def)
  from register_effect [OF inv ch(5)] ch(6) mapped
  have "p = q" "q < length (nw_profiles s1)" "pp_evmAddress (nw_profiles s1 ! q) = a" by auto
  with ch show ?thesis
    by (auto simp: hs_getChallenge_def tr_onMessage_def profile_setIsHandshakeCompleted_def)
qed

lemma netA_reach: "reach (\<lambda>s. \<exists>tt. s = network_new tt) (net_step (sampleHS CHR ''A'')) netA"
proof (rule reach_step [OF reach_init])
  show "net_step (sampleHS CHR ''A'') (network_new HOLEPUNCH) netA" unfolding netA_def by (rule net_open)
qed blast

lemma respond_run:
  "hs_onInitHandshakeResponse (sampleHS CHR ''A'') 101 (sig_of CHR ''B'' ''r'') (Some 100) (Some HOLEPUNCH)
     (tr_onMessage 0 netA) = (Inr (), netAB)"
proof -
  have "fst (hs_onInitHandshakeResponse (sampleHS CHR ''A'') 101 (sig_of CHR ''B'' ''r'') (Some 100) (Some HOLEPUNCH)
     (tr_onMessage 0 netA)) = Inr ()"
    by (simp add: netA_eq tr_onMessage_def hs_onInitHandshakeResponse_def hs_getChallenge_def
      map_get_def hs_register_def pm_getProfileByEvmAddress_def act_defs network_new_def)
  then show ?thesis unfolding netAB_def respond_def by (metis prod.collapse)
qed

theorem handshake_authenticates_witness:
  "\<exists>ch m. hs_getChallenge netA 0 = Some ch \<and> hs_getBytes (sampleHS CHR ''A'') (randomChallengeHash ch) = Inr m \<and>
    verifyMessage sampleE m (sig_of CHR ''B'' ''r'') = Inr ''B''"
proof -
  have "pm_getProfileByTransport netAB 0 = Some 0"
    by (simp add: netAB_eq pm_getProfileByTransport_def map_get_def)
  from handshake_authenticates [OF netA_reach respond_run this] show ?thesis
    by (auto simp: netAB_eq profile_new_def split: if_splits)
qed

text \<open>
  C29. The handshake is a signing oracle: whoever asks with the hash of an encoded block as
  challenge gets, over its own transport, exactly the signature that \<open>signBlock\<close> makes of that
  block. A peer with which it is the author accepts the block as authentic.
\<close>

theorem handshake_signs_blocks:
  assumes "hs_hex_ok V" and m: "m = getBytes (hs_ethers V) (keccak256 (hs_ethers V) (encodeBlock (hs_ethers V) b))"
    and "hs_signMessage V m = Inr sig"
    and "nth_opt (nw_transports s) t = Some tr" and "tr_writeError tr = None"
  shows "\<exists>s1 s2. hs_onInitHandshakeRequest V now (keccak256 (hs_ethers V) (encodeBlock (hs_ethers V) b))
        (Some (of_int now)) (tr_onMessage t s) = (Inr (), s1) \<and> nw_signing s1 = nw_signing s @ [(m, now)] \<and>
    hs_afterSign V m now s1 = (Inr (), s2) \<and>
    tr_sent (nw_transports s2 ! t) = tr_sent tr @ [serializeRpc (hs_response sig now (preferredTransport s))] \<and>
    signBlock (hs_ethers V) (hs_signMessage V) b =
      Inr \<lparr>sb_encodedBlock = encodeBlock (hs_ethers V) b, sb_signature = sig\<rparr> \<and>
    (\<forall>P. p_ethers P = hs_ethers V \<and> verifyMessage (hs_ethers V) m sig = Inr (getBlockAuthor b) \<longrightarrow>
       vs_isSignedBlockAuthentic P \<lparr>sb_encodedBlock = encodeBlock (hs_ethers V) b, sb_signature = sig\<rparr> b
         (getBlockChannelId b) = Inr True)"
proof -
  have "signBlock (hs_ethers V) (hs_signMessage V) b =
      Inr \<lparr>sb_encodedBlock = encodeBlock (hs_ethers V) b, sb_signature = sig\<rparr>"
    using assms(3) m by (simp add: signBlock_def Let_def)
  moreover have "vs_isSignedBlockAuthentic P \<lparr>sb_encodedBlock = encodeBlock (hs_ethers V) b, sb_signature = sig\<rparr> b
         (getBlockChannelId b) = Inr True"
    if "p_ethers P = hs_ethers V" "verifyMessage (hs_ethers V) m sig = Inr (getBlockAuthor b)" for P
    using that m by (simp add: vs_isSignedBlockAuthentic_def Let_def)
  ultimately show ?thesis using signs_any_hash [OF assms] by metis
qed

theorem handshake_signs_blocks_witness:
  "vs_isSignedBlockAuthentic sampleP \<lparr>sb_encodedBlock = ''b0'', sb_signature = sig_of CHR ''B'' ''b0''\<rparr> block0 ''ch'' =
     Inr True \<and>
   (\<exists>s1 s2. hs_onInitHandshakeRequest (sampleHS CHR ''B'') 100 ''#b0'' (Some 100) (tr_onMessage 0 netA) = (Inr (), s1) \<and>
     hs_afterSign (sampleHS CHR ''B'') ''#b0'' 100 s1 = (Inr (), s2) \<and>
     tr_sent (nw_transports s2 ! 0) = tr_sent trA @ [serializeRpc (hs_response (sig_of CHR ''B'' ''b0'') 100 HOLEPUNCH)])"
proof -
  have m: "''#b0'' = getBytes (hs_ethers (sampleHS CHR ''B'')) (keccak256
      (hs_ethers (sampleHS CHR ''B'')) (encodeBlock (hs_ethers (sampleHS CHR ''B'')) block0))"
    and sign: "hs_signMessage (sampleHS CHR ''B'') ''#b0'' = Inr (sig_of CHR ''B'' ''b0'')"
    by (simp_all add: sig_of_def)
  have tr: "nth_opt (nw_transports netA) 0 = Some trA" "tr_writeError trA = None"
    by (simp_all add: netA_eq nth_opt_def trA_def transport_new_def)
  have pref: "preferredTransport netA = HOLEPUNCH" by (simp add: netA_eq network_new_def)
  have "verifyMessage (hs_ethers (sampleHS CHR ''B'')) ''#b0'' (sig_of CHR ''B'' ''b0'') = Inr (getBlockAuthor block0)"
    by simp
  moreover have "p_ethers sampleP = hs_ethers (sampleHS CHR ''B'')" by simp
  ultimately have "vs_isSignedBlockAuthentic sampleP
      \<lparr>sb_encodedBlock = encodeBlock (hs_ethers (sampleHS CHR ''B'')) block0, sb_signature = sig_of CHR ''B'' ''b0''\<rparr>
      block0 (getBlockChannelId block0) = Inr True"
    using handshake_signs_blocks [OF sampleHS_simps(6) m sign tr, of 100] by blast
  with handshake_signs_blocks [OF sampleHS_simps(6) m sign tr, of 100] pref show ?thesis by auto
qed

text \<open>
  A challenge is never withdrawn: a second valid response on the same transport makes the
  node close that very transport, and leaves the profile mapped to the closed one.
\<close>

theorem repeated_response_closes:
  assumes "reach (\<lambda>s. \<exists>tt. s = network_new tt) (net_step P) s"
    and "pm_getProfileByTransport s t = Some p" and "tr_class (nw_transports s ! t) \<noteq> LocalTransport"
    and "pm_getProfileByEvmAddress s a = Some p"
    and "hs_getChallenge s t = Some ch" and "now - initTime ch \<le> int (hs_agreementTime P)"
    and "hs_getBytes P (randomChallengeHash ch) = Inr m" and "verifyMessage (hs_ethers P) m sig = Inr a"
  shows "\<exists>s'. hs_onInitHandshakeResponse P now sig (Some (of_int (initTime ch))) preferred (tr_onMessage t s) = (Inr (), s') \<and>
    pm_getProfileByTransport s' t = Some p \<and> \<not> is_open s' t"
proof -
  let ?s = "tr_onMessage t s"
  have inv: "profile_inv ?s"
    using net_sys.inv_reach [OF assms(1)] by (simp add: tr_onMessage_def profile_inv_def profileOf_def)
  have t: "profileOf ?s t = Some p" using assms(2) by (simp add: pm_getProfileByTransport_def profileOf_def tr_onMessage_def)
  then have "pp_transport (nw_profiles ?s ! p) = Some t" using inv by (auto simp: profile_inv_def)
  from response_known [OF inv _ _ assms(6) _ assms(7,8) _ this, of t "Some (of_int (initTime ch))" preferred] t assms(3-5)
  show ?thesis
    by (auto simp: tr_onMessage_def hs_getChallenge_def pm_getProfileByTransport_def profileOf_def
        pm_getProfileByEvmAddress_def)
qed

theorem repeated_response_closes_witness:
  "is_open netAB 0 \<and> \<not> is_open (respond (sig_of CHR ''B'' ''r'') 0 netAB) 0 \<and>
   pm_getProfileByTransport (respond (sig_of CHR ''B'' ''r'') 0 netAB) 0 = Some 0"
proof -
  have "pm_getProfileByTransport netAB 0 = Some 0" "tr_class (nw_transports netAB ! 0) \<noteq> LocalTransport"
    "pm_getProfileByEvmAddress netAB ''B'' = Some 0"
    "hs_getChallenge netAB 0 = Some \<lparr>randomChallengeHash = ''#r'', initTime = 100\<rparr>"
    by (simp_all add: netAB_eq netA_eq pm_getProfileByTransport_def pm_getProfileByEvmAddress_def map_get_def
        trA_def transport_new_def hs_getChallenge_def)
  from repeated_response_closes [OF netAB_steps this, of 101 "''#r''" "sig_of CHR ''B'' ''r''" "Some HOLEPUNCH"]
  have "pm_getProfileByTransport (respond (sig_of CHR ''B'' ''r'') 0 netAB) 0 = Some 0 \<and>
      \<not> is_open (respond (sig_of CHR ''B'' ''r'') 0 netAB) 0"
    by (auto simp: respond_def)
  moreover have "is_open netAB 0"
    by (simp add: netAB_eq netA_eq is_open_def nth_opt_def trA_def transport_new_def)
  ultimately show ?thesis by simp
qed

text \<open>
  C17. The handshake can be relayed: a peer that knows nobody's key forwards \<open>A\<close>'s challenge to
  \<open>V\<close>, gets \<open>V\<close>'s signature, and answers \<open>A\<close> with it. \<open>A\<close> then takes the transport for \<open>V\<close>'s, drops
  the one \<open>V\<close> really has and closes it.
\<close>

theorem handshake_relay:
  assumes A: "reach (\<lambda>s. \<exists>tt. s = network_new tt) (net_step A) s" "hs_hex_ok A" "hs_hex_ok V" "hs_ethers A = hs_ethers V"
    and ch: "hs_getChallenge s t = Some ch" "randomChallengeHash ch = keccak256 (hs_ethers V) x"
      "now - initTime ch \<le> int (hs_agreementTime A)"
    and m: "m = getBytes (hs_ethers V) (keccak256 (hs_ethers V) x)" "hs_signMessage V m = Inr sig"
      "verifyMessage (hs_ethers V) m sig = Inr v"
    and honest: "pm_getProfileByEvmAddress s v = Some p" "pm_getProfileByTransport s u = Some p" "u \<noteq> t"
      "tr_class (nw_transports s ! u) \<noteq> LocalTransport"
    and link: "nth_opt (nw_transports sv) k = Some tr" "tr_writeError tr = None"
  shows "(\<exists>v1 v2. hs_onInitHandshakeRequest V nowV (randomChallengeHash ch) (Some (of_int nowV)) (tr_onMessage k sv) = (Inr (), v1) \<and>
      nw_signing v1 = nw_signing sv @ [(m, nowV)] \<and> hs_afterSign V m nowV v1 = (Inr (), v2) \<and>
      tr_sent (nw_transports v2 ! k) = tr_sent tr @ [serializeRpc (hs_response sig nowV (preferredTransport sv))]) \<and>
    (\<exists>s'. hs_onInitHandshakeResponse A now sig (Some (of_int (initTime ch))) preferred (tr_onMessage t s) = (Inr (), s') \<and>
      pm_getProfileByTransport s' t = Some p \<and> pp_evmAddress (nw_profiles s' ! p) = v \<and>
      pm_getProfileByTransport s' u = None \<and> \<not> is_open s' u)"
proof
  show "\<exists>v1 v2. hs_onInitHandshakeRequest V nowV (randomChallengeHash ch) (Some (of_int nowV)) (tr_onMessage k sv) = (Inr (), v1) \<and>
      nw_signing v1 = nw_signing sv @ [(m, nowV)] \<and> hs_afterSign V m nowV v1 = (Inr (), v2) \<and>
      tr_sent (nw_transports v2 ! k) = tr_sent tr @ [serializeRpc (hs_response sig nowV (preferredTransport sv))]"
    unfolding ch(2) by (rule signs_any_hash [OF A(3) m(1,2) link])
  let ?s = "tr_onMessage t s"
  have inv: "profile_inv ?s"
    using net_sys.inv_reach [OF A(1)] by (simp add: tr_onMessage_def profile_inv_def profileOf_def)
  have u: "profileOf ?s u = Some p"
    using honest(2) by (simp add: pm_getProfileByTransport_def profileOf_def tr_onMessage_def)
  then have pu: "pp_transport (nw_profiles ?s ! p) = Some u" using inv by (auto simp: profile_inv_def)
  have gb: "hs_getBytes A (randomChallengeHash ch) = Inr m" "verifyMessage (hs_ethers A) m sig = Inr v"
    using A(2,4) ch(2) m by (simp_all add: hs_hex_ok_def)
  from response_known [OF inv _ _ ch(3) _ gb _ pu, of t "Some (of_int (initTime ch))" preferred] u honest ch(1)
  show "\<exists>s'. hs_onInitHandshakeResponse A now sig (Some (of_int (initTime ch))) preferred (tr_onMessage t s) = (Inr (), s') \<and>
      pm_getProfileByTransport s' t = Some p \<and> pp_evmAddress (nw_profiles s' ! p) = v \<and>
      pm_getProfileByTransport s' u = None \<and> \<not> is_open s' u"
    by (auto simp: tr_onMessage_def hs_getChallenge_def pm_getProfileByTransport_def profileOf_def
        pm_getProfileByEvmAddress_def)
qed

text \<open>The attacker connects to \<open>A\<close> as transport 1 while \<open>B\<close> is connected as transport 0.\<close>

definition netABX :: network where
  "netABX = snd (net_connect (sampleHS CHR ''A'') HolepunchTransport ''x'' 101 netAB)"

lemma netABX_reach: "reach (\<lambda>s. \<exists>tt. s = network_new tt) (net_step (sampleHS CHR ''A'')) netABX"
  unfolding netABX_def by (rule reach_step [OF netAB_steps net_open])

lemma netABX_fields:
  "hs_getChallenge netABX 1 = Some \<lparr>randomChallengeHash = ''#x'', initTime = 101\<rparr>"
  "pm_getProfileByEvmAddress netABX ''B'' = Some 0" "pm_getProfileByTransport netABX 0 = Some 0"
  "tr_class (nw_transports netABX ! 0) = HolepunchTransport"
  by (simp_all add: netABX_def netAB_eq netA_eq net_connect_def p2p_addConnection_def hs_initHandshake_def act_defs
      rpc_sendOne_def tr_send_def nth_opt_def hs_setChallenge_def network_new_def map_set_def map_get_def trA_def
      transport_new_def Let_def hs_getChallenge_def pm_getProfileByEvmAddress_def pm_getProfileByTransport_def)

theorem handshake_relay_witness:
  "\<exists>s'. hs_onInitHandshakeResponse (sampleHS CHR ''A'') 102 (sig_of CHR ''B'' ''x'') (Some 101) None
      (tr_onMessage 1 netABX) = (Inr (), s') \<and> pm_getProfileByTransport s' 1 = Some 0 \<and>
    pp_evmAddress (nw_profiles s' ! 0) = ''B'' \<and> pm_getProfileByTransport s' 0 = None \<and> \<not> is_open s' 0"
proof -
  have m: "''#x'' = getBytes (hs_ethers (sampleHS CHR ''B'')) (keccak256 (hs_ethers (sampleHS CHR ''B'')) ''x'')"
    "hs_signMessage (sampleHS CHR ''B'') ''#x'' = Inr (sig_of CHR ''B'' ''x'')"
    "verifyMessage (hs_ethers (sampleHS CHR ''B'')) ''#x'' (sig_of CHR ''B'' ''x'') = Inr ''B''"
    by (simp, simp add: sig_of_def, simp)
  have tr: "nth_opt (nw_transports netA) 0 = Some trA" "tr_writeError trA = None"
    by (simp_all add: netA_eq nth_opt_def trA_def transport_new_def)
  have "hs_ethers (sampleHS CHR ''A'') = hs_ethers (sampleHS CHR ''B'')" by simp
  from handshake_relay [OF netABX_reach sampleHS_simps(6) sampleHS_simps(6) this netABX_fields(1) _ _ m
      netABX_fields(2,3) _ _ tr, of 102 100 None] netABX_fields(4)
  show ?thesis by simp
qed

end
