(* ===== verification/Clock.thy ===== *)
theory Clock
  imports Prelude Complex_Main
begin

text \<open>
  \<open>src/Clock.ts\<close>: the wall clock shifted towards the time of the chain. \<open>syncClock\<close> calls itself
  until the chain is at most two average block times ahead; since the chain may always be ahead,
  it is a partial function, and \<open>None\<close> is not returning. What one round reads (the wall clock and
  the two blocks) is an argument; averages are rational numbers, or one of the values a
  JavaScript division by zero gives.
\<close>

section \<open>Numbers\<close>

datatype quotient = NaN | PosInf | NegInf | Quot rat

text \<open>\<open>a / b\<close>.\<close>

definition js_div :: "int \<Rightarrow> int \<Rightarrow> quotient" where
  "js_div a b =
     (if b \<noteq> 0 then Quot (of_int a / of_int b)
      else if a = 0 then NaN else if a > 0 then PosInf else NegInf)"

definition falsy :: "quotient \<Rightarrow> bool" where
  "falsy q \<longleftrightarrow> q = NaN \<or> q = Quot 0"

text \<open>\<open>d > 2 * q\<close>.\<close>

fun exceeds_twice :: "int \<Rightarrow> quotient \<Rightarrow> bool" where
  "exceeds_twice d NaN = False"
| "exceeds_twice d PosInf = False"
| "exceeds_twice d NegInf = True"
| "exceeds_twice d (Quot q) = (of_int d > 2 * q)"

section \<open>State and operations\<close>

text \<open>The singleton: absent before \<open>init\<close>, else the adjustment in seconds.\<close>

type_synonym clock = "int option"

definition clock_getInstance :: "clock \<Rightarrow> int res" where
  "clock_getInstance c = (case c of None \<Rightarrow> Inl (Error ''Clock not initialized!'') | Some adj \<Rightarrow> Inr adj)"

text \<open>\<open>ms\<close> is \<open>new Date().getTime()\<close>.\<close>

definition clock_getTimeInSeconds :: "int \<Rightarrow> clock \<Rightarrow> int res" where
  "clock_getTimeInSeconds ms c = rmap (\<lambda>adj. ms div 1000 + adj) (clock_getInstance c)"

record chain_head =
  ch_number :: nat
  ch_timestamp :: int

record sync_input =
  si_now :: int
  si_latest :: "chain_head option"
  si_past :: "nat \<Rightarrow> chain_head option"

text \<open>One round: done, or once more, with the new adjustment.\<close>

datatype sync_next = SyncDone int | SyncAgain int

definition sync_blockCnt :: "chain_head \<Rightarrow> nat" where
  "sync_blockCnt latestBlock = (if ch_number latestBlock \<ge> 100 then 100 else 0)"

definition sync_round :: "sync_input \<Rightarrow> int \<Rightarrow> sync_next res" where
  "sync_round i adj =
     (let currentTime = si_now i + adj in
      case si_latest i of
        None \<Rightarrow> Inl (Error ''Could not get latest block'')
      | Some latestBlock \<Rightarrow>
          let latestTimestamp = ch_timestamp latestBlock;
              difference = latestTimestamp - currentTime;
              blockCnt = sync_blockCnt latestBlock
          in case si_past i (ch_number latestBlock - blockCnt) of
               None \<Rightarrow> Inl (Error ''Could not get past block'')
             | Some pastBlock \<Rightarrow>
                 let averageBlockTime = js_div (latestTimestamp - ch_timestamp pastBlock) (int blockCnt)
                 in if falsy averageBlockTime then Inr (SyncDone (adj + difference))
                    else if exceeds_twice difference averageBlockTime then Inr (SyncAgain (adj + difference))
                    else Inr (SyncDone adj))"

partial_function (option) syncClock :: "(nat \<Rightarrow> sync_input) \<Rightarrow> nat \<Rightarrow> int \<Rightarrow> int res option" where
  "syncClock env k adj =
     (case sync_round (env k) adj of
        Inl e \<Rightarrow> Some (Inl e)
      | Inr (SyncDone adj') \<Rightarrow> Some (Inr adj')
      | Inr (SyncAgain adj') \<Rightarrow> syncClock env (Suc k) adj')"

text \<open>\<open>Clock.init\<close>: a new instance with no adjustment, then \<open>syncClock\<close>.\<close>

definition clock_init :: "(nat \<Rightarrow> sync_input) \<Rightarrow> clock res option" where
  "clock_init env = map_option (rmap Some) (syncClock env 0 0)"


section \<open>Lemmas\<close>

text \<open>How far the chain is ahead of the adjusted clock in a round, and its average block time.\<close>

definition ahead :: "sync_input \<Rightarrow> int \<Rightarrow> int \<Rightarrow> bool" where
  "ahead i adj d \<longleftrightarrow> (\<exists>b. si_latest i = Some b \<and> d = ch_timestamp b - (si_now i + adj))"

text \<open>A chain of at least 100 blocks, 100 blocks of which took \<open>period\<close> seconds.\<close>

definition healthy :: "sync_input \<Rightarrow> int \<Rightarrow> int \<Rightarrow> bool" where
  "healthy i latest period \<longleftrightarrow> 0 < period \<and>
     (\<exists>b p. si_latest i = Some b \<and> ch_timestamp b = latest \<and> 100 \<le> ch_number b \<and>
        si_past i (ch_number b - 100) = Some p \<and> ch_timestamp p = latest - period)"

lemma round_healthy:
  assumes "healthy i latest period"
  shows "sync_round i adj =
    (if 100 * (latest - (si_now i + adj)) > 2 * period then Inr (SyncAgain (latest - si_now i))
     else Inr (SyncDone adj))"
proof -
  obtain b p where b: "si_latest i = Some b" "ch_timestamp b = latest" "100 \<le> ch_number b"
    "si_past i (ch_number b - 100) = Some p" "ch_timestamp p = latest - period" and period: "0 < period"
    using assms by (auto simp: healthy_def)
  let ?d = "latest - (si_now i + adj)"
  have avg: "js_div (latest - ch_timestamp p) (int (sync_blockCnt b)) = Quot (of_int period / 100)"
    using b by (simp add: js_div_def sync_blockCnt_def)
  have pos: "(of_int period :: rat) / 100 \<noteq> 0" using period by simp
  have "(of_int ?d :: rat) > 2 * (of_int period / 100) \<longleftrightarrow> of_int (100 * ?d) > (of_int (2 * period) :: rat)"
  proof -
    have "x > 2 * (y / 100) \<longleftrightarrow> 100 * x > 2 * y" for x y :: rat by linarith
    then show ?thesis by (simp only: of_int_mult of_int_numeral)
  qed
  also have "\<dots> \<longleftrightarrow> 100 * ?d > 2 * period" by (simp only: of_int_less_iff)
  finally have cmp: "exceeds_twice ?d (Quot (of_int period / 100)) \<longleftrightarrow> 100 * ?d > 2 * period" by simp
  have "sync_round i adj =
      (if exceeds_twice ?d (Quot (of_int period / 100)) then Inr (SyncAgain (adj + ?d)) else Inr (SyncDone adj))"
    using b avg pos unfolding sync_round_def Let_def
    by (simp add: sync_blockCnt_def falsy_def)
  then show ?thesis unfolding cmp by simp
qed

text \<open>
  Two rounds are enough when between them the chain does not gain more on the wall clock than
  two average block times.
\<close>

lemma sync_two_rounds:
  assumes "healthy (env k) l0 s0" and "healthy (env (Suc k)) l1 s1"
    and "100 * ((l1 - l0) - (si_now (env (Suc k)) - si_now (env k))) \<le> 2 * s1"
  shows "syncClock env k adj =
    Some (Inr (if 100 * (l0 - (si_now (env k) + adj)) > 2 * s0 then l0 - si_now (env k) else adj))"
proof (cases "100 * (l0 - (si_now (env k) + adj)) > 2 * s0")
  case True
  have "\<not> 100 * (l1 - (si_now (env (Suc k)) + (l0 - si_now (env k)))) > 2 * s1"
    using assms(3) by (simp add: algebra_simps)
  then have "syncClock env (Suc k) (l0 - si_now (env k)) = Some (Inr (l0 - si_now (env k)))"
    by (subst syncClock.simps) (simp add: round_healthy [OF assms(2)])
  with True show ?thesis by (subst syncClock.simps) (simp add: round_healthy [OF assms(1)])
next
  case False
  then show ?thesis by (subst syncClock.simps) (simp add: round_healthy [OF assms(1)])
qed

text \<open>Whatever round ends it, a chain of 100 blocks is then at most two block times ahead.\<close>

lemma sync_bound:
  assumes "\<And>j. healthy (env j) (l j) (s j)" and "syncClock env k adj = Some (Inr a)"
  shows "\<exists>j \<ge> k. 100 * (l j - (si_now (env j) + a)) \<le> 2 * s j"
proof -
  have "(\<forall>j. healthy (env j) (l j) (s j)) \<longrightarrow> (\<forall>a. r = Inr a \<longrightarrow> (\<exists>j \<ge> k. 100 * (l j - (si_now (env j) + a)) \<le> 2 * s j))"
    if "syncClock env k adj = Some r" for r env k adj
    using that
  proof (rule syncClock.raw_induct [rotated])
    fix rec :: "(nat \<Rightarrow> sync_input) \<Rightarrow> nat \<Rightarrow> int \<Rightarrow> int res option" and env k adj r
    let ?P = "\<lambda>env k r. (\<forall>j. healthy (env j) (l j) (s j)) \<longrightarrow>
        (\<forall>a. r = Inr a \<longrightarrow> (\<exists>j \<ge> k. 100 * (l j - (si_now (env j) + a)) \<le> 2 * s j))"
    assume IH: "\<And>env k adj r. rec env k adj = Some r \<Longrightarrow> ?P env k r"
      and body: "(case sync_round (env k) adj of Inl e \<Rightarrow> Some (Inl e) | Inr (SyncDone adj') \<Rightarrow> Some (Inr adj')
        | Inr (SyncAgain adj') \<Rightarrow> rec env (Suc k) adj') = Some r"
    show "?P env k r"
    proof (intro impI allI)
      fix a
      assume h: "\<forall>j. healthy (env j) (l j) (s j)" and r: "r = Inr a"
      show "\<exists>j \<ge> k. 100 * (l j - (si_now (env j) + a)) \<le> 2 * s j"
      proof (cases "100 * (l k - (si_now (env k) + adj)) > 2 * s k")
        case True
        then have "rec env (Suc k) (l k - si_now (env k)) = Some r"
          using body round_healthy [of "env k" "l k" "s k" adj] h by simp
        from IH [OF this] h r obtain j where "j \<ge> Suc k" "100 * (l j - (si_now (env j) + a)) \<le> 2 * s j" by blast
        then show ?thesis using Suc_leD by blast
      next
        case False
        then have "r = Inr adj" using body round_healthy [of "env k" "l k" "s k" adj] h by simp
        with r False show ?thesis by auto
      qed
    qed
  qed
  with assms show ?thesis by blast
qed

end
