(* ===== verification/Relay.thy ===== *)
theory Relay
  imports Prelude "HOL-Library.Multiset"
begin

text \<open>
  \<open>src/HolepunchRelay.ts\<close> and the topics of \<open>src/Holepunch.ts\<close>. A relayer that cannot be reached,
  or whose socket reports an error or closes, is dropped from the list and the next one is
  picked at random. The sockets and the swarm are third-party code: whether building them throws
  is a parameter, and the joins and leaves made on the swarm are recorded.
\<close>

section \<open>HolepunchRelay\<close>

record relay =
  relayerUrls :: "string list"
  swarm :: "string option"
  rl_attempts :: "string list"
  rl_updates :: nat

definition relay_new :: "string list \<Rightarrow> relay" where
  "relay_new urls = \<lparr>relayerUrls = urls, swarm = None, rl_attempts = [], rl_updates = 0\<rparr>"

text \<open>\<open>Math.floor(Math.random() * length)\<close> is any index below the length; \<open>rnd\<close> picks it.\<close>

definition pickRandomRelayer :: "nat \<Rightarrow> relay \<Rightarrow> string option" where
  "pickRandomRelayer rnd r =
     (if length (relayerUrls r) = 0 then None
      else Some (relayerUrls r ! (rnd mod length (relayerUrls r))))"

text \<open>\<open>indexOf\<close> and \<open>splice(index, 1)\<close>: the first occurrence goes.\<close>

fun indexOf :: "string \<Rightarrow> string list \<Rightarrow> nat option" where
  "indexOf x [] = None"
| "indexOf x (y # ys) = (if y = x then Some 0 else map_option Suc (indexOf x ys))"

definition splice1 :: "nat \<Rightarrow> 'a list \<Rightarrow> 'a list" where
  "splice1 i xs = take i xs @ drop (Suc i) xs"

definition removeRelayer :: "string \<Rightarrow> relay \<Rightarrow> bool \<times> relay" where
  "removeRelayer relayerUrl r =
     (case indexOf relayerUrl (relayerUrls r) of
        None \<Rightarrow> (False, r)
      | Some index \<Rightarrow> (True, r\<lparr>relayerUrls := splice1 index (relayerUrls r)\<rparr>))"

lemma indexOf_Some: "indexOf x xs = Some i \<Longrightarrow> i < length xs \<and> xs ! i = x"
  by (induction xs arbitrary: i) (auto split: if_splits)

lemma indexOf_None: "indexOf x xs = None \<longleftrightarrow> x \<notin> set xs"
  by (induction xs) auto

lemma splice1_indexOf: "indexOf x xs = Some i \<Longrightarrow> splice1 i xs = remove1 x xs"
  by (induction xs arbitrary: i) (auto simp: splice1_def split: if_splits)

lemma removeRelayer_eq:
  "removeRelayer x r = (x \<in> set (relayerUrls r), r\<lparr>relayerUrls := remove1 x (relayerUrls r)\<rparr>)"
proof (cases "indexOf x (relayerUrls r)")
  case None
  then have "x \<notin> set (relayerUrls r)" by (simp add: indexOf_None)
  with None show ?thesis by (simp add: removeRelayer_def remove1_idem)
next
  case (Some i)
  then have "x \<in> set (relayerUrls r)" using indexOf_Some by force
  with Some show ?thesis by (simp add: removeRelayer_def splice1_indexOf)
qed

text \<open>
  \<open>connectToRelayer\<close> and \<open>removeAndConnectToRelayer\<close>. \<open>buildable\<close> says whether the sockets of a relayer
  can be built, \<open>rnd k\<close> is the \<open>k\<close>-th random number. The update callback runs inside the \<open>try\<close>; it
  is counted.
\<close>

function connectToRelayer :: "(string \<Rightarrow> bool) \<Rightarrow> (nat \<Rightarrow> nat) \<Rightarrow> relay \<Rightarrow> relay"
  and removeAndConnectToRelayer :: "(string \<Rightarrow> bool) \<Rightarrow> (nat \<Rightarrow> nat) \<Rightarrow> string \<Rightarrow> relay \<Rightarrow> relay" where
  "connectToRelayer buildable rnd r =
     (case pickRandomRelayer (rnd (length (rl_attempts r))) r of
        None \<Rightarrow> r
      | Some relayerUrl \<Rightarrow>
          let r1 = r\<lparr>rl_attempts := rl_attempts r @ [relayerUrl]\<rparr> in
          if buildable relayerUrl then r1\<lparr>swarm := Some relayerUrl, rl_updates := Suc (rl_updates r1)\<rparr>
          else removeAndConnectToRelayer buildable rnd relayerUrl r1)"
| "removeAndConnectToRelayer buildable rnd relayerUrl r =
     (case removeRelayer relayerUrl r of
        (False, r1) \<Rightarrow> r1
      | (True, r1) \<Rightarrow> connectToRelayer buildable rnd r1)"
  by pat_completeness auto

termination
proof (relation "measures [\<lambda>x. case x of Inl (_, _, r) \<Rightarrow> length (relayerUrls r) | Inr (_, _, _, r) \<Rightarrow> length (relayerUrls r),
    \<lambda>x. case x of Inl _ \<Rightarrow> 1 | Inr _ \<Rightarrow> 0]")
qed (auto simp: removeRelayer_eq length_remove1 dest: length_pos_if_in_set)

declare connectToRelayer.simps [simp del] removeAndConnectToRelayer.simps [simp del]

definition relay_init :: "(string \<Rightarrow> bool) \<Rightarrow> (nat \<Rightarrow> nat) \<Rightarrow> string list \<Rightarrow> relay" where
  "relay_init buildable rnd urls = connectToRelayer buildable rnd (relay_new urls)"

lemma pick_in: "pickRandomRelayer k r = Some u \<Longrightarrow> u \<in> set (relayerUrls r)"
  by (auto simp: pickRandomRelayer_def split: if_splits)

lemma pick_None: "pickRandomRelayer k r = None \<longleftrightarrow> relayerUrls r = []"
  by (simp add: pickRandomRelayer_def)

text \<open>
  Connecting only ever drops relayers that cannot be reached, one per failed attempt, and stops
  at the first that can, or with an empty list.
\<close>

definition relay_done :: "(string \<Rightarrow> bool) \<Rightarrow> relay \<Rightarrow> relay \<Rightarrow> bool" where
  "relay_done buildable r r' \<longleftrightarrow>
     (\<exists>failed. (\<forall>u \<in> set failed. \<not> buildable u) \<and> mset (relayerUrls r) = mset (relayerUrls r') + mset failed \<and>
        ((\<exists>u \<in> set (relayerUrls r'). buildable u \<and> swarm r' = Some u \<and> rl_updates r' = Suc (rl_updates r) \<and>
            rl_attempts r' = rl_attempts r @ failed @ [u]) \<or>
         (relayerUrls r' = [] \<and> swarm r' = swarm r \<and> rl_updates r' = rl_updates r \<and>
            rl_attempts r' = rl_attempts r @ failed)))"

lemma connect_unfold:
  "connectToRelayer buildable rnd r =
     (case pickRandomRelayer (rnd (length (rl_attempts r))) r of
        None \<Rightarrow> r
      | Some u \<Rightarrow>
          if buildable u then r\<lparr>rl_attempts := rl_attempts r @ [u], swarm := Some u, rl_updates := Suc (rl_updates r)\<rparr>
          else connectToRelayer buildable rnd
                 (r\<lparr>rl_attempts := rl_attempts r @ [u], relayerUrls := remove1 u (relayerUrls r)\<rparr>))"
  by (subst connectToRelayer.simps)
    (auto simp: removeAndConnectToRelayer.simps removeRelayer_eq Let_def dest: pick_in split: option.split)

lemma connect_done: "relay_done buildable r (connectToRelayer buildable rnd r)"
proof (induction "length (relayerUrls r)" arbitrary: r rule: less_induct)
  case less
  show ?case
  proof (cases "pickRandomRelayer (rnd (length (rl_attempts r))) r")
    case None
    then have "relayerUrls r = []" by (simp add: pick_None)
    with None show ?thesis
      by (subst connect_unfold) (auto simp: relay_done_def intro!: exI [of _ "[]"])
  next
    case (Some u)
    note u = pick_in [OF Some]
    show ?thesis
    proof (cases "buildable u")
      case True
      with Some u show ?thesis
        by (subst connect_unfold) (auto simp: relay_done_def intro!: exI [of _ "[]"])
    next
      case False
      let ?r = "r\<lparr>rl_attempts := rl_attempts r @ [u], relayerUrls := remove1 u (relayerUrls r)\<rparr>"
      have "length (relayerUrls ?r) < length (relayerUrls r)"
        using u length_pos_if_in_set [OF u] by (simp add: length_remove1)
      define r' where "r' = connectToRelayer buildable rnd ?r"
      have "relay_done buildable ?r r'" using less [OF \<open>length (relayerUrls ?r) < length (relayerUrls r)\<close>] by (simp add: r'_def)
      then obtain failed where f: "\<forall>u \<in> set failed. \<not> buildable u"
        "mset (remove1 u (relayerUrls r)) = mset (relayerUrls r') + mset failed"
        "(\<exists>v \<in> set (relayerUrls r'). buildable v \<and> swarm r' = Some v \<and> rl_updates r' = Suc (rl_updates r) \<and>
            rl_attempts r' = rl_attempts r @ (u # failed) @ [v]) \<or>
         (relayerUrls r' = [] \<and> swarm r' = swarm r \<and> rl_updates r' = rl_updates r \<and>
            rl_attempts r' = rl_attempts r @ (u # failed))"
        unfolding relay_done_def by auto
      have step: "connectToRelayer buildable rnd r = r'"
        using Some False by (subst connect_unfold) (simp add: r'_def)
      have "mset (relayerUrls r) = mset (relayerUrls r') + mset (u # failed)"
        using u f(2) by (metis mset.simps(2) mset_remove1 insert_DiffM set_mset_mset union_mset_add_mset_right)
      moreover have "\<forall>v \<in> set (u # failed). \<not> buildable v" using f(1) False by simp
      ultimately show ?thesis unfolding step relay_done_def using f(3) by blast
    qed
  qed
qed

text \<open>
  A socket reports an error and then closes: the second event of the same relayer changes
  nothing, unless the list names it twice.
\<close>

lemma remove_again:
  "distinct (relayerUrls r) \<Longrightarrow> u \<notin> set (relayerUrls (removeAndConnectToRelayer buildable rnd u r))"
proof -
  assume d: "distinct (relayerUrls r)"
  let ?r = "r\<lparr>relayerUrls := remove1 u (relayerUrls r)\<rparr>"
  have "u \<notin> set (relayerUrls ?r)" using d by simp
  moreover have "set (relayerUrls (connectToRelayer buildable rnd ?r)) \<subseteq> set (relayerUrls ?r)"
    using connect_done [of buildable ?r rnd] unfolding relay_done_def
    by (metis set_mset_mset set_mset_union Un_upper1)
  ultimately show ?thesis
    by (subst removeAndConnectToRelayer.simps) (auto simp: removeRelayer_eq split: bool.split)
qed

lemma event_twice:
  assumes "distinct (relayerUrls r)"
  shows "removeAndConnectToRelayer buildable rnd' u (removeAndConnectToRelayer buildable rnd u r) =
    removeAndConnectToRelayer buildable rnd u r"
  using remove_again [OF assms, of u buildable rnd]
  by (subst removeAndConnectToRelayer.simps) (simp add: removeRelayer_eq remove1_idem)

section \<open>Holepunch\<close>

text \<open>What the swarm was told, in order.\<close>

datatype swarm_call = SwarmJoin string | SwarmLeave string

record holepunch =
  topics :: "string list"
  swarmCalls :: "swarm_call list"

definition holepunch_new :: holepunch where
  "holepunch_new = \<lparr>topics = [], swarmCalls = []\<rparr>"

definition hp_join :: "string \<Rightarrow> holepunch \<Rightarrow> holepunch" where
  "hp_join topic h = h\<lparr>topics := topics h @ [topic], swarmCalls := swarmCalls h @ [SwarmJoin topic]\<rparr>"

text \<open>\<open>setup\<close> runs again with every new swarm: the topics are joined on that swarm too.\<close>

definition hp_rejoinTopics :: "holepunch \<Rightarrow> holepunch" where
  "hp_rejoinTopics h = h\<lparr>swarmCalls := swarmCalls h @ map SwarmJoin (topics h)\<rparr>"

definition hp_setup :: "holepunch \<Rightarrow> holepunch" where
  "hp_setup h = hp_rejoinTopics (h\<lparr>swarmCalls := []\<rparr>)"

definition hp_leaveTopics :: "holepunch \<Rightarrow> holepunch" where
  "hp_leaveTopics h = h\<lparr>topics := [], swarmCalls := swarmCalls h @ map SwarmLeave (topics h)\<rparr>"

definition hp_dispose :: "holepunch \<Rightarrow> holepunch" where
  "hp_dispose h = hp_leaveTopics h"

text \<open>The topics a swarm is in after its calls.\<close>

fun joined :: "swarm_call list \<Rightarrow> string set \<Rightarrow> string set" where
  "joined [] S = S"
| "joined (SwarmJoin t # cs) S = joined cs (insert t S)"
| "joined (SwarmLeave t # cs) S = joined cs (S - {t})"

lemma joined_append [simp]: "joined (cs @ ds) S = joined ds (joined cs S)"
  by (induction cs S rule: joined.induct) simp_all

lemma joined_map [simp]:
  "joined (map SwarmJoin ts) S = S \<union> set ts" "joined (map SwarmLeave ts) S = S - set ts"
  by (induction ts arbitrary: S) auto

text \<open>The current swarm is in exactly the topics of the object.\<close>

definition hp_inv :: "holepunch \<Rightarrow> bool" where
  "hp_inv h \<longleftrightarrow> joined (swarmCalls h) {} = set (topics h)"

lemma hp_inv_ops:
  "hp_inv holepunch_new" "hp_inv h \<Longrightarrow> hp_inv (hp_join t h)" "hp_inv (hp_setup h)"
  "hp_inv h \<Longrightarrow> hp_inv (hp_dispose h)"
  by (auto simp: hp_inv_def holepunch_new_def hp_join_def hp_setup_def hp_rejoinTopics_def hp_dispose_def
      hp_leaveTopics_def)

end
