(* ===== verification/EvmMachine.thy ===== *)
theory EvmMachine
  imports Node
begin

text \<open>
  \<open>src/evm/ContractExecuter.ts\<close> and \<open>src/evm/EvmStateMachine.ts\<close>: the state machine a node runs,
  executed by a local EVM. The EVM and the ABI coder are third-party code, the record
  \<open>evm_api\<close>; \<open>'evm\<close> is the EVM's state. Every operation, also the views, executes a call on that
  one EVM. \<open>evm_params\<close> gives the node of \<open>Node\<close> these operations as its state machine.
\<close>

section \<open>Parameters\<close>

record evm_log =
  log_topics :: "bytes list"
  log_data :: bytes

record exec_result =
  er_exceptionError :: bool
  er_returnValue :: bytes
  er_logs :: "evm_log list"

text \<open>
  \<open>evm_runCall\<close> may reject. \<open>evm_encode\<close> is \<open>encodeFunctionData\<close>, the decoders read a return value,
  \<open>evm_revertString\<close> the string of a revert, \<open>evm_parseLog\<close> the event of a log (\<open>Inl\<close> when it
  throws, \<open>None\<close> for \<open>null\<close>).
\<close>

datatype calldata_args = NoArgs | ArgTransaction transaction | ArgBytes bytes

record 'evm evm_api =
  evm_runCall :: "bytes \<Rightarrow> 'evm \<Rightarrow> exec_result res \<times> 'evm"
  evm_encode :: "string \<Rightarrow> calldata_args \<Rightarrow> bytes res"
  evm_hexlify :: "bytes \<Rightarrow> string"
  evm_decodeAddresses :: "string \<Rightarrow> address list res"
  evm_decodeAddress :: "string \<Rightarrow> address res"
  evm_decodeBytes :: "string \<Rightarrow> bytes res"
  evm_revertString :: "string \<Rightarrow> string res"
  evm_parseLog :: "bytes list \<Rightarrow> bytes \<Rightarrow> string option res"

type_synonym ('evm, 'a) evm_act = "('evm, 'a) act"

section \<open>ContractExecuter\<close>

text \<open>\<open>hex.slice(2 + 8)\<close> drops the prefix and the four bytes of the selector.\<close>

definition decodeError :: "'evm evm_api \<Rightarrow> exec_result \<Rightarrow> js_error" where
  "decodeError A result =
     (let hex = evm_hexlify A (er_returnValue result); hex' = ''0x'' @ drop (2 + 8) hex
      in case evm_revertString A hex' of
           Inl e \<Rightarrow> e
         | Inr s \<Rightarrow> Error (''EVM execution error: '' @ s))"

definition executeCall :: "'evm evm_api \<Rightarrow> bytes \<Rightarrow> ('evm, exec_result) evm_act" where
  "executeCall A data =
     sbind (evm_runCall A data) (\<lambda>result.
       if er_exceptionError result then sthrow (decodeError A result) else sreturn result)"

section \<open>EvmStateMachine\<close>

definition error_message :: "js_error \<Rightarrow> string" where
  "error_message e = (case e of Error s \<Rightarrow> s | TypeError s \<Rightarrow> s | External s \<Rightarrow> s)"

definition createContextError :: "string \<Rightarrow> js_error \<Rightarrow> js_error" where
  "createContextError methodName e = Error (''StateMachineInterface.'' @ methodName @ '': '' @ error_message e)"

text \<open>\<open>try { m } catch (e) { throw createContextError(name, e) }\<close>.\<close>

definition with_context :: "string \<Rightarrow> ('evm, 'a) evm_act \<Rightarrow> ('evm, 'a) evm_act" where
  "with_context methodName m s =
     (case m s of (Inl e, s') \<Rightarrow> (Inl (createContextError methodName e), s') | (Inr x, s') \<Rightarrow> (Inr x, s'))"

definition getEncodedCalldata :: "'evm evm_api \<Rightarrow> string \<Rightarrow> calldata_args \<Rightarrow> ('evm, bytes) evm_act" where
  "getEncodedCalldata A functionName args = sread (\<lambda>_. evm_encode A functionName args)"

text \<open>
  \<open>processLogs\<close>: the names of the events emitted on the contract instance, if one is set; a log
  that cannot be parsed is skipped.
\<close>

definition processLogs :: "'evm evm_api \<Rightarrow> bool \<Rightarrow> evm_log list \<Rightarrow> string list" where
  "processLogs A hasInstance logs =
     concat (map (\<lambda>log.
       (case evm_parseLog A (map (evm_hexlify A) (log_topics log)) (evm_hexlify A (log_data log)) of
          Inl _ \<Rightarrow> [] | Inr None \<Rightarrow> []
        | Inr (Some event) \<Rightarrow> if hasInstance then [event] else [])) logs)"

text \<open>The success flag, and the logs its callback processes.\<close>

definition evm_stateTransition ::
  "'evm evm_api \<Rightarrow> transaction \<Rightarrow> ('evm, bool \<times> evm_log list) evm_act" where
  "evm_stateTransition A tx =
     sbind (getEncodedCalldata A ''stateTransition'' (ArgTransaction tx)) (\<lambda>encodedData s.
       case executeCall A encodedData s of
         (Inl _, s') \<Rightarrow> (Inr (False, []), s')
       | (Inr result, s') \<Rightarrow> (Inr (True, er_logs result), s'))"

definition evm_runView :: "'evm evm_api \<Rightarrow> bytes \<Rightarrow> ('evm, string) evm_act" where
  "evm_runView A data =
     with_context ''runView'' (sbind (executeCall A data)
       (\<lambda>result. sreturn (evm_hexlify A (er_returnValue result))))"

definition evm_getParticipants :: "'evm evm_api \<Rightarrow> ('evm, address list) evm_act" where
  "evm_getParticipants A =
     sbind (getEncodedCalldata A ''getParticipants'' NoArgs) (\<lambda>callData.
     sbind (executeCall A callData) (\<lambda>result.
       sread (\<lambda>_. evm_decodeAddresses A (evm_hexlify A (er_returnValue result)))))"

definition evm_getNextToWrite :: "'evm evm_api \<Rightarrow> ('evm, address) evm_act" where
  "evm_getNextToWrite A =
     sbind (getEncodedCalldata A ''getNextToWrite'' NoArgs) (\<lambda>callData.
     with_context ''getNextToWrite'' (sbind (executeCall A callData) (\<lambda>result.
       sread (\<lambda>_. evm_decodeAddress A (evm_hexlify A (er_returnValue result))))))"

definition evm_setState :: "'evm evm_api \<Rightarrow> bytes \<Rightarrow> ('evm, bool) evm_act" where
  "evm_setState A serializedState =
     sbind (getEncodedCalldata A ''setState'' (ArgBytes serializedState)) (\<lambda>encodedData.
     with_context ''setState'' (sbind (executeCall A encodedData) (\<lambda>_. sreturn True)))"

definition evm_getState :: "'evm evm_api \<Rightarrow> ('evm, bytes) evm_act" where
  "evm_getState A =
     sbind (getEncodedCalldata A ''getState'' NoArgs) (\<lambda>callData.
     with_context ''getState'' (sbind (executeCall A callData) (\<lambda>result.
       sread (\<lambda>_. evm_decodeBytes A (evm_hexlify A (er_returnValue result))))))"

text \<open>\<open>createStandalone\<close>: the address of the deployed contract, on a fresh EVM.\<close>

record deployment_result =
  dr_exceptionError :: bool
  dr_createdAddress :: "address option"

definition createStandalone ::
  "('evm \<Rightarrow> deployment_result res \<times> 'evm) \<Rightarrow> ('evm, address) evm_act" where
  "createStandalone deploy =
     sbind deploy (\<lambda>deploymentResult.
       if dr_exceptionError deploymentResult
       then sthrow (Error ''EvmStateMachine - create - deploymentTx failed'')
       else case dr_createdAddress deploymentResult of
              None \<Rightarrow> sthrow (Error ''EvmStateMachine - create - deploymentTx didn't deploy a contract'')
            | Some a \<Rightarrow> sreturn a)"

section \<open>The state machine of a node\<close>

text \<open>
  The node reads views as functions of the state, which is what they are when views leave the
  EVM's state alone (\<open>evm_views_pure\<close>).
\<close>

definition evm_params :: "'evm evm_api \<Rightarrow> bool \<Rightarrow> 'evm params \<Rightarrow> 'evm params" where
  "evm_params A hasInstance P = P\<lparr>
     p_stateTransition := (\<lambda>tx s. case evm_stateTransition A tx s of
        (r, s') \<Rightarrow> (rmap (\<lambda>(ok, logs). (ok, processLogs A hasInstance logs)) r, s')),
     p_getParticipants := (\<lambda>s. fst (evm_getParticipants A s)),
     p_getNextToWrite := (\<lambda>s. fst (evm_getNextToWrite A s)),
     p_setState := (\<lambda>b s. case evm_setState A b s of (r, s') \<Rightarrow> (rmap (\<lambda>_. ()) r, s')),
     p_getState := (\<lambda>s. fst (evm_getState A s))\<rparr>"

text \<open>What the EVM guarantees: an execution that ends in an exception is rolled back.\<close>

definition evm_reverts :: "'evm evm_api \<Rightarrow> bool" where
  "evm_reverts A \<longleftrightarrow> (\<forall>d s. (case evm_runCall A d s of
     (Inl _, s') \<Rightarrow> s' = s | (Inr result, s') \<Rightarrow> er_exceptionError result \<longrightarrow> s' = s))"

definition evm_views_pure :: "'evm evm_api \<Rightarrow> bool" where
  "evm_views_pure A \<longleftrightarrow> (\<forall>f \<in> {''getParticipants'', ''getNextToWrite'', ''getState''}. \<forall>d s.
     evm_encode A f NoArgs = Inr d \<longrightarrow> snd (evm_runCall A d s) = s)"

section \<open>Lemmas\<close>

lemma executeCall_cases:
  "executeCall A d s =
     (case evm_runCall A d s of
        (Inl e, s') \<Rightarrow> (Inl e, s')
      | (Inr result, s') \<Rightarrow>
          if er_exceptionError result then (Inl (decodeError A result), s') else (Inr result, s'))"
  by (auto simp: executeCall_def act_defs split: prod.split sum.split)

lemma executeCall_failed: "evm_reverts A \<Longrightarrow> executeCall A d s = (Inl e, s') \<Longrightarrow> s' = s"
  unfolding evm_reverts_def executeCall_cases
  by (fastforce split: prod.splits sum.splits if_splits)

lemma executeCall_pure:
  "evm_views_pure A \<Longrightarrow> evm_encode A f NoArgs = Inr d \<Longrightarrow>
     f \<in> {''getParticipants'', ''getNextToWrite'', ''getState''} \<Longrightarrow> snd (executeCall A d s) = s"
proof -
  assume "evm_views_pure A" "evm_encode A f NoArgs = Inr d" "f \<in> {''getParticipants'', ''getNextToWrite'', ''getState''}"
  then have "snd (evm_runCall A d s) = s" unfolding evm_views_pure_def by blast
  then show ?thesis unfolding executeCall_cases
    by (cases "evm_runCall A d s"; cases "fst (evm_runCall A d s)") auto
qed

lemma with_context_state [simp]: "snd (with_context f m s) = snd (m s)"
  by (auto simp: with_context_def split: prod.split sum.split)

lemma view_state:
  assumes "evm_views_pure A"
  shows "snd (evm_getParticipants A s) = s" and "snd (evm_getNextToWrite A s) = s"
    and "snd (evm_getState A s) = s"
proof -
  have bind: "snd (sbind (executeCall A d) (\<lambda>result. sread (g result)) s) = s"
    if "snd (executeCall A d s) = s" for d and g :: "exec_result \<Rightarrow> 'a \<Rightarrow> 'c res"
    using that by (auto simp: sbind_def sread_def split: prod.splits sum.splits)
  have enc: "snd (sbind (getEncodedCalldata A f NoArgs) m s) = s"
    if "\<And>d. evm_encode A f NoArgs = Inr d \<Longrightarrow> snd (m d s) = s" for f and m :: "bytes \<Rightarrow> ('a, 'd) act"
    using that by (auto simp: getEncodedCalldata_def sbind_def sread_def split: sum.splits)
  show "snd (evm_getParticipants A s) = s"
    unfolding evm_getParticipants_def
    by (rule enc, rule bind, rule executeCall_pure [OF assms, of "''getParticipants''"], assumption, blast)
  show "snd (evm_getNextToWrite A s) = s"
    unfolding evm_getNextToWrite_def
    by (rule enc, unfold with_context_state, rule bind, rule executeCall_pure [OF assms, of "''getNextToWrite''"], assumption, blast)
  show "snd (evm_getState A s) = s"
    unfolding evm_getState_def
    by (rule enc, unfold with_context_state, rule bind, rule executeCall_pure [OF assms, of "''getState''"], assumption, blast)
qed

text \<open>A failed transition is rolled back; a successful one is the call and nothing else.\<close>

lemma stateTransition_cases:
  assumes "evm_encode A ''stateTransition'' (ArgTransaction tx) = Inr d"
  shows "evm_stateTransition A tx s =
    (case executeCall A d s of
       (Inl _, s') \<Rightarrow> (Inr (False, []), s') | (Inr result, s') \<Rightarrow> (Inr (True, er_logs result), s'))"
  using assms by (simp add: evm_stateTransition_def getEncodedCalldata_def act_defs)

lemma stateTransition_failed:
  "evm_reverts A \<Longrightarrow> evm_stateTransition A tx s = (Inr (False, logs), s') \<Longrightarrow> s' = s \<and> logs = []"
  by (cases "evm_encode A ''stateTransition'' (ArgTransaction tx)")
    (auto simp: evm_stateTransition_def getEncodedCalldata_def act_defs dest: executeCall_failed
      split: prod.splits sum.splits)

text \<open>A view runs its call on the same EVM: whatever the call changes stays changed.\<close>

lemma runView_state: "snd (evm_runView A d s) = snd (executeCall A d s)"
  by (auto simp: evm_runView_def sbind_def sreturn_def split: prod.splits sum.splits)

lemma runView_transition:
  assumes "evm_encode A ''stateTransition'' (ArgTransaction tx) = Inr d"
  shows "snd (evm_runView A d s) = snd (evm_stateTransition A tx s)"
  unfolding runView_state stateTransition_cases [OF assms] by (auto split: prod.splits sum.splits)

end
