(* ===== verification/EventListener.thy ===== *)
theory EventListener
  imports StateManager
begin

text \<open>
  \<open>src/StateChannelEventListener.ts\<close>: which events of the contract a node listens to, and what it
  does with them. The contract's listener table is third-party state, here the list of
  subscriptions; a filter is an event kind with a channel. Also here: the three objects that hold
  the hooks of the application, and \<open>StateManager.setP2pEventHooks\<close>.
\<close>

section \<open>Subscriptions\<close>

datatype event_kind = EvSetState | EvBlockCalldataPosted | EvDisputeUpdated

record event_listener =
  setStateFilter :: "bytes option"
  postedBlockCallDataFilter :: "bytes option"
  disputeUpdateFilter :: "bytes option"
  contractListeners :: "(event_kind \<times> bytes) list"

definition listener_new :: event_listener where
  "listener_new = \<lparr>setStateFilter = None, postedBlockCallDataFilter = None, disputeUpdateFilter = None,
     contractListeners = []\<rparr>"

text \<open>\<open>contract.off(filter)\<close> removes every listener of the filter.\<close>

definition contract_off :: "event_kind \<Rightarrow> bytes option \<Rightarrow> event_listener \<Rightarrow> event_listener" where
  "contract_off kind filt l =
     (case filt of
        None \<Rightarrow> l
      | Some c \<Rightarrow> l\<lparr>contractListeners := removeAll (kind, c) (contractListeners l)\<rparr>)"

definition contract_on :: "event_kind \<Rightarrow> bytes \<Rightarrow> event_listener \<Rightarrow> event_listener" where
  "contract_on kind channelId l = l\<lparr>contractListeners := contractListeners l @ [(kind, channelId)]\<rparr>"

definition listener_dispose :: "event_listener \<Rightarrow> event_listener" where
  "listener_dispose l =
     (let l1 = contract_off EvSetState (setStateFilter l) l;
          l2 = contract_off EvBlockCalldataPosted (postedBlockCallDataFilter l1) l1
      in contract_off EvDisputeUpdated (disputeUpdateFilter l2) l2)"

definition listener_setChannelId :: "bytes \<Rightarrow> event_listener \<Rightarrow> event_listener" where
  "listener_setChannelId channelId l =
     (let l1 = contract_on EvSetState channelId
                 ((contract_off EvSetState (setStateFilter l) l)\<lparr>setStateFilter := Some channelId\<rparr>);
          l2 = contract_on EvBlockCalldataPosted channelId
                 ((contract_off EvBlockCalldataPosted (postedBlockCallDataFilter l1) l1)
                    \<lparr>postedBlockCallDataFilter := Some channelId\<rparr>)
      in contract_on EvDisputeUpdated channelId
           ((contract_off EvDisputeUpdated (disputeUpdateFilter l2) l2)\<lparr>disputeUpdateFilter := Some channelId\<rparr>))"

section \<open>Events\<close>

datatype contract_event =
  SetStateEvent bytes js_num js_num           \<comment> \<open>encoded state, fork, timestamp\<close>
| PostedEvent signed_block js_num
| DisputeEvent dispute

fun kind_of_event :: "contract_event \<Rightarrow> event_kind" where
  "kind_of_event (SetStateEvent s f t) = EvSetState"
| "kind_of_event (PostedEvent b t) = EvBlockCalldataPosted"
| "kind_of_event (DisputeEvent d) = EvDisputeUpdated"

text \<open>The callbacks.\<close>

fun on_contract_event :: "'sm params \<Rightarrow> contract_event \<Rightarrow> ('sm, unit) node_act" where
  "on_contract_event P (SetStateEvent encodedState forkCnt timestamp) = sm_setState P encodedState forkCnt timestamp"
| "on_contract_event P (PostedEvent signedBlock timestamp) =
     sbind (fire_hook OnPostedCalldata) (\<lambda>_. sm_collectOnChainBlock P signedBlock timestamp)"
| "on_contract_event P (DisputeEvent dispute) = sm_onDisputeUpdate P dispute"

text \<open>An event of a channel reaches the node when it is subscribed to.\<close>

definition contract_emits ::
  "'sm params \<Rightarrow> event_listener \<Rightarrow> bytes \<Rightarrow> contract_event \<Rightarrow> ('sm, unit) node_act" where
  "contract_emits P l channelId e =
     (if (kind_of_event e, channelId) \<in> set (contractListeners l) then on_contract_event P e else sreturn ())"

section \<open>Hooks\<close>

text \<open>
  The hooks object the state manager, the dispute handler and the event listener refer to.
\<close>

record 'h hook_refs =
  hooks_stateManager :: 'h
  hooks_disputeHandler :: 'h
  hooks_listener :: 'h

definition hooks_new :: "'h \<Rightarrow> 'h hook_refs" where
  "hooks_new h = \<lparr>hooks_stateManager = h, hooks_disputeHandler = h, hooks_listener = h\<rparr>"

definition setP2pEventHooks :: "'h \<Rightarrow> 'h hook_refs \<Rightarrow> 'h hook_refs" where
  "setP2pEventHooks h r = r\<lparr>hooks_stateManager := h, hooks_disputeHandler := h\<rparr>"

section \<open>Lemmas\<close>

text \<open>The listeners on the contract are exactly those of the three filters.\<close>

definition listener_inv :: "event_listener \<Rightarrow> bool" where
  "listener_inv l \<longleftrightarrow> distinct (contractListeners l) \<and>
     set (contractListeners l) =
       {(EvSetState, c) | c. setStateFilter l = Some c} \<union>
       {(EvBlockCalldataPosted, c) | c. postedBlockCallDataFilter l = Some c} \<union>
       {(EvDisputeUpdated, c) | c. disputeUpdateFilter l = Some c}"

lemma listener_new_inv: "listener_inv listener_new"
  by (simp add: listener_inv_def listener_new_def)

lemma contract_off_fields [simp]:
  "setStateFilter (contract_off k f l) = setStateFilter l"
  "postedBlockCallDataFilter (contract_off k f l) = postedBlockCallDataFilter l"
  "disputeUpdateFilter (contract_off k f l) = disputeUpdateFilter l"
  "contractListeners (contract_off k f l) =
     (case f of None \<Rightarrow> contractListeners l | Some c \<Rightarrow> removeAll (k, c) (contractListeners l))"
  by (simp_all add: contract_off_def split: option.split)

lemma contract_on_fields [simp]:
  "setStateFilter (contract_on k c l) = setStateFilter l"
  "postedBlockCallDataFilter (contract_on k c l) = postedBlockCallDataFilter l"
  "disputeUpdateFilter (contract_on k c l) = disputeUpdateFilter l"
  "contractListeners (contract_on k c l) = contractListeners l @ [(k, c)]"
  by (simp_all add: contract_on_def)

lemma set_off: "set (case f of None \<Rightarrow> xs | Some c \<Rightarrow> removeAll (k, c) xs) = set xs - {(k, c) | c. f = Some c}"
  by (auto split: option.split)

lemma distinct_off: "distinct xs \<Longrightarrow> distinct (case f of None \<Rightarrow> xs | Some c \<Rightarrow> removeAll (k, c) xs)"
  by (auto split: option.split simp: distinct_removeAll)

lemma setChannelId_listeners:
  assumes "listener_inv l"
  shows "listener_inv (listener_setChannelId c l)"
    and "set (contractListeners (listener_setChannelId c l)) =
      {(EvSetState, c), (EvBlockCalldataPosted, c), (EvDisputeUpdated, c)}"
proof -
  let ?l = "listener_setChannelId c l"
  have fields: "setStateFilter ?l = Some c" "postedBlockCallDataFilter ?l = Some c" "disputeUpdateFilter ?l = Some c"
    by (simp_all add: listener_setChannelId_def Let_def)
  have set: "set (contractListeners ?l) =
      {(EvSetState, c), (EvBlockCalldataPosted, c), (EvDisputeUpdated, c)}"
    using assms unfolding listener_inv_def
    by (auto simp: listener_setChannelId_def Let_def set_off simp del: removeAll.simps)
  have "distinct (contractListeners ?l)"
    using assms unfolding listener_inv_def
    by (auto simp: listener_setChannelId_def Let_def set_off distinct_off simp del: removeAll.simps)
  with fields set show "listener_inv ?l" by (auto simp: listener_inv_def)
  show "set (contractListeners ?l) = {(EvSetState, c), (EvBlockCalldataPosted, c), (EvDisputeUpdated, c)}"
    by (rule set)
qed

lemma dispose_listeners: "listener_inv l \<Longrightarrow> contractListeners (listener_dispose l) = []"
  unfolding listener_inv_def
  by (simp add: listener_dispose_def Let_def set_off flip: set_empty) auto

text \<open>An event of another channel does nothing.\<close>

lemma other_channel_ignored:
  "listener_inv l \<Longrightarrow> c' \<noteq> c \<Longrightarrow> contract_emits P (listener_setChannelId c l) c' e n = (Inr (), n)"
  by (simp add: contract_emits_def setChannelId_listeners(2) sreturn_def)

lemma own_channel_handled:
  "listener_inv l \<Longrightarrow> contract_emits P (listener_setChannelId c l) c e = on_contract_event P e"
  by (cases e) (simp_all add: contract_emits_def setChannelId_listeners(2))

end
