(* ===== verification/WebRTC.thy ===== *)
theory WebRTC
  imports Handshake
begin

text \<open>
  \<open>src/rpc/services/WebRTCSetupService.ts\<close>: two peers that know each other over one transport
  negotiate a direct channel. A connection is an \<open>RTCPeerConnection\<close> of the browser, named by a
  number; what it was told is recorded, and what it answers (offers and answers, as text) comes
  with the step that resumes the handler. All handlers catch what they throw.
\<close>

section \<open>State\<close>

datatype rtc_pending =
  RP_offer nat "nat option"     \<comment> \<open>\<open>await connection.createOffer()\<close>\<close>
| RP_answer nat "nat option"    \<comment> \<open>the three awaits of \<open>onOfferWebRTC\<close>\<close>

record webrtc =
  connectionMap :: "(string, nat) js_map"
  rtc_count :: nat
  rtc_pending :: "rtc_pending list"
  rtc_remote :: "(nat \<times> json) list"
  rtc_candidates :: "(nat \<times> json) list"

definition webrtc_new :: webrtc where
  "webrtc_new = \<lparr>connectionMap = [], rtc_count = 0, rtc_pending = [], rtc_remote = [], rtc_candidates = []\<rparr>"

text \<open>
  \<open>profileManager.getProfileByTransport(senderTransport!)?.evmAddress\<close>, absent also when it is empty.
\<close>

definition sender_address :: "network \<Rightarrow> nat option \<Rightarrow> string option" where
  "sender_address s sender =
     (case sender of
        None \<Rightarrow> None
      | Some t \<Rightarrow>
          (case pm_getProfileByTransport s t of
             None \<Rightarrow> None
           | Some p \<Rightarrow> if pp_evmAddress (nw_profiles s ! p) = [] then None
                      else Some (pp_evmAddress (nw_profiles s ! p))))"

type_synonym rtc_state = "network \<times> webrtc"

section \<open>Handlers\<close>

definition rtc_initiateWebRTC :: "rtc_state \<Rightarrow> rtc_state" where
  "rtc_initiateWebRTC = (\<lambda>(s, w).
     (s, w\<lparr>rtc_count := Suc (rtc_count w),
           rtc_pending := rtc_pending w @ [RP_offer (rtc_count w) (senderTransport s)]\<rparr>))"

definition rtc_afterOffer :: "string \<Rightarrow> nat \<Rightarrow> nat option \<Rightarrow> rtc_state \<Rightarrow> rtc_state" where
  "rtc_afterOffer offer connection sender = (\<lambda>(s, w).
     case sender_address s sender of
       None \<Rightarrow> (s, w)
     | Some adr \<Rightarrow>
         (snd (rpc_sendOne (proxy_call ''onOfferWebRTC'' [Some (JString offer)]) sender s),
          w\<lparr>connectionMap := map_set (connectionMap w) adr connection\<rparr>))"

definition rtc_onOfferWebRTC :: "string \<Rightarrow> rtc_state \<Rightarrow> rtc_state" where
  "rtc_onOfferWebRTC serializedOffer = (\<lambda>(s, w).
     let connection = rtc_count w; w1 = w\<lparr>rtc_count := Suc (rtc_count w)\<rparr> in
     case sender_address s (senderTransport s) of
       None \<Rightarrow> (s, w1)
     | Some adr \<Rightarrow>
         let w2 = w1\<lparr>connectionMap := map_set (connectionMap w1) adr connection\<rparr> in
         case json_parse serializedOffer of
           None \<Rightarrow> (s, w2)
         | Some offer \<Rightarrow>
             (s, w2\<lparr>rtc_remote := rtc_remote w2 @ [(connection, offer)],
                    rtc_pending := rtc_pending w2 @ [RP_answer connection (senderTransport s)]\<rparr>))"

definition rtc_afterAnswer :: "string \<Rightarrow> nat \<Rightarrow> nat option \<Rightarrow> rtc_state \<Rightarrow> rtc_state" where
  "rtc_afterAnswer answer connection sender = (\<lambda>(s, w).
     (snd (rpc_sendOne (proxy_call ''onAnswerWebRTC'' [Some (JString answer)]) sender s), w))"

text \<open>
  The callback \<open>onicecandidate\<close> of a connection: the candidate goes to whatever transport the last
  message came from.
\<close>

definition rtc_candidateFound :: "string \<Rightarrow> rtc_state \<Rightarrow> rtc_state" where
  "rtc_candidateFound candidate = (\<lambda>(s, w).
     (snd (rpc_sendOne (proxy_call ''onIceCandidate'' [Some (JString candidate)]) (senderTransport s) s), w))"

definition rtc_onAnswerWebRTC :: "string \<Rightarrow> rtc_state \<Rightarrow> rtc_state" where
  "rtc_onAnswerWebRTC serializedAnswer = (\<lambda>(s, w).
     case sender_address s (senderTransport s) of
       None \<Rightarrow> (s, w)
     | Some adr \<Rightarrow>
         (case map_get (connectionMap w) adr of
            None \<Rightarrow> (s, w)
          | Some connection \<Rightarrow>
              (case json_parse serializedAnswer of
                 None \<Rightarrow> (s, w)
               | Some answer \<Rightarrow> (s, w\<lparr>rtc_remote := rtc_remote w @ [(connection, answer)]\<rparr>))))"

definition rtc_onIceCandidate :: "string \<Rightarrow> rtc_state \<Rightarrow> rtc_state" where
  "rtc_onIceCandidate serializedCandidate = (\<lambda>(s, w).
     case json_parse serializedCandidate of
       None \<Rightarrow> (s, w)
     | Some candidate \<Rightarrow>
         (case sender_address s (senderTransport s) of
            None \<Rightarrow> (s, w)
          | Some adr \<Rightarrow>
              (case map_get (connectionMap w) adr of
                 None \<Rightarrow> (s, w)
               | Some connection \<Rightarrow> (s, w\<lparr>rtc_candidates := rtc_candidates w @ [(connection, candidate)]\<rparr>))))"

section \<open>Who can reach a connection\<close>

text \<open>
  Steps of the service; the network may move on in between, keeping its invariant.
\<close>

inductive rtc_step :: "rtc_state \<Rightarrow> rtc_state \<Rightarrow> bool" where
  rtc_initiate: "rtc_step x (rtc_initiateWebRTC x)"
| rtc_offered: "rtc_pending (snd x) = xs @ RP_offer c sender # ys \<Longrightarrow>
     rtc_step x (rtc_afterOffer offer c sender (fst x, (snd x)\<lparr>rtc_pending := xs @ ys\<rparr>))"
| rtc_offer: "rtc_step x (rtc_onOfferWebRTC offer x)"
| rtc_answered: "rtc_pending (snd x) = xs @ RP_answer c sender # ys \<Longrightarrow>
     rtc_step x (rtc_afterAnswer answer c sender (fst x, (snd x)\<lparr>rtc_pending := xs @ ys\<rparr>))"
| rtc_answer: "rtc_step x (rtc_onAnswerWebRTC answer x)"
| rtc_ice: "rtc_step x (rtc_onIceCandidate candidate x)"
| rtc_found: "rtc_step x (rtc_candidateFound candidate x)"
| rtc_network: "rtc_step (s, w) (s', w)"

text \<open>Connections in the map and in flight exist, and no two addresses share one.\<close>

fun pending_connection :: "rtc_pending \<Rightarrow> nat" where
  "pending_connection (RP_offer c sender) = c"
| "pending_connection (RP_answer c sender) = c"

fun waits_offer :: "rtc_pending \<Rightarrow> nat option" where
  "waits_offer (RP_offer c sender) = Some c"
| "waits_offer (RP_answer c sender) = None"

lemma waits_pending: "waits_offer q = Some c \<Longrightarrow> pending_connection q = c"
  by (cases q) simp_all

definition rtc_inv :: "rtc_state \<Rightarrow> bool" where
  "rtc_inv x \<longleftrightarrow> (let w = snd x in
     (\<forall>a c. map_get (connectionMap w) a = Some c \<longrightarrow> c < rtc_count w) \<and>
     (\<forall>q \<in> set (rtc_pending w). pending_connection q < rtc_count w) \<and>
     (\<forall>a b c. map_get (connectionMap w) a = Some c \<and> map_get (connectionMap w) b = Some c \<longrightarrow> a = b) \<and>
     (\<forall>a c. map_get (connectionMap w) a = Some c \<longrightarrow> Some c \<notin> set (map waits_offer (rtc_pending w))) \<and>
     distinct (filter (\<lambda>c. c \<noteq> None) (map waits_offer (rtc_pending w))))"

lemma rtc_inv_new: "rtc_inv (s, webrtc_new)"
  by (simp add: rtc_inv_def webrtc_new_def)

lemma rtc_offered_inv:
  assumes inv: "rtc_inv (s, w)" and q: "rtc_pending w = xs @ RP_offer c sender # ys"
  shows "rtc_inv (rtc_afterOffer offer c sender (s, w\<lparr>rtc_pending := xs @ ys\<rparr>))"
proof -
  have c: "c < rtc_count w" using inv q by (auto simp: rtc_inv_def)
  have fresh: "map_get (connectionMap w) a \<noteq> Some c" for a using inv q by (auto simp: rtc_inv_def Let_def)
  have gone: "Some c \<notin> set (map waits_offer (xs @ ys))"
    using inv q by (auto simp: rtc_inv_def Let_def)
  from inv q c fresh gone show ?thesis
    unfolding rtc_inv_def rtc_afterOffer_def
    by (auto simp: Let_def split: option.splits)
qed

lemma rtc_step_inv: "rtc_step x y \<Longrightarrow> rtc_inv x \<Longrightarrow> rtc_inv y"
proof (induction rule: rtc_step.induct)
  case (rtc_initiate x)
  then show ?case
    by (cases x) (fastforce simp: rtc_inv_def rtc_initiateWebRTC_def Let_def less_Suc_eq dest: waits_pending [OF sym])
next
  case (rtc_offered x xs c sender ys offer)
  then show ?case using rtc_offered_inv [of "fst x" "snd x"] by simp
next
  case (rtc_offer x offer)
  have new: "\<forall>q \<in> set (rtc_pending (snd x)). waits_offer q \<noteq> Some (rtc_count (snd x))"
    using rtc_offer by (fastforce simp: rtc_inv_def Let_def dest: waits_pending)
  show ?case
    using rtc_offer new
    by (cases x) (auto simp: rtc_inv_def rtc_onOfferWebRTC_def Let_def less_Suc_eq image_iff split: option.splits)
next
  case (rtc_answered x xs c sender ys answer)
  then show ?case
    by (cases x) (auto simp: rtc_inv_def rtc_afterAnswer_def Let_def)
next
  case (rtc_answer x answer)
  then show ?case
    by (cases x) (auto simp: rtc_inv_def rtc_onAnswerWebRTC_def Let_def split: option.splits)
next
  case (rtc_ice x candidate)
  then show ?case
    by (cases x) (auto simp: rtc_inv_def rtc_onIceCandidate_def Let_def split: option.splits)
next
  case (rtc_found x candidate)
  then show ?case by (cases x) (auto simp: rtc_inv_def rtc_candidateFound_def)
next
  case (rtc_network s w s')
  then show ?case by (simp add: rtc_inv_def)
qed

interpretation rtc_sys: invariant_system "\<lambda>x. snd x = webrtc_new" rtc_step rtc_inv
proof unfold_locales
  show "rtc_inv x" if "snd x = webrtc_new" for x using that rtc_inv_new by (metis prod.collapse)
qed (blast intro: rtc_step_inv)

text \<open>An answer or a candidate only reaches the connection kept for the sender's address.\<close>

lemma answer_target:
  assumes "snd (rtc_onAnswerWebRTC a (s, w)) \<noteq> w"
  shows "\<exists>adr c v. sender_address s (senderTransport s) = Some adr \<and> map_get (connectionMap w) adr = Some c \<and>
    json_parse a = Some v \<and> snd (rtc_onAnswerWebRTC a (s, w)) = w\<lparr>rtc_remote := rtc_remote w @ [(c, v)]\<rparr>"
  using assms by (auto simp: rtc_onAnswerWebRTC_def split: option.splits)

end
