(* ===== verification/Peer.thy ===== *)
theory Peer
  imports NodeSteps WebRTC JoinChannel Relay
begin

text \<open>
  A whole peer: the node, its connections and the RPC services, and the path of a message between
  them. \<open>peer_receive\<close> is \<open>onMessage\<close> of the transports with \<open>P2PManager.onRpc\<close>: the text is
  parsed, the method of \<open>MainRpcService\<close> found, and its service called with the JSON arguments;
  what a handler of the node broadcasts is written to all open connections. Also here: the parts
  of \<open>P2pSigner.ts\<close>, \<open>P2PManager.ts\<close> and \<open>TESTJoinChannelService.ts\<close> that use several services.
\<close>

section \<open>Arguments of a remote call\<close>

text \<open>
  \<open>String(v)\<close>; an array is joined with commas, its \<open>null\<close> elements are empty.
\<close>

fun js_text :: "json \<Rightarrow> string" where
  "js_text (JString s) = s"
| "js_text (JArray vs) = commas (map (\<lambda>v. if v = JNull then [] else js_text v) vs)"
| "js_text (JObject fs) = ''[object Object]''"
| "js_text v = json_stringify v"

definition js_toString :: "json option \<Rightarrow> string" where
  "js_toString a = (case a of None \<Rightarrow> ''undefined'' | Some v \<Rightarrow> js_text v)"

text \<open>\<open>Number(v)\<close>, \<open>None\<close> for \<open>NaN\<close>; text is read in decimal notation.\<close>

definition json_rat :: "int \<Rightarrow> int \<Rightarrow> rat" where
  "json_rat m e = (if 0 \<le> e then of_int m * 10 ^ nat e else of_int m / 10 ^ nat (- e))"

definition text_number :: "string \<Rightarrow> rat option" where
  "text_number s =
     (if skip s = [] then Some 0
      else case json_parse s of Some (JNumber m e) \<Rightarrow> Some (json_rat m e) | _ \<Rightarrow> None)"

fun js_number :: "json \<Rightarrow> rat option" where
  "js_number JNull = Some 0"
| "js_number (JBool b) = Some (if b then 1 else 0)"
| "js_number (JNumber m e) = Some (json_rat m e)"
| "js_number v = text_number (js_text v)"

definition js_toNumber :: "json option \<Rightarrow> rat option" where
  "js_toNumber a = (case a of None \<Rightarrow> None | Some v \<Rightarrow> js_number v)"

text \<open>
  An argument that goes to \<open>ethers\<close> as bytes or as a signature. What is not a string is named by
  its JSON text, which is not the hexadecimal text of any bytes.
\<close>

definition bytes_arg :: "json option \<Rightarrow> bytes" where
  "bytes_arg a =
     (case a of None \<Rightarrow> ''undefined'' | Some (JString s) \<Rightarrow> s | Some v \<Rightarrow> json_stringify v)"

text \<open>Reading a field of \<open>null\<close> or \<open>undefined\<close> throws.\<close>

definition arg_fields :: "string \<Rightarrow> string \<Rightarrow> json option \<Rightarrow> (bytes \<times> bytes) res" where
  "arg_fields k1 k2 a =
     (case a of
        None \<Rightarrow> Inl (TypeError k1)
      | Some v \<Rightarrow> if v = JNull then Inl (TypeError k1)
                  else Inr (bytes_arg (json_field v k1), bytes_arg (json_field v k2)))"

definition signed_block_arg :: "json option \<Rightarrow> signed_block res" where
  "signed_block_arg a =
     rmap (\<lambda>(b, s). \<lparr>sb_encodedBlock = b, sb_signature = s\<rparr>) (arg_fields ''encodedBlock'' ''signature'' a)"

definition signed_join_arg :: "json option \<Rightarrow> signed_join_channel res" where
  "signed_join_arg a =
     rmap (\<lambda>(b, s). \<lparr>sjc_encodedJoinChannel = b, sjc_signature = s\<rparr>)
       (arg_fields ''encodedJoinChannel'' ''signature'' a)"

text \<open>\<open>if (!confirmationSignature)\<close> tests the JSON value.\<close>

definition optional_signature :: "json option \<Rightarrow> bytes option" where
  "optional_signature a =
     (case a of None \<Rightarrow> None | Some v \<Rightarrow> if truthy v then Some (bytes_arg (Some v)) else None)"

definition preferred_arg :: "json option \<Rightarrow> transport_type option" where
  "preferred_arg a =
     (case a of
        Some (JNumber m e) \<Rightarrow>
          if json_rat m e = 0 then Some HOLEPUNCH else if json_rat m e = 1 then Some WEBRTC else None
      | _ \<Rightarrow> None)"

section \<open>What a peer sends\<close>

definition signed_block_json :: "signed_block \<Rightarrow> json" where
  "signed_block_json sb =
     JObject [(''encodedBlock'', JString (sb_encodedBlock sb)), (''signature'', JString (sb_signature sb))]"

definition signed_join_json :: "signed_join_channel \<Rightarrow> json" where
  "signed_join_json sjc =
     JObject [(''encodedJoinChannel'', JString (sjc_encodedJoinChannel sjc)),
              (''signature'', JString (sjc_signature sjc))]"

fun wire :: "Node.rpc \<Rightarrow> Rpc.rpc" where
  "wire (Rpc_onSignedBlock sb) = proxy_call ''onSignedBlock'' [Some (signed_block_json sb)]"
| "wire (Rpc_onBlockConfirmation sb sig) =
     proxy_call ''onBlockConfirmation'' [Some (signed_block_json sb), Some (JString sig)]"

definition wire_join :: "signed_join_channel \<times> bytes \<Rightarrow> Rpc.rpc" where
  "wire_join x =
     proxy_call ''onJoinChannelRequest'' [Some (signed_join_json (fst x)), Some (JString (snd x))]"

fun broadcast_all :: "Rpc.rpc list \<Rightarrow> network \<Rightarrow> network" where
  "broadcast_all [] s = s"
| "broadcast_all (r # rs) s = broadcast_all rs (snd (rpc_broadcast r s))"

section \<open>The peer\<close>

record 'sm peer =
  pr_node :: "'sm node"
  pr_net :: network
  pr_join :: join_service
  pr_rtc :: webrtc
  pr_hp :: holepunch
  pr_isLeader :: bool
  pr_signedJc :: "(bytes \<times> bytes) option"
  pr_openCalls :: "(bytes \<times> bytes list \<times> bytes list) list"

definition peer_init :: "'sm \<Rightarrow> nat \<Rightarrow> transport_type \<Rightarrow> 'sm peer" where
  "peer_init sm now preferred =
     \<lparr>pr_node = node_init sm now, pr_net = network_new preferred, pr_join = join_new,
      pr_rtc = webrtc_new, pr_hp = holepunch_new, pr_isLeader = False, pr_signedJc = None,
      pr_openCalls = []\<rparr>"

text \<open>The handshake service uses the signer, clock and times of the node.\<close>

definition hs_of :: "(string \<Rightarrow> bytes res) \<Rightarrow> 'sm params \<Rightarrow> hs_params" where
  "hs_of g P =
     \<lparr>hs_ethers = p_ethers P, hs_getBytes = g, hs_signMessage = p_signer P,
      hs_signerAddress = p_signerAddress P, hs_agreementTime = agreementTime (p_timeConfig P)\<rparr>"

definition peer_now :: "'sm peer \<Rightarrow> int" where
  "peer_now p = int (n_now (pr_node p))"

text \<open>
  A handler of the node runs; whether a broadcast throws is decided by the open connections, and
  what it broadcasts is written to them.
\<close>

definition net_send :: "network \<Rightarrow> Node.rpc \<Rightarrow> unit res" where
  "net_send s r = fst (rpc_broadcast (wire r) s)"

definition on_node ::
  "'sm params \<Rightarrow> ('sm params \<Rightarrow> ('sm, unit) node_act) \<Rightarrow> 'sm peer \<Rightarrow> 'sm peer" where
  "on_node P m p =
     (let n = pr_node p; n' = snd (m (P\<lparr>p_send := net_send (pr_net p)\<rparr>) n) in
      p\<lparr>pr_node := n',
        pr_net := broadcast_all (map wire (drop (length (n_outbox n)) (n_outbox n'))) (pr_net p)\<rparr>)"

definition on_net :: "unit net_act \<Rightarrow> 'sm peer \<Rightarrow> 'sm peer" where
  "on_net m p = p\<lparr>pr_net := snd (m (pr_net p))\<rparr>"

definition on_rtc :: "(rtc_state \<Rightarrow> rtc_state) \<Rightarrow> 'sm peer \<Rightarrow> 'sm peer" where
  "on_rtc f p = (case f (pr_net p, pr_rtc p) of (s, w) \<Rightarrow> p\<lparr>pr_net := s, pr_rtc := w\<rparr>)"

definition on_join :: "'sm params \<Rightarrow> join_event \<Rightarrow> 'sm peer \<Rightarrow> 'sm peer" where
  "on_join P e p =
     (let j = pr_join p; j' = join_handle (p_ethers P) (p_signer P) e j in
      p\<lparr>pr_join := j',
        pr_net := broadcast_all (map wire_join (drop (length (jn_outbox j)) (jn_outbox j'))) (pr_net p)\<rparr>)"

section \<open>Services called from the network\<close>

text \<open>
  \<open>onInitHandshakeResponse\<close> starts the negotiation of a WebRTC channel itself when it decides to.
\<close>

definition peer_handshakeResponse ::
  "hs_params \<Rightarrow> bytes \<Rightarrow> rat option \<Rightarrow> transport_type option \<Rightarrow> 'sm peer \<Rightarrow> 'sm peer" where
  "peer_handshakeResponse H signature responseTime preferred p =
     (let p' = on_net (hs_onInitHandshakeResponse H (peer_now p) signature responseTime preferred) p in
      if length (nw_initiated (pr_net p)) < length (nw_initiated (pr_net p'))
      then on_rtc rtc_initiateWebRTC p' else p')"

text \<open>\<open>TESTJoinChannelService.onSignJoinChannelTEST\<close>, up to the call of the contract.\<close>

definition test_onSignJoinChannelTEST :: "bytes \<Rightarrow> bytes \<Rightarrow> 'sm peer \<Rightarrow> 'sm peer" where
  "test_onSignJoinChannelTEST jcEncoded jcSignature p =
     (case pr_signedJc p of
        None \<Rightarrow> p
      | Some (encoded, signature) \<Rightarrow>
          p\<lparr>pr_openCalls := pr_openCalls p @
              [(n_channelId (pr_node p), [encoded, jcEncoded], [signature, jcSignature])]\<rparr>)"

definition peer_serve :: "(string \<Rightarrow> bytes res) \<Rightarrow> 'sm params \<Rightarrow> service_call \<Rightarrow> 'sm peer \<Rightarrow> 'sm peer" where
  "peer_serve g P call p =
     (case call of
        SC_initHandshakeRequest challengeHash time \<Rightarrow>
          on_net (hs_onInitHandshakeRequest (hs_of g P) (peer_now p) (bytes_arg challengeHash)
                    (js_toNumber time)) p
      | SC_initHandshakeResponse signature responseTime preferred \<Rightarrow>
          peer_handshakeResponse (hs_of g P) (bytes_arg signature) (js_toNumber responseTime)
            (preferred_arg preferred) p
      | SC_offerWebRTC offer \<Rightarrow> on_rtc (rtc_onOfferWebRTC (js_toString offer)) p
      | SC_answerWebRTC answer \<Rightarrow> on_rtc (rtc_onAnswerWebRTC (js_toString answer)) p
      | SC_iceCandidate candidate \<Rightarrow> on_rtc (rtc_onIceCandidate (js_toString candidate)) p
      | SC_signJoinChannelTEST jcEncoded jcSignature \<Rightarrow>
          test_onSignJoinChannelTEST (bytes_arg jcEncoded) (bytes_arg jcSignature) p
      | SC_canJoinLeaderRequest \<Rightarrow> p
      | SC_canJoinLeaderResponse channelId participants \<Rightarrow> p
      | SC_joinChannelRequest signedJoinChannel confirmation \<Rightarrow>
          (case signed_join_arg signedJoinChannel of
             Inl _ \<Rightarrow> p
           | Inr sjc \<Rightarrow>
               on_join P (JE_request (peer_now p) sjc (optional_signature confirmation)) p)
      | SC_signedBlock signedBlock \<Rightarrow>
          on_node P (\<lambda>P. case signed_block_arg signedBlock of
             Inl e \<Rightarrow> unhandled e
           | Inr sb \<Rightarrow> sm_onSignedBlock P sb None (RK_rpc sb)) p
      | SC_blockConfirmation original confirmation \<Rightarrow>
          on_node P (\<lambda>P. case signed_block_arg original of
             Inl e \<Rightarrow> unhandled e
           | Inr sb \<Rightarrow> sm_onBlockConfirmation P sb (bytes_arg confirmation) None
               (CK_rpc sb (bytes_arg confirmation))) p)"

text \<open>A message arrives on transport \<open>t\<close>.\<close>

definition peer_receive ::
  "(string \<Rightarrow> bytes res) \<Rightarrow> 'sm params \<Rightarrow> nat \<Rightarrow> string \<Rightarrow> 'sm peer \<Rightarrow> 'sm peer" where
  "peer_receive g P t msg p =
     (let p1 = p\<lparr>pr_net := tr_onMessage t (pr_net p)\<rparr> in
      case p2p_onRpc msg of None \<Rightarrow> p1 | Some call \<Rightarrow> peer_serve g P call p1)"

section \<open>The signer's own operations\<close>

text \<open>
  \<open>Buffer.alloc(32).fill(channelId)\<close>: the bytes of the text, repeated or cut to fill the buffer.
\<close>

definition channel_topic :: "string \<Rightarrow> string" where
  "channel_topic channelId =
     (if channelId = [] then replicate 32 (CHR 0x00) else take 32 (concat (replicate 32 channelId)))"

definition p2p_tryOpenConnectionToChannel :: "string \<Rightarrow> 'sm peer \<Rightarrow> 'sm peer" where
  "p2p_tryOpenConnectionToChannel channelId p = p\<lparr>pr_hp := hp_join (channel_topic channelId) (pr_hp p)\<rparr>"

definition p2p_dispose :: "'sm peer \<Rightarrow> 'sm peer" where
  "p2p_dispose p = on_net p2p_disconnectAll (p\<lparr>pr_hp := hp_dispose (pr_hp p)\<rparr>)"

definition signer_setJc :: "bytes \<times> bytes \<Rightarrow> 'sm peer \<Rightarrow> 'sm peer" where
  "signer_setJc signedJc p = p\<lparr>pr_signedJc := Some signedJc\<rparr>"

definition signer_setIsLeader :: "bool \<Rightarrow> 'sm peer \<Rightarrow> 'sm peer" where
  "signer_setIsLeader value p = p\<lparr>pr_isLeader := value\<rparr>"

definition signer_setChannelId :: "'sm params \<Rightarrow> bytes \<Rightarrow> 'sm peer \<Rightarrow> 'sm peer" where
  "signer_setChannelId P channelId = on_node P (\<lambda>P. sm_setChannelId channelId)"

definition signer_connectToChannel :: "'sm params \<Rightarrow> bytes \<Rightarrow> 'sm peer \<Rightarrow> 'sm peer" where
  "signer_connectToChannel P channelId p =
     p2p_tryOpenConnectionToChannel channelId (signer_setChannelId P channelId p)"

definition signer_disconnectFromPeers :: "'sm peer \<Rightarrow> 'sm peer" where
  "signer_disconnectFromPeers = on_net p2p_disconnectAll"

section \<open>Steps of a peer\<close>

text \<open>
  Messages with any text on any transport, the steps of the node with what they broadcast, the
  steps of the connections, the continuations of the services, and the signer's operations.
\<close>

inductive peer_step :: "(string \<Rightarrow> bytes res) \<Rightarrow> 'sm params \<Rightarrow> 'sm peer \<Rightarrow> 'sm peer \<Rightarrow> bool" for g P where
  ps_message: "t < length (nw_transports (pr_net p)) \<Longrightarrow> env_ok (remote P c e w) \<Longrightarrow>
     peer_step g P p (peer_receive g (remote P c e w) t msg p)"
| ps_node: "node_step P (pr_node p) n' \<Longrightarrow>
     peer_step g P p (p\<lparr>pr_node := n',
       pr_net := broadcast_all (map wire (drop (length (n_outbox (pr_node p))) (n_outbox n'))) (pr_net p)\<rparr>)"
| ps_net: "net_step (hs_of g P) (pr_net p) s \<Longrightarrow> peer_step g P p (p\<lparr>pr_net := s\<rparr>)"
| ps_join: "peer_step g P p (on_join P (JE_resume i (p_getParticipants P (n_sm (pr_node p)))) p)"
| ps_prune: "peer_step g P p (on_join P (JE_timer i) p)"
| ps_offered: "rtc_pending (pr_rtc p) = xs @ RP_offer c sender # ys \<Longrightarrow>
     peer_step g P p (on_rtc (rtc_afterOffer offer c sender) (p\<lparr>pr_rtc := (pr_rtc p)\<lparr>rtc_pending := xs @ ys\<rparr>\<rparr>))"
| ps_answered: "rtc_pending (pr_rtc p) = xs @ RP_answer c sender # ys \<Longrightarrow>
     peer_step g P p (on_rtc (rtc_afterAnswer answer c sender) (p\<lparr>pr_rtc := (pr_rtc p)\<lparr>rtc_pending := xs @ ys\<rparr>\<rparr>))"
| ps_candidate: "peer_step g P p (on_rtc (rtc_candidateFound candidate) p)"
| ps_relay: "peer_step g P p (p\<lparr>pr_hp := hp_setup (pr_hp p)\<rparr>)"
| ps_setJc: "peer_step g P p (signer_setJc jc p)"
| ps_setIsLeader: "peer_step g P p (signer_setIsLeader v p)"
| ps_connect: "peer_step g P p (signer_connectToChannel P c p)"
| ps_disconnect: "peer_step g P p (signer_disconnectFromPeers p)"
| ps_dispose: "peer_step g P p (p2p_dispose p)"

end
