(* ===== verification/PeerFacts.thy ===== *)
theory PeerFacts
  imports Peer
begin

text \<open>
  The path of a message from one peer to another, and what every step of a peer keeps: the
  invariants of its parts hold together, whatever text arrives.
\<close>

section \<open>From broadcast to handler\<close>

text \<open>The service call a broadcast of the node becomes at the receiver.\<close>

fun call_of :: "Node.rpc \<Rightarrow> service_call" where
  "call_of (Rpc_onSignedBlock sb) = SC_signedBlock (Some (signed_block_json sb))"
| "call_of (Rpc_onBlockConfirmation sb sig) =
     SC_blockConfirmation (Some (signed_block_json sb)) (Some (JString sig))"

lemma signed_block_json_ok: "json_wf (signed_block_json sb) \<and> json_whole (signed_block_json sb)"
  by (simp add: signed_block_json_def)

lemma signed_block_arg_json [simp]: "signed_block_arg (Some (signed_block_json sb)) = Inr sb"
  by (simp add: signed_block_arg_def signed_block_json_def arg_fields_def bytes_arg_def map_get_def)

lemma bytes_arg_text [simp]: "bytes_arg (Some (JString s)) = s"
  by (simp add: bytes_arg_def)

lemma onRpc_wire: "p2p_onRpc (serializeRpc (wire r)) = Some (call_of r)"
proof (cases r)
  case (Rpc_onSignedBlock sb)
  have "map_get main_methods ''onSignedBlock'' = Some (\<lambda>a. SC_signedBlock (nth_opt a 0))"
    by (simp add: main_methods_def map_get_def)
  from onRpc_call [OF this, of "[signed_block_json sb]"] show ?thesis
    using Rpc_onSignedBlock signed_block_json_ok by (simp add: nth_opt_def)
next
  case (Rpc_onBlockConfirmation sb sig)
  have "map_get main_methods ''onBlockConfirmation'' =
      Some (\<lambda>a. SC_blockConfirmation (nth_opt a 0) (nth_opt a 1))"
    by (simp add: main_methods_def map_get_def)
  from onRpc_call [OF this, of "[signed_block_json sb, JString sig]"] show ?thesis
    using Rpc_onBlockConfirmation signed_block_json_ok by (simp add: nth_opt_def)
qed

text \<open>The local call it stands for.\<close>

fun local_call :: "Node.rpc \<Rightarrow> 'sm params \<Rightarrow> ('sm, unit) node_act" where
  "local_call (Rpc_onSignedBlock sb) P = sm_onSignedBlock P sb None (RK_rpc sb)"
| "local_call (Rpc_onBlockConfirmation sb sig) P = sm_onBlockConfirmation P sb sig None (CK_rpc sb sig)"

lemma receive_wire:
  "peer_receive g P t (serializeRpc (wire r)) p =
     on_node P (local_call r) (p\<lparr>pr_net := tr_onMessage t (pr_net p)\<rparr>)"
  unfolding peer_receive_def onRpc_wire
  by (cases r) (simp_all add: peer_serve_def on_node_def)

text \<open>A successful broadcast ends up last on every open connection.\<close>

lemma tr_send_Inr:
  assumes "tr_send (Some t) m s = (Inr (), s')"
  shows "t < length (nw_transports s)" "length (nw_transports s') = length (nw_transports s)"
    "tr_sent (nw_transports s' ! t) = tr_sent (nw_transports s ! t) @ [m]"
    "u \<noteq> t \<Longrightarrow> nw_transports s' ! u = nw_transports s ! u"
  using assms by (auto simp: tr_send_def nth_opt_def split: option.splits if_splits)

lemma send_loop_sent:
  assumes "send_loop ts m s = (Inr (), s')" and "u \<in> set ts"
  shows "\<exists>ms. tr_sent (nw_transports s' ! u) = ms @ [m]"
  using assms
proof (induction ts arbitrary: s)
  case (Cons t ts)
  obtain s1 where 1: "tr_send (Some t) m s = (Inr (), s1)" and 2: "send_loop ts m s1 = (Inr (), s')"
    using Cons.prems(1) by (auto simp: sbind_def split: prod.splits sum.splits)
  show ?case
  proof (cases "u \<in> set ts")
    case False
    then have "u = t" using Cons.prems(2) by simp
    moreover have "nw_transports s' ! t = nw_transports s1 ! t"
      using 2 False \<open>u = t\<close>
    proof (induction ts arbitrary: s1)
      case (Cons v vs)
      then obtain s2 where "tr_send (Some v) m s1 = (Inr (), s2)" and "send_loop vs m s2 = (Inr (), s')"
        by (auto simp: sbind_def split: prod.splits sum.splits)
      with Cons show ?case using tr_send_Inr(4) [of v m s1 s2 t] by auto
    qed (simp add: sreturn_def)
    ultimately show ?thesis using tr_send_Inr(3) [OF 1] by simp
  qed (rule Cons.IH [OF 2])
qed simp

lemma broadcast_sent:
  assumes "rpc_broadcast r s = (Inr (), s')" and "u \<in> set (openConnections s)"
  shows "last (tr_sent (nw_transports s' ! u)) = serializeRpc r"
  using send_loop_sent [of "openConnections s" "serializeRpc r" s s' u] assms
  by (auto simp: rpc_broadcast_def p2p_broadcastRpc_def)

section \<open>What every step keeps\<close>

definition peer_inv :: "'sm params \<Rightarrow> 'sm peer \<Rightarrow> bool" where
  "peer_inv P p \<longleftrightarrow> node_inv (pr_node p) \<and> profile_inv (pr_net p) \<and>
     join_inv (p_ethers P) (p_signer P) (pr_join p) \<and> rtc_inv (pr_net p, pr_rtc p) \<and> hp_inv (pr_hp p)"

lemma rtc_inv_net: "rtc_inv (s, w) \<longleftrightarrow> rtc_inv (s', w)"
  by (simp add: rtc_inv_def)

lemma remote_simps [simp]:
  "p_ethers (remote P c e w) = p_ethers P" "p_signer (remote P c e w) = p_signer P"
  "(remote P c e w)\<lparr>p_send := v\<rparr> = remote P c e v" "hs_of g (remote P c e w) = hs_of g P"
  by (simp_all add: remote_def hs_of_def)

lemma env_ok_remote: "env_ok (remote P c e w) \<longleftrightarrow> env_ok (remote P c e v)"
  by (simp add: remote_def env_ok_def)

lemma broadcast_all_inv: "profile_inv s \<Longrightarrow> profile_inv (broadcast_all rs s)"
proof (induction rs arbitrary: s)
  case (Cons r rs)
  have "same_profiles s (snd (rpc_broadcast r s))"
    using send_loop_same by (simp add: keeps_def rpc_broadcast_def p2p_broadcastRpc_def)
  with Cons show ?case using same_profiles_inv by simp
qed simp

lemma profile_inv_message: "profile_inv s \<Longrightarrow> profile_inv (tr_onMessage t s)"
  by (simp add: tr_onMessage_def profile_inv_def profileOf_def)

text \<open>The parts of a peer change one at a time.\<close>

lemma peer_inv_net:
  "peer_inv P p \<Longrightarrow> profile_inv s \<Longrightarrow> peer_inv P (p\<lparr>pr_net := s\<rparr>)"
  using rtc_inv_net by (auto simp: peer_inv_def)

lemma peer_inv_node:
  "peer_inv P p \<Longrightarrow> node_inv n \<Longrightarrow>
     peer_inv P (p\<lparr>pr_node := n, pr_net := broadcast_all rs (pr_net p)\<rparr>)"
  using rtc_inv_net broadcast_all_inv by (auto simp: peer_inv_def)

lemma peer_inv_on_node:
  assumes "peer_inv P p" and "\<And>w. node_inv (snd (m (remote P c e w) (pr_node p)))"
  shows "peer_inv P (on_node (remote P c e w) m p)"
  using assms by (simp add: on_node_def Let_def peer_inv_node)

lemma peer_inv_on_join: "peer_inv P p \<Longrightarrow> peer_inv P (on_join P ev p)"
  unfolding peer_inv_def on_join_def Let_def
  using rtc_inv_net broadcast_all_inv join_handle_inv by auto

lemma on_join_remote [simp]: "on_join (remote P c e w) = on_join P"
  by (simp add: on_join_def fun_eq_iff)

lemma peer_inv_on_rtc:
  assumes "peer_inv P p" and "rtc_step (pr_net p, pr_rtc p) (f (pr_net p, pr_rtc p))"
    and "same_profiles (pr_net p) (fst (f (pr_net p, pr_rtc p)))"
  shows "peer_inv P (on_rtc f p)"
proof -
  obtain s w where f: "f (pr_net p, pr_rtc p) = (s, w)" by fastforce
  with assms rtc_step_inv same_profiles_inv show ?thesis
    by (auto simp: peer_inv_def on_rtc_def)
qed

text \<open>The handlers of the WebRTC service change connections by sending only.\<close>

lemma send_same: "same_profiles s (snd (rpc_sendOne r t s))"
  using tr_send_same by (simp add: rpc_sendOne_def keeps_def)

lemma rtc_same_profiles:
  "same_profiles s (fst (rtc_initiateWebRTC (s, w)))" "same_profiles s (fst (rtc_onOfferWebRTC x (s, w)))"
  "same_profiles s (fst (rtc_onAnswerWebRTC x (s, w)))" "same_profiles s (fst (rtc_onIceCandidate x (s, w)))"
  "same_profiles s (fst (rtc_afterOffer x c t (s, w)))" "same_profiles s (fst (rtc_afterAnswer x c t (s, w)))"
  "same_profiles s (fst (rtc_candidateFound x (s, w)))"
  by (auto simp: rtc_initiateWebRTC_def rtc_onOfferWebRTC_def rtc_onAnswerWebRTC_def rtc_onIceCandidate_def
      rtc_afterOffer_def rtc_afterAnswer_def rtc_candidateFound_def sp.R_refl send_same Let_def
      split: option.split)

lemma peer_inv_response:
  "peer_inv P p \<Longrightarrow> peer_inv P (peer_handshakeResponse H sig time preferred p)"
proof -
  assume p: "peer_inv P p"
  let ?p = "on_net (hs_onInitHandshakeResponse H (peer_now p) sig time preferred) p"
  have "profile_inv (pr_net p)" using p by (simp add: peer_inv_def)
  then have "peer_inv P ?p" unfolding on_net_def
    using p response_inv by (auto simp: keeps_def keeps_inv_def intro: peer_inv_net)
  then have "peer_inv P (on_rtc rtc_initiateWebRTC ?p)"
    by (intro peer_inv_on_rtc rtc_initiate rtc_same_profiles)
  with \<open>peer_inv P ?p\<close> show ?thesis by (simp add: peer_handshakeResponse_def Let_def)
qed

lemma peer_inv_handler:
  assumes "peer_inv P p" and "\<And>w. keeps rely (m (remote P c e w))"
  shows "peer_inv P (on_node (remote P c e w) m p)"
proof (rule peer_inv_on_node [OF assms(1)])
  fix w
  have "rely (pr_node p) (snd (m (remote P c e w) (pr_node p)))" using assms(2) by (simp add: keeps_def)
  then show "node_inv (snd (m (remote P c e w) (pr_node p)))"
    using node_inv_rely assms(1) by (auto simp: peer_inv_def)
qed

lemma peer_inv_serve:
  assumes p: "peer_inv P p" and env: "env_ok (remote P c e w)"
  shows "peer_inv P (peer_serve g (remote P c e w) call p)"
proof -
  have env': "env_ok (remote P c e v)" for v using env env_ok_remote by blast
  show ?thesis
  proof (cases call)
    case (SC_initHandshakeRequest h t)
    have "profile_inv (pr_net p)" using p by (simp add: peer_inv_def)
    then have "profile_inv (snd (hs_onInitHandshakeRequest H now x y (pr_net p)))" for H now x y
      using same_profiles_inv [OF keeps_snd [OF request_same]] by blast
    then show ?thesis
      unfolding SC_initHandshakeRequest peer_serve_def service_call.case on_net_def by (rule peer_inv_net [OF p])
  next
    case (SC_initHandshakeResponse a b d)
    then show ?thesis using p by (simp add: peer_serve_def peer_inv_response)
  next
    case (SC_signJoinChannelTEST a b)
    then show ?thesis using p
      by (simp add: peer_serve_def test_onSignJoinChannelTEST_def peer_inv_def split: option.split prod.split)
  next
    case (SC_joinChannelRequest a b)
    then show ?thesis using p by (simp add: peer_serve_def peer_inv_on_join split: sum.split)
  next
    case (SC_signedBlock a)
    have "keeps rely (case signed_block_arg a of Inl e \<Rightarrow> unhandled e
        | Inr sb \<Rightarrow> sm_onSignedBlock (remote P c e v) sb None (RK_rpc sb))" for v
      using env' by (auto intro!: rl_keeps split: sum.split)
    then show ?thesis
      unfolding SC_signedBlock peer_serve_def service_call.case by (rule peer_inv_handler [OF p])
  next
    case (SC_blockConfirmation a b)
    have "keeps rely (case signed_block_arg a of Inl e \<Rightarrow> unhandled e
        | Inr sb \<Rightarrow> sm_onBlockConfirmation (remote P c e v) sb (bytes_arg b) None (CK_rpc sb (bytes_arg b)))" for v
      using env' by (auto intro!: rl_keeps split: sum.split)
    then show ?thesis
      unfolding SC_blockConfirmation peer_serve_def service_call.case by (rule peer_inv_handler [OF p])
  qed (use p in \<open>auto simp: peer_serve_def intro!: peer_inv_on_rtc rtc_step.intros rtc_same_profiles\<close>)
qed

lemma peer_inv_receive:
  assumes "peer_inv P p" and "env_ok (remote P c e w)"
  shows "peer_inv P (peer_receive g (remote P c e w) t msg p)"
proof -
  have "peer_inv P (p\<lparr>pr_net := tr_onMessage t (pr_net p)\<rparr>)"
    using assms(1) by (intro peer_inv_net profile_inv_message) (auto simp: peer_inv_def)
  with assms(2) show ?thesis
    by (simp add: peer_receive_def Let_def peer_inv_serve split: option.split)
qed

lemma peer_inv_init: "peer_inv P (peer_init sm now tt)"
  by (simp add: peer_inv_def peer_init_def node_inv_init profile_inv_new join_new_inv rtc_inv_new hp_inv_ops)

lemma disconnectAll_inv: "profile_inv s \<Longrightarrow> profile_inv (snd (p2p_disconnectAll s))"
  by (simp add: p2p_disconnectAll_def disconnect_loop_inv)

lemma peer_inv_setChannelId: "peer_inv P p \<Longrightarrow> peer_inv P (signer_setChannelId Q c p)"
  unfolding signer_setChannelId_def on_node_def Let_def
  using node_inv_rely [OF keeps_snd [OF keeps_setChannelId(1)]]
  by (intro peer_inv_node) (auto simp: peer_inv_def)

lemma peer_step_inv:
  assumes "peer_step g P p p'" and "peer_inv P p"
  shows "peer_inv P p'"
  using assms
proof (induction rule: peer_step.induct)
  case (ps_message t p c e w msg)
  then show ?case by (simp add: peer_inv_receive)
next
  case (ps_node p n')
  then have "node_inv n'" using node_step_inv by (auto simp: peer_inv_def)
  with ps_node(2) show ?case by (rule peer_inv_node)
next
  case (ps_net p s)
  then have "profile_inv s" using net_sys.inv_step by (auto simp: peer_inv_def)
  with ps_net(2) show ?case by (rule peer_inv_net)
next
  case (ps_offered p xs c sender ys offer)
  then have "rtc_inv (rtc_afterOffer offer c sender (pr_net p, (pr_rtc p)\<lparr>rtc_pending := xs @ ys\<rparr>))"
    by (intro rtc_offered_inv) (auto simp: peer_inv_def)
  moreover have "same_profiles (pr_net p) (fst (rtc_afterOffer offer c sender (pr_net p, (pr_rtc p)\<lparr>rtc_pending := xs @ ys\<rparr>)))"
    by (rule rtc_same_profiles)
  ultimately show ?case
    using ps_offered(2) same_profiles_inv by (auto simp: peer_inv_def on_rtc_def split: prod.split)
next
  case (ps_answered p xs c sender ys answer)
  have "rtc_inv (rtc_afterAnswer answer c sender (pr_net p, (pr_rtc p)\<lparr>rtc_pending := xs @ ys\<rparr>))"
    using ps_answered rtc_step_inv [OF rtc_answered [of "(pr_net p, pr_rtc p)"]] by (auto simp: peer_inv_def)
  moreover have "same_profiles (pr_net p) (fst (rtc_afterAnswer answer c sender (pr_net p, (pr_rtc p)\<lparr>rtc_pending := xs @ ys\<rparr>)))"
    by (rule rtc_same_profiles)
  ultimately show ?case
    using ps_answered(2) same_profiles_inv by (auto simp: peer_inv_def on_rtc_def split: prod.split)
next
  case (ps_join p i)
  then show ?case by (simp add: peer_inv_on_join)
next
  case (ps_prune p i)
  then show ?case by (simp add: peer_inv_on_join)
next
  case (ps_candidate p candidate)
  then show ?case by (intro peer_inv_on_rtc rtc_found rtc_same_profiles)
next
  case (ps_connect p c)
  from peer_inv_setChannelId [OF this] show ?case
    by (simp add: peer_inv_def signer_connectToChannel_def p2p_tryOpenConnectionToChannel_def hp_inv_ops)
next
  case (ps_disconnect p)
  then have "profile_inv (snd (p2p_disconnectAll (pr_net p)))"
    by (intro disconnectAll_inv) (simp add: peer_inv_def)
  with ps_disconnect show ?case by (simp add: signer_disconnectFromPeers_def on_net_def peer_inv_net)
next
  case (ps_dispose p)
  then have "peer_inv P (p\<lparr>pr_hp := hp_dispose (pr_hp p)\<rparr>)" by (simp add: peer_inv_def hp_inv_ops)
  moreover from ps_dispose have "profile_inv (snd (p2p_disconnectAll (pr_net p)))"
    by (intro disconnectAll_inv) (simp add: peer_inv_def)
  ultimately show ?case by (simp add: p2p_dispose_def on_net_def peer_inv_net)
qed (auto simp: peer_inv_def signer_setJc_def signer_setIsLeader_def hp_inv_ops)

interpretation peer_sys: invariant_system "\<lambda>p. \<exists>sm now tt. p = peer_init sm now tt" "peer_step g P" "peer_inv P"
  for g P
  by unfold_locales (auto intro: peer_inv_init peer_step_inv)

end
