(* ===== verification/Setup.thy ===== *)
theory Setup
  imports PeerFacts EvmMachine EventListener Clock
begin

text \<open>
  An application's instance from \<open>EvmStateMachine.p2pSetup\<close> to \<open>dispose\<close>
  (\<open>src/evm/EvmStateMachine.ts\<close>, \<open>src/evm/P2pInstance.ts\<close>, \<open>src/stateManager/StateManager.ts\<close>):
  the peer with the state machine it executes, and what listens to the chain. The answers of the
  provider, of the contract and of the wallet are the record \<open>setup_env\<close>.
\<close>

section \<open>Setting up\<close>

record 'evm setup_env =
  su_provider :: "nat \<Rightarrow> sync_input"
  su_deploy :: "'evm \<Rightarrow> deployment_result res \<times> 'evm"
  su_evm :: 'evm
  su_allTimes :: "(js_num \<times> js_num \<times> js_num \<times> js_num) res"
  su_address :: "address res"
  su_ms :: int
  su_browser :: bool

definition setup_timeConfig :: "js_num \<times> js_num \<times> js_num \<times> js_num \<Rightarrow> time_config" where
  "setup_timeConfig configTimes =
     (case configTimes of (a, b, c, d) \<Rightarrow>
        \<lparr>p2pTime = js_Number a, agreementTime = js_Number b, chainFallbackTime = js_Number c,
         challengeTime = js_Number d\<rparr>)"

record 'evm p2p_instance =
  in_params :: "'evm params"
  in_peer :: "'evm peer"
  in_listener :: event_listener

text \<open>
  The constructor of \<open>Holepunch\<close>: in a browser, where \<open>window\<close> is defined, the peer prefers WebRTC
  and reaches the swarm through a relayer.
\<close>

definition holepunch_transport :: "bool \<Rightarrow> transport_type" where
  "holepunch_transport browser = (if browser then WEBRTC else HOLEPUNCH)"

definition holepunch_relayers :: "bool \<Rightarrow> string list" where
  "holepunch_relayers browser =
     (if browser then [''wss://sigma8solution.com/dht-relay/'', ''wss://dht1-relay.leet.ar:49443''] else [])"

text \<open>\<open>new StateManager(...)\<close> with the objects it makes; \<open>now\<close> is the clock.\<close>

definition new_instance :: "'evm evm_api \<Rightarrow> 'evm params \<Rightarrow> address \<Rightarrow> time_config \<Rightarrow> 'evm \<Rightarrow> nat \<Rightarrow> bool \<Rightarrow> 'evm p2p_instance" where
  "new_instance A P adr timeConfig evm now browser =
     \<lparr>in_params = evm_params A True (P\<lparr>p_signerAddress := adr, p_timeConfig := timeConfig\<rparr>),
      in_peer = peer_init evm now (holepunch_transport browser), in_listener = listener_new\<rparr>"

text \<open>\<open>None\<close> when the clock never gets near the chain.\<close>

definition p2pSetup :: "'evm evm_api \<Rightarrow> 'evm params \<Rightarrow> 'evm setup_env \<Rightarrow> 'evm p2p_instance res option" where
  "p2pSetup A P S =
     map_option (\<lambda>clock.
       rbind clock (\<lambda>c.
       case createStandalone (su_deploy S) (su_evm S) of
         (Inl e, _) \<Rightarrow> Inl e
       | (Inr _, evm) \<Rightarrow>
           rbind (su_allTimes S) (\<lambda>configTimes.
           rbind (su_address S) (\<lambda>adr.
           rmap (\<lambda>now. new_instance A P adr (setup_timeConfig configTimes) evm (nat now)
                        (su_browser S))
             (clock_getTimeInSeconds (su_ms S) c)))))
       (clock_init (su_provider S))"

section \<open>The channel of an instance\<close>

text \<open>\<open>StateManager.setChannelId\<close> with the event listener it also tells.\<close>

definition instance_setChannelId :: "bytes \<Rightarrow> 'evm p2p_instance \<Rightarrow> 'evm p2p_instance" where
  "instance_setChannelId channelId i =
     i\<lparr>in_peer := signer_setChannelId (in_params i) channelId (in_peer i),
       in_listener := listener_setChannelId channelId (in_listener i)\<rparr>"

definition instance_connect :: "bytes \<Rightarrow> 'evm p2p_instance \<Rightarrow> 'evm p2p_instance" where
  "instance_connect channelId i =
     (let i' = instance_setChannelId channelId i in
      i'\<lparr>in_peer := p2p_tryOpenConnectionToChannel channelId (in_peer i')\<rparr>)"

text \<open>The contract emits an event of a channel.\<close>

definition instance_event :: "bytes \<Rightarrow> contract_event \<Rightarrow> 'evm p2p_instance \<Rightarrow> 'evm p2p_instance" where
  "instance_event channelId e i =
     i\<lparr>in_peer := on_node (in_params i) (\<lambda>P. contract_emits P (in_listener i) channelId e) (in_peer i)\<rparr>"

text \<open>\<open>P2pInstance.dispose\<close> and \<open>StateManager.dispose\<close>.\<close>

definition instance_dispose :: "'evm p2p_instance \<Rightarrow> 'evm p2p_instance" where
  "instance_dispose i =
     i\<lparr>in_peer := p2p_dispose (on_node (in_params i) (\<lambda>P. sm_dispose) (in_peer i)),
       in_listener := listener_dispose (in_listener i)\<rparr>"

text \<open>\<open>P2pSigner.call\<close>: a call of the application runs as a view on the EVM of the node.\<close>

definition signer_call :: "'evm evm_api \<Rightarrow> bytes \<Rightarrow> ('evm p2p_instance, string) act" where
  "signer_call A data i =
     (case evm_runView A data (n_sm (pr_node (in_peer i))) of
        (r, evm) \<Rightarrow> (r, i\<lparr>in_peer := (in_peer i)\<lparr>pr_node := (pr_node (in_peer i))\<lparr>n_sm := evm\<rparr>\<rparr>\<rparr>))"

section \<open>Lemmas\<close>

lemma setup_Inr:
  assumes "p2pSetup A P S = Some (Inr i)"
  obtains evm now tt where "in_peer i = peer_init evm now tt" and "in_listener i = listener_new"
proof -
  obtain c where c: "clock_init (su_provider S) = Some (Inr c)"
    using assms by (auto simp: p2pSetup_def rbind_Inr_iff)
  obtain r evm where sa: "createStandalone (su_deploy S) (su_evm S) = (r, evm)" by fastforce
  with assms c obtain a where "r = Inr a" by (cases r) (auto simp: p2pSetup_def)
  with assms c sa obtain adr cfg now where "i = new_instance A P adr cfg evm now (su_browser S)"
    by (auto simp: p2pSetup_def rbind_Inr_iff rmap_Inr_iff)
  with that show thesis by (simp add: new_instance_def)
qed

lemma on_node_quiet:
  assumes "\<And>P n. n_outbox (snd (m P n)) = n_outbox n"
  shows "on_node Q m p = p\<lparr>pr_node := snd (m (Q\<lparr>p_send := net_send (pr_net p)\<rparr>) (pr_node p))\<rparr>"
  using assms by (simp add: on_node_def Let_def)

lemma connect_fields:
  "in_params (instance_connect c i) = in_params i"
  "n_channelId (pr_node (in_peer (instance_connect c i))) = c"
  "topics (pr_hp (in_peer (instance_connect c i))) = topics (pr_hp (in_peer i)) @ [channel_topic c]"
  "in_listener (instance_connect c i) = listener_setChannelId c (in_listener i)"
  by (simp_all add: instance_connect_def instance_setChannelId_def signer_setChannelId_def Let_def
      p2p_tryOpenConnectionToChannel_def hp_join_def on_node_quiet sm_setChannelId_def smodify_def)

lemma connect_inv: "peer_inv P (in_peer i) \<Longrightarrow> peer_inv P (in_peer (instance_connect c i))"
  using peer_inv_setChannelId [of P "in_peer i" "in_params i" c]
  by (simp add: instance_connect_def instance_setChannelId_def Let_def p2p_tryOpenConnectionToChannel_def
      peer_inv_def hp_inv_ops)

lemma dispose_topics: "hp_inv h \<Longrightarrow> joined (swarmCalls (hp_dispose h)) {} = {}"
  by (simp add: hp_inv_def hp_dispose_def hp_leaveTopics_def)

end
