(* ===== verification/SystemProperties.thy ===== *)
theory SystemProperties
  imports Clock Relay EvmMachine EventListener WebRTC SampleNode Setup
begin

text \<open>
  Properties of the helpers around the core: the mutex, the retry loop, the clock, the relays,
  the state machine executed by the EVM, and the listener of contract events.
\<close>

section \<open>The mutex and retry\<close>

text \<open>
  C40. The mutex is fair: whatever sequence of requests and releases by the holder, those who got
  the lock followed by those still waiting are the requests in order, and one more got it than
  released it exactly when it is held.
\<close>

theorem mutex_fifo:
  assumes "mutex_gate.legal es mutex_new"
  shows "fst (mutex_gate.run es mutex_new) @ mutexQueue (snd (mutex_gate.run es mutex_new)) = mutex_gate.requests es \<and>
    length (fst (mutex_gate.run es mutex_new)) + (if isLocked (snd (mutex_gate.run es mutex_new)) then 0 else 1) =
      1 + mutex_gate.releases es"
proof -
  have "mutex_gate.conserving (mutex_new :: 'a mutex)" by (simp add: mutex_gate.conserving_def mutex_new_def)
  from mutex_gate.fifo [OF this assms] mutex_gate.permits_conserved [OF this assms]
  show ?thesis by (simp add: mutex_new_def)
qed

theorem mutex_fifo_witness:
  "fst (mutex_gate.run [Acquire (1::nat), Acquire 2, Acquire 3, Release] mutex_new) = [1, 2] \<and>
   mutexQueue (snd (mutex_gate.run [Acquire (1::nat), Acquire 2, Acquire 3, Release] mutex_new)) = [3]"
proof -
  have legal: "mutex_gate.legal [Acquire (1::nat), Acquire 2, Acquire 3, Release] mutex_new"
    by (simp add: mutex_lock_def mutex_new_def)
  have "fst (mutex_gate.run [Acquire (1::nat), Acquire 2, Acquire 3, Release] mutex_new) = [1, 2]"
    by (simp add: mutex_lock_def mutex_unlock_def mutex_new_def)
  with mutex_fifo [OF legal] show ?thesis by simp
qed

text \<open>
  C91. \<open>retry\<close> calls its function until it succeeds, at most \<open>maxRetries + 1\<close> times: it returns the
  first success, or throws the last error, after waiting the configured delay between calls.
\<close>

theorem retry_outcome:
  "(\<forall>n x. n \<le> maxRetries cfg \<and> fn n = Inr x \<and> (\<forall>i < n. \<exists>e. fn i = Inl e) \<longrightarrow>
      retry cfg fn = (Inr x, Suc n, map (retry_delay cfg) [0..<n])) \<and>
   (\<forall>err. (\<forall>i \<le> maxRetries cfg. fn i = Inl (err i)) \<longrightarrow>
      retry cfg fn = (Inl (err (maxRetries cfg)), Suc (maxRetries cfg), map (retry_delay cfg) [0..<maxRetries cfg]))"
proof (intro conjI allI impI)
  show "retry cfg fn = (Inr x, Suc n, map (retry_delay cfg) [0..<n])"
    if "n \<le> maxRetries cfg \<and> fn n = Inr x \<and> (\<forall>i < n. \<exists>e. fn i = Inl e)" for n x
    unfolding retry_def by (rule retry_from_success) (use that in auto)
  show "retry cfg fn =
      (Inl (err (maxRetries cfg)), Suc (maxRetries cfg), map (retry_delay cfg) [0..<maxRetries cfg])"
    if "\<forall>i \<le> maxRetries cfg. fn i = Inl (err i)" for err
    unfolding retry_def by (rule retry_from_failure) (use that in auto)
qed

theorem retry_outcome_witness:
  "retry (retry_config_default 2) (\<lambda>i. if i < 2 then Inl (Error ''e'') else Inr (7::nat)) = (Inr 7, 3, [0, 0])"
proof -
  let ?fn = "\<lambda>i::nat. if i < 2 then Inl (Error ''e'') else Inr (7::nat)"
  have "2 \<le> maxRetries (retry_config_default 2) \<and> ?fn 2 = Inr 7 \<and> (\<forall>i < 2. \<exists>e. ?fn i = Inl e)"
    by (simp add: retry_config_default_def)
  with retry_outcome [of "retry_config_default 2" ?fn]
  have "retry (retry_config_default 2) ?fn = (Inr 7, Suc 2, map (retry_delay (retry_config_default 2)) [0..<2])"
    by blast
  then show ?thesis by (simp add: retry_config_default_def retry_delay_def upt_rec)
qed

section \<open>The clock\<close>

text \<open>
  C40. \<open>syncClock\<close> returns after at most two rounds on a healthy chain (100 blocks that took time)
  that between the rounds gains at most two average block times on the wall clock, with the
  clock moved by what the chain was ahead, if that was more than two average block times.
\<close>

theorem clock_sync_returns:
  assumes "healthy (env k) l0 s0" and "healthy (env (Suc k)) l1 s1"
    and "100 * ((l1 - l0) - (si_now (env (Suc k)) - si_now (env k))) \<le> 2 * s1"
  shows "syncClock env k adj =
    Some (Inr (if 100 * (l0 - (si_now (env k) + adj)) > 2 * s0 then l0 - si_now (env k) else adj))"
  by (rule sync_two_rounds [OF assms])

definition sampleSync :: "nat \<Rightarrow> sync_input" where
  "sampleSync k = \<lparr>si_now = 1000 + int k, si_latest = Some \<lparr>ch_number = 150, ch_timestamp = 1500 + int k\<rparr>,
     si_past = (\<lambda>n. Some \<lparr>ch_number = n, ch_timestamp = 300 + int k\<rparr>)\<rparr>"

theorem clock_sync_returns_witness: "syncClock sampleSync 0 0 = Some (Inr 500)"
proof -
  have h: "healthy (sampleSync 0) 1500 1200" "healthy (sampleSync (Suc 0)) 1501 1200"
    by (simp_all add: healthy_def sampleSync_def)
  have now: "si_now (sampleSync k) = 1000 + int k" for k by (simp add: sampleSync_def)
  from clock_sync_returns [OF h, of 0] show ?thesis by (simp add: now)
qed

section \<open>Relayers\<close>

text \<open>
  Connecting to a relayer ends: either with a relayer of the list whose sockets can be
  built, after dropping only relayers whose sockets cannot, each tried once, and the callback
  called once; or with an empty list, when none can be built.
\<close>

theorem relay_connects:
  "\<exists>failed. (\<forall>u \<in> set failed. \<not> buildable u) \<and>
     mset urls = mset (relayerUrls (relay_init buildable rnd urls)) + mset failed \<and>
     (if \<exists>u \<in> set urls. buildable u
      then \<exists>u \<in> set urls. buildable u \<and> swarm (relay_init buildable rnd urls) = Some u \<and>
        rl_updates (relay_init buildable rnd urls) = 1 \<and> rl_attempts (relay_init buildable rnd urls) = failed @ [u]
      else swarm (relay_init buildable rnd urls) = None \<and> relayerUrls (relay_init buildable rnd urls) = [])"
proof -
  let ?r = "relay_init buildable rnd urls"
  obtain failed where f: "\<forall>u \<in> set failed. \<not> buildable u" "mset urls = mset (relayerUrls ?r) + mset failed"
    "(\<exists>u \<in> set (relayerUrls ?r). buildable u \<and> swarm ?r = Some u \<and> rl_updates ?r = 1 \<and> rl_attempts ?r = failed @ [u]) \<or>
     (relayerUrls ?r = [] \<and> swarm ?r = None)"
    using connect_done [of buildable "relay_new urls" rnd] unfolding relay_done_def relay_init_def
    by (auto simp: relay_new_def)
  have "set urls = set (relayerUrls ?r) \<union> set failed"
    using arg_cong [OF f(2), of set_mset] by simp
  with f show ?thesis by (intro exI [of _ failed]) auto
qed

theorem relay_connects_witness:
  "swarm (relay_init (\<lambda>u. u = ''b'') (\<lambda>_. 0) [''a'', ''b'']) = Some ''b''"
  using relay_connects [of "\<lambda>u. u = ''b''" "[''a'', ''b'']" "\<lambda>_. 0"] by auto

section \<open>The state machine\<close>

text \<open>
  With an EVM that rolls back what ends in an exception and views that change nothing, a
  transition that fails leaves the node's state machine as it was, its callback emits nothing,
  and asking for the state, the participants or the next writer never changes it.
\<close>

theorem evm_failure_rolls_back:
  assumes "evm_reverts A" and "evm_views_pure A"
    and "p_stateTransition (evm_params A i P) tx s = (Inr (False, events), s')"
  shows "s' = s \<and> events = [] \<and> snd (evm_getState A s) = s \<and> snd (evm_getParticipants A s) = s \<and>
    snd (evm_getNextToWrite A s) = s"
proof -
  obtain logs where t: "evm_stateTransition A tx s = (Inr (False, logs), s')" "events = processLogs A i logs"
    using assms(3) by (auto simp: evm_params_def rmap_Inr_iff split: prod.splits)
  from stateTransition_failed [OF assms(1) t(1)] t(2) view_state [OF assms(2)] show ?thesis
    by (simp add: processLogs_def)
qed

text \<open>An EVM that counts the transactions it executes and refuses the fourth.\<close>

definition sampleEVM :: "nat evm_api" where
  "sampleEVM =
     \<lparr>evm_runCall = (\<lambda>d n. if d = ''t'' then if n < 3 then
          (Inr \<lparr>er_exceptionError = False, er_returnValue = [], er_logs = []\<rparr>, Suc n)
        else (Inr \<lparr>er_exceptionError = True, er_returnValue = ''r'', er_logs = []\<rparr>, n)
        else (Inr \<lparr>er_exceptionError = False, er_returnValue = replicate n CHR ''1'', er_logs = []\<rparr>, n)),
      evm_encode = (\<lambda>f args. Inr (if f = ''stateTransition'' then ''t'' else ''v'')), evm_hexlify = (\<lambda>b. b),
      evm_decodeAddresses = (\<lambda>_. Inr [''A'', ''B'']), evm_decodeAddress = (\<lambda>_. Inr ''A''),
      evm_decodeBytes = (\<lambda>b. Inr b), evm_revertString = (\<lambda>_. Inr ''limit''), evm_parseLog = (\<lambda>_ _. Inr None)\<rparr>"

theorem evm_failure_rolls_back_witness:
  "p_stateTransition (evm_params sampleEVM True sampleP) (blk_transaction block0) 2 = (Inr (True, []), 3) \<and>
   p_stateTransition (evm_params sampleEVM True sampleP) (blk_transaction block0) 3 = (Inr (False, []), 3) \<and>
   snd (evm_getState sampleEVM 3) = 3"
proof -
  have r: "evm_reverts sampleEVM" by (simp add: evm_reverts_def sampleEVM_def)
  have v: "evm_views_pure sampleEVM" by (simp add: evm_views_pure_def sampleEVM_def)
  have t: "p_stateTransition (evm_params sampleEVM True sampleP) (blk_transaction block0) 3 = (Inr (False, []), 3)"
    by (simp add: evm_params_def evm_stateTransition_def getEncodedCalldata_def act_defs sampleEVM_def
        executeCall_def decodeError_def processLogs_def)
  have "p_stateTransition (evm_params sampleEVM True sampleP) (blk_transaction block0) 2 = (Inr (True, []), 3)"
    by (simp add: evm_params_def evm_stateTransition_def getEncodedCalldata_def act_defs sampleEVM_def
        executeCall_def processLogs_def)
  with evm_failure_rolls_back [OF r v t] t show ?thesis by simp
qed

section \<open>Contract events\<close>

text \<open>
  C95. After any sequence of \<open>setChannelId\<close>, the node listens to the three events of the last
  channel once each: an event of another channel changes nothing, one of its channel runs its
  handler; and after \<open>dispose\<close> nothing is left on the contract.
\<close>

theorem listens_to_last_channel:
  "contract_emits P (foldl (\<lambda>l c. listener_setChannelId c l) listener_new (cs @ [c])) c' e =
     (if c' = c then on_contract_event P e else sreturn ()) \<and>
   contractListeners (listener_dispose (foldl (\<lambda>l c. listener_setChannelId c l) listener_new (cs @ [c]))) = []"
proof -
  have inv: "listener_inv (foldl (\<lambda>l c. listener_setChannelId c l) listener_new cs)"
    by (induction cs rule: rev_induct) (simp_all add: listener_new_inv setChannelId_listeners(1))
  from other_channel_ignored [OF this] have
    "c' \<noteq> c \<Longrightarrow> contract_emits P (listener_setChannelId c (foldl (\<lambda>l c. listener_setChannelId c l) listener_new cs)) c' e =
       sreturn ()"
    by (auto simp: fun_eq_iff sreturn_def)
  with own_channel_handled [OF inv, of P c e] dispose_listeners [OF setChannelId_listeners(1) [OF inv]]
  show ?thesis by simp
qed

section \<open>The life of an instance\<close>






end
