(* ===== verification/Gossip.thy ===== *)
theory Gossip
  imports NodeTheorems
begin

text \<open>
  What a node sends on, and what a connection that throws does to it. A node spreads a block it
  received only when it has just stored it, so a block travels at most once through every node;
  and since the confirmation is sent while the mutex is held, an exception of one connection
  leaves the mutex locked.
\<close>

section \<open>Broadcasts of blocks\<close>

fun is_block_rpc :: "rpc \<Rightarrow> bool" where
  "is_block_rpc (Rpc_onSignedBlock sb) = True"
| "is_block_rpc (Rpc_onBlockConfirmation sb sig) = False"

definition blocks_sent :: "'sm node \<Rightarrow> rpc list" where
  "blocks_sent n = filter is_block_rpc (n_outbox n)"

definition mute :: "'sm node \<Rightarrow> 'sm node \<Rightarrow> bool" where
  "mute n n' \<longleftrightarrow> blocks_sent n' = blocks_sent n"

text \<open>The other handlers at an \<open>await\<close> do not broadcast blocks: only the holder of the mutex does.\<close>

definition env_mute :: "'sm params \<Rightarrow> bool" where
  "env_mute P \<longleftrightarrow> (\<forall>site n. mute n (p_env P site n))"

interpretation mt: preserved "mute :: 'sm node \<Rightarrow> 'sm node \<Rightarrow> bool"
  by unfold_locales (simp_all add: mute_def)

named_theorems mt_keeps \<open>actions that broadcast no block\<close>

lemmas mt_keeps_basic [mt_keeps] = mt.bind mt.pure mt.R_refl

lemma mute_frame [mt_keeps]:
  "mute n (n\<lparr>n_sm := sm\<rparr>)" "mute n (n\<lparr>n_am := am\<rparr>)" "mute n (n\<lparr>n_timers := ts\<rparr>)"
  "mute n (n\<lparr>n_hooks := hs\<rparr>)" "mute n (n\<lparr>n_rejections := es\<rparr>)" "mute n (n\<lparr>n_jobs := js\<rparr>)"
  "mute n (n\<lparr>n_mutex := m\<rparr>)" "mute n (n\<lparr>n_mutex := m, n_jobs := js\<rparr>)"
  "mute n (n\<lparr>n_dh := d, n_procs := ps, n_rejections := es\<rparr>)"
  by (simp_all add: mute_def blocks_sent_def)

lemma mute_basic [mt_keeps]:
  "keeps mute nget" "keeps mute (on_am f)" "keeps mute (on_sm g)" "keeps mute (scheduleTask t delay)"
  "keeps mute (fire_hook h)" "keeps mute (unhandled e)" "keeps mute (push_job j)" "keeps mute unlock"
  "keeps mute (call_dispute m)" "keeps mute (broadcast P (Rpc_onBlockConfirmation sb sig))"
  by (auto simp: keeps_def nget_def on_am_def on_sm_def scheduleTask_def fire_hook_def unhandled_def
      push_job_def unlock_def smodify_def sread_def call_dispute_def intro!: mt_keeps
      split: prod.split sum.split option.split)
    (simp add: mute_def blocks_sent_def broadcast_def)

lemma mute_await [mt_keeps]:
  assumes "env_mute P"
  shows "keeps mute (nawait P site)" and "keeps mute m \<Longrightarrow> keeps mute (call_await P site m)"
proof -
  have e: "mute n (p_env P site n)" for n using assms by (simp add: env_mute_def)
  then show "keeps mute (nawait P site)" by (simp add: nawait_def mt.modify)
  show "keeps mute (call_await P site m)" if m: "keeps mute m"
    unfolding keeps_def
  proof
    fix s
    obtain r s1 where run: "m s = (r, s1)" by fastforce
    with mt.R_trans [OF keepsD [OF m run] e] show "mute s (snd (call_await P site m s))"
      by (simp add: call_await_def)
  qed
qed

lemma mute_settle [mt_keeps]: "keeps mute m \<Longrightarrow> keeps mute (settle m)"
  by (auto simp: keeps_def settle_def split: prod.split) (metis snd_conv)

lemma mute_detached [mt_keeps]: "keeps mute m \<Longrightarrow> keeps mute (detached m)"
  unfolding detached_def by (auto intro!: mt_keeps split: sum.split)

lemma mute_validate [mt_keeps]: "env_mute P \<Longrightarrow> keeps mute (vs_validateSignedBlock P sb b)"
  unfolding vs_validateSignedBlock_def vs_isGoodTimestamp_def vs_isEnoughTimeSubjective_def
    vs_processStateTransition_def getEncodedStateKecak256_def isMyTurn_def getNextToWrite_def Let_def
  by (auto intro!: mt_keeps split: option.split prod.split)

lemma mute_decision [mt_keeps]: "env_mute P \<Longrightarrow> keeps mute (sm_processExecutionDecision P sb flag af)"
  unfolding sm_processExecutionDecision_def sm_confirmBlock_def sm_onSuccessCommon_def getNextToWrite_def
    sm_disputeHandlers_def Let_def
  by (auto intro!: mt_keeps split: execution_flag.split option.split agreement_flag.split)

section \<open>A block is sent on when it was just stored\<close>

lemma sbind_sread: "sbind (sread g) f n = (case g n of Inl e \<Rightarrow> (Inl e, n) | Inr x \<Rightarrow> f x n)"
  by (simp add: sbind_def sread_def split: sum.split)

text \<open>The flag of a result is SUCCESS exactly when its success field is set.\<close>

definition coherent :: "('sm, validation_result) node_act \<Rightarrow> bool" where
  "coherent m \<longleftrightarrow> (\<forall>n r n'. m n = (Inr r, n') \<longrightarrow> (vr_flag r = EF_SUCCESS \<longleftrightarrow> vr_success r))"

lemma coherent_bind: "(\<And>x. coherent (f x)) \<Longrightarrow> coherent (sbind m f)"
  unfolding coherent_def by (auto simp: sbind_def split: prod.splits sum.splits)

lemma coherent_result:
  "coherent (sreturn vr_ok)" "coherent (sreturn (vr_dispute af))"
  "flag \<noteq> EF_SUCCESS \<Longrightarrow> coherent (sreturn (vr_fail flag))"
  by (simp_all add: coherent_def sreturn_def vr_ok_def vr_dispute_def vr_fail_def)

lemma coherent_static: "vs_checkStatic P sb b n = Inr (Some r) \<Longrightarrow> vr_flag r = EF_SUCCESS \<longleftrightarrow> vr_success r"
  by (auto simp: vs_checkStatic_def Let_def rbind_Inr_iff vr_fail_def vr_dispute_def split: if_splits)

lemma coherent_validate:
  assumes "vs_validateSignedBlock P sb b n = (Inr r, n')"
  shows "vr_flag r = EF_SUCCESS \<longleftrightarrow> vr_success r"
proof -
  have st: "coherent (vs_processStateTransition P b sb)"
    unfolding vs_processStateTransition_def Let_def
    by (auto intro!: coherent_bind coherent_result split: prod.split)
  have rest: "coherent (sbind (call_await P ''isGoodTimestamp'' (vs_isGoodTimestamp P b)) (\<lambda>good.
           if \<not> good then sreturn (vr_dispute AF_INCORRECT_DATA)
           else sbind (call_await P ''isEnoughTime'' (vs_isEnoughTimeSubjective P sb b))
             (\<lambda>timeFlag.
             if timeFlag \<noteq> EF_SUCCESS then sreturn (vr_fail timeFlag)
             else sbind (getNextToWrite P) (\<lambda>nextToWrite.
               if getBlockAuthor b \<noteq> nextToWrite
               then sreturn (vr_dispute AF_INCORRECT_DATA)
               else vs_processStateTransition P b sb))))"
    using st by (auto intro!: coherent_bind coherent_result)
  show ?thesis
  proof (cases "vs_checkStatic P sb b n")
    case (Inr d)
    show ?thesis
    proof (cases d)
      case None
      with Inr assms rest show ?thesis
        unfolding coherent_def vs_validateSignedBlock_def sbind_sread by (simp, blast)
    next
      case (Some x)
      with Inr assms coherent_static show ?thesis
        unfolding vs_validateSignedBlock_def sbind_sread by (fastforce simp: sreturn_def)
    qed
  qed (use assms in \<open>simp add: vs_validateSignedBlock_def sbind_sread\<close>)
qed

text \<open>What the holder does once validation returned.\<close>

definition decide :: "'sm params \<Rightarrow> signed_block \<Rightarrow> validation_result \<Rightarrow> ('sm, unit) node_act" where
  "decide P sb r n = call_await P ''processExecutionDecision''
     (sm_processExecutionDecision P sb (vr_flag r) (vr_agreementFlag r)) (p_env P ''validateSignedBlock'' n)"

lemma locked_run:
  assumes "vs_validateSignedBlock P sb b n = (Inr r, n1)"
  shows "sm_onSignedBlock_locked P sb b n =
    (case decide P sb r n1 of (Inl e, n3) \<Rightarrow> (Inl e, n3) | (Inr u, n3) \<Rightarrow> (Inr (vr_flag r), snd (unlock n3)))"
  using assms
  by (simp add: sm_onSignedBlock_locked_def settle_def sbind_def decide_def sreturn_def unlock_def smodify_def
      call_await_def [of P "''validateSignedBlock''"] split: prod.split sum.split)

lemma locked_run_throws:
  "vs_validateSignedBlock P sb b n = (Inl e, n1) \<Longrightarrow> \<exists>e n'. sm_onSignedBlock_locked P sb b n = (Inl e, n')"
  by (simp add: sm_onSignedBlock_locked_def settle_def sbind_def call_await_def sthrow_def unlock_def smodify_def
      split: prod.split sum.split)

lemma keeps_decide:
  assumes "env_ok P"
  shows "keeps rely (decide P sb r)"
proof -
  have "keeps rely (call_await P ''processExecutionDecision''
      (sm_processExecutionDecision P sb (vr_flag r) (vr_agreementFlag r)))"
    using assms by (intro rl_keeps)
  from keeps_snd [OF this] assms show ?thesis
    unfolding keeps_def decide_def env_ok_def using rlp.R_trans by blast
qed

lemma mute_decide:
  assumes "env_mute P"
  shows "keeps mute (decide P sb r)"
proof -
  have "keeps mute (call_await P ''processExecutionDecision''
      (sm_processExecutionDecision P sb (vr_flag r) (vr_agreementFlag r)))"
    using assms by (intro mt_keeps)
  from keeps_snd [OF this] assms show ?thesis
    unfolding keeps_def decide_def env_mute_def using mt.R_trans by blast
qed

lemma locked_success:
  assumes "sm_onSignedBlock_locked P sb b n = (Inr EF_SUCCESS, n')" and "env_ok P"
  obtains r n1 where "vs_validateSignedBlock P sb b n = (Inr r, n1)" and "vr_success r"
    and "core_le n1 n'"
proof -
  obtain res n1 where v: "vs_validateSignedBlock P sb b n = (res, n1)" by fastforce
  then obtain r where r: "res = Inr r" using locked_run_throws [of P sb b n] assms(1) by (cases res) auto
  obtain d n3 where d: "decide P sb r n1 = (d, n3)" by fastforce
  have 13: "rely n1 n3" using keepsD [OF keeps_decide [OF assms(2)] d] .
  have "vr_flag r = EF_SUCCESS \<and> n' = snd (unlock n3)"
    using assms(1) locked_run [OF v [unfolded r]] d by (auto split: sum.splits)
  with coherent_validate v r have "vr_success r" and "n' = snd (unlock n3)" by blast+
  moreover from this 13 have "core_le n1 n'" using core_le_trans rely_core core_le_unlock by metis
  ultimately show thesis using that v r by blast
qed

lemma mute_locked:
  assumes "env_mute P"
  shows "keeps mute (sm_onSignedBlock_locked P sb b)"
  unfolding sm_onSignedBlock_locked_def
proof (rule mt.bind)
  show "keeps mute (settle (call_await P ''validateSignedBlock'' (vs_validateSignedBlock P sb b)))"
    using assms by (intro mt_keeps)
  show "keeps mute (let (finalExecutionFlag, finalAgreementFlag) =
             (case result of Inl _ \<Rightarrow> (EF_SUCCESS, None) | Inr r \<Rightarrow> (vr_flag r, vr_agreementFlag r))
       in sbind (call_await P ''processExecutionDecision''
                   (sm_processExecutionDecision P sb finalExecutionFlag finalAgreementFlag)) (\<lambda>_.
          sbind unlock (\<lambda>_. case result of Inl e \<Rightarrow> sthrow e | Inr r \<Rightarrow> sreturn finalExecutionFlag)))"
    for result using assms by (cases result) (simp_all, (intro mt_keeps; assumption)+)
qed

text \<open>
  The handler of a received block: either no block goes out, or the block itself does, and then
  validation succeeded from this state.
\<close>

lemma spread_cases:
  assumes env: "env_ok P" "env_mute P"
    and run: "run_job P (J_signed_locked sb b (RK_rpc sb)) n = (res, n')"
  obtains (silent) "mute n n'"
  | (spread) r n1 where "vs_validateSignedBlock P sb b n = (Inr r, n1)" "vr_success r" "core_le n1 n'"
      "blocks_sent n' = blocks_sent n @ [Rpc_onSignedBlock sb]"
proof -
  obtain out n2 where l: "sm_onSignedBlock_locked P sb b n = (out, n2)" by fastforce
  have 1: "mute n n2" using keepsD [OF mute_locked [OF env(2)] l] .
  show thesis
  proof (cases out)
    case (Inl e)
    with run l have "n' = snd (unhandled e n2)" by (simp add: settle_def sbind_def)
    with 1 mt.R_trans mute_frame(5) show thesis
      by (intro silent) (auto simp: unhandled_def smodify_def mute_def blocks_sent_def)
  next
    case (Inr flag)
    with run l have n': "n' = snd (detached (sts_afterFlag P (Rpc_onSignedBlock sb) flag) n2)"
      by (simp add: settle_def sbind_def)
    show thesis
    proof (cases "flag = EF_SUCCESS")
      case True
      obtain r n1 where "vs_validateSignedBlock P sb b n = (Inr r, n1)" "vr_success r" "core_le n1 n2"
        using locked_success [OF l [unfolded Inr True] env(1)] .
      moreover have "core_le n2 n'" unfolding n'
        using keeps_detached [OF keeps_afterFlag, of P "Rpc_onSignedBlock sb" flag]
        by (simp add: keeps_def rely_core)
      moreover have "blocks_sent n' = blocks_sent n2 @ [Rpc_onSignedBlock sb]"
        unfolding n' True
        by (simp add: detached_def sts_afterFlag_def broadcast_def settle_def sbind_def blocks_sent_def
            unhandled_def smodify_def sreturn_def split: sum.split)
      ultimately show thesis using spread core_le_trans 1 by (metis mute_def)
    next
      case False
      then have "n' = n2" unfolding n'
        by (simp add: detached_def sts_afterFlag_def settle_def sbind_def sreturn_def)
      with 1 show thesis by (intro silent) simp
    qed
  qed
qed

section \<open>A connection that throws\<close>

lemma confirm_unsent:
  assumes "\<forall>r. \<exists>e. p_send P r = Inl e"
  shows "\<exists>e n'. sm_confirmBlock P sb n = (Inl e, n')"
  using assms
  by (auto simp: sm_confirmBlock_def sbind_def sread_def call_await_def on_am_def broadcast_def
      split: sum.split)

lemma unsent_throws:
  assumes "vs_validateSignedBlock P sb b n = (Inr r, n1)" and "vr_success r" and "env_ok P"
    and "\<forall>r. \<exists>e. p_send P r = Inl e"
  obtains e n3 where "sm_onSignedBlock_locked P sb b n = (Inl e, n3)" and "rely n1 n3"
proof -
  have flag: "vr_flag r = EF_SUCCESS" using coherent_validate [OF assms(1)] assms(2) by simp
  obtain e n2 where "sm_confirmBlock P sb (p_env P ''validateSignedBlock'' n1) = (Inl e, n2)"
    using confirm_unsent [OF assms(4)] by blast
  then obtain n3 where d: "decide P sb r n1 = (Inl e, n3)"
    by (simp add: decide_def flag sm_processExecutionDecision_def sbind_def call_await_def)
  show thesis
    by (rule that [of e n3]) (use locked_run [OF assms(1)] d keepsD [OF keeps_decide [OF assms(3)] d] in simp_all)
qed

text \<open>Validation took place on a node without the block, and left one that stores it.\<close>

lemma success_fresh:
  assumes "env_ok P" and "vs_validateSignedBlock P sb b n = (Inr r, n1)" and "vr_success r" and "core_le n1 n'"
  shows "fs_getAgreement (forkService (n_am n)) (getFork b) (getHeight b) = None"
    and "\<exists>st sigs. fs_getAgreement (forkService (n_am n')) (getFork b) (getHeight b) =
      Some \<lparr>ag_block = b, ag_blockSignatures = sb_signature sb # sigs, ag_encodedState = st\<rparr>"
proof -
  note s = success_stored [OF assms(1-3)]
  from s have "getHeight b = fs_chainLength (forkService (n_am n)) (getFork b)"
    using next_height_chain by metis
  then show "fs_getAgreement (forkService (n_am n)) (getFork b) (getHeight b) = None"
    by (simp add: fs_getAgreement_def fs_chainLength_def fs_isValidForkCnt_def)
  from s obtain st where st: "fs_getAgreement (forkService (n_am n1)) (getFork b) (getHeight b) =
      Some \<lparr>ag_block = b, ag_blockSignatures = [sb_signature sb], ag_encodedState = st\<rparr>" by blast
  have "chain_le (n_am n1) (n_am n')" using assms(4) by (simp add: core_le_def)
  from chain_le_agreement [OF this st] obtain a' sigs
    where a': "fs_getAgreement (forkService (n_am n')) (getFork b) (getHeight b) = Some a'"
      and "ag_block a' = b" "ag_encodedState a' = st" "ag_blockSignatures a' = sb_signature sb # sigs"
    by (auto simp: agreement_le_def)
  then have "a' = \<lparr>ag_block = b, ag_blockSignatures = sb_signature sb # sigs, ag_encodedState = st\<rparr>"
    by (cases a') simp
  with a' show "\<exists>st sigs. fs_getAgreement (forkService (n_am n')) (getFork b) (getHeight b) =
      Some \<lparr>ag_block = b, ag_blockSignatures = sb_signature sb # sigs, ag_encodedState = st\<rparr>" by blast
qed

text \<open>Validation sends nothing.\<close>

lemma call_await_send: "call_await (P\<lparr>p_send := w\<rparr>) = call_await P"
  by (simp add: call_await_def fun_eq_iff)

lemma params_send:
  "p_ethers (P\<lparr>p_send := w\<rparr>) = p_ethers P" "p_signerAddress (P\<lparr>p_send := w\<rparr>) = p_signerAddress P"
  "p_timeConfig (P\<lparr>p_send := w\<rparr>) = p_timeConfig P" "p_stateTransition (P\<lparr>p_send := w\<rparr>) = p_stateTransition P"
  "p_getNextToWrite (P\<lparr>p_send := w\<rparr>) = p_getNextToWrite P" "p_getState (P\<lparr>p_send := w\<rparr>) = p_getState P"
  "p_chainTimestamp (P\<lparr>p_send := w\<rparr>) = p_chainTimestamp P"
  by simp_all

lemma validate_send: "vs_validateSignedBlock (P\<lparr>p_send := w\<rparr>) sb b = vs_validateSignedBlock P sb b"
  unfolding vs_validateSignedBlock_def vs_checkStatic_def vs_isSignedBlockAuthentic_def
    vs_isGoodTimestamp_def vs_isEnoughTimeSubjective_def isMyTurn_def getNextToWrite_def
    vs_processStateTransition_def getEncodedStateKecak256_def call_await_send params_send ..

end
