(* ===== verification/Agreeing.thy ===== *)
theory Agreeing
  imports PeerFacts Gossip AgreementFacts
begin

text \<open>
  A round between two peers: the block of one is accepted by the other, whose confirmation
  comes back. Here the part of each peer; the round itself is a property.
\<close>

section \<open>Steps that leave the agreements alone\<close>

definition am_same :: "'sm node \<Rightarrow> 'sm node \<Rightarrow> bool" where
  "am_same n n' \<longleftrightarrow> n_am n' = n_am n"

text \<open>The handlers that run at an \<open>await\<close> leave the agreements alone.\<close>

definition env_calm :: "'sm params \<Rightarrow> bool" where
  "env_calm P \<longleftrightarrow> env_ok P \<and> (\<forall>site n. am_same n (p_env P site n))"

interpretation ams: preserved "am_same :: 'sm node \<Rightarrow> 'sm node \<Rightarrow> bool"
  by unfold_locales (simp_all add: am_same_def)

named_theorems am_keeps \<open>actions that leave the agreements alone\<close>

lemmas am_keeps_basic [am_keeps] = ams.bind ams.pure ams.R_refl

lemma am_same_steps [am_keeps]:
  "keeps am_same nget" "keeps am_same (scheduleTask t delay)" "keeps am_same (fire_hook h)"
  "keeps am_same (unhandled e)" "keeps am_same (push_job j)" "keeps am_same unlock" "keeps am_same (broadcast P x)"
  by (auto simp: keeps_def nget_def scheduleTask_def fire_hook_def unhandled_def push_job_def unlock_def
      broadcast_def smodify_def sread_def am_same_def split: prod.split option.split)

lemma am_same_await [am_keeps]:
  assumes "env_calm P"
  shows "keeps am_same (nawait P site)" and "keeps am_same m \<Longrightarrow> keeps am_same (call_await P site m)"
  using assms
  by (auto simp: keeps_def nawait_def call_await_def smodify_def env_calm_def am_same_def split: prod.split)
    (metis snd_conv)

lemma am_same_settle [am_keeps]: "keeps am_same m \<Longrightarrow> keeps am_same (settle m)"
  by (auto simp: keeps_def settle_def split: prod.split) (metis snd_conv)

lemma am_same_detached [am_keeps]: "keeps am_same m \<Longrightarrow> keeps am_same (detached m)"
  unfolding detached_def by (auto intro!: am_keeps split: sum.split)

lemma am_same_success [am_keeps]: "env_calm P \<Longrightarrow> keeps am_same (sm_onSuccessCommon P)"
  unfolding sm_onSuccessCommon_def getNextToWrite_def Let_def by (auto intro!: am_keeps)

lemma am_same_after [am_keeps]:
  "keeps am_same (sts_afterFlag P x flag)" "keeps am_same (sm_deliverConfirm P (CK_rpc sb sig) out)"
  "keeps am_same (sm_processConfirmationDecision sm_boundQueueConfirmation sb sig flag)"
  by (auto simp: sts_afterFlag_def sm_processConfirmationDecision_def sm_boundQueueConfirmation_def
      intro!: am_keeps split: execution_flag.split)
    (cases out; auto simp: sts_afterFlag_def intro!: am_keeps)

definition calm_le :: "'sm node \<Rightarrow> 'sm node \<Rightarrow> bool" where
  "calm_le n n' \<longleftrightarrow> core_le n n' \<and> am_same n n'"

lemma calm_le_trans: "calm_le a b \<Longrightarrow> calm_le b c \<Longrightarrow> calm_le a c"
  using core_le_trans ams.R_trans by (auto simp: calm_le_def)

lemma calm_leI: "keeps rely m \<Longrightarrow> keeps am_same m \<Longrightarrow> calm_le n (snd (m n))"
  by (simp add: keeps_def calm_le_def rely_core)

lemma calm_le_steps:
  "calm_le n (snd (unhandled e n))" "calm_le n (snd (detached (sts_afterFlag P x flag) (snd (unlock n))))"
proof -
  show "calm_le n (snd (unhandled e n))" by (intro calm_leI rl_keeps am_keeps)
  have "calm_le n (snd (unlock n))" 
    using keeps_snd [OF am_same_steps(6)] by (simp add: calm_le_def)
  moreover have "calm_le m (snd (detached (sts_afterFlag P x flag) m))" for m
    by (intro calm_leI rl_keeps am_keeps)
  ultimately show "calm_le n (snd (detached (sts_afterFlag P x flag) (snd (unlock n))))"
    using calm_le_trans by blast
qed

section \<open>The receiver of a block\<close>

text \<open>The signature of the node joins the block, and the confirmation goes out.\<close>

lemma confirm_appends:
  assumes env: "env_calm P" and dec: "decodeBlock (p_ethers P) (sb_encodedBlock sb) = Inr b"
    and sign: "signBlock (p_ethers P) (p_signer P) b = Inr sc"
    and st: "fs_getAgreement (forkService (n_am n)) (getFork b) (getHeight b) = Some a" "ag_block a = b"
    and new: "sb_signature sc \<notin> set (ag_blockSignatures a)"
  obtains n' where "snd (sm_confirmBlock P sb n) = n'"
    and "n_outbox n' = n_outbox (p_env P ''signBlock'' n) @ [Rpc_onBlockConfirmation sb (sb_signature sc)]"
    and "fs_getAgreement (forkService (n_am n')) (getFork b) (getHeight b) =
      Some (a\<lparr>ag_blockSignatures := ag_blockSignatures a @ [sb_signature sc]\<rparr>)"
proof -
  let ?m = "p_env P ''signBlock'' n"
  have same: "n_am ?m = n_am n" using env by (simp add: env_calm_def am_same_def)
  define am where "am = (n_am n)\<lparr>forkService :=
    fs_pushSignature (getFork b) (getHeight b) (sb_signature sc) (forkService (n_am n))\<rparr>"
  have "am_confirmBlock (p_ethers P) b (sb_signature sc) (n_am ?m) = Inr am"
    using st new by (simp add: same am_confirmBlock_Inr am_def)
  then have "snd (sm_confirmBlock P sb n) =
      ?m\<lparr>n_am := am, n_outbox := n_outbox ?m @ [Rpc_onBlockConfirmation sb (sb_signature sc)]\<rparr>"
    using dec sign by (simp add: sm_confirmBlock_def sbind_def sread_def call_await_def on_am_def broadcast_def)
  from that [OF this] st show thesis by (simp add: am_def fs_pushSignature_getAgreement)
qed

lemma accept_confirms:
  assumes env: "env_calm P" and v: "vs_validateSignedBlock P sb b n = (Inr r, n1)" "vr_success r"
    and dec: "decodeBlock (p_ethers P) (sb_encodedBlock sb) = Inr b"
    and sign: "signBlock (p_ethers P) (p_signer P) b = Inr sc" and new: "sb_signature sc \<noteq> sb_signature sb"
  defines "n' \<equiv> snd (run_job P (J_signed_locked sb b (RK_rpc sb)) n)"
  shows "\<exists>xs ys. n_outbox n' = n_outbox n @ xs @ Rpc_onBlockConfirmation sb (sb_signature sc) # ys"
    and "\<exists>st. fs_getAgreement (forkService (n_am n')) (getFork b) (getHeight b) =
      Some \<lparr>ag_block = b, ag_blockSignatures = [sb_signature sb, sb_signature sc], ag_encodedState = st\<rparr>"
    and "core_le n n'"
proof -
  have ok: "env_ok P" using env by (simp add: env_calm_def)
  let ?x = "Rpc_onBlockConfirmation sb (sb_signature sc)"
  let ?m = "p_env P ''validateSignedBlock'' n1"
  have m: "rely n1 ?m" "n_am ?m = n_am n1" using env by (simp_all add: env_calm_def env_ok_def am_same_def)
  obtain st where st: "fs_getAgreement (forkService (n_am ?m)) (getFork b) (getHeight b) =
      Some \<lparr>ag_block = b, ag_blockSignatures = [sb_signature sb], ag_encodedState = st\<rparr>"
    using success_stored [OF ok v] unfolding m(2) by blast
  obtain m2 where m2: "snd (sm_confirmBlock P sb ?m) = m2"
    "n_outbox m2 = n_outbox (p_env P ''signBlock'' ?m) @ [?x]"
    "fs_getAgreement (forkService (n_am m2)) (getFork b) (getHeight b) =
      Some \<lparr>ag_block = b, ag_blockSignatures = [sb_signature sb, sb_signature sc], ag_encodedState = st\<rparr>"
    using confirm_appends [OF env dec sign st] new by auto
  have flag: "vr_flag r = EF_SUCCESS" using coherent_validate [OF v(1)] v(2) by simp
  define rest where "rest = (\<lambda>u::unit. sbind (nawait P ''confirmBlock'') (\<lambda>_. sm_onSuccessCommon P))"
  have rest: "calm_le s (snd (rest u s))" for u s
    using ok env keeps_snd [of rely "rest u" s] keeps_snd [of am_same "rest u" s]
    by (auto simp: rest_def calm_le_def intro!: rl_keeps am_keeps rely_core)
  have ev: "calm_le s (p_env P site s)" for site s
    using env by (simp add: env_calm_def env_ok_def calm_le_def rely_core)
  obtain c where c: "sm_confirmBlock P sb ?m = (c, m2)" using m2(1) by (metis surjective_pairing)
  obtain d n3 where d: "decide P sb r n1 = (d, n3)" by fastforce
  have "calm_le m2 n3"
  proof (cases c)
    case (Inl e)
    with c d ev show ?thesis
      by (auto simp: decide_def flag sm_processExecutionDecision_def sbind_def call_await_def)
  next
    case (Inr u)
    obtain x m3 where m3: "rest u m2 = (x, m3)" by fastforce
    with c d Inr have "n3 = p_env P ''processExecutionDecision'' m3"
      by (auto simp: decide_def flag sm_processExecutionDecision_def sbind_def [of "sm_confirmBlock P sb"]
          call_await_def [of P "''processExecutionDecision''"] rest_def split: prod.splits)
    with rest [where u = u and s = m2] m3 ev calm_le_trans show ?thesis by fastforce
  qed
  moreover have "calm_le n3 n'"
    unfolding n'_def using locked_run [OF v(1)] d flag
    by (cases d) (auto simp: sbind_def settle_def calm_le_steps)
  ultimately have 2: "calm_le m2 n'" by (rule calm_le_trans)
  have 0: "core_le n n1"
    using keepsD [OF hold_validateSignedBlock [OF ok] v(1)] by (simp add: hold_def)
  have 1: "core_le n1 (p_env P ''signBlock'' ?m)"
    using ev [of ?m "''signBlock''"] ev [of n1 "''validateSignedBlock''"] core_le_trans by (auto simp: calm_le_def)
  have "core_le ?m m2" 
    using keeps_snd [OF keeps_confirmBlock [OF ok], where s = ?m] m2(1)
    by (auto intro: rely_core)
  then have "core_le n1 n'" using core_le_trans [OF core_le_trans [OF rely_core [OF m(1)]]] 2
    by (simp add: calm_le_def)
  with 0 show "core_le n n'" by (rule core_le_trans)
  from core_le_trans [OF 0 1] obtain xs where "n_outbox (p_env P ''signBlock'' ?m) = n_outbox n @ xs"
    by (auto simp: core_le_def)
  moreover obtain ys where "n_outbox n' = n_outbox m2 @ ys" using 2 by (auto simp: calm_le_def core_le_def)
  ultimately show "\<exists>xs ys. n_outbox n' = n_outbox n @ xs @ ?x # ys" using m2(2) by auto
  show "\<exists>st. fs_getAgreement (forkService (n_am n')) (getFork b) (getHeight b) =
      Some \<lparr>ag_block = b, ag_blockSignatures = [sb_signature sb, sb_signature sc], ag_encodedState = st\<rparr>"
    using m2(3) 2 by (simp add: calm_le_def am_same_def)
qed

section \<open>The author of a block\<close>

text \<open>
  A confirmation of a block in the chain by a participant: afterwards its signature is among those
  of the block, after which nothing changed.
\<close>

lemma confirmation_stored:
  assumes env: "env_calm P" and dec: "decodeBlock (p_ethers P) (sb_encodedBlock sb) = Inr b"
    and auth: "vs_isSignedBlockAuthentic P sb b (n_channelId n) = Inr True" and latest: "getFork b = getForkCnt n"
    and st: "fs_getAgreement (forkService (n_am n)) (getFork b) (getHeight b) = Some a" "ag_block a = b"
    and q: "retrieveSignerAddressBlock (p_ethers P) b sig = Inr q" "am_isParticipantInLatestFork (n_am n) q"
    and new: "sig \<notin> set (ag_blockSignatures a)"
  defines "n' \<equiv> snd (sm_onBlockConfirmation P sb sig None (CK_rpc sb sig) n)"
  shows "core_le n n'" and "fs_getAgreement (forkService (n_am n')) (getFork b) (getHeight b) =
      Some (a\<lparr>ag_blockSignatures := ag_blockSignatures a @ [sig]\<rparr>)"
proof -
  have ok: "env_ok P" using env by (simp add: env_calm_def)
  from keeps_snd [OF keeps_onBlockConfirmation [OF ok], where s = n] show "core_le n n'"
    unfolding n'_def by (rule rely_core)
  define am where "am = (n_am n)\<lparr>forkService := fs_pushSignature (getFork b) (getHeight b) sig (forkService (n_am n))\<rparr>"
  have add: "am_confirmBlock (p_ethers P) b sig (n_am n) = Inr am"
    using st new by (simp add: am_confirmBlock_Inr am_def)
  have start: "vs_confirmStart P sb b n = (Inr CS_continue, n)"
    using auth st latest
    by (simp add: vs_confirmStart_def nget_def sbind_def sread_def sreturn_def vs_isChannelOpen_def vs_isPastFork_def
        bv_isBlockInChain_iff)
  have "vs_confirmEnd P sig b n = (Inr vr_ok, n)"
    using q st new
    by (simp add: vs_confirmEnd_def nget_def sbind_def sread_def sreturn_def am_doesSignatureExist_def
        fs_getAgreementByBlock_eq sig_doesSignatureExist_def)
  with start have "n' = snd (sm_endConfirm P sb sig b (CK_rpc sb sig) (Inr vr_ok) n)"
    unfolding n'_def using dec
    by (simp add: sm_onBlockConfirmation_def decoded_def settle_def sbind_def vs_confirmStep_def sreturn_def)
  moreover have "am_same (n\<lparr>n_am := am\<rparr>) (snd (sm_endConfirm P sb sig b (CK_rpc sb sig) (Inr vr_ok) n))"
  proof -
    define tail where "tail = settle (sbind (call_await P ''processConfirmationDecision''
       (sm_processConfirmationDecision sm_boundQueueConfirmation sb sig EF_SUCCESS)) (\<lambda>_. sreturn EF_SUCCESS))"
    have "keeps am_same (sbind tail (sm_deliverConfirm P (CK_rpc sb sig)))"
      unfolding tail_def using env by (intro am_keeps)
    moreover have "sm_endConfirm P sb sig b (CK_rpc sb sig) (Inr vr_ok) n =
        sbind tail (sm_deliverConfirm P (CK_rpc sb sig)) (n\<lparr>n_am := am\<rparr>)"
      using add
      by (simp add: sm_endConfirm_def sm_confirmFinish_def tail_def vr_ok_def sbind_def settle_def on_am_def
          split: prod.split)
    ultimately show ?thesis using keeps_snd by metis
  qed
  ultimately have "n_am n' = am" by (simp add: am_same_def)
  with st show "fs_getAgreement (forkService (n_am n')) (getFork b) (getHeight b) =
      Some (a\<lparr>ag_blockSignatures := ag_blockSignatures a @ [sig]\<rparr>)"
    by (simp add: am_def fs_pushSignature_getAgreement)
qed

section \<open>On the wire\<close>

text \<open>Every open connection can be written to.\<close>

definition wires_ok :: "network \<Rightarrow> bool" where
  "wires_ok s \<longleftrightarrow> (\<forall>t \<in> set (openConnections s).
     t < length (nw_transports s) \<and> tr_writeError (nw_transports s ! t) = None)"

text \<open>What was sent stays sent, and more may follow.\<close>

definition sent_le :: "network \<Rightarrow> network \<Rightarrow> bool" where
  "sent_le s s' \<longleftrightarrow> openConnections s' = openConnections s \<and>
     length (nw_transports s') = length (nw_transports s) \<and>
     (\<forall>t < length (nw_transports s). tr_writeError (nw_transports s' ! t) = tr_writeError (nw_transports s ! t) \<and>
        set (tr_sent (nw_transports s ! t)) \<subseteq> set (tr_sent (nw_transports s' ! t)))"

interpretation snt: preserved sent_le
  by unfold_locales (auto simp: sent_le_def)

lemma sent_le_wires: "sent_le s s' \<Longrightarrow> wires_ok s \<Longrightarrow> wires_ok s'"
  by (auto simp: sent_le_def wires_ok_def)

lemma send_loop_le: "sent_le s (snd (send_loop ts m s))"
proof (induction ts arbitrary: s)
  case (Cons t ts)
  have "sent_le s (snd (tr_send (Some t) m s))"
    by (auto simp: tr_send_def sent_le_def nth_list_update nth_opt_def split: option.split)
  with Cons snt.R_trans show ?case by (auto simp: sbind_def split: prod.split sum.split)
qed (simp add: sreturn_def snt.R_refl)

lemma send_loop_ok:
  assumes "\<forall>t \<in> set ts. t < length (nw_transports s) \<and> tr_writeError (nw_transports s ! t) = None" and "u \<in> set ts"
  shows "m \<in> set (tr_sent (nw_transports (snd (send_loop ts m s)) ! u))"
  using assms
proof (induction ts arbitrary: s)
  case (Cons t ts)
  then obtain s1 where s1: "tr_send (Some t) m s = (Inr (), s1)"
    by (auto simp: tr_send_def nth_opt_def)
  have le: "sent_le s s1" using send_loop_le [of s "[t]" m] s1 by (simp add: sbind_def sreturn_def)
  show ?case
  proof (cases "u \<in> set ts")
    case True
    with Cons.IH [of s1] Cons.prems(1) le s1 show ?thesis by (auto simp: sent_le_def sbind_def)
  next
    case False
    with Cons.prems(2) have u: "u = t" by simp
    then have "m \<in> set (tr_sent (nw_transports s1 ! u))" and "u < length (nw_transports s1)"
      using tr_send_Inr(1-3) [OF s1] by simp_all
    with send_loop_le [of s1 ts m] s1 show ?thesis by (auto simp: sent_le_def sbind_def)
  qed
qed simp

lemma broadcast_all_sent:
  assumes "wires_ok s" and "u \<in> set (openConnections s)" and "r \<in> set rs"
  shows "serializeRpc r \<in> set (tr_sent (nw_transports (broadcast_all rs s) ! u))"
  using assms
proof (induction rs arbitrary: s)
  case (Cons x rs)
  let ?s = "snd (rpc_broadcast x s)"
  have le: "sent_le s ?s" using send_loop_le by (simp add: rpc_broadcast_def p2p_broadcastRpc_def)
  have later: "sent_le v (broadcast_all ys v)" for v ys
  proof (induction ys arbitrary: v)
    case (Cons y ys)
    have "sent_le v (snd (rpc_broadcast y v))" using send_loop_le by (simp add: rpc_broadcast_def p2p_broadcastRpc_def)
    with Cons snt.R_trans show ?case by simp
  qed (simp add: snt.R_refl)
  show ?case
  proof (cases "r = x")
    case True
    have "serializeRpc r \<in> set (tr_sent (nw_transports ?s ! u))"
      unfolding True rpc_broadcast_def p2p_broadcastRpc_def using Cons.prems(1,2)
      by (intro send_loop_ok) (auto simp: wires_ok_def)
    moreover have "u < length (nw_transports ?s)" using Cons.prems(1,2) le by (auto simp: wires_ok_def sent_le_def)
    ultimately show ?thesis using later [of ?s rs] by (auto simp: sent_le_def)
  next
    case False
    with Cons.prems Cons.IH [of ?s] sent_le_wires [OF le] le show ?thesis by (simp add: sent_le_def)
  qed
qed simp

section \<open>The round, on whole peers\<close>

lemma calm_send [simp]: "env_calm (P\<lparr>p_send := w\<rparr>) \<longleftrightarrow> env_calm P" "env_ok (P\<lparr>p_send := w\<rparr>) \<longleftrightarrow> env_ok P"
  by (simp_all add: env_calm_def env_ok_def)

text \<open>The receiver: the two steps, what they store, and the confirmation on the wire.\<close>

lemma receiver_round:
  fixes P :: "'sm params" and g
  assumes env: "env_calm P" and idle: "idle (pr_node p)" and dec: "decodeBlock (p_ethers P) (sb_encodedBlock sb) = Inr b"
    and v: "vs_validateSignedBlock P sb b (holding (pr_node p)) = (Inr r, m)" "vr_success r"
    and sign: "signBlock (p_ethers P) (p_signer P) b = Inr sc" and new: "sb_signature sc \<noteq> sb_signature sb"
    and wire: "wires_ok (pr_net p)" "u \<in> set (openConnections (pr_net p))" and t: "t < length (nw_transports (pr_net p))"
  defines "p1 \<equiv> peer_receive g P t (serializeRpc (wire (Rpc_onSignedBlock sb))) p"
    and "p2 \<equiv> on_node P (\<lambda>P n. run_job P (J_signed_locked sb b (RK_rpc sb)) (n\<lparr>n_jobs := []\<rparr>))
      (peer_receive g P t (serializeRpc (wire (Rpc_onSignedBlock sb))) p)"
  shows "peer_step g P p p1" and "peer_step g P p1 p2"
    and "serializeRpc (wire (Rpc_onBlockConfirmation sb (sb_signature sc))) \<in> set (tr_sent (nw_transports (pr_net p2) ! u))"
    and "\<exists>st. fs_getAgreement (forkService (n_am (pr_node p2))) (getFork b) (getHeight b) =
      Some \<lparr>ag_block = b, ag_blockSignatures = [sb_signature sb, sb_signature sc], ag_encodedState = st\<rparr>"
    and "core_le (pr_node p) (pr_node p2)"
proof -
  let ?j = "J_signed_locked sb b (RK_rpc sb)"
  let ?h = "holding (pr_node p)" and ?x = "Rpc_onBlockConfirmation sb (sb_signature sc)"
  have ok: "env_ok P" using env by (simp add: env_calm_def)
  show "peer_step g P p p1" unfolding p1_def
    using ps_message [OF t, of P "p_chainTimestamp P" "p_env P" "p_send P" g] ok by (simp add: remote_self)
  have p1: "p1 = p\<lparr>pr_node := ?h\<lparr>n_jobs := [?j]\<rparr>, pr_net := tr_onMessage t (pr_net p)\<rparr>"
    unfolding p1_def receive_wire using idle_receives [OF idle, of "P\<lparr>p_send := net_send (tr_onMessage t (pr_net p))\<rparr>"] dec
    by (simp add: on_node_def holding_def Let_def)
  define Q where "Q = P\<lparr>p_send := net_send (tr_onMessage t (pr_net p))\<rparr>"
  define n' where "n' = snd (run_job Q ?j ?h)"
  have h: "?h\<lparr>n_jobs := []\<rparr> = ?h" and out: "n_outbox ?h = n_outbox (pr_node p)" by (simp_all add: holding_def)
  have p2: "p2 = p1\<lparr>pr_node := n', pr_net := broadcast_all (map wire (drop (length (n_outbox (pr_node p))) (n_outbox n')))
      (tr_onMessage t (pr_net p))\<rparr>"
    unfolding p2_def p1_def [symmetric] by (simp add: on_node_def p1 Q_def n'_def h out Let_def del: run_job.simps)
  note acc = accept_confirms [of Q sb b ?h r m sc, folded n'_def]
  have Q: "env_calm Q" "vs_validateSignedBlock Q sb b ?h = (Inr r, m)" "p_ethers Q = p_ethers P" "p_signer Q = p_signer P"
    using env v(1) by (simp_all add: Q_def validate_send)
  note acc = acc [OF Q(1,2) v(2), unfolded Q(3,4), OF dec sign new]
  have "node_step P (?h\<lparr>n_jobs := [?j]\<rparr>) n'"
    using step_job [of "?h\<lparr>n_jobs := [?j]\<rparr>" ?j "[]" P "p_chainTimestamp P" "p_env P" "net_send (tr_onMessage t (pr_net p))"] ok h
    by (simp add: n'_def Q_def remote_def env_ok_def del: run_job.simps)
  with ps_node [of P p1 n' g] show "peer_step g P p1 p2" by (simp add: p2 p1 out)
  show "core_le (pr_node p) (pr_node p2)"
    using acc(3) by (simp add: p2 p1 core_le_def holding_def)
  show "\<exists>st. fs_getAgreement (forkService (n_am (pr_node p2))) (getFork b) (getHeight b) =
      Some \<lparr>ag_block = b, ag_blockSignatures = [sb_signature sb, sb_signature sc], ag_encodedState = st\<rparr>"
    using acc(2) by (simp add: p2)
  have "?x \<in> set (drop (length (n_outbox (pr_node p))) (n_outbox n'))" using acc(1) by (auto simp: out)
  moreover have "wires_ok (tr_onMessage t (pr_net p))" "u \<in> set (openConnections (tr_onMessage t (pr_net p)))"
    using wire by (simp_all add: tr_onMessage_def wires_ok_def)
  ultimately show "serializeRpc (wire ?x) \<in> set (tr_sent (nw_transports (pr_net p2) ! u))"
    unfolding p2 by (simp del: wire.simps add: broadcast_all_sent)
qed

text \<open>The author: the step, what it stores.\<close>

lemma participant_latest:
  assumes "f = am_getLatestForkCnt am" and "f < length (forkService am)"
  shows "am_isParticipantInLatestFork am q \<longleftrightarrow> q \<in> set (addressesInThreshold (forkService am ! f))"
  using assms
  by (auto simp: am_isParticipantInLatestFork_def am_getLatestForkCnt_def fs_defs at_last_def set_has_def
      set_spec last_conv_nth)

lemma author_round:
  fixes P :: "'sm params" and g
  assumes env: "env_calm P" and dec: "decodeBlock (p_ethers P) (sb_encodedBlock sb) = Inr b"
    and auth: "vs_isSignedBlockAuthentic P sb b (n_channelId (pr_node p)) = Inr True"
    and latest: "getFork b = getForkCnt (pr_node p)"
    and st: "fs_getAgreement (forkService (n_am (pr_node p))) (getFork b) (getHeight b) = Some a" "ag_block a = b"
    and q: "retrieveSignerAddressBlock (p_ethers P) b sig = Inr q"
      "q \<in> set (addressesInThreshold (forkService (n_am (pr_node p)) ! getFork b))"
    and new: "sig \<notin> set (ag_blockSignatures a)" and t: "t < length (nw_transports (pr_net p))"
  defines "p' \<equiv> peer_receive g P t (serializeRpc (wire (Rpc_onBlockConfirmation sb sig))) p"
  shows "peer_step g P p p'" and "core_le (pr_node p) (pr_node p')"
    and "fs_getAgreement (forkService (n_am (pr_node p'))) (getFork b) (getHeight b) =
      Some (a\<lparr>ag_blockSignatures := ag_blockSignatures a @ [sig]\<rparr>)"
proof -
  have ok: "env_ok P" using env by (simp add: env_calm_def)
  show "peer_step g P p p'" unfolding p'_def
    using ps_message [OF t, of P "p_chainTimestamp P" "p_env P" "p_send P" g] ok by (simp add: remote_self)
  define Q where "Q = P\<lparr>p_send := net_send (tr_onMessage t (pr_net p))\<rparr>"
  have node: "pr_node p' = snd (sm_onBlockConfirmation Q sb sig None (CK_rpc sb sig) (pr_node p))"
    unfolding p'_def receive_wire by (simp add: on_node_def Q_def Let_def)
  have "am_isParticipantInLatestFork (n_am (pr_node p)) q"
    using participant_latest latest fs_getAgreement_SomeD [OF st(1)] q(2) by (simp add: getForkCnt_def)
  moreover have "env_calm Q" "p_ethers Q = p_ethers P" "vs_isSignedBlockAuthentic Q = vs_isSignedBlockAuthentic P"
    using env by (simp_all add: Q_def vs_isSignedBlockAuthentic_def fun_eq_iff)
  moreover note confirmation_stored [of Q sb b "pr_node p" a sig q, folded node]
  ultimately show "core_le (pr_node p) (pr_node p')"
    and "fs_getAgreement (forkService (n_am (pr_node p'))) (getFork b) (getHeight b) =
      Some (a\<lparr>ag_blockSignatures := ag_blockSignatures a @ [sig]\<rparr>)"
    using dec auth latest st q(1) new by metis+
qed

section \<open>Playing a transaction\<close>

text \<open>What a successful run of \<open>playTransaction\<close> went through.\<close>

lemma play_cases:
  assumes env: "env_calm P" and run: "sm_playTransaction_body P tx n = (Inr sb, n1)"
  obtains b st m where "core_le n m" and "signBlock (p_ethers P) (p_signer P) b = Inr sb"
    and "am_addBlock b (sb_signature sb) st (n_am m) = Inr (n_am n1)" and "core_le m n1"
    and "getFork b = js_Number (hdr_forkCnt (tx_header tx))"
    and "getHeight b = js_Number (hdr_transactionCnt (tx_header tx))"
proof -
  have ok: "env_ok P" using env by (simp add: env_calm_def)
  obtain n2 n3 n4 n5 n6 n7 n8 n9 tx' ar b where
    turn: "call_await P ''isMyTurn'' (isMyTurn P) n = (Inr True, n2)"
    and adj: "Inr tx' = sm_adjustTimestampIfNeeded tx n2"
    and app: "call_await P ''applyTransaction'' (sm_applyTransaction P tx') n2 = (Inr ar, n3)"
    and create: "call_await P ''createBlock'' (sm_createBlock P tx' (ar_previousStateHash ar)) n3 = (Inr b, n4)"
    and sign: "sm_signBlock P b n4 = (Inr sb, n5)"
    and add: "on_am (am_addBlock b (sb_signature sb) (ar_encodedState ar)) n5 = (Inr (), n6)"
    and hook: "fire_hook (ContractEvents (ar_successCallback ar)) n6 = (Inr (), n7)"
    and succ: "call_await P ''onSuccessCommon'' (sm_onSuccessCommon P) n7 = (Inr (), n8)"
    and task: "scheduleTask (T_maybePostBlockOnChain b sb) (agreementTime (p_timeConfig P) * 1000) n8 = (Inr (), n1)"
    using run unfolding sm_playTransaction_body_def
    by (clarsimp simp: sbind_Inr_iff res_simps nget_def sthrow_iff split: if_splits)
  have "blk_transaction b = tx'" by (rule sm_createBlock_tx [OF create])
  then have pos: "getFork b = js_Number (hdr_forkCnt (tx_header tx))"
    "getHeight b = js_Number (hdr_transactionCnt (tx_header tx))"
    using sm_adjust_position [OF adj [symmetric]] by (simp_all add: getFork_def getHeight_def)
  have sb: "signBlock (p_ethers P) (p_signer P) b = Inr sb"
    using sign by (auto simp: sm_signBlock_def res_simps dest!: call_await_Inr)
  have "rely n n2" using keepsD [OF keeps_call_await [OF ok keeps_views(3) [OF ok]] turn] .
  moreover have "rely n2 n3" using keepsD [OF keeps_call_await [OF ok keeps_applyTransaction [OF ok]] app] .
  moreover have "rely n3 n4" using keepsD [OF keeps_call_await [OF ok keeps_createBlock [OF ok]] create] .
  moreover have "rely n4 n5" using keepsD [OF keeps_signBlock [OF ok] sign] .
  ultimately have before: "core_le n n5" using rlp.R_trans rely_core by metis
  have after: "calm_le n6 n1"
  proof -
    have "calm_le n6 n7" using calm_leI [OF keeps_logs(3) am_same_steps(3), of n6] hook by (metis snd_conv)
    moreover have "calm_le n7 n8"
      using calm_leI [OF keeps_call_await [OF ok keeps_onSuccessCommon [OF ok]]
          am_same_await(2) [OF env am_same_success [OF env]], of n7] succ by (metis snd_conv)
    moreover have "calm_le n8 n1" using calm_leI [OF keeps_logs(1) am_same_steps(2), of n8] task by (metis snd_conv)
    ultimately show ?thesis using calm_le_trans by blast
  qed
  then have "am_addBlock b (sb_signature sb) (ar_encodedState ar) (n_am n5) = Inr (n_am n1)"
    using add by (auto simp: on_am_def calm_le_def am_same_def split: sum.splits)
  moreover have "core_le n5 n6" using keepsD [OF hold_addBlock add] by (simp add: hold_def)
  moreover have "core_le n5 n1" using \<open>core_le n5 n6\<close> after core_le_trans [of n5 n6 n1] by (simp add: calm_le_def)
  ultimately show thesis using that [OF before sb _ _ pos] by blast
qed

text \<open>
  With the \<open>finally\<close> block and \<open>sendTransaction\<close>: the block is stored with the author's
  signature alone and goes out last.
\<close>

lemma play_publishes:
  assumes env: "env_calm P" and run: "sm_playTransaction_body P tx n = (Inr sb, n1)" and tx: "tx_ok (n_am n) tx"
  defines "n' \<equiv> snd (run_job P (J_play_locked tx) n)"
  obtains b st xs where "signBlock (p_ethers P) (p_signer P) b = Inr sb"
    and "getFork b = js_Number (hdr_forkCnt (tx_header tx))"
    and "getHeight b = js_Number (hdr_transactionCnt (tx_header tx))"
    and "fs_getAgreement (forkService (n_am n)) (getFork b) (getHeight b) = None"
    and "fs_getAgreement (forkService (n_am n')) (getFork b) (getHeight b) =
      Some \<lparr>ag_block = b, ag_blockSignatures = [sb_signature sb], ag_encodedState = st\<rparr>"
    and "n_outbox n' = n_outbox n @ xs @ [Rpc_onSignedBlock sb]"
proof -
  obtain b st m where m: "core_le n m" "signBlock (p_ethers P) (p_signer P) b = Inr sb"
    "am_addBlock b (sb_signature sb) st (n_am m) = Inr (n_am n1)" "core_le m n1"
    and pos: "getFork b = js_Number (hdr_forkCnt (tx_header tx))"
      "getHeight b = js_Number (hdr_transactionCnt (tx_header tx))"
    using play_cases [OF env run] .
  have f: "getFork b < length (forkService (n_am m))" "fs_chainLength (forkService (n_am m)) (getFork b) \<le> getHeight b"
    using m(3) by (auto simp: am_addBlock_Inr)
  have "getHeight b \<le> fs_chainLength (forkService (n_am n)) (getFork b)" using tx pos by (simp add: tx_ok_def)
  also have le: "\<dots> \<le> fs_chainLength (forkService (n_am m)) (getFork b)"
    using m(1) chain_le_length by (auto simp: core_le_def)
  finally have h: "getHeight b = fs_chainLength (forkService (n_am m)) (getFork b)" using f by simp
  have 1: "fs_getAgreement (forkService (n_am n1)) (getFork b) (getHeight b) =
      Some \<lparr>ag_block = b, ag_blockSignatures = [sb_signature sb], ag_encodedState = st\<rparr>"
    using m(3) f h by (auto simp: am_addBlock_Inr fs_addAgreement_def fs_getAgreement_def fs_isValidForkCnt_def
        fs_chainLength_def)
  have 0: "fs_getAgreement (forkService (n_am n)) (getFork b) (getHeight b) = None"
    using le h by (auto simp: fs_getAgreement_def fs_chainLength_def fs_isValidForkCnt_def)
  have n': "n_am n' = n_am n1 \<and> n_outbox n' = n_outbox n1 @ [Rpc_onSignedBlock sb]"
    unfolding n'_def using run
    by (simp add: sm_playTransaction_locked_def settle_def sbind_def unlock_def smodify_def detached_def broadcast_def
        unhandled_def sreturn_def split: sum.split prod.split option.split)
  obtain xs where "n_outbox n1 = n_outbox n @ xs"
    using core_le_trans [OF m(1,4)] by (auto simp: core_le_def)
  with n' 1 0 m(2) pos that show thesis by simp
qed

end
