(* ===== verification/PeerProperties.thy ===== *)
theory PeerProperties
  imports Agreeing NodeProperties
begin

text \<open>
  The properties of a whole peer: its parts' invariants together, remote calls, a round of the
  protocol between two peers, the spreading of blocks, and what the shared \<open>senderTransport\<close> and a failing connection do.
\<close>

section \<open>The invariants of the parts, together\<close>

text \<open>
  C26. Whatever text arrives on whatever connection, in whatever order with the steps of the
  chain, the timers and the connections: at most one handler holds the mutex, every stored block
  is at its own place, a connection belongs to at most one profile, the signatures collected for
  a join request are genuine, and the swarm is in exactly the topics of the peer.
\<close>

theorem peer_invariant:
  assumes "reach (\<lambda>p. \<exists>sm now tt. p = peer_init sm now tt) (peer_step g P) p"
  shows "locked_jobs (pr_node p) \<le> 1 \<and>
    (fs_getAgreement (forkService (n_am (pr_node p))) f i = Some a \<longrightarrow>
       getFork (ag_block a) = f \<and> getHeight (ag_block a) = i) \<and>
    (pm_getProfileByTransport (pr_net p) t = Some q \<and> pm_getProfileByTransport (pr_net p) u = Some q \<longrightarrow> t = u) \<and>
    (x \<in> set (scm_get (joinChannelMap (pr_join p)) key) \<longrightarrow> join_entry_ok (p_ethers P) (p_signer P) key x) \<and>
    joined (swarmCalls (pr_hp p)) {} = set (topics (pr_hp p))"
proof -
  note inv = peer_sys.inv_reach [OF assms, unfolded peer_inv_def]
  have "locked_jobs (pr_node p) \<le> 1"
    using inv by (auto simp: node_inv_def lock_inv_def split: if_splits)
  moreover have "fs_getAgreement (forkService (n_am (pr_node p))) f i = Some a \<longrightarrow>
       getFork (ag_block a) = f \<and> getHeight (ag_block a) = i"
    using inv by (auto simp: node_inv_def agreement_at_def dest: chain_okD)
  moreover have "pm_getProfileByTransport (pr_net p) t = Some q \<and> pm_getProfileByTransport (pr_net p) u = Some q \<longrightarrow> t = u"
    using inv profile_inv_injective [of "pr_net p" t q u]
    by (auto simp: pm_getProfileByTransport_def profileOf_def)
  ultimately show ?thesis using inv by (auto simp: join_inv_def hp_inv_def)
qed

definition peer0 :: "nat peer" where
  "peer0 = peer_init 0 100 HOLEPUNCH"

text \<open>The sample peer connects to two others.\<close>

definition sample_bytes :: "string \<Rightarrow> bytes res" where
  "sample_bytes h = Inr h"

definition peer1 :: "nat peer" where
  "peer1 = peer0\<lparr>pr_net := snd (net_connect (hs_of sample_bytes sampleP) HolepunchTransport ''r'' 100 (pr_net peer0))\<rparr>"

definition peer2 :: "nat peer" where
  "peer2 = peer1\<lparr>pr_net := snd (net_connect (hs_of sample_bytes sampleP) HolepunchTransport ''x'' 100 (pr_net peer1))\<rparr>"

lemma peer2_net:
  "pr_net peer2 = (network_new HOLEPUNCH)\<lparr>
     nw_transports := map (\<lambda>r. (transport_new HolepunchTransport)\<lparr>tr_sent :=
       [serializeRpc (proxy_call ''onInitHandshakeRequest'' [Some (JString (CHR ''#'' # r)), Some (json_int 100)])]\<rparr>)
       [''r'', ''x''],
     openConnections := [0, 1],
     mapTransportToChallenge := [(0, \<lparr>randomChallengeHash = ''#r'', initTime = 100\<rparr>),
                                 (1, \<lparr>randomChallengeHash = ''#x'', initTime = 100\<rparr>)]\<rparr>"
  by (simp add: peer2_def peer1_def peer0_def peer_init_def net_connect_def p2p_addConnection_def
      hs_initHandshake_def act_defs rpc_sendOne_def tr_send_def nth_opt_def hs_setChallenge_def network_new_def
      map_set_def transport_new_def Let_def hs_of_def)

lemma peer2_reach:
  "reach (\<lambda>p. \<exists>sm now tt. p = peer_init sm now tt) (peer_step sample_bytes sampleP) peer2"
proof -
  let ?r = "reach (\<lambda>p. \<exists>sm now tt. p = peer_init sm now tt) (peer_step sample_bytes sampleP)"
  have "?r peer0" by (rule reach_init) (auto simp: peer0_def)
  then have "?r peer1" unfolding peer1_def by (rule reach_step) (intro ps_net net_open)
  then show ?thesis unfolding peer2_def by (rule reach_step) (intro ps_net net_open)
qed

theorem peer_invariant_witness:
  "locked_jobs (pr_node peer2) \<le> 1 \<and> joined (swarmCalls (pr_hp peer2)) {} = {}"
  using peer_invariant [OF peer2_reach] by (simp add: peer2_def peer1_def peer0_def peer_init_def holepunch_new_def)

section \<open>Remote calls\<close>

text \<open>
  C27. A broadcast call is the local call at every receiver: what a successful broadcast wrote last
  to an open connection makes the peer that reads it run the very handler, with the same
  arguments, that a local caller would run; nothing else of that peer changes but the note of
  where the message came from.
\<close>

theorem remote_call_is_local:
  assumes "rpc_broadcast (wire r) s = (Inr (), s')" and "u \<in> set (openConnections s)"
  shows "peer_receive g P t (last (tr_sent (nw_transports s' ! u))) p =
    on_node P (local_call r) (p\<lparr>pr_net := tr_onMessage t (pr_net p)\<rparr>)"
  by (simp add: broadcast_sent [OF assms] receive_wire)

theorem remote_call_is_local_witness:
  "peer_receive sample_bytes sampleP 1
     (last (tr_sent (nw_transports (snd (rpc_broadcast (wire (Rpc_onSignedBlock blockB)) (pr_net peer2))) ! 0))) peer2 =
   on_node sampleP (local_call (Rpc_onSignedBlock blockB)) (peer2\<lparr>pr_net := tr_onMessage 1 (pr_net peer2)\<rparr>)"
proof (rule remote_call_is_local)
  show "rpc_broadcast (wire (Rpc_onSignedBlock blockB)) (pr_net peer2) =
      (Inr (), snd (rpc_broadcast (wire (Rpc_onSignedBlock blockB)) (pr_net peer2)))"
    by (simp add: peer2_net rpc_broadcast_def p2p_broadcastRpc_def network_new_def act_defs tr_send_def
        nth_opt_def transport_new_def)
  show "0 \<in> set (openConnections (pr_net peer2))" by (simp add: peer2_net)
qed

section \<open>A round of the protocol\<close>

text \<open>
  C4. Two participants reach agreement on a block in one round. The author holds its block with
  its own signature only, so the block is not final; the other one is idle, accepts the block and
  can write to its connections. Then the message with the block and the handler behind the mutex
  are two steps of the receiver, after which the block is final there; among the texts written
  to each of its connections is one that, received by the author, makes the block final at
  the author.
\<close>

theorem round_finalizes:
  fixes A B :: "'sm params" and g
  assumes same: "p_ethers A = E" "p_ethers B = E" and calm: "env_calm A" "env_calm B"
    and block: "decodeBlock E (sb_encodedBlock sb) = Inr b" "retrieveSignerAddressBlock E b (sb_signature sb) = Inr p"
    and sign: "signBlock E (p_signer B) b = Inr sc" "retrieveSignerAddressBlock E b (sb_signature sc) = Inr q" "p \<noteq> q"
    and both: "set (addressesInThreshold (forkService (n_am (pr_node x)) ! getFork b)) = {p, q}"
      "set (addressesInThreshold (forkService (n_am (pr_node y)) ! getFork b)) = {p, q}"
    and author: "fs_getAgreement (forkService (n_am (pr_node x))) (getFork b) (getHeight b) =
        Some \<lparr>ag_block = b, ag_blockSignatures = [sb_signature sb], ag_encodedState = state\<rparr>"
      "getFork b = getForkCnt (pr_node x)"
      "vs_isSignedBlockAuthentic A sb b (n_channelId (pr_node x)) = Inr True" "t < length (nw_transports (pr_net x))"
    and receiver: "idle (pr_node y)" "vs_validateSignedBlock B sb b (holding (pr_node y)) = (Inr r, m)" "vr_success r"
      "getFork b < length (forkService (n_am (pr_node y)))"
      "wires_ok (pr_net y)" "u \<in> set (openConnections (pr_net y))" "k < length (nw_transports (pr_net y))"
  defines "y1 \<equiv> peer_receive g B k (serializeRpc (wire (Rpc_onSignedBlock sb))) y"
    and "y2 \<equiv> on_node B (\<lambda>P n. run_job P (J_signed_locked sb b (RK_rpc sb)) (n\<lparr>n_jobs := []\<rparr>))
      (peer_receive g B k (serializeRpc (wire (Rpc_onSignedBlock sb))) y)"
  shows "peer_step g B y y1 \<and> peer_step g B y1 y2 \<and>
    am_didEveryoneSignBlock E (n_am (pr_node y2)) b = Inr True \<and>
    am_didEveryoneSignBlock E (n_am (pr_node x)) b \<noteq> Inr True \<and>
    (\<exists>msg \<in> set (tr_sent (nw_transports (pr_net y2) ! u)).
       peer_step g A x (peer_receive g A t msg x) \<and>
       am_didEveryoneSignBlock E (n_am (pr_node (peer_receive g A t msg x))) b = Inr True)"
proof -
  have new: "sb_signature sc \<noteq> sb_signature sb" using block(2) sign(2,3) by auto
  note R = receiver_round [of B y sb b r m sc u k g, unfolded same, folded y1_def y2_def,
      OF calm(2) receiver(1) block(1) receiver(2,3) sign(1) new receiver(5-7)]
  define msg where "msg = serializeRpc (wire (Rpc_onBlockConfirmation sb (sb_signature sc)))"
  note author_round [of A sb b x _ "sb_signature sc" q t g, unfolded same, folded msg_def,
      OF calm(1) block(1) author(3,2,1)]
  from this [OF _ sign(2) _ _ author(4)] new both(1)
  have S: "peer_step g A x (peer_receive g A t msg x)" "core_le (pr_node x) (pr_node (peer_receive g A t msg x))"
    "fs_getAgreement (forkService (n_am (pr_node (peer_receive g A t msg x)))) (getFork b) (getHeight b) =
      Some \<lparr>ag_block = b, ag_blockSignatures = [sb_signature sb, sb_signature sc], ag_encodedState = state\<rparr>"
    by simp_all
  have final: "am_didEveryoneSignBlock E am b = Inr True"
    if "fs_getAgreement (forkService am) (getFork b) (getHeight b) =
      Some \<lparr>ag_block = b, ag_blockSignatures = [sb_signature sb, sb_signature sc], ag_encodedState = z\<rparr>"
      and "set (addressesInThreshold (forkService am ! getFork b)) = {p, q}" for am z
    using everyone_iff [OF that(1), of E] that(2) block(2) sign(2) by (auto simp: recoverable_def signers_of_def)
  have fork: "set (addressesInThreshold (forkService (n_am n') ! f)) = set (addressesInThreshold (forkService (n_am n) ! f))"
    if "core_le n n'" "f < length (forkService (n_am n))" for n n' :: "'sm node" and f
    using that by (auto simp: core_le_def chain_le_def fork_le_def)
  have "am_didEveryoneSignBlock E (n_am (pr_node y2)) b = Inr True"
    using R(4) final fork [OF R(5) receiver(4)] both(2) by auto
  moreover have "am_didEveryoneSignBlock E (n_am (pr_node x)) b \<noteq> Inr True"
    using everyone_iff [OF author(1), of E] both(1) block(2) sign(3) by (auto simp: recoverable_def signers_of_def)
  moreover have "am_didEveryoneSignBlock E (n_am (pr_node (peer_receive g A t msg x))) b = Inr True"
    using final [OF S(3)] fork [OF S(2)] fs_getAgreement_SomeD [OF author(1)] both(1) by simp
  ultimately show ?thesis using R(1-3) [folded msg_def] S(1) by blast
qed

text \<open>\<open>B\<close>, who made the first block, and \<open>A\<close>, who is waiting for it.\<close>

definition sampleB :: "nat params" where
  "sampleB = sampleP\<lparr>p_signer := \<lambda>m. Inr (CHR ''B'' # m), p_signerAddress := ''B''\<rparr>"

definition peerB :: "nat peer" where
  "peerB = peer2\<lparr>pr_node := sample_node [stored0] 1 100\<rparr>"

definition peerA :: "nat peer" where
  "peerA = peer2\<lparr>pr_node := run2\<rparr>"

theorem round_finalizes_witness:
  "\<exists>msg. am_didEveryoneSignBlock sampleE (n_am (pr_node peerB)) block0 \<noteq> Inr True \<and>
     am_didEveryoneSignBlock sampleE (n_am (pr_node (peer_receive sample_bytes sampleB 0 msg peerB))) block0 = Inr True"
proof -
  have same: "p_ethers sampleB = sampleE" "p_ethers sampleP = sampleE" by (simp_all add: sampleB_def)
  have calm: "env_calm sampleB" "env_calm sampleP"
    by (simp_all add: sampleB_def env_calm_def env_ok_def am_same_def rlp.R_refl)
  have block: "decodeBlock sampleE (sb_encodedBlock blockB) = Inr block0"
    "retrieveSignerAddressBlock sampleE block0 (sb_signature blockB) = Inr ''B''" by simp_all
  have sign: "signBlock sampleE (p_signer sampleP) block0 =
      Inr \<lparr>sb_encodedBlock = ''b0'', sb_signature = sig_of CHR ''A'' ''b0''\<rparr>"
    by (simp add: signBlock_def sig_of_def Let_def)
  have q: "retrieveSignerAddressBlock sampleE block0
      (sb_signature \<lparr>sb_encodedBlock = ''b0'', sb_signature = sig_of CHR ''A'' ''b0''\<rparr>) = Inr ''A''" "''B'' \<noteq> ''A''"
    by simp_all
  have both: "set (addressesInThreshold (forkService (n_am (pr_node peerB)) ! getFork block0)) = {''B'', ''A''}"
    "set (addressesInThreshold (forkService (n_am (pr_node peerA)) ! getFork block0)) = {''B'', ''A''}"
    by (auto simp: peerA_def peerB_def run2_eq sample_node_def node_init_def sample_am_def sample_fork_def)
  have author: "fs_getAgreement (forkService (n_am (pr_node peerB))) (getFork block0) (getHeight block0) =
        Some \<lparr>ag_block = block0, ag_blockSignatures = [sb_signature blockB], ag_encodedState = ''s1''\<rparr>"
    "getFork block0 = getForkCnt (pr_node peerB)"
    "vs_isSignedBlockAuthentic sampleB blockB block0 (n_channelId (pr_node peerB)) = Inr True"
    "0 < length (nw_transports (pr_net peerB))"
    by (simp_all add: peerB_def sample_node_def node_init_def nth_opt_def stored0_def getForkCnt_def
        vs_isSignedBlockAuthentic_def same peer2_net)
  have "\<not> dh_isForkDisputed (n_dh (holding run2)) 0"
    by (simp add: run2_eq dh_isForkDisputed_def dh_init_def)
  then obtain m where v: "vs_validateSignedBlock sampleP blockB block0 (holding (pr_node peerA)) = (Inr vr_ok, m)"
    using sample_validates [of "holding run2"] by (auto simp: peerA_def run2_eq sample_node_def node_init_def)
  have rest: "idle (pr_node peerA)" "vr_success vr_ok" "getFork block0 < length (forkService (n_am (pr_node peerA)))"
    "wires_ok (pr_net peerA)" "0 \<in> set (openConnections (pr_net peerA))" "0 < length (nw_transports (pr_net peerA))"
    using run2_idle
    by (simp_all add: peerA_def vr_ok_def peer2_net wires_ok_def transport_new_def run2_eq sample_node_def
        node_init_def sample_am_def nth_Cons split: nat.split)
  from round_finalizes [OF same calm block sign q both author rest(1) v rest(2-6), of sample_bytes] show ?thesis by blast
qed

text \<open>
  C12. How the author comes to that state: when \<open>playTransaction\<close> gets the mutex and returns a
  signed block, the place of the transaction was free; the node then holds the block there with
  its own signature alone, and the last thing it broadcasts is this signed block.
\<close>

theorem played_block_published:
  fixes P :: "'sm params"
  assumes "reach (\<lambda>n. \<exists>sm now. n = node_init sm now) (node_step P) n" and "env_calm P"
    and "n_jobs n = J_play_locked tx # js" and "sm_playTransaction_body P tx (n\<lparr>n_jobs := js\<rparr>) = (Inr sb, m)"
  defines "n' \<equiv> snd (run_job P (J_play_locked tx) (n\<lparr>n_jobs := js\<rparr>))"
  shows "node_step P n n' \<and> (\<exists>b st xs. signBlock (p_ethers P) (p_signer P) b = Inr sb \<and>
    getFork b = js_Number (hdr_forkCnt (tx_header tx)) \<and> getHeight b = js_Number (hdr_transactionCnt (tx_header tx)) \<and>
    fs_getAgreement (forkService (n_am n)) (getFork b) (getHeight b) = None \<and>
    fs_getAgreement (forkService (n_am n')) (getFork b) (getHeight b) =
      Some \<lparr>ag_block = b, ag_blockSignatures = [sb_signature sb], ag_encodedState = st\<rparr> \<and>
    n_outbox n' = n_outbox n @ xs @ [Rpc_onSignedBlock sb])"
proof -
  have ok: "env_ok P" using assms(2) by (simp add: env_calm_def)
  have "node_step P n n'" unfolding n'_def
    using step_job [OF assms(3), of P "p_chainTimestamp P" "p_env P" "p_send P"] ok by (simp add: remote_self)
  moreover have "tx_ok (n_am (n\<lparr>n_jobs := js\<rparr>)) tx"
    using node_sys.inv_reach [OF assms(1)] assms(3) by (simp add: node_inv_def jobs_ok_def)
  from play_publishes [OF assms(2,4) this, folded n'_def] obtain b st xs where
    "signBlock (p_ethers P) (p_signer P) b = Inr sb" "getFork b = js_Number (hdr_forkCnt (tx_header tx))"
    "getHeight b = js_Number (hdr_transactionCnt (tx_header tx))"
    "fs_getAgreement (forkService (n_am (n\<lparr>n_jobs := js\<rparr>))) (getFork b) (getHeight b) = None"
    "fs_getAgreement (forkService (n_am n')) (getFork b) (getHeight b) =
      Some \<lparr>ag_block = b, ag_blockSignatures = [sb_signature sb], ag_encodedState = st\<rparr>"
    "n_outbox n' = n_outbox (n\<lparr>n_jobs := js\<rparr>) @ xs @ [Rpc_onSignedBlock sb]" .
  ultimately show ?thesis by auto
qed

text \<open>A channel where it is always the turn of \<open>A\<close>, who plays at once.\<close>

definition sampleW :: "nat params" where
  "sampleW = sampleP\<lparr>p_getNextToWrite := \<lambda>n. Inr ''A''\<rparr>"

definition play2 :: "nat node" where
  "play2 = snd (sm_setState sampleW ''s'' (BigInt 0) (BigInt 90) run1)"

definition play3 :: "nat node" where
  "play3 = snd (sm_sendTransaction sampleW ''d'' play2)"

definition first_tx :: transaction where
  "first_tx = \<lparr>tx_header = \<lparr>hdr_channelId = ''ch'', hdr_participant = ''A'', hdr_forkCnt = Num 0,
      hdr_transactionCnt = Num 0, hdr_timestamp = BigInt 100\<rparr>,
    tx_body = \<lparr>body_transactionType = 0, body_encodedData = ''d'', body_data = ''d''\<rparr>\<rparr>"

lemma sampleW_fields [simp]:
  "p_ethers sampleW = sampleE" "p_signer sampleW m = Inr (CHR ''A'' # m)" "p_signerAddress sampleW = ''A''"
  "p_timeConfig sampleW = p_timeConfig sampleP" "p_stateTransition sampleW tx n = (Inr (True, []), Suc n)"
  "p_getParticipants sampleW n = Inr [''A'', ''B'']" "p_getNextToWrite sampleW n = Inr ''A''"
  "p_setState sampleW s n = (Inr (), 0)" "p_getState sampleW n = Inr (CHR ''s'' # replicate n (CHR ''1''))"
  "p_send sampleW r = Inr ()" "p_env sampleW site nd = nd" "env_calm sampleW"
  by (simp_all add: sampleW_def env_calm_def env_ok_def am_same_def rlp.R_refl)

lemma play3_eq:
  "play3 = (sample_node [] 0 100)\<lparr>n_dh := dh_init ''ch'',
     n_timers := [(0, T_queueProcessing), (50000, T_participantTimeout 0 0 ''A'')],
     n_hooks := [OnSetState, OnTurn ''A''], n_mutex := \<lparr>isLocked = True, mutexQueue = []\<rparr>,
     n_jobs := [J_play_locked first_tx]\<rparr>"
  by (simp add: play3_def play2_def run1_def sm_setState_def sm_setChannelId_def node_eval sm_onSuccessCommon_def
      node_init_def sm_getTimeoutWaitTimeSeconds_def sample_newFork sample_node_def dh_init_def
      dh_setChannelId_def sm_sendTransaction_def first_tx_def)

lemma play3_reach: "reach (\<lambda>n. \<exists>sm now. n = node_init sm now) (node_step sampleW) play3"
proof -
  let ?r = "reach (\<lambda>n. \<exists>sm now. n = node_init sm now) (node_step sampleW)"
  have "?r (node_init 7 100)" by (rule reach_init) blast
  then have "?r run1" unfolding run1_def by (rule reach_step) (rule step_channel)
  moreover have "env_ok sampleW" using sampleW_fields(12) by (simp add: env_calm_def)
  ultimately have "?r play2" unfolding play2_def
    using reach_step step_setState [of sampleW "p_chainTimestamp sampleW" "p_env sampleW" "p_send sampleW"]
    by (metis remote_self)
  then show ?thesis unfolding play3_def by (rule reach_step) (rule step_send)
qed

theorem played_block_published_witness:
  "\<exists>n' b st. node_step sampleW play3 n' \<and> getHeight b = 0 \<and>
     fs_getAgreement (forkService (n_am n')) 0 0 =
       Some \<lparr>ag_block = b, ag_blockSignatures = [sig_of CHR ''A'' (encodeBlock sampleE b)], ag_encodedState = st\<rparr>"
proof -
  let ?b = "\<lparr>blk_transaction = first_tx, blk_stateHash = ''#s1'', blk_previousStateHash = ''#s''\<rparr>"
  have sign: "signBlock sampleE (p_signer sampleW) b =
      Inr \<lparr>sb_encodedBlock = encodeBlock sampleE b, sb_signature = sig_of CHR ''A'' (encodeBlock sampleE b)\<rparr>" for b
    by (simp add: signBlock_def sig_of_def Let_def)
  have pos: "getFork ?b = 0" "getHeight ?b = 0" by (simp_all add: getFork_def getHeight_def first_tx_def)
  have adj: "sm_adjustTimestampIfNeeded first_tx n = Inr first_tx" if "n_am n = sample_am []" for n :: "nat node"
    using that by (simp add: sm_adjustTimestampIfNeeded_def first_tx_def getForkCnt_def)
  obtain sb m where "sm_playTransaction_body sampleW first_tx (play3\<lparr>n_jobs := []\<rparr>) = (Inr sb, m)"
    using pos
    by (simp add: play3_eq sm_playTransaction_body_def sm_isChannelOpen_def node_eval adj sm_applyTransaction_def
        sm_createBlock_def sm_signBlock_def sign sm_onSuccessCommon_def sample_node_def node_init_def)
  moreover have "n_jobs play3 = J_play_locked first_tx # []" by (simp add: play3_eq)
  ultimately obtain n' b st where "node_step sampleW play3 n'" "signBlock sampleE (p_signer sampleW) b = Inr sb"
    "getFork b = 0" "getHeight b = 0"
    "fs_getAgreement (forkService (n_am n')) (getFork b) (getHeight b) =
      Some \<lparr>ag_block = b, ag_blockSignatures = [sb_signature sb], ag_encodedState = st\<rparr>"
    using played_block_published [OF play3_reach, of first_tx "[]" sb m] by (auto simp: first_tx_def)
  with sign [of b] show ?thesis by auto
qed

section \<open>Spreading blocks\<close>

text \<open>
  C28. A node passes a received block on only when it has just stored it: the handler of a
  received block either broadcasts no block, or exactly this one, and then no block had its place
  before and this one has it afterwards. As a stored block stays, no node spreads two
  received blocks of one height, and none spreads one twice.
\<close>

theorem spreads_only_new:
  assumes "env_ok P" and "env_mute P"
    and "run_job P (J_signed_locked sb b (RK_rpc sb)) n = (res, n')"
  shows "blocks_sent n' = blocks_sent n \<or>
    (blocks_sent n' = blocks_sent n @ [Rpc_onSignedBlock sb] \<and>
     fs_getAgreement (forkService (n_am n)) (getFork b) (getHeight b) = None \<and>
     (\<exists>st sigs. fs_getAgreement (forkService (n_am n')) (getFork b) (getHeight b) =
        Some \<lparr>ag_block = b, ag_blockSignatures = sb_signature sb # sigs, ag_encodedState = st\<rparr>))"
  using assms
proof (cases rule: spread_cases)
  case silent
  then show ?thesis by (simp add: mute_def)
next
  case (spread r n1)
  with success_fresh [OF assms(1) spread(1-3)] show ?thesis by blast
qed

lemma sampleP_mute: "env_mute sampleP"
  by (simp add: env_mute_def mute_def)

lemma run4_sent: "blocks_sent run4 = [Rpc_onSignedBlock blockB]"
proof -
  have fresh: "\<not> dh_isForkDisputed (n_dh (run3\<lparr>n_jobs := []\<rparr>)) 0"
    by (simp add: run3_eq run2_eq dh_isForkDisputed_def dh_init_def)
  have v: "vs_validateSignedBlock sampleP blockB block0 (run3\<lparr>n_jobs := []\<rparr>) =
    (Inr vr_ok, (run3\<lparr>n_jobs := []\<rparr>)\<lparr>n_sm := 1, n_am := sample_am [stored0],
       n_timers := n_timers (run3\<lparr>n_jobs := []\<rparr>) @ [(0, T_stateTransitionSuccessCallback [])]\<rparr>)"
    by (rule sample_validates) (use fresh in \<open>simp_all add: run3_eq run2_eq sample_node_def node_init_def\<close>)
  have sign: "signBlock sampleE (p_signer sampleP) block0 =
      Inr \<lparr>sb_encodedBlock = ''b0'', sb_signature = sig_of CHR ''A'' ''b0''\<rparr>"
    by (simp add: signBlock_def sig_of_def Let_def)
  show ?thesis
    by (simp add: run4_def sm_onSignedBlock_locked_def v vr_ok_def blocks_sent_def
        sm_processExecutionDecision_def sm_confirmBlock_def sign node_eval
        sm_onSuccessCommon_def sts_afterFlag_def)
      (simp add: run3_eq run2_eq sample_node_def node_init_def)
qed

theorem spreads_only_new_witness:
  "blocks_sent run4 = [Rpc_onSignedBlock blockB] \<and> fs_getAgreement (forkService (n_am run2)) 0 0 = None"
proof -
  have e: "run_job sampleP (J_signed_locked blockB block0 (RK_rpc blockB)) (run3\<lparr>n_jobs := []\<rparr>) =
      (fst (run_job sampleP (J_signed_locked blockB block0 (RK_rpc blockB)) (run3\<lparr>n_jobs := []\<rparr>)), run4)"
    by (simp add: run4_def del: run_job.simps)
  have "blocks_sent (run3\<lparr>n_jobs := []\<rparr>) = []" "n_am (run3\<lparr>n_jobs := []\<rparr>) = n_am run2"
    by (simp_all add: run3_eq run2_eq sample_node_def node_init_def blocks_sent_def)
  with spreads_only_new [OF sampleP_env sampleP_mute e] run4_sent show ?thesis by simp
qed

section \<open>A connection that throws\<close>

text \<open>
  The confirmation of an accepted block is broadcast while the mutex is held. When writing to
  a connection throws (a WebRTC channel that is closing does), the block is stored but the rest of
  the handler is skipped: from then on the mutex is held by nobody, and the node stores no further
  block, whatever happens.
\<close>

theorem failed_send_wedges:
  assumes idle: "idle n" and env: "env_ok P" and dec: "decodeBlock (p_ethers P) (sb_encodedBlock sb) = Inr b"
    and v: "vs_validateSignedBlock P sb b (holding n) = (Inr r, m)" "vr_success r"
    and unsent: "\<forall>x. \<exists>e. p_send P x = Inl e"
  defines "n1 \<equiv> snd (sm_onSignedBlock P sb None (RK_rpc sb) n)"
    and "n2 \<equiv> snd (run_job P (J_signed_locked sb b (RK_rpc sb)) (holding n))"
  shows "node_step P n n1 \<and> node_step P n1 n2 \<and>
    fs_getAgreement (forkService (n_am n2)) (getFork b) (getHeight b) \<noteq> None \<and>
    (\<forall>n3. (node_step P)\<^sup>*\<^sup>* n2 n3 \<longrightarrow> wedged n3 \<and> same_chains (n_am n2) (n_am n3))"
proof -
  obtain e n' where thr: "sm_onSignedBlock_locked P sb b (holding n) = (Inl e, n')" and mn': "rely m n'"
    using unsent_throws [OF v env unsent] .
  have "hold (holding n) m" using keepsD [OF hold_validateSignedBlock [OF env] v(1)] .
  then have "hold (holding n) n'" using hdp.R_trans rely_hold [OF mn'] by blast
  note st = throw_steps [OF idle env dec thr this, folded n1_def n2_def]
  have "core_le m n2" using mn' st(6) rely_core core_le_trans by blast
  from success_fresh(2) [OF env v this] st wedged_forever [OF _ st(5)] show ?thesis by auto
qed

definition sampleQ :: "nat params" where
  "sampleQ = sampleP\<lparr>p_send := \<lambda>r. Inl (External ''InvalidStateError'')\<rparr>"

theorem failed_send_wedges_witness:
  "\<exists>n2. (node_step sampleQ)\<^sup>*\<^sup>* run2 n2 \<and> wedged n2 \<and>
     fs_getAgreement (forkService (n_am n2)) 0 0 \<noteq> None"
proof -
  have q: "env_ok sampleQ" "p_ethers sampleQ = sampleE" by (simp_all add: sampleQ_def env_ok_def rlp.R_refl)
  have same: "vs_validateSignedBlock sampleQ sb b = vs_validateSignedBlock sampleP sb b" for sb b
    unfolding sampleQ_def by (rule validate_send)
  have "\<not> dh_isForkDisputed (n_dh (holding run2)) 0"
    by (simp add: run2_eq dh_isForkDisputed_def dh_init_def)
  then obtain m where v: "vs_validateSignedBlock sampleQ blockB block0 (holding run2) = (Inr vr_ok, m)"
    unfolding same using sample_validates [of "holding run2"] by (auto simp: run2_eq sample_node_def node_init_def)
  have "vr_success vr_ok" "\<forall>x. \<exists>e. p_send sampleQ x = Inl e" by (simp_all add: vr_ok_def sampleQ_def)
  moreover have "decodeBlock (p_ethers sampleQ) (sb_encodedBlock blockB) = Inr block0" by (simp add: q)
  ultimately obtain n1 n2 where 1: "node_step sampleQ run2 n1" and 2: "node_step sampleQ n1 n2"
    and stored: "fs_getAgreement (forkService (n_am n2)) (getFork block0) (getHeight block0) \<noteq> None"
    and stuck: "\<forall>n3. (node_step sampleQ)\<^sup>*\<^sup>* n2 n3 \<longrightarrow> wedged n3 \<and> same_chains (n_am n2) (n_am n3)"
    using failed_send_wedges [OF run2_idle q(1) _ v] by blast
  from 1 2 have "(node_step sampleQ)\<^sup>*\<^sup>* run2 n2" by (meson rtranclp.simps)
  moreover have "wedged n2" using stuck by blast
  moreover have "fs_getAgreement (forkService (n_am n2)) 0 0 \<noteq> None" using stored by simp
  ultimately show ?thesis by blast
qed

section \<open>The sender of the last message\<close>

text \<open>
  C15. A handshake request is answered to whoever sent the last message when the signature is
  ready: a request arrives on \<open>t1\<close>, then any text at all, even one that is not a message,
  arrives on \<open>t2\<close>; the signature of the challenge of \<open>t1\<close> is sent to \<open>t2\<close>, and \<open>t1\<close> gets no
  answer.
\<close>

theorem response_follows_last_message:
  assumes "t1 \<noteq> t2" and t2: "t2 < length (nw_transports (pr_net p))"
    and open2: "tr_writeError (nw_transports (pr_net p) ! t2) = None"
    and near: "\<bar>time - peer_now p\<bar> \<le> int (agreementTime (p_timeConfig P))"
    and m: "g h = Inr m" and sig: "p_signer P m = Inr signature" and junk: "p2p_onRpc junk = None"
  defines "p1 \<equiv> peer_receive g P t1 (serializeRpc (proxy_call ''onInitHandshakeRequest''
      [Some (JString h), Some (json_int time)])) p"
  defines "s2 \<equiv> pr_net (peer_receive g P t2 junk p1)"
  shows "nw_signing s2 = nw_signing (pr_net p) @ [(m, peer_now p)] \<and>
    (\<exists>s3. hs_afterSign (hs_of g P) m (peer_now p) s2 = (Inr (), s3) \<and>
       tr_sent (nw_transports s3 ! t2) = tr_sent (nw_transports (pr_net p) ! t2) @
         [serializeRpc (hs_response signature (peer_now p) (preferredTransport (pr_net p)))] \<and>
       tr_sent (nw_transports s3 ! t1) = tr_sent (nw_transports (pr_net p) ! t1))"
proof -
  have "map_get main_methods ''onInitHandshakeRequest'' =
      Some (\<lambda>a. SC_initHandshakeRequest (nth_opt a 0) (nth_opt a 1))"
    by (simp add: main_methods_def map_get_def)
  from onRpc_call [OF this, of "[JString h, json_int time]"]
  have call: "p2p_onRpc (serializeRpc (proxy_call ''onInitHandshakeRequest'' [Some (JString h), Some (json_int time)])) =
      Some (SC_initHandshakeRequest (Some (JString h)) (Some (json_int time)))"
    by (simp add: json_int_def nth_opt_def)
  have num: "js_toNumber (Some (json_int time)) = Some (of_int time)"
    by (simp add: js_toNumber_def json_int_def json_rat_def)
  have "\<not> far_from (Some (of_int time)) (peer_now p) (agreementTime (p_timeConfig P))"
  proof -
    have "of_int \<bar>time - peer_now p\<bar> \<le> (of_int (int (agreementTime (p_timeConfig P))) :: rat)"
      using near by (simp only: of_int_le_iff)
    then show ?thesis by simp
  qed
  then have s2: "s2 = (pr_net p)\<lparr>senderTransport := Some t2,
      nw_signing := nw_signing (pr_net p) @ [(m, peer_now p)]\<rparr>"
    using m by (simp add: s2_def p1_def peer_receive_def call junk peer_serve_def on_net_def num
        hs_onInitHandshakeRequest_def hs_of_def tr_onMessage_def peer_now_def)
  have "hs_signMessage (hs_of g P) m = Inr signature" using sig by (simp add: hs_of_def)
  with t2 open2 assms(1) show ?thesis
    by (simp add: s2 hs_afterSign_def rpc_sendOne_def tr_send_def nth_opt_def)
qed

theorem response_follows_last_message_witness:
  "\<exists>s3. hs_afterSign (hs_of sample_bytes sampleP) ''#q'' 100
       (pr_net (peer_receive sample_bytes sampleP 1 ''''
         (peer_receive sample_bytes sampleP 0 (serializeRpc (proxy_call ''onInitHandshakeRequest''
            [Some (JString ''#q''), Some (json_int 100)])) peer2))) = (Inr (), s3) \<and>
     length (tr_sent (nw_transports s3 ! 1)) = 2 \<and> length (tr_sent (nw_transports s3 ! 0)) = 1"
proof -
  have junk: "p2p_onRpc '''' = None"
    by (simp add: p2p_onRpc_def deserializeRpc_def json_parse_def numeral_2_eq_2 skip_def)
  have now: "peer_now peer2 = 100"
    by (simp add: peer_now_def peer2_def peer1_def peer0_def peer_init_def node_init_def)
  have "1 < length (nw_transports (pr_net peer2))" "tr_writeError (nw_transports (pr_net peer2) ! 1) = None"
    by (simp_all add: peer2_net transport_new_def)
  from response_follows_last_message [OF _ this, of 0 100 sampleP sample_bytes "''#q''" "''#q''" _ "''''"] junk
  show ?thesis
    by (auto simp: now sample_bytes_def peer2_net transport_new_def)
qed

section \<open>Topics\<close>

text \<open>
  The topic a peer announces for a channel is the text of the identifier cut to 32
  characters. An identifier is 66 characters of hexadecimal text, so a topic names its first 15 bytes
  only: channels that agree on these meet in one topic, and no others do.
\<close>

theorem channel_topic_prefix:
  assumes "32 \<le> length c" and "32 \<le> length d"
  shows "length (channel_topic c) = 32 \<and> (channel_topic c = channel_topic d \<longleftrightarrow> take 32 c = take 32 d)"
proof -
  have "channel_topic x = take 32 x" if "32 \<le> length x" for x
  proof -
    have "concat (replicate 32 x) = x @ concat (replicate 31 x)"
      using replicate_Suc [of 31 x] by simp
    with that show ?thesis by (auto simp: channel_topic_def)
  qed
  with assms show ?thesis by simp
qed

theorem channel_topic_prefix_witness:
  "channel_topic (replicate 32 CHR ''0'' @ ''1'') = channel_topic (replicate 32 CHR ''0'' @ ''2'')"
  using channel_topic_prefix [of "replicate 32 CHR ''0'' @ ''1''" "replicate 32 CHR ''0'' @ ''2''"] by simp

end
