(* ===== verification/TicTacToe.thy ===== *)
theory TicTacToe
  imports DataTypes Json
begin

text \<open>
  The example application, \<open>src/examples/TicTacToe/tic-tac-toe-vite/src\<close>: the logic of
  \<open>components/Game.tsx\<close> and of \<open>stateChannel/TempSingleton.ts\<close>. The setters of the singleton are
  those of the React components, so all are one state. The component \<open>Game\<close> exists between the
  renders that find \<open>gameStarted\<close> set and unset (\<open>gm_mounted\<close>); its setters have no effect at other
  times. An event handler sees the values of the last render (\<open>gm_seenSquares\<close>, \<open>gm_seenX\<close>); the
  board is an array shared by reference, named by its place in \<open>gm_arrays\<close>. What the contract's views answer is the record \<open>game_views\<close>.
\<close>

section \<open>The board\<close>

text \<open>\<open>squares[i]\<close>: \<open>null\<close> and \<open>undefined\<close> are \<open>None\<close>. Assigning past the end extends the array.\<close>

type_synonym board = "string option list"

definition square_at :: "board \<Rightarrow> nat \<Rightarrow> string option" where
  "square_at squares i = (case nth_opt squares i of None \<Rightarrow> None | Some c \<Rightarrow> c)"

definition put_cell :: "nat \<Rightarrow> string option \<Rightarrow> board \<Rightarrow> board" where
  "put_cell i c squares =
     (if i < length squares then squares[i := c]
      else squares @ replicate (i - length squares) None @ [c])"

text \<open>Truthiness of a cell: not \<open>null\<close>, not the empty string.\<close>

definition marked :: "board \<Rightarrow> nat \<Rightarrow> bool" where
  "marked squares i \<longleftrightarrow> square_at squares i \<noteq> None \<and> square_at squares i \<noteq> Some []"

definition winning_lines :: "(nat \<times> nat \<times> nat) list" where
  "winning_lines =
     [(0, 1, 2), (3, 4, 5), (6, 7, 8), (0, 3, 6), (1, 4, 7), (2, 5, 8), (0, 4, 8), (2, 4, 6)]"

fun winner_loop :: "(nat \<times> nat \<times> nat) list \<Rightarrow> board \<Rightarrow> string option" where
  "winner_loop [] squares = None"
| "winner_loop ((a, b, c) # lines) squares =
     (if marked squares a \<and> square_at squares a = square_at squares b \<and> square_at squares a = square_at squares c
      then square_at squares a else winner_loop lines squares)"

definition calculateWinner :: "board \<Rightarrow> string option" where
  "calculateWinner squares = winner_loop winning_lines squares"

section \<open>State\<close>

record game =
  gm_mounted :: bool
  gm_arrays :: "board list"
  gm_squares :: nat
  gm_isXNext :: bool
  gm_seenSquares :: nat
  gm_seenX :: bool
  gm_timer :: nat
  gm_timeRemaining :: "nat list"
  gm_notificationText :: string
  gm_moves :: "(nat \<times> nat) list"
  isX :: bool
  myBalance :: nat
  opponentBalance :: nat
  gameStarted :: bool
  createdGame :: bool
  gameId :: string
  opponentAddress :: string
  disposals :: nat
  pendingResets :: nat
  pendingClears :: nat

record game_views =
  gv_self :: address
  gv_participants :: "address list res"
  gv_balance :: "address \<Rightarrow> js_num res"
  gv_nextToWrite :: "address res"
  gv_timeConfig :: time_config

definition fresh_board :: board where
  "fresh_board = replicate 9 None"

definition game_init :: game where
  "game_init =
     \<lparr>gm_mounted = False, gm_arrays = [fresh_board], gm_squares = 0, gm_isXNext = True, gm_seenSquares = 0, gm_seenX = True,
      gm_timer = 5, gm_timeRemaining = [5, 5], gm_notificationText = [], gm_moves = [], isX = True,
      myBalance = 500, opponentBalance = 500, gameStarted = False, createdGame = False, gameId = [],
      opponentAddress = [], disposals = 0, pendingResets = 0, pendingClears = 0\<rparr>"

type_synonym 'a game_act = "(game, 'a) act"

text \<open>The board the handlers see, and the one the next render shows.\<close>

definition seen_board :: "game \<Rightarrow> board" where
  "seen_board g = gm_arrays g ! gm_seenSquares g"

text \<open>\<open>Main\<close> shows \<open>Game\<close>, whose state is new each time, while \<open>gameStarted\<close> holds.\<close>

definition mount :: "game \<Rightarrow> game" where
  "mount g =
     g\<lparr>gm_mounted := True, gm_arrays := gm_arrays g @ [fresh_board], gm_squares := length (gm_arrays g),
       gm_isXNext := True, gm_seenSquares := length (gm_arrays g), gm_seenX := True, gm_timer := 5,
       gm_timeRemaining := [5, 5], gm_notificationText := []\<rparr>"

definition render :: "game \<Rightarrow> game" where
  "render g =
     (if \<not> gameStarted g then g\<lparr>gm_mounted := False\<rparr>
      else if \<not> gm_mounted g then mount g
      else g\<lparr>gm_seenSquares := gm_squares g, gm_seenX := gm_isXNext g\<rparr>)"

text \<open>A setter of \<open>Game\<close>.\<close>

definition if_mounted :: "(game \<Rightarrow> game) \<Rightarrow> game \<Rightarrow> game" where
  "if_mounted f g = (if gm_mounted g then f g else g)"

definition clearSquares :: "game \<Rightarrow> game" where
  "clearSquares = if_mounted
     (\<lambda>g. g\<lparr>gm_arrays := gm_arrays g @ [fresh_board], gm_squares := length (gm_arrays g)\<rparr>)"

definition notify :: "string \<Rightarrow> game \<Rightarrow> game" where
  "notify text = if_mounted (\<lambda>g. g\<lparr>gm_notificationText := text\<rparr>)"

section \<open>Game.tsx\<close>

text \<open>One second of the interval: the updater of \<open>setTimer\<close>, which also shifts the array of times.\<close>

definition game_tick :: "game \<Rightarrow> game" where
  "game_tick g =
     (if \<not> gm_mounted g then g
      else if gm_timer g \<le> 1
      then (case gm_timeRemaining g of
              [] \<Rightarrow> g\<lparr>gm_timer := 0\<rparr>
            | x # xs \<Rightarrow> g\<lparr>gm_timeRemaining := xs, gm_timer := x\<rparr>)
      else g\<lparr>gm_timer := gm_timer g - 1\<rparr>)"

definition game_isMyTurn :: "game \<Rightarrow> bool" where
  "game_isMyTurn g \<longleftrightarrow> (gm_seenX g \<and> isX g) \<or> (\<not> gm_seenX g \<and> \<not> isX g)"

definition handleClick :: "nat \<Rightarrow> game \<Rightarrow> game" where
  "handleClick index g =
     (if \<not> gm_mounted g \<or> \<not> game_isMyTurn g \<or> length (gm_timeRemaining g) \<noteq> 2 \<or>
         marked (seen_board g) index \<or> calculateWinner (seen_board g) \<noteq> None
      then g
      else g\<lparr>gm_moves := gm_moves g @ [(index div 3, index mod 3)]\<rparr>)"

definition updateBoard :: "nat \<Rightarrow> nat \<Rightarrow> nat \<Rightarrow> game \<Rightarrow> game" where
  "updateBoard row col c =
     (let index = row * 3 + col in if_mounted (\<lambda>g.
      g\<lparr>gm_arrays := (gm_arrays g)[gm_seenSquares g :=
          put_cell index (Some (if c = 1 then ''X'' else ''O'')) (seen_board g)],
        gm_squares := gm_seenSquares g, gm_isXNext := \<not> gm_seenX g\<rparr>))"

section \<open>TempSingleton.ts\<close>

definition resetTimer :: "game_views \<Rightarrow> game \<Rightarrow> game" where
  "resetTimer V = if_mounted (\<lambda>g.
     g\<lparr>gm_timer := p2pTime (gv_timeConfig V),
       gm_timeRemaining := [agreementTime (gv_timeConfig V), chainFallbackTime (gv_timeConfig V)]\<rparr>)"

definition finishGame :: "game \<Rightarrow> game" where
  "finishGame g =
     g\<lparr>disposals := Suc (disposals g), gameStarted := False, opponentAddress := [], createdGame := False,
       gameId := []\<rparr>"

text \<open>The loop of \<open>updateBalances\<close> with its flag \<open>shouldTerminate\<close>.\<close>

fun balances_loop :: "game_views \<Rightarrow> address list \<Rightarrow> bool \<Rightarrow> bool game_act" where
  "balances_loop V [] shouldTerminate = sreturn shouldTerminate"
| "balances_loop V (a # as) shouldTerminate =
     sbind (sread (\<lambda>_. gv_balance V a)) (\<lambda>b.
       let v = js_Number b in
       sbind (smodify (\<lambda>g. if a = gv_self V then g\<lparr>myBalance := v\<rparr> else g\<lparr>opponentBalance := v\<rparr>))
         (\<lambda>_. balances_loop V as (shouldTerminate \<or> v = 0)))"

definition updateBalances :: "game_views \<Rightarrow> unit game_act" where
  "updateBalances V =
     sbind (sread (\<lambda>_. gv_participants V)) (\<lambda>participants.
     sbind (balances_loop V participants False) (\<lambda>shouldTerminate.
       if shouldTerminate then smodify finishGame else sreturn ()))"

text \<open>The hooks given to \<open>p2pSetup\<close>.\<close>

definition onConnection :: "address \<Rightarrow> game \<Rightarrow> game" where
  "onConnection a g = g\<lparr>opponentAddress := a\<rparr>"

definition onTurn :: "game_views \<Rightarrow> game \<Rightarrow> game" where
  "onTurn V = resetTimer V"

definition onInitiatingDispute :: "game \<Rightarrow> game" where
  "onInitiatingDispute g = notify ''Initiating Dispute on-chain!'' g"

definition onPostingCalldata :: "game \<Rightarrow> game" where
  "onPostingCalldata g =
     notify ''Opponent did NOT cooperate - Posting Calldata on-chain!'' g"

definition onPostedCalldata :: "game_views \<Rightarrow> game \<Rightarrow> game" where
  "onPostedCalldata V g =
     resetTimer V (notify ''Calldata posted on-chain!'' (g\<lparr>pendingClears := Suc (pendingClears g)\<rparr>))"

definition clearNotification :: "game \<Rightarrow> game" where
  "clearNotification g = notify [] (g\<lparr>pendingClears := pendingClears g - 1\<rparr>)"

definition game_onSetState :: "game_views \<Rightarrow> unit game_act" where
  "game_onSetState V =
     sbind (sread (\<lambda>_. gv_participants V)) (\<lambda>participants.
     sbind (updateBalances V) (\<lambda>_.
     sbind (smodify clearSquares) (\<lambda>_.
       if length participants < 2 then smodify finishGame
       else sbind (sread (\<lambda>_. gv_nextToWrite V)) (\<lambda>firstPlayer.
              smodify (\<lambda>g. resetTimer V (notify []
                (g\<lparr>isX := (firstPlayer = gv_self V), gameStarted := True\<rparr>)))))))"

text \<open>\<open>onDisputeUpdate\<close>, over the exits of the dispute: participant and amount.\<close>

fun exits_loop :: "address \<Rightarrow> (address \<times> js_num) list \<Rightarrow> game \<Rightarrow> game" where
  "exits_loop self [] g = g"
| "exits_loop self ((participant, amount) # es) g =
     exits_loop self es
       (if participant = self then g\<lparr>myBalance := js_Number amount\<rparr>
        else g\<lparr>opponentBalance := js_Number amount\<rparr>)"

definition onMoveMade :: "game_views \<Rightarrow> js_num \<Rightarrow> js_num \<Rightarrow> js_num \<Rightarrow> game \<Rightarrow> game" where
  "onMoveMade V row col c g =
     resetTimer V (updateBoard (js_Number row) (js_Number col) (js_Number c) g)"

text \<open>The event \<open>GameOver\<close> and what its timeout does two seconds later.\<close>

definition onGameOver :: "game \<Rightarrow> game" where
  "onGameOver g = g\<lparr>pendingResets := Suc (pendingResets g)\<rparr>"

definition resetGame :: "game_views \<Rightarrow> unit game_act" where
  "resetGame V =
     sbind (sread (\<lambda>_. gv_nextToWrite V)) (\<lambda>firstPlayer.
     sbind (smodify (\<lambda>g. g\<lparr>isX := (firstPlayer = gv_self V), pendingResets := pendingResets g - 1\<rparr>)) (\<lambda>_.
     sbind (updateBalances V) (\<lambda>_.
       smodify (\<lambda>g. resetTimer V (if_mounted (\<lambda>g. g\<lparr>gm_isXNext := True\<rparr>) (clearSquares g))))))"

text \<open>The request to join that \<open>setJoinChannel\<close> signs.\<close>

definition game_joinChannel :: "ethers \<Rightarrow> string \<Rightarrow> address \<Rightarrow> nat \<Rightarrow> nat \<Rightarrow> join_channel res" where
  "game_joinChannel E channelId self balance now =
     rmap (\<lambda>encodedChannelId.
        \<lparr>jc_channelId = keccak256 E encodedChannelId, jc_participant = self, jc_amount = Num balance,
         jc_deadlineTimestamp = Num (now + 120), jc_data = ''0x00''\<rparr>)
       (abiEncode E TString (JStr channelId))"

section \<open>Main.tsx\<close>

text \<open>\<open>r\<close> is \<open>Math.floor(Math.random() * 900000)\<close> of \<open>generateGameId\<close>.\<close>

definition generateGameId :: "nat \<Rightarrow> string" where
  "generateGameId r = nat_lit (100000 + r)"

definition isValidGameId :: "string \<Rightarrow> bool" where
  "isValidGameId s \<longleftrightarrow> length s = 6 \<and> list_all (\<lambda>c. digit_val c \<noteq> None) s"

text \<open>The two handlers, with the identifier given to \<open>TempSingleton.setJoinChannel\<close>, if any.\<close>

definition handleCreateGame :: "nat \<Rightarrow> game \<Rightarrow> string option \<times> game" where
  "handleCreateGame r g =
     (let channelId = generateGameId r in (Some channelId, g\<lparr>gameId := channelId, createdGame := True\<rparr>))"

definition handleJoinGame :: "game \<Rightarrow> string option \<times> game" where
  "handleJoinGame g =
     (if dropWhile is_space (gameId g) \<noteq> [] then (Some (gameId g), g\<lparr>createdGame := True\<rparr>) else (None, g))"

section \<open>Account.tsx\<close>

text \<open>\<open>letters[NaN]\<close> of a seed that is too short is \<open>undefined\<close>.\<close>

definition generateRandomColor :: "string \<Rightarrow> string" where
  "generateRandomColor seed =
     CHR ''#'' # concat (map (\<lambda>i. case nth_opt seed (i + 2) of
         None \<Rightarrow> ''undefined''
       | Some c \<Rightarrow> [''0123456789ABCDEF'' ! (of_char c mod 16)]) [0..<6])"

text \<open>The address shown; \<open>slice\<close> of a negative number counts from the end.\<close>

definition shown_address :: "string \<Rightarrow> string" where
  "shown_address address =
     take 6 address @ ''...'' @
     (if 6 \<le> length address then drop (length address - 6) address
      else drop (length address - (6 - length address)) address)"

end
