(* ===== verification/GameProperties.thy ===== *)
theory GameProperties
  imports TicTacToe JsonFacts
begin

text \<open>
  The example application: the winner, the countdown shown to a player, game identifiers, and how
  the end of a game is handled.
\<close>

section \<open>The winner\<close>

text \<open>All three cells of a row, of a column, or of a diagonal.\<close>

definition full_line :: "board \<Rightarrow> string \<Rightarrow> bool" where
  "full_line b p \<longleftrightarrow>
     (\<exists>r<3. \<forall>c<3. square_at b (3 * r + c) = Some p) \<or> (\<exists>c<3. \<forall>r<3. square_at b (3 * r + c) = Some p) \<or>
     (\<forall>i<3. square_at b (3 * i + i) = Some p) \<or> (\<forall>i<3. square_at b (3 * i + (2 - i)) = Some p)"

lemma less_3: "(\<forall>i<3::nat. Q i) \<longleftrightarrow> Q 0 \<and> Q 1 \<and> Q 2" "(\<exists>i<3::nat. Q i) \<longleftrightarrow> Q 0 \<or> Q 1 \<or> Q 2"
  by (auto simp: numeral_eq_Suc less_Suc_eq)

lemma full_line_iff:
  "full_line b p \<longleftrightarrow> (\<exists>(x, y, z) \<in> set winning_lines. square_at b x = Some p \<and> square_at b y = Some p \<and> square_at b z = Some p)"
  unfolding full_line_def less_3 winning_lines_def by (simp add: numeral_2_eq_2)

lemma winner_loop_Some:
  "winner_loop ls b = Some p \<Longrightarrow>
     p \<noteq> [] \<and> (\<exists>(x, y, z) \<in> set ls. square_at b x = Some p \<and> square_at b y = Some p \<and> square_at b z = Some p)"
  by (induction ls b rule: winner_loop.induct) (auto simp: marked_def split: if_splits)

lemma winner_loop_None:
  "winner_loop ls b = None \<Longrightarrow> (x, y, z) \<in> set ls \<Longrightarrow> square_at b x = Some p \<Longrightarrow> square_at b y = Some p \<Longrightarrow>
     square_at b z = Some p \<Longrightarrow> p = []"
  by (induction ls b rule: winner_loop.induct) (auto simp: marked_def split: if_splits)

text \<open>
  On a board where at most one player has a full line, \<open>calculateWinner\<close> names exactly that player.
\<close>

theorem winner_has_line:
  assumes "\<And>q r. full_line b q \<Longrightarrow> full_line b r \<Longrightarrow> q \<noteq> [] \<Longrightarrow> r \<noteq> [] \<Longrightarrow> q = r"
  shows "calculateWinner b = Some p \<longleftrightarrow> p \<noteq> [] \<and> full_line b p"
proof (cases "calculateWinner b")
  case None
  then have "\<not> full_line b p" if "p \<noteq> []"
    using that winner_loop_None [of winning_lines b] by (auto simp: calculateWinner_def full_line_iff)
  with None show ?thesis by auto
next
  case (Some q)
  then have "q \<noteq> [] \<and> full_line b q"
    using winner_loop_Some [of winning_lines b q] by (simp add: calculateWinner_def full_line_iff)
  with Some assms show ?thesis by auto
qed

definition won_board :: board where
  "won_board = map Some [''X'', ''O'', ''O'', ''O'', ''X'', ''X'', ''O'', ''X'', ''X'']"

lemma won_board_line: "full_line won_board p \<longleftrightarrow> p = ''X''"
  by (auto simp: full_line_iff winning_lines_def won_board_def square_at_def nth_opt_def)

theorem winner_has_line_witness:
  "calculateWinner won_board = Some ''X''"
  by (subst winner_has_line) (simp_all add: won_board_line)

section \<open>The countdown\<close>

text \<open>\<open>k\<close> seconds.\<close>

fun ticks :: "nat \<Rightarrow> game \<Rightarrow> game" where
  "ticks 0 g = g"
| "ticks (Suc k) g = ticks k (game_tick g)"

lemma ticks_timer:
  assumes "gm_mounted g" and "k < gm_timer g"
  shows "ticks k g = g\<lparr>gm_timer := gm_timer g - k\<rparr>"
  using assms
proof (induction k arbitrary: g)
  case (Suc k)
  then have "game_tick g = g\<lparr>gm_timer := gm_timer g - 1\<rparr>" by (simp add: game_tick_def)
  with Suc show ?case by simp
qed simp

lemma ticks_phase:
  assumes "gm_mounted g" and "0 < gm_timer g" and "gm_timeRemaining g = x # xs"
  shows "ticks (gm_timer g) g = g\<lparr>gm_timer := x, gm_timeRemaining := xs\<rparr>"
proof -
  obtain k where k: "gm_timer g = Suc k" using assms(2) by (cases "gm_timer g") auto
  have step: "ticks (Suc m) h = game_tick (ticks m h)" for m h
    by (induction m arbitrary: h) (simp_all del: ticks.simps(2) add: ticks.simps(2))
  have "ticks k g = g\<lparr>gm_timer := 1\<rparr>" using ticks_timer [OF assms(1), of k] k by simp
  with k assms step [of k g] show ?thesis by (simp add: game_tick_def)
qed

lemma ticks_add: "ticks (j + k) g = ticks k (ticks j g)"
  by (induction j arbitrary: g) simp_all

text \<open>
  After a turn began, a player has the \<open>p2pTime\<close> to move: the board takes clicks as long as fewer
  seconds passed, and none once the time is over, until the timer is set again.
\<close>

theorem time_to_click:
  assumes "gm_mounted g" and "0 < p2pTime (gv_timeConfig V)"
  shows "length (gm_timeRemaining (ticks k (resetTimer V g))) = 2 \<longleftrightarrow> k < p2pTime (gv_timeConfig V)"
proof (cases "k < p2pTime (gv_timeConfig V)")
  case True
  with assms(1) show ?thesis by (subst ticks_timer) (simp_all add: resetTimer_def if_mounted_def)
next
  case False
  let ?t = "p2pTime (gv_timeConfig V)"
  have shrink: "length (gm_timeRemaining (ticks j h)) \<le> length (gm_timeRemaining h)" for j h
  proof (induction j arbitrary: h)
    case (Suc j)
    have "length (gm_timeRemaining (game_tick h)) \<le> length (gm_timeRemaining h)"
      by (auto simp: game_tick_def split: list.split)
    with Suc [of "game_tick h"] show ?case by simp
  qed simp
  have "ticks k (resetTimer V g) = ticks (k - ?t) (ticks ?t (resetTimer V g))"
    using False ticks_add [of ?t "k - ?t"] by simp
  moreover have "length (gm_timeRemaining (ticks ?t (resetTimer V g))) = 1"
    using ticks_phase [of "resetTimer V g"] assms by (simp add: resetTimer_def if_mounted_def)
  ultimately have "length (gm_timeRemaining (ticks k (resetTimer V g))) \<le> 1" using shrink by metis
  with False show ?thesis by simp
qed

section \<open>Game identifiers\<close>

lemma nat_lit_6:
  assumes "100000 \<le> n" and "n < 1000000"
  shows "nat_lit n = [digit_char (n div 100000), digit_char (n div 10000 mod 10), digit_char (n div 1000 mod 10),
    digit_char (n div 100 mod 10), digit_char (n div 10 mod 10), digit_char (n mod 10)]"
proof -
  have step: "nat_lit m = nat_lit (m div 10) @ [digit_char (m mod 10)]" if "10 \<le> m" for m
    using that by (subst nat_lit.simps) simp
  have "nat_lit (n div 100000) = [digit_char (n div 100000)]"
    using assms(2) by (subst nat_lit.simps) auto
  then show ?thesis
    using assms step [of n] step [of "n div 10"] step [of "n div 100"] step [of "n div 1000"] step [of "n div 10000"]
    by (simp flip: div_mult2_eq)
qed

theorem generated_id_valid:
  assumes "r < 900000"
  shows "isValidGameId (generateGameId r)"
  using assms nat_lit_6 [of "100000 + r"]
  by (simp add: isValidGameId_def generateGameId_def)

section \<open>The end of a game\<close>

text \<open>
  When a new state arrives in which somebody has nothing left, \<open>updateBalances\<close> disposes of the
  peer and leaves the game, but \<open>onSetState\<close> goes on and starts it again.
\<close>

text \<open>
  The first state of a channel arrives before the component \<open>Game\<close> exists: the times set by
  \<open>onSetState\<close> are lost, and the board is shown with five seconds.
\<close>

theorem first_times_lost:
  assumes "\<not> gm_mounted g" and "game_onSetState V g = (Inr (), g')" and "gameStarted g'"
  shows "gm_timer (render g') = 5 \<and> gm_timeRemaining (render g') = [5, 5]"
proof -
  have keep: "balances_loop V as f h = (r, h') \<Longrightarrow> gm_mounted h' = gm_mounted h" for as f h r h'
    by (induction as arbitrary: f h) (auto simp: act_defs Let_def split: sum.splits if_splits)
  have "\<not> gm_mounted g'"
    using assms(1,2)
    by (auto simp: game_onSetState_def updateBalances_def act_defs finishGame_def clearSquares_def
        resetTimer_def notify_def if_mounted_def Let_def split: sum.splits prod.splits if_splits dest!: keep)
  with assms(3) show ?thesis by (simp add: render_def mount_def)
qed

theorem finished_game_restarts:
  assumes "gv_participants V = Inr [a, b]" and "gv_balance V a = Inr x" and "gv_balance V b = Inr y"
    and "js_Number x = 0" and "gv_nextToWrite V = Inr w"
  shows "\<exists>g'. game_onSetState V g = (Inr (), g') \<and> gameStarted g' \<and> disposals g' = Suc (disposals g)"
  using assms
  by (simp add: game_onSetState_def updateBalances_def act_defs Let_def finishGame_def clearSquares_def
      resetTimer_def notify_def if_mounted_def)

section \<open>The color of an account\<close>

text \<open>An address, \<open>0x\<close> with 40 digits, gives a color of six hexadecimal digits.\<close>

theorem color_of_address:
  assumes "8 \<le> length seed"
  shows "\<exists>ds. generateRandomColor seed = CHR ''#'' # ds \<and> length ds = 6 \<and> set ds \<subseteq> set ''0123456789ABCDEF''"
proof -
  let ?h = "\<lambda>i. ''0123456789ABCDEF'' ! (of_char (seed ! (i + 2)) mod 16)"
  have "generateRandomColor seed = CHR ''#'' # map ?h [0..<6]"
    using assms by (simp add: generateRandomColor_def nth_opt_def upt_rec)
  moreover have "?h i \<in> set ''0123456789ABCDEF''" for i by (rule nth_mem) simp
  ultimately show ?thesis by (intro exI [of _ "map ?h [0..<6]"]) auto
qed

end
