(* ===== verification/LocalDiscovery.thy ===== *)
theory LocalDiscovery
  imports Peer
begin

text \<open>
  \<open>src/utils/LocalDiscoveryServer.ts\<close>, how peers on one machine find each other in tests: a server
  that repeats every announcement to everybody, and the peers, each of which dials those with a
  larger port. Sockets are third-party; a connection is a number, and a dialled address is the
  text after the colon.
\<close>

section \<open>Messages\<close>

text \<open>\<open>const [peerPort, channelId] = JSON.parse(message)\<close>, and \<open>JSON.stringify\<close> of such a pair.\<close>

type_synonym discovery_info = "json option \<times> json option"

definition read_info :: "string \<Rightarrow> discovery_info res" where
  "read_info message =
     (case json_parse message of
        None \<Rightarrow> Inl (External ''SyntaxError'')
      | Some v \<Rightarrow> rmap (\<lambda>vs. (nth_opt vs 0, nth_opt vs 1)) (spread v))"

definition or_null :: "json option \<Rightarrow> json" where
  "or_null v = (case v of None \<Rightarrow> JNull | Some x \<Rightarrow> x)"

definition write_info :: "discovery_info \<Rightarrow> string" where
  "write_info d = json_stringify (JArray [or_null (fst d), or_null (snd d)])"

section \<open>The server\<close>

record discovery_server =
  dv_connections :: "nat list"
  dv_info :: "discovery_info list"
  dv_sent :: "(nat \<times> string) list"

definition dv_new :: discovery_server where
  "dv_new = \<lparr>dv_connections = [], dv_info = [], dv_sent = []\<rparr>"

definition dv_connect :: "nat \<Rightarrow> discovery_server \<Rightarrow> discovery_server" where
  "dv_connect ws s = s\<lparr>dv_connections := dv_connections s @ [ws]\<rparr>"

text \<open>The sender gets all announcements so far, its own too; all others get the message.\<close>

definition dv_message :: "nat \<Rightarrow> string \<Rightarrow> (discovery_server, unit) act" where
  "dv_message ws message =
     sbind (sread (\<lambda>_. read_info message)) (\<lambda>d.
     sbind (smodify (\<lambda>s. s\<lparr>dv_info := dv_info s @ [d]\<rparr>)) (\<lambda>_.
       smodify (\<lambda>s. s\<lparr>dv_sent := dv_sent s @ map (\<lambda>i. (ws, write_info i)) (dv_info s) @
         map (\<lambda>conn. (conn, message)) (filter (\<lambda>conn. conn \<noteq> ws) (dv_connections s))\<rparr>)))"

definition dv_close :: "nat \<Rightarrow> discovery_server \<Rightarrow> discovery_server" where
  "dv_close ws s = s\<lparr>dv_connections := filter (\<lambda>conn. conn \<noteq> ws) (dv_connections s)\<rparr>"

section \<open>The peers\<close>

record discovery_client =
  dc_port :: nat
  dc_channelId :: "string option"
  dc_seen :: "json option list"
  dc_dialled :: "string list"

text \<open>\<open>r\<close> is \<open>Math.floor(Math.random() * 1000)\<close>.\<close>

definition dc_new :: "nat \<Rightarrow> string option \<Rightarrow> discovery_client" where
  "dc_new r channelId = \<lparr>dc_port = r + 2000, dc_channelId = channelId, dc_seen = [], dc_dialled = []\<rparr>"

definition dc_announce :: "discovery_client \<Rightarrow> string" where
  "dc_announce c = write_info (Some (json_int (int (dc_port c))), map_option JString (dc_channelId c))"

text \<open>Whether a \<open>Set\<close> has a value: numbers by value, arrays and objects are new ones each time.\<close>

fun same_value :: "json option \<Rightarrow> json option \<Rightarrow> bool" where
  "same_value (Some (JNumber m e)) (Some (JNumber m' e')) = (json_rat m e = json_rat m' e')"
| "same_value (Some (JArray vs)) v = False"
| "same_value (Some (JObject fs)) v = False"
| "same_value u v = (u = v)"

definition dc_message :: "string \<Rightarrow> (discovery_client, unit) act" where
  "dc_message message =
     sbind (sread (\<lambda>_. read_info message)) (\<lambda>(peerPort, peerChannelId).
     sbind (sread (\<lambda>c. Inr (list_ex (same_value peerPort) (dc_seen c)))) (\<lambda>seen.
       if seen then sreturn ()
       else sbind (smodify (\<lambda>c. c\<lparr>dc_seen := dc_seen c @ [peerPort]\<rparr>)) (\<lambda>_.
         smodify (\<lambda>c.
           if (\<exists>r. js_toNumber peerPort = Some r \<and> r > of_nat (dc_port c)) \<and>
              (dc_channelId c = None \<or> dc_channelId c = Some [] \<or>
               map_option JString (dc_channelId c) = peerChannelId)
           then c\<lparr>dc_dialled := dc_dialled c @ [js_toString peerPort]\<rparr> else c))))"

text \<open>A dialled or accepted connection becomes a transport of the peer.\<close>

definition dc_connected :: "hs_params \<Rightarrow> bytes \<Rightarrow> int \<Rightarrow> unit net_act" where
  "dc_connected P rand now = net_connect P LocalTransport rand now"

section \<open>Who dials whom\<close>

text \<open>The peers connect and announce themselves one after the other.\<close>

definition discovery_join :: "discovery_client list \<Rightarrow> discovery_server" where
  "discovery_join cs = foldl (\<lambda>s (i, c). snd (dv_message i (dc_announce c) (dv_connect i s))) dv_new
     (zip [0..<length cs] cs)"

definition delivered :: "nat \<Rightarrow> discovery_server \<Rightarrow> string list" where
  "delivered i s = map snd (filter (\<lambda>x. fst x = i) (dv_sent s))"

definition dc_run :: "string list \<Rightarrow> discovery_client \<Rightarrow> discovery_client" where
  "dc_run ms c = foldl (\<lambda>c m. snd (dc_message m c)) c ms"

lemma read_write_info:
  "read_info (dc_announce c) =
     Inr (Some (json_int (int (dc_port c))), Some (or_null (map_option JString (dc_channelId c))))"
proof -
  let ?v = "JArray [json_int (int (dc_port c)), or_null (map_option JString (dc_channelId c))]"
  have "json_wf ?v" "json_whole ?v" by (auto simp: or_null_def json_int_def split: option.split)
  from json_roundtrip [OF this] show ?thesis
    by (simp add: read_info_def dc_announce_def write_info_def or_null_def [of "Some _"] nth_opt_def)
qed

lemma write_read_info: "read_info (dc_announce c) = Inr d \<Longrightarrow> write_info d = dc_announce c"
  unfolding read_write_info by (auto simp: dc_announce_def write_info_def or_null_def)

text \<open>Every peer gets every announcement once, in the order they were made.\<close>

lemma join_snoc:
  "discovery_join (cs @ [c]) =
     snd (dv_message (length cs) (dc_announce c) (dv_connect (length cs) (discovery_join cs)))"
proof -
  have "zip [0..<length cs] (cs @ [c]) = zip [0..<length cs] cs" by (simp add: zip_append2)
  then show ?thesis by (simp add: discovery_join_def)
qed

lemma others: "filter (\<lambda>i. i \<noteq> n) ([0..<n] @ [n]) = [0..<n]"
  by (simp add: filter_id_conv)

lemma deliver_to: "map snd (filter (\<lambda>x. fst x = i) (map (\<lambda>y. (n, g y)) ys)) = (if i = n then map g ys else [])"
  by (induction ys) simp_all

lemma deliver_each: "map snd (filter (\<lambda>x. fst x = i) (map (\<lambda>j. (j, a)) [0..<n])) = (if i < n then [a] else [])"
  by (induction n) auto

lemma join_delivers:
  defines "s \<equiv> \<lambda>cs. discovery_join cs"
  shows "dv_connections (s cs) = [0..<length cs] \<and> map write_info (dv_info (s cs)) = map dc_announce cs \<and>
    (\<forall>i < length cs. delivered i (s cs) = map dc_announce cs) \<and> (\<forall>i \<ge> length cs. delivered i (s cs) = [])"
proof (induction cs rule: rev_induct)
  case Nil
  show ?case by (simp add: s_def discovery_join_def dv_new_def delivered_def)
next
  case (snoc c cs)
  let ?n = "length cs" and ?a = "dc_announce c"
  obtain d where d: "read_info ?a = Inr d" using read_write_info by blast
  let ?t = "s cs"
  have step: "s (cs @ [c]) = ?t\<lparr>dv_connections := [0..<Suc ?n], dv_info := dv_info ?t @ [d],
      dv_sent := dv_sent ?t @ map (\<lambda>i. (?n, write_info i)) (dv_info ?t @ [d]) @ map (\<lambda>i. (i, ?a)) [0..<?n]\<rparr>"
    using d snoc unfolding s_def join_snoc
    by (simp add: dv_message_def dv_connect_def act_defs others)
  have info: "map write_info (dv_info ?t @ [d]) = map dc_announce (cs @ [c])"
    using snoc write_read_info [OF d] by (simp add: s_def)
  have "delivered i (s (cs @ [c])) = delivered i ?t @ (if i = ?n then map dc_announce (cs @ [c]) else []) @
      (if i < ?n then [?a] else [])" for i
    unfolding step delivered_def info [symmetric] using deliver_to [of i ?n write_info "dv_info ?t @ [d]"] deliver_each [of i ?a ?n]
    by simp
  with snoc info step show ?case by (auto simp: s_def less_Suc_eq)
qed

text \<open>What a peer dials when all have a channel and different ports.\<close>

definition port_value :: "discovery_client \<Rightarrow> json option" where
  "port_value c = Some (json_int (int (dc_port c)))"

lemma port_value_simps:
  "same_value (port_value c) (port_value d) \<longleftrightarrow> dc_port c = dc_port d"
  "js_toNumber (port_value c) = Some (of_nat (dc_port c))" "js_toString (port_value c) = nat_lit (dc_port c)"
  by (simp_all add: port_value_def json_int_def json_rat_def js_toNumber_def js_toString_def num_lit_def int_lit_def)

lemma dc_run_announced:
  assumes "distinct (map dc_port (ds @ cs))" and "dc_seen c = map port_value ds"
    and "dc_channelId c = Some ch" and "\<forall>d \<in> set cs. dc_channelId d \<noteq> None" and "ch \<noteq> []"
  shows "dc_run (map dc_announce cs) c =
    c\<lparr>dc_seen := dc_seen c @ map port_value cs,
      dc_dialled := dc_dialled c @ map (\<lambda>d. nat_lit (dc_port d))
        (filter (\<lambda>d. dc_port c < dc_port d \<and> dc_channelId d = dc_channelId c) cs)\<rparr>"
  using assms
proof (induction cs arbitrary: c ds)
  case Nil
  then show ?case by (simp add: dc_run_def)
next
  case (Cons d cs)
  obtain cd where cd: "dc_channelId d = Some cd" using Cons.prems(4) by auto
  have fresh: "\<not> list_ex (same_value (port_value d)) (dc_seen c)"
    using Cons.prems(1,2) by (auto simp: list_ex_iff port_value_simps)
  define c1 where "c1 = snd (dc_message (dc_announce d) c)"
  have c1: "c1 = c\<lparr>dc_seen := dc_seen c @ [port_value d],
      dc_dialled := dc_dialled c @ (if dc_port c < dc_port d \<and> cd = ch then [nat_lit (dc_port d)] else [])\<rparr>"
    using fresh cd Cons.prems(3,5) port_value_simps(2,3) [of d]
    by (simp add: c1_def dc_message_def act_defs read_write_info port_value_def [symmetric] or_null_def)
  have "dc_run (map dc_announce cs) c1 =
    c1\<lparr>dc_seen := dc_seen c1 @ map port_value cs,
      dc_dialled := dc_dialled c1 @ map (\<lambda>d. nat_lit (dc_port d))
        (filter (\<lambda>d. dc_port c1 < dc_port d \<and> dc_channelId d = dc_channelId c1) cs)\<rparr>"
    using Cons.prems by (intro Cons.IH [of "ds @ [d]"]) (simp_all add: c1)
  with cd Cons.prems(3) show ?case by (simp add: dc_run_def c1_def [symmetric]) (simp add: c1)
qed

text \<open>
  Peers of one channel with different ports connect each pair exactly once: the one with the
  smaller port dials the other.
\<close>

theorem each_pair_dials_once:
  assumes "distinct (map dc_port cs)" and "\<forall>c \<in> set cs. \<exists>ch. dc_channelId c = Some ch \<and> ch \<noteq> []"
    and "i < length cs" and "dc_seen (cs ! i) = []" and "dc_dialled (cs ! i) = []"
  shows "dc_dialled (dc_run (delivered i (discovery_join cs)) (cs ! i)) = map (\<lambda>d. nat_lit (dc_port d))
    (filter (\<lambda>d. dc_port (cs ! i) < dc_port d \<and> dc_channelId d = dc_channelId (cs ! i)) cs)"
proof -
  have "delivered i (discovery_join cs) = map dc_announce cs" using join_delivers [of cs] assms(3) by blast
  moreover obtain ch where "dc_channelId (cs ! i) = Some ch" "ch \<noteq> []" using assms(2,3) nth_mem by blast
  moreover have "\<forall>d \<in> set cs. dc_channelId d \<noteq> None" using assms(2) by auto
  ultimately show ?thesis using dc_run_announced [of "[]" cs "cs ! i" ch] assms(1,4,5) by simp
qed

theorem each_pair_dials_once_witness:
  "dc_dialled (dc_run (delivered 1 (discovery_join (map (\<lambda>r. dc_new r (Some ''ch'')) [7, 3, 5]))) (dc_new 3 (Some ''ch''))) =
     map nat_lit [2007, 2005]"
  using each_pair_dials_once [of "map (\<lambda>r. dc_new r (Some ''ch'')) [7, 3, 5]" 1] by (simp add: dc_new_def)

end
