(* ===== verification/Solidity.thy ===== *)
theory Solidity
  imports ProofManager "HOL-Library.Multiset"
begin

text \<open>
  What the contracts under \<open>contracts/\<close> and in the example use of Solidity 0.8: calls that
  revert, checked arithmetic on \<open>uint256\<close>, bounds-checked arrays, the context of a call; and the
  library \<open>contracts/V1/StateChannelDiamondProxy/StateChannelUtilLibrary.sol\<close>. Byte strings are
  the hexadecimal texts the TypeScript side uses; a \<open>uint256\<close> is a natural number below
  \<open>2^256\<close>. The ABI decoder, keccak256 and OpenZeppelin's \<open>ECDSA.recover\<close> are the record
  \<open>evm_lib\<close>, the first argument of what calls them.
\<close>

section \<open>Calls that revert\<close>

text \<open>
  \<open>require\<close> and \<open>revert\<close> with a message or a custom error, a panic with its code, and a revert
  without data (an unknown selector, data the decoder refuses).
\<close>

datatype revert = Reverted string | Panicked nat | NoData

type_synonym 'a sol = "revert + 'a"
type_synonym ('s, 'a) sol_act = "(revert, 's, 'a) eact"

definition require :: "('s \<Rightarrow> bool) \<Rightarrow> string \<Rightarrow> ('s, unit) sol_act" where
  "require c msg s = (if c s then (Inr (), s) else (Inl (Reverted msg), s))"

text \<open>A message call to a contract: when it reverts, what it changed is undone.\<close>

definition message_call :: "('s, 'a) sol_act \<Rightarrow> ('s, 'a) sol_act" where
  "message_call m s = (case m s of (Inl e, s') \<Rightarrow> (Inl e, s) | (Inr x, s') \<Rightarrow> (Inr x, s'))"

record call_context =
  msg_sender :: address
  this_address :: address
  block_timestamp :: nat

section \<open>Numbers and arrays\<close>

definition uadd :: "nat \<Rightarrow> nat \<Rightarrow> nat sol" where
  "uadd a b = (if a + b < 2 ^ 256 then Inr (a + b) else Inl (Panicked 17))"

definition usub :: "nat \<Rightarrow> nat \<Rightarrow> nat sol" where
  "usub a b = (if b \<le> a then Inr (a - b) else Inl (Panicked 17))"

definition array_at :: "'a list \<Rightarrow> nat \<Rightarrow> 'a sol" where
  "array_at xs i = (if i < length xs then Inr (xs ! i) else Inl (Panicked 50))"

definition array_put :: "'a list \<Rightarrow> nat \<Rightarrow> 'a \<Rightarrow> 'a list sol" where
  "array_put xs i x = (if i < length xs then Inr (xs[i := x]) else Inl (Panicked 50))"

lemma require_Inr [res_simps]: "require c msg s = (Inr u, s') \<longleftrightarrow> c s \<and> s' = s"
  by (auto simp: require_def)

lemma uadd_Inr [res_simps]: "uadd a b = Inr c \<longleftrightarrow> c = a + b \<and> a + b < 2 ^ 256"
  by (auto simp: uadd_def)

lemma usub_Inr [res_simps]: "usub a b = Inr c \<longleftrightarrow> c = a - b \<and> b \<le> a"
  by (auto simp: usub_def)

lemma array_at_Inr [res_simps]: "array_at xs i = Inr x \<longleftrightarrow> i < length xs \<and> x = xs ! i"
  by (auto simp: array_at_def)

lemma array_put_Inr [res_simps]: "array_put xs i x = Inr ys \<longleftrightarrow> i < length xs \<and> ys = xs[i := x]"
  by (auto simp: array_put_def)

lemma message_call_Inr [res_simps]: "message_call m s = (Inr x, s') \<longleftrightarrow> m s = (Inr x, s')"
  by (auto simp: message_call_def split: prod.splits sum.splits)

lemma message_call_rolls_back: "message_call m s = (Inl e, s') \<Longrightarrow> s' = s"
  by (auto simp: message_call_def split: prod.splits sum.splits)

section \<open>Libraries\<close>

record join_channel_agreement =
  ja_signedJoinChannel :: signed_join_channel
  ja_submitter :: address
  ja_forkCnt :: nat
  ja_transactionCnt :: nat
  ja_previousStateHash :: bytes

record leave_channel =
  lc_channelId :: bytes
  lc_participant :: address
  lc_forkCnt :: nat
  lc_transactionCnt :: nat
  lc_previousStateHash :: bytes
  lc_deadlineTimestamp :: nat
  lc_data :: bytes

record evm_lib =
  lib_keccak256 :: "bytes \<Rightarrow> bytes"
  lib_encodePacked :: "string \<Rightarrow> bytes \<Rightarrow> bytes"
  lib_recover :: "bytes \<Rightarrow> bytes \<Rightarrow> address sol"
  lib_decodeBlock :: "bytes \<Rightarrow> block sol"
  lib_decodeJoinChannel :: "bytes \<Rightarrow> join_channel sol"
  lib_decodeSignedJoinChannel :: "bytes \<Rightarrow> signed_join_channel sol"
  lib_decodeJoinChannelAgreement :: "bytes \<Rightarrow> join_channel_agreement sol"
  lib_decodeLeaveChannel :: "bytes \<Rightarrow> leave_channel sol"
  lib_decodeFoldRechallenge :: "bytes \<Rightarrow> (bytes \<times> bytes list) sol"
  lib_decodeDoubleSign :: "bytes \<Rightarrow> (signed_block \<times> signed_block) list sol"
  lib_decodeIncorrectData :: "bytes \<Rightarrow> (signed_block \<times> signed_block \<times> bytes) sol"
  lib_decodeNewerState :: "bytes \<Rightarrow> (bytes \<times> bytes) sol"
  lib_decodeFoldPriorBlock :: "bytes \<Rightarrow> nat sol"
  lib_decodeBlockTooFar :: "bytes \<Rightarrow> signed_block sol"
  lib_decodeJoinProof :: "bytes \<Rightarrow> (bytes \<times> bytes list) sol"

text \<open>\<open>abi.encodePacked("\x19Ethereum Signed Message:\n32", hash)\<close>.\<close>

definition ethSignedMessage :: "evm_lib \<Rightarrow> bytes \<Rightarrow> bytes" where
  "ethSignedMessage L hash =
     lib_encodePacked L ([CHR 0x19] @ ''Ethereum Signed Message:'' @ [CHR 0x0A] @ ''32'') hash"

section \<open>StateChannelUtilLibrary.sol\<close>

text \<open>
  The scan for a free place of the signer: \<open>countRemaining\<close> with the place taken, or nothing.
\<close>

fun threshold_scan :: "address \<Rightarrow> address list \<Rightarrow> nat list \<Rightarrow> nat list option" where
  "threshold_scan signer (a # as) (r # rs) =
     (if signer = a \<and> r = 1 then Some (0 # rs) else map_option ((#) r) (threshold_scan signer as rs))"
| "threshold_scan signer _ _ = None"

fun threshold_loop ::
  "evm_lib \<Rightarrow> bytes \<Rightarrow> address list \<Rightarrow> nat \<Rightarrow> bytes list \<Rightarrow> nat list \<Rightarrow> nat \<Rightarrow> nat sol" where
  "threshold_loop L signedHash as i [] remaining counted = Inr counted"
| "threshold_loop L signedHash as i (s # ss) remaining counted =
     rbind (lib_recover L signedHash s) (\<lambda>signer.
       if i < length as \<and> signer = as ! i \<and> remaining ! i = 1
       then threshold_loop L signedHash as (Suc i) ss (remaining[i := 0]) (Suc counted)
       else case threshold_scan signer as remaining of
              Some remaining' \<Rightarrow> threshold_loop L signedHash as (Suc i) ss remaining' (Suc counted)
            | None \<Rightarrow> threshold_loop L signedHash as (Suc i) ss remaining counted)"

definition verifyThresholdSigned ::
  "evm_lib \<Rightarrow> address list \<Rightarrow> bytes \<Rightarrow> bytes list \<Rightarrow> (bool \<times> string) sol" where
  "verifyThresholdSigned L addrs encodedData signatures =
     (if length addrs > length signatures
      then Inr (False, ''Cryptography: Not enought signatures provided'')
      else (let threshold = length addrs;
                hash = lib_keccak256 L encodedData;
                signedHash = lib_keccak256 L (ethSignedMessage L hash)
            in rbind (threshold_loop L signedHash addrs 0 signatures
                        (replicate threshold 1) 0) (\<lambda>counted.
               if counted \<noteq> threshold
               then Inr (False, ''Cryptography: Not enough valid signatures'')
               else Inr (True, []))))"

definition retriveSignerAddress :: "evm_lib \<Rightarrow> bytes \<Rightarrow> bytes \<Rightarrow> address sol" where
  "retriveSignerAddress L encodedData signature =
     (let hash = lib_keccak256 L encodedData;
          signedHash = lib_keccak256 L (ethSignedMessage L hash)
      in lib_recover L signedHash signature)"

fun isAddressInArray :: "address list \<Rightarrow> address \<Rightarrow> bool" where
  "isAddressInArray [] adr = False"
| "isAddressInArray (a # as) adr = (if a = adr then True else isAddressInArray as adr)"

text \<open>The array \<open>set\<close> is passed by reference: it is returned with the new length.\<close>

definition tryInsertAddressInThresholdSet ::
  "address \<Rightarrow> address list \<Rightarrow> nat \<Rightarrow> address list \<Rightarrow> (address list \<times> nat) sol" where
  "tryInsertAddressInThresholdSet adr arr currentSetLength expectedAddresses =
     (if \<not> isAddressInArray expectedAddresses adr then Inr (arr, currentSetLength)
      else if isAddressInArray (take currentSetLength arr) adr then Inr (arr, currentSetLength)
      else rbind (array_put arr currentSetLength adr) (\<lambda>arr'. Inr (arr', currentSetLength + 1)))"

section \<open>Lemmas\<close>

lemma isAddressInArray_iff [simp]: "isAddressInArray as a \<longleftrightarrow> a \<in> set as"
  by (induction as) auto

text \<open>The addresses that still count.\<close>

definition open_places :: "address list \<Rightarrow> nat list \<Rightarrow> address multiset" where
  "open_places as rs = mset (map fst (filter (\<lambda>(a, r). r = 1) (zip as rs)))"

lemma open_places_Cons [simp]:
  "open_places (a # as) (r # rs) = (if r = 1 then add_mset a (open_places as rs) else open_places as rs)"
  by (simp add: open_places_def)

lemma open_places_Nil [simp]: "open_places [] rs = {#}" "open_places as [] = {#}"
  by (simp_all add: open_places_def)

lemma open_places_all [simp]: "open_places as (replicate (length as) 1) = mset as"
  by (induction as) simp_all

lemma threshold_scan_Some:
  "threshold_scan s as rs = Some rs' \<Longrightarrow>
     open_places as rs = add_mset s (open_places as rs') \<and> length rs' = length rs"
  by (induction s as rs arbitrary: rs' rule: threshold_scan.induct) (auto split: if_splits)

lemma threshold_scan_None: "threshold_scan s as rs = None \<Longrightarrow> s \<notin># open_places as rs"
  by (induction s as rs rule: threshold_scan.induct) (auto split: if_splits)

lemma open_places_take:
  "i < length as \<Longrightarrow> length rs = length as \<Longrightarrow> rs ! i = 1 \<Longrightarrow>
     open_places as rs = add_mset (as ! i) (open_places as (rs[i := 0]))"
proof (induction as arbitrary: i rs)
  case Nil
  then show ?case by simp
next
  case (Cons a as)
  then obtain r rs' where rs: "rs = r # rs'" by (cases rs) auto
  show ?case
  proof (cases i)
    case 0
    with Cons.prems rs show ?thesis by simp
  next
    case (Suc j)
    with Cons.prems rs have "open_places as rs' = add_mset (as ! j) (open_places as (rs'[j := 0]))"
      by (intro Cons.IH) auto
    with Suc rs show ?thesis by simp
  qed
qed

lemma threshold_loop_counts:
  assumes "length rs = length as"
  shows "threshold_loop L h as i ss rs n =
     rmap (\<lambda>signers. n + size (open_places as rs \<inter># mset signers)) (mapM (lib_recover L h) ss)"
  using assms
proof (induction ss arbitrary: i rs n)
  case Nil
  then show ?case by simp
next
  case (Cons s ss)
  show ?case
  proof (cases "lib_recover L h s")
    case (Inl e)
    then show ?thesis by simp
  next
    case (Inr a)
    define m where "m = mapM (lib_recover L h) ss"
    define G where "G rs n = rmap (\<lambda>signers. n + size (open_places as rs \<inter># mset signers)) m" for rs n
    define F where "F = rmap (\<lambda>signers. n + size (open_places as rs \<inter># mset signers)) (mapM (lib_recover L h) (s # ss))"
    have taken: "G rs' (Suc n) = F" if "open_places as rs = add_mset a (open_places as rs')" for rs'
      using that Inr by (cases m) (simp_all add: F_def G_def m_def)
    have IH: "threshold_loop L h as (Suc i) ss rs' k = G rs' k" if "length rs' = length as" for rs' k
      using Cons.IH that by (simp add: G_def m_def)
    have "threshold_loop L h as i (s # ss) rs n = F"
    proof (cases "i < length as \<and> a = as ! i \<and> rs ! i = 1")
      case True
      then have "open_places as rs = add_mset a (open_places as (rs[i := 0]))"
        using open_places_take Cons.prems by simp
      with True Inr IH [of "rs[i := 0]"] Cons.prems taken show ?thesis by simp
    next
      case False
      show ?thesis
      proof (cases "threshold_scan a as rs")
        case None
        then have "a \<notin># open_places as rs" by (rule threshold_scan_None)
        then have "G rs n = F" using Inr by (cases m) (simp_all add: F_def G_def m_def inter_add_right1)
        with False None Inr IH [of rs] Cons.prems show ?thesis by auto
      next
        case (Some rs')
        have "open_places as rs = add_mset a (open_places as rs')" "length rs' = length as"
          using threshold_scan_Some [OF Some] Cons.prems by auto
        with False Some Inr IH [of rs'] taken [of rs'] show ?thesis by auto
      qed
    qed
    then show ?thesis by (simp only: F_def)
  qed
qed

lemma size_inter_full: "size (A \<inter># B) = size A \<longleftrightarrow> A \<subseteq># B"
proof
  assume "size (A \<inter># B) = size A"
  then have "A \<inter># B = A"
    by (metis mset_subset_size nat_less_le subset_mset.inf_le1 subset_mset.le_neq_trans)
  then show "A \<subseteq># B" by (metis subset_mset.inf_le2)
qed (simp add: subset_mset.inf.absorb1)

lemma threshold_holds_iff:
  "verifyThresholdSigned L as d ss = Inr (True, m) \<longleftrightarrow>
     m = [] \<and> (\<exists>signers. mapM (retriveSignerAddress L d) ss = Inr signers \<and> mset as \<subseteq># mset signers)"
proof -
  define R where "R = mapM (retriveSignerAddress L d) ss"
  have eta: "mapM (lib_recover L (lib_keccak256 L (ethSignedMessage L (lib_keccak256 L d)))) ss = R"
    unfolding R_def by (induction ss) (simp_all add: retriveSignerAddress_def)
  have loop: "threshold_loop L (lib_keccak256 L (ethSignedMessage L (lib_keccak256 L d))) as 0 ss
      (replicate (length as) 1) 0 = rmap (\<lambda>signers. size (mset as \<inter># mset signers)) R"
    by (simp only: threshold_loop_counts [OF length_replicate] eta open_places_all add_0)
  have full: "size (mset as \<inter># mset signers) = length as \<longleftrightarrow> mset as \<subseteq># mset signers" for signers
    using size_inter_full [of "mset as" "mset signers"] by simp
  show ?thesis
  proof (cases R)
    case (Inl e)
    then show ?thesis unfolding verifyThresholdSigned_def Let_def loop R_def [symmetric] by simp
  next
    case (Inr signers)
    have "length signers = length ss"
      using Inr unfolding R_def mapM_Inr_iff by (auto dest: list_all2_lengthD)
    then have "length as \<le> length ss" if "mset as \<subseteq># mset signers"
      using size_mset_mono [OF that] by simp
    with Inr show ?thesis
      unfolding verifyThresholdSigned_def Let_def loop R_def [symmetric] by (auto simp: full)
  qed
qed

end
