(* ===== verification/StateMachines.thy ===== *)
theory StateMachines
  imports Solidity
begin

text \<open>
  The state machines that the channels run, on the chain and in the EVM of every peer:
  \<open>contracts/V1/AStateMachine.sol\<close>, its example \<open>MathStateMachine.sol\<close> (prefix \<open>math_\<close>) and the
  game \<open>TicTacToeStateMachine.sol\<close> of the example application (prefix \<open>ttt_\<close>). The functions
  \<open>AStateMachine\<close> leaves abstract are the record \<open>machine\<close>, which each contract fills. Encoded
  states and call data go through the ABI coder, which is a parameter of each contract.
\<close>

section \<open>AStateMachine.sol\<close>

text \<open>The storage of a state machine contract, with the events it emitted.\<close>

record ('st, 'ev) contract =
  sc_tx :: transaction
  sc_nonreentrant :: bool
  sc_state :: 'st
  sc_events :: "'ev list"

type_synonym ('st, 'ev, 'a) contract_act = "(('st, 'ev) contract, 'a) sol_act"

record process_exit =
  pe_participant :: address
  pe_amount :: nat
  pe_data :: bytes

definition no_exit :: process_exit where
  "no_exit = \<lparr>pe_participant = ZeroAddress, pe_amount = 0, pe_data = ''0x''\<rparr>"

text \<open>
  \<open>mc_call\<close> is the dispatch of call data sent by the contract to itself: the body of the public
  function it names, with the sender.
\<close>

record ('st, 'ev) machine =
  mc_setState :: "bytes \<Rightarrow> ('st, 'ev, unit) contract_act"
  mc_getState :: "('st, 'ev) contract \<Rightarrow> bytes sol"
  mc_getParticipants :: "('st, 'ev) contract \<Rightarrow> address list sol"
  mc_getNextToWrite :: "('st, 'ev) contract \<Rightarrow> address sol"
  mc_joinChannel :: "join_channel \<Rightarrow> ('st, 'ev, bool) contract_act"
  mc_slashParticipant :: "address \<Rightarrow> ('st, 'ev, bool \<times> process_exit) contract_act"
  mc_removeParticipant :: "address \<Rightarrow> ('st, 'ev, bool \<times> process_exit) contract_act"
  mc_call :: "address \<Rightarrow> bytes \<Rightarrow> ('st, 'ev, unit) contract_act"

definition nonReentrant :: "('st, 'ev, 'a) contract_act \<Rightarrow> ('st, 'ev, 'a) contract_act" where
  "nonReentrant body =
     sbind (require (\<lambda>c. \<not> sc_nonreentrant c) ''ReentrancyGuard: reentrant call'') (\<lambda>_.
     sbind (smodify (\<lambda>c. c\<lparr>sc_nonreentrant := True\<rparr>)) (\<lambda>_.
     sbind body (\<lambda>r.
     sbind (smodify (\<lambda>c. c\<lparr>sc_nonreentrant := False\<rparr>)) (\<lambda>_. sreturn r))))"

definition ast_setState :: "('st, 'ev) machine \<Rightarrow> bytes \<Rightarrow> ('st, 'ev, unit) contract_act" where
  "ast_setState M encodedState = message_call (nonReentrant (mc_setState M encodedState))"

definition ast_joinChannel :: "('st, 'ev) machine \<Rightarrow> join_channel \<Rightarrow> ('st, 'ev, bool) contract_act" where
  "ast_joinChannel M joinChannel = message_call (nonReentrant (mc_joinChannel M joinChannel))"

definition ast_slashParticipant ::
  "('st, 'ev) machine \<Rightarrow> address \<Rightarrow> ('st, 'ev, bool \<times> process_exit) contract_act" where
  "ast_slashParticipant M adr = message_call (nonReentrant (mc_slashParticipant M adr))"

definition ast_removeParticipant ::
  "('st, 'ev) machine \<Rightarrow> address \<Rightarrow> ('st, 'ev, bool \<times> process_exit) contract_act" where
  "ast_removeParticipant M adr = message_call (nonReentrant (mc_removeParticipant M adr))"

text \<open>\<open>address(this).call(transaction.body.data)\<close>, and the revert data passed on.\<close>

definition call_itself :: "('st, 'ev) machine \<Rightarrow> address \<Rightarrow> bytes \<Rightarrow> ('st, 'ev, bool) contract_act" where
  "call_itself M this_adr callData c =
     (case message_call (mc_call M this_adr callData) c of
        (Inr _, c') \<Rightarrow> (Inr True, c')
      | (Inl NoData, c') \<Rightarrow> (Inl (Reverted ''AStateMachine - Call failed - result lenght 0''), c')
      | (Inl e, c') \<Rightarrow> (Inl e, c'))"

definition ast_stateTransition ::
  "('st, 'ev) machine \<Rightarrow> address \<Rightarrow> transaction \<Rightarrow> ('st, 'ev, bool) contract_act" where
  "ast_stateTransition M this_adr transaction =
     message_call (nonReentrant (
       sbind (smodify (\<lambda>c. c\<lparr>sc_tx := transaction\<rparr>)) (\<lambda>_.
         call_itself M this_adr (body_data (tx_body transaction)))))"

section \<open>Removing a participant\<close>

text \<open>
  The loops of both contracts look for the first place of the address, put the last element
  there and pop.
\<close>

fun place_of :: "address \<Rightarrow> address list \<Rightarrow> nat option" where
  "place_of adr [] = None"
| "place_of adr (a # as) = (if a = adr then Some 0 else map_option Suc (place_of adr as))"

definition swap_remove :: "nat \<Rightarrow> 'a list \<Rightarrow> 'a list" where
  "swap_remove i xs = butlast (xs[i := last xs])"

lemma place_of_Some: "place_of a as = Some i \<Longrightarrow> i < length as \<and> as ! i = a"
  by (induction as arbitrary: i) (auto split: if_splits)

lemma place_of_None [simp]: "place_of a as = None \<longleftrightarrow> a \<notin> set as"
  by (induction as) auto

lemma length_swap_remove [simp]: "length (swap_remove i xs) = length xs - 1"
  by (simp add: swap_remove_def)

lemma mset_swap_remove: "i < length xs \<Longrightarrow> mset (swap_remove i xs) = mset xs - {#xs ! i#}"
proof -
  assume i: "i < length xs"
  let ?ys = "xs[i := last xs]"
  have ne: "?ys \<noteq> []" using i by auto
  have "last ?ys = last xs" using i ne by (auto simp: last_conv_nth nth_list_update)
  then have "mset ?ys = mset (butlast ?ys) + {#last xs#}"
    by (metis append_butlast_last_id mset.simps mset_append ne)
  moreover have "mset ?ys = add_mset (last xs) (mset xs - {#xs ! i#})"
    using i by (simp add: mset_update)
  ultimately show ?thesis by (simp add: swap_remove_def)
qed

section \<open>MathStateMachine.sol\<close>

record math_state =
  math_number :: nat
  math_participants :: "address list"

datatype math_event = Addition nat nat nat | NextToPlay address

definition math_getNextToWrite :: "(math_state, 'ev) contract \<Rightarrow> address sol" where
  "math_getNextToWrite c =
     (let ps = math_participants (sc_state c)
      in if length ps = 0 then Inr (hdr_participant (tx_header (sc_tx c)))
         else array_at ps (math_number (sc_state c) mod length ps))"

definition emit :: "'ev \<Rightarrow> ('st, 'ev, unit) contract_act" where
  "emit e = smodify (\<lambda>c. c\<lparr>sc_events := sc_events c @ [e]\<rparr>)"

definition math_add :: "nat \<Rightarrow> (math_state, math_event, nat) contract_act" where
  "math_add n =
     sbind (sread math_getNextToWrite) (\<lambda>nextToWrite.
     sbind (require (\<lambda>c. hdr_participant (tx_header (sc_tx c)) = nextToWrite)
              ''MathStateMachine: add only next player can write'') (\<lambda>_.
     sbind (sread (\<lambda>c. uadd (math_number (sc_state c)) n)) (\<lambda>r.
     sbind (\<lambda>c. emit (Addition (math_number (sc_state c)) n r) c) (\<lambda>_.
     sbind (smodify (\<lambda>c. c\<lparr>sc_state := (sc_state c)\<lparr>math_number := r\<rparr>\<rparr>)) (\<lambda>_.
     sbind (sread math_getNextToWrite) (\<lambda>nextToPlay.
     sbind (emit (NextToPlay nextToPlay)) (\<lambda>_.
       sread (\<lambda>c. Inr (math_number (sc_state c))))))))))"

definition math_getSum :: "(math_state, 'ev) contract \<Rightarrow> nat" where
  "math_getSum c = math_number (sc_state c)"

definition math_removeParticipant ::
  "address \<Rightarrow> (math_state, math_event, bool \<times> process_exit) contract_act" where
  "math_removeParticipant adr c =
     (case place_of adr (math_participants (sc_state c)) of
        None \<Rightarrow> (Inr (False, no_exit), c)
      | Some i \<Rightarrow>
          (Inr (True, no_exit\<lparr>pe_participant := adr, pe_amount := 0\<rparr>),
           c\<lparr>sc_state := (sc_state c)\<lparr>math_participants :=
               swap_remove i (math_participants (sc_state c))\<rparr>\<rparr>))"

text \<open>
  The calls of the contract: its own function, views, functions behind the reentrancy guard, and
  data no function accepts.
\<close>

datatype math_call = CallAdd nat | MathView | MathGuarded | MathUnknown

definition math_dispatch ::
  "(bytes \<Rightarrow> math_call) \<Rightarrow> address \<Rightarrow> bytes \<Rightarrow> (math_state, math_event, unit) contract_act" where
  "math_dispatch decodeCall sender callData =
     (case decodeCall callData of
        CallAdd n \<Rightarrow> sbind (math_add n) (\<lambda>_. sreturn ())
      | MathView \<Rightarrow> sreturn ()
      | MathGuarded \<Rightarrow> nonReentrant (sreturn ())
      | MathUnknown \<Rightarrow> sthrow NoData)"

definition math_machine ::
  "(math_state \<Rightarrow> bytes) \<Rightarrow> (bytes \<Rightarrow> math_state sol) \<Rightarrow> (bytes \<Rightarrow> math_call) \<Rightarrow>
     (math_state, math_event) machine" where
  "math_machine encodeState decodeState decodeCall =
     \<lparr>mc_setState = (\<lambda>encodedState. sbind (sread (\<lambda>_. decodeState encodedState)) (\<lambda>st.
        smodify (\<lambda>c. c\<lparr>sc_state := st\<rparr>))),
      mc_getState = (\<lambda>c. Inr (encodeState (sc_state c))),
      mc_getParticipants = (\<lambda>c. Inr (math_participants (sc_state c))),
      mc_getNextToWrite = math_getNextToWrite,
      mc_joinChannel = (\<lambda>_. sreturn False),
      mc_slashParticipant = math_removeParticipant,
      mc_removeParticipant = math_removeParticipant,
      mc_call = math_dispatch decodeCall\<rparr>"

section \<open>TicTacToeStateMachine.sol\<close>

datatype cell = CNone | CX | CO

record ttt_state =
  ttt_participants :: "address list"
  ttt_balances :: "nat list"
  ttt_board :: "cell list list"
  ttt_currentPlayer :: address
  ttt_gameActive :: bool
  ttt_movesCount :: nat
  ttt_betAmount :: nat

datatype ttt_event =
  MoveMade address nat nat cell | GameOver cell | RemovedParticipant address nat

type_synonym ttt_contract = "(ttt_state, ttt_event) contract"
type_synonym 'a ttt_act = "(ttt_state, ttt_event, 'a) contract_act"

definition ttt_getBalance :: "address \<Rightarrow> ttt_contract \<Rightarrow> nat sol" where
  "ttt_getBalance adr c =
     rbind (array_at (ttt_participants (sc_state c)) 0) (\<lambda>p.
       array_at (ttt_balances (sc_state c)) (if adr = p then 0 else 1))"

definition board_cell :: "cell list list \<Rightarrow> nat \<Rightarrow> nat \<Rightarrow> cell" where
  "board_cell b row col = b ! row ! col"

definition board_put :: "cell list list \<Rightarrow> nat \<Rightarrow> nat \<Rightarrow> cell \<Rightarrow> cell list list" where
  "board_put b row col x = b[row := (b ! row)[col := x]]"

definition checkWinner :: "cell list list \<Rightarrow> nat \<Rightarrow> nat \<Rightarrow> bool" where
  "checkWinner b row col =
     (let p = board_cell b row col
      in if board_cell b row 0 = p \<and> board_cell b row 1 = p \<and> board_cell b row 2 = p then True
         else if board_cell b 0 col = p \<and> board_cell b 1 col = p \<and> board_cell b 2 col = p then True
         else if board_cell b 0 0 = p \<and> board_cell b 1 1 = p \<and> board_cell b 2 2 = p then True
         else if board_cell b 0 2 = p \<and> board_cell b 1 1 = p \<and> board_cell b 2 0 = p then True
         else False)"

definition empty_grid :: "cell list list" where
  "empty_grid = replicate 3 (replicate 3 CNone)"

definition ttt_resetGame :: "ttt_state \<Rightarrow> ttt_state sol" where
  "ttt_resetGame s =
     (let s = s\<lparr>ttt_board := empty_grid\<rparr>
      in rbind (array_at (ttt_participants s) 0) (\<lambda>p0.
         rbind (array_at (ttt_participants s) 1) (\<lambda>p1.
         let s = s\<lparr>ttt_participants := (ttt_participants s)[0 := p1, 1 := p0]\<rparr>
         in rbind (array_at (ttt_balances s) 0) (\<lambda>b0.
            rbind (array_at (ttt_balances s) 1) (\<lambda>b1.
            Inr (s\<lparr>ttt_balances := (ttt_balances s)[0 := b1, 1 := b0], ttt_currentPlayer := p1,
                   ttt_gameActive := True, ttt_movesCount := 0\<rparr>))))))"

text \<open>The bet, or what is left, moved from one balance to the other.\<close>

definition pay_bet :: "nat \<Rightarrow> nat \<Rightarrow> nat \<Rightarrow> nat list \<Rightarrow> nat list sol" where
  "pay_bet bet loser winner balances =
     rbind (array_at balances loser) (\<lambda>b.
       let transferAmount = (if bet > b then b else bet)
       in rbind (array_at balances winner) (\<lambda>w.
          rbind (uadd w transferAmount) (\<lambda>w'.
            Inr (balances[loser := b - transferAmount, winner := w']))))"

text \<open>What follows a move that ends the game, continues it or draws.\<close>

definition ttt_after_move :: "nat \<Rightarrow> nat \<Rightarrow> ttt_state \<Rightarrow> (ttt_state \<times> bool) sol" where
  "ttt_after_move row col s =
     (if checkWinner (ttt_board s) row col
      then (let s = s\<lparr>ttt_gameActive := False\<rparr>
            in rbind (if board_cell (ttt_board s) row col = CX
                      then pay_bet (ttt_betAmount s) 1 0 (ttt_balances s)
                      else pay_bet (ttt_betAmount s) 0 1 (ttt_balances s)) (\<lambda>bs.
               rmap (\<lambda>s. (s, True)) (ttt_resetGame (s\<lparr>ttt_balances := bs\<rparr>))))
      else if ttt_movesCount s = 9
      then rmap (\<lambda>s. (s, True)) (ttt_resetGame (s\<lparr>ttt_gameActive := False\<rparr>))
      else rbind (array_at (ttt_participants s) (ttt_movesCount s mod 2)) (\<lambda>p.
             Inr (s\<lparr>ttt_currentPlayer := p\<rparr>, False)))"

text \<open>
  The event after a win names the cell of the board after the reset; a draw names \<open>None\<close>.
\<close>

definition ttt_makeMove :: "address \<Rightarrow> nat \<Rightarrow> nat \<Rightarrow> unit ttt_act" where
  "ttt_makeMove sender row col =
     sbind (require (\<lambda>c. hdr_participant (tx_header (sc_tx c)) = ttt_currentPlayer (sc_state c))
              ''Not your turn'') (\<lambda>_.
     sbind (require (\<lambda>c. ttt_gameActive (sc_state c)) ''Game is not active'') (\<lambda>_.
     sbind (require (\<lambda>_. row < 3 \<and> col < 3) ''Invalid board position'') (\<lambda>_.
     sbind (require (\<lambda>c. board_cell (ttt_board (sc_state c)) row col = CNone)
              ''Cell is already occupied'') (\<lambda>_.
     sbind (sread (\<lambda>c. array_at (ttt_participants (sc_state c)) 0)) (\<lambda>p0.
     sbind (smodify (\<lambda>c. c\<lparr>sc_state := (sc_state c)\<lparr>ttt_board :=
              board_put (ttt_board (sc_state c)) row col
                (if ttt_currentPlayer (sc_state c) = p0 then CX else CO)\<rparr>\<rparr>)) (\<lambda>_.
     sbind (sread (\<lambda>c. uadd (ttt_movesCount (sc_state c)) 1)) (\<lambda>n.
     sbind (smodify (\<lambda>c. c\<lparr>sc_state := (sc_state c)\<lparr>ttt_movesCount := n\<rparr>\<rparr>)) (\<lambda>_.
     sbind (\<lambda>c. emit (MoveMade sender row col (board_cell (ttt_board (sc_state c)) row col)) c) (\<lambda>_.
     sbind (sread (\<lambda>c. ttt_after_move row col (sc_state c))) (\<lambda>(s, over).
     sbind (smodify (\<lambda>c. c\<lparr>sc_state := s\<rparr>)) (\<lambda>_.
       if over then emit (GameOver (board_cell (ttt_board s) row col)) else sreturn ())))))))))))"

definition ttt_getNextToWrite :: "ttt_contract \<Rightarrow> address sol" where
  "ttt_getNextToWrite c =
     (if length (ttt_participants (sc_state c)) = 0
      then Inr (hdr_participant (tx_header (sc_tx c)))
      else Inr (ttt_currentPlayer (sc_state c)))"

definition ttt_removeParticipant :: "address \<Rightarrow> (bool \<times> process_exit) ttt_act" where
  "ttt_removeParticipant adr c =
     (let s = sc_state c
      in case place_of adr (ttt_participants s) of
           None \<Rightarrow> (Inr (False, no_exit), c)
         | Some i \<Rightarrow>
             (case pay_bet (ttt_betAmount s) i ((i + 1) mod 2) (ttt_balances s) of
                Inl e \<Rightarrow> (Inl e, c)
              | Inr bs \<Rightarrow>
                  (case array_at bs (length (ttt_participants s) - 1) of
                     Inl e \<Rightarrow> (Inl e, c)
                   | Inr b \<Rightarrow>
                       (Inr (True, no_exit\<lparr>pe_participant := adr, pe_amount := bs ! i\<rparr>),
                        c\<lparr>sc_state := s\<lparr>ttt_participants := swap_remove i (ttt_participants s),
                                         ttt_balances := butlast (bs[i := b])\<rparr>,
                          sc_events := sc_events c @ [RemovedParticipant adr (bs ! i)]\<rparr>))))"

datatype ttt_call = CallMakeMove nat nat | CallGetBalance address | TttView | TttGuarded | TttUnknown

definition ttt_dispatch :: "(bytes \<Rightarrow> ttt_call) \<Rightarrow> address \<Rightarrow> bytes \<Rightarrow> unit ttt_act" where
  "ttt_dispatch decodeCall sender callData =
     (case decodeCall callData of
        CallMakeMove row col \<Rightarrow> ttt_makeMove sender row col
      | CallGetBalance adr \<Rightarrow> sbind (sread (ttt_getBalance adr)) (\<lambda>_. sreturn ())
      | TttView \<Rightarrow> sreturn ()
      | TttGuarded \<Rightarrow> nonReentrant (sreturn ())
      | TttUnknown \<Rightarrow> sthrow NoData)"

definition ttt_machine ::
  "(ttt_state \<Rightarrow> bytes) \<Rightarrow> (bytes \<Rightarrow> ttt_state sol) \<Rightarrow> (bytes \<Rightarrow> ttt_call) \<Rightarrow>
     (ttt_state, ttt_event) machine" where
  "ttt_machine encodeState decodeState decodeCall =
     \<lparr>mc_setState = (\<lambda>encodedState. sbind (sread (\<lambda>_. decodeState encodedState)) (\<lambda>st.
        smodify (\<lambda>c. c\<lparr>sc_state := st\<rparr>))),
      mc_getState = (\<lambda>c. Inr (encodeState (sc_state c))),
      mc_getParticipants = (\<lambda>c. Inr (ttt_participants (sc_state c))),
      mc_getNextToWrite = ttt_getNextToWrite,
      mc_joinChannel = (\<lambda>_. sreturn False),
      mc_slashParticipant = ttt_removeParticipant,
      mc_removeParticipant = ttt_removeParticipant,
      mc_call = ttt_dispatch decodeCall\<rparr>"

end
