(* ===== verification/GameRules.thy ===== *)
theory GameRules
  imports StateMachines TicTacToe
begin

text \<open>
  The rules of the game: the contract's test for a win after a move agrees with the board of the
  client, and every accepted move keeps the game well-formed and the money in it.
\<close>

section \<open>Winning lines\<close>

type_synonym grid_line = "(nat \<times> nat) \<times> (nat \<times> nat) \<times> (nat \<times> nat)"

definition grid_lines :: "grid_line list" where
  "grid_lines = map (\<lambda>(a, b, c). ((a div 3, a mod 3), (b div 3, b mod 3), (c div 3, c mod 3))) winning_lines"

definition at_cell :: "cell list list \<Rightarrow> nat \<times> nat \<Rightarrow> cell" where
  "at_cell b rc = board_cell b (fst rc) (snd rc)"

definition full_line :: "cell \<Rightarrow> cell list list \<Rightarrow> grid_line \<Rightarrow> bool" where
  "full_line p b l = (case l of (u, v, w) \<Rightarrow> at_cell b u = p \<and> at_cell b v = p \<and> at_cell b w = p)"

definition wins :: "cell \<Rightarrow> cell list list \<Rightarrow> bool" where
  "wins p b \<longleftrightarrow> list_ex (full_line p b) grid_lines"

definition grid :: "cell list list \<Rightarrow> bool" where
  "grid b \<longleftrightarrow> length b = 3 \<and> (\<forall>r \<in> set b. length r = 3)"

text \<open>The board the client shows for a board of the contract.\<close>

fun ui_cell :: "cell \<Rightarrow> string option" where
  "ui_cell CNone = None"
| "ui_cell CX = Some ''X''"
| "ui_cell CO = Some ''O''"

definition ui_board :: "cell list list \<Rightarrow> board" where
  "ui_board b = map ui_cell (concat b)"

lemma grid_cases:
  assumes "grid b"
  obtains a0 a1 a2 a3 a4 a5 a6 a7 a8 where "b = [[a0, a1, a2], [a3, a4, a5], [a6, a7, a8]]"
  using assms unfolding grid_def by (auto simp: length_Suc_conv numeral_3_eq_3)

lemma ui_cell_inj [simp]: "ui_cell p = ui_cell q \<longleftrightarrow> p = q"
  by (cases p; cases q) simp_all

lemma ui_cell_None [simp]: "ui_cell p = None \<longleftrightarrow> p = CNone"
  by (cases p) simp_all

lemma ui_cell_ne [simp]: "ui_cell p \<noteq> Some []"
  by (cases p) simp_all

lemma ui_board_cell: "grid b \<Longrightarrow> i < 9 \<Longrightarrow> square_at (ui_board b) i = ui_cell (board_cell b (i div 3) (i mod 3))"
proof (erule grid_cases)
  fix a0 a1 a2 a3 a4 a5 a6 a7 a8
  assume "i < 9" and b: "b = [[a0, a1, a2], [a3, a4, a5], [a6, a7, a8]]"
  then have "i \<in> set [0, 1, 2, 3, 4, 5, 6, 7, 8]" by auto
  then show ?thesis
    unfolding b by (auto simp: ui_board_def square_at_def nth_opt_def board_cell_def)
qed

definition flat_line :: "grid_line \<Rightarrow> nat \<times> nat \<times> nat" where
  "flat_line l = (case l of (u, v, w) \<Rightarrow>
     (fst u * 3 + snd u, fst v * 3 + snd v, fst w * 3 + snd w))"

lemma grid_loop_None:
  assumes "grid b" and "\<forall>(i, j, k) \<in> set ls. i < 9 \<and> j < 9 \<and> k < 9"
  shows "winner_loop ls (ui_board b) = None \<longleftrightarrow>
    (\<forall>p. p \<noteq> CNone \<longrightarrow> (\<forall>(i, j, k) \<in> set ls. \<not> full_line p b ((i div 3, i mod 3), (j div 3, j mod 3), (k div 3, k mod 3))))"
  using assms(2)
  by (induction ls) (auto simp: marked_def ui_board_cell [OF assms(1)] full_line_def at_cell_def split: if_splits)

lemma grid_loop_Some:
  assumes "grid b" and "\<forall>(i, j, k) \<in> set ls. i < 9 \<and> j < 9 \<and> k < 9"
    and "winner_loop ls (ui_board b) = Some s"
  shows "\<exists>p. p \<noteq> CNone \<and> ui_cell p = Some s \<and>
    (\<exists>(i, j, k) \<in> set ls. full_line p b ((i div 3, i mod 3), (j div 3, j mod 3), (k div 3, k mod 3)))"
  using assms(2,3)
  by (induction ls)
    (auto simp: marked_def ui_board_cell [OF assms(1)] full_line_def at_cell_def split: if_splits, blast+)

lemma lines_in_range: "\<forall>(i, j, k) \<in> set winning_lines. i < 9 \<and> j < 9 \<and> k < 9"
  by (simp add: winning_lines_def)

lemma wins_lines:
  "wins p b \<longleftrightarrow> (\<exists>(i, j, k) \<in> set winning_lines.
     full_line p b ((i div 3, i mod 3), (j div 3, j mod 3), (k div 3, k mod 3)))"
  unfolding wins_def grid_lines_def list_ex_iff by (auto simp: split_beta)

lemma no_winner_iff: "grid b \<Longrightarrow> calculateWinner (ui_board b) = None \<longleftrightarrow> \<not> wins CX b \<and> \<not> wins CO b"
proof -
  assume g: "grid b"
  have "(\<forall>p. p \<noteq> CNone \<longrightarrow> \<not> wins p b) \<longleftrightarrow> \<not> wins CX b \<and> \<not> wins CO b"
    by (metis cell.exhaust cell.distinct(1,3))
  then show ?thesis
    unfolding calculateWinner_def grid_loop_None [OF g lines_in_range] wins_lines by (auto simp: split_beta)
qed

lemma winner_wins: "grid b \<Longrightarrow> calculateWinner (ui_board b) = Some s \<Longrightarrow>
    \<exists>p. p \<noteq> CNone \<and> ui_cell p = Some s \<and> wins p b"
  unfolding calculateWinner_def wins_lines by (rule grid_loop_Some [OF _ lines_in_range])

lemma below_3: "(i::nat) < 3 \<longleftrightarrow> i = 0 \<or> i = 1 \<or> i = 2"
  by auto

lemmas grid_simps = wins_def grid_lines_def winning_lines_def full_line_def at_cell_def board_cell_def
  board_put_def checkWinner_def Let_def

lemma checkWinner_wins:
  assumes "grid b" "row < 3" "col < 3" "board_cell b row col = CNone" "x \<noteq> CNone" "\<not> wins x b"
  shows "checkWinner (board_put b row col x) row col \<longleftrightarrow> wins x (board_put b row col x)"
  using assms
proof (elim grid_cases)
  fix a0 a1 a2 a3 a4 a5 a6 a7 a8
  assume "row < 3" "col < 3" "board_cell b row col = CNone" "x \<noteq> CNone" "\<not> wins x b"
    and b: "b = [[a0, a1, a2], [a3, a4, a5], [a6, a7, a8]]"
  then show ?thesis
    unfolding below_3 by (elim disjE; simp add: grid_simps; blast)
qed

lemma wins_other:
  assumes "grid b" "row < 3" "col < 3" "x \<noteq> y" "y \<noteq> CNone" "\<not> wins y b"
  shows "\<not> wins y (board_put b row col x)"
  using assms
proof (elim grid_cases)
  fix a0 a1 a2 a3 a4 a5 a6 a7 a8
  assume "row < 3" "col < 3" "x \<noteq> y" "\<not> wins y b"
    and b: "b = [[a0, a1, a2], [a3, a4, a5], [a6, a7, a8]]"
  then show ?thesis
    unfolding below_3 by (elim disjE; simp add: grid_simps)
qed

lemma grid_put [simp]: "grid b \<Longrightarrow> grid (board_put b row col x)"
  by (cases "row < length b") (simp_all add: grid_def board_put_def all_set_conv_all_nth nth_list_update)


section \<open>Accepted moves\<close>

text \<open>
  The game between moves: two players, a legal board on which nobody has won, and the player whose
  turn it is. No balance overflows.
\<close>

definition marks :: "cell \<Rightarrow> cell list list \<Rightarrow> nat" where
  "marks p b = sum_list (map (\<lambda>x. of_bool (x = p)) (concat b))"

definition ttt_ok :: "nat \<Rightarrow> ttt_state \<Rightarrow> bool" where
  "ttt_ok funds s \<longleftrightarrow>
     length (ttt_participants s) = 2 \<and> distinct (ttt_participants s) \<and>
     length (ttt_balances s) = 2 \<and> sum_list (ttt_balances s) = funds \<and> funds < 2 ^ 256 \<and>
     grid (ttt_board s) \<and> ttt_gameActive s \<and> ttt_movesCount s < 9 \<and>
     marks CX (ttt_board s) = (ttt_movesCount s + 1) div 2 \<and>
     marks CO (ttt_board s) = ttt_movesCount s div 2 \<and>
     \<not> wins CX (ttt_board s) \<and> \<not> wins CO (ttt_board s) \<and>
     ttt_currentPlayer s = ttt_participants s ! (ttt_movesCount s mod 2)"

lemma two_elements: "length xs = 2 \<longleftrightarrow> (\<exists>x y. xs = [x, y])"
  by (auto simp: length_Suc_conv numeral_2_eq_2)

lemma marks_put:
  assumes "grid b" "row < 3" "col < 3" "board_cell b row col = CNone" "p \<noteq> CNone"
  shows "marks p (board_put b row col x) = marks p b + of_bool (x = p)"
  using assms
proof (elim grid_cases)
  fix a0 a1 a2 a3 a4 a5 a6 a7 a8
  assume "row < 3" "col < 3" "board_cell b row col = CNone" "p \<noteq> CNone"
    and b: "b = [[a0, a1, a2], [a3, a4, a5], [a6, a7, a8]]"
  then show ?thesis
    unfolding below_3 by (elim disjE; simp add: board_put_def board_cell_def marks_def)
qed

lemma marks_put_same:
  "grid b \<Longrightarrow> row < 3 \<Longrightarrow> col < 3 \<Longrightarrow> board_cell b row col = CNone \<Longrightarrow> x \<noteq> CNone \<Longrightarrow>
     marks x (board_put b row col x) = Suc (marks x b)"
  by (simp add: marks_put)

lemma marks_put_other:
  "grid b \<Longrightarrow> row < 3 \<Longrightarrow> col < 3 \<Longrightarrow> board_cell b row col = CNone \<Longrightarrow> x \<noteq> CNone \<Longrightarrow> p \<noteq> x \<Longrightarrow> p \<noteq> CNone \<Longrightarrow>
     marks p (board_put b row col x) = marks p b"
  by (simp add: marks_put)

lemma empty_grid_cell [simp]: "i < 3 \<Longrightarrow> j < 3 \<Longrightarrow> board_cell empty_grid i j = CNone"
  by (simp add: empty_grid_def board_cell_def)

lemma empty_grid_facts [simp]:
  "grid empty_grid" "marks CX empty_grid = 0" "marks CO empty_grid = 0"
  by (simp_all add: empty_grid_def grid_def marks_def numeral_3_eq_3)

lemma empty_grid_no_winner [simp]: "p \<noteq> CNone \<Longrightarrow> \<not> wins p empty_grid"
  by (auto simp: wins_def grid_lines_def winning_lines_def full_line_def at_cell_def)

text \<open>A payment keeps the sum.\<close>

lemma pay_bet_two:
  assumes "bs = [x, y]" "x + y < 2 ^ 256" "l < 2" "w < 2" "l \<noteq> w"
  shows "\<exists>bs'. pay_bet bet l w bs = Inr bs' \<and> length bs' = 2 \<and> sum_list bs' = x + y \<and>
    bs' ! w = bs ! w + min bet (bs ! l) \<and> bs' ! l = bs ! l - min bet (bs ! l)"
proof -
  have "l = 0 \<and> w = 1 \<or> l = 1 \<and> w = 0" using assms(3-5) by auto
  then show ?thesis
    using assms(1,2) by (auto simp: pay_bet_def array_at_def uadd_def Let_def min_def)
qed

lemma resetGame_ok:
  assumes "ttt_participants s = [p, q]" "p \<noteq> q" "ttt_balances s = [x, y]" "x + y < 2 ^ 256"
  shows "\<exists>s'. ttt_resetGame s = Inr s' \<and> ttt_ok (x + y) s' \<and> ttt_board s' = empty_grid \<and>
    ttt_participants s' = [q, p] \<and> ttt_balances s' = [y, x] \<and> ttt_betAmount s' = ttt_betAmount s"
  using assms by (simp add: ttt_resetGame_def array_at_def Let_def ttt_ok_def add.commute [of y x])

text \<open>The state after the mark is set and the move counted.\<close>

definition marked_state :: "nat \<Rightarrow> nat \<Rightarrow> ttt_state \<Rightarrow> ttt_state" where
  "marked_state row col s =
     s\<lparr>ttt_board := board_put (ttt_board s) row col
         (if ttt_currentPlayer s = ttt_participants s ! 0 then CX else CO),
       ttt_movesCount := ttt_movesCount s + 1\<rparr>"

lemma after_move_ok:
  assumes ok: "ttt_ok funds s" and rc: "row < 3" "col < 3" "board_cell (ttt_board s) row col = CNone"
    and ps: "ttt_participants s = [p, q]" and bs: "ttt_balances s = [x, y]"
  defines "m \<equiv> if even (ttt_movesCount s) then CX else CO"
  defines "b \<equiv> board_put (ttt_board s) row col m"
  shows "\<exists>s' over. ttt_after_move row col (marked_state row col s) = Inr (s', over) \<and> ttt_ok funds s' \<and>
    (over \<longleftrightarrow> wins m b \<or> ttt_movesCount s = 8) \<and>
    (over \<longrightarrow> ttt_board s' = empty_grid \<and> ttt_participants s' = [q, p]) \<and>
    (\<not> over \<longrightarrow> ttt_board s' = b \<and> ttt_participants s' = [p, q] \<and> ttt_balances s' = [x, y]) \<and>
    (wins m b \<longrightarrow> ttt_balances s' =
       (if m = CX then [y - min (ttt_betAmount s) y, x + min (ttt_betAmount s) y]
        else [y + min (ttt_betAmount s) x, x - min (ttt_betAmount s) x])) \<and>
    (over \<and> \<not> wins m b \<longrightarrow> ttt_balances s' = [y, x])"
proof -
  have g: "grid (ttt_board s)" and pq: "p \<noteq> q" and t: "x + y = funds" "funds < 2 ^ 256"
    and n: "ttt_movesCount s < 9" and mk: "marks CX (ttt_board s) = (ttt_movesCount s + 1) div 2"
      "marks CO (ttt_board s) = ttt_movesCount s div 2"
    and nw: "\<not> wins CX (ttt_board s)" "\<not> wins CO (ttt_board s)"
    and cur: "ttt_currentPlayer s = [p, q] ! (ttt_movesCount s mod 2)" and act: "ttt_gameActive s"
    using ok ps bs by (simp_all add: ttt_ok_def)
  have m: "(if ttt_currentPlayer s = ttt_participants s ! 0 then CX else CO) = m"
    using cur ps pq unfolding m_def by (auto simp: even_iff_mod_2_eq_zero not_mod_2_eq_0_eq_1)
  have mN: "m \<noteq> CNone" by (simp add: m_def)
  define om where "om = (if m = CX then CO else CX)"
  have no: "\<not> wins m (ttt_board s)" "\<not> wins om (ttt_board s)" using nw by (auto simp: m_def om_def)
  have win: "checkWinner b row col \<longleftrightarrow> wins m b"
    unfolding b_def by (rule checkWinner_wins [OF g rc mN no(1)])
  have "om \<noteq> CNone" "m \<noteq> om" by (simp_all add: om_def m_def)
  then have other: "\<not> wins om b" unfolding b_def using wins_other [OF g rc(1,2)] no by auto
  have cellb: "board_cell b row col = m"
    using g rc unfolding b_def by (auto simp: board_cell_def board_put_def grid_def)
  have ms: "marked_state row col s = s\<lparr>ttt_board := b, ttt_movesCount := ttt_movesCount s + 1\<rparr>"
    by (simp add: marked_state_def m b_def)
  show ?thesis
  proof (cases "wins m b")
    case True
    define l w where "l = (if m = CX then 1 else 0 :: nat)" and "w = (if m = CX then 0 else 1 :: nat)"
    have "l < 2" "w < 2" "l \<noteq> w" by (auto simp: l_def w_def)
    then obtain bs' where bs': "pay_bet (ttt_betAmount s) l w [x, y] = Inr bs'" "length bs' = 2"
        "sum_list bs' = x + y" "bs' ! w = [x, y] ! w + min (ttt_betAmount s) ([x, y] ! l)"
        "bs' ! l = [x, y] ! l - min (ttt_betAmount s) ([x, y] ! l)"
      using pay_bet_two [of "[x, y]" x y l w "ttt_betAmount s"] t by auto
    from bs'(2) obtain x' y' where e: "bs' = [x', y']" by (auto simp: two_elements)
    let ?s = "s\<lparr>ttt_board := b, ttt_movesCount := ttt_movesCount s + 1, ttt_gameActive := False, ttt_balances := bs'\<rparr>"
    obtain s' where s': "ttt_resetGame ?s = Inr s'" "ttt_ok (x' + y') s'" "ttt_board s' = empty_grid"
        "ttt_participants s' = [q, p]" "ttt_balances s' = [y', x']"
      using resetGame_ok [of ?s p q x' y'] ps pq e t bs'(3) by auto
    have "ttt_after_move row col (marked_state row col s) = Inr (s', True)"
      using s'(1) bs'(1) bs win True unfolding ms ttt_after_move_def
      by (cases "m = CX") (simp_all add: cellb l_def w_def Let_def)
    then show ?thesis
      using s' bs'(3-5) True t(1) unfolding e by (auto simp: l_def w_def split: if_splits)
  next
    case False
    show ?thesis
    proof (cases "ttt_movesCount s = 8")
      case True
      obtain s' where s': "ttt_resetGame (marked_state row col s\<lparr>ttt_gameActive := False\<rparr>) = Inr s'"
          "ttt_ok (x + y) s'" "ttt_board s' = empty_grid" "ttt_participants s' = [q, p]" "ttt_balances s' = [y, x]"
        using resetGame_ok [of "marked_state row col s\<lparr>ttt_gameActive := False\<rparr>" p q x y] ps bs pq t
        by (auto simp: marked_state_def)
      then have "ttt_after_move row col (marked_state row col s) = Inr (s', True)"
        using False True win by (simp add: ms ttt_after_move_def)
      then show ?thesis using s' True False t(1) by auto
    next
      case n8: False
      let ?s = "marked_state row col s\<lparr>ttt_currentPlayer := [p, q] ! (Suc (ttt_movesCount s) mod 2)\<rparr>"
      have "ttt_after_move row col (marked_state row col s) = Inr (?s, False)"
        using False n8 win ps by (simp add: ms ttt_after_move_def array_at_def)
      moreover have "ttt_ok funds ?s"
      proof -
        have "marks m b = Suc (marks m (ttt_board s))"
          unfolding b_def by (rule marks_put_same [OF g rc mN])
        moreover have "marks om b = marks om (ttt_board s)"
          unfolding b_def by (rule marks_put_other [OF g rc mN]) (simp_all add: om_def m_def)
        ultimately have "marks CX b = (Suc (ttt_movesCount s) + 1) div 2" "marks CO b = Suc (ttt_movesCount s) div 2"
          using mk unfolding m_def om_def by (auto split: if_splits elim!: evenE oddE)
        moreover have "\<not> wins CX b" "\<not> wins CO b" using False other unfolding om_def m_def by (auto split: if_splits)
        moreover have "grid b" unfolding b_def using g by simp
        ultimately show ?thesis using n n8 ps bs pq t act by (simp add: ttt_ok_def ms)
      qed
      ultimately show ?thesis using False n8 ps bs by (auto simp: ms)
    qed
  qed
qed

end
