(* ===== verification/GameContract.thy ===== *)
theory GameContract
  imports GameRules
begin

text \<open>
  The game contract as a transition system: its transactions, the invariant they keep, and the
  contract of removing participants that both example state machines fulfil.
\<close>

section \<open>Calls behind the guard\<close>

lemma nonReentrant_Inr:
  "nonReentrant body c = (Inr r, c') \<longleftrightarrow> \<not> sc_nonreentrant c \<and>
     (\<exists>c1. body (c\<lparr>sc_nonreentrant := True\<rparr>) = (Inr r, c1) \<and> c' = c1\<lparr>sc_nonreentrant := False\<rparr>)"
  by (auto simp: nonReentrant_def res_simps)

lemma guarded_call_Inr [res_simps]:
  "message_call (nonReentrant body) c = (Inr r, c') \<longleftrightarrow> \<not> sc_nonreentrant c \<and>
     (\<exists>c1. body (c\<lparr>sc_nonreentrant := True\<rparr>) = (Inr r, c1) \<and> c' = c1\<lparr>sc_nonreentrant := False\<rparr>)"
  by (simp add: message_call_Inr nonReentrant_Inr)

text \<open>A guarded call keeps what its body keeps on success, and changes nothing on failure.\<close>

lemma guarded_call_cases:
  assumes "message_call (nonReentrant body) c = (r, c')"
  shows "(\<exists>e. r = Inl e) \<and> c' = c \<or>
    (\<exists>x c1. r = Inr x \<and> \<not> sc_nonreentrant c \<and> body (c\<lparr>sc_nonreentrant := True\<rparr>) = (Inr x, c1) \<and>
       c' = c1\<lparr>sc_nonreentrant := False\<rparr>)"
proof (cases r)
  case (Inl e)
  with message_call_rolls_back [OF assms [unfolded Inl]] show ?thesis by simp
next
  case (Inr x)
  with assms show ?thesis by (simp add: guarded_call_Inr)
qed

section \<open>Moves\<close>

definition can_move :: "nat \<Rightarrow> nat \<Rightarrow> ttt_contract \<Rightarrow> bool" where
  "can_move row col c \<longleftrightarrow>
     hdr_participant (tx_header (sc_tx c)) = ttt_currentPlayer (sc_state c) \<and> row < 3 \<and> col < 3 \<and>
     board_cell (ttt_board (sc_state c)) row col = CNone"

definition mark_of :: "ttt_state \<Rightarrow> cell" where
  "mark_of s = (if even (ttt_movesCount s) then CX else CO)"

text \<open>The board after the move, before it is reset.\<close>

definition next_board :: "nat \<Rightarrow> nat \<Rightarrow> ttt_state \<Rightarrow> cell list list" where
  "next_board row col s = board_put (ttt_board s) row col (mark_of s)"

lemma mark_of_current:
  assumes "ttt_ok funds s"
  shows "(if ttt_currentPlayer s = ttt_participants s ! 0 then CX else CO) = mark_of s"
proof -
  obtain p q where "ttt_participants s = [p, q]" "p \<noteq> q"
    using assms by (auto simp: ttt_ok_def two_elements)
  then show ?thesis
    using assms by (auto simp: ttt_ok_def mark_of_def even_iff_mod_2_eq_zero not_mod_2_eq_0_eq_1)
qed

lemma makeMove_refused:
  assumes "ttt_ok funds (sc_state c)" "\<not> can_move row col c"
  shows "\<exists>msg. ttt_makeMove sender row col c = (Inl (Reverted msg), c)"
  using assms unfolding can_move_def ttt_makeMove_def
  by (auto simp: ttt_ok_def sbind_def require_def)

lemma makeMove_run:
  assumes ok: "ttt_ok funds (sc_state c)" and "can_move row col c"
    and after: "ttt_after_move row col (marked_state row col (sc_state c)) = Inr (s', over)"
  shows "ttt_makeMove sender row col c =
    (Inr (), c\<lparr>sc_state := s',
       sc_events := sc_events c @ [MoveMade sender row col (mark_of (sc_state c))] @
         (if over then [GameOver (board_cell (ttt_board s') row col)] else [])\<rparr>)"
proof -
  let ?s = "sc_state c"
  have g: "grid (ttt_board ?s)" "ttt_gameActive ?s" "length (ttt_participants ?s) = 2" "ttt_movesCount ?s < 9"
    using ok by (auto simp: ttt_ok_def)
  have n: "ttt_movesCount ?s + 1 < 2 ^ 256" using g(4) by simp
  have "row < 3" "col < 3" using assms(2) by (auto simp: can_move_def)
  then have put: "board_cell (board_put (ttt_board ?s) row col x) row col = x" for x
    using g(1) by (simp add: board_cell_def board_put_def grid_def)
  have m: "marked_state row col ?s = ?s\<lparr>ttt_board := board_put (ttt_board ?s) row col (mark_of ?s),
      ttt_movesCount := ttt_movesCount ?s + 1\<rparr>"
    unfolding marked_state_def using mark_of_current [OF ok] by simp
  show ?thesis
    using assms(2) g n after mark_of_current [OF ok] unfolding can_move_def ttt_makeMove_def m
    by (auto simp: sbind_def require_def sread_def smodify_def sreturn_def emit_def array_at_def uadd_def put)
qed

text \<open>Every move either is refused and changes nothing, or keeps the game well-formed.\<close>

lemma makeMove_result:
  assumes ok: "ttt_ok funds (sc_state c)" and can: "can_move row col c"
  defines "s \<equiv> sc_state c"
  shows "\<exists>s' over. ttt_makeMove sender row col c =
      (Inr (), c\<lparr>sc_state := s', sc_events := sc_events c @ [MoveMade sender row col (mark_of s)] @
         (if over then [GameOver CNone] else [])\<rparr>) \<and> ttt_ok funds s' \<and>
    (over \<longleftrightarrow> wins (mark_of s) (next_board row col s) \<or> ttt_movesCount s = 8) \<and>
    (over \<longrightarrow> ttt_board s' = empty_grid \<and> ttt_participants s' = rev (ttt_participants s)) \<and>
    (\<not> over \<longrightarrow> ttt_board s' = next_board row col s \<and> ttt_participants s' = ttt_participants s \<and>
       ttt_balances s' = ttt_balances s)"
proof -
  obtain p q where ps: "ttt_participants s = [p, q]"
    using ok unfolding s_def by (auto simp: ttt_ok_def two_elements)
  obtain x y where bs: "ttt_balances s = [x, y]"
    using ok unfolding s_def by (auto simp: ttt_ok_def two_elements)
  have rc: "row < 3" "col < 3" "board_cell (ttt_board s) row col = CNone"
    using can by (auto simp: can_move_def s_def)
  obtain s' over where r: "ttt_after_move row col (marked_state row col s) = Inr (s', over)" "ttt_ok funds s'"
      "over \<longleftrightarrow> wins (mark_of s) (next_board row col s) \<or> ttt_movesCount s = 8"
      "over \<longrightarrow> ttt_board s' = empty_grid \<and> ttt_participants s' = [q, p]"
      "\<not> over \<longrightarrow> ttt_board s' = next_board row col s \<and> ttt_participants s' = [p, q] \<and> ttt_balances s' = [x, y]"
    using after_move_ok [OF ok [folded s_def] rc ps bs] unfolding mark_of_def next_board_def by auto
  have "over \<Longrightarrow> board_cell (ttt_board s') row col = CNone" using r(4) rc by simp
  then have "ttt_makeMove sender row col c =
      (Inr (), c\<lparr>sc_state := s', sc_events := sc_events c @ [MoveMade sender row col (mark_of s)] @
         (if over then [GameOver CNone] else [])\<rparr>)"
    using makeMove_run [OF ok can r(1) [unfolded s_def], of sender] unfolding s_def by auto
  with r ps bs show ?thesis by auto
qed

lemma makeMove_keeps:
  assumes "ttt_ok funds (sc_state c)" "ttt_makeMove sender row col c = (r, c')"
  shows "ttt_ok funds (sc_state c') \<and> sc_nonreentrant c' = sc_nonreentrant c"
proof (cases "can_move row col c")
  case True
  with makeMove_result [OF assms(1) True, of sender] assms(2) show ?thesis by auto
next
  case False
  with makeMove_refused [OF assms(1) False, of sender] assms show ?thesis by auto
qed

section \<open>The contract as a transition system\<close>

inductive ttt_step ::
  "(ttt_state \<Rightarrow> bytes) \<Rightarrow> (bytes \<Rightarrow> ttt_state sol) \<Rightarrow> (bytes \<Rightarrow> ttt_call) \<Rightarrow> address \<Rightarrow>
     ttt_contract \<Rightarrow> ttt_contract \<Rightarrow> bool" for enc dec D this_adr where
  ttt_transition:
    "ast_stateTransition (ttt_machine enc dec D) this_adr tx c = (r, c') \<Longrightarrow> ttt_step enc dec D this_adr c c'"

inductive_cases ttt_stepE: "ttt_step enc dec D this_adr c c'"

definition game_inv :: "nat \<Rightarrow> ttt_contract \<Rightarrow> bool" where
  "game_inv funds c \<longleftrightarrow> ttt_ok funds (sc_state c) \<and> \<not> sc_nonreentrant c"

lemma dispatch_keeps:
  assumes "ttt_ok funds (sc_state c)" "sc_nonreentrant c" "ttt_dispatch D sender d c = (Inr u, c')"
  shows "ttt_ok funds (sc_state c')"
proof (cases "D d")
  case (CallMakeMove row col)
  with assms makeMove_keeps [OF assms(1), of sender row col] show ?thesis by (simp add: ttt_dispatch_def)
qed (use assms in \<open>auto simp: ttt_dispatch_def res_simps nonReentrant_Inr\<close>)

lemma call_itself_Inr [res_simps]:
  "call_itself M this_adr d c = (Inr b, c') \<longleftrightarrow> b \<and> (\<exists>u. mc_call M this_adr d c = (Inr u, c'))"
  by (auto simp: call_itself_def message_call_def split: prod.splits sum.splits revert.splits)

lemma stateTransition_keeps:
  assumes "game_inv funds c" "ast_stateTransition (ttt_machine enc dec D) this_adr tx c = (r, c')"
  shows "game_inv funds c'"
  using guarded_call_cases [OF assms(2) [unfolded ast_stateTransition_def]] assms(1)
proof (elim disjE conjE exE)
  fix x c1
  assume "sbind (smodify (\<lambda>c. c\<lparr>sc_tx := tx\<rparr>)) (\<lambda>_. call_itself (ttt_machine enc dec D) this_adr (body_data (tx_body tx)))
      (c\<lparr>sc_nonreentrant := True\<rparr>) = (Inr x, c1)" and c': "c' = c1\<lparr>sc_nonreentrant := False\<rparr>"
  then obtain u where "ttt_dispatch D this_adr (body_data (tx_body tx)) (c\<lparr>sc_nonreentrant := True, sc_tx := tx\<rparr>) = (Inr u, c1)"
    by (auto simp: res_simps ttt_machine_def)
  from dispatch_keeps [OF _ _ this, of funds] assms(1) c' show ?thesis by (simp add: game_inv_def)
qed simp

interpretation game_sys: invariant_system "game_inv funds" "ttt_step enc dec D this_adr" "game_inv funds"
  for funds enc dec D this_adr
  by unfold_locales (auto elim!: ttt_stepE intro: stateTransition_keeps)

section \<open>Removing participants\<close>

text \<open>What the channel manager relies on when it slashes, times out or lets leave.\<close>

locale removal_contract =
  fixes M :: "('st, 'ev) machine" and members :: "'st \<Rightarrow> address list"
  assumes slash: "mc_slashParticipant M = mc_removeParticipant M"
    and removed: "mc_removeParticipant M a c = (Inr (b, pe), c') \<Longrightarrow>
      (b \<longleftrightarrow> a \<in> set (members (sc_state c))) \<and>
      mset (members (sc_state c')) = mset (members (sc_state c)) - {#a#} \<and>
      (b \<longrightarrow> pe_participant pe = a) \<and> (\<not> b \<longrightarrow> sc_state c' = sc_state c) \<and>
      sc_nonreentrant c' = sc_nonreentrant c"
begin

lemma ast_removed:
  assumes "ast_removeParticipant M a c = (Inr (b, pe), c')"
  shows "(b \<longleftrightarrow> a \<in> set (members (sc_state c))) \<and>
      mset (members (sc_state c')) = mset (members (sc_state c)) - {#a#} \<and>
      (b \<longrightarrow> pe_participant pe = a) \<and> (\<not> b \<longrightarrow> sc_state c' = sc_state c) \<and> \<not> sc_nonreentrant c'"
proof -
  obtain c1 where c1: "mc_removeParticipant M a (c\<lparr>sc_nonreentrant := True\<rparr>) = (Inr (b, pe), c1)"
    "c' = c1\<lparr>sc_nonreentrant := False\<rparr>"
    using assms by (auto simp: ast_removeParticipant_def guarded_call_Inr)
  from removed [OF c1(1)] c1(2) show ?thesis by simp
qed

lemma ast_slash: "ast_slashParticipant M = ast_removeParticipant M"
  by (rule ext) (simp add: ast_slashParticipant_def ast_removeParticipant_def slash)

end

interpretation math_removal: removal_contract "math_machine enc dec D" math_participants for enc dec D
  by unfold_locales
    (auto simp: math_machine_def math_removeParticipant_def mset_swap_remove diff_single_trivial
      split: option.splits dest!: place_of_Some)

interpretation ttt_removal: removal_contract "ttt_machine enc dec D" ttt_participants for enc dec D
  by unfold_locales
    (auto simp: ttt_machine_def ttt_removeParticipant_def mset_swap_remove diff_single_trivial Let_def
      split: option.splits sum.splits dest!: place_of_Some)

end
