(* ===== verification/ChannelManager.thy ===== *)
theory ChannelManager
  imports GameContract DisputeHandler
begin

text \<open>
  The contract of the channels: \<open>StateChannelManagerStorage.sol\<close>, \<open>StateChannelCommon.sol\<close> and
  \<open>AStateChannelManagerProxy.sol\<close> of \<open>contracts/V1/StateChannelDiamondProxy\<close>, with the two proxies
  of the example state machines. Its storage is the record \<open>manager\<close>; the state machine contract it
  calls is the field \<open>mg_machine\<close>. A transaction is \<open>transact f\<close>: a revert anywhere undoes it.
\<close>

section \<open>Storage\<close>

record block_calldata =
  bc_signedBlock :: signed_block
  bc_timestamp :: nat

record fork_data_availability =
  fda_map :: "nat \<Rightarrow> address \<Rightarrow> block_calldata"
  fda_keys :: "(nat \<times> address) list"

record chain_dispute =
  cd_channelId :: bytes
  cd_forkCnt :: nat
  cd_challengeCnt :: nat
  cd_encodedLatestFinalizedState :: bytes
  cd_encodedLatestCorrectState :: bytes
  cd_virtualVotingBlocks :: "confirmed_block list"
  cd_timedoutParticipant :: address
  cd_foldedTransactionCnt :: nat
  cd_timeoutDisputer :: address
  cd_postedStateDisputer :: address
  cd_joinChannelParticipants :: "join_channel list"
  cd_leaveChannelParticipants :: "address list"
  cd_slashedParticipants :: "address list"
  cd_participants :: "address list"
  cd_processExits :: "process_exit list"
  cd_creationTimestamp :: nat
  cd_deadlineTimestamp :: nat

text \<open>The values of storage that was never written.\<close>

definition no_dispute :: chain_dispute where
  "no_dispute =
     \<lparr>cd_channelId = ZeroHash, cd_forkCnt = 0, cd_challengeCnt = 0, cd_encodedLatestFinalizedState = ''0x'',
      cd_encodedLatestCorrectState = ''0x'', cd_virtualVotingBlocks = [], cd_timedoutParticipant = ZeroAddress,
      cd_foldedTransactionCnt = 0, cd_timeoutDisputer = ZeroAddress, cd_postedStateDisputer = ZeroAddress,
      cd_joinChannelParticipants = [], cd_leaveChannelParticipants = [], cd_slashedParticipants = [],
      cd_participants = [], cd_processExits = [], cd_creationTimestamp = 0, cd_deadlineTimestamp = 0\<rparr>"

definition no_fork_data :: fork_data_availability where
  "no_fork_data =
     \<lparr>fda_map = (\<lambda>_ _. \<lparr>bc_signedBlock = \<lparr>sb_encodedBlock = ''0x'', sb_signature = ''0x''\<rparr>, bc_timestamp = 0\<rparr>),
      fda_keys = []\<rparr>"

datatype chain_event =
  EventSetState bytes bytes nat nat
| EventBlockCalldataPosted bytes signed_block nat
| EventDisputeUpdated bytes chain_dispute

text \<open>\<open>totalChannelsOpened\<close> is a variable of the game's proxy only.\<close>

record ('st, 'ev) manager =
  mg_p2pTime :: nat
  mg_agreementTime :: nat
  mg_chainFallbackTime :: nat
  mg_challengeTime :: nat
  mg_machine :: "('st, 'ev) contract"
  mg_encodedStates :: "bytes \<Rightarrow> nat \<Rightarrow> bytes"
  mg_genesisTimestamps :: "bytes \<Rightarrow> nat \<Rightarrow> nat"
  mg_latestFork :: "bytes \<Rightarrow> nat"
  mg_posted :: "bytes \<Rightarrow> nat \<Rightarrow> fork_data_availability"
  mg_disputes :: "bytes \<Rightarrow> chain_dispute"
  totalChannelsOpened :: nat
  mg_events :: "chain_event list"

type_synonym ('st, 'ev, 'a) manager_act = "(('st, 'ev) manager, 'a) sol_act"

text \<open>
  What the contract is deployed with: the libraries, the state machine with its address, and the
  functions the proxy of the application overrides: the two hooks and \<open>openChannel\<close>.
\<close>

record ('st, 'ev) deployment =
  dp_lib :: evm_lib
  dp_machine :: "('st, 'ev) machine"
  dp_machineAddress :: address
  dp_addParticipantComposable :: "join_channel \<Rightarrow> ('st, 'ev, bool) manager_act"
  dp_removeParticipantComposable :: "bytes \<Rightarrow> process_exit \<Rightarrow> ('st, 'ev, bool) manager_act"
  dp_openChannel :: "call_context \<Rightarrow> bytes \<Rightarrow> bytes list \<Rightarrow> bytes list \<Rightarrow> ('st, 'ev, unit) manager_act"

text \<open>The storage after the constructors, with the times of the application's proxy.\<close>

definition manager_new :: "time_config \<Rightarrow> ('st, 'ev) contract \<Rightarrow> ('st, 'ev) manager" where
  "manager_new tc machine =
     \<lparr>mg_p2pTime = p2pTime tc, mg_agreementTime = agreementTime tc,
      mg_chainFallbackTime = chainFallbackTime tc, mg_challengeTime = challengeTime tc,
      mg_machine = machine, mg_encodedStates = (\<lambda>_ _. ''0x''), mg_genesisTimestamps = (\<lambda>_ _. 0),
      mg_latestFork = (\<lambda>_. 0), mg_posted = (\<lambda>_ _. no_fork_data), mg_disputes = (\<lambda>_. no_dispute),
      totalChannelsOpened = 0, mg_events = []\<rparr>"

definition transact :: "('st, 'ev, 'a) manager_act \<Rightarrow> ('st, 'ev, 'a) manager_act" where
  "transact = message_call"

definition on_machine :: "('st, 'ev, 'a) contract_act \<Rightarrow> ('st, 'ev, 'a) manager_act" where
  "on_machine f m = (case f (mg_machine m) of (r, c) \<Rightarrow> (r, m\<lparr>mg_machine := c\<rparr>))"

definition log_event :: "chain_event \<Rightarrow> ('st, 'ev, unit) manager_act" where
  "log_event e = smodify (\<lambda>m. m\<lparr>mg_events := mg_events m @ [e]\<rparr>)"

text \<open>The unsigned fields of a decoded block.\<close>

definition blk_fork :: "block \<Rightarrow> nat" where
  "blk_fork b = num_value (hdr_forkCnt (tx_header (blk_transaction b)))"

definition blk_cnt :: "block \<Rightarrow> nat" where
  "blk_cnt b = num_value (hdr_transactionCnt (tx_header (blk_transaction b)))"

definition blk_time :: "block \<Rightarrow> nat" where
  "blk_time b = num_value (hdr_timestamp (tx_header (blk_transaction b)))"

section \<open>StateChannelCommon.sol\<close>

definition cm_getForkCnt :: "bytes \<Rightarrow> ('st, 'ev) manager \<Rightarrow> nat" where
  "cm_getForkCnt channelId m = mg_latestFork m channelId"

definition cm_getParticipants ::
  "('st, 'ev) deployment \<Rightarrow> bytes \<Rightarrow> nat \<Rightarrow> ('st, 'ev, address list) manager_act" where
  "cm_getParticipants D channelId forkCnt m =
     sbind (on_machine (ast_setState (dp_machine D) (mg_encodedStates m channelId forkCnt))) (\<lambda>_.
       sread (\<lambda>m. mc_getParticipants (dp_machine D) (mg_machine m))) m"

definition cm_getNextToWrite ::
  "('st, 'ev) deployment \<Rightarrow> bytes \<Rightarrow> ('st, 'ev, address) manager_act" where
  "cm_getNextToWrite D encodedState =
     sbind (on_machine (ast_setState (dp_machine D) encodedState)) (\<lambda>_.
       sread (\<lambda>m. mc_getNextToWrite (dp_machine D) (mg_machine m)))"

definition cm_isGenesisState ::
  "evm_lib \<Rightarrow> ('st, 'ev) manager \<Rightarrow> bytes \<Rightarrow> nat \<Rightarrow> bytes \<Rightarrow> bool" where
  "cm_isGenesisState L m channelId forkCnt encodedFinalizedState \<longleftrightarrow>
     lib_keccak256 L encodedFinalizedState = lib_keccak256 L (mg_encodedStates m channelId forkCnt)"

definition cm_getAllTimes :: "('st, 'ev) manager \<Rightarrow> nat \<times> nat \<times> nat \<times> nat" where
  "cm_getAllTimes m = (mg_p2pTime m, mg_agreementTime m, mg_chainFallbackTime m, mg_challengeTime m)"

definition cm_getBlockCallData ::
  "('st, 'ev) manager \<Rightarrow> bytes \<Rightarrow> nat \<Rightarrow> nat \<Rightarrow> address \<Rightarrow> bool \<times> block_calldata" where
  "cm_getBlockCallData m channelId forkCnt transactionCnt participant =
     (let blockCalldata = fda_map (mg_posted m channelId forkCnt) transactionCnt participant
      in (bc_timestamp blockCalldata \<noteq> 0, blockCalldata))"

fun latest_post :: "(nat \<Rightarrow> address \<Rightarrow> block_calldata) \<Rightarrow> nat \<Rightarrow> (nat \<times> address) list \<Rightarrow> nat \<Rightarrow> nat" where
  "latest_post posts maxCnt [] latest = latest"
| "latest_post posts maxCnt ((cnt, p) # ks) latest =
     latest_post posts maxCnt ks
       (if bc_timestamp (posts cnt p) > latest \<and> cnt \<le> maxCnt then bc_timestamp (posts cnt p) else latest)"

definition cm_getChainLatestBlockTimestamp :: "('st, 'ev) manager \<Rightarrow> bytes \<Rightarrow> nat \<Rightarrow> nat \<Rightarrow> nat" where
  "cm_getChainLatestBlockTimestamp m channelId forkCnt maxTransactionCnt =
     (let a = mg_posted m channelId forkCnt in latest_post (fda_map a) maxTransactionCnt (fda_keys a) 0)"

definition cm_setState :: "call_context \<Rightarrow> bytes \<Rightarrow> bytes \<Rightarrow> ('st, 'ev, unit) manager_act" where
  "cm_setState ctx channelId encodedState =
     sbind (sread (\<lambda>m. uadd (mg_latestFork m channelId) 1)) (\<lambda>newForkCnt.
     sbind (smodify (\<lambda>m. m\<lparr>mg_latestFork := (mg_latestFork m)(channelId := newForkCnt),
         mg_encodedStates := (mg_encodedStates m)(channelId :=
           (mg_encodedStates m channelId)(newForkCnt := encodedState)),
         mg_genesisTimestamps := (mg_genesisTimestamps m)(channelId :=
           (mg_genesisTimestamps m channelId)(newForkCnt := block_timestamp ctx))\<rparr>)) (\<lambda>_.
       log_event (EventSetState channelId encodedState newForkCnt (block_timestamp ctx))))"

definition cm_getGenesisTimestamp :: "('st, 'ev) manager \<Rightarrow> bytes \<Rightarrow> nat \<Rightarrow> nat" where
  "cm_getGenesisTimestamp m channelId forkCnt = mg_genesisTimestamps m channelId forkCnt"

definition cm_isChannelOpen :: "evm_lib \<Rightarrow> ('st, 'ev) manager \<Rightarrow> bytes \<Rightarrow> bool" where
  "cm_isChannelOpen L m channelId \<longleftrightarrow>
     lib_keccak256 L (mg_encodedStates m channelId 0) \<noteq> lib_keccak256 L ''0x''"

definition cm_isDisputeInProgress :: "call_context \<Rightarrow> ('st, 'ev) manager \<Rightarrow> bytes \<Rightarrow> bool" where
  "cm_isDisputeInProgress ctx m channelId \<longleftrightarrow>
     \<not> (cd_channelId (mg_disputes m channelId) = ZeroHash \<or>
        cd_deadlineTimestamp (mg_disputes m channelId) < block_timestamp ctx)"

section \<open>AStateChannelManagerProxy.sol: the state machine\<close>

definition onlySelf :: "call_context \<Rightarrow> ('s, 'a) sol_act \<Rightarrow> ('s, 'a) sol_act" where
  "onlySelf ctx f =
     sbind (require (\<lambda>_. this_address ctx = msg_sender ctx)
              ''Only self (facet) can call this (diamond) function'') (\<lambda>_. f)"

fun join_loop :: "('st, 'ev) machine \<Rightarrow> join_channel list \<Rightarrow> nat \<Rightarrow> ('st, 'ev, nat) contract_act" where
  "join_loop M [] successCnt = sreturn successCnt"
| "join_loop M (jc # jcs) successCnt =
     sbind (ast_joinChannel M jc) (\<lambda>success. join_loop M jcs (if success then successCnt + 1 else successCnt))"

text \<open>\<open>(success, processExits[successCnt]) = ...\<close>: a failure leaves its exit to be overwritten.\<close>

fun removal_loop ::
  "(address \<Rightarrow> ('st, 'ev, bool \<times> process_exit) contract_act) \<Rightarrow> address list \<Rightarrow> process_exit list \<Rightarrow> nat \<Rightarrow>
     ('st, 'ev, process_exit list \<times> nat) contract_act" where
  "removal_loop f [] processExits successCnt = sreturn (processExits, successCnt)"
| "removal_loop f (a # as) processExits successCnt =
     sbind (f a) (\<lambda>(success, pe).
     sbind (sread (\<lambda>_. array_put processExits successCnt pe)) (\<lambda>processExits.
       removal_loop f as processExits (if success then successCnt + 1 else successCnt)))"

definition px_applyJoinChannelToStateMachine ::
  "('st, 'ev) deployment \<Rightarrow> bytes \<Rightarrow> join_channel list \<Rightarrow> ('st, 'ev, bytes \<times> nat) manager_act" where
  "px_applyJoinChannelToStateMachine D encodedState joinChannels =
     sbind (on_machine (ast_setState (dp_machine D) encodedState)) (\<lambda>_.
     sbind (on_machine (join_loop (dp_machine D) joinChannels 0)) (\<lambda>successCnt.
     sbind (sread (\<lambda>m. mc_getState (dp_machine D) (mg_machine m))) (\<lambda>modified.
       sreturn (modified, successCnt))))"

definition px_applySlashesToStateMachine ::
  "('st, 'ev) deployment \<Rightarrow> bytes \<Rightarrow> address list \<Rightarrow> ('st, 'ev, bytes \<times> process_exit list \<times> nat) manager_act" where
  "px_applySlashesToStateMachine D encodedState slashedParticipants =
     sbind (on_machine (ast_setState (dp_machine D) encodedState)) (\<lambda>_.
     sbind (on_machine (removal_loop (ast_slashParticipant (dp_machine D)) slashedParticipants
              (replicate (length slashedParticipants) no_exit) 0)) (\<lambda>(processExits, successCnt).
     sbind (sread (\<lambda>m. mc_getState (dp_machine D) (mg_machine m))) (\<lambda>modified.
       sreturn (modified, processExits, successCnt))))"

definition px_removeParticipantsFromStateMachine ::
  "('st, 'ev) deployment \<Rightarrow> bytes \<Rightarrow> address list \<Rightarrow> ('st, 'ev, bytes \<times> process_exit list \<times> nat) manager_act" where
  "px_removeParticipantsFromStateMachine D encodedState participants =
     sbind (on_machine (ast_setState (dp_machine D) encodedState)) (\<lambda>_.
     sbind (on_machine (removal_loop (ast_removeParticipant (dp_machine D)) participants
              (replicate (length participants) no_exit) 0)) (\<lambda>(processExits, successCnt).
     sbind (sread (\<lambda>m. mc_getState (dp_machine D) (mg_machine m))) (\<lambda>modified.
       sreturn (modified, processExits, successCnt))))"

definition px_executeStateTransitionOnState ::
  "('st, 'ev) deployment \<Rightarrow> bytes \<Rightarrow> transaction \<Rightarrow> ('st, 'ev, bool \<times> bytes) manager_act" where
  "px_executeStateTransitionOnState D encodedState tx =
     sbind (on_machine (ast_setState (dp_machine D) encodedState)) (\<lambda>_.
     sbind (\<lambda>m. case on_machine (ast_stateTransition (dp_machine D) (dp_machineAddress D) tx) m of
                  (Inl _, m') \<Rightarrow> (Inr False, m')
                | (Inr _, m') \<Rightarrow> (Inr True, m')) (\<lambda>success.
     sbind (sread (\<lambda>m. mc_getState (dp_machine D) (mg_machine m))) (\<lambda>encoded.
       sreturn (success, encoded))))"

definition px_getLatestState :: "bytes \<Rightarrow> ('st, 'ev) manager \<Rightarrow> bytes" where
  "px_getLatestState channelId m = mg_encodedStates m channelId (mg_latestFork m channelId)"

section \<open>AStateChannelManagerProxy.sol: joining and leaving\<close>

fun exits_removed ::
  "('st, 'ev) deployment \<Rightarrow> bytes \<Rightarrow> process_exit list \<Rightarrow> ('st, 'ev, unit) manager_act" where
  "exits_removed D channelId [] = sreturn ()"
| "exits_removed D channelId (pe # pes) =
     sbind (dp_removeParticipantComposable D channelId pe) (\<lambda>_. exits_removed D channelId pes)"

definition px_tryProcessOldExits ::
  "('st, 'ev) deployment \<Rightarrow> call_context \<Rightarrow> bytes \<Rightarrow> ('st, 'ev, unit) manager_act" where
  "px_tryProcessOldExits D ctx channelId =
     sbind (sread (\<lambda>m. Inr (mg_disputes m channelId))) (\<lambda>dispute.
       if cd_deadlineTimestamp dispute < block_timestamp ctx
       then sbind (exits_removed D channelId (cd_processExits dispute)) (\<lambda>_.
              smodify (\<lambda>m. m\<lparr>mg_disputes := (mg_disputes m)(channelId :=
                (mg_disputes m channelId)\<lparr>cd_processExits := []\<rparr>)\<rparr>))
       else sreturn ())"

text \<open>\<open>(bool success, ) = verifyThresholdSigned(...); require(success, msg)\<close>.\<close>

definition require_signed ::
  "evm_lib \<Rightarrow> address list \<Rightarrow> bytes \<Rightarrow> bytes list \<Rightarrow> string \<Rightarrow> ('s, unit) sol_act" where
  "require_signed L addrs d ss msg =
     sbind (sread (\<lambda>_. verifyThresholdSigned L addrs d ss)) (\<lambda>(success, _). require (\<lambda>_. success) msg)"

definition joinChannelWithAgreement ::
  "('st, 'ev) deployment \<Rightarrow> call_context \<Rightarrow> bytes \<times> bytes list \<Rightarrow> bytes \<Rightarrow> ('st, 'ev, unit) manager_act" where
  "joinChannelWithAgreement D ctx confirmed encodedState =
     (let L = dp_lib D in case confirmed of (encodedAgreement, signatures) \<Rightarrow>
     sbind (sread (\<lambda>_. lib_decodeJoinChannelAgreement L encodedAgreement)) (\<lambda>agreement.
     let sjc = ja_signedJoinChannel agreement in
     sbind (sread (\<lambda>_. lib_decodeJoinChannel L (sjc_encodedJoinChannel sjc))) (\<lambda>jc.
     let channelId = jc_channelId jc in
     sbind (require (\<lambda>m. \<not> cm_isDisputeInProgress ctx m channelId)
       ''AStateChannelManager: joinChannelWithAgreement - Dispute in progress'') (\<lambda>_.
     sbind (px_tryProcessOldExits D ctx channelId) (\<lambda>_.
     sbind (require (\<lambda>m. mg_latestFork m channelId = ja_forkCnt agreement)
       ''AStateChannelManager: joinChannelWithAgreement - forkCnt mismatch'') (\<lambda>_.
     sbind (require (\<lambda>_. lib_keccak256 L encodedState = ja_previousStateHash agreement)
       ''AStateChannelManager: joinChannelWithAgreement - previousStateHash mismatch'') (\<lambda>_.
     sbind (cm_getParticipants D channelId (ja_forkCnt agreement)) (\<lambda>participants.
     sbind (require (\<lambda>_. \<not> isAddressInArray participants (jc_participant jc))
       ''AStateChannelManager: joinChannelWithAgreement - joiner is participant'') (\<lambda>_.
     sbind (require (\<lambda>_. isAddressInArray participants (ja_submitter agreement))
       ''AStateChannelManager: joinChannelWithAgreement - submitter not participant'') (\<lambda>_.
     sbind (require (\<lambda>_. msg_sender ctx = ja_submitter agreement)
       ''AStateChannelManager: joinChannelWithAgreement - msg.sender != submitter'') (\<lambda>_.
     sbind (require_signed L participants encodedAgreement signatures
       ''AStateChannelManager: joinChannelWithAgreement - signatures invalid'') (\<lambda>_.
     sbind (require_signed L [jc_participant jc] (sjc_encodedJoinChannel sjc) [sjc_signature sjc]
       ''AStateChannelManager: joinChannelWithAgreement - initial signature invalid'') (\<lambda>_.
     sbind (dp_addParticipantComposable D jc) (\<lambda>success.
     sbind (require (\<lambda>_. success)
       ''AStateChannelManager: joinChannelWithAgreement - addParticipantComposable failed'') (\<lambda>_.
     sbind (onlySelf ctx (px_applyJoinChannelToStateMachine D encodedState [jc])) (\<lambda>(modified, successCnt).
     sbind (require (\<lambda>_. successCnt = 1)
       ''AStateChannelManager: joinChannelWithAgreement - applyJoinChannelToStateMachine failed'') (\<lambda>_.
       cm_setState ctx channelId modified)))))))))))))))))"

definition leaveChannelWithAgreement ::
  "('st, 'ev) deployment \<Rightarrow> call_context \<Rightarrow> bytes \<times> bytes list \<Rightarrow> bytes \<Rightarrow> ('st, 'ev, unit) manager_act" where
  "leaveChannelWithAgreement D ctx agreement encodedState =
     (let L = dp_lib D in case agreement of (encodedLeaveChannel, signatures) \<Rightarrow>
     sbind (sread (\<lambda>_. lib_decodeLeaveChannel L encodedLeaveChannel)) (\<lambda>lc.
     let channelId = lc_channelId lc in
     sbind (require (\<lambda>m. \<not> cm_isDisputeInProgress ctx m channelId)
       ''AStateChannelManager: leaveChannelWithAgreement - Dispute in progress'') (\<lambda>_.
     sbind (px_tryProcessOldExits D ctx channelId) (\<lambda>_.
     sbind (require (\<lambda>m. mg_latestFork m channelId = lc_forkCnt lc)
       ''AStateChannelManager: leaveChannelWithAgreement - forkCnt mismatch'') (\<lambda>_.
     sbind (require (\<lambda>_. lib_keccak256 L encodedState = lc_previousStateHash lc)
       ''AStateChannelManager: leaveChannelWithAgreement - previousStateHash mismatch'') (\<lambda>_.
     sbind (cm_getParticipants D channelId (lc_forkCnt lc)) (\<lambda>participants.
     sbind (require (\<lambda>_. isAddressInArray participants (lc_participant lc))
       ''AStateChannelManager: leaveChannelWithAgreement - not participant'') (\<lambda>_.
     sbind (require_signed L participants encodedLeaveChannel signatures
       ''AStateChannelManager: leaveChannelWithAgreement - signatures invalid'') (\<lambda>_.
     sbind (onlySelf ctx (px_removeParticipantsFromStateMachine D encodedState [lc_participant lc]))
       (\<lambda>(modified, pe, successCnt).
     sbind (require (\<lambda>_. successCnt = 1)
       ''AStateChannelManager: leaveChannelWithAgreement - removeParticipantsFromStateMachine failed'') (\<lambda>_.
     sbind (sread (\<lambda>_. array_at pe 0)) (\<lambda>pe0.
     sbind (dp_removeParticipantComposable D channelId pe0) (\<lambda>success.
     sbind (require (\<lambda>_. success)
       ''AStateChannelManager: leaveChannelWithAgreement - removeParticipantComposable failed'') (\<lambda>_.
       cm_setState ctx channelId modified))))))))))))))"

section \<open>AStateChannelManagerProxy.sol: posting a block\<close>

definition postBlockCalldata ::
  "('st, 'ev) deployment \<Rightarrow> call_context \<Rightarrow> signed_block \<Rightarrow> ('st, 'ev, unit) manager_act" where
  "postBlockCalldata D ctx sb =
     (let L = dp_lib D; now = block_timestamp ctx in
     sbind (require_signed L [msg_sender ctx] (sb_encodedBlock sb) [sb_signature sb]
       ''AStateChannelManager: postBlockCalldata signature invalid'') (\<lambda>_.
     sbind (sread (\<lambda>_. lib_decodeBlock L (sb_encodedBlock sb))) (\<lambda>b.
     sbind (require (\<lambda>_. msg_sender ctx = getBlockAuthor b)
       ''AStateChannelManager: postBlockCalldata sender must be participant'') (\<lambda>_.
     sbind (sread (\<lambda>m. rbind (usub now (mg_p2pTime m)) (\<lambda>t.
                        rbind (usub t (mg_agreementTime m)) (\<lambda>t. usub t (mg_chainFallbackTime m))))) (\<lambda>oldest.
     sbind (require (\<lambda>_. blk_time b \<ge> oldest)
       ''AStateChannelManager: postBlockCalldata timestamp too old'') (\<lambda>_.
     sbind (require (\<lambda>_. blk_time b \<le> now)
       ''AStateChannelManager: postBlockCalldata timestamp too new'') (\<lambda>_.
     let channelId = getBlockChannelId b; forkCnt = blk_fork b; transactionCnt = blk_cnt b in
     sbind (smodify (\<lambda>m.
       let a = mg_posted m channelId forkCnt;
           a' = a\<lparr>fda_map := (fda_map a)(transactionCnt := (fda_map a transactionCnt)(msg_sender ctx :=
                    \<lparr>bc_signedBlock = sb, bc_timestamp = now\<rparr>)),
                  fda_keys := fda_keys a @ [(transactionCnt, msg_sender ctx)]\<rparr>
       in m\<lparr>mg_posted := (mg_posted m)(channelId := (mg_posted m channelId)(forkCnt := a'))\<rparr>)) (\<lambda>_.
       log_event (EventBlockCalldataPosted channelId sb now)))))))))"

section \<open>The proxies of the examples\<close>

text \<open>The checks both proxies make, with the name they put in front of their messages.\<close>

fun check_signatures :: "evm_lib \<Rightarrow> bytes list \<Rightarrow> join_channel list \<Rightarrow> bytes list \<Rightarrow> bool sol" where
  "check_signatures L (d # ds) (jc # jcs) signatures =
     rbind (verifyThresholdSigned L [jc_participant jc] d signatures) (\<lambda>(succeeds, _).
       if \<not> succeeds then Inr False else check_signatures L ds jcs signatures)"
| "check_signatures L _ _ signatures = Inr True"

fun check_joins :: "string \<Rightarrow> call_context \<Rightarrow> bytes \<Rightarrow> join_channel list \<Rightarrow> ('s, unit) sol_act" where
  "check_joins name ctx channelId [] = sreturn ()"
| "check_joins name ctx channelId (jc # jcs) =
     sbind (require (\<lambda>_. channelId = jc_channelId jc) (name @ '': openChannel channelId doesn't match'')) (\<lambda>_.
     sbind (require (\<lambda>_. num_value (jc_amount jc) > 0)
              (name @ '': openChannel amount must be greater than 0'')) (\<lambda>_.
     sbind (require (\<lambda>_. num_value (jc_deadlineTimestamp jc) > block_timestamp ctx)
              (name @ '': openChannel timestampDeadline must be in the future'')) (\<lambda>_.
       check_joins name ctx channelId jcs)))"

definition open_checks ::
  "string \<Rightarrow> evm_lib \<Rightarrow> call_context \<Rightarrow> bytes \<Rightarrow> bytes list \<Rightarrow> bytes list \<Rightarrow>
     ('st, 'ev, join_channel list) manager_act" where
  "open_checks name L ctx channelId openChannelData signatures =
     sbind (require (\<lambda>_. length openChannelData > 0 \<and> length openChannelData = length signatures)
       (name @ '': openChannel (openChannel <> signatures) incorect length'')) (\<lambda>_.
     sbind (sread (\<lambda>_. mapM (lib_decodeJoinChannel L) openChannelData)) (\<lambda>joinChannels.
     sbind (sread (\<lambda>_. check_signatures L openChannelData joinChannels signatures)) (\<lambda>isValid.
     sbind (require (\<lambda>_. isValid)
       (name @ '': openChannel (openChannel <> signatures) singatures don't match'')) (\<lambda>_.
     sbind (require (\<lambda>_. channelId \<noteq> ZeroHash) (name @ '': openChannel channelId cannot be 0x0'')) (\<lambda>_.
     sbind (require (\<lambda>m. \<not> cm_isChannelOpen L m channelId)
       (name @ '': openChannel - channel already open'')) (\<lambda>_.
     sbind (check_joins name ctx channelId joinChannels) (\<lambda>_. sreturn joinChannels)))))))"

text \<open>The genesis state takes fork 0.\<close>

definition store_genesis :: "call_context \<Rightarrow> bytes \<Rightarrow> bytes \<Rightarrow> ('st, 'ev) manager \<Rightarrow> ('st, 'ev) manager" where
  "store_genesis ctx channelId encoded m =
     m\<lparr>mg_encodedStates := (mg_encodedStates m)(channelId := (mg_encodedStates m channelId)(0 := encoded)),
       mg_genesisTimestamps := (mg_genesisTimestamps m)(channelId :=
         (mg_genesisTimestamps m channelId)(0 := block_timestamp ctx))\<rparr>"

definition math_genesis :: "join_channel list \<Rightarrow> math_state" where
  "math_genesis jcs = \<lparr>math_number = 0, math_participants = map jc_participant jcs\<rparr>"

definition math_openChannel ::
  "(math_state \<Rightarrow> bytes) \<Rightarrow> evm_lib \<Rightarrow> call_context \<Rightarrow> bytes \<Rightarrow> bytes list \<Rightarrow> bytes list \<Rightarrow>
     (math_state, math_event, unit) manager_act" where
  "math_openChannel encodeState L ctx channelId openChannelData signatures =
     sbind (open_checks ''MathStateChannelManager'' L ctx channelId openChannelData signatures) (\<lambda>joinChannels.
     let genesis = encodeState (math_genesis joinChannels) in
     sbind (smodify (store_genesis ctx channelId genesis)) (\<lambda>_.
       log_event (EventSetState channelId genesis 0 (block_timestamp ctx))))"

definition ttt_genesis :: "join_channel list \<Rightarrow> ttt_state sol" where
  "ttt_genesis jcs =
     (let participants = map jc_participant jcs
      in rmap (\<lambda>first. \<lparr>ttt_participants = participants, ttt_balances = map (\<lambda>jc. num_value (jc_amount jc)) jcs,
                 ttt_board = empty_grid, ttt_currentPlayer = first, ttt_gameActive = True,
                 ttt_movesCount = 0, ttt_betAmount = 50\<rparr>)
           (array_at participants 0))"

definition ttt_openChannel ::
  "(ttt_state \<Rightarrow> bytes) \<Rightarrow> evm_lib \<Rightarrow> call_context \<Rightarrow> bytes \<Rightarrow> bytes list \<Rightarrow> bytes list \<Rightarrow>
     (ttt_state, ttt_event, unit) manager_act" where
  "ttt_openChannel encodeState L ctx channelId openChannelData signatures =
     sbind (open_checks ''TicTacToeStateChannelManager'' L ctx channelId openChannelData signatures) (\<lambda>joinChannels.
     sbind (sread (\<lambda>_. ttt_genesis joinChannels)) (\<lambda>genesisState.
     let genesis = encodeState genesisState in
     sbind (smodify (store_genesis ctx channelId genesis)) (\<lambda>_.
     sbind (sread (\<lambda>m. uadd (totalChannelsOpened m) 1)) (\<lambda>n.
     sbind (smodify (\<lambda>m. m\<lparr>totalChannelsOpened := n\<rparr>)) (\<lambda>_.
       log_event (EventSetState channelId genesis 0 (block_timestamp ctx)))))))"

text \<open>Neither example overrides the hooks with an effect: both answer \<open>false\<close>.\<close>

definition example_addParticipantComposable :: "join_channel \<Rightarrow> ('st, 'ev, bool) manager_act" where
  "example_addParticipantComposable jc = sreturn False"

definition example_removeParticipantComposable :: "bytes \<Rightarrow> process_exit \<Rightarrow> ('st, 'ev, bool) manager_act" where
  "example_removeParticipantComposable channelId pe = sreturn False"

end
