(* ===== verification/DisputeFacet.thy ===== *)
theory DisputeFacet
  imports ChannelManager
begin

text \<open>
  \<open>contracts/V1/StateChannelDiamondProxy/DisputeManagerFacet.sol\<close> (prefix \<open>df_\<close>): disputes on the
  chain. The facet runs in the storage of the channel manager. A dispute is named by its channel,
  as the storage reference of the source is; the \<open>require\<close>s carry the names of the custom errors.
\<close>

section \<open>Reading and writing the dispute\<close>

definition dget :: "bytes \<Rightarrow> ('st, 'ev, chain_dispute) manager_act" where
  "dget channelId = sread (\<lambda>m. Inr (mg_disputes m channelId))"

definition dput :: "bytes \<Rightarrow> (chain_dispute \<Rightarrow> chain_dispute) \<Rightarrow> ('st, 'ev, unit) manager_act" where
  "dput channelId f = smodify (\<lambda>m. m\<lparr>mg_disputes := (mg_disputes m)(channelId := f (mg_disputes m channelId))\<rparr>)"

definition check :: "bool \<Rightarrow> string \<Rightarrow> unit sol" where
  "check b msg = (if b then Inr () else Inl (Reverted msg))"

text \<open>\<open>AStateChannelManagerProxy(address(this)).f(...)\<close>: the sender is the contract.\<close>

definition self_call :: "call_context \<Rightarrow> (call_context \<Rightarrow> ('s, 'a) sol_act) \<Rightarrow> ('s, 'a) sol_act" where
  "self_call ctx f = message_call (f (ctx\<lparr>msg_sender := this_address ctx\<rparr>))"

definition insertIfNotExist :: "address \<Rightarrow> address list \<Rightarrow> bool \<times> address list" where
  "insertIfNotExist adr array = (if isAddressInArray array adr then (False, array) else (True, array @ [adr]))"

definition insertJoinChannelIfNotExist :: "join_channel \<Rightarrow> join_channel list \<Rightarrow> bool \<times> join_channel list" where
  "insertJoinChannelIfNotExist jc array =
     (if isAddressInArray (map jc_participant array) (jc_participant jc) then (False, array)
      else (True, array @ [jc]))"

text \<open>\<open>insertIfNotExist(dispute.slashedParticipants, adr)\<close>.\<close>

definition df_slash :: "bytes \<Rightarrow> address \<Rightarrow> ('st, 'ev, bool) manager_act" where
  "df_slash channelId adr =
     sbind (dget channelId) (\<lambda>d.
       case insertIfNotExist adr (cd_slashedParticipants d) of
         (inserted, array) \<Rightarrow>
           sbind (dput channelId (\<lambda>d. d\<lparr>cd_slashedParticipants := array\<rparr>)) (\<lambda>_. sreturn inserted))"

definition df_tryCancelFold :: "bytes \<Rightarrow> nat \<Rightarrow> ('st, 'ev, unit) manager_act" where
  "df_tryCancelFold channelId successfulProofTransactionCnt =
     dput channelId (\<lambda>d. if successfulProofTransactionCnt < cd_foldedTransactionCnt d
       then d\<lparr>cd_timedoutParticipant := ZeroAddress, cd_timeoutDisputer := ZeroAddress\<rparr> else d)"

section \<open>The latest finalized state\<close>

fun vote_signers ::
  "evm_lib \<Rightarrow> bytes \<Rightarrow> address \<Rightarrow> address list \<Rightarrow> bytes list \<Rightarrow> bool \<Rightarrow> address list \<Rightarrow> nat \<Rightarrow>
     (bool \<times> address list \<times> nat) sol" where
  "vote_signers L encodedBlock author expected [] isSigned arr n = Inr (isSigned, arr, n)"
| "vote_signers L encodedBlock author expected (s # ss) isSigned arr n =
     rbind (retriveSignerAddress L encodedBlock s) (\<lambda>a.
     rbind (tryInsertAddressInThresholdSet a arr n expected) (\<lambda>(arr', n').
       vote_signers L encodedBlock author expected ss (isSigned \<or> a = author) arr' n'))"

fun votes_loop ::
  "evm_lib \<Rightarrow> bytes \<Rightarrow> nat \<Rightarrow> bool \<Rightarrow> bytes \<Rightarrow> bytes \<Rightarrow> address list \<Rightarrow> nat \<Rightarrow> confirmed_block list \<Rightarrow> bytes \<Rightarrow>
     address list \<Rightarrow> nat \<Rightarrow> nat sol" where
  "votes_loop L channelId forkCnt isGenesis finalizedHash latestHash signers i [] previousStateHash arr n = Inr n"
| "votes_loop L channelId forkCnt isGenesis finalizedHash latestHash signers i (v # vs) previousStateHash arr n =
     rbind (lib_decodeBlock L (cb_encodedBlock v)) (\<lambda>b.
     rbind (check (getBlockChannelId b = channelId) ''ErrorChannelIdMismatch'') (\<lambda>_.
     rbind (check (blk_fork b = forkCnt) ''ErrorDisputeForkMismatch'') (\<lambda>_.
     rbind (vote_signers L (cb_encodedBlock v) (getBlockAuthor b) signers (cb_signatures v) False arr n)
       (\<lambda>(isSigned, arr, n).
     rbind (check isSigned ''ErrorFinalizedAndLatestNotSignedByParticipant'') (\<lambda>_.
     rbind (if i = 0 \<and> \<not> isGenesis
            then check (finalizedHash = blk_stateHash b)
                   ''ErrorFinalizedAndLatestFirstBlockNotVotingForFinalizedState''
            else check (previousStateHash = blk_previousStateHash b)
                   ''ErrorFinalizedAndLatestSecondBlocksNotLinked'') (\<lambda>_.
     rbind (if vs = [] then check (blk_stateHash b = latestHash)
                              ''ErrorFinalizedAndLatestLastBlockNotVoringForLatestState''
            else Inr ()) (\<lambda>_.
       votes_loop L channelId forkCnt isGenesis finalizedHash latestHash signers (Suc i) vs
         (blk_stateHash b) arr n)))))))"

definition df_isFinalizedAndLatest ::
  "evm_lib \<Rightarrow> ('st, 'ev) manager \<Rightarrow> bytes \<Rightarrow> nat \<Rightarrow> bytes \<Rightarrow> bytes \<Rightarrow> confirmed_block list \<Rightarrow> address list \<Rightarrow>
     bool sol" where
  "df_isFinalizedAndLatest L m channelId forkCnt encodedFinalizedState latestState
       votes thresholdSingers =
     (let isGenesis = cm_isGenesisState L m channelId forkCnt encodedFinalizedState;
          finalizedStateHash = lib_keccak256 L encodedFinalizedState
      in rbind (votes_loop L channelId forkCnt isGenesis finalizedStateHash
                  (lib_keccak256 L latestState) thresholdSingers 0 votes
                  finalizedStateHash (replicate (length thresholdSingers) ZeroAddress) 0) (\<lambda>countThreshold.
         Inr (isGenesis \<or> countThreshold = length thresholdSingers)))"

section \<open>Fraud proofs\<close>

definition df_sameDispute :: "chain_dispute \<Rightarrow> block list \<Rightarrow> unit sol" where
  "df_sameDispute d bs =
     rbind (check (\<forall>b \<in> set bs. getBlockChannelId b = cd_channelId d) ''ErrorChannelIdMismatch'') (\<lambda>_.
       check (\<forall>b \<in> set bs. blk_fork b = cd_forkCnt d) ''ErrorDisputeForkMismatch'')"

definition df_applyFoldRechallengeProof ::
  "evm_lib \<Rightarrow> bytes \<Rightarrow> bytes \<times> bytes list \<Rightarrow> ('st, 'ev, bool) manager_act" where
  "df_applyFoldRechallengeProof L channelId prf =
     sbind (dget channelId) (\<lambda>d. case prf of (encodedBlock, signatures) \<Rightarrow>
     sbind (sread (\<lambda>_. lib_decodeBlock L encodedBlock)) (\<lambda>b.
     sbind (sread (\<lambda>_. df_sameDispute d [b])) (\<lambda>_.
     sbind (require (\<lambda>_. blk_cnt b = cd_foldedTransactionCnt d) ''ErrorTransactionCountMismatch'') (\<lambda>_.
     sbind (require_signed L (cd_participants d) encodedBlock signatures ''ErrorSignatureInvalid'') (\<lambda>_.
     sbind (dput channelId (\<lambda>d. d\<lparr>cd_timedoutParticipant := ZeroAddress\<rparr>)) (\<lambda>_.
       df_slash channelId (cd_timeoutDisputer d)))))))"

fun df_doubleSigns ::
  "evm_lib \<Rightarrow> bytes \<Rightarrow> (signed_block \<times> signed_block) list \<Rightarrow> bool \<Rightarrow> ('st, 'ev, bool) manager_act" where
  "df_doubleSigns L channelId [] success = sreturn success"
| "df_doubleSigns L channelId ((s1, s2) # ss) success =
     sbind (dget channelId) (\<lambda>d.
     sbind (sread (\<lambda>_. lib_decodeBlock L (sb_encodedBlock s1))) (\<lambda>b1.
     sbind (sread (\<lambda>_. lib_decodeBlock L (sb_encodedBlock s2))) (\<lambda>b2.
     sbind (sread (\<lambda>_. df_sameDispute d [b1, b2])) (\<lambda>_.
     sbind (require (\<lambda>_. blk_cnt b1 = blk_cnt b2) ''ErrorTransactionCountMismatch'') (\<lambda>_.
     sbind (require (\<lambda>_. lib_keccak256 L (sb_encodedBlock s1) \<noteq> lib_keccak256 L (sb_encodedBlock s2))
       ''ErrorDoubleSignBlocksAreSame'') (\<lambda>_.
     sbind (sread (\<lambda>_. retriveSignerAddress L (sb_encodedBlock s1) (sb_signature s1))) (\<lambda>retrived1.
     sbind (sread (\<lambda>_. retriveSignerAddress L (sb_encodedBlock s2) (sb_signature s2))) (\<lambda>retrived2.
     sbind (require (\<lambda>_. retrived1 = retrived2) ''ErrorDoubleSignSignersNotTheSame'') (\<lambda>_.
     sbind (df_slash channelId retrived1) (\<lambda>inserted.
     sbind (if inserted \<or> success then df_tryCancelFold channelId (blk_cnt b1) else sreturn ()) (\<lambda>_.
       df_doubleSigns L channelId ss (inserted \<or> success))))))))))))"

definition df_applyDoubleSignProof ::
  "evm_lib \<Rightarrow> bytes \<Rightarrow> (signed_block \<times> signed_block) list \<Rightarrow> ('st, 'ev, bool) manager_act" where
  "df_applyDoubleSignProof L channelId doubleSigns = df_doubleSigns L channelId doubleSigns False"

definition df_isGoodTimestampNonDeterministic :: "('st, 'ev) manager \<Rightarrow> nat \<Rightarrow> block \<Rightarrow> bool sol" where
  "df_isGoodTimestampNonDeterministic m previousCanonicalTimestamp block2 =
     (let timestamp = blk_time block2;
          lastTransactionTimestamp = previousCanonicalTimestamp;
          latestChainTimestamp = cm_getChainLatestBlockTimestamp m (getBlockChannelId block2)
            (blk_fork block2) (blk_cnt block2);
          referenceTime = (if latestChainTimestamp > lastTransactionTimestamp then latestChainTimestamp
                           else lastTransactionTimestamp)
      in if timestamp < lastTransactionTimestamp then Inr False
         else rbind (uadd referenceTime (mg_p2pTime m)) (\<lambda>limit. Inr (\<not> timestamp > limit)))"

definition df_applyIncorrectDataProof ::
  "('st, 'ev) deployment \<Rightarrow> bytes \<Rightarrow> signed_block \<times> signed_block \<times> bytes \<Rightarrow> ('st, 'ev, bool) manager_act" where
  "df_applyIncorrectDataProof D channelId prf =
     (let L = dp_lib D in case prf of (s1, s2, encodedState) \<Rightarrow>
     sbind (dget channelId) (\<lambda>d.
     sbind (sread (\<lambda>_. lib_decodeBlock L (sb_encodedBlock s1))) (\<lambda>b1.
     sbind (sread (\<lambda>_. lib_decodeBlock L (sb_encodedBlock s2))) (\<lambda>b2.
     sbind (sread (\<lambda>_. retriveSignerAddress L (sb_encodedBlock s1) (sb_signature s1))) (\<lambda>retrived1.
     sbind (sread (\<lambda>_. retriveSignerAddress L (sb_encodedBlock s2) (sb_signature s2))) (\<lambda>retrived2.
     sbind (require (\<lambda>_. retrived1 = getBlockAuthor b1 \<and> retrived2 = getBlockAuthor b2)
       ''ErrorSignatureInvalid'') (\<lambda>_.
     sbind (sread (\<lambda>_. df_sameDispute d [b1, b2])) (\<lambda>_.
     sbind (sread (\<lambda>m.
       if cm_isGenesisState L m (cd_channelId d) (cd_forkCnt d) encodedState
       then rbind (check (blk_previousStateHash b2 = lib_keccak256 L encodedState)
                     ''ErrorIncorrectDataStateHashNotLinkedToBlock'') (\<lambda>_.
            Inr (cm_getGenesisTimestamp m (cd_channelId d) (cd_forkCnt d)))
       else rbind (check (blk_previousStateHash b2 = blk_stateHash b1) ''ErrorIncorrectDataBlocksNotLinked'') (\<lambda>_.
            rbind (check (blk_stateHash b1 = lib_keccak256 L encodedState)
                     ''ErrorIncorrectDataStateHashNotLinkedToBlock'') (\<lambda>_.
            Inr (blk_time b1))))) (\<lambda>previousTimestamp.
     sbind (sread (\<lambda>m. df_isGoodTimestampNonDeterministic m previousTimestamp b2)) (\<lambda>good.
     sbind (if good
            then px_executeStateTransitionOnState D encodedState (blk_transaction b2)
            else sreturn (False, ''0x'')) (\<lambda>(success, executedEncodedState).
     sbind (if \<not> success \<or> blk_stateHash b2 \<noteq> lib_keccak256 L executedEncodedState
            then df_slash channelId (getBlockAuthor b2)
            else sreturn False) (\<lambda>challengeSuccess.
     sbind (if challengeSuccess then df_tryCancelFold channelId (blk_cnt b1) else sreturn ()) (\<lambda>_.
       sreturn challengeSuccess)))))))))))))"

definition df_applyNewerStateProof ::
  "evm_lib \<Rightarrow> bytes \<Rightarrow> bytes \<times> bytes \<Rightarrow> ('st, 'ev, bool) manager_act" where
  "df_applyNewerStateProof L channelId prf =
     (case prf of (encodedBlock, confirmation) \<Rightarrow>
     sbind (dget channelId) (\<lambda>d.
     sbind (sread (\<lambda>_. lib_decodeBlock L encodedBlock)) (\<lambda>b.
     sbind (sread (\<lambda>_. df_sameDispute d [b])) (\<lambda>_.
     sbind (sread (\<lambda>_. retriveSignerAddress L encodedBlock confirmation)) (\<lambda>retrived.
     sbind (require (\<lambda>_. retrived = cd_postedStateDisputer d) ''ErrorNewerStateConfirmationInvalid'') (\<lambda>_.
     sbind (sread (\<lambda>_. rbind (usub (length (cd_virtualVotingBlocks d)) 1) (array_at (cd_virtualVotingBlocks d))))
       (\<lambda>v.
     sbind (sread (\<lambda>_. lib_decodeBlock L (cb_encodedBlock v))) (\<lambda>latestKnownBlock.
     sbind (require (\<lambda>_. blk_cnt b \<ge> blk_cnt latestKnownBlock) ''ErrorTransactionCountMismatch'') (\<lambda>_.
       df_slash channelId (cd_postedStateDisputer d))))))))))"

text \<open>\<open>_block\<close> is the variable of the loop: after it, the last block of the votes.\<close>

definition df_applyFoldPriorBlockProof ::
  "evm_lib \<Rightarrow> call_context \<Rightarrow> bytes \<Rightarrow> nat \<Rightarrow> ('st, 'ev, bool) manager_act" where
  "df_applyFoldPriorBlockProof L ctx channelId cnt =
     sbind (dget channelId) (\<lambda>d.
     sbind (sread (\<lambda>_. mapM (\<lambda>v. lib_decodeBlock L (cb_encodedBlock v)) (cd_virtualVotingBlocks d))) (\<lambda>blocks.
     sbind (require (\<lambda>_. list_ex (\<lambda>b. blk_cnt b = cnt) blocks) ''ErrorTimeoutPriorBlockNotInVirtualVotes'') (\<lambda>_.
     sbind (require (\<lambda>_. cnt < cd_foldedTransactionCnt d) ''ErrorTimeoutPriorBlockNotPrior'') (\<lambda>_.
     let participant = getBlockAuthor (last blocks) in
     sbind (require (\<lambda>m. case cm_getBlockCallData m (cd_channelId d) (cd_forkCnt d) cnt participant of
                (found, posted) \<Rightarrow> \<not> found \<or> bc_timestamp posted > cd_creationTimestamp d)
       ''ErrorTimeoutPriorCalldataExists'') (\<lambda>_.
     sbind (dput channelId (\<lambda>d. d\<lparr>cd_timedoutParticipant := participant, cd_timeoutDisputer := msg_sender ctx\<rparr>)) (\<lambda>_.
       sreturn True))))))"

definition df_applyBlockTooFarInFutureProof ::
  "evm_lib \<Rightarrow> call_context \<Rightarrow> bytes \<Rightarrow> signed_block \<Rightarrow> ('st, 'ev, bool) manager_act" where
  "df_applyBlockTooFarInFutureProof L ctx channelId sb =
     sbind (dget channelId) (\<lambda>d.
     sbind (sread (\<lambda>_. lib_decodeBlock L (sb_encodedBlock sb))) (\<lambda>b.
     sbind (sread (\<lambda>_. df_sameDispute d [b])) (\<lambda>_.
     sbind (sread (\<lambda>_. retriveSignerAddress L (sb_encodedBlock sb) (sb_signature sb))) (\<lambda>retrived.
     sbind (require (\<lambda>_. retrived = getBlockAuthor b) ''ErrorSignatureInvalid'') (\<lambda>_.
     sbind (require (\<lambda>_. isAddressInArray (cd_participants d) retrived) ''ErrorNotParticipant'') (\<lambda>_.
     sbind (require (\<lambda>_. blk_time b > block_timestamp ctx)
       ''ErrorBlockToFarInTheFutureActuallyNotInTheFuture'') (\<lambda>_.
       df_slash channelId (getBlockAuthor b))))))))"

definition df_applyJoinChannelProof ::
  "('st, 'ev) deployment \<Rightarrow> call_context \<Rightarrow> bytes \<Rightarrow> bytes \<times> bytes list \<Rightarrow> ('st, 'ev, bool) manager_act" where
  "df_applyJoinChannelProof D ctx channelId prf =
     (let L = dp_lib D in case prf of (encodedSignedJoinChannel, signatures) \<Rightarrow>
     sbind (dget channelId) (\<lambda>d.
     sbind (require_signed L (cd_participants d) encodedSignedJoinChannel signatures ''ErrorSignatureInvalid'') (\<lambda>_.
     sbind (sread (\<lambda>_. lib_decodeSignedJoinChannel L encodedSignedJoinChannel)) (\<lambda>sjc.
     sbind (sread (\<lambda>_. lib_decodeJoinChannel L (sjc_encodedJoinChannel sjc))) (\<lambda>jc.
     sbind (require_signed L [jc_participant jc] (sjc_encodedJoinChannel sjc) [sjc_signature sjc]
       ''ErrorSignatureInvalid'') (\<lambda>_.
     sbind (require (\<lambda>_. jc_channelId jc = cd_channelId d) ''ErrorChannelIdMismatch'') (\<lambda>_.
     sbind (cm_getNextToWrite D (cd_encodedLatestCorrectState d)) (\<lambda>next.
     sbind (require (\<lambda>_. msg_sender ctx = next) ''ErrorJoinChannelNotMyTurn'') (\<lambda>_.
     sbind (require (\<lambda>_. \<not> isAddressInArray (cd_participants d) (jc_participant jc))
       ''ErrorJoinChannelAlreadyInChannel'') (\<lambda>_.
     sbind (require (\<lambda>_. block_timestamp ctx > num_value (jc_deadlineTimestamp jc)) ''ErrorJoinChannelExpired'') (\<lambda>_.
     sbind (sread (\<lambda>m. Inr (insertJoinChannelIfNotExist jc (cd_joinChannelParticipants (mg_disputes m channelId)))))
       (\<lambda>(inserted, array).
     sbind (dput channelId (\<lambda>d. d\<lparr>cd_joinChannelParticipants := array\<rparr>)) (\<lambda>_.
     sbind (require (\<lambda>_. inserted) ''ErrorJoinChannelAlreadyAdded'') (\<lambda>_.
     sbind (self_call ctx (\<lambda>ctx. onlySelf ctx (dp_addParticipantComposable D jc))) (\<lambda>added.
     sbind (require (\<lambda>_. added) ''ErrorJoinChannelFailed'') (\<lambda>_.
       sreturn True))))))))))))))))"

text \<open>
  The chain of tests on \<open>proofType\<close>; nothing answers \<open>LeaveChannelForce\<close>. A number above it is no
  value of the enum: reading the argument reverts.
\<close>

definition df_applyProof ::
  "('st, 'ev) deployment \<Rightarrow> call_context \<Rightarrow> bytes \<Rightarrow> proof_struct \<Rightarrow> ('st, 'ev, bool) manager_act" where
  "df_applyProof D ctx channelId prf =
     (let L = dp_lib D; encoded = prf_encodedProof prf; n = prf_proofType prf in
      if n = proof_type_num FoldRechallenge
      then sbind (sread (\<lambda>_. lib_decodeFoldRechallenge L encoded)) (df_applyFoldRechallengeProof L channelId)
      else if n = proof_type_num DoubleSign
      then sbind (sread (\<lambda>_. lib_decodeDoubleSign L encoded)) (df_applyDoubleSignProof L channelId)
      else if n = proof_type_num IncorrectData
      then sbind (sread (\<lambda>_. lib_decodeIncorrectData L encoded)) (df_applyIncorrectDataProof D channelId)
      else if n = proof_type_num NewerState
      then sbind (sread (\<lambda>_. lib_decodeNewerState L encoded)) (df_applyNewerStateProof L channelId)
      else if n = proof_type_num FoldPriorBlock
      then sbind (sread (\<lambda>_. lib_decodeFoldPriorBlock L encoded)) (df_applyFoldPriorBlockProof L ctx channelId)
      else if n = proof_type_num BlockTooFarInFuture
      then sbind (sread (\<lambda>_. lib_decodeBlockTooFar L encoded)) (df_applyBlockTooFarInFutureProof L ctx channelId)
      else if n = 6
      then sbind (sread (\<lambda>_. lib_decodeJoinProof L encoded)) (df_applyJoinChannelProof D ctx channelId)
      else if n = 7 then sreturn False
      else sthrow NoData)"

fun df_proofs_loop ::
  "('st, 'ev) deployment \<Rightarrow> call_context \<Rightarrow> bytes \<Rightarrow> proof_struct list \<Rightarrow> bool \<Rightarrow> ('st, 'ev, bool) manager_act" where
  "df_proofs_loop D ctx channelId [] atLeastOneSuccess = sreturn atLeastOneSuccess"
| "df_proofs_loop D ctx channelId (p # ps) atLeastOneSuccess =
     sbind (df_applyProof D ctx channelId p) (\<lambda>success.
       df_proofs_loop D ctx channelId ps (success \<or> atLeastOneSuccess))"

definition df_applyProofs ::
  "('st, 'ev) deployment \<Rightarrow> call_context \<Rightarrow> bytes \<Rightarrow> proof_struct list \<Rightarrow> ('st, 'ev, bool) manager_act" where
  "df_applyProofs D ctx channelId proofs =
     sbind (df_proofs_loop D ctx channelId proofs False) (\<lambda>atLeastOneSuccess.
     sbind (dget channelId) (\<lambda>d.
     sbind (require (\<lambda>_. \<not> isAddressInArray (cd_slashedParticipants d) (msg_sender ctx))
       ''ErrorSlashedParticipantCantDispute'') (\<lambda>_. sreturn atLeastOneSuccess)))"

section \<open>The outcome of a dispute\<close>

definition df_pushExits :: "bytes \<Rightarrow> process_exit list \<Rightarrow> nat \<Rightarrow> ('st, 'ev, unit) manager_act" where
  "df_pushExits channelId pes successCnt =
     dput channelId (\<lambda>d. d\<lparr>cd_processExits := cd_processExits d @ take successCnt pes\<rparr>)"

definition df_applyDisputeToLatestState ::
  "('st, 'ev) deployment \<Rightarrow> call_context \<Rightarrow> bytes \<Rightarrow> ('st, 'ev, unit) manager_act" where
  "df_applyDisputeToLatestState D ctx channelId =
     sbind (dget channelId) (\<lambda>d.
     sbind (self_call ctx (\<lambda>ctx. onlySelf ctx (px_applyJoinChannelToStateMachine D
              (cd_encodedLatestCorrectState d) (cd_joinChannelParticipants d)))) (\<lambda>(latest, successCnt).
     sbind (require (\<lambda>_. successCnt = length (cd_joinChannelParticipants d)) ''ErrorJoinChannelFailed'') (\<lambda>_.
     sbind (dput channelId (\<lambda>d. d\<lparr>cd_processExits := []\<rparr>)) (\<lambda>_.
     sbind (self_call ctx (\<lambda>ctx. onlySelf ctx (px_applySlashesToStateMachine D latest
              (cd_slashedParticipants d)))) (\<lambda>(latest, pes, successCnt).
     sbind (df_pushExits channelId pes successCnt) (\<lambda>_.
     sbind (self_call ctx (\<lambda>ctx. onlySelf ctx (px_removeParticipantsFromStateMachine D latest
              (cd_leaveChannelParticipants d)))) (\<lambda>(latest, pes, successCnt).
     sbind (df_pushExits channelId pes successCnt) (\<lambda>_.
     sbind (if cd_timedoutParticipant d \<noteq> ZeroAddress
            then sbind (self_call ctx (\<lambda>ctx. onlySelf ctx (px_removeParticipantsFromStateMachine D latest
                          [cd_timedoutParticipant d]))) (\<lambda>(latest, pes, successCnt).
                 sbind (df_pushExits channelId pes successCnt) (\<lambda>_. sreturn latest))
            else sreturn latest) (\<lambda>latest.
       dput channelId (\<lambda>d. d\<lparr>cd_encodedLatestCorrectState := latest\<rparr>))))))))))"

section \<open>Creating and challenging\<close>

text \<open>The conditions on a time-out: \<open>0\<close> for the participant means that there is none.\<close>

definition df_checkTimeout ::
  "('st, 'ev) deployment \<Rightarrow> call_context \<Rightarrow> bytes \<Rightarrow> nat \<Rightarrow> bytes \<Rightarrow> confirmed_block list \<Rightarrow> address \<Rightarrow> nat \<Rightarrow>
     ('st, 'ev, unit) manager_act" where
  "df_checkTimeout D ctx channelId forkCnt latestState votes timedoutParticipant foldedTransactionCnt =
     (let L = dp_lib D in
     sbind (sread (\<lambda>m.
       if foldedTransactionCnt \<noteq> 0
       then rbind (rbind (usub (length votes) 1) (array_at votes)) (\<lambda>v.
            rbind (lib_decodeBlock L (cb_encodedBlock v)) (\<lambda>lastBlock.
            rbind (check (blk_cnt lastBlock = foldedTransactionCnt - 1) ''ErrorTimeoutNotLinkedToPreviousBlock'') (\<lambda>_.
            Inr (blk_time lastBlock))))
       else Inr (cm_getGenesisTimestamp m channelId forkCnt))) (\<lambda>latestTimestamp.
     sbind (cm_getNextToWrite D latestState) (\<lambda>next.
     sbind (require (\<lambda>_. timedoutParticipant = next) ''ErrorTimeoutParticipantNotNextToWrite'') (\<lambda>_.
     sbind (sread (\<lambda>m.
       if fst (cm_getBlockCallData m channelId forkCnt foldedTransactionCnt timedoutParticipant) then Inr True
       else (let lastBlockTimestamp = cm_getChainLatestBlockTimestamp m channelId forkCnt foldedTransactionCnt;
                 latest = (if lastBlockTimestamp > latestTimestamp then lastBlockTimestamp else latestTimestamp)
             in rbind (uadd latest (mg_p2pTime m)) (\<lambda>t.
                rbind (uadd t (mg_agreementTime m)) (\<lambda>t.
                rbind (uadd t (mg_chainFallbackTime m)) (\<lambda>t.
                Inr (block_timestamp ctx < t))))))) (\<lambda>tooEarly.
     sbind (require (\<lambda>_. \<not> tooEarly) ''ErrorTimeoutInvalid'') (\<lambda>_.
       require (\<lambda>_. timedoutParticipant \<noteq> msg_sender ctx) ''ErrorTimeoutSelf''))))))"

text \<open>
  \<open>copyConfirmedBlockArrayIntoStorage\<close> pushes the blocks behind those the storage holds already.
\<close>

definition df_createDispute ::
  "('st, 'ev) deployment \<Rightarrow> call_context \<Rightarrow> bytes \<Rightarrow> nat \<Rightarrow> bytes \<Rightarrow> bytes \<Rightarrow> confirmed_block list \<Rightarrow> address \<Rightarrow>
     nat \<Rightarrow> proof_struct list \<Rightarrow> ('st, 'ev, unit) manager_act" where
  "df_createDispute D ctx channelId forkCnt finalizedState latestState
       votes timedoutParticipant foldedTransactionCnt proofs =
     sbind (require (\<lambda>m. \<not> cm_isDisputeInProgress ctx m channelId) ''ErrorDisputeInProgrees'') (\<lambda>_.
     sbind (require (\<lambda>m. cm_getForkCnt channelId m = forkCnt) ''ErrorDisputeForkMismatch'') (\<lambda>_.
     sbind (cm_getParticipants D channelId forkCnt) (\<lambda>participants.
     sbind (require (\<lambda>_. isAddressInArray participants (msg_sender ctx)) ''ErrorNotParticipant'') (\<lambda>_.
     sbind (sread (\<lambda>m. df_isFinalizedAndLatest (dp_lib D) m channelId forkCnt finalizedState
              latestState votes participants)) (\<lambda>finalized.
     sbind (require (\<lambda>_. finalized) ''ErrorLatestFinalizedBlock'') (\<lambda>_.
     sbind (if timedoutParticipant \<noteq> ZeroAddress
            then df_checkTimeout D ctx channelId forkCnt latestState votes
                   timedoutParticipant foldedTransactionCnt
            else sreturn ()) (\<lambda>_.
     sbind (sread (\<lambda>m. uadd (block_timestamp ctx) (mg_challengeTime m))) (\<lambda>deadline.
     sbind (dput channelId (\<lambda>d. d\<lparr>
         cd_channelId := channelId, cd_forkCnt := forkCnt, cd_challengeCnt := 0,
         cd_foldedTransactionCnt := foldedTransactionCnt,
         cd_virtualVotingBlocks := cd_virtualVotingBlocks d @ votes,
         cd_encodedLatestFinalizedState := finalizedState,
         cd_encodedLatestCorrectState := latestState,
         cd_timedoutParticipant := timedoutParticipant,
         cd_timeoutDisputer := (if timedoutParticipant \<noteq> ZeroAddress then msg_sender ctx else cd_timeoutDisputer d),
         cd_postedStateDisputer := msg_sender ctx,
         cd_participants := participants,
         cd_creationTimestamp := block_timestamp ctx, cd_deadlineTimestamp := deadline\<rparr>)) (\<lambda>_.
     sbind (df_applyProofs D ctx channelId proofs) (\<lambda>success.
     sbind (require (\<lambda>m. success \<or> cd_timedoutParticipant (mg_disputes m channelId) \<noteq> ZeroAddress)
       ''ErrorDisputeInvalid'') (\<lambda>_.
     sbind (df_applyDisputeToLatestState D ctx channelId) (\<lambda>_.
     sbind (dget channelId) (\<lambda>d.
     sbind (cm_setState ctx (cd_channelId d) (cd_encodedLatestCorrectState d)) (\<lambda>_.
       log_event (EventDisputeUpdated channelId d)))))))))))))))"

definition df_challengeDispute ::
  "('st, 'ev) deployment \<Rightarrow> call_context \<Rightarrow> bytes \<Rightarrow> nat \<Rightarrow> nat \<Rightarrow> proof_struct list \<Rightarrow> confirmed_block list \<Rightarrow>
     bytes \<Rightarrow> bytes \<Rightarrow> ('st, 'ev, unit) manager_act" where
  "df_challengeDispute D ctx channelId forkCnt challengeCnt proofs votes
       finalizedState latestState =
     (let L = dp_lib D in
     sbind (dget channelId) (\<lambda>d.
     sbind (require (\<lambda>_. cd_channelId d \<noteq> ZeroHash) ''ErrorDisputeDoesntExist'') (\<lambda>_.
     sbind (require (\<lambda>_. cd_forkCnt d = forkCnt) ''ErrorDisputeForkMismatch'') (\<lambda>_.
     sbind (require (\<lambda>_. cd_challengeCnt d = challengeCnt) ''ErrorDisputeChallengeMismatch'') (\<lambda>_.
     sbind (require (\<lambda>_. cd_deadlineTimestamp d > block_timestamp ctx) ''ErrorDisputeExpired'') (\<lambda>_.
     sbind (require (\<lambda>_. isAddressInArray (cd_participants d) (msg_sender ctx)) ''ErrorNotParticipant'') (\<lambda>_.
     sbind (require (\<lambda>_. \<not> isAddressInArray (cd_slashedParticipants d) (msg_sender ctx))
       ''ErrorParticipantAlredySlashed'') (\<lambda>_.
     sbind (df_applyProofs D ctx channelId proofs) (\<lambda>success.
     sbind (require (\<lambda>_. success) ''ErrorDisputeInvalid'') (\<lambda>_.
     sbind (sread (\<lambda>m. df_isFinalizedAndLatest L m (cd_channelId d) (cd_forkCnt d) finalizedState
              latestState votes (cd_participants d))) (\<lambda>finalized.
     sbind (require (\<lambda>_. finalized) ''ErrorLatestFinalizedBlock'') (\<lambda>_.
     sbind (sread (\<lambda>m. rbind (array_at (cd_virtualVotingBlocks (mg_disputes m channelId)) 0) (\<lambda>v.
              lib_decodeBlock L (cb_encodedBlock v)))) (\<lambda>oldBlock.
     sbind (sread (\<lambda>_. rbind (array_at votes 0) (\<lambda>v. lib_decodeBlock L (cb_encodedBlock v)))) (\<lambda>newBlock.
     sbind (require (\<lambda>_. blk_cnt newBlock \<ge> blk_cnt oldBlock) ''ErrorChallengeNewFinalizedBeforeOldFinalized'') (\<lambda>_.
     sbind (sread (\<lambda>m. uadd (block_timestamp ctx) (mg_challengeTime m))) (\<lambda>deadline.
     sbind (sread (\<lambda>m. uadd (cd_challengeCnt (mg_disputes m channelId)) 1)) (\<lambda>cnt.
     sbind (dput channelId (\<lambda>d. d\<lparr>
         cd_virtualVotingBlocks := cd_virtualVotingBlocks d @ votes,
         cd_encodedLatestFinalizedState := finalizedState,
         cd_encodedLatestCorrectState := latestState,
         cd_postedStateDisputer := msg_sender ctx, cd_deadlineTimestamp := deadline, cd_challengeCnt := cnt\<rparr>)) (\<lambda>_.
     sbind (df_applyDisputeToLatestState D ctx channelId) (\<lambda>_.
     sbind (dget channelId) (\<lambda>d.
     sbind (cm_setState ctx (cd_channelId d) (cd_encodedLatestCorrectState d)) (\<lambda>_.
       log_event (EventDisputeUpdated channelId d))))))))))))))))))))))"

text \<open>The entry points of the proxy: a delegate call, which reverts when the facet does.\<close>

definition createDispute where
  "createDispute D ctx channelId forkCnt finalized latest votes timedout cnt proofs =
     transact (df_createDispute D ctx channelId forkCnt finalized latest votes timedout cnt proofs)"

definition challengeDispute where
  "challengeDispute D ctx channelId forkCnt challengeCnt proofs votes finalized latest =
     transact (df_challengeDispute D ctx channelId forkCnt challengeCnt proofs votes finalized latest)"

end
