(* ===== verification/ChainLedger.thy ===== *)
theory ChainLedger
  imports DisputeFacet
begin

text \<open>
  What no transaction of the channel manager undoes: past forks, posted blocks and slashes. With
  \<open>k\<close> set, the votes of the disputes are those of before, which only creating and challenging a
  dispute change. Each function of the contract is shown to keep the relation \<open>ledger_le\<close> between the storage before and
  after it; the relation of a whole transaction follows by the rules of \<open>preserved\<close>. Only opening a
  channel does more: it writes fork 0 of a channel that is not open. \<open>history_le\<close> is what it keeps.
\<close>

section \<open>The relation\<close>

definition dispute_le :: "bool \<Rightarrow> chain_dispute \<Rightarrow> chain_dispute \<Rightarrow> bool" where
  "dispute_le k d d' \<longleftrightarrow>
     (\<exists>vs. cd_virtualVotingBlocks d' = cd_virtualVotingBlocks d @ vs \<and> (k \<longrightarrow> vs = [])) \<and>
     (\<exists>as. cd_slashedParticipants d' = cd_slashedParticipants d @ as) \<and>
     (distinct (cd_slashedParticipants d) \<longrightarrow> distinct (cd_slashedParticipants d')) \<and>
     (distinct (map jc_participant (cd_joinChannelParticipants d)) \<longrightarrow>
        distinct (map jc_participant (cd_joinChannelParticipants d')))"

definition posted :: "bytes \<Rightarrow> nat \<Rightarrow> nat \<Rightarrow> address \<Rightarrow> ('st, 'ev) manager \<Rightarrow> bool" where
  "posted c f n a m \<longleftrightarrow> fst (cm_getBlockCallData m c f n a)"

definition posts_kept :: "('st, 'ev) manager \<Rightarrow> ('st, 'ev) manager \<Rightarrow> bool" where
  "posts_kept m m' \<longleftrightarrow> (0 < mg_p2pTime m \<longrightarrow> (\<forall>c f n a. posted c f n a m \<longrightarrow> posted c f n a m'))"

definition ledger_le :: "bool \<Rightarrow> ('st, 'ev) manager \<Rightarrow> ('st, 'ev) manager \<Rightarrow> bool" where
  "ledger_le k m m' \<longleftrightarrow>
     cm_getAllTimes m' = cm_getAllTimes m \<and>
     (\<forall>c. mg_latestFork m c \<le> mg_latestFork m' c) \<and>
     (\<forall>c f. f \<le> mg_latestFork m c \<longrightarrow>
        mg_encodedStates m' c f = mg_encodedStates m c f \<and>
        mg_genesisTimestamps m' c f = mg_genesisTimestamps m c f) \<and>
     (\<forall>c f. \<exists>ks. fda_keys (mg_posted m' c f) = fda_keys (mg_posted m c f) @ ks) \<and> posts_kept m m' \<and>
     (\<forall>c. dispute_le k (mg_disputes m c) (mg_disputes m' c)) \<and>
     (\<exists>es. mg_events m' = mg_events m @ es)"

lemma dispute_le_refl [simp]: "dispute_le k d d"
  by (simp add: dispute_le_def)

lemma dispute_le_trans: "dispute_le k a b \<Longrightarrow> dispute_le k b c \<Longrightarrow> dispute_le k a c"
  unfolding dispute_le_def by (elim conjE exE) (intro conjI; simp)

lemma posts_kept_same [simp]: "mg_posted m' = mg_posted m \<Longrightarrow> posts_kept m m'"
  by (simp add: posts_kept_def posted_def cm_getBlockCallData_def)

lemma times_p2p: "cm_getAllTimes m' = cm_getAllTimes m \<Longrightarrow> mg_p2pTime m' = mg_p2pTime m"
  by (simp add: cm_getAllTimes_def)

lemma posts_kept_trans:
  "cm_getAllTimes b = cm_getAllTimes a \<Longrightarrow> posts_kept a b \<Longrightarrow> posts_kept b c \<Longrightarrow> posts_kept a c"
  unfolding posts_kept_def using times_p2p by metis

lemma ledger_le_refl [simp]: "ledger_le k m m"
  by (simp add: ledger_le_def)

lemma ledger_le_trans:
  assumes "ledger_le k a b" "ledger_le k b c"
  shows "ledger_le k a c"
proof -
  have "\<exists>ks. fda_keys (mg_posted c ch f) = fda_keys (mg_posted a ch f) @ ks" for ch f
    using assms unfolding ledger_le_def by (metis append.assoc)
  moreover have "mg_encodedStates c ch f = mg_encodedStates a ch f \<and>
      mg_genesisTimestamps c ch f = mg_genesisTimestamps a ch f" if "f \<le> mg_latestFork a ch" for ch f
    using assms that unfolding ledger_le_def by (metis le_trans)
  moreover have "\<exists>es. mg_events c = mg_events a @ es"
    using assms unfolding ledger_le_def by (metis append.assoc)
  moreover have "mg_latestFork a ch \<le> mg_latestFork c ch" for ch
    using assms unfolding ledger_le_def by (meson le_trans)
  moreover have "posts_kept a c"
    using assms posts_kept_trans unfolding ledger_le_def by blast
  moreover have "dispute_le k (mg_disputes a ch) (mg_disputes c ch)" for ch
    using assms dispute_le_trans unfolding ledger_le_def by blast
  ultimately show ?thesis using assms unfolding ledger_le_def by simp
qed

lemma dispute_le_weaken: "dispute_le True d d' \<Longrightarrow> dispute_le k d d'"
  by (auto simp: dispute_le_def)

lemma ledger_le_weaken: "ledger_le True m m' \<Longrightarrow> ledger_le k m m'"
  unfolding ledger_le_def using dispute_le_weaken by blast

interpretation ldg: preserved "ledger_le k :: ('st, 'ev) manager \<Rightarrow> ('st, 'ev) manager \<Rightarrow> bool" for k
  by unfold_locales (auto intro: ledger_le_trans)

section \<open>Functions of the contract\<close>

named_theorems lg_keeps \<open>actions that keep \<open>ledger_le\<close>\<close>

lemmas lg_basic [lg_keeps] = ldg.bind ldg.pure

lemma lg_require [lg_keeps]: "keeps (ledger_le k) (require c msg)"
  by (simp add: keeps_def require_def)

lemma lg_message_call [lg_keeps]: "keeps (ledger_le k) f \<Longrightarrow> keeps (ledger_le k) (message_call f)"
  by (auto simp: keeps_def message_call_def split: prod.split sum.split) (metis snd_conv)

lemma lg_transact [lg_keeps]: "keeps (ledger_le k) f \<Longrightarrow> keeps (ledger_le k) (transact f)"
  unfolding transact_def by (rule lg_message_call)

lemma lg_self_call [lg_keeps]: "(\<And>ctx. keeps (ledger_le k) (f ctx)) \<Longrightarrow> keeps (ledger_le k) (self_call ctx f)"
  unfolding self_call_def by (intro lg_keeps)

lemma lg_onlySelf [lg_keeps]: "keeps (ledger_le k) f \<Longrightarrow> keeps (ledger_le k) (onlySelf ctx f)"
  unfolding onlySelf_def by (intro lg_keeps)

lemma lg_on_machine [lg_keeps]: "keeps (ledger_le k) (on_machine f)"
  by (auto simp: keeps_def on_machine_def ledger_le_def cm_getAllTimes_def split: prod.split)

lemma lg_log_event [lg_keeps]: "keeps (ledger_le k) (log_event e)"
  unfolding log_event_def by (rule ldg.modify) (simp add: ledger_le_def cm_getAllTimes_def)

lemma lg_dget [lg_keeps]: "keeps (ledger_le k) (dget c)"
  unfolding dget_def by (intro lg_keeps)

lemma lg_dput: "(\<And>d. dispute_le k d (f d)) \<Longrightarrow> keeps (ledger_le k) (dput c f)"
  unfolding dput_def by (rule ldg.modify) (simp add: ledger_le_def cm_getAllTimes_def)

lemma lg_dput_frame [lg_keeps]:
  "keeps (ledger_le k) (dput c (\<lambda>d. d\<lparr>cd_timedoutParticipant := a\<rparr>))"
  "keeps (ledger_le k) (dput c (\<lambda>d. d\<lparr>cd_timedoutParticipant := a, cd_timeoutDisputer := b\<rparr>))"
  "keeps (ledger_le k) (dput c (\<lambda>d. d\<lparr>cd_processExits := pes\<rparr>))"
  "keeps (ledger_le k) (dput c (\<lambda>d. d\<lparr>cd_encodedLatestCorrectState := enc\<rparr>))"
  by (rule lg_dput, simp add: dispute_le_def)+

lemma lg_case_prod [lg_keeps]: "(\<And>x y. keeps R (f x y)) \<Longrightarrow> keeps R (case p of (x, y) \<Rightarrow> f x y)"
  by (cases p) simp

lemma lg_if [lg_keeps]: "keeps R f \<Longrightarrow> keeps R g \<Longrightarrow> keeps R (if b then f else g)"
  by simp

lemma lg_require_signed [lg_keeps]: "keeps (ledger_le k) (require_signed L as d ss msg)"
  unfolding require_signed_def by (intro lg_keeps)

lemma lg_getParticipants [lg_keeps]: "keeps (ledger_le k) (cm_getParticipants D c f)"
proof -
  have "keeps (ledger_le k) (sbind (on_machine (ast_setState (dp_machine D) enc)) (\<lambda>_.
      sread (\<lambda>m. mc_getParticipants (dp_machine D) (mg_machine m))))" for enc by (intro lg_keeps)
  then show ?thesis by (simp add: keeps_def cm_getParticipants_def)
qed

lemma lg_getNextToWrite [lg_keeps]: "keeps (ledger_le k) (cm_getNextToWrite D enc)"
  unfolding cm_getNextToWrite_def by (intro lg_keeps)

lemma lg_setState [lg_keeps]: "keeps (ledger_le k) (cm_setState ctx c enc)"
  by (auto simp: keeps_def cm_setState_def sbind_def sread_def smodify_def log_event_def uadd_def ledger_le_def
      cm_getAllTimes_def)

lemma lg_proxies [lg_keeps]:
  "keeps (ledger_le k) (px_applyJoinChannelToStateMachine D enc jcs)"
  "keeps (ledger_le k) (px_applySlashesToStateMachine D enc as)"
  "keeps (ledger_le k) (px_removeParticipantsFromStateMachine D enc as)"
  unfolding px_applyJoinChannelToStateMachine_def px_applySlashesToStateMachine_def
    px_removeParticipantsFromStateMachine_def by (intro lg_keeps)+

lemma lg_execute [lg_keeps]: "keeps (ledger_le k) (px_executeStateTransitionOnState D enc tx)"
proof -
  have "keeps (ledger_le k) (\<lambda>m. case on_machine (ast_stateTransition (dp_machine D) (dp_machineAddress D) tx) m of
      (Inl _, m') \<Rightarrow> (Inr False, m') | (Inr _, m') \<Rightarrow> (Inr True, m'))"
    using lg_on_machine [of k "ast_stateTransition (dp_machine D) (dp_machineAddress D) tx"]
    by (auto simp: keeps_def split: prod.split sum.split) (metis snd_conv)+
  then show ?thesis unfolding px_executeStateTransitionOnState_def by (intro lg_keeps)
qed

section \<open>Fraud proofs\<close>

lemma lg_slash [lg_keeps]: "keeps (ledger_le k) (df_slash c a)"
  by (auto simp: keeps_def df_slash_def dget_def dput_def sbind_def sread_def smodify_def sreturn_def
      insertIfNotExist_def ledger_le_def dispute_le_def cm_getAllTimes_def)

lemma lg_tryCancelFold [lg_keeps]: "keeps (ledger_le k) (df_tryCancelFold c n)"
  unfolding df_tryCancelFold_def by (rule lg_dput) (simp add: dispute_le_def)

lemma lg_foldRechallenge [lg_keeps]: "keeps (ledger_le k) (df_applyFoldRechallengeProof L c prf)"
  unfolding df_applyFoldRechallengeProof_def by (intro lg_keeps)

lemma lg_doubleSigns: "keeps (ledger_le k) (df_doubleSigns L c ss b)"
proof (induction ss arbitrary: b)
  case (Cons s ss)
  obtain s1 s2 where s: "s = (s1, s2)" by (cases s)
  show ?case unfolding s df_doubleSigns.simps by (intro lg_keeps Cons.IH)
qed (simp add: lg_keeps)

lemma lg_doubleSign [lg_keeps]: "keeps (ledger_le k) (df_applyDoubleSignProof L c ss)"
  unfolding df_applyDoubleSignProof_def by (rule lg_doubleSigns)

lemma lg_incorrectData [lg_keeps]: "keeps (ledger_le k) (df_applyIncorrectDataProof D c prf)"
  unfolding df_applyIncorrectDataProof_def Let_def by (intro lg_keeps)

lemma lg_newerState [lg_keeps]: "keeps (ledger_le k) (df_applyNewerStateProof L c prf)"
  unfolding df_applyNewerStateProof_def by (intro lg_keeps)

lemma lg_foldPriorBlock [lg_keeps]: "keeps (ledger_le k) (df_applyFoldPriorBlockProof L ctx c n)"
  unfolding df_applyFoldPriorBlockProof_def Let_def by (intro lg_keeps)

lemma lg_blockTooFar [lg_keeps]: "keeps (ledger_le k) (df_applyBlockTooFarInFutureProof L ctx c sb)"
  unfolding df_applyBlockTooFarInFutureProof_def by (intro lg_keeps)

text \<open>The hooks of the application are its own code.\<close>

definition hooks_ok :: "('st, 'ev) deployment \<Rightarrow> bool" where
  "hooks_ok D \<longleftrightarrow> (\<forall>jc. keeps (ledger_le True) (dp_addParticipantComposable D jc)) \<and>
     (\<forall>c pe. keeps (ledger_le True) (dp_removeParticipantComposable D c pe))"

lemma hooks_okD [lg_keeps]:
  "hooks_ok D \<Longrightarrow> keeps (ledger_le k) (dp_addParticipantComposable D jc)"
  "hooks_ok D \<Longrightarrow> keeps (ledger_le k) (dp_removeParticipantComposable D c pe)"
  using ledger_le_weaken unfolding hooks_ok_def keeps_def by blast+

lemma example_hooks_ok:
  "dp_addParticipantComposable D = example_addParticipantComposable \<Longrightarrow>
   dp_removeParticipantComposable D = example_removeParticipantComposable \<Longrightarrow> hooks_ok D"
  by (simp add: hooks_ok_def example_addParticipantComposable_def example_removeParticipantComposable_def lg_keeps)

lemma insertJoin_le:
  "dispute_le k d (d\<lparr>cd_joinChannelParticipants := snd (insertJoinChannelIfNotExist jc (cd_joinChannelParticipants d))\<rparr>)"
  by (auto simp: insertJoinChannelIfNotExist_def dispute_le_def)

lemma lg_insertJoin [lg_keeps]:
  fixes f :: "bool \<Rightarrow> ('st, 'ev, 'a) manager_act"
  assumes "\<And>b. keeps (ledger_le k) (f b)"
  shows "keeps (ledger_le k) (sbind (sread (\<lambda>m. Inr (insertJoinChannelIfNotExist jc (cd_joinChannelParticipants (mg_disputes m c)))))
       (\<lambda>(inserted, array). sbind (dput c (\<lambda>d. d\<lparr>cd_joinChannelParticipants := array\<rparr>)) (\<lambda>_. f inserted)))"
  unfolding keeps_def
proof
  fix m :: "('st, 'ev) manager"
  let ?r = "insertJoinChannelIfNotExist jc (cd_joinChannelParticipants (mg_disputes m c))"
  let ?m = "m\<lparr>mg_disputes := (mg_disputes m)(c := (mg_disputes m c)\<lparr>cd_joinChannelParticipants := snd ?r\<rparr>)\<rparr>"
  have "ledger_le k m ?m" using insertJoin_le [of k "mg_disputes m c" jc] by (simp add: ledger_le_def cm_getAllTimes_def)
  moreover have "ledger_le k ?m (snd (f (fst ?r) ?m))" using assms by (simp add: keeps_def)
  ultimately have "ledger_le k m (snd (f (fst ?r) ?m))" by (rule ledger_le_trans)
  then show "ledger_le k m (snd (sbind (sread (\<lambda>m. Inr (insertJoinChannelIfNotExist jc (cd_joinChannelParticipants (mg_disputes m c)))))
       (\<lambda>(inserted, array). sbind (dput c (\<lambda>d. d\<lparr>cd_joinChannelParticipants := array\<rparr>)) (\<lambda>_. f inserted)) m))"
    by (simp add: sbind_def sread_def dput_def smodify_def split_beta)
qed

lemma lg_joinProof [lg_keeps]: "hooks_ok D \<Longrightarrow> keeps (ledger_le k) (df_applyJoinChannelProof D ctx c prf)"
  unfolding df_applyJoinChannelProof_def Let_def by (intro lg_keeps)

lemma lg_applyProof [lg_keeps]: "hooks_ok D \<Longrightarrow> keeps (ledger_le k) (df_applyProof D ctx c p)"
  unfolding df_applyProof_def Let_def by (intro lg_keeps)

lemma lg_proofs_loop [lg_keeps]: "hooks_ok D \<Longrightarrow> keeps (ledger_le k) (df_proofs_loop D ctx c ps b)"
  by (induction ps arbitrary: b) (simp_all add: lg_keeps)

lemma lg_applyProofs [lg_keeps]: "hooks_ok D \<Longrightarrow> keeps (ledger_le k) (df_applyProofs D ctx c ps)"
  unfolding df_applyProofs_def by (intro lg_keeps)

section \<open>Transactions\<close>

lemma lg_pushExits [lg_keeps]: "keeps (ledger_le k) (df_pushExits c pes n)"
  unfolding df_pushExits_def by (rule lg_dput) (simp add: dispute_le_def)

lemma lg_applyDispute [lg_keeps]: "keeps (ledger_le k) (df_applyDisputeToLatestState D ctx c)"
  unfolding df_applyDisputeToLatestState_def by (intro lg_keeps)

lemma lg_checkTimeout [lg_keeps]: "keeps (ledger_le k) (df_checkTimeout D ctx c f enc vs a n)"
  unfolding df_checkTimeout_def Let_def by (intro lg_keeps)

lemma lg_create [lg_keeps]:
  assumes "hooks_ok D"
  shows "keeps (ledger_le False) (createDispute D ctx c f fin lat vs a n ps)"
  unfolding createDispute_def df_createDispute_def
  by (intro lg_keeps lg_dput assms) (simp add: dispute_le_def)

lemma lg_challenge [lg_keeps]:
  assumes "hooks_ok D"
  shows "keeps (ledger_le False) (challengeDispute D ctx c f n ps vs fin lat)"
  unfolding challengeDispute_def df_challengeDispute_def Let_def
  by (intro lg_keeps lg_dput assms) (simp add: dispute_le_def)

lemma lg_readI:
  "(\<And>x. g m = Inr x \<Longrightarrow> ledger_le k m (snd (f x m))) \<Longrightarrow> ledger_le k m (snd (sbind (sread g) f m))"
  by (cases "g m") (simp_all add: sbind_def sread_def)

lemma lg_requireI:
  "(g m \<Longrightarrow> ledger_le k m (snd (f () m))) \<Longrightarrow> ledger_le k m (snd (sbind (require g msg) f m))"
  by (simp add: sbind_def require_def)

lemma lg_signedI:
  "ledger_le k m (snd (f () m)) \<Longrightarrow> ledger_le k m (snd (sbind (require_signed L as d ss msg) f m))"
  by (cases "verifyThresholdSigned L as d ss") (auto simp: require_signed_def sbind_def sread_def require_def)

text \<open>A post is recorded with the time of the block, which the check of its age makes positive.\<close>

lemma lg_post [lg_keeps]: "keeps (ledger_le k) (postBlockCalldata D ctx sb)"
  unfolding keeps_def postBlockCalldata_def Let_def
proof (intro allI lg_signedI lg_readI lg_requireI)
  fix m :: "('a, 'b) manager" and b oldest
  assume "rbind (usub (block_timestamp ctx) (mg_p2pTime m)) (\<lambda>t. rbind (usub t (mg_agreementTime m)) (\<lambda>t.
    usub t (mg_chainFallbackTime m))) = Inr oldest"
  then have "0 < mg_p2pTime m \<Longrightarrow> block_timestamp ctx \<noteq> 0" by (auto simp: res_simps)
  then show "ledger_le k m (snd (sbind (smodify (\<lambda>m.
       m\<lparr>mg_posted := (mg_posted m)(getBlockChannelId b := (mg_posted m (getBlockChannelId b))(blk_fork b :=
         mg_posted m (getBlockChannelId b) (blk_fork b)
          \<lparr>fda_map := (fda_map (mg_posted m (getBlockChannelId b) (blk_fork b)))(blk_cnt b :=
             (fda_map (mg_posted m (getBlockChannelId b) (blk_fork b)) (blk_cnt b))(msg_sender ctx :=
                \<lparr>bc_signedBlock = sb, bc_timestamp = block_timestamp ctx\<rparr>)),
           fda_keys := fda_keys (mg_posted m (getBlockChannelId b) (blk_fork b)) @ [(blk_cnt b, msg_sender ctx)]\<rparr>))\<rparr>))
       (\<lambda>_. log_event (EventBlockCalldataPosted (getBlockChannelId b) sb (block_timestamp ctx))) m))"
    by (simp add: sbind_def smodify_def log_event_def ledger_le_def cm_getAllTimes_def posts_kept_def posted_def
        cm_getBlockCallData_def Let_def)
qed

lemma lg_exits_removed [lg_keeps]: "hooks_ok D \<Longrightarrow> keeps (ledger_le k) (exits_removed D c pes)"
  by (induction pes) (simp_all add: lg_keeps)

lemma lg_oldExits [lg_keeps]:
  assumes "hooks_ok D"
  shows "keeps (ledger_le k) (px_tryProcessOldExits D ctx c)"
proof -
  have "keeps (ledger_le k) (smodify (\<lambda>m. m\<lparr>mg_disputes := (mg_disputes m)(c := (mg_disputes m c)\<lparr>cd_processExits := []\<rparr>)\<rparr>))"
    by (rule ldg.modify) (simp add: ledger_le_def cm_getAllTimes_def dispute_le_def)
  with assms show ?thesis unfolding px_tryProcessOldExits_def by (intro lg_keeps)
qed

lemma lg_join [lg_keeps]: "hooks_ok D \<Longrightarrow> keeps (ledger_le k) (joinChannelWithAgreement D ctx a enc)"
  unfolding joinChannelWithAgreement_def Let_def by (intro lg_keeps)

lemma lg_leave [lg_keeps]: "hooks_ok D \<Longrightarrow> keeps (ledger_le k) (leaveChannelWithAgreement D ctx a enc)"
  unfolding leaveChannelWithAgreement_def Let_def by (intro lg_keeps)

section \<open>Opening a channel\<close>

text \<open>
  Both example proxies open a channel in one way: the checks, the genesis state made of the requests,
  fork 0, a counter in the game's proxy, the event.
\<close>

definition open_channel ::
  "string \<Rightarrow> evm_lib \<Rightarrow> (join_channel list \<Rightarrow> bytes sol) \<Rightarrow> ('st, 'ev, unit) manager_act \<Rightarrow>
     call_context \<Rightarrow> bytes \<Rightarrow> bytes list \<Rightarrow> bytes list \<Rightarrow> ('st, 'ev, unit) manager_act" where
  "open_channel name L genesis tally ctx c openData signatures =
     sbind (open_checks name L ctx c openData signatures) (\<lambda>jcs.
     sbind (sread (\<lambda>_. genesis jcs)) (\<lambda>encoded.
     sbind (smodify (store_genesis ctx c encoded)) (\<lambda>_.
     sbind tally (\<lambda>_. log_event (EventSetState c encoded 0 (block_timestamp ctx))))))"

definition count_channel :: "('st, 'ev, unit) manager_act" where
  "count_channel =
     sbind (sread (\<lambda>m. uadd (totalChannelsOpened m) 1)) (\<lambda>n. smodify (\<lambda>m. m\<lparr>totalChannelsOpened := n\<rparr>))"

lemma math_opens:
  "math_openChannel enc L = open_channel ''MathStateChannelManager'' L (\<lambda>jcs. Inr (enc (math_genesis jcs))) (sreturn ())"
  by (simp add: fun_eq_iff math_openChannel_def open_channel_def sbind_def sread_def sreturn_def Let_def
      split: prod.split sum.split)

lemma ttt_opens:
  "ttt_openChannel enc L = open_channel ''TicTacToeStateChannelManager'' L (\<lambda>jcs. rmap enc (ttt_genesis jcs)) count_channel"
proof (intro ext)
  fix ctx c ds ss and m :: "(ttt_state, ttt_event) manager"
  obtain r m' where "open_checks ''TicTacToeStateChannelManager'' L ctx c ds ss m = (r, m')" by (meson surj_pair)
  then show "ttt_openChannel enc L ctx c ds ss m =
      open_channel ''TicTacToeStateChannelManager'' L (\<lambda>jcs. rmap enc (ttt_genesis jcs)) count_channel ctx c ds ss m"
    by (cases r; cases "ttt_genesis (projr r)")
      (simp_all add: ttt_openChannel_def open_channel_def count_channel_def sbind_def sread_def smodify_def Let_def
        split: sum.split)
qed

definition opens_ok :: "('st, 'ev) deployment \<Rightarrow> bool" where
  "opens_ok D \<longleftrightarrow> (\<exists>name genesis tally. tally \<in> {sreturn (), count_channel} \<and>
     dp_openChannel D = open_channel name (dp_lib D) genesis tally)"

lemma math_opens_ok: "dp_openChannel D = math_openChannel enc (dp_lib D) \<Longrightarrow> opens_ok D"
  unfolding opens_ok_def math_opens by blast

lemma ttt_opens_ok: "dp_openChannel D = ttt_openChannel enc (dp_lib D) \<Longrightarrow> opens_ok D"
  unfolding opens_ok_def ttt_opens by blast

lemma check_joins_reads: "snd (check_joins name ctx c jcs m) = m"
  by (induction jcs) (auto simp: sreturn_def sbind_def require_def)

lemma open_checks_reads:
  "open_checks name L ctx c ds ss m = (r, m') \<Longrightarrow> m' = m \<and> (\<forall>jcs. r = Inr jcs \<longrightarrow> \<not> cm_isChannelOpen L m c)"
  using check_joins_reads [of name ctx c _ m]
  by (auto simp: open_checks_def sbind_def sread_def require_def sreturn_def split: prod.splits sum.splits if_splits)
    (metis snd_conv)+

section \<open>Transactions of a channel manager\<close>

definition history_le :: "evm_lib \<Rightarrow> ('st, 'ev) manager \<Rightarrow> ('st, 'ev) manager \<Rightarrow> bool" where
  "history_le L m m' \<longleftrightarrow>
     cm_getAllTimes m' = cm_getAllTimes m \<and> posts_kept m m' \<and> (\<forall>c. mg_latestFork m c \<le> mg_latestFork m' c) \<and>
     (\<forall>c f. f \<le> mg_latestFork m c \<longrightarrow> 0 < f \<or> cm_isChannelOpen L m c \<longrightarrow>
        mg_encodedStates m' c f = mg_encodedStates m c f \<and>
        mg_genesisTimestamps m' c f = mg_genesisTimestamps m c f) \<and>
     (\<forall>c. dispute_le False (mg_disputes m c) (mg_disputes m' c))"

lemma history_le_refl [simp]: "history_le L m m"
  by (simp add: history_le_def)

lemma history_le_trans:
  assumes ab: "history_le L a b" and bc: "history_le L b c"
  shows "history_le L a c"
proof -
  have "mg_encodedStates c ch f = mg_encodedStates a ch f \<and> mg_genesisTimestamps c ch f = mg_genesisTimestamps a ch f"
    if f: "f \<le> mg_latestFork a ch" "0 < f \<or> cm_isChannelOpen L a ch" for ch f
  proof -
    have "cm_isChannelOpen L b ch" if "cm_isChannelOpen L a ch"
    proof -
      have "mg_encodedStates b ch 0 = mg_encodedStates a ch 0" using ab that by (auto simp: history_le_def)
      with that show ?thesis by (simp add: cm_isChannelOpen_def)
    qed
    with f ab bc show ?thesis unfolding history_le_def by (metis le_trans)
  qed
  moreover have "mg_latestFork a ch \<le> mg_latestFork c ch" for ch
    using ab bc unfolding history_le_def by (meson le_trans)
  moreover have "dispute_le False (mg_disputes a ch) (mg_disputes c ch)" for ch
    using ab bc dispute_le_trans unfolding history_le_def by blast
  moreover have "posts_kept a c"
    using ab bc posts_kept_trans unfolding history_le_def by blast
  ultimately show ?thesis using ab bc unfolding history_le_def by simp
qed

lemma ledger_history: "ledger_le False m m' \<Longrightarrow> history_le L m m'"
  by (auto simp: ledger_le_def history_le_def)

lemma open_channel_history:
  assumes "tally \<in> {sreturn (), count_channel}"
  shows "history_le L m (snd (open_channel name L genesis tally ctx c ds ss m))"
proof -
  obtain r m' where checks: "open_checks name L ctx c ds ss m = (r, m')" by (meson surj_pair)
  show ?thesis
  proof (cases r)
    case (Inl e)
    with checks open_checks_reads [OF checks] show ?thesis by (simp add: open_channel_def sbind_def)
  next
    case (Inr jcs)
    then have fresh: "m' = m" "\<not> cm_isChannelOpen L m c" using open_checks_reads [OF checks] by auto
    show ?thesis
    proof (cases "genesis jcs")
      case (Inl e)
      with checks Inr fresh(1) show ?thesis by (simp add: open_channel_def sbind_def sread_def \<open>r = Inr jcs\<close>)
    next
      case gen: (Inr encoded)
      let ?m = "store_genesis ctx c encoded m"
      have stored: "history_le L m ?m"
        using fresh(2) by (auto simp: history_le_def store_genesis_def cm_getAllTimes_def)
      have "keeps (ledger_le False) tally"
        using assms by (auto simp: count_channel_def keeps_def sbind_def sread_def smodify_def sreturn_def uadd_def
            ledger_le_def cm_getAllTimes_def)
      then have "keeps (ledger_le False) (sbind tally (\<lambda>_. log_event (EventSetState c encoded 0 (block_timestamp ctx))))"
        by (intro lg_keeps)
      then have "history_le L ?m (snd (sbind tally (\<lambda>_. log_event (EventSetState c encoded 0 (block_timestamp ctx))) ?m))"
        by (intro ledger_history) (simp add: keeps_def)
      from history_le_trans [OF stored this] checks fresh(1) gen show ?thesis
        by (simp add: open_channel_def sbind_def [of "open_checks name L ctx c ds ss"] sbind_def [of "sread f" for f]
            sbind_def [of "smodify f" for f] sread_def smodify_def \<open>r = Inr jcs\<close>)
    qed
  qed
qed

lemma transact_history:
  "history_le L m (snd (f m)) \<Longrightarrow> history_le L m (snd (transact f m))"
  by (cases "f m"; cases "fst (f m)") (auto simp: transact_def message_call_def)

text \<open>
  The transactions anybody can send to the channel manager: those of the protocol, the public functions
  that run the state machine, those that ask for the sender to be the contract itself, and calls of the
  state machine contract, which do what they want with its storage.
\<close>

inductive chain_step :: "('st, 'ev) deployment \<Rightarrow> ('st, 'ev) manager \<Rightarrow> ('st, 'ev) manager \<Rightarrow> bool" for D where
  ch_open: "transact (dp_openChannel D ctx c ds ss) m = (r, m') \<Longrightarrow> chain_step D m m'"
| ch_create: "createDispute D ctx c f fin lat vs a n ps m = (r, m') \<Longrightarrow> chain_step D m m'"
| ch_challenge: "challengeDispute D ctx c f n ps vs fin lat m = (r, m') \<Longrightarrow> chain_step D m m'"
| ch_post: "transact (postBlockCalldata D ctx sb) m = (r, m') \<Longrightarrow> chain_step D m m'"
| ch_join: "transact (joinChannelWithAgreement D ctx a enc) m = (r, m') \<Longrightarrow> chain_step D m m'"
| ch_leave: "transact (leaveChannelWithAgreement D ctx a enc) m = (r, m') \<Longrightarrow> chain_step D m m'"
| ch_execute: "transact (px_executeStateTransitionOnState D enc tx) m = (r, m') \<Longrightarrow> chain_step D m m'"
| ch_participants: "transact (cm_getParticipants D c f) m = (r, m') \<Longrightarrow> chain_step D m m'"
| ch_next: "transact (cm_getNextToWrite D enc) m = (r, m') \<Longrightarrow> chain_step D m m'"
| ch_added: "transact (onlySelf ctx (dp_addParticipantComposable D jc)) m = (r, m') \<Longrightarrow> chain_step D m m'"
| ch_removed: "transact (onlySelf ctx (dp_removeParticipantComposable D c pe)) m = (r, m') \<Longrightarrow> chain_step D m m'"
| ch_applyJoin: "transact (onlySelf ctx (px_applyJoinChannelToStateMachine D enc jcs)) m = (r, m') \<Longrightarrow> chain_step D m m'"
| ch_applySlashes: "transact (onlySelf ctx (px_applySlashesToStateMachine D enc as)) m = (r, m') \<Longrightarrow> chain_step D m m'"
| ch_removeParticipants:
    "transact (onlySelf ctx (px_removeParticipantsFromStateMachine D enc as)) m = (r, m') \<Longrightarrow> chain_step D m m'"
| ch_machine: "transact (on_machine (f :: ('st, 'ev, unit) contract_act)) m = (r, m') \<Longrightarrow> chain_step D m m'"

lemma kept_history: "keeps (ledger_le False) f \<Longrightarrow> f m = (r, m') \<Longrightarrow> history_le L m m'"
  by (rule ledger_history) (rule keepsD)

lemma chain_step_le:
  assumes "hooks_ok D" "opens_ok D" "chain_step D m m'"
  shows "history_le (dp_lib D) m m'"
  using assms(3)
proof cases
  case (ch_open ctx c ds ss r)
  obtain name genesis tally where "tally \<in> {sreturn (), count_channel}"
    "dp_openChannel D = open_channel name (dp_lib D) genesis tally"
    using assms(2) unfolding opens_ok_def by blast
  with open_channel_history have "history_le (dp_lib D) m (snd (dp_openChannel D ctx c ds ss m))" by metis
  then have "history_le (dp_lib D) m (snd (transact (dp_openChannel D ctx c ds ss) m))" by (rule transact_history)
  with ch_open show ?thesis by simp
next
  case ch_create
  then show ?thesis by (rule kept_history [OF lg_create [OF assms(1)]])
next
  case ch_challenge
  then show ?thesis by (rule kept_history [OF lg_challenge [OF assms(1)]])
qed (erule kept_history [rotated], intro lg_keeps assms(1))+

lemma chain_steps_le:
  assumes "hooks_ok D" "opens_ok D" "(chain_step D)\<^sup>*\<^sup>* m m'"
  shows "history_le (dp_lib D) m m'"
  using assms(3) by induction (auto intro: history_le_trans chain_step_le [OF assms(1,2)])

section \<open>Transactions that cannot succeed\<close>

text \<open>From a state with \<open>Q\<close> the action never returns.\<close>

definition refuses :: "('s \<Rightarrow> bool) \<Rightarrow> ('e, 's, 'a) eact \<Rightarrow> bool" where
  "refuses Q f \<longleftrightarrow> (\<forall>m x m'. Q m \<longrightarrow> f m \<noteq> (Inr x, m'))"

lemma refuses_first: "refuses Q f \<Longrightarrow> refuses Q (sbind f g)"
  by (auto simp: refuses_def sbind_Inr_iff)

lemma refuses_then:
  assumes "keeps R f" "\<And>m m'. R m m' \<Longrightarrow> Q m \<Longrightarrow> Q m'" "\<And>x. refuses Q (g x)"
  shows "refuses Q (sbind f g)"
  using assms(2,3) keepsD [OF assms(1)] unfolding refuses_def sbind_Inr_iff by blast

lemma refuses_require: "(\<And>m. Q m \<Longrightarrow> \<not> c m) \<Longrightarrow> refuses Q (require c msg)"
  by (auto simp: refuses_def require_def)

lemma refuses_read: "(\<And>m x. Q m \<Longrightarrow> f m \<noteq> Inr x) \<Longrightarrow> refuses Q (sread f)"
  by (auto simp: refuses_def sread_def)

lemma refused_reverts: "refuses Q f \<Longrightarrow> Q m \<Longrightarrow> \<exists>e. transact f m = (Inl e, m)"
  unfolding transact_def message_call_def refuses_def
  by (cases "f m"; cases "fst (f m)") (auto split: sum.splits)

end
