(* ===== verification/VoteRules.thy ===== *)
theory VoteRules
  imports ChainLedger
begin

text \<open>
  What the contract accepts as the latest state of a channel: the exact condition under which
  \<open>isFinalizedAndLatest\<close> answers true.
\<close>

section \<open>The threshold set\<close>

text \<open>The first \<open>n\<close> places of the array hold the expected addresses seen so far, each once.\<close>

definition seen_inv :: "address list \<Rightarrow> address set \<Rightarrow> address list \<Rightarrow> nat \<Rightarrow> bool" where
  "seen_inv P R arr n \<longleftrightarrow> length arr = length P \<and> n \<le> length arr \<and> distinct (take n arr) \<and>
     set (take n arr) = set P \<inter> R"

lemma seen_inv_card: "seen_inv P R arr n \<Longrightarrow> n = card (set P \<inter> R)"
  unfolding seen_inv_def by (metis distinct_card length_take min.absorb2)

lemma tryInsert_run:
  assumes "seen_inv P R arr n"
  shows "\<exists>arr' n'. tryInsertAddressInThresholdSet a arr n P = Inr (arr', n') \<and> seen_inv P (insert a R) arr' n'"
proof (cases "a \<in> set P \<and> a \<notin> R")
  case False
  then have "set P \<inter> insert a R = set P \<inter> R" by auto
  with False assms show ?thesis by (auto simp: tryInsertAddressInThresholdSet_def seen_inv_def)
next
  case True
  have "card (set P \<inter> R) < card (set P)" using True by (intro psubset_card_mono) auto
  then have n: "n < length arr"
    using seen_inv_card [OF assms] card_length [of P] assms unfolding seen_inv_def by linarith
  have "take (Suc n) (arr[n := a]) = take n arr @ [a]"
    using n by (simp add: take_Suc_conv_app_nth)
  then have "seen_inv P (insert a R) (arr[n := a]) (Suc n)"
    using True n assms unfolding seen_inv_def by auto
  with True n assms show ?thesis
    by (auto simp: tryInsertAddressInThresholdSet_def array_put_def seen_inv_def)
qed

lemma vote_signers_run:
  assumes "seen_inv P R arr n"
  shows "case mapM (retriveSignerAddress L eb) ss of
      Inl e \<Rightarrow> vote_signers L eb au P ss b arr n = Inl e
    | Inr as \<Rightarrow> \<exists>arr' n'. vote_signers L eb au P ss b arr n = Inr (b \<or> au \<in> set as, arr', n') \<and>
        seen_inv P (R \<union> set as) arr' n'"
  using assms
proof (induction ss arbitrary: R arr n b)
  case Nil
  then show ?case by auto
next
  case (Cons s ss)
  show ?case
  proof (cases "retriveSignerAddress L eb s")
    case (Inl e)
    then show ?thesis by simp
  next
    case (Inr a)
    obtain arr' n' where t: "tryInsertAddressInThresholdSet a arr n P = Inr (arr', n')" "seen_inv P (insert a R) arr' n'"
      using tryInsert_run [OF Cons.prems] by blast
    show ?thesis
    proof (cases "mapM (retriveSignerAddress L eb) ss")
      case (Inl e)
      with Inr t Cons.IH [OF t(2), of "b \<or> a = au"] show ?thesis by simp
    next
      case r: (Inr as)
      then obtain arr2 n2 where
        "vote_signers L eb au P ss (b \<or> a = au) arr' n' = Inr ((b \<or> a = au) \<or> au \<in> set as, arr2, n2)"
        "seen_inv P (insert a R \<union> set as) arr2 n2"
        using Cons.IH [OF t(2), of "b \<or> a = au"] by auto
      with Inr r t(1) show ?thesis by auto
    qed
  qed
qed

section \<open>The chain of votes\<close>

definition vote_signers_of :: "evm_lib \<Rightarrow> confirmed_block \<Rightarrow> address list sol" where
  "vote_signers_of L v = mapM (retriveSignerAddress L (cb_encodedBlock v)) (cb_signatures v)"

fun votes_linked :: "bool \<Rightarrow> bytes \<Rightarrow> bytes \<Rightarrow> block list \<Rightarrow> bool" where
  "votes_linked finalizes fin prev [] \<longleftrightarrow> True"
| "votes_linked finalizes fin prev (b # bs) \<longleftrightarrow>
     (if finalizes then fin = blk_stateHash b else prev = blk_previousStateHash b) \<and>
     votes_linked False fin (blk_stateHash b) bs"

definition votes_proper :: "bytes \<Rightarrow> nat \<Rightarrow> block list \<Rightarrow> address list list \<Rightarrow> bool" where
  "votes_proper c f bs ss \<longleftrightarrow>
     list_all2 (\<lambda>b as. getBlockChannelId b = c \<and> blk_fork b = f \<and> getBlockAuthor b \<in> set as) bs ss"

lemma check_Inr [res_simps]: "check b msg = Inr u \<longleftrightarrow> b"
  by (simp add: check_def)

lemma check_if:
  "(if q then check a x else check b y) = Inr u \<longleftrightarrow> (if q then a else b)"
  "(if q then check a x else Inr ()) = Inr u \<longleftrightarrow> (q \<longrightarrow> a)"
  by (simp_all add: check_def)

lemma votes_loop_ConsD:
  assumes "votes_loop L c f g fin lat P i (v # vs) prev arr n = Inr k"
  shows "\<exists>b sg arr' n'. lib_decodeBlock L (cb_encodedBlock v) = Inr b \<and> getBlockChannelId b = c \<and> blk_fork b = f \<and>
    vote_signers L (cb_encodedBlock v) (getBlockAuthor b) P (cb_signatures v) False arr n = Inr (sg, arr', n') \<and> sg \<and>
    (if i = 0 \<and> \<not> g then fin = blk_stateHash b else prev = blk_previousStateHash b) \<and>
    (vs = [] \<longrightarrow> blk_stateHash b = lat)"
  using assms unfolding votes_loop.simps rbind_Inr_iff check_Inr check_if
  by (elim exE conjE, simp only: split_beta rbind_Inr_iff check_Inr check_if) (metis prod.collapse)

lemma votes_loop_iff:
  assumes "seen_inv P R arr n"
  shows "votes_loop L c f g fin lat P i vs prev arr n = Inr k \<longleftrightarrow>
    (\<exists>bs ss. mapM (\<lambda>v. lib_decodeBlock L (cb_encodedBlock v)) vs = Inr bs \<and>
       mapM (vote_signers_of L) vs = Inr ss \<and> votes_proper c f bs ss \<and>
       votes_linked (i = 0 \<and> \<not> g) fin prev bs \<and> (bs \<noteq> [] \<longrightarrow> blk_stateHash (last bs) = lat) \<and>
       k = card (set P \<inter> (R \<union> \<Union> (set ` set ss))))"
  using assms
proof (induction vs arbitrary: i prev arr n R)
  case Nil
  then show ?case using seen_inv_card [OF Nil] by (auto simp: votes_proper_def)
next
  case (Cons v vs)
  let ?dec = "\<lambda>v. lib_decodeBlock L (cb_encodedBlock v)"
  show ?case
  proof (cases "\<exists>b as. ?dec v = Inr b \<and> vote_signers_of L v = Inr as \<and> getBlockChannelId b = c \<and>
      blk_fork b = f \<and> getBlockAuthor b \<in> set as \<and>
      (if i = 0 \<and> \<not> g then fin = blk_stateHash b else prev = blk_previousStateHash b) \<and>
      (vs = [] \<longrightarrow> blk_stateHash b = lat)")
    case True
    then obtain b as where b: "?dec v = Inr b" "vote_signers_of L v = Inr as" "getBlockChannelId b = c"
      "blk_fork b = f" "getBlockAuthor b \<in> set as"
      "if i = 0 \<and> \<not> g then fin = blk_stateHash b else prev = blk_previousStateHash b"
      "vs = [] \<longrightarrow> blk_stateHash b = lat" by blast
    obtain arr' n' where s: "vote_signers L (cb_encodedBlock v) (getBlockAuthor b) P (cb_signatures v) False arr n
        = Inr (True, arr', n')" "seen_inv P (R \<union> set as) arr' n'"
      using vote_signers_run [OF Cons.prems, of L "cb_encodedBlock v" "getBlockAuthor b" "cb_signatures v" False]
        b(2,5) unfolding vote_signers_of_def by auto
    have step: "votes_loop L c f g fin lat P i (v # vs) prev arr n =
        votes_loop L c f g fin lat P (Suc i) vs (blk_stateHash b) arr' n'"
      using b s(1) by (auto simp: check_def)
    have last: "bs = [] \<longleftrightarrow> vs = []" if "mapM ?dec vs = Inr bs" for bs
      using that by (auto simp: mapM_Inr_iff)
    show ?thesis
    proof (cases "mapM ?dec vs")
      case (Inl e)
      then show ?thesis unfolding step Cons.IH [OF s(2)] by (simp add: b(1))
    next
      case bs: (Inr bs)
      show ?thesis
      proof (cases "mapM (vote_signers_of L) vs")
        case (Inl e)
        then show ?thesis unfolding step Cons.IH [OF s(2)] by (simp add: b(1,2))
      next
        case (Inr ss)
        with bs last [OF bs] show ?thesis
          unfolding step Cons.IH [OF s(2)] using b
          by (cases "bs = []") (simp_all add: votes_proper_def Un_assoc)
      qed
    qed
  next
    case False
    have "\<not> (\<exists>bs ss. mapM ?dec (v # vs) = Inr bs \<and> mapM (vote_signers_of L) (v # vs) = Inr ss \<and>
        votes_proper c f bs ss \<and> votes_linked (i = 0 \<and> \<not> g) fin prev bs \<and>
        (bs \<noteq> [] \<longrightarrow> blk_stateHash (last bs) = lat))"
    proof (rule notI, elim exE conjE)
      fix bs ss
      assume a: "mapM ?dec (v # vs) = Inr bs" "mapM (vote_signers_of L) (v # vs) = Inr ss" "votes_proper c f bs ss"
        "votes_linked (i = 0 \<and> \<not> g) fin prev bs" "bs \<noteq> [] \<longrightarrow> blk_stateHash (last bs) = lat"
      from a(1) obtain b bs' where b: "?dec v = Inr b" "mapM ?dec vs = Inr bs'" "bs = b # bs'"
        by (auto simp: rbind_Inr_iff)
      from a(2) obtain as ss' where s: "vote_signers_of L v = Inr as" "ss = as # ss'"
        by (auto simp: rbind_Inr_iff)
      have "vs = [] \<longrightarrow> bs' = []" using b(2) by auto
      with False a b s show False by (auto simp: votes_proper_def)
    qed
    moreover have "votes_loop L c f g fin lat P i (v # vs) prev arr n \<noteq> Inr k"
    proof
      assume run: "votes_loop L c f g fin lat P i (v # vs) prev arr n = Inr k"
      obtain b sg arr' n' where r: "?dec v = Inr b" "getBlockChannelId b = c" "blk_fork b = f"
        "vote_signers L (cb_encodedBlock v) (getBlockAuthor b) P (cb_signatures v) False arr n = Inr (sg, arr', n')" "sg"
        "if i = 0 \<and> \<not> g then fin = blk_stateHash b else prev = blk_previousStateHash b"
        "vs = [] \<longrightarrow> blk_stateHash b = lat"
        using votes_loop_ConsD [OF run] by (elim exE conjE) (rule that)
      show False
      proof (cases "vote_signers_of L v")
        case (Inl e)
        with r(4) vote_signers_run [OF Cons.prems, of L "cb_encodedBlock v" "getBlockAuthor b" "cb_signatures v" False]
        show False by (simp add: vote_signers_of_def)
      next
        case (Inr as)
        with r(4,5) vote_signers_run [OF Cons.prems, of L "cb_encodedBlock v" "getBlockAuthor b" "cb_signatures v" False]
        have "getBlockAuthor b \<in> set as" by (auto simp: vote_signers_of_def)
        with Inr r False show False by blast
      qed
    qed
    ultimately show ?thesis by blast
  qed
qed

lemma card_full:
  "card (set P \<inter> R) = length P \<longleftrightarrow> distinct P \<and> set P \<subseteq> R"
proof
  assume a: "card (set P \<inter> R) = length P"
  have "card (set P \<inter> R) \<le> card (set P)" by (intro card_mono) auto
  with a card_length [of P] have "card (set P) = length P" by simp
  then show "distinct P \<and> set P \<subseteq> R"
    using a by (metis List.finite_set card_distinct card_subset_eq inf.absorb_iff1 inf_le1)
next
  assume "distinct P \<and> set P \<subseteq> R"
  then show "card (set P \<inter> R) = length P" by (simp add: distinct_card inf.absorb1)
qed

lemma finalized_iff:
  "df_isFinalizedAndLatest L m c f fin lat vs P = Inr True \<longleftrightarrow>
    (\<exists>bs ss. mapM (\<lambda>v. lib_decodeBlock L (cb_encodedBlock v)) vs = Inr bs \<and>
       mapM (vote_signers_of L) vs = Inr ss \<and> votes_proper c f bs ss \<and>
       votes_linked (\<not> cm_isGenesisState L m c f fin) (lib_keccak256 L fin) (lib_keccak256 L fin) bs \<and>
       (bs \<noteq> [] \<longrightarrow> blk_stateHash (last bs) = lib_keccak256 L lat) \<and>
       (cm_isGenesisState L m c f fin \<or> distinct P \<and> set P \<subseteq> \<Union> (set ` set ss)))"
proof -
  have "seen_inv P {} (replicate (length P) ZeroAddress) 0" by (simp add: seen_inv_def)
  from votes_loop_iff [OF this] show ?thesis
    unfolding df_isFinalizedAndLatest_def Let_def
    by (fastforce simp: rbind_Inr_iff card_full)
qed

end
