(* ===== verification/Bridge.thy ===== *)
theory Bridge
  imports VoteRules AgreementProperties
begin

text \<open>
  Peer and contract together: what the TypeScript code hands to the contract is what the contract
  accepts. Both sides encode, hash and recover signatures by third-party code; \<open>same_coders\<close> says
  that ethers and the EVM read the same fields and hashes of the blocks in question, as the ABI
  prescribes, and find the same signer, as EIP-191 prescribes, where both accept a signature. They do
  not accept the same ones: ethers also takes the compact form of EIP-2098 and a recovery number 0 or 1,
  which the library of the contract refuses. \<open>contract_recovers\<close> says that it accepts.
\<close>

section \<open>Two implementations of the same formats\<close>

definition reads_block :: "ethers \<Rightarrow> evm_lib \<Rightarrow> block \<Rightarrow> block \<Rightarrow> bool" where
  "reads_block E L b b' \<longleftrightarrow> lib_decodeBlock L (encodeBlock E b) = Inr b' \<and>
     blk_stateHash b' = blk_stateHash b \<and> blk_previousStateHash b' = blk_previousStateHash b \<and>
     getBlockChannelId b' = getBlockChannelId b \<and> getBlockAuthor b' = getBlockAuthor b \<and>
     blk_fork b' = blk_fork b \<and> blk_cnt b' = blk_cnt b \<and> blk_time b' = blk_time b"

definition same_coders :: "ethers \<Rightarrow> evm_lib \<Rightarrow> block set \<Rightarrow> bool" where
  "same_coders E L B \<longleftrightarrow> lib_keccak256 L = keccak256 E \<and>
     (\<forall>b \<in> B. (\<exists>b'. reads_block E L b b') \<and>
        (\<forall>s x y. retrieveSignerAddressBlock E b s = Inr x \<longrightarrow> retriveSignerAddress L (encodeBlock E b) s = Inr y \<longrightarrow> x = y))"

definition contract_recovers :: "evm_lib \<Rightarrow> bytes \<Rightarrow> bytes \<Rightarrow> bool" where
  "contract_recovers L e s \<longleftrightarrow> (case retriveSignerAddress L e s of Inl _ \<Rightarrow> False | Inr _ \<Rightarrow> True)"

text \<open>The contract accepts every signature the peer stored with its block.\<close>

definition agreement_recovers :: "ethers \<Rightarrow> evm_lib \<Rightarrow> agreement \<Rightarrow> bool" where
  "agreement_recovers E L a \<longleftrightarrow>
     list_all (contract_recovers L (encodeBlock E (ag_block a))) (ag_blockSignatures a)"

lemma contract_recovers_iff: "contract_recovers L e s \<longleftrightarrow> (\<exists>y. retriveSignerAddress L e s = Inr y)"
  by (simp add: contract_recovers_def split: sum.split)

text \<open>
  A fork as the peer replayed it: every block is of its channel and fork, signed by its author,
  commits to the state stored with it and builds on the one before.
\<close>

definition replayed :: "ethers \<Rightarrow> bytes \<Rightarrow> nat \<Rightarrow> agreement_fork \<Rightarrow> bool" where
  "replayed E c f fork \<longleftrightarrow>
     (\<forall>i < length (agreements fork). let a = agreements fork ! i; b = ag_block a in
        getBlockChannelId b = c \<and> blk_fork b = f \<and> getBlockAuthor b \<in> signers_of E a \<and>
        blk_stateHash b = keccak256 E (ag_encodedState a) \<and>
        blk_previousStateHash b = keccak256 E
          (if i = 0 then forkGenesisStateEncoded fork else ag_encodedState (agreements fork ! (i - 1))))"

text \<open>What ethers makes of the struct that \<open>getDispute\<close> returns.\<close>

definition dispute_view :: "chain_dispute \<Rightarrow> dispute" where
  "dispute_view d =
     \<lparr>dsp_channelId = cd_channelId d, dsp_forkCnt = BigInt (cd_forkCnt d),
      dsp_challengeCnt = BigInt (cd_challengeCnt d), dsp_virtualVotingBlocks = cd_virtualVotingBlocks d,
      dsp_timedoutParticipant = cd_timedoutParticipant d,
      dsp_foldedTransactionCnt = BigInt (cd_foldedTransactionCnt d),
      dsp_postedStateDisputer = cd_postedStateDisputer d, dsp_slashedParticipants = cd_slashedParticipants d\<rparr>"

section \<open>Votes\<close>

lemma votes_linked_range:
  assumes "\<And>i. m < i \<Longrightarrow> i < n \<Longrightarrow> blk_previousStateHash (B i) = blk_stateHash (B (i - 1))"
    and "m < n \<Longrightarrow> if fz then fin = blk_stateHash (B m) else prev = blk_previousStateHash (B m)"
  shows "votes_linked fz fin prev (map B [m..<n])"
  using assms
proof (induction "n - m" arbitrary: m fz prev)
  case 0
  then show ?case by simp
next
  case (Suc d)
  then have "m < n" by simp
  moreover have "votes_linked False fin (blk_stateHash (B m)) (map B [Suc m..<n])"
    using Suc.prems(1) [of "Suc m"] by (intro Suc.hyps(1)) (use Suc in auto)
  ultimately show ?case using Suc.prems(2) by (simp add: upt_conv_Cons)
qed

lemma mapM_each: "mapM f xs = Inr ys \<Longrightarrow> x \<in> set xs \<Longrightarrow> \<exists>y. f x = Inr y"
  by (auto simp: mapM_Inr_iff list_all2_conv_all_nth in_set_conv_nth)

lemma votes_recovered:
  "(\<exists>ss. vote_signers_of L (confirmed_of E a) = Inr ss) \<longleftrightarrow> agreement_recovers E L a"
proof
  assume "\<exists>ss. vote_signers_of L (confirmed_of E a) = Inr ss"
  then obtain ss where "mapM (retriveSignerAddress L (encodeBlock E (ag_block a))) (ag_blockSignatures a) = Inr ss"
    by (auto simp: vote_signers_of_def confirmed_of_def)
  from mapM_each [OF this] show "agreement_recovers E L a"
    unfolding agreement_recovers_def list_all_iff contract_recovers_iff by blast
next
  assume "agreement_recovers E L a"
  then show "\<exists>ss. vote_signers_of L (confirmed_of E a) = Inr ss"
    unfolding vote_signers_of_def confirmed_of_def agreement_recovers_def list_all_iff contract_recovers_iff
    using mapM_total [of "ag_blockSignatures a" "retriveSignerAddress L (encodeBlock E (ag_block a))"] by simp
qed

lemma votes_signers:
  assumes "same_coders E L B" "ag_block a \<in> B" "recoverable E a" "vote_signers_of L (confirmed_of E a) = Inr ss"
  shows "set ss = signers_of E a"
proof -
  have ss: "mapM (retriveSignerAddress L (encodeBlock E (ag_block a))) (ag_blockSignatures a) = Inr ss"
    using assms(4) by (simp add: vote_signers_of_def confirmed_of_def)
  have "\<exists>x. retrieveSignerAddressBlock E (ag_block a) s = Inr x \<and>
      retriveSignerAddress L (encodeBlock E (ag_block a)) s = Inr x" if s: "s \<in> set (ag_blockSignatures a)" for s
  proof -
    obtain x where x: "retrieveSignerAddressBlock E (ag_block a) s = Inr x" using assms(3) s unfolding recoverable_def by blast
    obtain y where y: "retriveSignerAddress L (encodeBlock E (ag_block a)) s = Inr y"
      using votes_recovered assms(4) s unfolding agreement_recovers_def list_all_iff contract_recovers_iff by blast
    from x y assms(1,2) have "x = y" unfolding same_coders_def by blast
    with x y show ?thesis by blast
  qed
  then show ?thesis
    using mapM_set [OF ss] unfolding signers_of_def by fastforce
qed

lemma window_accepted:
  assumes coders: "same_coders E L (ag_block ` set (agreements fork))"
    and rec: "\<forall>a \<in> set (agreements fork). recoverable E a"
    and rp: "replayed E c f fork" and mk: "m \<le> k" "k < length (agreements fork)"
    and dist: "distinct P" and cover: "set P \<subseteq> (\<Union>i \<in> {m..k}. signers_of E (agreements fork ! i))"
    and gen: "\<not> cm_isGenesisState L mg c f (ag_encodedState (agreements fork ! m))"
  shows "df_isFinalizedAndLatest L mg c f (ag_encodedState (agreements fork ! m)) (ag_encodedState (agreements fork ! k))
      (map (\<lambda>i. confirmed_of E (agreements fork ! i)) [m..<Suc k]) P = Inr True \<longleftrightarrow>
    (\<forall>i \<in> {m..k}. agreement_recovers E L (agreements fork ! i))"
    (is "?accepted \<longleftrightarrow> ?read")
proof
  assume ?accepted
  then obtain ss where "mapM (vote_signers_of L) (map (\<lambda>i. confirmed_of E (agreements fork ! i)) [m..<Suc k]) = Inr ss"
    unfolding finalized_iff by blast
  then have "\<exists>r. vote_signers_of L (confirmed_of E (agreements fork ! i)) = Inr r" if "i \<in> {m..k}" for i
    using that mapM_each [of "vote_signers_of L" _ ss "confirmed_of E (agreements fork ! i)"] by (auto simp del: upt_Suc)
  then show ?read using votes_recovered by blast
next
  assume read: ?read
  let ?a = "\<lambda>i. agreements fork ! i"
  have kec: "lib_keccak256 L = keccak256 E" using coders by (simp add: same_coders_def)
  have inr: "?a i \<in> set (agreements fork)" if "i \<in> {m..k}" for i using that mk by auto
  have "\<exists>b. reads_block E L (ag_block (?a i)) b" if "i \<in> {m..k}" for i
    using coders inr [OF that] unfolding same_coders_def by blast
  then obtain B where B: "\<And>i. i \<in> {m..k} \<Longrightarrow> reads_block E L (ag_block (?a i)) (B i)" by metis
  have "\<exists>ss. vote_signers_of L (confirmed_of E (?a i)) = Inr ss \<and> set ss = signers_of E (?a i)" if "i \<in> {m..k}" for i
    using votes_signers [OF coders _ rec [rule_format, OF inr [OF that]]] inr [OF that] read that votes_recovered by blast
  then obtain S where S: "\<And>i. i \<in> {m..k} \<Longrightarrow> vote_signers_of L (confirmed_of E (?a i)) = Inr (S i)"
      "\<And>i. i \<in> {m..k} \<Longrightarrow> set (S i) = signers_of E (?a i)" by metis
  have rpi: "getBlockChannelId (B i) = c \<and> blk_fork (B i) = f \<and> getBlockAuthor (B i) \<in> signers_of E (?a i) \<and>
      blk_stateHash (B i) = keccak256 E (ag_encodedState (?a i)) \<and>
      blk_previousStateHash (B i) = keccak256 E (if i = 0 then forkGenesisStateEncoded fork else ag_encodedState (?a (i - 1)))"
    if "i \<in> {m..k}" for i
    using rp B [OF that] that mk unfolding replayed_def reads_block_def Let_def by auto
  let ?v = "\<lambda>i. confirmed_of E (?a i)"
  have set_upt: "set [m..<Suc k] = {m..k}" by auto
  have dec: "mapM (\<lambda>v. lib_decodeBlock L (cb_encodedBlock v)) (map ?v [m..<Suc k]) = Inr (map B [m..<Suc k])"
    unfolding mapM_Inr_iff list_all2_map1 list_all2_map2
    by (rule list_all2_same [THEN iffD2]) (use B in \<open>auto simp: reads_block_def confirmed_of_def simp del: upt_Suc\<close>)
  have sig: "mapM (vote_signers_of L) (map ?v [m..<Suc k]) = Inr (map S [m..<Suc k])"
    unfolding mapM_Inr_iff list_all2_map1 list_all2_map2
    by (rule list_all2_same [THEN iffD2]) (use S in \<open>auto simp del: upt_Suc\<close>)
  have proper: "votes_proper c f (map B [m..<Suc k]) (map S [m..<Suc k])"
    unfolding votes_proper_def list_all2_map1 list_all2_map2
    by (rule list_all2_same [THEN iffD2]) (use rpi S in \<open>auto simp del: upt_Suc\<close>)
  have link: "votes_linked True (keccak256 E (ag_encodedState (?a m))) (keccak256 E (ag_encodedState (?a m))) (map B [m..<Suc k])"
  proof (rule votes_linked_range)
    fix i assume "m < i" "i < Suc k"
    then have "i \<in> {m..k}" "i - 1 \<in> {m..k}" "i \<noteq> 0" by auto
    then show "blk_previousStateHash (B i) = blk_stateHash (B (i - 1))" using rpi [of i] rpi [of "i - 1"] by auto
  qed (use rpi mk in auto)
  have last: "blk_stateHash (last (map B [m..<Suc k])) = keccak256 E (ag_encodedState (?a k))"
    using rpi [of k] mk by simp
  have "set P \<subseteq> \<Union> (set ` set (map S [m..<Suc k]))" unfolding set_map set_upt using cover S(2) by (auto simp del: upt_Suc)
  then show ?accepted
    unfolding finalized_iff kec using dec sig proper link last gen dist by (auto simp del: upt_Suc)
qed

lemma sample_window: "{m..Suc m} = {m, Suc m}"
  by auto

section \<open>A library that agrees with the sample coder\<close>

definition sampleL :: evm_lib where
  "sampleL =
     \<lparr>lib_keccak256 = (\<lambda>s. CHR ''#'' # s), lib_encodePacked = (\<lambda>p h. h),
      lib_recover = (\<lambda>h s. if s = [] \<or> hd s = CHR ''!'' then Inl (Reverted ''ECDSA: invalid signature'')
                           else if CHR ''#'' # tl s = h then Inr [hd s] else Inr ''unknown''),
      lib_decodeBlock = (\<lambda>s. case map_of sample_blocks s of None \<Rightarrow> Inl NoData | Some b \<Rightarrow> Inr b),
      lib_decodeJoinChannel = (\<lambda>_. Inl NoData), lib_decodeSignedJoinChannel = (\<lambda>_. Inl NoData),
      lib_decodeJoinChannelAgreement = (\<lambda>_. Inl NoData), lib_decodeLeaveChannel = (\<lambda>_. Inl NoData),
      lib_decodeFoldRechallenge = (\<lambda>_. Inl NoData),
      lib_decodeDoubleSign = (\<lambda>s. if s = ''p'' then Inr
          [(\<lparr>sb_encodedBlock = ''c0'', sb_signature = ''B#c0''\<rparr>,
            \<lparr>sb_encodedBlock = ''b0'', sb_signature = ''B#b0''\<rparr>)] else Inl NoData),
      lib_decodeIncorrectData = (\<lambda>_. Inl NoData), lib_decodeNewerState = (\<lambda>_. Inl NoData),
      lib_decodeFoldPriorBlock = (\<lambda>s. if s = ''0'' then Inr 0 else Inl NoData),
      lib_decodeBlockTooFar = (\<lambda>_. Inl NoData), lib_decodeJoinProof = (\<lambda>_. Inl NoData)\<rparr>"

lemma sampleL_fields [simp]:
  "lib_keccak256 sampleL s = CHR ''#'' # s"
  "retriveSignerAddress sampleL e (sig_of c e') =
     (if c = CHR ''!'' then Inl (Reverted ''ECDSA: invalid signature'')
      else if e' = e then Inr [c] else Inr ''unknown'')"
  "lib_decodeBlock sampleL ''b0'' = Inr block0" "lib_decodeBlock sampleL ''b1'' = Inr block1"
  "lib_decodeBlock sampleL ''c0'' = Inr block0'"
  by (auto simp: sampleL_def retriveSignerAddress_def sig_of_def ethSignedMessage_def sample_blocks_def)

lemma sample_positions' [simp]:
  "blk_fork block0 = 0" "blk_cnt block0 = 0" "blk_fork block1 = 0" "blk_cnt block1 = 1"
  "blk_fork block0' = 0" "blk_cnt block0' = 0"
  by (simp_all add: blk_fork_def blk_cnt_def block0_def block1_def block0'_def mk_block_def)

lemma sample_recovered:
  "retrieveSignerAddressBlock sampleE b s = Inr x \<Longrightarrow> retriveSignerAddress sampleL (encodeBlock sampleE b) s = Inr x"
  by (auto simp: retrieveSignerAddressBlock_def retriveSignerAddress_def ethSignedMessage_def
      sampleL_def sampleE_def encodeBlock_def split: if_splits)

lemma sample_coders: "same_coders sampleE sampleL {block0, block1, block0'}"
proof -
  have "lib_keccak256 sampleL = keccak256 sampleE" by (simp add: sampleL_def sampleE_def)
  moreover have "reads_block sampleE sampleL b b" if "b \<in> {block0, block1, block0'}" for b
    using that by (auto simp: reads_block_def)
  ultimately show ?thesis unfolding same_coders_def using sample_recovered by fastforce
qed

lemma sample_replayed: "replayed sampleE ''ch'' 0 (sample_fork sample_chain)"
  by (auto simp: replayed_def Let_def less_Suc_eq sample_chain_def signers_of_def)

lemma sample_forked_recoverable: "\<forall>a \<in> set sample_chain. recoverable sampleE a"
  by (auto simp: sample_chain_def recoverable_def)

lemma sample_agreement_recovers: "recoverable sampleE a \<Longrightarrow> agreement_recovers sampleE sampleL a"
  using sample_recovered unfolding recoverable_def agreement_recovers_def list_all_iff contract_recovers_iff by blast

end
