(* ===== verification/ContractGameProperties.thy ===== *)
theory ContractGameProperties
  imports ChannelManager Sample
begin

text \<open>
  Properties of the game contract \<open>TicTacToeStateMachine.sol\<close>, with its client.
\<close>

section \<open>The game\<close>

lemma genesis_ok:
  assumes "ttt_genesis [j1, j2] = Inr s" "jc_participant j1 \<noteq> jc_participant j2"
    and "num_value (jc_amount j1) + num_value (jc_amount j2) < 2 ^ 256"
  shows "ttt_ok (num_value (jc_amount j1) + num_value (jc_amount j2)) s"
  using assms by (auto simp: ttt_genesis_def array_at_def ttt_ok_def)

text \<open>
  C11. Opened by two different players, the game stays legal whatever transactions reach the
  contract, refused ones included: both players are in it, the deposits are all there, the marks
  alternate with nobody having three in a line, and it is the turn of the player the move count
  names.
\<close>

theorem game_stays_legal:
  assumes "ttt_genesis [j1, j2] = Inr s" "jc_participant j1 \<noteq> jc_participant j2"
    and "num_value (jc_amount j1) + num_value (jc_amount j2) < 2 ^ 256"
    and "reach (\<lambda>c. sc_state c = s \<and> \<not> sc_nonreentrant c) (ttt_step enc dec D this_adr) c"
  shows "ttt_ok (num_value (jc_amount j1) + num_value (jc_amount j2)) (sc_state c) \<and> \<not> sc_nonreentrant c"
proof -
  let ?funds = "num_value (jc_amount j1) + num_value (jc_amount j2)"
  have "reach (game_inv ?funds) (ttt_step enc dec D this_adr) c"
    using assms(4)
  proof (induction rule: reach.induct)
    case (reach_init c)
    then show ?case by (intro reach.reach_init) (simp add: game_inv_def genesis_ok [OF assms(1-3)])
  next
    case (reach_step c c')
    from reach_step(3,2) show ?case by (rule reach.reach_step)
  qed
  then have "game_inv ?funds c" by (rule game_sys.inv_reach)
  then show ?thesis by (simp add: game_inv_def)
qed

definition sample_join :: "address \<Rightarrow> join_channel" where
  "sample_join a = \<lparr>jc_channelId = ''ch'', jc_participant = a, jc_amount = BigInt 500,
     jc_deadlineTimestamp = BigInt 200, jc_data = ''0x''\<rparr>"

definition sample_game :: ttt_state where
  "sample_game = \<lparr>ttt_participants = [''A'', ''B''], ttt_balances = [500, 500], ttt_board = empty_grid,
     ttt_currentPlayer = ''A'', ttt_gameActive = True, ttt_movesCount = 0, ttt_betAmount = 50\<rparr>"

definition sample_contract :: "ttt_state \<Rightarrow> ttt_contract" where
  "sample_contract s = \<lparr>sc_tx = blk_transaction block1, sc_nonreentrant = False, sc_state = s, sc_events = []\<rparr>"

lemma sample_genesis: "ttt_genesis [sample_join ''A'', sample_join ''B''] = Inr sample_game"
  by (simp add: ttt_genesis_def sample_join_def sample_game_def array_at_def)

theorem game_stays_legal_witness:
  "\<exists>c r. ast_stateTransition (ttt_machine (\<lambda>_. ''s'') (\<lambda>_. Inr sample_game) (\<lambda>_. CallMakeMove 1 1)) ''sm'' (blk_transaction block1)
      (sample_contract sample_game) = (r, c) \<and> ttt_ok 1000 (sc_state c)"
proof -
  obtain r c where run: "ast_stateTransition (ttt_machine (\<lambda>_. ''s'') (\<lambda>_. Inr sample_game) (\<lambda>_. CallMakeMove 1 1)) ''sm'' (blk_transaction block1)
      (sample_contract sample_game) = (r, c)" by (meson surj_pair)
  have "reach (\<lambda>c. sc_state c = sample_game \<and> \<not> sc_nonreentrant c)
      (ttt_step (\<lambda>_. ''s'') (\<lambda>_. Inr sample_game) (\<lambda>_. CallMakeMove 1 1) ''sm'') c"
  proof (rule reach_step)
    show "ttt_step (\<lambda>_. ''s'') (\<lambda>_. Inr sample_game) (\<lambda>_. CallMakeMove 1 1) ''sm'' (sample_contract sample_game) c"
      by (rule ttt_transition [OF run])
    show "reach (\<lambda>c. sc_state c = sample_game \<and> \<not> sc_nonreentrant c)
        (ttt_step (\<lambda>_. ''s'') (\<lambda>_. Inr sample_game) (\<lambda>_. CallMakeMove 1 1) ''sm'') (sample_contract sample_game)"
      by (rule reach_init) (simp add: sample_contract_def)
  qed
  with game_stays_legal [OF sample_genesis, of "\<lambda>_. ''s''" "\<lambda>_. Inr sample_game" "\<lambda>_. CallMakeMove 1 1" "''sm''" c] run
  show ?thesis by (auto simp: sample_join_def)
qed

text \<open>
  C18. After any accepted move the board of the client shows a winner exactly when the contract's
  test on the cell just played says so, and then it is the player who moved.
\<close>

theorem client_sees_winner:
  assumes "ttt_ok funds (sc_state c)" "can_move row col c"
  shows "calculateWinner (ui_board (next_board row col (sc_state c))) =
    (if checkWinner (next_board row col (sc_state c)) row col then ui_cell (mark_of (sc_state c)) else None)"
proof -
  let ?s = "sc_state c" and ?b = "next_board row col (sc_state c)"
  define m where "m = mark_of ?s"
  define p where "p = (if m = CX then CO else CX)"
  have g: "grid (ttt_board ?s)" "\<not> wins m (ttt_board ?s)" "\<not> wins p (ttt_board ?s)" "m \<noteq> CNone" "p \<noteq> CNone" "m \<noteq> p"
    using assms(1) by (auto simp: ttt_ok_def m_def p_def mark_of_def)
  have rc: "row < 3" "col < 3" "board_cell (ttt_board ?s) row col = CNone"
    using assms(2) by (auto simp: can_move_def)
  have b: "?b = board_put (ttt_board ?s) row col m" by (simp add: next_board_def m_def)
  have win: "checkWinner ?b row col \<longleftrightarrow> wins m ?b"
    unfolding b by (rule checkWinner_wins [OF g(1) rc g(4,2)])
  have np: "\<not> wins p ?b" unfolding b using wins_other [OF g(1) rc(1,2) g(6,5,3)] .
  have gb: "grid ?b" using g(1) b by simp
  show ?thesis
  proof (cases "wins m ?b")
    case True
    then have "\<not> (\<not> wins CX ?b \<and> \<not> wins CO ?b)" using g(4) by (cases m) auto
    then obtain w where w: "calculateWinner (ui_board ?b) = Some w" using no_winner_iff [OF gb] by auto
    from winner_wins [OF gb w] obtain q where q: "q \<noteq> CNone" "ui_cell q = Some w" "wins q ?b" by blast
    have "q = m" using q(1,3) np g(4) unfolding p_def by (cases q; cases m) auto
    with q w True win show ?thesis by (simp add: m_def)
  next
    case False
    then have "\<not> wins CX ?b \<and> \<not> wins CO ?b" using np g(4) unfolding p_def by (cases m) auto
    with no_winner_iff [OF gb] win False show ?thesis by simp
  qed
qed

definition near_win :: ttt_state where
  "near_win = sample_game\<lparr>ttt_board := [[CX, CX, CNone], [CO, CO, CNone], [CNone, CNone, CNone]], ttt_movesCount := 4\<rparr>"

lemma near_win_fields [simp]:
  "ttt_participants near_win = [''A'', ''B'']" "ttt_balances near_win = [500, 500]" "ttt_betAmount near_win = 50"
  "mark_of near_win = CX" "sc_state (sample_contract s) = s" "sc_events (sample_contract s) = []"
  by (simp_all add: near_win_def sample_game_def mark_of_def sample_contract_def)

lemma near_win_ok: "ttt_ok 1000 (sc_state (sample_contract near_win))"
  by (simp add: sample_contract_def ttt_ok_def near_win_def sample_game_def grid_def marks_def grid_simps)

lemma near_win_move: "can_move 0 2 (sample_contract near_win)"
  by (simp add: can_move_def sample_contract_def near_win_def sample_game_def board_cell_def block1_def mk_block_def)

lemma near_win_wins: "checkWinner (next_board 0 2 (sc_state (sample_contract near_win))) 0 2"
  by (simp add: sample_contract_def next_board_def near_win_def sample_game_def mark_of_def grid_simps)

theorem client_sees_winner_witness:
  "calculateWinner (ui_board (next_board 0 2 near_win)) = Some ''X''"
  using client_sees_winner [OF near_win_ok near_win_move] near_win_wins by simp

text \<open>
  C19. A winning move takes the bet, or what is left, from the other player and gives it to the
  player who moved; then the places are swapped for the next game.
\<close>

theorem winner_takes_bet:
  assumes "ttt_ok funds (sc_state c)" "can_move row col c"
    and "checkWinner (next_board row col (sc_state c)) row col"
    and "ttt_participants (sc_state c) = [p, q]" "ttt_balances (sc_state c) = [x, y]"
  shows "\<exists>c'. ttt_makeMove sender row col c = (Inr (), c') \<and> ttt_participants (sc_state c') = [q, p] \<and>
    ttt_balances (sc_state c') =
      (if mark_of (sc_state c) = CX
       then [y - min (ttt_betAmount (sc_state c)) y, x + min (ttt_betAmount (sc_state c)) y]
       else [y + min (ttt_betAmount (sc_state c)) x, x - min (ttt_betAmount (sc_state c)) x])"
proof -
  let ?s = "sc_state c"
  have rc: "row < 3" "col < 3" "board_cell (ttt_board ?s) row col = CNone"
    using assms(2) by (auto simp: can_move_def)
  have "checkWinner (next_board row col ?s) row col \<longleftrightarrow> wins (mark_of ?s) (next_board row col ?s)"
    using assms(1) unfolding next_board_def
    by (intro checkWinner_wins rc) (auto simp: ttt_ok_def mark_of_def)
  then have w: "wins (if even (ttt_movesCount ?s) then CX else CO)
      (board_put (ttt_board ?s) row col (if even (ttt_movesCount ?s) then CX else CO))"
    using assms(3) by (simp add: next_board_def mark_of_def)
  let ?m = "if even (ttt_movesCount ?s) then CX else CO"
  obtain s' over where a: "ttt_after_move row col (marked_state row col ?s) = Inr (s', over)"
      "over \<longleftrightarrow> wins ?m (board_put (ttt_board ?s) row col ?m) \<or> ttt_movesCount ?s = 8"
      "over \<longrightarrow> ttt_board s' = empty_grid \<and> ttt_participants s' = [q, p]"
      "wins ?m (board_put (ttt_board ?s) row col ?m) \<longrightarrow> ttt_balances s' =
       (if ?m = CX then [y - min (ttt_betAmount ?s) y, x + min (ttt_betAmount ?s) y]
        else [y + min (ttt_betAmount ?s) x, x - min (ttt_betAmount ?s) x])"
    using after_move_ok [OF assms(1) rc assms(4,5)] by (elim exE conjE) (rule that)
  have r: "over" "ttt_participants s' = [q, p]" using a(2,3) w by blast+
  have b: "ttt_balances s' =
       (if mark_of ?s = CX then [y - min (ttt_betAmount ?s) y, x + min (ttt_betAmount ?s) y]
        else [y + min (ttt_betAmount ?s) x, x - min (ttt_betAmount ?s) x])"
    using a(4) w unfolding mark_of_def by blast
  from makeMove_run [OF assms(1,2) a(1), of sender] r b show ?thesis by simp
qed

theorem winner_takes_bet_witness:
  "\<exists>c'. ttt_makeMove ''sm'' 0 2 (sample_contract near_win) = (Inr (), c') \<and>
     ttt_balances (sc_state c') = [450, 550]"
proof -
  have "ttt_participants (sc_state (sample_contract near_win)) = [''A'', ''B'']"
    "ttt_balances (sc_state (sample_contract near_win)) = [500, 500]" by simp_all
  from winner_takes_bet [OF near_win_ok near_win_move near_win_wins this, of "''sm''"]
  obtain c' where "ttt_makeMove ''sm'' 0 2 (sample_contract near_win) = (Inr (), c')"
    "ttt_balances (sc_state c') = [450, 550]"
    by (elim exE conjE) (rule that, assumption, simp add: min_def)
  then show ?thesis by blast
qed

text \<open>
  The event of a won game never names the winner: it is emitted after the board is reset, so it
  carries \<open>None\<close>, as after a draw.
\<close>

theorem game_over_names_nobody:
  assumes "ttt_ok funds (sc_state c)" "can_move row col c"
    and "checkWinner (next_board row col (sc_state c)) row col"
  shows "\<exists>c'. ttt_makeMove sender row col c = (Inr (), c') \<and>
    sc_events c' = sc_events c @ [MoveMade sender row col (mark_of (sc_state c)), GameOver CNone]"
proof -
  let ?s = "sc_state c"
  have rc: "row < 3" "col < 3" "board_cell (ttt_board ?s) row col = CNone"
    using assms(2) by (auto simp: can_move_def)
  have "checkWinner (next_board row col ?s) row col \<longleftrightarrow> wins (mark_of ?s) (next_board row col ?s)"
    using assms(1) unfolding next_board_def
    by (intro checkWinner_wins rc) (auto simp: ttt_ok_def mark_of_def)
  with makeMove_result [OF assms(1,2), of sender] assms(3) show ?thesis by auto
qed

theorem game_over_names_nobody_witness:
  "\<exists>c'. ttt_makeMove ''sm'' 0 2 (sample_contract near_win) = (Inr (), c') \<and>
     sc_events c' = [MoveMade ''sm'' 0 2 CX, GameOver CNone]"
  using game_over_names_nobody [OF near_win_ok near_win_move near_win_wins, of "''sm''"] by simp

end
