(* ===== verification/Evidence.thy ===== *)
theory Evidence
  imports ChainLedger
begin

text \<open>
  Who a dispute may slash. \<open>accused D ctx c m a\<close> lists, for each kind of fraud proof, what must
  exist for the contract to slash \<open>a\<close> in the dispute of the channel \<open>c\<close>, as the storage \<open>m\<close> has it;
  \<open>accused_le\<close> relates the storage before and after proofs are applied.
\<close>

section \<open>Evidence\<close>

definition of_dispute :: "chain_dispute \<Rightarrow> block \<Rightarrow> bool" where
  "of_dispute d b \<longleftrightarrow> getBlockChannelId b = cd_channelId d \<and> blk_fork b = cd_forkCnt d"

text \<open>Two different blocks for one place, both with a signature of \<open>a\<close>.\<close>

definition double_signed :: "evm_lib \<Rightarrow> chain_dispute \<Rightarrow> address \<Rightarrow> bool" where
  "double_signed L d a \<longleftrightarrow> (\<exists>(s1 :: signed_block) (s2 :: signed_block) b1 b2.
     lib_decodeBlock L (sb_encodedBlock s1) = Inr b1 \<and> lib_decodeBlock L (sb_encodedBlock s2) = Inr b2 \<and>
     of_dispute d b1 \<and> of_dispute d b2 \<and> blk_cnt b1 = blk_cnt b2 \<and>
     lib_keccak256 L (sb_encodedBlock s1) \<noteq> lib_keccak256 L (sb_encodedBlock s2) \<and>
     retriveSignerAddress L (sb_encodedBlock s1) (sb_signature s1) = Inr a \<and>
     retriveSignerAddress L (sb_encodedBlock s2) (sb_signature s2) = Inr a)"

text \<open>A time-out for a place that has a block with everybody's signature.\<close>

definition finished_place :: "evm_lib \<Rightarrow> chain_dispute \<Rightarrow> bool" where
  "finished_place L d \<longleftrightarrow> (\<exists>e ss b r. lib_decodeBlock L e = Inr b \<and> of_dispute d b \<and>
     blk_cnt b = cd_foldedTransactionCnt d \<and> verifyThresholdSigned L (cd_participants d) e ss = Inr (True, r))"

text \<open>
  The state a block starts from, with the time it is compared with: the genesis state of the fork,
  or the state the block before it claims.
\<close>

definition starts_from ::
  "evm_lib \<Rightarrow> ('st, 'ev) manager \<Rightarrow> chain_dispute \<Rightarrow> block \<Rightarrow> block \<Rightarrow> bytes \<Rightarrow> nat \<Rightarrow> bool" where
  "starts_from L m d b1 b2 enc t \<longleftrightarrow>
     (if cm_isGenesisState L m (cd_channelId d) (cd_forkCnt d) enc
      then blk_previousStateHash b2 = lib_keccak256 L enc \<and> t = cm_getGenesisTimestamp m (cd_channelId d) (cd_forkCnt d)
      else blk_previousStateHash b2 = blk_stateHash b1 \<and> blk_stateHash b1 = lib_keccak256 L enc \<and> t = blk_time b1)"

text \<open>What the proofs do with the state machine contract: they load a state or run a transaction.\<close>

inductive machine_step :: "('st, 'ev) deployment \<Rightarrow> ('st, 'ev) contract \<Rightarrow> ('st, 'ev) contract \<Rightarrow> bool" for D where
  machine_load: "ast_setState (dp_machine D) e k = (r, k') \<Longrightarrow> machine_step D k k'"
| machine_run: "ast_stateTransition (dp_machine D) (dp_machineAddress D) tx k = (r, k') \<Longrightarrow> machine_step D k k'"

text \<open>
  The transaction of the block, run on that state, fails or ends in a state with another hash than the
  block claims. The machine is the one of the storage, after the proofs that came before.
\<close>

definition misexecuted :: "('st, 'ev) deployment \<Rightarrow> ('st, 'ev) manager \<Rightarrow> bytes \<Rightarrow> block \<Rightarrow> bool" where
  "misexecuted D m enc b \<longleftrightarrow> (\<exists>k ok enc'. (machine_step D)\<^sup>*\<^sup>* (mg_machine m) k \<and>
     fst (px_executeStateTransitionOnState D enc (blk_transaction b) (m\<lparr>mg_machine := k\<rparr>)) = Inr (ok, enc') \<and>
     (ok \<longrightarrow> blk_stateHash b \<noteq> lib_keccak256 (dp_lib D) enc'))"

text \<open>A block of \<open>a\<close>, linked to a state of the dispute, whose time stamp or execution is wrong.\<close>

definition incorrect :: "('st, 'ev) deployment \<Rightarrow> bytes \<Rightarrow> ('st, 'ev) manager \<Rightarrow> address \<Rightarrow> bool" where
  "incorrect D c m a \<longleftrightarrow> (\<exists>(s1 :: signed_block) (s2 :: signed_block) b1 b2 enc t.
     lib_decodeBlock (dp_lib D) (sb_encodedBlock s1) = Inr b1 \<and> lib_decodeBlock (dp_lib D) (sb_encodedBlock s2) = Inr b2 \<and>
     of_dispute (mg_disputes m c) b1 \<and> of_dispute (mg_disputes m c) b2 \<and>
     retriveSignerAddress (dp_lib D) (sb_encodedBlock s1) (sb_signature s1) = Inr (getBlockAuthor b1) \<and>
     retriveSignerAddress (dp_lib D) (sb_encodedBlock s2) (sb_signature s2) = Inr a \<and> getBlockAuthor b2 = a \<and>
     starts_from (dp_lib D) m (mg_disputes m c) b1 b2 enc t \<and>
     (df_isGoodTimestampNonDeterministic m t b2 = Inr False \<or>
      df_isGoodTimestampNonDeterministic m t b2 = Inr True \<and> misexecuted D m enc b2))"

text \<open>A block not before the last vote that the disputer signed.\<close>

definition not_latest :: "evm_lib \<Rightarrow> chain_dispute \<Rightarrow> bool" where
  "not_latest L d \<longleftrightarrow> (\<exists>e s b v. lib_decodeBlock L e = Inr b \<and> of_dispute d b \<and>
     retriveSignerAddress L e s = Inr (cd_postedStateDisputer d) \<and> cd_virtualVotingBlocks d \<noteq> [] \<and>
     lib_decodeBlock L (cb_encodedBlock (last (cd_virtualVotingBlocks d))) = Inr v \<and> blk_cnt v \<le> blk_cnt b)"

definition from_future :: "evm_lib \<Rightarrow> nat \<Rightarrow> chain_dispute \<Rightarrow> address \<Rightarrow> bool" where
  "from_future L now d a \<longleftrightarrow> (\<exists>(s :: signed_block) b. lib_decodeBlock L (sb_encodedBlock s) = Inr b \<and> of_dispute d b \<and>
     getBlockAuthor b = a \<and> retriveSignerAddress L (sb_encodedBlock s) (sb_signature s) = Inr a \<and>
     a \<in> set (cd_participants d) \<and> now < blk_time b)"

definition accused :: "('st, 'ev) deployment \<Rightarrow> call_context \<Rightarrow> bytes \<Rightarrow> ('st, 'ev) manager \<Rightarrow> address \<Rightarrow> bool" where
  "accused D ctx c m a \<longleftrightarrow> (let d = mg_disputes m c in double_signed (dp_lib D) d a \<or>
     a \<in> {cd_timeoutDisputer d, msg_sender ctx, ZeroAddress} \<and> finished_place (dp_lib D) d \<or>
     incorrect D c m a \<or> a = cd_postedStateDisputer d \<and> not_latest (dp_lib D) d \<or>
     from_future (dp_lib D) (block_timestamp ctx) d a)"

section \<open>What applying proofs changes\<close>

definition same_case :: "call_context \<Rightarrow> chain_dispute \<Rightarrow> chain_dispute \<Rightarrow> bool" where
  "same_case ctx d d' \<longleftrightarrow> cd_channelId d' = cd_channelId d \<and> cd_forkCnt d' = cd_forkCnt d \<and>
     cd_participants d' = cd_participants d \<and> cd_foldedTransactionCnt d' = cd_foldedTransactionCnt d \<and>
     cd_postedStateDisputer d' = cd_postedStateDisputer d \<and>
     cd_virtualVotingBlocks d' = cd_virtualVotingBlocks d \<and>
     cd_timeoutDisputer d' \<in> {cd_timeoutDisputer d, msg_sender ctx, ZeroAddress}"

definition same_ledger :: "('st, 'ev) deployment \<Rightarrow> ('st, 'ev) manager \<Rightarrow> ('st, 'ev) manager \<Rightarrow> bool" where
  "same_ledger D m m' \<longleftrightarrow> mg_posted m' = mg_posted m \<and> mg_p2pTime m' = mg_p2pTime m \<and>
     mg_encodedStates m' = mg_encodedStates m \<and> mg_genesisTimestamps m' = mg_genesisTimestamps m \<and>
     (machine_step D)\<^sup>*\<^sup>* (mg_machine m) (mg_machine m')"

definition accused_le ::
  "('st, 'ev) deployment \<Rightarrow> call_context \<Rightarrow> bytes \<Rightarrow> ('st, 'ev) manager \<Rightarrow> ('st, 'ev) manager \<Rightarrow> bool" where
  "accused_le D ctx c m m' \<longleftrightarrow> same_case ctx (mg_disputes m c) (mg_disputes m' c) \<and> same_ledger D m m' \<and>
     (\<forall>a \<in> set (cd_slashedParticipants (mg_disputes m' c)).
        a \<in> set (cd_slashedParticipants (mg_disputes m c)) \<or> accused D ctx c m a)"

text \<open>An execution reads and changes the machine only.\<close>

lemma execute_machine:
  "mg_machine m = mg_machine m' \<Longrightarrow>
     fst (px_executeStateTransitionOnState D enc tx m) = fst (px_executeStateTransitionOnState D enc tx m')"
  by (simp add: px_executeStateTransitionOnState_def sbind_def on_machine_def sread_def sreturn_def
      split: prod.split sum.split)

lemma misexecuted_same:
  assumes "same_ledger D m m'" "misexecuted D m' enc b" shows "misexecuted D m enc b"
proof -
  obtain k ok enc' where k: "(machine_step D)\<^sup>*\<^sup>* (mg_machine m') k"
    "fst (px_executeStateTransitionOnState D enc (blk_transaction b) (m'\<lparr>mg_machine := k\<rparr>)) = Inr (ok, enc')"
    "ok \<longrightarrow> blk_stateHash b \<noteq> lib_keccak256 (dp_lib D) enc'"
    using assms(2) unfolding misexecuted_def by blast
  have "(machine_step D)\<^sup>*\<^sup>* (mg_machine m) k" using assms(1) k(1) by (auto simp: same_ledger_def)
  moreover have "fst (px_executeStateTransitionOnState D enc (blk_transaction b) (m\<lparr>mg_machine := k\<rparr>)) = Inr (ok, enc')"
    using k(2) execute_machine [of "m\<lparr>mg_machine := k\<rparr>" "m'\<lparr>mg_machine := k\<rparr>"] by simp
  ultimately show ?thesis using k(3) unfolding misexecuted_def by blast
qed

lemma good_same:
  "same_ledger D m m' \<Longrightarrow> df_isGoodTimestampNonDeterministic m' t b = df_isGoodTimestampNonDeterministic m t b"
  by (simp add: same_ledger_def df_isGoodTimestampNonDeterministic_def cm_getChainLatestBlockTimestamp_def Let_def)

lemma incorrect_same:
  assumes dis: "same_case ctx (mg_disputes m c) (mg_disputes m' c)" and led: "same_ledger D m m'" and bad: "incorrect D c m' a"
  shows "incorrect D c m a"
proof -
  have "of_dispute (mg_disputes m' c) = of_dispute (mg_disputes m c)"
    using dis by (auto simp: of_dispute_def same_case_def fun_eq_iff)
  moreover have "starts_from L m' (mg_disputes m' c) b1 b2 enc t = starts_from L m (mg_disputes m c) b1 b2 enc t" for L b1 b2 enc t
    using dis led
    by (simp add: starts_from_def same_case_def same_ledger_def cm_isGenesisState_def cm_getGenesisTimestamp_def)
  ultimately show ?thesis
    using bad misexecuted_same [OF led] unfolding incorrect_def good_same [OF led] by metis
qed

lemma accused_same:
  assumes "same_case ctx (mg_disputes m c) (mg_disputes m' c)" "same_ledger D m m'" "accused D ctx c m' a"
  shows "accused D ctx c m a"
proof -
  have "of_dispute (mg_disputes m' c) = of_dispute (mg_disputes m c)"
    using assms(1) by (auto simp: of_dispute_def same_case_def fun_eq_iff)
  with assms(1,3) incorrect_same [OF assms(1,2)] show ?thesis
    unfolding accused_def double_signed_def finished_place_def not_latest_def from_future_def same_case_def Let_def
    by auto
qed

lemma same_case_refl [simp]: "same_case ctx d d"
  by (simp add: same_case_def)

lemma same_case_trans: "same_case ctx a b \<Longrightarrow> same_case ctx b c \<Longrightarrow> same_case ctx a c"
  by (auto simp: same_case_def)

lemma same_ledger_refl [simp]: "same_ledger D m m"
  by (simp add: same_ledger_def)

lemma same_ledger_trans: "same_ledger D a b \<Longrightarrow> same_ledger D b c \<Longrightarrow> same_ledger D a c"
  by (auto simp: same_ledger_def)

lemma same_ledger_disputes [simp]: "same_ledger D m (m\<lparr>mg_disputes := d\<rparr>)"
  by (simp add: same_ledger_def)

interpretation acc: preserved "accused_le D ctx c :: ('st, 'ev) manager \<Rightarrow> ('st, 'ev) manager \<Rightarrow> bool" for D ctx c
proof
  fix m n k :: "('st, 'ev) manager"
  show "accused_le D ctx c m m" by (simp add: accused_le_def)
  assume "accused_le D ctx c m n" "accused_le D ctx c n k"
  then show "accused_le D ctx c m k"
    unfolding accused_le_def using same_case_trans same_ledger_trans accused_same by blast
qed

lemma acc_read [simp]: "sbind (dget c) f m = f (mg_disputes m c) m"
  by (simp add: sbind_def dget_def sread_def)

lemma acc_frame:
  assumes "\<And>m. mg_disputes (snd (f m)) = mg_disputes m \<and> same_ledger D m (snd (f m))"
  shows "keeps (accused_le D ctx c) f"
  using assms by (simp add: keeps_def accused_le_def)

named_theorems ac_keeps \<open>actions that only slash the accused\<close>

lemmas ac_basic [ac_keeps] = acc.bind acc.pure

lemma ac_require [ac_keeps]: "keeps (accused_le D ctx c) (require g msg)"
  by (rule acc_frame) (simp add: require_def)

lemma ac_dget [ac_keeps]: "keeps (accused_le D ctx c) (dget c')"
  by (rule acc_frame) (simp add: dget_def sread_def)

lemma ac_require_signed [ac_keeps]: "keeps (accused_le D ctx c) (require_signed L as d ss msg)"
  unfolding require_signed_def by (intro ac_keeps lg_case_prod)

lemma on_machine_acc:
  assumes "\<And>k. machine_step D k (snd (f k))"
  shows "keeps (accused_le D ctx c) (on_machine f)"
proof (rule acc_frame)
  fix m :: "('a, 'b) manager"
  show "mg_disputes (snd (on_machine f m)) = mg_disputes m \<and> same_ledger D m (snd (on_machine f m))"
    using assms [of "mg_machine m"] by (simp add: on_machine_def same_ledger_def split: prod.split) (metis r_into_rtranclp snd_conv)
qed

lemma ac_setState [ac_keeps]: "keeps (accused_le D ctx c) (on_machine (ast_setState (dp_machine D) e))"
  by (rule on_machine_acc) (metis machine_load prod.collapse)

lemma ac_transition: "keeps (accused_le D ctx c) (on_machine (ast_stateTransition (dp_machine D) (dp_machineAddress D) tx))"
  by (rule on_machine_acc) (metis machine_run prod.collapse)

lemma ac_dput:
  assumes "\<And>d. same_case ctx d (f d) \<and> cd_slashedParticipants (f d) = cd_slashedParticipants d"
  shows "keeps (accused_le D ctx c) (dput c f)"
  unfolding dput_def by (rule acc.modify) (use assms in \<open>simp add: accused_le_def\<close>)

lemma ac_tryCancelFold [ac_keeps]: "keeps (accused_le D ctx c) (df_tryCancelFold c n)"
  unfolding df_tryCancelFold_def by (rule ac_dput) (simp add: same_case_def)

lemma ac_execute [ac_keeps]: "keeps (accused_le D ctx c) (px_executeStateTransitionOnState D enc tx)"
proof -
  have "keeps (accused_le D ctx c) (\<lambda>m. case on_machine (ast_stateTransition (dp_machine D) (dp_machineAddress D) tx) m of
      (Inl _, m') \<Rightarrow> (Inr False, m') | (Inr _, m') \<Rightarrow> (Inr True, m'))"
    using ac_transition [of D ctx c tx] unfolding keeps_def by (auto split: prod.split sum.split) (metis snd_conv)+
  then show ?thesis unfolding px_executeStateTransitionOnState_def by (intro ac_keeps)
qed

text \<open>Slashing somebody accused in the dispute as it is then.\<close>

lemma slash_result:
  "df_slash c a m = (Inr (a \<notin> set (cd_slashedParticipants (mg_disputes m c))),
     m\<lparr>mg_disputes := (mg_disputes m)(c := (mg_disputes m c)\<lparr>cd_slashedParticipants :=
         snd (insertIfNotExist a (cd_slashedParticipants (mg_disputes m c)))\<rparr>)\<rparr>)"
  by (simp add: df_slash_def insertIfNotExist_def dput_def smodify_def sbind_def sreturn_def dget_def sread_def)

lemma slash_accused_from:
  "accused_le D ctx c m0 m \<Longrightarrow> mg_disputes m = mg_disputes m0 \<Longrightarrow> accused D ctx c m0 a \<Longrightarrow>
     accused_le D ctx c m0 (snd (df_slash c a m))"
  by (auto simp: slash_result accused_le_def same_case_def same_ledger_def insertIfNotExist_def)

lemma slash_accused:
  "accused D ctx c m a \<Longrightarrow> accused_le D ctx c m (snd (df_slash c a m))"
  by (rule slash_accused_from) (simp_all add: acc.R_refl)

text \<open>Rules that walk through a function and collect what it has checked.\<close>

lemma ac_readI:
  "(\<And>x. g m = Inr x \<Longrightarrow> accused_le D ctx c m (snd (f x m))) \<Longrightarrow> accused_le D ctx c m (snd (sbind (sread g) f m))"
  by (cases "g m") (simp_all add: sbind_def sread_def acc.R_refl)

lemma ac_requireI:
  "(g m \<Longrightarrow> accused_le D ctx c m (snd (f () m))) \<Longrightarrow> accused_le D ctx c m (snd (sbind (require g msg) f m))"
  by (simp add: sbind_def require_def acc.R_refl)

lemma ac_dgetI: "accused_le D ctx c m (snd (f (mg_disputes m c) m)) \<Longrightarrow> accused_le D ctx c m (snd (sbind (dget c) f m))"
  by simp

lemma ac_signedI:
  "(\<And>r. verifyThresholdSigned L as d ss = Inr (True, r) \<Longrightarrow> accused_le D ctx c m (snd (f () m))) \<Longrightarrow>
     accused_le D ctx c m (snd (sbind (require_signed L as d ss msg) f m))"
  by (cases "verifyThresholdSigned L as d ss")
    (auto simp: require_signed_def sbind_def sread_def require_def acc.R_refl)

lemma ac_bindI:
  assumes "keeps (accused_le D ctx c) f" "\<And>x m'. f m = (Inr x, m') \<Longrightarrow> accused_le D ctx c m' (snd (g x m'))"
  shows "accused_le D ctx c m (snd (sbind f g m))"
proof -
  obtain r m' where f: "f m = (r, m')" by (cases "f m")
  have "accused_le D ctx c m m'" using keepsD [OF assms(1) f] .
  with f assms(2) show ?thesis by (cases r) (auto simp: sbind_def intro: acc.R_trans)
qed

lemma sameDispute_Inr [res_simps]: "df_sameDispute d bs = Inr u \<longleftrightarrow> (\<forall>b \<in> set bs. of_dispute d b)"
  by (auto simp: df_sameDispute_def check_def of_dispute_def rbind_Inr_iff)

lemma ac_dputI:
  assumes "same_case ctx (mg_disputes m c) (f (mg_disputes m c))"
    "cd_slashedParticipants (f (mg_disputes m c)) = cd_slashedParticipants (mg_disputes m c)"
    "accused_le D ctx c (m\<lparr>mg_disputes := (mg_disputes m)(c := f (mg_disputes m c))\<rparr>)
       (snd (g () (m\<lparr>mg_disputes := (mg_disputes m)(c := f (mg_disputes m c))\<rparr>)))"
  shows "accused_le D ctx c m (snd (sbind (dput c f) g m))"
proof -
  have "accused_le D ctx c m (m\<lparr>mg_disputes := (mg_disputes m)(c := f (mg_disputes m c))\<rparr>)"
    using assms(1,2) by (simp add: accused_le_def)
  from acc.R_trans [OF this assms(3)] show ?thesis by (simp add: sbind_def dput_def smodify_def)
qed

lemmas ac_walk = ac_dgetI ac_readI ac_requireI ac_signedI ac_dputI slash_accused

lemma ac_foldRechallenge [ac_keeps]: "keeps (accused_le D ctx c) (df_applyFoldRechallengeProof (dp_lib D) c p)"
  unfolding keeps_def df_applyFoldRechallengeProof_def
  by (cases p) (auto intro!: ac_walk simp: res_simps same_case_def accused_def Let_def finished_place_def of_dispute_def)

lemma ac_newerState [ac_keeps]: "keeps (accused_le D ctx c) (df_applyNewerStateProof (dp_lib D) c p)"
proof -
  have "accused D ctx c m (cd_postedStateDisputer (mg_disputes m c))"
    if "lib_decodeBlock (dp_lib D) e = Inr b" "df_sameDispute (mg_disputes m c) [b] = Inr u"
      "retriveSignerAddress (dp_lib D) e s = Inr (cd_postedStateDisputer (mg_disputes m c))"
      "rbind (usub (length (cd_virtualVotingBlocks (mg_disputes m c))) 1) (array_at (cd_virtualVotingBlocks (mg_disputes m c))) = Inr v"
      "lib_decodeBlock (dp_lib D) (cb_encodedBlock v) = Inr b'" "blk_cnt b \<ge> blk_cnt b'" for m e b u s v b'
  proof -
    have "cd_virtualVotingBlocks (mg_disputes m c) \<noteq> []" using that(4) by (auto simp: res_simps)
    moreover from this have "v = last (cd_virtualVotingBlocks (mg_disputes m c))"
      using that(4) by (simp add: res_simps last_conv_nth)
    ultimately have "not_latest (dp_lib D) (mg_disputes m c)" using that unfolding not_latest_def by (auto simp: res_simps)
    then show ?thesis by (simp add: accused_def Let_def)
  qed
  then show ?thesis
    unfolding keeps_def df_applyNewerStateProof_def by (cases p) (auto intro!: ac_walk)
qed

lemma ac_blockTooFar [ac_keeps]: "keeps (accused_le D ctx c) (df_applyBlockTooFarInFutureProof (dp_lib D) ctx c sb)"
  unfolding keeps_def df_applyBlockTooFarInFutureProof_def
  by (auto intro!: ac_walk simp: res_simps accused_def Let_def from_future_def)

lemma ac_foldPriorBlock [ac_keeps]: "keeps (accused_le D ctx c) (df_applyFoldPriorBlockProof (dp_lib D) ctx c n)"
  unfolding keeps_def df_applyFoldPriorBlockProof_def Let_def
  by (auto intro!: ac_walk simp: same_case_def sreturn_def acc.R_refl)

lemma ac_doubleSigns: "accused_le D ctx c m (snd (df_doubleSigns (dp_lib D) c ss ok m))"
proof (induction ss arbitrary: m ok)
  case Nil
  then show ?case by (simp add: sreturn_def acc.R_refl)
next
  case (Cons s ss)
  obtain s1 s2 where s: "s = (s1, s2)" by (cases s)
  have slash: "accused_le D ctx c m (snd (sbind (df_slash c a) (\<lambda>inserted.
        sbind (if inserted \<or> ok then df_tryCancelFold c n else sreturn ()) (\<lambda>_.
        df_doubleSigns (dp_lib D) c ss (inserted \<or> ok))) m))" if "accused D ctx c m a" for a n m
  proof -
    have "keeps (accused_le D ctx c) (sbind (if b \<or> ok then df_tryCancelFold c n else sreturn ()) (\<lambda>_.
        df_doubleSigns (dp_lib D) c ss (b \<or> ok)))" for b
      by (intro acc.bind lg_if ac_tryCancelFold acc.pure) (use Cons.IH in \<open>simp add: keeps_def\<close>)
    then have "accused_le D ctx c m' (snd (sbind (if b \<or> ok then df_tryCancelFold c n else sreturn ()) (\<lambda>_.
        df_doubleSigns (dp_lib D) c ss (b \<or> ok)) m'))" for b m'
      by (simp add: keeps_def)
    note acc.R_trans [OF slash_accused [OF that, unfolded slash_result snd_conv] this]
    then show ?thesis
      unfolding sbind_def [of "df_slash c a"] slash_result prod.case sum.case .
  qed
  have "accused D ctx c m a"
    if "lib_decodeBlock (dp_lib D) (sb_encodedBlock s1) = Inr b1" "lib_decodeBlock (dp_lib D) (sb_encodedBlock s2) = Inr b2"
      "df_sameDispute (mg_disputes m c) [b1, b2] = Inr u" "blk_cnt b1 = blk_cnt b2"
      "lib_keccak256 (dp_lib D) (sb_encodedBlock s1) \<noteq> lib_keccak256 (dp_lib D) (sb_encodedBlock s2)"
      "retriveSignerAddress (dp_lib D) (sb_encodedBlock s1) (sb_signature s1) = Inr a"
      "retriveSignerAddress (dp_lib D) (sb_encodedBlock s2) (sb_signature s2) = Inr a" for m b1 b2 u a
    using that unfolding accused_def Let_def double_signed_def by (auto simp: res_simps)
  then show ?case
    unfolding s df_doubleSigns.simps by (intro ac_dgetI ac_readI ac_requireI slash) simp_all
qed

lemma ac_doubleSign [ac_keeps]: "keeps (accused_le D ctx c) (df_applyDoubleSignProof (dp_lib D) c ss)"
  unfolding df_applyDoubleSignProof_def keeps_def by (simp add: ac_doubleSigns)

lemma execute_disputes:
  "px_executeStateTransitionOnState D enc tx m = (r, m') \<Longrightarrow> mg_disputes m' = mg_disputes m"
  by (auto simp: px_executeStateTransitionOnState_def sbind_def on_machine_def sread_def sreturn_def
      split: prod.splits sum.splits)

lemma misexecutedI:
  "px_executeStateTransitionOnState D enc (blk_transaction b) m = (Inr (ok, enc'), m') \<Longrightarrow>
     (ok \<longrightarrow> blk_stateHash b \<noteq> lib_keccak256 (dp_lib D) enc') \<Longrightarrow> misexecuted D m enc b"
  unfolding misexecuted_def by (intro exI [of _ "mg_machine m"]) auto

lemma ac_incorrectData [ac_keeps]:
  fixes D :: "('st, 'ev) deployment"
  shows "keeps (accused_le D ctx c) (df_applyIncorrectDataProof D c p)"
proof -
  obtain s1 s2 enc where p: "p = (s1, s2, enc)" by (cases p)
  let ?L = "dp_lib D"
  have final: "accused_le D ctx c m0 (snd (sbind
         (if \<not> ok \<or> blk_stateHash b \<noteq> lib_keccak256 ?L enc' then df_slash c (getBlockAuthor b) else sreturn False)
         (\<lambda>r. sbind (if r then df_tryCancelFold c n else sreturn ()) (\<lambda>_. sreturn r)) m))"
    if k: "accused_le D ctx c m0 m" "mg_disputes m = mg_disputes m0"
      and that: "\<not> ok \<or> blk_stateHash b \<noteq> lib_keccak256 ?L enc' \<Longrightarrow> accused D ctx c m0 (getBlockAuthor b)"
    for ok b enc' n m m0
  proof -
    let ?g = "\<lambda>r. sbind (if r then df_tryCancelFold c n else sreturn ()) (\<lambda>_. sreturn r)"
    have "keeps (accused_le D ctx c) (?g r)" for r by (intro ac_keeps lg_if)
    then have g: "accused_le D ctx c m' (snd (?g r m'))" for m' r by (simp add: keeps_def)
    show ?thesis
    proof (cases "\<not> ok \<or> blk_stateHash b \<noteq> lib_keccak256 ?L enc'")
      case True
      note acc.R_trans [OF slash_accused_from [OF k that [OF True], unfolded slash_result snd_conv] g]
      then show ?thesis
        unfolding if_P [OF True] sbind_def [of "df_slash c (getBlockAuthor b)"] slash_result prod.case sum.case .
    next
      case False
      with acc.R_trans [OF k(1) g [of m False]] show ?thesis by (simp add: sbind_def sreturn_def)
    qed
  qed
  show ?thesis
    unfolding keeps_def df_applyIncorrectDataProof_def p prod.case Let_def
  proof (intro allI ac_dgetI ac_readI ac_requireI)
    fix m :: "('st, 'ev) manager" and b1 b2 r1 r2 u t good
    assume b: "lib_decodeBlock ?L (sb_encodedBlock s1) = Inr b1" "lib_decodeBlock ?L (sb_encodedBlock s2) = Inr b2"
      "df_sameDispute (mg_disputes m c) [b1, b2] = Inr u"
      "retriveSignerAddress ?L (sb_encodedBlock s1) (sb_signature s1) = Inr r1"
      "retriveSignerAddress ?L (sb_encodedBlock s2) (sb_signature s2) = Inr r2"
      "r1 = getBlockAuthor b1 \<and> r2 = getBlockAuthor b2"
      "df_isGoodTimestampNonDeterministic m t b2 = Inr good"
    assume linked: "(if cm_isGenesisState ?L m (cd_channelId (mg_disputes m c)) (cd_forkCnt (mg_disputes m c)) enc
       then rbind (check (blk_previousStateHash b2 = lib_keccak256 ?L enc)
                     ''ErrorIncorrectDataStateHashNotLinkedToBlock'') (\<lambda>_.
            Inr (cm_getGenesisTimestamp m (cd_channelId (mg_disputes m c)) (cd_forkCnt (mg_disputes m c))))
       else rbind (check (blk_previousStateHash b2 = blk_stateHash b1) ''ErrorIncorrectDataBlocksNotLinked'') (\<lambda>_.
            rbind (check (blk_stateHash b1 = lib_keccak256 ?L enc)
                     ''ErrorIncorrectDataStateHashNotLinkedToBlock'') (\<lambda>_.
            Inr (blk_time b1)))) = Inr t"
    then have start: "starts_from ?L m (mg_disputes m c) b1 b2 enc t"
      by (simp add: starts_from_def check_def split: if_splits)
    have acc: "accused D ctx c m (getBlockAuthor b2)"
      if "\<not> good \<or> (\<exists>ok enc' m'. px_executeStateTransitionOnState D enc (blk_transaction b2) m = (Inr (ok, enc'), m') \<and>
           (ok \<longrightarrow> blk_stateHash b2 \<noteq> lib_keccak256 ?L enc'))"
    proof -
      have "df_isGoodTimestampNonDeterministic m t b2 = Inr False \<or>
          df_isGoodTimestampNonDeterministic m t b2 = Inr True \<and> misexecuted D m enc b2"
      proof (cases good)
        case True
        with that misexecutedI [of D enc b2 m] have "misexecuted D m enc b2" by blast
        with True b(7) show ?thesis by simp
      qed (use b(7) in simp)
      then have "incorrect D c m (getBlockAuthor b2)"
        unfolding incorrect_def using b start
        by (intro exI [of _ s1] exI [of _ s2] exI [of _ b1] exI [of _ b2] exI [of _ enc] exI [of _ t]) (auto simp: res_simps)
      then show ?thesis by (simp add: accused_def Let_def)
    qed
    show "accused_le D ctx c m (snd (sbind (if good then px_executeStateTransitionOnState D enc (blk_transaction b2)
         else sreturn (False, ''0x'')) (\<lambda>(success, executedEncodedState).
       sbind (if \<not> success \<or> blk_stateHash b2 \<noteq> lib_keccak256 ?L executedEncodedState
              then df_slash c (getBlockAuthor b2) else sreturn False) (\<lambda>challengeSuccess.
       sbind (if challengeSuccess then df_tryCancelFold c (blk_cnt b1) else sreturn ()) (\<lambda>_.
         sreturn challengeSuccess))) m))"
    proof (cases good)
      case False
      then show ?thesis using final [of m m False b2 "''0x''" "blk_cnt b1"] acc
        by (simp add: acc.R_refl sbind_def [of "sreturn x" for x] sreturn_def)
    next
      case True
      obtain r m' where run: "px_executeStateTransitionOnState D enc (blk_transaction b2) m = (r, m')"
        by (cases "px_executeStateTransitionOnState D enc (blk_transaction b2) m")
      show ?thesis
      proof (cases r)
        case (Inl e)
        with True run keepsD [OF ac_execute run] show ?thesis by (simp add: sbind_def)
      next
        case (Inr q)
        obtain ok enc' where q: "q = (ok, enc')" by (cases q)
        have le: "accused_le D ctx c m m'" using keepsD [OF ac_execute run] .
        have same: "mg_disputes m' = mg_disputes m" using execute_disputes [OF run] .
        have "accused_le D ctx c m (snd (sbind
         (if \<not> ok \<or> blk_stateHash b2 \<noteq> lib_keccak256 ?L enc' then df_slash c (getBlockAuthor b2) else sreturn False)
         (\<lambda>r. sbind (if r then df_tryCancelFold c (blk_cnt b1) else sreturn ()) (\<lambda>_. sreturn r)) m'))"
          by (rule final [OF le same]) (use acc run Inr q in auto)
        with True run Inr q show ?thesis
          by (simp add: sbind_def [of "px_executeStateTransitionOnState D enc (blk_transaction b2)"])
      qed
    qed
  qed
qed

section \<open>The application's hook\<close>

definition same_storage :: "('st, 'ev) manager \<Rightarrow> ('st, 'ev) manager \<Rightarrow> bool" where
  "same_storage m m' \<longleftrightarrow> mg_disputes m' = mg_disputes m \<and> mg_posted m' = mg_posted m \<and> mg_p2pTime m' = mg_p2pTime m \<and>
     mg_encodedStates m' = mg_encodedStates m \<and> mg_genesisTimestamps m' = mg_genesisTimestamps m \<and>
     mg_machine m' = mg_machine m"

definition hook_neutral :: "('st, 'ev) deployment \<Rightarrow> bool" where
  "hook_neutral D \<longleftrightarrow> (\<forall>jc m. same_storage m (snd (dp_addParticipantComposable D jc m)))"

lemma self_call_storage:
  assumes "\<And>m. same_storage m (snd (f m))"
  shows "same_storage m (snd (self_call ctx (\<lambda>ctx. onlySelf ctx f) m))"
proof (cases "f m")
  case (Pair r m')
  with assms [of m] show ?thesis
    by (cases r) (simp_all add: self_call_def message_call_def onlySelf_def sbind_def require_def same_storage_def)
qed

lemma ac_joinProof [ac_keeps]:
  assumes "hook_neutral D"
  shows "keeps (accused_le D ctx c) (df_applyJoinChannelProof D ctx c p)"
proof -
  have next_writer: "keeps (accused_le D ctx c) (cm_getNextToWrite D e)" for e
    unfolding cm_getNextToWrite_def by (intro ac_keeps)
  have hook: "keeps (accused_le D ctx c) (self_call ctx (\<lambda>ctx. onlySelf ctx (dp_addParticipantComposable D jc)))" for jc
  proof (rule acc_frame)
    fix m :: "('a, 'b) manager"
    have "same_storage m (snd (self_call ctx (\<lambda>ctx. onlySelf ctx (dp_addParticipantComposable D jc)) m))"
      by (rule self_call_storage) (use assms in \<open>simp add: hook_neutral_def\<close>)
    then show "mg_disputes (snd (self_call ctx (\<lambda>ctx. onlySelf ctx (dp_addParticipantComposable D jc)) m)) = mg_disputes m \<and>
        same_ledger D m (snd (self_call ctx (\<lambda>ctx. onlySelf ctx (dp_addParticipantComposable D jc)) m))"
      by (simp add: same_storage_def same_ledger_def)
  qed
  have stored: "keeps (accused_le D ctx c) (dput c (\<lambda>d. d\<lparr>cd_joinChannelParticipants := array\<rparr>))" for array
    by (rule ac_dput) (simp add: same_case_def)
  show ?thesis
    unfolding df_applyJoinChannelProof_def Let_def by (intro ac_keeps lg_case_prod next_writer hook stored)
qed

lemma ac_applyProof [ac_keeps]: "hook_neutral D \<Longrightarrow> keeps (accused_le D ctx c) (df_applyProof D ctx c p)"
  unfolding df_applyProof_def Let_def by (intro ac_keeps lg_if)

lemma ac_proofs: "hook_neutral D \<Longrightarrow> keeps (accused_le D ctx c) (df_proofs_loop D ctx c ps b)"
  by (induction ps arbitrary: b) (simp_all add: ac_keeps)

lemma ac_applyProofs: "hook_neutral D \<Longrightarrow> keeps (accused_le D ctx c) (df_applyProofs D ctx c ps)"
  unfolding df_applyProofs_def by (intro ac_keeps ac_proofs)

end
