(* ===== verification/TimeoutRun.thy ===== *)
theory TimeoutRun
  imports Evidence VoteRules
begin

text \<open>
  A dispute that removes a silent participant, run to its end on the contract: the state machine is
  \<open>MathStateMachine\<close>, the dispute carries no votes and no proofs.
\<close>

section \<open>Calls of the state machine\<close>

lemma on_math_setState:
  assumes "\<not> sc_nonreentrant (mg_machine m)" "dec e = Inr s"
  shows "on_machine (ast_setState (math_machine enc dec D) e) m = (Inr (), m\<lparr>mg_machine := (mg_machine m)\<lparr>sc_state := s\<rparr>\<rparr>)"
  using assms
  by (simp add: on_machine_def ast_setState_def message_call_def nonReentrant_def math_machine_def require_def
      sbind_def sread_def smodify_def sreturn_def)

lemma on_math_remove:
  assumes "\<not> sc_nonreentrant (mg_machine m)" "place_of a (math_participants (sc_state (mg_machine m))) = Some i"
  shows "on_machine (removal_loop (ast_removeParticipant (math_machine enc dec D)) [a] [no_exit] 0) m =
    (Inr ([no_exit\<lparr>pe_participant := a, pe_amount := 0\<rparr>], 1), m\<lparr>mg_machine := (mg_machine m)\<lparr>sc_state := (sc_state (mg_machine m))
      \<lparr>math_participants := swap_remove i (math_participants (sc_state (mg_machine m)))\<rparr>\<rparr>\<rparr>)"
  using assms
  by (simp add: on_machine_def ast_removeParticipant_def message_call_def nonReentrant_def math_machine_def require_def
      sbind_def sread_def smodify_def sreturn_def math_removeParticipant_def array_put_def)

lemma on_machine_return [simp]: "on_machine (sreturn x) m = (Inr x, m)"
  by (simp add: on_machine_def sreturn_def)

lemma math_fields [simp]:
  "mc_getState (math_machine enc dec call) k = Inr (enc (sc_state k))"
  "mc_getParticipants (math_machine enc dec call) k = Inr (math_participants (sc_state k))"
  "mc_getNextToWrite (math_machine enc dec call) = math_getNextToWrite"
  by (simp_all add: math_machine_def)

lemma self_call_only [simp]: "self_call ctx (\<lambda>ctx. onlySelf ctx f) = message_call f"
  by (simp add: self_call_def onlySelf_def require_def sbind_def fun_eq_iff message_call_def)

definition with_state :: "math_state \<Rightarrow> (math_state, 'ev) manager \<Rightarrow> (math_state, 'ev) manager" where
  "with_state s m = m\<lparr>mg_machine := (mg_machine m)\<lparr>sc_state := s\<rparr>\<rparr>"

lemma with_state_fields [simp]:
  "sc_state (mg_machine (with_state s m)) = s" "sc_nonreentrant (mg_machine (with_state s m)) = sc_nonreentrant (mg_machine m)"
  "sc_tx (mg_machine (with_state s m)) = sc_tx (mg_machine m)"
  "mg_disputes (with_state s m) = mg_disputes m" "mg_latestFork (with_state s m) = mg_latestFork m"
  "mg_encodedStates (with_state s m) = mg_encodedStates m" "mg_genesisTimestamps (with_state s m) = mg_genesisTimestamps m"
  "mg_posted (with_state s m) = mg_posted m" "cm_getAllTimes (with_state s m) = cm_getAllTimes m"
  "with_state s (with_state s' m) = with_state s m"
  by (simp_all add: with_state_def cm_getAllTimes_def)

lemma with_state_times [simp]:
  "mg_p2pTime (with_state s m) = mg_p2pTime m" "mg_agreementTime (with_state s m) = mg_agreementTime m"
  "mg_chainFallbackTime (with_state s m) = mg_chainFallbackTime m" "mg_challengeTime (with_state s m) = mg_challengeTime m"
  by (simp_all add: with_state_def)

lemma px_none:
  assumes "dp_machine D = math_machine enc dec call" "\<not> sc_nonreentrant (mg_machine m)" "dec e = Inr s"
  shows "message_call (px_applyJoinChannelToStateMachine D e []) m = (Inr (enc s, 0), with_state s m)"
    and "message_call (px_applySlashesToStateMachine D e []) m = (Inr (enc s, [], 0), with_state s m)"
    and "message_call (px_removeParticipantsFromStateMachine D e []) m = (Inr (enc s, [], 0), with_state s m)"
    and "cm_getNextToWrite D e m = (math_getNextToWrite ((mg_machine m)\<lparr>sc_state := s\<rparr>), with_state s m)"
  unfolding px_applyJoinChannelToStateMachine_def px_applySlashesToStateMachine_def
    px_removeParticipantsFromStateMachine_def cm_getNextToWrite_def message_call_def assms(1)
  by (simp_all add: sbind_def on_math_setState [where dec = dec and e = e, OF assms(2,3)] sread_def sreturn_def with_state_def)

lemma px_remove_one:
  assumes "dp_machine D = math_machine enc dec call" "\<not> sc_nonreentrant (mg_machine m)" "dec e = Inr s"
    "place_of a (math_participants s) = Some i"
  shows "message_call (px_removeParticipantsFromStateMachine D e [a]) m =
    (Inr (enc (s\<lparr>math_participants := swap_remove i (math_participants s)\<rparr>), [no_exit\<lparr>pe_participant := a, pe_amount := 0\<rparr>], 1),
     with_state (s\<lparr>math_participants := swap_remove i (math_participants s)\<rparr>) m)"
proof -
  have "on_machine (removal_loop (ast_removeParticipant (math_machine enc dec call)) [a] [no_exit] 0) (with_state s m) =
    (Inr ([no_exit\<lparr>pe_participant := a, pe_amount := 0\<rparr>], 1),
     with_state (s\<lparr>math_participants := swap_remove i (math_participants s)\<rparr>) m)"
    using on_math_remove [of "with_state s m" a i] assms(2,4) by (simp add: with_state_def)
  then show ?thesis
    unfolding px_removeParticipantsFromStateMachine_def message_call_def assms(1)
    by (simp add: sbind_def on_math_setState [where dec = dec and e = e, OF assms(2,3)] sread_def sreturn_def del: removal_loop.simps flip: with_state_def)
qed

lemma timeout_outcome:
  fixes m :: "(math_state, math_event) manager"
  assumes "dp_machine D = math_machine enc dec call" "\<not> sc_nonreentrant (mg_machine m)"
    "dec (cd_encodedLatestCorrectState (mg_disputes m c)) = Inr s" "dec (enc s) = Inr s"
    "place_of (cd_timedoutParticipant (mg_disputes m c)) (math_participants s) = Some i"
    "cd_timedoutParticipant (mg_disputes m c) \<noteq> ZeroAddress"
    "cd_joinChannelParticipants (mg_disputes m c) = []" "cd_slashedParticipants (mg_disputes m c) = []"
    "cd_leaveChannelParticipants (mg_disputes m c) = []"
  shows "\<exists>m'. df_applyDisputeToLatestState D ctx c m = (Inr (), m') \<and>
    mg_disputes m' c = (mg_disputes m c)\<lparr>
      cd_processExits := [no_exit\<lparr>pe_participant := cd_timedoutParticipant (mg_disputes m c), pe_amount := 0\<rparr>],
      cd_encodedLatestCorrectState := enc (s\<lparr>math_participants := swap_remove i (math_participants s)\<rparr>)\<rparr> \<and>
    mg_latestFork m' = mg_latestFork m \<and> mg_encodedStates m' = mg_encodedStates m"
  using assms
  by (simp add: df_applyDisputeToLatestState_def sbind_def dget_def sread_def dput_def smodify_def sreturn_def
      require_def df_pushExits_def px_none [OF assms(1)] px_remove_one [OF assms(1)])

section \<open>The whole transaction\<close>

text \<open>What the contract asks before it removes \<open>a\<close>, whose turn it is from the first block on.\<close>

definition overdue :: "call_context \<Rightarrow> bytes \<Rightarrow> address \<Rightarrow> ('st, 'ev) manager \<Rightarrow> bool" where
  "overdue ctx c a m \<longleftrightarrow> (let f = mg_latestFork m c in
     \<not> cm_isDisputeInProgress ctx m c \<and> \<not> fst (cm_getBlockCallData m c f 0 a) \<and>
     max (cm_getGenesisTimestamp m c f) (cm_getChainLatestBlockTimestamp m c f 0)
       + mg_p2pTime m + mg_agreementTime m + mg_chainFallbackTime m \<le> block_timestamp ctx \<and>
     block_timestamp ctx + mg_challengeTime m < 2 ^ 256 \<and> f + 1 < 2 ^ 256)"

lemma genesis_unvoted [simp]:
  "df_isFinalizedAndLatest L m c f (mg_encodedStates m c f) e [] P = Inr True"
  by (simp add: finalized_iff cm_isGenesisState_def votes_proper_def)

lemma with_state_reads [simp]:
  "cm_getBlockCallData (with_state s m) = cm_getBlockCallData m"
  "cm_getChainLatestBlockTimestamp (with_state s m) = cm_getChainLatestBlockTimestamp m"
  "cm_getGenesisTimestamp (with_state s m) = cm_getGenesisTimestamp m"
  "cm_getForkCnt c (with_state s m) = cm_getForkCnt c m"
  by (simp_all add: cm_getBlockCallData_def cm_getChainLatestBlockTimestamp_def cm_getGenesisTimestamp_def
      cm_getForkCnt_def fun_eq_iff)

lemma timeout_passes:
  fixes m :: "(math_state, math_event) manager"
  assumes "dp_machine D = math_machine enc dec call" "\<not> sc_nonreentrant (mg_machine m)" "dec e = Inr s"
    and "math_participants s \<noteq> []" "a = math_participants s ! (math_number s mod length (math_participants s))"
    and "msg_sender ctx \<noteq> a" "overdue ctx c a m"
  shows "df_checkTimeout D ctx c (mg_latestFork m c) e [] a 0 m = (Inr (), with_state s m)"
proof -
  let ?f = "mg_latestFork m c"
  have now: "block_timestamp ctx < 2 ^ 256" using assms(7) by (simp add: overdue_def Let_def)
  have "math_getNextToWrite ((mg_machine m)\<lparr>sc_state := s\<rparr>) = Inr a"
    using assms(4,5) by (simp add: math_getNextToWrite_def array_at_def Let_def)
  with now assms(6,7) show ?thesis
    by (simp add: df_checkTimeout_def sbind_def sread_def px_none(4) [OF assms(1-3)] require_def overdue_def
        uadd_def Let_def max_def split: if_splits)
qed

lemma run_checks:
  "sbind (require g msg) f m = (if g m then f () m else (Inl (Reverted msg), m))"
  "sbind (sread h) f' m = (case h m of Inl e \<Rightarrow> (Inl e, m) | Inr x \<Rightarrow> f' x m)"
  "sbind (sreturn x) f' m = f' x m"
  by (simp_all add: sbind_def require_def sread_def sreturn_def)

lemma run_dput:
  "sbind (dput c h) f m = f () (m\<lparr>mg_disputes := (mg_disputes m)(c := h (mg_disputes m c))\<rparr>)"
  by (simp add: sbind_def dput_def smodify_def)

lemma silent_removed:
  fixes m :: "(math_state, math_event) manager"
  assumes D: "dp_machine D = math_machine enc dec call" and m: "\<not> sc_nonreentrant (mg_machine m)"
    and s: "dec (mg_encodedStates m c (mg_latestFork m c)) = Inr s" "dec (enc s) = Inr s"
    and a: "a = math_participants s ! (math_number s mod length (math_participants s))"
      "place_of a (math_participants s) = Some i" "a \<noteq> ZeroAddress"
    and sender: "msg_sender ctx \<in> set (math_participants s)" "msg_sender ctx \<noteq> a"
    and od: "overdue ctx c a m"
    and none: "cd_joinChannelParticipants (mg_disputes m c) = []" "cd_slashedParticipants (mg_disputes m c) = []"
      "cd_leaveChannelParticipants (mg_disputes m c) = []"
  shows "\<exists>m'. createDispute D ctx c (mg_latestFork m c) (mg_encodedStates m c (mg_latestFork m c))
      (mg_encodedStates m c (mg_latestFork m c)) [] a 0 [] m = (Inr (), m') \<and>
    mg_latestFork m' c = mg_latestFork m c + 1 \<and>
    mg_encodedStates m' c (mg_latestFork m c + 1) = enc (s\<lparr>math_participants := swap_remove i (math_participants s)\<rparr>)"
proof -
  let ?f = "mg_latestFork m c" and ?e = "mg_encodedStates m c (mg_latestFork m c)"
  have ne: "math_participants s \<noteq> []" using sender by auto
  have parts: "cm_getParticipants D c ?f m = (Inr (math_participants s), with_state s m)"
    unfolding cm_getParticipants_def D
    by (simp add: sbind_def on_math_setState [where dec = dec and e = ?e, OF m s(1)] sread_def flip: with_state_def)
  have od': "overdue ctx c a (with_state s m)" using od by (simp add: overdue_def cm_isDisputeInProgress_def)
  have tmo: "df_checkTimeout D ctx c ?f ?e [] a 0 (with_state s m) = (Inr (), with_state s m)"
    using timeout_passes [where e = ?e and m = "with_state s m", OF D _ s(1) ne a(1) sender(2) od'] m by simp
  define d where "d = (mg_disputes m c)\<lparr>
         cd_channelId := c, cd_forkCnt := ?f, cd_challengeCnt := 0,
         cd_foldedTransactionCnt := 0,
         cd_virtualVotingBlocks := cd_virtualVotingBlocks (mg_disputes m c),
         cd_encodedLatestFinalizedState := ?e,
         cd_encodedLatestCorrectState := ?e,
         cd_timedoutParticipant := a,
         cd_timeoutDisputer := msg_sender ctx,
         cd_postedStateDisputer := msg_sender ctx,
         cd_participants := math_participants s,
         cd_creationTimestamp := block_timestamp ctx, cd_deadlineTimestamp := block_timestamp ctx + mg_challengeTime m\<rparr>"
  define m1 where "m1 = (with_state s m)\<lparr>mg_disputes := (mg_disputes m)(c := d)\<rparr>"
  have m1: "mg_disputes m1 c = d" "\<not> sc_nonreentrant (mg_machine m1)" "mg_latestFork m1 = mg_latestFork m"
    "mg_encodedStates m1 = mg_encodedStates m"
    using m by (simp_all add: m1_def)
  obtain m2 where m2: "df_applyDisputeToLatestState D ctx c m1 = (Inr (), m2)"
    "mg_disputes m2 c = d\<lparr>cd_processExits := [no_exit\<lparr>pe_participant := a, pe_amount := 0\<rparr>],
      cd_encodedLatestCorrectState := enc (s\<lparr>math_participants := swap_remove i (math_participants s)\<rparr>)\<rparr>"
    "mg_latestFork m2 = mg_latestFork m" "mg_encodedStates m2 = mg_encodedStates m"
    using timeout_outcome [OF D m1(2), of c s i] s a none unfolding m1 by (auto simp: d_def)
  have "\<exists>m'. (sbind (df_applyDisputeToLatestState D ctx c) (\<lambda>_. sbind (dget c) (\<lambda>d.
      sbind (cm_setState ctx (cd_channelId d) (cd_encodedLatestCorrectState d)) (\<lambda>_.
       log_event (EventDisputeUpdated c d))))) m1 = (Inr (), m') \<and> mg_latestFork m' c = ?f + 1 \<and>
    mg_encodedStates m' c (?f + 1) = enc (s\<lparr>math_participants := swap_remove i (math_participants s)\<rparr>)"
    using m2 od
    by (simp add: sbind_def sread_def smodify_def dget_def cm_setState_def uadd_def log_event_def d_def overdue_def Let_def)
  then obtain m' where m': "(sbind (df_applyDisputeToLatestState D ctx c) (\<lambda>_. sbind (dget c) (\<lambda>d.
      sbind (cm_setState ctx (cd_channelId d) (cd_encodedLatestCorrectState d)) (\<lambda>_.
       log_event (EventDisputeUpdated c d))))) m1 = (Inr (), m')" "mg_latestFork m' c = ?f + 1"
    "mg_encodedStates m' c (?f + 1) = enc (s\<lparr>math_participants := swap_remove i (math_participants s)\<rparr>)" by blast
  have parts': "sbind (cm_getParticipants D c ?f) g m = g (math_participants s) (with_state s m)" for g
    by (simp add: sbind_def parts)
  have tmo': "sbind (df_checkTimeout D ctx c ?f ?e [] a 0) g (with_state s m) = g () (with_state s m)"
    for g :: "unit \<Rightarrow> (math_state, math_event, unit) manager_act"
    by (simp add: sbind_def tmo)
  have proofs: "df_applyProofs D ctx c [] m1 = (Inr False, m1)"
    using none m1(1) by (simp add: df_applyProofs_def run_checks d_def sreturn_def)
  have proofs': "sbind (df_applyProofs D ctx c []) g m1 = g False m1" for g
    by (simp add: sbind_def [of "df_applyProofs D ctx c []"] proofs)
  have dead: "uadd (block_timestamp ctx) (mg_challengeTime m) = Inr (block_timestamp ctx + mg_challengeTime m)"
    using od by (simp add: uadd_def overdue_def Let_def)
  have start: "\<not> cm_isDisputeInProgress ctx m c" "cm_getForkCnt c m = ?f"
    using od by (simp_all add: overdue_def Let_def cm_getForkCnt_def)
  have store: "sbind (dput c h) g (with_state s m) = g () m1" if "h (mg_disputes m c) = d" for h g
    using that by (simp add: run_dput m1_def)
  have fin: "df_isFinalizedAndLatest (dp_lib D) (with_state s m) c ?f ?e ?e [] P = Inr True" for P
    using genesis_unvoted [of "dp_lib D" "with_state s m"] by simp
  have "df_createDispute D ctx c ?f ?e ?e [] a 0 [] m =
      sbind (df_applyDisputeToLatestState D ctx c) (\<lambda>_. sbind (dget c) (\<lambda>d.
      sbind (cm_setState ctx (cd_channelId d) (cd_encodedLatestCorrectState d)) (\<lambda>_.
       log_event (EventDisputeUpdated c d)))) m1"
    unfolding df_createDispute_def
    by (simp add: run_checks start parts' sender a(3) fin tmo' dead store [unfolded d_def] proofs' m1(1) [unfolded d_def])
  with m'(1) have "df_createDispute D ctx c ?f ?e ?e [] a 0 [] m = (Inr (), m')" by simp
  with m' show ?thesis by (simp add: createDispute_def transact_def message_call_def)
qed

end
