(* ===== verification/SlashRun.thy ===== *)
theory SlashRun
  imports TimeoutRun
begin

text \<open>
  A dispute with a double-sign proof, run to its end on the contract with \<open>MathStateMachine\<close>.
\<close>

lemma run_nested: "sbind (sbind f g) h = sbind f (\<lambda>x. sbind (g x) h)"
  by (simp add: sbind_def fun_eq_iff split: prod.split sum.split)

lemma run_slash:
  "sbind (df_slash c a) f m = f (a \<notin> set (cd_slashedParticipants (mg_disputes m c)))
     (m\<lparr>mg_disputes := (mg_disputes m)(c := (mg_disputes m c)\<lparr>cd_slashedParticipants :=
         snd (insertIfNotExist a (cd_slashedParticipants (mg_disputes m c)))\<rparr>)\<rparr>)"
  by (simp add: sbind_def slash_result)

lemma on_math_slash:
  assumes "\<not> sc_nonreentrant (mg_machine m)" "place_of a (math_participants (sc_state (mg_machine m))) = Some i"
  shows "on_machine (removal_loop (ast_slashParticipant (math_machine enc dec D)) [a] [no_exit] 0) m =
    on_machine (removal_loop (ast_removeParticipant (math_machine enc dec D)) [a] [no_exit] 0) m"
  by (simp add: on_machine_def ast_removeParticipant_def ast_slashParticipant_def math_machine_def)

lemma px_slash_one:
  assumes "dp_machine D = math_machine enc dec call" "\<not> sc_nonreentrant (mg_machine m)" "dec e = Inr s"
    "place_of a (math_participants s) = Some i"
  shows "message_call (px_applySlashesToStateMachine D e [a]) m =
    (Inr (enc (s\<lparr>math_participants := swap_remove i (math_participants s)\<rparr>), [no_exit\<lparr>pe_participant := a, pe_amount := 0\<rparr>], 1),
     with_state (s\<lparr>math_participants := swap_remove i (math_participants s)\<rparr>) m)"
proof -
  have "message_call (px_applySlashesToStateMachine D e [a]) m = message_call (px_removeParticipantsFromStateMachine D e [a]) m"
    unfolding px_applySlashesToStateMachine_def px_removeParticipantsFromStateMachine_def assms(1)
    by (simp add: message_call_def ast_removeParticipant_def ast_slashParticipant_def math_machine_def)
  with px_remove_one [OF assms] show ?thesis by simp
qed

lemma slash_outcome:
  fixes m :: "(math_state, math_event) manager"
  assumes "dp_machine D = math_machine enc dec call" "\<not> sc_nonreentrant (mg_machine m)"
    "dec (cd_encodedLatestCorrectState (mg_disputes m c)) = Inr s" "dec (enc s) = Inr s"
    "place_of a (math_participants s) = Some i"
    "dec (enc (s\<lparr>math_participants := swap_remove i (math_participants s)\<rparr>)) =
       Inr (s\<lparr>math_participants := swap_remove i (math_participants s)\<rparr>)"
    "cd_timedoutParticipant (mg_disputes m c) = ZeroAddress"
    "cd_joinChannelParticipants (mg_disputes m c) = []" "cd_slashedParticipants (mg_disputes m c) = [a]"
    "cd_leaveChannelParticipants (mg_disputes m c) = []"
  shows "\<exists>m'. df_applyDisputeToLatestState D ctx c m = (Inr (), m') \<and>
    mg_disputes m' c = (mg_disputes m c)\<lparr>
      cd_processExits := [no_exit\<lparr>pe_participant := a, pe_amount := 0\<rparr>],
      cd_encodedLatestCorrectState := enc (s\<lparr>math_participants := swap_remove i (math_participants s)\<rparr>)\<rparr> \<and>
    mg_latestFork m' = mg_latestFork m \<and> mg_encodedStates m' = mg_encodedStates m"
  using assms
  by (simp add: df_applyDisputeToLatestState_def sbind_def dget_def sread_def dput_def smodify_def sreturn_def
      require_def df_pushExits_def px_none [OF assms(1)] px_slash_one [OF assms(1)])

text \<open>Two signed blocks of \<open>a\<close> for one place of a fork.\<close>

definition conflicting :: "evm_lib \<Rightarrow> bytes \<Rightarrow> nat \<Rightarrow> signed_block \<Rightarrow> signed_block \<Rightarrow> address \<Rightarrow> bool" where
  "conflicting L c f s1 s2 a \<longleftrightarrow> (\<exists>b1 b2.
     lib_decodeBlock L (sb_encodedBlock s1) = Inr b1 \<and> lib_decodeBlock L (sb_encodedBlock s2) = Inr b2 \<and>
     getBlockChannelId b1 = c \<and> getBlockChannelId b2 = c \<and> blk_fork b1 = f \<and> blk_fork b2 = f \<and>
     blk_cnt b1 = blk_cnt b2 \<and> lib_keccak256 L (sb_encodedBlock s1) \<noteq> lib_keccak256 L (sb_encodedBlock s2) \<and>
     retriveSignerAddress L (sb_encodedBlock s1) (sb_signature s1) = Inr a \<and>
     retriveSignerAddress L (sb_encodedBlock s2) (sb_signature s2) = Inr a)"

lemma double_sign_run:
  assumes "prf_proofType p = 1" "lib_decodeDoubleSign (dp_lib D) (prf_encodedProof p) = Inr [(s1, s2)]"
    and "conflicting (dp_lib D) c f s1 s2 a" "cd_channelId (mg_disputes m c) = c" "cd_forkCnt (mg_disputes m c) = f"
    and "cd_foldedTransactionCnt (mg_disputes m c) = 0" "cd_slashedParticipants (mg_disputes m c) = []" "msg_sender ctx \<noteq> a"
  shows "df_applyProofs D ctx c [p] m =
    (Inr True, m\<lparr>mg_disputes := (mg_disputes m)(c := (mg_disputes m c)\<lparr>cd_slashedParticipants := [a]\<rparr>)\<rparr>)"
  using assms unfolding conflicting_def
  by (auto simp: df_applyProofs_def df_applyProof_def run_checks run_nested df_applyDoubleSignProof_def
        df_sameDispute_def check_def run_slash insertIfNotExist_def df_tryCancelFold_def run_dput)
     (simp add: sreturn_def)

lemma double_signer_run:
  fixes m :: "(math_state, math_event) manager"
  assumes D: "dp_machine D = math_machine enc dec call" and m: "\<not> sc_nonreentrant (mg_machine m)"
    and s: "dec (mg_encodedStates m c (mg_latestFork m c)) = Inr s" "dec (enc s) = Inr s"
      "dec (enc (s\<lparr>math_participants := swap_remove i (math_participants s)\<rparr>)) =
         Inr (s\<lparr>math_participants := swap_remove i (math_participants s)\<rparr>)"
    and a: "place_of a (math_participants s) = Some i"
    and p: "prf_proofType p = 1" "lib_decodeDoubleSign (dp_lib D) (prf_encodedProof p) = Inr [(s1, s2)]"
      "conflicting (dp_lib D) c (mg_latestFork m c) s1 s2 a"
    and sender: "msg_sender ctx \<in> set (math_participants s)" "msg_sender ctx \<noteq> a"
    and start: "\<not> cm_isDisputeInProgress ctx m c" "block_timestamp ctx + mg_challengeTime m < 2 ^ 256"
      "mg_latestFork m c + 1 < 2 ^ 256"
    and none: "cd_joinChannelParticipants (mg_disputes m c) = []" "cd_slashedParticipants (mg_disputes m c) = []"
      "cd_leaveChannelParticipants (mg_disputes m c) = []"
  shows "\<exists>m'. createDispute D ctx c (mg_latestFork m c) (mg_encodedStates m c (mg_latestFork m c))
      (mg_encodedStates m c (mg_latestFork m c)) [] ZeroAddress 0 [p] m = (Inr (), m') \<and>
    mg_latestFork m' c = mg_latestFork m c + 1 \<and>
    mg_encodedStates m' c (mg_latestFork m c + 1) = enc (s\<lparr>math_participants := swap_remove i (math_participants s)\<rparr>)"
proof -
  let ?f = "mg_latestFork m c" and ?e = "mg_encodedStates m c (mg_latestFork m c)"
  have parts: "sbind (cm_getParticipants D c ?f) g m = g (math_participants s) (with_state s m)" for g
    unfolding cm_getParticipants_def D
    by (simp add: sbind_def on_math_setState [where dec = dec and e = ?e, OF m s(1)] sread_def flip: with_state_def)
  define d where "d = (mg_disputes m c)\<lparr>
         cd_channelId := c, cd_forkCnt := ?f, cd_challengeCnt := 0, cd_foldedTransactionCnt := 0,
         cd_virtualVotingBlocks := cd_virtualVotingBlocks (mg_disputes m c),
         cd_encodedLatestFinalizedState := ?e, cd_encodedLatestCorrectState := ?e,
         cd_timedoutParticipant := ZeroAddress, cd_timeoutDisputer := cd_timeoutDisputer (mg_disputes m c),
         cd_postedStateDisputer := msg_sender ctx, cd_participants := math_participants s,
         cd_creationTimestamp := block_timestamp ctx, cd_deadlineTimestamp := block_timestamp ctx + mg_challengeTime m\<rparr>"
  define m1 where "m1 = (with_state s m)\<lparr>mg_disputes := (mg_disputes m)(c := d)\<rparr>"
  define m2 where "m2 = m1\<lparr>mg_disputes := (mg_disputes m1)(c := (mg_disputes m1 c)\<lparr>cd_slashedParticipants := [a]\<rparr>)\<rparr>"
  have d1: "mg_disputes m1 c = d" by (simp add: m1_def)
  have m2: "mg_disputes m2 c = d\<lparr>cd_slashedParticipants := [a]\<rparr>" "\<not> sc_nonreentrant (mg_machine m2)"
    "mg_latestFork m2 = mg_latestFork m" "mg_encodedStates m2 = mg_encodedStates m"
    using m by (simp_all add: m2_def m1_def)
  have "df_applyProofs D ctx c [p] m1 = (Inr True, m2)"
    using double_sign_run [OF p, of m1 ctx] none sender(2) unfolding m2_def by (simp add: m1_def d_def)
  then have proofs: "sbind (df_applyProofs D ctx c [p]) g m1 = g True m2" for g
    by (simp add: sbind_def [of "df_applyProofs D ctx c [p]"])
  obtain m3 where m3: "df_applyDisputeToLatestState D ctx c m2 = (Inr (), m3)"
    "mg_disputes m3 c = d\<lparr>cd_slashedParticipants := [a], cd_processExits := [no_exit\<lparr>pe_participant := a, pe_amount := 0\<rparr>],
      cd_encodedLatestCorrectState := enc (s\<lparr>math_participants := swap_remove i (math_participants s)\<rparr>)\<rparr>"
    "mg_latestFork m3 = mg_latestFork m" "mg_encodedStates m3 = mg_encodedStates m"
    using slash_outcome [OF D m2(2), of c s a i ctx] s a none unfolding m2 by (auto simp: d_def)
  have "\<exists>m'. (sbind (df_applyDisputeToLatestState D ctx c) (\<lambda>_. sbind (dget c) (\<lambda>d.
      sbind (cm_setState ctx (cd_channelId d) (cd_encodedLatestCorrectState d)) (\<lambda>_.
       log_event (EventDisputeUpdated c d))))) m2 = (Inr (), m') \<and> mg_latestFork m' c = ?f + 1 \<and>
    mg_encodedStates m' c (?f + 1) = enc (s\<lparr>math_participants := swap_remove i (math_participants s)\<rparr>)"
    using m3 start(3)
    by (simp add: sbind_def sread_def smodify_def dget_def cm_setState_def uadd_def log_event_def d_def)
  then obtain m' where m': "(sbind (df_applyDisputeToLatestState D ctx c) (\<lambda>_. sbind (dget c) (\<lambda>d.
      sbind (cm_setState ctx (cd_channelId d) (cd_encodedLatestCorrectState d)) (\<lambda>_.
       log_event (EventDisputeUpdated c d))))) m2 = (Inr (), m')" "mg_latestFork m' c = ?f + 1"
    "mg_encodedStates m' c (?f + 1) = enc (s\<lparr>math_participants := swap_remove i (math_participants s)\<rparr>)" by blast
  have dead: "uadd (block_timestamp ctx) (mg_challengeTime m) = Inr (block_timestamp ctx + mg_challengeTime m)"
    using start(2) by (simp add: uadd_def)
  have fork: "cm_getForkCnt c m = ?f" by (simp add: cm_getForkCnt_def)
  have store: "sbind (dput c h) g (with_state s m) = g () m1" if "h (mg_disputes m c) = d" for h g
    using that by (simp add: run_dput m1_def)
  have fin: "df_isFinalizedAndLatest (dp_lib D) (with_state s m) c ?f ?e ?e [] P = Inr True" for P
    using genesis_unvoted [of "dp_lib D" "with_state s m"] by simp
  have "df_createDispute D ctx c ?f ?e ?e [] ZeroAddress 0 [p] m =
      sbind (df_applyDisputeToLatestState D ctx c) (\<lambda>_. sbind (dget c) (\<lambda>d.
      sbind (cm_setState ctx (cd_channelId d) (cd_encodedLatestCorrectState d)) (\<lambda>_.
       log_event (EventDisputeUpdated c d)))) m2"
    unfolding df_createDispute_def
    by (simp add: run_checks start(1) fork parts sender fin dead store [unfolded d_def] proofs)
  with m' show ?thesis by (simp add: createDispute_def transact_def message_call_def)
qed

end
