(* ===== verification/PostRules.thy ===== *)
theory PostRules
  imports ChainLedger
begin

text \<open>
  A posted block protects its author from a time-out: \<open>postBlockCalldata\<close> records it, no transaction
  takes it away, what precedes the test of \<open>createDispute\<close> keeps it, and the test refuses. The proof of
  \<open>FoldPriorBlock\<close> also looks for it, but counts it only when it is not younger than the dispute.
\<close>

definition same_posts :: "('st, 'ev) manager \<Rightarrow> ('st, 'ev) manager \<Rightarrow> bool" where
  "same_posts m m' \<longleftrightarrow> mg_posted m' = mg_posted m"

interpretation sp: preserved "same_posts :: ('st, 'ev) manager \<Rightarrow> ('st, 'ev) manager \<Rightarrow> bool"
  by unfold_locales (simp_all add: same_posts_def)

lemma posts_stay: "same_posts m m' \<Longrightarrow> posted c f n a m \<Longrightarrow> posted c f n a m'"
  by (simp add: same_posts_def posted_def cm_getBlockCallData_def)

lemmas step_posts = refuses_then [where R = same_posts, OF _ posts_stay]

lemma sp_machine: "keeps same_posts (on_machine f)"
  by (auto simp: keeps_def on_machine_def same_posts_def split: prod.split)

lemma sp_reads:
  "keeps same_posts (require g msg)" "keeps same_posts (cm_getNextToWrite D e)" "keeps same_posts (cm_getParticipants D c f)"
proof -
  show "keeps same_posts (require g msg)" by (simp add: keeps_def require_def same_posts_def)
  show "keeps same_posts (cm_getNextToWrite D e)"
    unfolding cm_getNextToWrite_def by (intro sp.bind sp_machine sp.pure)
  have "keeps same_posts (sbind (on_machine (ast_setState (dp_machine D) enc)) (\<lambda>_.
      sread (\<lambda>m. mc_getParticipants (dp_machine D) (mg_machine m))))" for enc by (intro sp.bind sp_machine sp.pure)
  then show "keeps same_posts (cm_getParticipants D c f)" by (simp add: keeps_def cm_getParticipants_def)
qed

lemma timeout_refused: "refuses (posted c f n a) (df_checkTimeout D ctx c f lat vs a n)"
proof -
  have stop: "refuses (posted c f n a) (sbind (sread (\<lambda>m.
      if fst (cm_getBlockCallData m c f n a) then Inr True else g m)) (\<lambda>early. sbind (require (\<lambda>_. \<not> early) msg) h))"
    for g msg and h :: "unit \<Rightarrow> ('a, 'b, unit) manager_act"
    by (auto simp: refuses_def posted_def sbind_def sread_def require_def)
  show ?thesis
    unfolding df_checkTimeout_def Let_def
    by (intro stop step_posts [OF sp.pure(3)] step_posts [OF sp_reads(1)] step_posts [OF sp_reads(2)])
qed

lemma create_refused:
  assumes "a \<noteq> ZeroAddress"
  shows "refuses (posted c f n a) (df_createDispute D ctx c f fin lat vs a n ps)"
proof -
  have stop: "refuses (posted c f n a) (if a \<noteq> ZeroAddress then df_checkTimeout D ctx c f lat vs a n else sreturn ())"
    using assms timeout_refused by simp
  show ?thesis
    unfolding df_createDispute_def
    by (intro refuses_first [OF stop] step_posts [OF sp.pure(3)] step_posts [OF sp_reads(1)] step_posts [OF sp_reads(3)])
qed

lemma require_signed_same: "require_signed L as d ss msg m = (Inr u, m') \<Longrightarrow> m' = m"
  by (auto simp: require_signed_def sbind_Inr_iff require_Inr sread_iff split_beta)

lemma post_recorded:
  assumes "postBlockCalldata D ctx sb m = (Inr u, m')" "lib_decodeBlock (dp_lib D) (sb_encodedBlock sb) = Inr b"
    and "0 < mg_p2pTime m"
  shows "posted (getBlockChannelId b) (blk_fork b) (blk_cnt b) (msg_sender ctx) m' \<and> 0 < mg_p2pTime m'"
  using assms
  by (auto simp: postBlockCalldata_def Let_def sbind_Inr_iff require_Inr sread_iff smodify_iff log_event_def
      posted_def cm_getBlockCallData_def res_simps
      eq_commute [of "Inr x" "rbind r g" for x r g] dest!: require_signed_same)

text \<open>Once recorded, a post stays, whatever transactions follow.\<close>

lemma posts_survive:
  assumes "hooks_ok D" "opens_ok D" "(chain_step D)\<^sup>*\<^sup>* m m'" "0 < mg_p2pTime m" "posted c f n a m"
  shows "posted c f n a m'"
  using chain_steps_le [OF assms(1-3)] assms(4,5) by (auto simp: history_le_def posts_kept_def)

lemma fold_prior_late:
  assumes "df_applyFoldPriorBlockProof L ctx c n m = (Inr r, m')"
    and "posted (cd_channelId (mg_disputes m c)) (cd_forkCnt (mg_disputes m c)) n (cd_timedoutParticipant (mg_disputes m' c)) m"
  shows "cd_creationTimestamp (mg_disputes m c) < bc_timestamp (snd (cm_getBlockCallData m
    (cd_channelId (mg_disputes m c)) (cd_forkCnt (mg_disputes m c)) n (cd_timedoutParticipant (mg_disputes m' c))))"
  using assms
  by (auto simp: df_applyFoldPriorBlockProof_def Let_def sbind_Inr_iff require_Inr sread_iff smodify_iff dput_def dget_def
      sreturn_def posted_def split_beta)

end
