(* ===== verification/ChainProperties.thy ===== *)
theory ChainProperties
  imports Bridge ContractGameProperties SlashRun PostRules
begin

text \<open>
  Properties of the channel manager and its disputes, and of the contract together with the
  TypeScript peer.
\<close>

section \<open>A sample channel on the chain\<close>

abbreviation sample_math :: math_state where
  "sample_math \<equiv> \<lparr>math_number = 0, math_participants = [''A'', ''B'']\<rparr>"

definition sample_enc :: "math_state \<Rightarrow> bytes" where
  "sample_enc s = (if math_participants s = [''A'', ''B''] then ''s'' else if math_participants s = [''A''] then ''sA'' else ''sB'')"

definition sample_dec :: "bytes \<Rightarrow> math_state sol" where
  "sample_dec e = (if e = ''s'' then Inr sample_math else if e = ''sA'' then Inr \<lparr>math_number = 0, math_participants = [''A'']\<rparr> else Inl NoData)"

definition sample_deployment :: "(math_state, math_event) deployment" where
  "sample_deployment =
     \<lparr>dp_lib = sampleL, dp_machine = math_machine sample_enc sample_dec (\<lambda>_. MathUnknown),
      dp_machineAddress = ''sm'', dp_addParticipantComposable = example_addParticipantComposable,
      dp_removeParticipantComposable = example_removeParticipantComposable,
      dp_openChannel = math_openChannel sample_enc sampleL\<rparr>"

definition sample_manager :: "(math_state, math_event) manager" where
  "sample_manager =
     (manager_new \<lparr>p2pTime = 15, agreementTime = 5, chainFallbackTime = 30, challengeTime = 60\<rparr>
        \<lparr>sc_tx = blk_transaction block0, sc_nonreentrant = False,
         sc_state = \<lparr>math_number = 0, math_participants = []\<rparr>, sc_events = []\<rparr>)
       \<lparr>mg_encodedStates := \<lambda>_ _. ''s'', mg_genesisTimestamps := \<lambda>_ _. 100\<rparr>"

definition sender_at :: "address \<Rightarrow> nat \<Rightarrow> call_context" where
  "sender_at a t = \<lparr>msg_sender = a, this_address = ''cm'', block_timestamp = t\<rparr>"

lemma sender_at_fields [simp]:
  "msg_sender (sender_at a t) = a" "this_address (sender_at a t) = ''cm''" "block_timestamp (sender_at a t) = t"
  by (simp_all add: sender_at_def)

lemma sample_manager_fields [simp]:
  "mg_encodedStates sample_manager c f = ''s''" "mg_latestFork sample_manager c = 0"
  "mg_disputes sample_manager c = no_dispute" "sc_nonreentrant (mg_machine sample_manager) = False"
  "mg_challengeTime sample_manager = 60"
  by (simp_all add: sample_manager_def manager_new_def)

text \<open>The storage with a dispute of the channel.\<close>

definition disputed :: "chain_dispute \<Rightarrow> (math_state, math_event) manager" where
  "disputed d = sample_manager\<lparr>mg_disputes := \<lambda>_. d\<rparr>"

lemma disputed_fields [simp]: "mg_disputes (disputed d) c = d"
  by (simp add: disputed_def)

lemma sample_deployment_fields [simp]:
  "dp_lib sample_deployment = sampleL"
  "dp_machine sample_deployment = math_machine sample_enc sample_dec (\<lambda>_. MathUnknown)"
  by (simp_all add: sample_deployment_def)

lemma sample_hooks: "hooks_ok sample_deployment" "hook_neutral sample_deployment"
  by (rule example_hooks_ok)
    (simp_all add: sample_deployment_def hook_neutral_def same_storage_def example_addParticipantComposable_def sreturn_def)

lemma sample_opens: "opens_ok sample_deployment"
  by (rule math_opens_ok) (simp add: sample_deployment_def)

section \<open>Signatures and finality\<close>

text \<open>
  C20. The library accepts a threshold exactly when every signature can be recovered and the
  addresses asked for are, each as often as it is asked for, among the signers: the fast path by
  position and the search are the inclusion of multisets.
\<close>

theorem threshold_signed_iff:
  "verifyThresholdSigned L addrs d ss = Inr (True, []) \<longleftrightarrow>
     (\<exists>signers. mapM (retriveSignerAddress L d) ss = Inr signers \<and> mset addrs \<subseteq># mset signers)"
  by (simp add: threshold_holds_iff)

text \<open>
  C9. The exact condition under which the contract takes a state for the latest one: the votes
  decode to signed blocks of the channel and the fork, each builds on the one before, the first one
  on the genesis state or ending in the finalized one, the last one ends in the latest state; and
  unless the finalized state is the genesis state, every participant signed one of them.
\<close>

theorem finalized_and_latest_iff:
  "df_isFinalizedAndLatest L m c f fin lat vs P = Inr True \<longleftrightarrow>
    (\<exists>bs ss. mapM (\<lambda>v. lib_decodeBlock L (cb_encodedBlock v)) vs = Inr bs \<and>
       mapM (vote_signers_of L) vs = Inr ss \<and> votes_proper c f bs ss \<and>
       votes_linked (\<not> cm_isGenesisState L m c f fin) (lib_keccak256 L fin) (lib_keccak256 L fin) bs \<and>
       (bs = [] \<or> blk_stateHash (last bs) = lib_keccak256 L lat) \<and>
       (cm_isGenesisState L m c f fin \<or> distinct P \<and> set P \<subseteq> \<Union> (set ` set ss)))"
  unfolding finalized_iff by blast

text \<open>
  With the genesis state as finalized and no votes at all, the contract takes any bytes for the
  latest correct state: nothing links them to the channel.
\<close>

theorem forged_state_is_latest:
  "df_isFinalizedAndLatest L m c f (mg_encodedStates m c f) forged [] P = Inr True"
  by (simp add: finalized_iff cm_isGenesisState_def votes_proper_def)

section \<open>What a dispute leaves behind\<close>

lemma dispute_kept: "ledger_le k m m' \<Longrightarrow> dispute_le k (mg_disputes m c) (mg_disputes m' c)"
  by (simp add: ledger_le_def)

lemma dispute_slashed_kept:
  "dispute_le k d d' \<Longrightarrow> set (cd_slashedParticipants d) \<subseteq> set (cd_slashedParticipants d') \<and>
     (distinct (cd_slashedParticipants d) \<longrightarrow> distinct (cd_slashedParticipants d'))"
  by (auto simp: dispute_le_def)

text \<open>
  C10. Whatever transactions follow, opening channels included, the number of forks of a channel never
  goes down, the state and the start time of a fork never change, with the exception of fork 0 of a
  channel that is not open yet, a participant once slashed stays slashed, and nobody is slashed twice.
\<close>

theorem past_is_kept:
  assumes "hooks_ok D" "opens_ok D" "(chain_step D)\<^sup>*\<^sup>* m m'"
  shows "mg_latestFork m c \<le> mg_latestFork m' c \<and>
    (\<forall>f \<le> mg_latestFork m c. 0 < f \<or> cm_isChannelOpen (dp_lib D) m c \<longrightarrow>
       mg_encodedStates m' c f = mg_encodedStates m c f \<and> mg_genesisTimestamps m' c f = mg_genesisTimestamps m c f) \<and>
    set (cd_slashedParticipants (mg_disputes m c)) \<subseteq> set (cd_slashedParticipants (mg_disputes m' c)) \<and>
    (distinct (cd_slashedParticipants (mg_disputes m c)) \<longrightarrow> distinct (cd_slashedParticipants (mg_disputes m' c)))"
proof -
  have le: "history_le (dp_lib D) m m'" by (rule chain_steps_le [OF assms])
  then have "dispute_le False (mg_disputes m c) (mg_disputes m' c)" by (simp add: history_le_def)
  from dispute_slashed_kept [OF this] le show ?thesis
    by (simp add: history_le_def)
qed

theorem past_is_kept_witness:
  "\<exists>r m1 r' m2. transact (dp_openChannel sample_deployment (sender_at ''A'' 900) ''ch'' [''j''] [''s'']) sample_manager = (r, m1) \<and>
     createDispute sample_deployment (sender_at ''B'' 1000) ''ch'' 0 ''s'' ''s'' [] ''A'' 0 [] m1 = (r', m2) \<and>
     mg_encodedStates m2 ''ch'' 0 = ''s''"
proof -
  obtain r m1 where one: "transact (dp_openChannel sample_deployment (sender_at ''A'' 900) ''ch'' [''j''] [''s'']) sample_manager = (r, m1)"
    by (meson surj_pair)
  obtain r' m2 where two: "createDispute sample_deployment (sender_at ''B'' 1000) ''ch'' 0 ''s'' ''s'' [] ''A'' 0 [] m1 = (r', m2)"
    by (meson surj_pair)
  have "(chain_step sample_deployment)\<^sup>*\<^sup>* sample_manager m2"
    using ch_open [OF one] ch_create [OF two] by auto
  from past_is_kept [OF sample_hooks(1) sample_opens this, of "''ch''"] have "mg_encodedStates m2 ''ch'' 0 = ''s''"
    by (simp add: cm_isChannelOpen_def)
  with one two show ?thesis by blast
qed

lemma slashed_stays:
  "ledger_le k m m' \<Longrightarrow> a \<in> set (cd_slashedParticipants (mg_disputes m c)) \<Longrightarrow>
     a \<in> set (cd_slashedParticipants (mg_disputes m' c))"
  using dispute_slashed_kept [OF dispute_kept] by blast

abbreviation slashed_in :: "bytes \<Rightarrow> address \<Rightarrow> ('st, 'ev) manager \<Rightarrow> bool" where
  "slashed_in c a m \<equiv> a \<in> set (cd_slashedParticipants (mg_disputes m c))"

lemmas step_slashed = refuses_then [where R = "ledger_le False", OF _ slashed_stays]

lemma applyProofs_slashed:
  assumes "hooks_ok D"
  shows "refuses (slashed_in c (msg_sender ctx)) (df_applyProofs D ctx c ps)"
  unfolding df_applyProofs_def
proof (rule step_slashed [OF lg_proofs_loop [OF assms]])
  fix ok
  show "refuses (slashed_in c (msg_sender ctx)) (sbind (dget c) (\<lambda>d. sbind (require
      (\<lambda>_. \<not> isAddressInArray (cd_slashedParticipants d) (msg_sender ctx)) ''ErrorSlashedParticipantCantDispute'')
      (\<lambda>_. sreturn ok)))"
    by (auto simp: refuses_def sbind_def dget_def sread_def require_def)
qed

lemma createDispute_slashed:
  assumes "hooks_ok D"
  shows "refuses (slashed_in c (msg_sender ctx)) (df_createDispute D ctx c f fin lat vs a n ps)"
proof -
  have timeout: "keeps (ledger_le False) (if a \<noteq> ZeroAddress then df_checkTimeout D ctx c f lat vs a n else sreturn ())"
    by (intro lg_keeps)
  have stored: "keeps (ledger_le False) (dput c (\<lambda>d. d\<lparr>
         cd_channelId := c, cd_forkCnt := f, cd_challengeCnt := 0, cd_foldedTransactionCnt := n,
         cd_virtualVotingBlocks := cd_virtualVotingBlocks d @ vs, cd_encodedLatestFinalizedState := fin,
         cd_encodedLatestCorrectState := lat, cd_timedoutParticipant := a,
         cd_timeoutDisputer := (if a \<noteq> ZeroAddress then msg_sender ctx else cd_timeoutDisputer d),
         cd_postedStateDisputer := msg_sender ctx, cd_participants := ps,
         cd_creationTimestamp := block_timestamp ctx, cd_deadlineTimestamp := t\<rparr>))" for ps t
    by (rule lg_dput) (simp add: dispute_le_def)
  show ?thesis
    unfolding df_createDispute_def
    by (intro refuses_first [OF applyProofs_slashed [OF assms]] step_slashed [OF lg_require]
        step_slashed [OF lg_getParticipants] step_slashed [OF ldg.pure(3)] step_slashed [OF timeout]
        step_slashed [OF stored])
qed

text \<open>
  A dispute starts with the participants slashed in the earlier disputes of the channel, which
  the storage still holds: one of them can never open a dispute again, however long ago it was.
\<close>

theorem slashed_once_banned:
  assumes "hooks_ok D" "msg_sender ctx \<in> set (cd_slashedParticipants (mg_disputes m c))"
  shows "\<exists>e. createDispute D ctx c f fin lat vs a n ps m = (Inl e, m)"
  unfolding createDispute_def by (rule refused_reverts [OF createDispute_slashed [OF assms(1)] assms(2)])

theorem slashed_once_banned_witness:
  "\<exists>e. createDispute sample_deployment (sender_at ''A'' 1000) ''ch'' 0 ''s'' ''s'' [] ZeroAddress 0 []
     (disputed (no_dispute\<lparr>cd_slashedParticipants := [''A'']\<rparr>)) =
     (Inl e, disputed (no_dispute\<lparr>cd_slashedParticipants := [''A'']\<rparr>))"
  by (rule slashed_once_banned [OF sample_hooks(1)]) (simp add: no_dispute_def)

section \<open>Who is slashed\<close>

text \<open>
  C8. Nobody is slashed without evidence: whoever the proofs of a dispute add to the slashed
  participants has signed two blocks for one place; signed a block which starts from the genesis state
  of the fork or from the state of a block signed by its author, and which has a wrong time by the
  clock rule of the contract or does not claim the outcome of its transaction on that state; signed a
  block from the future; is the disputer and signed a block not before the last vote; or asked for the
  time-out of a place that has everybody's signatures. All this is about the storage before the proofs.
\<close>

theorem slashed_with_evidence:
  assumes "hook_neutral D" "df_applyProofs D ctx c ps m = (r, m')"
    and "a \<in> set (cd_slashedParticipants (mg_disputes m' c))"
  shows "a \<in> set (cd_slashedParticipants (mg_disputes m c)) \<or> accused D ctx c m a"
  using keepsD [OF ac_applyProofs [OF assms(1)] assms(2)] assms(3) unfolding accused_le_def by blast

definition open_dispute :: chain_dispute where
  "open_dispute = no_dispute\<lparr>cd_channelId := ''ch'', cd_participants := [''A'', ''B''],
     cd_virtualVotingBlocks := [\<lparr>cb_encodedBlock = ''b1'', cb_signatures = [sig_of CHR ''A'' ''b1'']\<rparr>],
     cd_postedStateDisputer := ''A'', cd_deadlineTimestamp := 2000\<rparr>"

lemma open_dispute_fields [simp]:
  "cd_channelId open_dispute = ''ch''" "cd_forkCnt open_dispute = 0" "cd_slashedParticipants open_dispute = []"
  "cd_virtualVotingBlocks open_dispute = [\<lparr>cb_encodedBlock = ''b1'', cb_signatures = [sig_of CHR ''A'' ''b1'']\<rparr>]"
  "cd_postedStateDisputer open_dispute = ''A''" "cd_foldedTransactionCnt open_dispute = 0"
  by (simp_all add: open_dispute_def no_dispute_def)

lemma sample_channel [simp]:
  "getBlockChannelId block0 = ''ch''" "getBlockChannelId block0' = ''ch''" "getBlockChannelId block1 = ''ch''"
  by (simp_all add: block0_def block0'_def block1_def)

lemma sample_double_sign:
  "\<exists>m'. df_applyProofs sample_deployment (sender_at ''A'' 1000) ''ch'' [\<lparr>prf_proofType = 1, prf_encodedProof = ''p''\<rparr>]
     (disputed open_dispute) = (Inr True, m') \<and> cd_slashedParticipants (mg_disputes m' ''ch'') = [''B'']"
proof -
  have dec: "lib_decodeDoubleSign sampleL ''p'' = Inr [(signed ''c0'' CHR ''B'', signed ''b0'' CHR ''B'')]"
    by (simp add: sampleL_def signed_def sig_of_def)
  show ?thesis
    by (simp add: df_applyProofs_def df_applyProof_def run_checks run_nested dec df_applyDoubleSignProof_def signed_def
        df_sameDispute_def check_def run_slash insertIfNotExist_def df_tryCancelFold_def run_dput)
       (simp add: sreturn_def)
qed

theorem slashed_with_evidence_witness:
  "accused sample_deployment (sender_at ''A'' 1000) ''ch'' (disputed open_dispute) ''B''"
proof -
  obtain m' where run: "df_applyProofs sample_deployment (sender_at ''A'' 1000) ''ch'' [\<lparr>prf_proofType = 1, prf_encodedProof = ''p''\<rparr>]
     (disputed open_dispute) = (Inr True, m')" "cd_slashedParticipants (mg_disputes m' ''ch'') = [''B'']"
    using sample_double_sign by blast
  from slashed_with_evidence [OF sample_hooks(2) run(1), of "''B''"] run(2) show ?thesis by simp
qed

text \<open>
  C23. The disputer can be slashed with the very block it handed in: the contract takes the last vote
  itself, which the disputer signed, for a newer state.
\<close>

theorem honest_disputer_slashed:
  assumes "cd_virtualVotingBlocks (mg_disputes m c) \<noteq> []"
    and "last (cd_virtualVotingBlocks (mg_disputes m c)) = v" "lib_decodeBlock L (cb_encodedBlock v) = Inr b"
    and "getBlockChannelId b = cd_channelId (mg_disputes m c)" "blk_fork b = cd_forkCnt (mg_disputes m c)"
    and "retriveSignerAddress L (cb_encodedBlock v) s = Inr (cd_postedStateDisputer (mg_disputes m c))"
  shows "\<exists>r m'. df_applyNewerStateProof L c (cb_encodedBlock v, s) m = (Inr r, m') \<and>
    cd_postedStateDisputer (mg_disputes m c) \<in> set (cd_slashedParticipants (mg_disputes m' c))"
proof -
  let ?vs = "cd_virtualVotingBlocks (mg_disputes m c)"
  have "rbind (usub (length ?vs) 1) (array_at ?vs) = Inr v"
    using assms(1,2) by (simp add: usub_def array_at_def last_conv_nth Suc_le_eq)
  with assms show ?thesis
    by (simp add: df_applyNewerStateProof_def run_checks df_sameDispute_def check_def slash_result
        insertIfNotExist_def)
qed

theorem honest_disputer_slashed_witness:
  "\<exists>r m'. df_applyNewerStateProof sampleL ''ch'' (''b1'', sig_of CHR ''A'' ''b1'') (disputed open_dispute) = (Inr r, m') \<and>
     ''A'' \<in> set (cd_slashedParticipants (mg_disputes m' ''ch''))"
  using honest_disputer_slashed [of "disputed open_dispute" "''ch''" _ sampleL block1 "sig_of CHR ''A'' ''b1''"] by simp

section \<open>Transactions that revert\<close>

lemma challenge_without_votes:
  assumes "hooks_ok D"
  shows "refuses (\<lambda>m. cd_virtualVotingBlocks (mg_disputes m c) = []) (df_challengeDispute D ctx c f n ps vs fin lat)"
proof -
  note still = refuses_then [where R = "ledger_le True" and Q = "\<lambda>m. cd_virtualVotingBlocks (mg_disputes m c) = []"]
  have none: "cd_virtualVotingBlocks (mg_disputes m' c) = []"
    if "ledger_le True m m'" "cd_virtualVotingBlocks (mg_disputes m c) = []" for m m' :: "('a, 'b) manager"
    using dispute_kept [OF that(1), of c] that(2) by (auto simp: dispute_le_def)
  have stop: "refuses (\<lambda>m. cd_virtualVotingBlocks (mg_disputes m c) = [])
      (sread (\<lambda>m. rbind (array_at (cd_virtualVotingBlocks (mg_disputes m c)) 0) g))" for g :: "_ \<Rightarrow> block sol"
    by (rule refuses_read) (simp add: array_at_def)
  show ?thesis
    unfolding df_challengeDispute_def Let_def
    by (intro refuses_first [OF stop] still [OF lg_dget none] still [OF lg_require none]
        still [OF lg_applyProofs [OF assms] none] still [OF ldg.pure(3) none])
qed

lemma lg_create_voteless:
  assumes "hooks_ok D"
  shows "keeps (ledger_le True) (createDispute D ctx c f fin lat [] a n ps)"
  unfolding createDispute_def df_createDispute_def
  by (intro lg_keeps lg_dput assms) (simp add: dispute_le_def)

text \<open>
  C16. Once the others had their time, a participant that never wrote the first block of the fork can
  be removed by any other: the dispute goes through, and the next fork starts from the genesis state
  without it.
\<close>

theorem silent_participant_removed:
  fixes m :: "(math_state, math_event) manager"
  assumes "dp_machine D = math_machine enc dec call" "\<not> sc_nonreentrant (mg_machine m)"
    and "dec (mg_encodedStates m c (mg_latestFork m c)) = Inr s" "dec (enc s) = Inr s"
    and "a = math_participants s ! (math_number s mod length (math_participants s))"
      "place_of a (math_participants s) = Some i" "a \<noteq> ZeroAddress"
    and "msg_sender ctx \<in> set (math_participants s)" "msg_sender ctx \<noteq> a" "overdue ctx c a m"
    and "cd_joinChannelParticipants (mg_disputes m c) = []" "cd_slashedParticipants (mg_disputes m c) = []"
      "cd_leaveChannelParticipants (mg_disputes m c) = []"
  shows "\<exists>m'. createDispute D ctx c (mg_latestFork m c) (mg_encodedStates m c (mg_latestFork m c))
      (mg_encodedStates m c (mg_latestFork m c)) [] a 0 [] m = (Inr (), m') \<and>
    mg_latestFork m' c = mg_latestFork m c + 1 \<and>
    mg_encodedStates m' c (mg_latestFork m c + 1) = enc (s\<lparr>math_participants := swap_remove i (math_participants s)\<rparr>)"
  by (rule silent_removed [OF assms])

lemma sample_overdue: "overdue (sender_at ''B'' 1000) ''ch'' ''A'' sample_manager"
  by (simp add: overdue_def sample_manager_def manager_new_def no_dispute_def no_fork_data_def cm_isDisputeInProgress_def
      cm_getBlockCallData_def cm_getChainLatestBlockTimestamp_def cm_getGenesisTimestamp_def Let_def)

theorem silent_participant_removed_witness:
  "\<exists>m'. createDispute sample_deployment (sender_at ''B'' 1000) ''ch'' 0 ''s'' ''s'' [] ''A'' 0 [] sample_manager =
       (Inr (), m') \<and> mg_latestFork m' ''ch'' = 1 \<and> mg_encodedStates m' ''ch'' 1 = ''sB''"
  using silent_participant_removed [OF sample_deployment_fields(2), of sample_manager "''ch''" sample_math "''A''" 0 "sender_at ''B'' 1000"]
    sample_overdue
  by (simp add: sample_enc_def sample_dec_def no_dispute_def ZeroAddress_def swap_remove_def)

text \<open>
  C7. A participant that signed two blocks for one place is removed by any other participant who
  hands in the two signed blocks: the dispute goes through and the next fork starts without it.
\<close>

theorem double_signer_removed:
  fixes m :: "(math_state, math_event) manager"
  assumes "dp_machine D = math_machine enc dec call" "\<not> sc_nonreentrant (mg_machine m)"
    and "dec (mg_encodedStates m c (mg_latestFork m c)) = Inr s" "dec (enc s) = Inr s"
      "dec (enc (s\<lparr>math_participants := swap_remove i (math_participants s)\<rparr>)) =
         Inr (s\<lparr>math_participants := swap_remove i (math_participants s)\<rparr>)"
    and "place_of a (math_participants s) = Some i"
    and "prf_proofType p = 1" "lib_decodeDoubleSign (dp_lib D) (prf_encodedProof p) = Inr [(s1, s2)]"
      "conflicting (dp_lib D) c (mg_latestFork m c) s1 s2 a"
    and "msg_sender ctx \<in> set (math_participants s)" "msg_sender ctx \<noteq> a"
    and "\<not> cm_isDisputeInProgress ctx m c" "block_timestamp ctx + mg_challengeTime m < 2 ^ 256"
      "mg_latestFork m c + 1 < 2 ^ 256"
    and "cd_joinChannelParticipants (mg_disputes m c) = []" "cd_slashedParticipants (mg_disputes m c) = []"
      "cd_leaveChannelParticipants (mg_disputes m c) = []"
  shows "\<exists>m'. createDispute D ctx c (mg_latestFork m c) (mg_encodedStates m c (mg_latestFork m c))
      (mg_encodedStates m c (mg_latestFork m c)) [] ZeroAddress 0 [p] m = (Inr (), m') \<and>
    mg_latestFork m' c = mg_latestFork m c + 1 \<and>
    mg_encodedStates m' c (mg_latestFork m c + 1) = enc (s\<lparr>math_participants := swap_remove i (math_participants s)\<rparr>)"
  by (rule double_signer_run [OF assms])

theorem double_signer_removed_witness:
  "\<exists>m'. createDispute sample_deployment (sender_at ''A'' 1000) ''ch'' 0 ''s'' ''s'' [] ZeroAddress 0
       [\<lparr>prf_proofType = 1, prf_encodedProof = ''p''\<rparr>] sample_manager = (Inr (), m') \<and>
     mg_latestFork m' ''ch'' = 1 \<and> mg_encodedStates m' ''ch'' 1 = ''sA''"
proof -
  have dec: "lib_decodeDoubleSign sampleL ''p'' = Inr [(signed ''c0'' CHR ''B'', signed ''b0'' CHR ''B'')]"
    by (simp add: sampleL_def signed_def sig_of_def)
  have "conflicting sampleL ''ch'' 0 (signed ''c0'' CHR ''B'') (signed ''b0'' CHR ''B'') ''B''"
    by (simp add: conflicting_def signed_def)
  with double_signer_removed [OF sample_deployment_fields(2), of sample_manager "''ch''" sample_math 1 "''B''"
      "\<lparr>prf_proofType = 1, prf_encodedProof = ''p''\<rparr>" _ _ "sender_at ''A'' 1000"] dec
  show ?thesis
    by (simp add: sample_enc_def sample_dec_def no_dispute_def swap_remove_def cm_isDisputeInProgress_def)
qed

text \<open>
  C24. A dispute without votes is final: nobody can challenge it, whatever proofs and votes the
  challenge carries, because the contract compares with the first vote of the dispute.
\<close>

theorem voteless_dispute_final:
  assumes "hooks_ok D" "cd_virtualVotingBlocks (mg_disputes m c) = []"
    and "createDispute D ctx c f fin lat [] a n ps m = (Inr (), m')"
  shows "\<exists>e. challengeDispute D ctx' c f' n' ps' vs' fin' lat' m' = (Inl e, m')"
proof -
  have "ledger_le True m m'" by (rule keepsD [OF lg_create_voteless [OF assms(1)] assms(3)])
  from dispute_kept [OF this, of c] assms(2) have "cd_virtualVotingBlocks (mg_disputes m' c) = []"
    by (auto simp: dispute_le_def)
  then show ?thesis
    unfolding challengeDispute_def by (rule refused_reverts [OF challenge_without_votes [OF assms(1)]])
qed

theorem voteless_dispute_final_witness:
  "\<exists>m' e. createDispute sample_deployment (sender_at ''B'' 1000) ''ch'' 0 ''s'' ''s'' [] ''A'' 0 [] sample_manager = (Inr (), m') \<and>
     challengeDispute sample_deployment (sender_at ''A'' 1001) ''ch'' 0 0 [\<lparr>prf_proofType = 1, prf_encodedProof = ''p''\<rparr>] [] ''s'' ''s11'' m' = (Inl e, m')"
proof -
  obtain m' where run: "createDispute sample_deployment (sender_at ''B'' 1000) ''ch'' 0 ''s'' ''s'' [] ''A'' 0 [] sample_manager =
       (Inr (), m')"
    using silent_removed [OF sample_deployment_fields(2), of sample_manager "''ch''" sample_math "''A''" 0 "sender_at ''B'' 1000"]
      sample_overdue
    by (auto simp: sample_enc_def sample_dec_def no_dispute_def ZeroAddress_def swap_remove_def)
  show ?thesis
    using run voteless_dispute_final [OF sample_hooks(1) _ run, of "sender_at ''A'' 1001" 0 0 "[\<lparr>prf_proofType = 1, prf_encodedProof = ''p''\<rparr>]" "[]" "''s''" "''s11''"]
    by (auto simp: no_dispute_def)
qed

lemma refuses_any: "(\<And>x. refuses (\<lambda>_. True) (g x)) \<Longrightarrow> refuses (\<lambda>_. True) (sbind f g)"
  by (auto simp: refuses_def sbind_Inr_iff)

lemma refuses_case: "(\<And>x y. refuses Q (f x y)) \<Longrightarrow> refuses Q (case p of (x, y) \<Rightarrow> f x y)"
  by (cases p) simp

lemma onlySelf_refuses:
  "msg_sender ctx \<noteq> this_address ctx \<Longrightarrow> refuses (\<lambda>_. True) (onlySelf ctx f)"
  unfolding onlySelf_def by (rule refuses_first [OF refuses_require]) simp

text \<open>
  Nobody can join or leave a channel by agreement: both functions call a function that only the
  contract itself may call, without a message call to itself, so they revert for every other sender.
\<close>

theorem agreements_always_revert:
  assumes "msg_sender ctx \<noteq> this_address ctx"
  shows "(\<exists>e. transact (joinChannelWithAgreement D ctx a enc) m = (Inl e, m)) \<and>
    (\<exists>e. transact (leaveChannelWithAgreement D ctx a enc) m = (Inl e, m))"
proof

  note stop = refuses_first [OF onlySelf_refuses [OF assms]]
  have "refuses (\<lambda>_. True) (joinChannelWithAgreement D ctx a enc)"
    unfolding joinChannelWithAgreement_def Let_def by (intro stop refuses_any refuses_case)
  from refused_reverts [OF this] show "\<exists>e. transact (joinChannelWithAgreement D ctx a enc) m = (Inl e, m)" by simp
  have "refuses (\<lambda>_. True) (leaveChannelWithAgreement D ctx a enc)"
    unfolding leaveChannelWithAgreement_def Let_def by (intro stop refuses_any refuses_case)
  from refused_reverts [OF this] show "\<exists>e. transact (leaveChannelWithAgreement D ctx a enc) m = (Inl e, m)" by simp
qed

theorem agreements_always_revert_witness:
  "\<exists>e. transact (joinChannelWithAgreement sample_deployment (sender_at ''A'' 1000) (''a'', []) ''s'') sample_manager = (Inl e, sample_manager)"
  by (rule conjunct1 [OF agreements_always_revert]) simp

text \<open>
  The proof of \<open>FoldPriorBlock\<close> names the author of the last vote as the one who timed out,
  whatever place it asks about.
\<close>

theorem fold_prior_names_last_author:
  assumes "df_applyFoldPriorBlockProof L ctx c n m = (Inr r, m')"
  shows "\<exists>bs. mapM (\<lambda>v. lib_decodeBlock L (cb_encodedBlock v)) (cd_virtualVotingBlocks (mg_disputes m c)) = Inr bs \<and>
    (\<exists>b \<in> set bs. blk_cnt b = n) \<and> cd_timedoutParticipant (mg_disputes m' c) = getBlockAuthor (last bs) \<and>
    cd_timeoutDisputer (mg_disputes m' c) = msg_sender ctx"
  using assms
  by (auto simp: df_applyFoldPriorBlockProof_def run_checks run_dput Let_def sreturn_def list_ex_iff
      split: sum.splits if_splits)

theorem fold_prior_names_last_author_witness:
  "\<exists>r m'. df_applyFoldPriorBlockProof sampleL (sender_at ''B'' 1000) ''ch'' 0
     (disputed (open_dispute\<lparr>cd_virtualVotingBlocks := [\<lparr>cb_encodedBlock = ''b0'', cb_signatures = []\<rparr>,
        \<lparr>cb_encodedBlock = ''b1'', cb_signatures = []\<rparr>], cd_foldedTransactionCnt := 1\<rparr>)) = (Inr r, m') \<and>
     cd_timedoutParticipant (mg_disputes m' ''ch'') = ''A''"
proof -
  let ?m = "disputed (open_dispute\<lparr>cd_virtualVotingBlocks := [\<lparr>cb_encodedBlock = ''b0'', cb_signatures = []\<rparr>,
        \<lparr>cb_encodedBlock = ''b1'', cb_signatures = []\<rparr>], cd_foldedTransactionCnt := 1\<rparr>)"
  obtain r m' where run: "df_applyFoldPriorBlockProof sampleL (sender_at ''B'' 1000) ''ch'' 0 ?m = (Inr r, m')"
    by (simp add: df_applyFoldPriorBlockProof_def run_checks run_dput Let_def sreturn_def cm_getBlockCallData_def
        disputed_def sample_manager_def manager_new_def no_fork_data_def)
  with fold_prior_names_last_author [OF run] show ?thesis by (auto simp: block1_def)
qed

text \<open>
  With the hooks of the examples, which answer false, no request to join is ever accepted in a
  dispute.
\<close>

theorem join_proofs_never_accepted:
  assumes "dp_addParticipantComposable D = example_addParticipantComposable"
  shows "fst (df_applyJoinChannelProof D ctx c p m) \<noteq> Inr x"
proof -
  obtain ej ss where p: "p = (ej, ss)" by (cases p)
  have stop: "refuses (\<lambda>_. True) (sbind (self_call ctx (\<lambda>ctx. onlySelf ctx (dp_addParticipantComposable D jc)))
      (\<lambda>added. sbind (require (\<lambda>_. added) msg) g))" for jc msg and g :: "_ \<Rightarrow> ('a, 'b, bool) manager_act"
    unfolding assms by (auto simp: refuses_def sbind_def message_call_def example_addParticipantComposable_def sreturn_def require_def)
  have "refuses (\<lambda>_. True) (df_applyJoinChannelProof D ctx c p)"
    unfolding df_applyJoinChannelProof_def Let_def p prod.case by (intro stop refuses_any refuses_case)
  then show ?thesis unfolding refuses_def by (metis prod.collapse)
qed

theorem join_proofs_never_accepted_witness:
  "fst (df_applyJoinChannelProof sample_deployment (sender_at ''A'' 1000) ''ch'' (''j'', []) (disputed open_dispute)) \<noteq> Inr True"
  by (rule join_proofs_never_accepted) (simp add: sample_deployment_def)

section \<open>Two players slashed\<close>

text \<open>
  When both players of the game are slashed, removing the second one reads the balance of a
  player who is no longer there: the call panics, and no dispute that slashes both can be applied.
\<close>

theorem both_slashed_panics:
  assumes "dp_machine D = ttt_machine enc dec call" "\<not> sc_nonreentrant (mg_machine m)" "dec e = Inr s"
    and "ttt_participants s = [p, q]" "ttt_balances s = [x, y]" "p \<noteq> q" "x + y < 2 ^ 256"
  shows "fst (px_applySlashesToStateMachine D e [p, q] m) = Inl (Panicked 50)"
proof -
  have bal: "\<exists>x' y'. pay_bet (ttt_betAmount s) 0 1 [x, y] = Inr [x', y']"
    using assms(7) by (auto simp: pay_bet_def array_at_def uadd_def Let_def)
  then obtain x' y' where bal: "pay_bet (ttt_betAmount s) 0 (Suc 0) [x, y] = Inr [x', y']" by auto
  have out: "pay_bet bet 0 (Suc 0) [z] = Inl (Panicked 50)" for bet z :: nat
    by (simp add: pay_bet_def array_at_def Let_def)
  let ?M = "ttt_machine enc dec call" and ?k = "(mg_machine m)\<lparr>sc_state := s\<rparr>"
  define k' where "k' = ?k\<lparr>sc_state := s\<lparr>ttt_participants := [q], ttt_balances := [y']\<rparr>,
    sc_events := sc_events (mg_machine m) @ [RemovedParticipant p x']\<rparr>"
  have guarded: "message_call (nonReentrant f) k = (case f (k\<lparr>sc_nonreentrant := True\<rparr>) of
      (Inl e, _) \<Rightarrow> (Inl e, k) | (Inr x, k1) \<Rightarrow> (Inr x, k1\<lparr>sc_nonreentrant := False\<rparr>))"
    if "\<not> sc_nonreentrant k" for f :: "(bool \<times> process_exit) ttt_act" and k
    using that by (simp add: message_call_def nonReentrant_def require_def sbind_def smodify_def sreturn_def
        split: prod.split sum.split)
  have first: "ast_slashParticipant ?M p ?k = (Inr (True, no_exit\<lparr>pe_participant := p, pe_amount := x'\<rparr>), k')"
    using assms(2,4-6) bal
    by (simp add: ast_slashParticipant_def guarded ttt_machine_def ttt_removeParticipant_def array_at_def swap_remove_def k'_def Let_def)
  have second: "ast_slashParticipant ?M q k' = (Inl (Panicked 50), k')"
    using assms(2) out
    by (simp add: ast_slashParticipant_def guarded ttt_machine_def ttt_removeParticipant_def k'_def Let_def)
  have "on_machine (ast_setState ?M e) m = (Inr (), m\<lparr>mg_machine := ?k\<rparr>)"
    using assms(2,3)
    by (simp add: on_machine_def ast_setState_def message_call_def nonReentrant_def ttt_machine_def require_def
        sbind_def sread_def smodify_def sreturn_def)
  moreover obtain m' where "on_machine (removal_loop (ast_slashParticipant ?M) [p, q] (replicate (length [p, q]) no_exit) 0)
      (m\<lparr>mg_machine := ?k\<rparr>) = (Inl (Panicked 50), m')"
    using first second by (simp add: on_machine_def sbind_def sread_def array_put_def)
  ultimately show ?thesis
    unfolding px_applySlashesToStateMachine_def assms(1) by (simp only: sbind_def prod.case sum.case fst_conv)
qed

definition game_deployment :: "(ttt_state, ttt_event) deployment" where
  "game_deployment =
     \<lparr>dp_lib = sampleL, dp_machine = ttt_machine (\<lambda>_. ''s'') (\<lambda>_. Inr sample_game) (\<lambda>_. TttUnknown),
      dp_machineAddress = ''sm'', dp_addParticipantComposable = example_addParticipantComposable,
      dp_removeParticipantComposable = example_removeParticipantComposable,
      dp_openChannel = ttt_openChannel (\<lambda>_. ''s'') sampleL\<rparr>"

theorem both_slashed_panics_witness:
  "fst (px_applySlashesToStateMachine game_deployment ''s'' [''A'', ''B'']
     (manager_new \<lparr>p2pTime = 15, agreementTime = 5, chainFallbackTime = 30, challengeTime = 60\<rparr>
       (sample_contract sample_game))) = Inl (Panicked 50)"
proof -
  have "dp_machine game_deployment = ttt_machine (\<lambda>_. ''s'') (\<lambda>_. Inr sample_game) (\<lambda>_. TttUnknown)"
    by (simp add: game_deployment_def)
  from both_slashed_panics [OF this] show ?thesis
    by (simp add: manager_new_def sample_contract_def sample_game_def)
qed

section \<open>Posting a block\<close>

text \<open>
  C17. Posting protects: after a participant posted its block for a place, and whatever transactions
  follow, no dispute can be created that declares that it timed out there; and a proof of
  \<open>FoldPriorBlock\<close> for that place, in a dispute of the channel and the fork, names it as timed out only
  if the dispute is older than the recorded post: in any storage \<open>k\<close> with these posts, those inside a
  transaction that creates or challenges a dispute included.
\<close>

theorem posting_protects:
  assumes "hooks_ok D" "opens_ok D" "transact (postBlockCalldata D ctx sb) m = (Inr (), m1)"
    and "lib_decodeBlock (dp_lib D) (sb_encodedBlock sb) = Inr b" "0 < mg_p2pTime m" "msg_sender ctx \<noteq> ZeroAddress"
    and "(chain_step D)\<^sup>*\<^sup>* m1 m2"
  shows "(\<exists>e. createDispute D ctx' (getBlockChannelId b) (blk_fork b) fin lat vs (msg_sender ctx) (blk_cnt b) ps m2 =
      (Inl e, m2)) \<and>
    (mg_posted k = mg_posted m2 \<and> df_applyFoldPriorBlockProof L ctx'' c (blk_cnt b) k = (Inr r, k') \<and>
     cd_channelId (mg_disputes k c) = getBlockChannelId b \<and> cd_forkCnt (mg_disputes k c) = blk_fork b \<and>
     cd_timedoutParticipant (mg_disputes k' c) = msg_sender ctx \<longrightarrow>
       cd_creationTimestamp (mg_disputes k c) <
       bc_timestamp (snd (cm_getBlockCallData m2 (getBlockChannelId b) (blk_fork b) (blk_cnt b) (msg_sender ctx))))"
proof (intro conjI impI)
  have "posted (getBlockChannelId b) (blk_fork b) (blk_cnt b) (msg_sender ctx) m1 \<and> 0 < mg_p2pTime m1"
    by (rule post_recorded) (use assms(3-5) in \<open>auto simp: transact_def res_simps\<close>)
  then have kept: "posted (getBlockChannelId b) (blk_fork b) (blk_cnt b) (msg_sender ctx) m2"
    using posts_survive [OF assms(1,2,7)] by blast
  then show "\<exists>e. createDispute D ctx' (getBlockChannelId b) (blk_fork b) fin lat vs (msg_sender ctx) (blk_cnt b) ps m2 = (Inl e, m2)"
    unfolding createDispute_def by (rule refused_reverts [OF create_refused [OF assms(6)]])
  assume fold: "mg_posted k = mg_posted m2 \<and> df_applyFoldPriorBlockProof L ctx'' c (blk_cnt b) k = (Inr r, k') \<and>
     cd_channelId (mg_disputes k c) = getBlockChannelId b \<and> cd_forkCnt (mg_disputes k c) = blk_fork b \<and>
     cd_timedoutParticipant (mg_disputes k' c) = msg_sender ctx"
  then have same: "cm_getBlockCallData k = cm_getBlockCallData m2" by (simp add: fun_eq_iff cm_getBlockCallData_def)
  with kept have "posted (getBlockChannelId b) (blk_fork b) (blk_cnt b) (msg_sender ctx) k" by (simp add: posted_def)
  with fold_prior_late [OF fold [THEN conjunct2, THEN conjunct1]] fold same
  show "cd_creationTimestamp (mg_disputes k c) <
       bc_timestamp (snd (cm_getBlockCallData m2 (getBlockChannelId b) (blk_fork b) (blk_cnt b) (msg_sender ctx)))"
    by simp
qed

text \<open>A dispute created before the posts, with the block of \<open>B\<close> as its last vote.\<close>

abbreviation old_dispute :: chain_dispute where
  "old_dispute \<equiv> open_dispute\<lparr>cd_virtualVotingBlocks := [\<lparr>cb_encodedBlock = ''b0'', cb_signatures = []\<rparr>],
     cd_foldedTransactionCnt := 1, cd_creationTimestamp := 105\<rparr>"

lemma sample_post:
  assumes "cm_getAllTimes m = (15, 5, 30, 60)" "t \<in> {110, 111}"
  shows "\<exists>m'. transact (postBlockCalldata sample_deployment (sender_at ''B'' t) (signed ''b0'' CHR ''B'')) m = (Inr (), m') \<and>
    cm_getAllTimes m' = (15, 5, 30, 60) \<and> mg_disputes m' = mg_disputes m \<and>
    bc_timestamp (snd (cm_getBlockCallData m' ''ch'' 0 0 ''B'')) = t"
proof -
  have "verifyThresholdSigned sampleL [''B''] ''b0'' [sig_of CHR ''B'' ''b0''] = Inr (True, [])"
    by (simp add: threshold_holds_iff)
  moreover have "mg_p2pTime m = 15" "mg_agreementTime m = 5" "mg_chainFallbackTime m = 30" "mg_challengeTime m = 60"
    using assms(1) by (simp_all add: cm_getAllTimes_def)
  moreover have "60 \<le> t" "t \<le> 150" "100 \<le> t" "15 \<le> t" "5 \<le> t - 15" "30 \<le> t - 20" using assms(2) by auto
  ultimately have "\<exists>m'. postBlockCalldata sample_deployment (sender_at ''B'' t) (signed ''b0'' CHR ''B'') m = (Inr (), m') \<and>
    cm_getAllTimes m' = (15, 5, 30, 60) \<and> mg_disputes m' = mg_disputes m \<and>
    bc_timestamp (snd (cm_getBlockCallData m' ''ch'' 0 0 ''B'')) = t"
    by (simp add: postBlockCalldata_def require_signed_def run_checks run_nested Let_def signed_def usub_def
        blk_time_def blk_fork_def blk_cnt_def block0_def mk_block_def getBlockAuthor_def getBlockChannelId_def)
      (simp add: sbind_def smodify_def log_event_def cm_getBlockCallData_def cm_getAllTimes_def)
  then show ?thesis by (auto simp: transact_def message_call_def)
qed

theorem posting_protects_witness:
  "\<exists>m1 m2 m3 e. transact (postBlockCalldata sample_deployment (sender_at ''B'' 110) (signed ''b0'' CHR ''B'')) (disputed old_dispute) = (Inr (), m1) \<and>
     transact (postBlockCalldata sample_deployment (sender_at ''B'' 111) (signed ''b0'' CHR ''B'')) m1 = (Inr (), m2) \<and>
     createDispute sample_deployment (sender_at ''A'' 3000) ''ch'' 0 ''s'' ''s'' [] ''B'' 0 [] m2 = (Inl e, m2) \<and>
     df_applyFoldPriorBlockProof sampleL (sender_at ''A'' 1000) ''ch'' 0 m2 = (Inr True, m3) \<and>
     cd_timedoutParticipant (mg_disputes m3 ''ch'') = ''B'' \<and>
     105 < bc_timestamp (snd (cm_getBlockCallData m2 ''ch'' 0 0 ''B''))"
proof -
  have times: "cm_getAllTimes (disputed old_dispute) = (15, 5, 30, 60)"
    by (simp add: disputed_def sample_manager_def manager_new_def cm_getAllTimes_def)
  obtain m1 where one: "transact (postBlockCalldata sample_deployment (sender_at ''B'' 110) (signed ''b0'' CHR ''B''))
      (disputed old_dispute) = (Inr (), m1)" "cm_getAllTimes m1 = (15, 5, 30, 60)" "mg_disputes m1 = (\<lambda>_. old_dispute)"
    using sample_post [OF times, of 110] by (auto simp: disputed_def)
  obtain m2 where two: "transact (postBlockCalldata sample_deployment (sender_at ''B'' 111) (signed ''b0'' CHR ''B'')) m1 = (Inr (), m2)"
      "mg_disputes m2 = (\<lambda>_. old_dispute)" "bc_timestamp (snd (cm_getBlockCallData m2 ''ch'' 0 0 ''B'')) = 111"
    using sample_post [OF one(2), of 111] one(3) by auto
  have post: "lib_decodeBlock (dp_lib sample_deployment) (sb_encodedBlock (signed ''b0'' CHR ''B'')) = Inr block0"
    by (simp add: signed_def)
  have later: "(chain_step sample_deployment)\<^sup>*\<^sup>* m1 m2" using ch_post [OF two(1)] by auto
  have p2p: "0 < mg_p2pTime (disputed old_dispute)" using times by (simp add: cm_getAllTimes_def)
  obtain m3 where fold: "df_applyFoldPriorBlockProof sampleL (sender_at ''A'' 1000) ''ch'' 0 m2 = (Inr True, m3)"
      "cd_timedoutParticipant (mg_disputes m3 ''ch'') = ''B''"
    using two(2,3) by (simp add: df_applyFoldPriorBlockProof_def run_checks run_dput Let_def sreturn_def split_beta)
  from posting_protects [OF sample_hooks(1) sample_opens one(1) post p2p _ later, of "sender_at ''A'' 3000" "''s''" "''s''" "[]" "[]"
      m2 sampleL "sender_at ''A'' 1000" "''ch''" True m3] one(1) two fold
  show ?thesis by (auto simp: ZeroAddress_def)
qed

end
