(* ===== verification/BridgeProperties.thy ===== *)
theory BridgeProperties
  imports ChainProperties DisputeProperties
begin

text \<open>
  Properties of the TypeScript peer and the contract together: what the peer sends, run through the
  functions of the contract.
\<close>

section \<open>Votes\<close>

text \<open>
  C5. The votes a peer collects are accepted by the contract: with \<open>k\<close> the latest block the peer
  signed and \<open>m\<close> the latest block from which on every participant signed, the states and votes that
  \<open>getFinalizedAndLatestWithVotes\<close> returns pass \<open>isFinalizedAndLatest\<close> exactly when the contract's
  library recovers a signer from each signature stored with the blocks from \<open>m\<close> to \<open>k\<close>. The peer does
  not check that: ethers takes forms of a signature which the contract refuses.
\<close>

theorem peer_votes_accepted:
  assumes fork: "fs_getFork (forkService am) (js_Number forkCnt) = Some fork"
    and num: "js_Number forkCnt = num_value forkCnt"
    and rec: "\<forall>a \<in> set (agreements fork). recoverable E a"
    and mk: "m \<le> k" "k < length (agreements fork)"
    and latest: "me \<in> signers_of E (agreements fork ! k)" "ag_encodedState (agreements fork ! k) \<noteq> ''''"
      "\<forall>j. k < j \<and> j < length (agreements fork) \<longrightarrow> me \<notin> signers_of E (agreements fork ! j)"
    and cover: "set (addressesInThreshold fork) \<subseteq> (\<Union>i \<in> {m..k}. signers_of E (agreements fork ! i))"
    and minimal: "\<forall>m'. m < m' \<and> m' \<le> k \<longrightarrow> \<not> set (addressesInThreshold fork) \<subseteq>
      (\<Union>i \<in> {m'..k}. signers_of E (agreements fork ! i))"
    and coders: "same_coders E L (ag_block ` set (agreements fork))" and rp: "replayed E c (num_value forkCnt) fork"
    and dist: "distinct (addressesInThreshold fork)"
    and gen: "\<not> cm_isGenesisState L mg c (num_value forkCnt) (ag_encodedState (agreements fork ! m))"
  shows "\<exists>v. am_getFinalizedAndLatestWithVotes E am forkCnt me = Inr v \<and>
    (df_isFinalizedAndLatest L mg c (num_value forkCnt) (encodedLatestFinalizedState v) (encodedLatestCorrectState v)
      (virtualVotingBlocks v) (addressesInThreshold fork) = Inr True \<longleftrightarrow>
    (\<forall>i \<in> {m..k}. agreement_recovers E L (agreements fork ! i)))"
  using votes_with_finalized [OF fork num rec mk latest cover minimal]
    window_accepted [OF coders rec rp mk dist cover gen] by simp

theorem peer_votes_accepted_witness:
  "\<exists>v. am_getFinalizedAndLatestWithVotes sampleE (sample_am sample_chain) (BigInt 0) ''A'' = Inr v \<and>
    df_isFinalizedAndLatest sampleL sample_manager ''ch'' 0 (encodedLatestFinalizedState v) (encodedLatestCorrectState v)
      (virtualVotingBlocks v) [''A'', ''B''] = Inr True"
proof -
  have blocks: "ag_block ` set (agreements (sample_fork sample_chain)) \<subseteq> {block0, block1, block0'}"
    by (auto simp: sample_chain_def)
  have coders: "same_coders sampleE sampleL (ag_block ` set (agreements (sample_fork sample_chain)))"
    using sample_coders blocks unfolding same_coders_def by blast
  have "\<exists>v. am_getFinalizedAndLatestWithVotes sampleE (sample_am sample_chain) (BigInt 0) ''A'' = Inr v \<and>
    df_isFinalizedAndLatest sampleL sample_manager ''ch'' (num_value (BigInt 0)) (encodedLatestFinalizedState v)
      (encodedLatestCorrectState v) (virtualVotingBlocks v) (addressesInThreshold (sample_fork sample_chain)) = Inr True"
    (is "\<exists>v. ?sent v \<and> ?accepted v")
  proof -
    have "\<exists>v. ?sent v \<and> (?accepted v \<longleftrightarrow>
      (\<forall>i \<in> {0..1}. agreement_recovers sampleE sampleL (agreements (sample_fork sample_chain) ! i)))"
    proof (rule peer_votes_accepted [where m = 0 and k = 1, OF _ _ _ _ _ _ _ _ _ _ coders])
      have "{0..Suc 0} = {0, 1}" by auto
      then show "set (addressesInThreshold (sample_fork sample_chain)) \<subseteq>
          (\<Union>i \<in> {0..1}. signers_of sampleE (agreements (sample_fork sample_chain) ! i))" by simp
      show "\<forall>m'. 0 < m' \<and> m' \<le> 1 \<longrightarrow> \<not> set (addressesInThreshold (sample_fork sample_chain)) \<subseteq>
          (\<Union>i \<in> {m'..1}. signers_of sampleE (agreements (sample_fork sample_chain) ! i))"
      proof (intro allI impI)
        fix m' :: nat assume "0 < m' \<and> m' \<le> 1"
        then have "m' = 1" by auto
        then show "\<not> set (addressesInThreshold (sample_fork sample_chain)) \<subseteq>
          (\<Union>i \<in> {m'..1}. signers_of sampleE (agreements (sample_fork sample_chain) ! i))" by simp
      qed
    qed (auto simp: sample_replayed sample_forked_recoverable cm_isGenesisState_def)
    moreover have "agreement_recovers sampleE sampleL (agreements (sample_fork sample_chain) ! i)" if "i \<in> {0..1}" for i
    proof -
      have "i = 0 \<or> i = 1" using that by auto
      with sample_forked_recoverable show ?thesis by (intro sample_agreement_recovers) (auto simp: sample_chain_def)
    qed
    ultimately show ?thesis by blast
  qed
  then show ?thesis by simp
qed

section \<open>Fraud\<close>

text \<open>
  C6. The double-sign proof a peer builds slashes: when the peer holds a stored block of the same
  author for the same place, and the contract's library recovers a signer from both signatures, the two
  signed blocks slash that author, and the proof counts as successful exactly when the author was not
  slashed before. If the library refuses one of the signatures, which ethers may accept, the proof reverts.
\<close>

theorem peer_double_sign_slashes:
  assumes "chain_ok am" "decodeBlock E (sb_encodedBlock sb) = Inr b" "encodeBlock E b = sb_encodedBlock sb"
    and "retrieveSignerAddressBlock E b (sb_signature sb) = Inr (getBlockAuthor b)"
    and "am_getDoubleSignedBlock E am sb = Inr (Some sb')"
    and "same_coders E L B" "b \<in> B" "\<forall>a. fs_getAgreement (forkService am) (getFork b) (getHeight b) = Some a \<longrightarrow> ag_block a \<in> B"
    and "\<forall>b \<in> B. getBlockChannelId b = cd_channelId (mg_disputes m c) \<and> blk_fork b = cd_forkCnt (mg_disputes m c) \<and>
      blk_cnt b \<le> 2 ^ 53"
    and "inj_on (keccak256 E) (encodeBlock E ` B)"
  shows "if contract_recovers L (sb_encodedBlock sb) (sb_signature sb) \<and>
       contract_recovers L (sb_encodedBlock sb') (sb_signature sb')
    then \<exists>m'. df_applyDoubleSignProof L c [(sb, sb')] m =
        (Inr (getBlockAuthor b \<notin> set (cd_slashedParticipants (mg_disputes m c))), m') \<and>
      getBlockAuthor b \<in> set (cd_slashedParticipants (mg_disputes m' c))
    else \<exists>e. df_applyDoubleSignProof L c [(sb, sb')] m = (Inl e, m)"
    (is "if ?read then ?slashed else ?refused")
proof (rule am_getDoubleSignedBlock_sound [OF assms(5,2)])
  fix a assume a: "fs_getAgreement (forkService am) (getFork b) (getHeight b) = Some a"
    "sb_encodedBlock sb' = encodeBlock E (ag_block a)" "encodeBlock E (ag_block a) \<noteq> encodeBlock E b"
    "getBlockAuthor (ag_block a) = getBlockAuthor b"
    "retrieveSignerAddressBlock E (ag_block a) (sb_signature sb') = Inr (getBlockAuthor b)"
  have aB: "ag_block a \<in> B" using assms(8) a(1) by blast
  have "getHeight (ag_block a) = getHeight b"
    using chain_okD [OF assms(1) a(1)] by (simp add: agreement_at_def)
  then have cnt: "blk_cnt (ag_block a) = blk_cnt b"
    using assms(7,9) aB js_Number_exact unfolding getHeight_def blk_cnt_def by metis
  obtain c1 c2 where r: "reads_block E L b c1" "reads_block E L (ag_block a) c2"
    using assms(6,7) aB unfolding same_coders_def by blast
  have sg: "retriveSignerAddress L (sb_encodedBlock sb) (sb_signature sb) = Inr x \<Longrightarrow> x = getBlockAuthor b"
    "retriveSignerAddress L (sb_encodedBlock sb') (sb_signature sb') = Inr x \<Longrightarrow> x = getBlockAuthor b" for x
    using assms(3,4,6,7) a(2,5) aB unfolding same_coders_def by metis+
  have kec: "lib_keccak256 L (sb_encodedBlock sb) \<noteq> lib_keccak256 L (sb_encodedBlock sb')"
    using assms(3,6,7,10) a(2,3) aB unfolding same_coders_def by (metis image_eqI inj_onD)
  have dec: "lib_decodeBlock L (sb_encodedBlock sb) = Inr c1" "lib_decodeBlock L (sb_encodedBlock sb') = Inr c2"
    "getBlockChannelId c1 = cd_channelId (mg_disputes m c)" "getBlockChannelId c2 = cd_channelId (mg_disputes m c)"
    "blk_fork c1 = cd_forkCnt (mg_disputes m c)" "blk_fork c2 = cd_forkCnt (mg_disputes m c)" "blk_cnt c1 = blk_cnt c2"
    using r assms(3,7,9) a(2) aB cnt unfolding reads_block_def by auto
  show ?thesis
  proof (cases ?read)
    case True
    then have "retriveSignerAddress L (sb_encodedBlock sb) (sb_signature sb) = Inr (getBlockAuthor b)"
      "retriveSignerAddress L (sb_encodedBlock sb') (sb_signature sb') = Inr (getBlockAuthor b)"
      using sg unfolding contract_recovers_iff by auto
    with dec kec have ?slashed
      by (simp add: df_applyDoubleSignProof_def run_checks df_sameDispute_def check_def run_slash insertIfNotExist_def
          df_tryCancelFold_def run_dput) (auto simp: sreturn_def)
    with True show ?thesis by simp
  next
    case False
    with dec kec have ?refused
      by (cases "retriveSignerAddress L (sb_encodedBlock sb) (sb_signature sb)";
          cases "retriveSignerAddress L (sb_encodedBlock sb') (sb_signature sb')")
        (simp_all add: df_applyDoubleSignProof_def contract_recovers_def run_checks df_sameDispute_def check_def)
    with False show ?thesis by auto
  qed
qed

theorem peer_double_sign_slashes_witness:
  "\<exists>sb' m'. am_getDoubleSignedBlock sampleE (sample_am sample_chain) (signed ''c0'' CHR ''B'') = Inr (Some sb') \<and>
    df_applyDoubleSignProof sampleL ''ch'' [(signed ''c0'' CHR ''B'', sb')] (disputed open_dispute) = (Inr True, m') \<and>
    ''B'' \<in> set (cd_slashedParticipants (mg_disputes m' ''ch''))"
proof -
  have dec: "decodeBlock sampleE (sb_encodedBlock (signed ''c0'' CHR ''B'')) = Inr block0'"
    by (simp add: signed_def)
  have run: "am_getDoubleSignedBlock sampleE (sample_am sample_chain) (signed ''c0'' CHR ''B'') =
      Inr (Some \<lparr>sb_encodedBlock = ''b0'', sb_signature = sig_of CHR ''B'' ''b0''\<rparr>)"
    by (simp add: am_getDoubleSignedBlock_def dec fs_getAgreementByBlock_eq fs_defs nth_opt_def
        sample_am_def areBlocksEqual_def)
  have "getBlockAuthor block0' = ''B''" "encodeBlock sampleE block0' = ''c0''" by simp_all
  moreover have "contract_recovers sampleL ''c0'' (sig_of CHR ''B'' ''c0'')" "contract_recovers sampleL ''b0'' (sig_of CHR ''B'' ''b0'')"
    by (simp_all add: contract_recovers_def)
  ultimately show ?thesis
    using peer_double_sign_slashes [OF sample_chain_ok dec _ _ run sample_coders, of "disputed open_dispute" "''ch''"] run
    by (auto simp: signed_def inj_on_def fs_defs nth_opt_def sample_am_def sample_chain_def)
qed

section \<open>Challenges\<close>

text \<open>
  C25. The challenge the peer sends never goes through: it carries \<open>challengeCnt + 1\<close>, while the
  contract asks for the counter it stores. The transaction reverts, the dispute stays as it is, and
  the method of the peer throws when it reads it again.
\<close>

theorem challenge_always_reverts:
  assumes "dh_rechallenge E am me now (dispute_view (mg_disputes m c)) d = (Inr (DChallenging y), d')"
    and "cd_challengeCnt (mg_disputes m c) < 2 ^ 53" "cd_channelId (mg_disputes m c) \<noteq> ZeroHash" "dh_channelId d' = c"
  shows "\<exists>f n ps v. last (dh_effects d') = CallChallengeDispute c (BigInt f) n ps v \<and>
    challengeDispute D ctx c f n ps (virtualVotingBlocks v) (encodedLatestFinalizedState v) (encodedLatestCorrectState v) m =
      (Inl (Reverted ''ErrorDisputeChallengeMismatch''), m) \<and>
    dh_resume E am' me now' (DisputeReply (Inr (dispute_view (mg_disputes m c)))) (DFetchChallenged y) d'' =
      (Inl (Error ''DisputeHandler - rechallengeRecursive - challenge failed''), d'')"
  using assms(1)
proof (cases rule: dh_rechallenge_result)
  case (challenge d1 qs v)
  let ?cd = "mg_disputes m c"
  have n: "round_double (js_Number (dsp_challengeCnt (dispute_view ?cd)) + 1) = Suc (cd_challengeCnt ?cd)"
    using assms(2) by (simp add: dispute_view_def)
  have "challengeDispute D ctx c (cd_forkCnt ?cd) (Suc (cd_challengeCnt ?cd)) qs (virtualVotingBlocks v)
      (encodedLatestFinalizedState v) (encodedLatestCorrectState v) m =
      (Inl (Reverted ''ErrorDisputeChallengeMismatch''), m)"
    using assms(3) by (simp add: challengeDispute_def transact_def message_call_def df_challengeDispute_def run_checks Let_def)
  with challenge assms(4) n show ?thesis
    by (auto simp: sbind_def sread_def sthrow_def dispute_view_def)
qed auto

theorem challenge_always_reverts_witness:
  "\<exists>d' f n ps v. dh_rechallenge sampleE (sample_am sample_chain) ''A'' 100 sample_dispute sample_dh =
     (Inr (DChallenging sample_dispute), d') \<and> last (dh_effects d') = CallChallengeDispute ''ch'' (BigInt f) n ps v \<and>
     challengeDispute sample_deployment (sender_at ''A'' 1000) ''ch'' f n ps (virtualVotingBlocks v)
       (encodedLatestFinalizedState v) (encodedLatestCorrectState v)
       (disputed (no_dispute\<lparr>cd_channelId := ''ch'', cd_postedStateDisputer := ''C''\<rparr>)) =
     (Inl (Reverted ''ErrorDisputeChallengeMismatch''),
      disputed (no_dispute\<lparr>cd_channelId := ''ch'', cd_postedStateDisputer := ''C''\<rparr>))"
proof -
  let ?m = "disputed (no_dispute\<lparr>cd_channelId := ''ch'', cd_postedStateDisputer := ''C''\<rparr>)"
  have view: "dispute_view (mg_disputes ?m ''ch'') = sample_dispute"
    by (simp add: dispute_view_def no_dispute_def sample_dispute_def)
  obtain d' where run: "dh_rechallenge sampleE (sample_am sample_chain) ''A'' 100 sample_dispute sample_dh =
     (Inr (DChallenging sample_dispute), d')" "dh_channelId d' = ''ch''" using sample_rechallenge by blast
  have "cd_challengeCnt (mg_disputes ?m ''ch'') < 2 ^ 53" "cd_channelId (mg_disputes ?m ''ch'') \<noteq> ZeroHash"
    by (simp_all add: no_dispute_def)
  from challenge_always_reverts [OF run(1) [folded view] this run(2), of sample_deployment "sender_at ''A'' 1000"] run(1)
  show ?thesis by blast
qed

end
