(* ===== verification/Spec2Isabelle.thy ===== *)
theory Spec2Isabelle
  imports AgreementProperties DisputeProperties NodeProperties ServiceProperties SystemProperties PeerProperties
    GameProperties LocalDiscovery BridgeProperties
begin

text \<open>
  The TypeScript peer of state-channels-plus, \<open>src/src\<close>, and the contracts it deals with,
  \<open>src/contracts\<close>, as HOL functions and step relations.

  \<^bold>\<open>The program.\<close> The participants of a channel execute the transactions of a state machine off the
  chain. Each runs a peer. Its state manager takes signed blocks, one at a time behind a mutex,
  validates them, executes them on a local EVM and stores them as agreements of the current fork;
  it confirms what it accepted with its own signature and counts the signatures of the others. A
  block that everybody signed is final. When somebody misbehaves or stays silent, the dispute
  handler goes to the contract with proofs and with the latest states the participants signed,
  and the contract opens a new fork. Peers find each other on a swarm, authenticate by a handshake
  and call each other's services with JSON messages.

  \<^bold>\<open>Theories and sources\<close>, bottom up.

  \<^item> \<open>Prelude\<close>: errors, results (\<open>js_error + 'a\<close>), the state and error monad \<open>act\<close>, JavaScript
    numbers and maps, and the locales \<open>preserved\<close> (what every action keeps), \<open>js_map\<close> and
    \<open>invariant_system\<close>. \<open>SetUtils\<close>: \<open>utils/set.ts\<close>.
  \<^item> \<open>DataTypes\<close>: the structs, \<open>utils/BlockUtils.ts\<close>, \<open>utils/EvmUtils.ts\<close>, \<open>types\<close>.
    \<open>ForkService\<close>, \<open>QueueService\<close>, \<open>BlockChecks\<close> (\<open>SignatureService.ts\<close>, \<open>OnChainTracker.ts\<close>,
    \<open>BlockValidator.ts\<close>), \<open>AgreementManager\<close>: the files of \<open>agreementManager\<close>.
  \<^item> \<open>ProofManager\<close>: \<open>ProofManager.ts\<close>, \<open>types/disputes.ts\<close>. \<open>DisputeHandler\<close>: \<open>DisputeHandler.ts\<close>, each
    method split at its contract calls. \<open>Concurrency\<close>: \<open>utils/Mutex.ts\<close>, \<open>BarrierLocal.ts\<close>, \<open>retry.ts\<close>.
  \<^item> \<open>Node\<close>, \<open>ValidationService\<close>, \<open>StateManager\<close>: the state of a peer's objects and all handlers of
    \<open>stateManager\<close>, with the methods of \<open>evm/P2pSigner.ts\<close> and \<open>rpc/services/StateTransitionService.ts\<close>
    they call; \<open>NodeSteps\<close>: one handler per step, in any order.
  \<^item> \<open>EvmMachine\<close>: \<open>evm/EvmStateMachine.ts\<close>, \<open>evm/ContractExecuter.ts\<close>. \<open>EventListener\<close>:
    \<open>StateChannelEventListener.ts\<close>. \<open>Clock\<close>: \<open>Clock.ts\<close>. \<open>Relay\<close>: \<open>HolepunchRelay.ts\<close>, \<open>Holepunch.ts\<close>.
  \<^item> \<open>Json\<close>, \<open>Rpc\<close>: the text \<open>JSON.stringify\<close> prints and \<open>JSON.parse\<close> reads, \<open>rpc/Rpc.ts\<close>,
    \<open>rpc/RpcProxy.ts\<close>, \<open>rpc/MainRpcService.ts\<close>. \<open>Network\<close>: \<open>transport\<close>, \<open>PeerProfile.ts\<close>,
    \<open>ProfileManager.ts\<close>, connections of \<open>P2PManager.ts\<close>. \<open>Handshake\<close>, \<open>WebRTC\<close>, \<open>SignatureCollection\<close>,
    \<open>JoinChannel\<close>: the files of \<open>rpc/services\<close> and \<open>utils/SignatureCollectionMap.ts\<close>.
  \<^item> \<open>Peer\<close>: a node with its connections and services, from the text on a transport to the handler
    and from a broadcast to the text on the transports (\<open>P2PManager.ts\<close>, \<open>evm/P2pSigner.ts\<close>,
    \<open>TESTJoinChannelService.ts\<close>). \<open>Setup\<close>: \<open>p2pSetup\<close> and \<open>evm/P2pInstance.ts\<close>. \<open>LocalDiscovery\<close>:
    \<open>utils/LocalDiscoveryServer.ts\<close>. \<open>TicTacToe\<close>: the logic of the example application.
  \<^item> \<open>Solidity\<close>: reverts, message calls, checked arithmetic and \<open>StateChannelUtilLibrary.sol\<close>.
    \<open>StateMachines\<close>: \<open>AStateMachine.sol\<close>, \<open>MathStateMachine.sol\<close>, \<open>TicTacToeStateMachine.sol\<close>.
    \<open>ChannelManager\<close>: \<open>StateChannelManagerStorage.sol\<close>, \<open>StateChannelCommon.sol\<close>,
    \<open>AStateChannelManagerProxy.sol\<close> and the proxies of the two examples. \<open>DisputeFacet\<close>:
    \<open>DisputeManagerFacet.sol\<close>.

  A contract is the record of its storage. Its functions are the same kind of action as the
  handlers of the peer, with the error type \<open>revert\<close>; \<open>transact\<close> undoes what a reverted
  transaction changed. \<open>chain_step\<close> is one transaction of anybody to any public function, the opening of a
  channel included; its closure is any order of them.

  A record field, constructor or function has the name of the source, with a prefix where names
  clash (\<open>am_\<close>, \<open>fs_\<close>, \<open>vs_\<close>, \<open>sm_\<close>, \<open>dh_\<close>, \<open>pm_\<close>, \<open>hs_\<close>, \<open>rtc_\<close>, \<open>hp_\<close>, \<open>evm_\<close>;
  \<open>lib_\<close>, \<open>ast_\<close>, \<open>math_\<close>, \<open>ttt_\<close>, \<open>cm_\<close>, \<open>px_\<close>, \<open>df_\<close> for the contracts).

  \<^bold>\<open>Asynchronous code.\<close> A handler runs from one \<open>await\<close> to the next. Inside a node, \<open>p_env P site\<close> is
  what the other handlers did during an \<open>await\<close>; the theorems assume of it only \<open>env_ok\<close>, the
  relation \<open>rely\<close> that every handler outside the mutex is proved to keep (\<open>NodeFacts\<close>), in some
  cases also that it broadcasts no block (\<open>env_mute\<close>) or leaves the agreements alone (\<open>env_calm\<close>).
  Work that is left for later is a list of the state: ready continuations, waiters of the mutex,
  timers, calls of the dispute handler, signatures being made, WebRTC negotiations. A promise
  that nobody awaits puts what it throws into \<open>n_rejections\<close>. Whether a broadcast throws is decided
  by the connections (\<open>p_send\<close>).

  \<^bold>\<open>Parameters.\<close> Third-party and remote code is an argument: \<open>ethers\<close> (coder, hash, signature
  recovery), the wallet, the EVM, sockets and swarm, the replies of the contract and the provider,
  randomness, and time; for the contracts \<open>evm_lib\<close> (coder, hash, ECDSA) and the deployment, with
  the hooks and the \<open>openChannel\<close> of the application (\<open>opens_ok\<close>: it is of the form of both examples,
  which \<open>math_opens\<close> and \<open>ttt_opens\<close> prove). What is assumed of it stands in the theorems that need it (a failed
  execution is rolled back, views are pure, \<open>keccak256\<close> returns hexadecimal text). The witnesses
  take the small concrete records of \<open>Sample\<close>, \<open>SampleNode\<close>, \<open>Bridge\<close> and \<open>ChainProperties\<close>.

  \<^bold>\<open>What is shown.\<close>

  \<^item> The chain (\<open>ChainFacts\<close>, \<open>NodeFacts\<close>, \<open>NodeSteps\<close>, \<open>NodeTheorems\<close>, \<open>NodeProperties\<close>): a node never
    forgets an agreement or a signature, every block is at its place, one handler at a time is past
    the mutex, exactly the validated blocks join, a disputed fork is closed, and which messages
    leave the mutex locked for good.
  \<^item> Agreement (\<open>AgreementFacts\<close>, \<open>AgreementProperties\<close>): signers, finality, double signs, block
    checks, queues, the votes collected for a dispute, reference times.
  \<^item> Disputes (\<open>DisputeFacts\<close>, \<open>DisputeProperties\<close>): the answer to a dispute ends, what a challenge
    carries, and where proofs and the contract do not meet.
  \<^item> Services (\<open>NetworkFacts\<close>, \<open>JsonFacts\<close>, \<open>ServiceProperties\<close>): messages survive printing and parsing,
    what arrives is well-formed, the profile maps are consistent, what a handshake proves and what
    it does not, the signatures of join requests.
  \<^item> The system (\<open>SystemProperties\<close>): fairness of the mutex, the clock, the EVM, the life of an
    instance.
  \<^item> Whole peers (\<open>PeerFacts\<close>, \<open>Agreeing\<close>, \<open>Gossip\<close>, \<open>PeerProperties\<close>): the invariants of all parts
    together under any messages, a remote call is a local call, a played block is stored and sent,
    a round between two peers makes it final at both, a block is spread only when it is new,
    and what one failing connection does.
  \<^item> The example (\<open>GameProperties\<close>): the winner, the countdown, identifiers, how a game ends; its
    contract (\<open>GameRules\<close>, \<open>GameContract\<close>, \<open>ContractGameProperties\<close>): games stay legal, the client sees
    the winner the contract pays, what the bet moves.
  \<^item> The chain contracts (\<open>ChainLedger\<close>, \<open>VoteRules\<close>, \<open>Evidence\<close>, \<open>TimeoutRun\<close>, \<open>SlashRun\<close>, \<open>PostRules\<close>,
    \<open>ChainProperties\<close>): what no transaction undoes, which signatures and votes are accepted, that
    nobody is slashed without evidence (\<open>accused\<close> lists what counts, in terms of the storage before the
    proofs), that silent participants and double signers can be removed
    and posted blocks protect, and which transactions can never succeed.
  \<^item> Peer and contract (\<open>Bridge\<close>, \<open>BridgeProperties\<close>): the votes and double-sign proofs a peer makes are
    accepted by the contract exactly when its library recovers a signer from their signatures, which
    ethers did but in more forms; its challenges never are.

  \<^bold>\<open>Bounds and fuel.\<close> \<open>JSON.parse\<close> runs on fuel \<open>2 * length s + 2\<close>, and more gives the same value
  (\<open>json_parse_fuel\<close>). The answer to a dispute takes at most \<open>2 * N + 5\<close> replies for \<open>N\<close> rounds the
  contract can still count. \<open>retry\<close> recurses on the remaining attempts, the relayers on the
  length of their list. \<open>syncClock\<close> may run forever, so it is a \<open>partial_function\<close>, and it is
  shown to return on a healthy chain. Counters, heights and timestamps are \<open>nat\<close>, since the code
  reads them with \<open>Number\<close>: \<open>round_double\<close> is that conversion, exact up to \<open>2^53\<close>.

  \<^bold>\<open>Limits of the model.\<close> Numbers in JSON are kept as written, mantissa and exponent, without
  rounding to doubles. Of a JSON argument only the fields the code declares go on. A broadcast of
  a join request that throws is not distinguished from one that does not. \<open>peer_step\<close> lets a
  connection do every step of the handshake at any time, more than the code does. React renders
  when it renders: \<open>render\<close> is a step of its own, and strict mode is not modelled.

  \<^bold>\<open>Not modelled.\<close> \<open>DHTDiscoveryService.ts\<close>, whose two methods do nothing yet; \<open>BroadcastLocal.ts\<close>, which
  nothing calls; \<open>DebugProxy.ts\<close> and \<open>DeployUtils.ts\<close>, which log and write a file; the conversion of
  results of the ABI coder (\<open>ethersResultToObjectRecursive\<close>); the forwarding methods of
  \<open>P2pSigner.ts\<close>; markup, styles and deployment in the example; scripts and tests; \<open>DoubleLinkedList.sol\<close>,
  which no contract imports, and the contracts of the tests; gas; other contracts that call in
  between (the hooks of the application are assumed to keep the ledger, \<open>hooks_ok\<close>).

  \<^bold>\<open>Open.\<close> More than two peers over several rounds; progress of the queue of the mutex under a
  scheduler; the concurrent use of \<open>setChannelId\<close> of the event listener; disputes that end on the
  chain while the peers go on.
\<close>

end
